(* ===== verification/Prelude.thy ===== *)
theory Prelude
  imports Main "HOL-Library.Word" "HOL-Library.Multiset" "HOL-Library.Char_ord"
begin

text \<open>
  What every component shares: machine integers, byte strings, the result type of an
  endpoint with its two combinators, sums over storage maps, basis-point arithmetic, the
  unordered-set storage mapper with its interface, and reachability of a labelled
  transition system. Nothing in this theory is specific to one contract.
\<close>

section \<open>Types\<close>

text \<open>
  Machine integers keep their width: the contracts are built with
  \<open>overflow-checks = false\<close> (contracts/scheduler/wasm/Cargo.toml), so that \<open>+\<close>,
  \<open>-\<close> and \<open>*\<close> on \<open>u64\<close> wrap around. A \<open>BigUint\<close> is a natural number. A
  \<open>ManagedBuffer\<close> is a string of bytes, and a 32-byte array (a hash, an address) is a
  256-bit word, so that its length is part of its type.
\<close>

type_synonym u8 = "8 word"
type_synonym u32 = "32 word"
type_synonym u64 = "64 word"
type_synonym bytes = string
type_synonym hash32 = "256 word"
type_synonym address = "256 word"
type_synonym token = string

text \<open>
  A transaction that fails is rolled back as a whole, so an endpoint returns either the
  error or the new state. \<open>UserError\<close> is a failed \<open>require!\<close> or \<open>sc_panic!\<close>
  with the message of the source, \<open>VmError\<close> a failure signalled by the framework or by
  the virtual machine.
\<close>

datatype sc_error = UserError string | VmError string

type_synonym 'a res = "sc_error + 'a"

section \<open>Collections of facts\<close>

named_theorems res_simps "inversion of the result combinators"
named_theorems sum_simps "sums over storage maps after an update"

section \<open>Result combinators\<close>

text \<open>The framework's \<open>require!(b, m)\<close>, with the rest of the endpoint as continuation.\<close>

definition require :: "bool \<Rightarrow> string \<Rightarrow> 'a res \<Rightarrow> 'a res" where
  "require b m k = (if b then k else Inl (UserError m))"

definition vm_require :: "bool \<Rightarrow> string \<Rightarrow> 'a res \<Rightarrow> 'a res" where
  "vm_require b m k = (if b then k else Inl (VmError m))"

definition bind_res :: "'a res \<Rightarrow> ('a \<Rightarrow> 'b res) \<Rightarrow> 'b res" where
  "bind_res r f = (case r of Inl e \<Rightarrow> Inl e | Inr x \<Rightarrow> f x)"

lemma require_True [simp]: "require True m k = k"
  by (simp add: require_def)

lemma require_False [simp]: "require False m k = Inl (UserError m)"
  by (simp add: require_def)

lemma vm_require_True [simp]: "vm_require True m k = k"
  by (simp add: vm_require_def)

lemma vm_require_False [simp]: "vm_require False m k = Inl (VmError m)"
  by (simp add: vm_require_def)

lemma bind_res_Inr [simp]: "bind_res (Inr x) f = f x"
  by (simp add: bind_res_def)

lemma bind_res_Inl [simp]: "bind_res (Inl e) f = Inl e"
  by (simp add: bind_res_def)

lemma require_cong [cong]:
  "b = b' \<Longrightarrow> (b' \<Longrightarrow> k = k') \<Longrightarrow> require b m k = require b' m k'"
  by (simp add: require_def)

lemma vm_require_cong [cong]:
  "b = b' \<Longrightarrow> (b' \<Longrightarrow> k = k') \<Longrightarrow> vm_require b m k = vm_require b' m k'"
  by (simp add: vm_require_def)

lemma require_eq_Inr [res_simps]: "require b m k = Inr x \<longleftrightarrow> b \<and> k = Inr x"
  by (simp add: require_def)

lemma vm_require_eq_Inr [res_simps]: "vm_require b m k = Inr x \<longleftrightarrow> b \<and> k = Inr x"
  by (simp add: vm_require_def)

lemma bind_res_eq_Inr [res_simps]: "bind_res r f = Inr y \<longleftrightarrow> (\<exists>x. r = Inr x \<and> f x = Inr y)"
  by (cases r) auto

lemma bind_res_assoc: "bind_res (bind_res r f) g = bind_res r (\<lambda>x. bind_res (f x) g)"
  by (cases r) auto

section \<open>Byte strings\<close>

text \<open>\<open>n\<close> big-endian bytes of a number, as \<open>to_be_bytes\<close> gives them.\<close>

fun be_bytes :: "nat \<Rightarrow> nat \<Rightarrow> bytes" where
  "be_bytes 0 x = []"
| "be_bytes (Suc n) x = be_bytes n (x div 256) @ [char_of (x mod 256)]"

definition from_bytes_be :: "bytes \<Rightarrow> nat" where
  "from_bytes_be bs = foldl (\<lambda>acc c. acc * 256 + of_char c) 0 bs"

text \<open>The shortest big-endian encoding of a \<open>BigUint\<close>; zero is the empty string.\<close>

fun to_bytes_be :: "nat \<Rightarrow> bytes" where
  "to_bytes_be x = (if x = 0 then [] else to_bytes_be (x div 256) @ [char_of (x mod 256)])"

declare to_bytes_be.simps [simp del]

definition bytes32 :: "256 word \<Rightarrow> bytes" where
  "bytes32 w = be_bytes 32 (unat w)"

definition u64_be :: "u64 \<Rightarrow> bytes" where
  "u64_be w = be_bytes 8 (unat w)"

definition u32_be :: "nat \<Rightarrow> bytes" where
  "u32_be n = be_bytes 4 (n mod 2 ^ 32)"

lemma length_be_bytes [simp]: "length (be_bytes n x) = n"
  by (induction n arbitrary: x) auto

lemma length_bytes32 [simp]: "length (bytes32 w) = 32"
  by (simp add: bytes32_def)

lemma from_bytes_be_snoc: "from_bytes_be (bs @ [c]) = from_bytes_be bs * 256 + of_char c"
  by (simp add: from_bytes_be_def)

lemma from_bytes_be_be_bytes: "from_bytes_be (be_bytes n x) = x mod 256 ^ n"
proof (induction n arbitrary: x)
  case 0
  then show ?case by (simp add: from_bytes_be_def)
next
  case (Suc n)
  have "x mod (256 * 256 ^ n) = 256 * (x div 256 mod 256 ^ n) + x mod 256"
    by (rule mod_mult2_eq)
  then show ?case by (simp add: from_bytes_be_snoc Suc.IH)
qed

lemma from_bytes_be_to_bytes_be: "from_bytes_be (to_bytes_be x) = x"
proof (induction x rule: to_bytes_be.induct)
  case (1 x)
  show ?case
  proof (cases "x = 0")
    case True
    then show ?thesis by (simp add: to_bytes_be.simps [of 0] from_bytes_be_def)
  next
    case False
    with "1" show ?thesis by (simp add: to_bytes_be.simps [of x] from_bytes_be_snoc)
  qed
qed

lemma bytes32_inject [simp]: "bytes32 a = bytes32 b \<longleftrightarrow> a = b"
proof
  have num: "from_bytes_be (bytes32 w) = unat w" for w :: "256 word"
  proof -
    have "unat w < 2 ^ 256" by (rule order.strict_trans2 [OF unsigned_less]) simp
    then show ?thesis by (simp add: bytes32_def from_bytes_be_be_bytes)
  qed
  assume "bytes32 a = bytes32 b"
  then have "unat a = unat b" by (metis num)
  then show "a = b" by (simp add: word_unat_eq_iff)
qed simp

section \<open>Sums over storage maps\<close>

text \<open>
  The total a contract owes through a map: the sum of \<open>f\<close> over the stored values. It is
  part of the specification, never of the model.
\<close>

definition msum :: "('v \<Rightarrow> nat) \<Rightarrow> ('k \<rightharpoonup> 'v) \<Rightarrow> nat" where
  "msum f m = (\<Sum>k\<in>dom m. f (the (m k)))"

lemma msum_empty [sum_simps]: "msum f Map.empty = 0"
  by (simp add: msum_def)

lemma msum_delete_other: "msum f (m(k := None)) = (\<Sum>x\<in>dom m - {k}. f (the (m x)))"
  by (auto simp: msum_def intro!: sum.cong)

lemma msum_remove:
  assumes "finite (dom m)" and "m k = Some v"
  shows "msum f m = f v + msum f (m(k := None))"
proof -
  have "msum f m = f (the (m k)) + (\<Sum>x\<in>dom m - {k}. f (the (m x)))"
    unfolding msum_def using assms by (intro sum.remove) auto
  then show ?thesis using assms(2) by (simp add: msum_delete_other)
qed

lemma msum_insert:
  assumes "finite (dom m)"
  shows "msum f (m(k \<mapsto> v)) = f v + msum f (m(k := None))"
  using assms by (subst msum_remove [of "m(k \<mapsto> v)" k v]) auto

lemma msum_insert_fresh [sum_simps]:
  "finite (dom m) \<Longrightarrow> m k = None \<Longrightarrow> msum f (m(k \<mapsto> v)) = f v + msum f m"
  by (simp add: msum_insert fun_upd_idem)

lemma msum_update_same [sum_simps]:
  assumes "finite (dom m)" and "m k = Some v" and "f v' = f v"
  shows "msum f (m(k \<mapsto> v')) = msum f m"
  using assms by (simp add: msum_insert msum_remove [of m k v])

lemma msum_ge: "finite (dom m) \<Longrightarrow> m k = Some v \<Longrightarrow> f v \<le> msum f m"
  by (simp add: msum_remove)

lemma msum_update:
  assumes "finite (dom m)" and "m k = Some v"
  shows "msum f (m(k \<mapsto> v')) + f v = f v' + msum f m"
  using assms by (simp add: msum_insert msum_remove [of m k v])

lemma msum_insert_le: "finite (dom m) \<Longrightarrow> msum f (m(k \<mapsto> v)) \<le> f v + msum f m"
  by (cases "m k") (simp_all add: msum_insert_fresh msum_insert msum_remove)

text \<open>The same for a mapper of numbers, where an empty slot reads as zero.\<close>

definition fsum :: "('k \<Rightarrow> nat) \<Rightarrow> nat" where
  "fsum f = (\<Sum>k | f k \<noteq> 0. f k)"

definition fin_supp :: "('k \<Rightarrow> nat) \<Rightarrow> bool" where
  "fin_supp f \<longleftrightarrow> finite {k. f k \<noteq> 0}"

lemma fin_supp_zero [simp]: "fin_supp (\<lambda>_. 0)"
  by (simp add: fin_supp_def)

lemma fsum_zero [simp]: "fsum (\<lambda>_. 0) = 0"
  by (simp add: fsum_def)

lemma fin_supp_update [simp]: "fin_supp f \<Longrightarrow> fin_supp (f(k := v))"
  unfolding fin_supp_def by (rule finite_subset [of _ "insert k {k. f k \<noteq> 0}"]) auto

lemma fsum_remove: "fin_supp f \<Longrightarrow> fsum f = f k + fsum (f(k := 0))"
proof (cases "f k = 0")
  case True
  then show ?thesis by (simp add: fun_upd_idem)
next
  case False
  assume "fin_supp f"
  then have "fsum f = f k + (\<Sum>x\<in>{k. f k \<noteq> 0} - {k}. f x)"
    unfolding fsum_def fin_supp_def using False by (intro sum.remove) auto
  also have "(\<Sum>x\<in>{k. f k \<noteq> 0} - {k}. f x) = fsum (f(k := 0))"
    unfolding fsum_def by (rule sum.cong) auto
  finally show ?thesis .
qed

lemma fsum_update: "fin_supp f \<Longrightarrow> fsum (f(k := v)) + f k = fsum f + v"
  using fsum_remove [of f k] fsum_remove [of "f(k := v)" k] by simp

lemma fsum_ge: "fin_supp f \<Longrightarrow> f k \<le> fsum f"
  using fsum_remove [of f k] by simp

section \<open>Basis points\<close>

text \<open>
  \<open>&x * bps / BPS_DENOMINATOR\<close>, the way every contract of the protocol takes a share of
  an amount. The interface below is what the callers rely on: the share never exceeds the
  amount while the rate is at most one hundred percent, so what is left can be computed
  without an underflow and the two parts add up to the whole.
\<close>

definition bps_of :: "nat \<Rightarrow> u64 \<Rightarrow> nat" where
  "bps_of x bps = x * unat bps div 10000"

locale share =
  fixes cut :: "nat \<Rightarrow> u64 \<Rightarrow> nat"
  assumes cut_le: "unat b \<le> 10000 \<Longrightarrow> cut x b \<le> x"
    and cut_zero: "cut 0 b = 0"
    and cut_full: "cut x 10000 = x"
    and cut_mono: "unat b \<le> unat b' \<Longrightarrow> cut x b \<le> cut x b'"
begin

lemma split_exact: "unat b \<le> 10000 \<Longrightarrow> (x - cut x b) + cut x b = x"
  using cut_le [of b x] by simp

lemma kept_if: "unat b \<le> 10000 \<Longrightarrow> (if cut x b < x then x - cut x b else 0) = x - cut x b"
  using cut_le [of b x] by auto

lemma kept_antimono: "unat b \<le> unat b' \<Longrightarrow> x - cut x b' \<le> x - cut x b"
  using cut_mono [of b b' x] by simp

end

interpretation bps: share bps_of
proof
  fix b :: u64 and x :: nat
  assume "unat b \<le> 10000"
  then have "x * unat b \<le> x * 10000" by simp
  then have "x * unat b div 10000 \<le> x * 10000 div 10000" by (rule div_le_mono)
  then show "bps_of x b \<le> x" by (simp add: bps_of_def)
qed (auto simp: bps_of_def div_le_mono)

section \<open>The unordered-set storage mapper\<close>

text \<open>
  The contracts keep sets in an \<open>UnorderedSetMapper\<close>: an indexed list without
  duplicates in which \<open>swap_remove\<close> moves the last element into the gap. Clients rely on
  the set interface only; the order matters to the loops that iterate over the mapper.
\<close>

definition us_insert :: "'a \<Rightarrow> 'a list \<Rightarrow> 'a list" where
  "us_insert x xs = (if x \<in> set xs then xs else xs @ [x])"

fun us_replace :: "'a \<Rightarrow> 'a \<Rightarrow> 'a list \<Rightarrow> 'a list" where
  "us_replace x y [] = []"
| "us_replace x y (z # zs) = (if z = x then y # zs else z # us_replace x y zs)"

definition us_swap_remove :: "'a \<Rightarrow> 'a list \<Rightarrow> 'a list" where
  "us_swap_remove x xs = (if x \<in> set xs then butlast (us_replace x (last xs) xs) else xs)"

locale uset =
  fixes empty :: "'s"
    and ins :: "'a \<Rightarrow> 's \<Rightarrow> 's"
    and del :: "'a \<Rightarrow> 's \<Rightarrow> 's"
    and mem :: "'a \<Rightarrow> 's \<Rightarrow> bool"
    and len :: "'s \<Rightarrow> nat"
    and elems :: "'s \<Rightarrow> 'a set"
    and invar :: "'s \<Rightarrow> bool"
  assumes elems_empty: "elems empty = {}"
    and elems_ins: "invar s \<Longrightarrow> elems (ins x s) = insert x (elems s)"
    and elems_del: "invar s \<Longrightarrow> elems (del x s) = elems s - {x}"
    and mem_elems: "invar s \<Longrightarrow> mem x s \<longleftrightarrow> x \<in> elems s"
    and len_card: "invar s \<Longrightarrow> len s = card (elems s)"
    and elems_finite: "invar s \<Longrightarrow> finite (elems s)"
    and invar_empty: "invar empty"
    and invar_ins: "invar s \<Longrightarrow> invar (ins x s)"
    and invar_del: "invar s \<Longrightarrow> invar (del x s)"
begin

lemma mem_ins: "invar s \<Longrightarrow> mem y (ins x s) \<longleftrightarrow> y = x \<or> mem y s"
  by (simp add: mem_elems invar_ins elems_ins)

lemma mem_del: "invar s \<Longrightarrow> mem y (del x s) \<longleftrightarrow> y \<noteq> x \<and> mem y s"
  by (auto simp: mem_elems invar_del elems_del)

lemma len_ins: "invar s \<Longrightarrow> len (ins x s) = (if mem x s then len s else Suc (len s))"
  by (simp add: len_card invar_ins elems_ins mem_elems elems_finite insert_absorb)

lemma len_del: "invar s \<Longrightarrow> len (del x s) = (if mem x s then len s - 1 else len s)"
  by (simp add: len_card invar_del elems_del mem_elems elems_finite)

lemma len_ins_le: "invar s \<Longrightarrow> len s < n \<Longrightarrow> len (ins x s) \<le> n"
  by (simp add: len_ins)

lemma len_del_le: "invar s \<Longrightarrow> len (del x s) \<le> len s"
  by (simp add: len_del)

end

lemma us_replace_split:
  "x \<in> set xs \<Longrightarrow> \<exists>as bs. xs = as @ x # bs \<and> x \<notin> set as \<and> us_replace x y xs = as @ y # bs"
proof (induction xs)
  case Nil
  then show ?case by simp
next
  case (Cons z zs)
  show ?case
  proof (cases "z = x")
    case True
    then show ?thesis by (intro exI [of _ "[]"] exI [of _ zs]) simp
  next
    case False
    with Cons obtain as bs where "zs = as @ x # bs" "x \<notin> set as" "us_replace x y zs = as @ y # bs"
      by auto
    with False show ?thesis by (intro exI [of _ "z # as"] exI [of _ bs]) simp
  qed
qed

lemma us_replace_append_last: "x \<notin> set xs \<Longrightarrow> us_replace x y (xs @ [x]) = xs @ [y]"
  by (induction xs) auto

lemma us_swap_remove_mset:
  assumes "x \<in> set xs"
  shows "mset (us_swap_remove x xs) = mset xs - {#x#}"
proof -
  obtain as bs where xs: "xs = as @ x # bs" and r: "us_replace x (last xs) xs = as @ last xs # bs"
    using us_replace_split [OF assms, of "last xs"] by blast
  show ?thesis
  proof (cases bs rule: rev_cases)
    case Nil
    with assms xs r show ?thesis by (simp add: us_swap_remove_def)
  next
    case (snoc cs c)
    then have "mset (us_swap_remove x xs) = mset as + mset (c # cs)"
      using assms xs r by (simp add: us_swap_remove_def butlast_append)
    with snoc xs show ?thesis by simp
  qed
qed

lemma us_swap_remove_set: "distinct xs \<Longrightarrow> set (us_swap_remove x xs) = set xs - {x}"
proof (cases "x \<in> set xs")
  case True
  assume "distinct xs"
  then have "set (remove1 x xs) = set xs - {x}" by (rule set_remove1_eq)
  moreover have "mset (us_swap_remove x xs) = mset (remove1 x xs)"
    using True by (simp add: us_swap_remove_mset)
  ultimately show ?thesis by (metis set_mset_mset)
qed (simp add: us_swap_remove_def)

lemma us_swap_remove_distinct: "distinct xs \<Longrightarrow> distinct (us_swap_remove x xs)"
proof (cases "x \<in> set xs")
  case True
  assume "distinct xs"
  then have "distinct (remove1 x xs)" by simp
  with True show ?thesis
    by (metis us_swap_remove_mset mset_remove1 mset_eq_imp_distinct_iff)
qed (simp add: us_swap_remove_def)

interpretation us: uset "[]" us_insert us_swap_remove "\<lambda>x xs. x \<in> set xs" length set distinct
  by unfold_locales
    (auto simp: us_insert_def us_swap_remove_set us_swap_remove_distinct distinct_card)

section \<open>Labelled transition systems\<close>

text \<open>
  A contract is run by a sequence of calls. \<open>run step s ls t\<close> holds when the calls
  \<open>ls\<close> lead from \<open>s\<close> to \<open>t\<close>; a call that fails changes nothing and is not part of a
  run. An invariant kept by every admissible call holds after every admissible run.
\<close>

inductive run :: "('s \<Rightarrow> 'l \<Rightarrow> 's \<Rightarrow> bool) \<Rightarrow> 's \<Rightarrow> 'l list \<Rightarrow> 's \<Rightarrow> bool" for step where
  run_nil: "run step s [] s"
| run_cons: "step s l t \<Longrightarrow> run step t ls u \<Longrightarrow> run step s (l # ls) u"

inductive_cases run_nilE [elim!]: "run step s [] t"
inductive_cases run_consE [elim!]: "run step s (l # ls) t"

lemma run_append: "run step s as t \<Longrightarrow> run step t bs u \<Longrightarrow> run step s (as @ bs) u"
  by (induction rule: run.induct) (auto intro: run.intros)

locale invariant_system =
  fixes step :: "'s \<Rightarrow> 'l \<Rightarrow> 's \<Rightarrow> bool"
    and ok :: "'l \<Rightarrow> bool"
    and I :: "'s \<Rightarrow> bool"
  assumes step_inv: "step s l t \<Longrightarrow> ok l \<Longrightarrow> I s \<Longrightarrow> I t"
begin

lemma run_inv: "run step s ls t \<Longrightarrow> list_all ok ls \<Longrightarrow> I s \<Longrightarrow> I t"
  by (induction rule: run.induct) (auto intro: step_inv)

lemma run_prefix_inv:
  "run step s (as @ bs) t \<Longrightarrow> list_all ok as \<Longrightarrow> I s \<Longrightarrow> \<exists>u. run step s as u \<and> I u \<and> run step u bs t"
proof (induction as arbitrary: s)
  case Nil
  then show ?case by (auto intro: run.intros)
next
  case (Cons a as)
  from Cons.prems(1) obtain u where u: "step s a u" "run step u (as @ bs) t" by auto
  with Cons.prems have "I u" by (auto intro: step_inv)
  with Cons.IH [OF u(2)] Cons.prems(2) show ?case
    using u(1) by (auto intro: run.intros)
qed

end

end
