(* ===== verification/Runtime.thy ===== *)
theory Runtime
  imports Prelude
begin

text \<open>
  The account a contract owns and the transaction it is called with: EGLD and ESDT
  balances, what the contract sends out, the events it emits, the payment checks that the
  endpoint annotations stand for, and the circuit breaker shared by the contracts
  (contracts/common/src/pausable.rs). Contract states extend these records, as the contract
  traits of the source extend the modules.
\<close>

section \<open>Transactions\<close>

record esdt_payment =
  token_identifier :: token
  token_nonce :: u64
  amount :: nat

record ctx =
  caller :: address
  owner_address :: address
  sc_address :: address
  egld_value :: nat
  esdt_transfers :: "esdt_payment list"
  block_timestamp :: u64
  block_round :: u64
  block_nonce :: u64
  gas_left :: u64
  random_seed :: bytes
  egld_beside_tokens :: bool

text \<open>Arguments of the calls and the events a contract sends out.\<close>

datatype arg =
    AAddr address
  | AHash hash32
  | ANat nat
  | AU64 u64
  | ABool bool
  | ABytes bytes

text \<open>
  What leaves the contract during a call, in order: plain transfers, calls without a
  callback (\<open>transfer_execute\<close>: receiver, endpoint, arguments, EGLD, gas) and events.
\<close>

datatype effect =
    SendEgld address nat
  | SendEsdt address token u64 nat
  | TransferExecute address bytes "arg list" nat u64
  | Event string "arg list"

record account =
  egld_balance :: nat
  esdt_balance :: "token \<Rightarrow> u64 \<Rightarrow> nat"
  outbox :: "effect list"

section \<open>Payments\<close>

text \<open>
  The payment that comes with a call is credited before the endpoint runs. An endpoint
  without a \<open>payable\<close> annotation refuses every payment, \<open>payable("EGLD")\<close> refuses
  ESDT transfers, \<open>payable("*")\<close> takes everything.
\<close>

definition not_payable :: "ctx \<Rightarrow> 'a res \<Rightarrow> 'a res" where
  "not_payable c k = vm_require (egld_value c = 0 \<and> esdt_transfers c = [])
     ''function does not accept payment'' k"

definition payable_egld :: "ctx \<Rightarrow> 'a res \<Rightarrow> 'a res" where
  "payable_egld c k = vm_require (esdt_transfers c = []) ''function does not accept ESDT payment'' k"

text \<open>
  \<open>call_value().egld()\<close> reads the attached EGLD. When the call carries tokens as well, whether it
  answers or refuses is a matter of the framework, which is not in the repository: it is the
  parameter \<open>egld_beside_tokens\<close> of the call.
\<close>

definition call_egld :: "ctx \<Rightarrow> (nat \<Rightarrow> 'a res) \<Rightarrow> 'a res" where
  "call_egld c k = vm_require (esdt_transfers c = [] \<or> egld_beside_tokens c)
     ''incorrect number of transfers'' (k (egld_value c))"

definition only_owner :: "ctx \<Rightarrow> 'a res \<Rightarrow> 'a res" where
  "only_owner c k = vm_require (caller c = owner_address c)
     ''Endpoint can only be called by owner'' k"

fun credit_esdt :: "esdt_payment list \<Rightarrow> (token \<Rightarrow> u64 \<Rightarrow> nat) \<Rightarrow> token \<Rightarrow> u64 \<Rightarrow> nat" where
  "credit_esdt [] b = b"
| "credit_esdt (p # ps) b = credit_esdt ps
     (b(token_identifier p := (b (token_identifier p))
        (token_nonce p := b (token_identifier p) (token_nonce p) + amount p)))"

definition receive :: "ctx \<Rightarrow> 'a account_scheme \<Rightarrow> 'a account_scheme" where
  "receive c s = s\<lparr>egld_balance := egld_balance s + egld_value c,
                   esdt_balance := credit_esdt (esdt_transfers c) (esdt_balance s)\<rparr>"

text \<open>
  \<open>send().direct_egld\<close> and \<open>send().direct_esdt\<close> fail when the balance is too low. Receivers are
  accounts that accept payments: a contract that refuses them is outside the model.
\<close>

definition direct_egld :: "address \<Rightarrow> nat \<Rightarrow> 'a account_scheme \<Rightarrow> 'a account_scheme res" where
  "direct_egld to x s = vm_require (x \<le> egld_balance s) ''insufficient funds''
     (Inr (s\<lparr>egld_balance := egld_balance s - x, outbox := outbox s @ [SendEgld to x]\<rparr>))"

definition debit :: "token \<Rightarrow> u64 \<Rightarrow> nat \<Rightarrow> (token \<Rightarrow> u64 \<Rightarrow> nat) \<Rightarrow> token \<Rightarrow> u64 \<Rightarrow> nat" where
  "debit t n x b = b(t := (b t)(n := b t n - x))"

definition direct_esdt ::
  "address \<Rightarrow> token \<Rightarrow> u64 \<Rightarrow> nat \<Rightarrow> 'a account_scheme \<Rightarrow> 'a account_scheme res" where
  "direct_esdt to t n x s = vm_require (x \<le> esdt_balance s t n) ''insufficient funds''
     (Inr (s\<lparr>esdt_balance := debit t n x (esdt_balance s),
             outbox := outbox s @ [SendEsdt to t n x]\<rparr>))"

definition transfer_execute ::
  "address \<Rightarrow> bytes \<Rightarrow> arg list \<Rightarrow> nat \<Rightarrow> u64 \<Rightarrow> 'a account_scheme \<Rightarrow> 'a account_scheme res" where
  "transfer_execute to f as x g s = vm_require (x \<le> egld_balance s) ''insufficient funds''
     (Inr (s\<lparr>egld_balance := egld_balance s - x,
             outbox := outbox s @ [TransferExecute to f as x g]\<rparr>))"

definition emit :: "string \<Rightarrow> arg list \<Rightarrow> 'a account_scheme \<Rightarrow> 'a account_scheme" where
  "emit n as s = s\<lparr>outbox := outbox s @ [Event n as]\<rparr>"

text \<open>\<open>call_value().single_fungible_esdt()\<close>: exactly one transfer, of a fungible token.\<close>

definition single_fungible_esdt :: "ctx \<Rightarrow> (token \<times> nat) res" where
  "single_fungible_esdt c = (case esdt_transfers c of
     [p] \<Rightarrow> vm_require (token_nonce p = 0) ''fungible ESDT token expected''
              (Inr (token_identifier p, amount p))
   | _ \<Rightarrow> Inl (VmError ''incorrect number of ESDT transfers''))"

text \<open>
  \<open>BigUint\<close> subtraction signals an error when the result would be negative.
\<close>

definition big_sub :: "nat \<Rightarrow> nat \<Rightarrow> nat res" where
  "big_sub a b = vm_require (b \<le> a) ''cannot subtract because result would be negative'' (Inr (a - b))"

text \<open>
  Reading an empty storage slot: a number reads as zero and a flag as false, because zero and
  false are stored as the empty string (so \<open>is_empty\<close> holds exactly when the value is zero);
  an address or a structure cannot be decoded from the empty string and signals an error.
\<close>

definition get_slot :: "'v option \<Rightarrow> 'v res" where
  "get_slot o' = (case o' of None \<Rightarrow> Inl (VmError ''storage decode error'') | Some v \<Rightarrow> Inr v)"

text \<open>\<open>VecMapper::get\<close>: indices start at one; a cleared entry is an empty slot.\<close>

definition vec_get :: "'v option list \<Rightarrow> nat \<Rightarrow> 'v res" where
  "vec_get xs i = vm_require (1 \<le> i \<and> i \<le> length xs) ''index out of range'' (get_slot (xs ! (i - 1)))"

lemma get_slot_simps [simp]:
  "get_slot None = Inl (VmError ''storage decode error'')" "get_slot (Some v) = Inr v"
  by (simp_all add: get_slot_def)

lemma get_slot_eq_Inr [res_simps]: "get_slot o' = Inr v \<longleftrightarrow> o' = Some v"
  by (cases o') auto

lemma vec_get_eq_Inr [res_simps]:
  "vec_get xs i = Inr v \<longleftrightarrow> 1 \<le> i \<and> i \<le> length xs \<and> xs ! (i - 1) = Some v"
  by (auto simp: vec_get_def vm_require_def get_slot_eq_Inr)

lemma big_sub_eq_Inr [res_simps]: "big_sub a b = Inr r \<longleftrightarrow> b \<le> a \<and> r = a - b"
  by (auto simp: big_sub_def vm_require_def)

lemma direct_egld_eq_Inr [res_simps]:
  "direct_egld to x s = Inr t \<longleftrightarrow> x \<le> egld_balance s \<and>
     t = s\<lparr>egld_balance := egld_balance s - x, outbox := outbox s @ [SendEgld to x]\<rparr>"
  by (auto simp: direct_egld_def vm_require_def)

text \<open>A transfer that is skipped when there is nothing to send, for the statements.\<close>

definition send_pos :: "address \<Rightarrow> nat \<Rightarrow> effect list" where
  "send_pos to x = (if 0 < x then [SendEgld to x] else [])"

lemma pay_positive_eq_Inr [res_simps]:
  "(if 0 < x then direct_egld to x s else Inr s) = Inr t \<longleftrightarrow> x \<le> egld_balance s \<and>
     t = s\<lparr>egld_balance := egld_balance s - x,
           outbox := outbox s @ send_pos to x\<rparr>"
  by (auto simp: direct_egld_eq_Inr send_pos_def)

lemma refund_rest_eq_Inr [res_simps]:
  "(if x < y then direct_egld to (y - x) s else Inr s) = Inr t \<longleftrightarrow> y - x \<le> egld_balance s \<and>
     t = s\<lparr>egld_balance := egld_balance s - (y - x),
           outbox := outbox s @ send_pos to (y - x)\<rparr>"
  by (auto simp: direct_egld_eq_Inr send_pos_def)

lemma direct_esdt_eq_Inr [res_simps]:
  "direct_esdt to t n x s = Inr u \<longleftrightarrow> x \<le> esdt_balance s t n \<and>
     u = s\<lparr>esdt_balance := debit t n x (esdt_balance s),
           outbox := outbox s @ [SendEsdt to t n x]\<rparr>"
  by (auto simp: direct_esdt_def vm_require_def)

lemma transfer_execute_eq_Inr [res_simps]:
  "transfer_execute to f as x g s = Inr t \<longleftrightarrow> x \<le> egld_balance s \<and>
     t = s\<lparr>egld_balance := egld_balance s - x,
           outbox := outbox s @ [TransferExecute to f as x g]\<rparr>"
  by (auto simp: transfer_execute_def vm_require_def)

lemma call_egld_eq_Inr [res_simps]:
  "call_egld c k = Inr x \<longleftrightarrow> (esdt_transfers c = [] \<or> egld_beside_tokens c) \<and> k (egld_value c) = Inr x"
  by (auto simp: call_egld_def res_simps)

lemma not_payable_eq_Inr [res_simps]:
  "not_payable c k = Inr x \<longleftrightarrow> egld_value c = 0 \<and> esdt_transfers c = [] \<and> k = Inr x"
  by (auto simp: not_payable_def res_simps)

lemma payable_egld_eq_Inr [res_simps]:
  "payable_egld c k = Inr x \<longleftrightarrow> esdt_transfers c = [] \<and> k = Inr x"
  by (auto simp: payable_egld_def res_simps)

lemma only_owner_eq_Inr [res_simps]:
  "only_owner c k = Inr x \<longleftrightarrow> caller c = owner_address c \<and> k = Inr x"
  by (auto simp: only_owner_def res_simps)

lemma single_fungible_esdt_eq_Inr [res_simps]:
  "single_fungible_esdt c = Inr (t, x) \<longleftrightarrow>
     (\<exists>p. esdt_transfers c = [p] \<and> token_nonce p = 0 \<and> t = token_identifier p \<and> x = amount p)"
  by (auto simp: single_fungible_esdt_def vm_require_def split: list.splits)

text \<open>What a list of transfers adds to one balance.\<close>

definition paid_in :: "esdt_payment list \<Rightarrow> token \<Rightarrow> u64 \<Rightarrow> nat" where
  "paid_in ps t n = sum_list (map amount (filter (\<lambda>p. token_identifier p = t \<and> token_nonce p = n) ps))"

lemma paid_in_simps [simp]:
  "paid_in [] t n = 0"
  "paid_in (p # ps) t n = (if token_identifier p = t \<and> token_nonce p = n then amount p else 0) + paid_in ps t n"
  by (simp_all add: paid_in_def)

lemma credit_esdt_apply: "credit_esdt ps b t n = b t n + paid_in ps t n"
  by (induction ps arbitrary: b) auto

lemma paid_in_member: "p \<in> set ps \<Longrightarrow> amount p \<le> paid_in ps (token_identifier p) (token_nonce p)"
  by (induction ps) auto

lemma receive_egld_balance [simp]: "egld_balance (receive c s) = egld_balance s + egld_value c"
  by (simp add: receive_def)

lemma receive_outbox [simp]: "outbox (receive c s) = outbox s"
  by (simp add: receive_def)

lemma receive_esdt_balance [simp]:
  "esdt_balance (receive c s) = credit_esdt (esdt_transfers c) (esdt_balance s)"
  by (simp add: receive_def)

lemma debit_apply: "debit t n x b t' n' = (if t' = t \<and> n' = n then b t n - x else b t' n')"
  by (simp add: debit_def)

lemma receive_nothing [simp]: "egld_value c = 0 \<Longrightarrow> esdt_transfers c = [] \<Longrightarrow> receive c s = s"
  by (simp add: receive_def)

lemma emit_sel [simp]:
  "egld_balance (emit n as s) = egld_balance s" "esdt_balance (emit n as s) = esdt_balance s"
  "outbox (emit n as s) = outbox s @ [Event n as]"
  by (simp_all add: emit_def)

text \<open>Transfers to one receiver in a stretch of the outbox, for the payout theorems.\<close>

fun egld_sent :: "effect list \<Rightarrow> nat" where
  "egld_sent [] = 0"
| "egld_sent (SendEgld a x # es) = x + egld_sent es"
| "egld_sent (TransferExecute a f as x g # es) = x + egld_sent es"
| "egld_sent (_ # es) = egld_sent es"

fun egld_sent_to :: "address \<Rightarrow> effect list \<Rightarrow> nat" where
  "egld_sent_to a [] = 0"
| "egld_sent_to a (SendEgld b x # es) = (if a = b then x else 0) + egld_sent_to a es"
| "egld_sent_to a (TransferExecute b f as x g # es) = (if a = b then x else 0) + egld_sent_to a es"
| "egld_sent_to a (_ # es) = egld_sent_to a es"

lemma egld_sent_append [simp]: "egld_sent (xs @ ys) = egld_sent xs + egld_sent ys"
  by (induction xs rule: egld_sent.induct) auto

lemma egld_sent_to_append [simp]:
  "egld_sent_to a (xs @ ys) = egld_sent_to a xs + egld_sent_to a ys"
  by (induction xs rule: egld_sent_to.induct) auto

lemma egld_sent_send_pos [simp]:
  "egld_sent (send_pos a x) = x" "egld_sent_to b (send_pos a x) = (if b = a then x else 0)"
  by (simp_all add: send_pos_def)

section \<open>Circuit breaker\<close>

record pausable = account +
  paused :: bool

definition pause :: "ctx \<Rightarrow> 'a pausable_scheme \<Rightarrow> 'a pausable_scheme res" where
  "pause c s = not_payable c (only_owner c (Inr (s\<lparr>paused := True\<rparr>)))"

definition unpause :: "ctx \<Rightarrow> 'a pausable_scheme \<Rightarrow> 'a pausable_scheme res" where
  "unpause c s = not_payable c (only_owner c (Inr (s\<lparr>paused := False\<rparr>)))"

definition require_not_paused :: "'a pausable_scheme \<Rightarrow> 'b res \<Rightarrow> 'b res" where
  "require_not_paused s k = require (\<not> paused s) ''Contract is paused'' k"

definition is_paused :: "'a pausable_scheme \<Rightarrow> bool" where
  "is_paused s = paused s"

lemma require_not_paused_eq_Inr [res_simps]:
  "require_not_paused s k = Inr x \<longleftrightarrow> \<not> paused s \<and> k = Inr x"
  by (simp add: require_not_paused_def res_simps)

lemma receive_paused [simp]: "paused (receive c s) = paused s"
  by (simp add: receive_def)

end
