(* ===== verification/Common_Types.thy ===== *)
theory Common_Types
  imports Runtime
begin

text \<open>
  The data types and the constants the contracts share (contracts/common/src/types.rs and
  constants.rs). Field names carry a prefix where several structures of the source use the
  same name.
\<close>

section \<open>Intents\<close>

datatype intent_status = IPending | ISettled | ICancelled | IExpired

record intent =
  i_id :: u64
  i_owner :: address
  i_token_in :: token
  i_amount_in :: nat
  i_token_out :: token
  i_min_return :: nat
  i_deadline :: u64
  i_solver_fee :: nat
  i_status :: intent_status
  i_settled_by :: "address option"

record multi_intent_outcome =
  o_token_out :: token
  o_min_return :: nat

record multi_intent =
  mi_id :: u64
  mi_owner :: address
  mi_token_in :: token
  mi_amount_in :: nat
  mi_outcomes :: "multi_intent_outcome list"
  mi_deadline :: u64
  mi_solver_fee :: nat
  mi_status :: intent_status
  mi_settled_by :: "address option"

datatype pci_status = PPending | PExecuted | PCancelled | PExpired

record pre_cognitive_intent =
  p_id :: u64
  p_owner :: address
  p_token_in :: token
  p_amount_in :: nat
  p_merkle_root :: hash32
  p_deadline :: u64
  p_keeper_fee :: nat
  p_status :: pci_status
  p_executed_by :: "address option"

section \<open>Tasks\<close>

datatype task_status = Pending | Committed | Executing | Completed | Failed | Cancelled | Expired

datatype comparator = Gt | Lt | Eq | Gte | Lte

datatype trigger =
    TimeOnce (target_time: u64)
  | TimeRecurring (start_time: u64) (interval: u64) (remaining_execs: u64)
  | StateDriven (oracle_contract: address) (query_endpoint: bytes) (query_args: "bytes list")
      (cmp: comparator) (threshold: nat)
  | EventDriven (emitter_contract: address) (event_topic: bytes)
  | QuantumSealedHash (expected_hash: hash32)

record task =
  t_id :: u64
  t_owner :: address
  t_target_contract :: address
  t_target_endpoint :: bytes
  t_target_args :: "bytes list"
  t_trigger :: trigger
  t_max_gas :: u64
  t_deposit :: nat
  t_max_retries :: u8
  t_retry_count :: u8
  t_ttl_seconds :: u64
  t_created_at :: u64
  t_status :: task_status
  t_assigned_keeper :: "address option"
  t_completed_at :: u64
  t_post_task_id :: "u64 option"
  t_require_xwap_safe :: bool
  t_confidential :: bool

record quantum_task_state =
  q_owner :: address
  q_deposit :: nat
  q_status :: task_status
  q_executing_at :: u64

section \<open>Keepers and clone keys\<close>

record keeper_info =
  k_addr :: address
  k_stake :: nat
  k_registered_at :: u64
  k_total_executions :: u64
  k_successful_execs :: u64
  k_failed_execs :: u64
  k_slashed_amount :: nat
  k_active :: bool
  k_consecutive_failures :: u64

record clone_key_properties =
  ck_main_address :: address
  ck_spend_limit :: nat
  ck_spent_amount :: nat
  ck_expiry_timestamp :: u64

section \<open>Constants\<close>

definition BPS_DENOMINATOR :: u64 where "BPS_DENOMINATOR = 10000"
definition DEFAULT_REVEAL_WINDOW_SECONDS :: u64 where "DEFAULT_REVEAL_WINDOW_SECONDS = 60"
definition DEFAULT_COOLDOWN_SECONDS :: u64 where "DEFAULT_COOLDOWN_SECONDS = 43200"
definition UNSTAKE_COOLDOWN_SECONDS :: u64 where "UNSTAKE_COOLDOWN_SECONDS = DEFAULT_COOLDOWN_SECONDS"
definition SLASH_STRIKE_1_BPS :: u64 where "SLASH_STRIKE_1_BPS = 500"
definition SLASH_STRIKE_2_BPS :: u64 where "SLASH_STRIKE_2_BPS = 1500"
definition SLASH_STRIKE_3_BPS :: u64 where "SLASH_STRIKE_3_BPS = 2000"
definition EGLD_DECIMALS :: nat where "EGLD_DECIMALS = 1000000000000000000"
definition CALLBACK_GAS_RESERVE :: u64 where "CALLBACK_GAS_RESERVE = 25000000"
definition DEFAULT_MAX_REWARD_PER_EXEC :: nat where "DEFAULT_MAX_REWARD_PER_EXEC = 50000000000000000"
definition EARLY_EXIT_PENALTY_BPS :: u64 where "EARLY_EXIT_PENALTY_BPS = 500"
definition MIN_KEEPER_DAYS_SECONDS :: u64 where "MIN_KEEPER_DAYS_SECONDS = 30 * 24 * 60 * 60"
definition MAX_STRIKES :: u64 where "MAX_STRIKES = 3"
definition ROUND_ROBIN_GRACE_SECONDS :: u64 where "ROUND_ROBIN_GRACE_SECONDS = 30"
definition MAX_TARGET_FAILURES :: u64 where "MAX_TARGET_FAILURES = 10"
definition MAX_TASKS_PER_ROUND :: u32 where "MAX_TASKS_PER_ROUND = 10"
definition MAX_CLONE_KEY_SPEND_LIMIT :: nat where "MAX_CLONE_KEY_SPEND_LIMIT = 2 * EGLD_DECIMALS"
definition MAX_CLONE_KEYS_PER_WALLET :: nat where "MAX_CLONE_KEYS_PER_WALLET = 3"
definition MAX_CLONE_KEY_TTL_SECONDS :: u64 where "MAX_CLONE_KEY_TTL_SECONDS = 30 * 24 * 60 * 60"
definition MIN_CLONE_KEY_TTL_SECONDS :: u64 where "MIN_CLONE_KEY_TTL_SECONDS = 3600"

lemmas constant_defs =
  BPS_DENOMINATOR_def DEFAULT_REVEAL_WINDOW_SECONDS_def DEFAULT_COOLDOWN_SECONDS_def
  UNSTAKE_COOLDOWN_SECONDS_def SLASH_STRIKE_1_BPS_def SLASH_STRIKE_2_BPS_def
  SLASH_STRIKE_3_BPS_def EGLD_DECIMALS_def CALLBACK_GAS_RESERVE_def
  DEFAULT_MAX_REWARD_PER_EXEC_def EARLY_EXIT_PENALTY_BPS_def MIN_KEEPER_DAYS_SECONDS_def
  MAX_STRIKES_def ROUND_ROBIN_GRACE_SECONDS_def MAX_TARGET_FAILURES_def MAX_TASKS_PER_ROUND_def
  MAX_CLONE_KEY_SPEND_LIMIT_def MAX_CLONE_KEYS_PER_WALLET_def MAX_CLONE_KEY_TTL_SECONDS_def
  MIN_CLONE_KEY_TTL_SECONDS_def

text \<open>
  The share of an amount the contracts compute is \<open>bps_of\<close> of the prelude, with the
  denominator of constants.rs.
\<close>

lemma bps_of_denominator: "bps_of x b = x * unat b div unat BPS_DENOMINATOR"
  by (simp add: bps_of_def BPS_DENOMINATOR_def)

end
