(* ===== verification/Scheduler_State.thy ===== *)
theory Scheduler_State
  imports Common_Types
begin

text \<open>
  The Scheduler contract: its storage (storage.rs), the code outside src/ it is run with,
  deployment and upgrade (lib.rs), events (events.rs), helpers (helpers.rs) and the
  validation functions (validation.rs) that the endpoints of the other modules call.
\<close>

section \<open>Storage\<close>

text \<open>
  A task execution registered with the virtual machine (\<open>register_promise\<close>) waits for its
  callback: the call that was sent and the arguments the callback closes over.
\<close>

record exec_promise =
  ep_to :: address
  ep_endpoint :: bytes
  ep_args :: "bytes list"
  ep_gas :: u64
  ep_callback_gas :: u64
  ep_task_hash :: hash32
  ep_target_contract :: address
  ep_keeper :: address

record sched = pausable +
  task_nonce :: u64
  quantum_tasks :: "hash32 \<rightharpoonup> quantum_task_state"
  owner_tasks :: "address \<Rightarrow> hash32 list"
  keeper_registry_addr :: "address option"
  rewards_addr :: "address option"
  xwap_address :: "address option"
  min_deposit :: nat
  zk_verifier_addr :: "address option"
  xsc_address :: "address option"
  used_compressed_tasks :: "hash32 \<Rightarrow> bool"
  assigned_enclave_keeper :: "hash32 \<rightharpoonup> address"
  protocol_fee_bps :: u64
  reveal_window :: u64
  commit_bond :: nat
  whitelisted_keepers :: "address list"
  max_reward_per_exec :: nat
  executing_guard :: bool
  version :: u32
  keeper_list :: "address option list"
  round_robin_counter :: u64
  target_blacklist :: "address list"
  target_failure_count :: "address \<Rightarrow> u64"
  total_successful_execs :: u64
  total_failed_execs :: u64
  max_exec_value_egld :: nat
  keeper_shard :: "address \<Rightarrow> u32"
  intent_nonce :: u64
  intent_by_id :: "u64 \<rightharpoonup> intent"
  multi_intent_nonce :: u64
  multi_intent_by_id :: "u64 \<rightharpoonup> multi_intent"
  pre_cognitive_intent_nonce :: u64
  pre_cognitive_intent_by_id :: "u64 \<rightharpoonup> pre_cognitive_intent"
  tasks_per_round :: "address \<Rightarrow> u64 \<Rightarrow> u32"
  max_tasks_per_round :: u32
  cross_shard_execs :: u64
  intra_shard_execs :: u64
  accrued_protocol_fees :: nat
  clone_key_props :: "address \<rightharpoonup> clone_key_properties"
  wallet_clone_keys :: "address \<Rightarrow> address list"
  accepted_payment_tokens :: "token \<Rightarrow> bool"
  promises :: "exec_promise list"

text \<open>
  Code that is not part of the repository: the hash function and the codec of the framework,
  the shard of an address, and the other contracts of the chain. A synchronous call runs the
  callee to completion inside the transaction; the callee may call back into the Scheduler,
  so the call returns its results together with the Scheduler state it leaves behind.
  \<open>encode_into old enc\<close> is the content of a buffer that held \<open>old\<close> after a value with
  encoding \<open>enc\<close> was top-encoded into it.
\<close>

record sched_env =
  sha256 :: "bytes \<Rightarrow> hash32"
  encode_task :: "task \<Rightarrow> bytes"
  encode_into :: "bytes \<Rightarrow> bytes \<Rightarrow> bytes"
  decode_bool :: "bytes \<Rightarrow> bool option"
  shard_of :: "address \<Rightarrow> u32"
  sync_call :: "address \<Rightarrow> bytes \<Rightarrow> arg list \<Rightarrow> sched \<Rightarrow> (bytes list \<times> sched) res"

section \<open>Deployment and upgrade (lib.rs)\<close>

definition sched_empty :: sched where
  "sched_empty = \<lparr>egld_balance = 0, esdt_balance = (\<lambda>_ _. 0), outbox = [], paused = False,
     task_nonce = 0, quantum_tasks = Map.empty, owner_tasks = (\<lambda>_. []),
     keeper_registry_addr = None, rewards_addr = None, xwap_address = None, min_deposit = 0,
     zk_verifier_addr = None, xsc_address = None, used_compressed_tasks = (\<lambda>_. False),
     assigned_enclave_keeper = Map.empty, protocol_fee_bps = 0, reveal_window = 0,
     commit_bond = 0, whitelisted_keepers = [], max_reward_per_exec = 0,
     executing_guard = False, version = 0, keeper_list = [], round_robin_counter = 0,
     target_blacklist = [], target_failure_count = (\<lambda>_. 0), total_successful_execs = 0,
     total_failed_execs = 0, max_exec_value_egld = 0, keeper_shard = (\<lambda>_. 0),
     intent_nonce = 0, intent_by_id = Map.empty, multi_intent_nonce = 0,
     multi_intent_by_id = Map.empty, pre_cognitive_intent_nonce = 0,
     pre_cognitive_intent_by_id = Map.empty, tasks_per_round = (\<lambda>_ _. 0),
     max_tasks_per_round = 0, cross_shard_execs = 0, intra_shard_execs = 0,
     accrued_protocol_fees = 0, clone_key_props = Map.empty, wallet_clone_keys = (\<lambda>_. []),
     accepted_payment_tokens = (\<lambda>_. False), promises = []\<rparr>"

definition scheduler_init :: "address \<Rightarrow> address \<Rightarrow> nat \<Rightarrow> u64 \<Rightarrow> sched res" where
  "scheduler_init keeper_registry rewards min_dep fee_bps =
     require (fee_bps \<le> 10000) ''Protocol fee cannot exceed 100%''
       (Inr (sched_empty\<lparr>keeper_registry_addr := Some keeper_registry,
          rewards_addr := Some rewards, min_deposit := min_dep, protocol_fee_bps := fee_bps,
          reveal_window := DEFAULT_REVEAL_WINDOW_SECONDS, commit_bond := 0, task_nonce := 0,
          paused := False, executing_guard := False, version := 1,
          max_reward_per_exec := DEFAULT_MAX_REWARD_PER_EXEC,
          max_tasks_per_round := MAX_TASKS_PER_ROUND\<rparr>))"

definition scheduler_upgrade :: "sched \<Rightarrow> sched" where
  "scheduler_upgrade s = s\<lparr>version := version s + 1,
     max_tasks_per_round := (if max_tasks_per_round s = 0 then MAX_TASKS_PER_ROUND
                             else max_tasks_per_round s),
     max_reward_per_exec := (if max_reward_per_exec s = 0 then DEFAULT_MAX_REWARD_PER_EXEC
                             else max_reward_per_exec s),
     reveal_window := (if reveal_window s = 0 then DEFAULT_REVEAL_WINDOW_SECONDS
                       else reveal_window s),
     accrued_protocol_fees := (if accrued_protocol_fees s = 0 then 0
                               else accrued_protocol_fees s)\<rparr>"

section \<open>Events (events.rs, clone\_keys.rs)\<close>

definition task_scheduled_event_quantum ::
  "hash32 \<Rightarrow> address \<Rightarrow> address \<Rightarrow> u64 \<Rightarrow> sched \<Rightarrow> sched" where
  "task_scheduled_event_quantum h own target ts =
     emit ''taskScheduledQuantum'' [AHash h, AAddr own, AAddr target, AU64 ts]"

definition task_cancelled_event_quantum :: "hash32 \<Rightarrow> sched \<Rightarrow> sched" where
  "task_cancelled_event_quantum h = emit ''taskCancelledQuantum'' [AHash h]"

definition task_executed_event_quantum :: "hash32 \<Rightarrow> address \<Rightarrow> bool \<Rightarrow> sched \<Rightarrow> sched" where
  "task_executed_event_quantum h keeper success =
     emit ''taskExecutedQuantum'' [AHash h, AAddr keeper, ABool success]"

definition xse_payload_triggered_event :: "address \<Rightarrow> bytes \<Rightarrow> sched \<Rightarrow> sched" where
  "xse_payload_triggered_event a payload =
     emit ''xsePayloadTriggered'' [AAddr a, ABytes payload]"

section \<open>Helpers (helpers.rs)\<close>

definition get_timestamp_ms :: "ctx \<Rightarrow> u64" where
  "get_timestamp_ms c = (let raw_time = block_timestamp c in
     if 100000000000 < raw_time then raw_time else raw_time * 1000)"

definition forward_protocol_fee :: "address \<Rightarrow> u64 \<Rightarrow> nat \<Rightarrow> sched \<Rightarrow> sched" where
  "forward_protocol_fee keeper task_id fee s =
     (if 0 < fee then s\<lparr>accrued_protocol_fees := accrued_protocol_fees s + fee\<rparr> else s)"

definition forward_keeper_result :: "address \<Rightarrow> bool \<Rightarrow> sched \<Rightarrow> sched res" where
  "forward_keeper_result keeper success s = (case keeper_registry_addr s of
     None \<Rightarrow> Inr s
   | Some registry \<Rightarrow> transfer_execute registry ''recordExecution''
       [AAddr keeper, ABool success] 0 5000000 s)"

section \<open>Validation (validation.rs)\<close>

definition require_registered_keeper :: "address \<Rightarrow> sched \<Rightarrow> unit res" where
  "require_registered_keeper keeper s =
     require (keeper \<in> set (whitelisted_keepers s)) ''Not authorized'' (Inr ())"

definition dangerous_endpoints :: "bytes list" where
  "dangerous_endpoints = [''upgradeContract'', ''changeOwner'', ''ChangeOwnerAddress'',
     ''setOwner'', ''upgradeFromSource'', ''claimDeveloperRewards'', ''ESDTTransfer'',
     ''ESDTNFTTransfer'', ''MultiESDTNFTTransfer'']"

definition require_safe_target :: "ctx \<Rightarrow> address \<Rightarrow> bytes \<Rightarrow> sched \<Rightarrow> unit res" where
  "require_safe_target c target endpoint s =
     require (target \<noteq> sc_address c) ''S-1: Cannot target scheduler itself'' (
     bind_res (get_slot (keeper_registry_addr s)) (\<lambda>registry.
     require (target \<noteq> registry) ''S-1: Cannot target KeeperRegistry'' (
     bind_res (get_slot (rewards_addr s)) (\<lambda>rewards.
     require (target \<noteq> rewards) ''S-1: Cannot target Rewards contract'' (
     require (target \<notin> set (target_blacklist s)) ''S-1: Target contract is blacklisted'' (
     require (endpoint \<notin> set dangerous_endpoints) ''S-1: Dangerous endpoint blocked'' (
     Inr ())))))))"

definition require_deposit_within_cap :: "nat \<Rightarrow> sched \<Rightarrow> unit res" where
  "require_deposit_within_cap deposit s = (let max_value = max_exec_value_egld s in
     if 0 < max_value
     then require (deposit \<le> max_value) ''S-8: Deposit exceeds maximum execution value'' (Inr ())
     else Inr ())"

fun compare_values :: "comparator \<Rightarrow> nat \<Rightarrow> nat \<Rightarrow> bool" where
  "compare_values Gt v t = (t < v)"
| "compare_values Lt v t = (v < t)"
| "compare_values Eq v t = (v = t)"
| "compare_values Gte v t = (t \<le> v)"
| "compare_values Lte v t = (v \<le> t)"

definition require_task_ripe_quantum :: "sched_env \<Rightarrow> ctx \<Rightarrow> task \<Rightarrow> sched \<Rightarrow> sched res" where
  "require_task_ripe_quantum e c tp s = (let now_ms = get_timestamp_ms c in
     require (0 < t_ttl_seconds tp \<longrightarrow> now_ms \<le> t_created_at tp + t_ttl_seconds tp * 1000)
       ''Task expired (TTL exceeded)'' (
     case t_trigger tp of
       TimeOnce target \<Rightarrow> require (target \<le> now_ms) ''Task not yet ripe'' (Inr s)
     | TimeRecurring start _ _ \<Rightarrow> require (start \<le> now_ms) ''Task not yet ripe'' (Inr s)
     | StateDriven oracle query _ comparator bound \<Rightarrow>
         bind_res (sync_call e oracle query [] s) (\<lambda>(raw, s).
         let oracle_value = (case raw of [] \<Rightarrow> 0 | r # _ \<Rightarrow> from_bytes_be r) in
         require (compare_values comparator oracle_value bound) ''Oracle condition not met'' (Inr s))
     | EventDriven _ _ \<Rightarrow> Inr s
     | QuantumSealedHash _ \<Rightarrow> Inr s))"

text \<open>
  How a boolean answer of another contract is read: no result and a result that does not
  decode both count as false.
\<close>

definition first_bool :: "sched_env \<Rightarrow> bytes list \<Rightarrow> bool" where
  "first_bool e raw = (case raw of [] \<Rightarrow> False
     | r # _ \<Rightarrow> (case decode_bool e r of None \<Rightarrow> False | Some b \<Rightarrow> b))"

section \<open>Facts about the building blocks\<close>

named_theorems sched_simps "inversion of the Scheduler's internal functions"

lemma require_registered_keeper_Inr [sched_simps]:
  "require_registered_keeper k s = Inr u \<longleftrightarrow> k \<in> set (whitelisted_keepers s)"
  by (simp add: require_registered_keeper_def res_simps)

lemma require_safe_target_Inr [sched_simps]:
  "require_safe_target c t f s = Inr u \<longleftrightarrow> t \<noteq> sc_address c \<and>
     (\<exists>r. keeper_registry_addr s = Some r \<and> t \<noteq> r) \<and>
     (\<exists>r. rewards_addr s = Some r \<and> t \<noteq> r) \<and>
     t \<notin> set (target_blacklist s) \<and> f \<notin> set dangerous_endpoints"
  by (auto simp: require_safe_target_def res_simps)

lemma require_deposit_within_cap_Inr [sched_simps]:
  "require_deposit_within_cap d s = Inr u \<longleftrightarrow>
     max_exec_value_egld s = 0 \<or> d \<le> max_exec_value_egld s"
  by (auto simp: require_deposit_within_cap_def res_simps Let_def)

text \<open>The report the registry gets, for the statements about the outbox.\<close>

definition keeper_report :: "address \<Rightarrow> bool \<Rightarrow> sched \<Rightarrow> effect list" where
  "keeper_report k b s = (case keeper_registry_addr s of None \<Rightarrow> []
     | Some r \<Rightarrow> [TransferExecute r ''recordExecution'' [AAddr k, ABool b] 0 5000000])"

lemma forward_keeper_result_Inr [sched_simps]:
  "forward_keeper_result k b s = Inr t \<longleftrightarrow> t = s\<lparr>outbox := outbox s @ keeper_report k b s\<rparr>"
  by (auto simp: forward_keeper_result_def keeper_report_def res_simps split: option.splits)

lemma keeper_report_no_egld [simp]:
  "egld_sent (keeper_report k b s) = 0" "egld_sent_to a (keeper_report k b s) = 0"
  by (simp_all add: keeper_report_def split: option.splits)

lemma forward_protocol_fee_eq [sched_simps]:
  "forward_protocol_fee k i fee s = s\<lparr>accrued_protocol_fees := accrued_protocol_fees s + fee\<rparr>"
  by (simp add: forward_protocol_fee_def)

lemma accrue_positive [sched_simps]:
  "(if 0 < fee then s\<lparr>accrued_protocol_fees := accrued_protocol_fees s + fee\<rparr> else s) =
    (s\<lparr>accrued_protocol_fees := accrued_protocol_fees s + fee\<rparr> :: sched)"
  by simp

lemmas sched_event_defs = task_scheduled_event_quantum_def task_cancelled_event_quantum_def
  task_executed_event_quantum_def xse_payload_triggered_event_def emit_def

end
