(* ===== verification/Scheduler_Clone_Keys.thy ===== *)
theory Scheduler_Clone_Keys
  imports Scheduler_State
begin

text \<open>
  Clone keys (contracts/scheduler/src/clone\_keys.rs): a main wallet authorises a disposable
  wallet to schedule tasks on its behalf, up to a spend limit that is deposited beforehand and
  until an expiry time.
\<close>

section \<open>Events\<close>

definition clone_key_authorized_event ::
  "address \<Rightarrow> address \<Rightarrow> u64 \<Rightarrow> nat \<Rightarrow> sched \<Rightarrow> sched" where
  "clone_key_authorized_event main clone expiry limit =
     emit ''cloneKeyAuthorized'' [AAddr main, AAddr clone, AU64 expiry, ANat limit]"

definition clone_key_revoked_event :: "address \<Rightarrow> address \<Rightarrow> nat \<Rightarrow> sched \<Rightarrow> sched" where
  "clone_key_revoked_event main clone refunded =
     emit ''cloneKeyRevoked'' [AAddr main, AAddr clone, ANat refunded]"

definition clone_key_funded_event :: "address \<Rightarrow> nat \<Rightarrow> sched \<Rightarrow> sched" where
  "clone_key_funded_event clone added = emit ''cloneKeyFunded'' [AAddr clone, ANat added]"

section \<open>Endpoints\<close>

definition authorize_clone_key :: "ctx \<Rightarrow> address \<Rightarrow> u64 \<Rightarrow> sched \<Rightarrow> sched res" where
  "authorize_clone_key c clone ttl s0 = payable_egld c (let s = receive c s0 in
     require_not_paused s (
     let deposit = egld_value c in
     require (0 < deposit) ''Must deposit EGLD as spend limit'' (
     require (deposit \<le> MAX_CLONE_KEY_SPEND_LIMIT) ''Spend limit exceeds maximum (2 EGLD)'' (
     require (MIN_CLONE_KEY_TTL_SECONDS \<le> ttl) ''TTL too short (minimum 1 hour)'' (
     require (ttl \<le> MAX_CLONE_KEY_TTL_SECONDS) ''TTL too long (maximum 30 days)'' (
     require (clone \<noteq> caller c) ''Cannot authorize self as Clone-Key'' (
     require (clone_key_props s clone = None) ''Clone-Key already authorized'' (
     require (length (wallet_clone_keys s (caller c)) < MAX_CLONE_KEYS_PER_WALLET)
       ''Too many Clone-Keys (max 3)'' (
     let expiry = block_timestamp c + ttl;
         props = \<lparr>ck_main_address = caller c, ck_spend_limit = deposit, ck_spent_amount = 0,
                  ck_expiry_timestamp = expiry\<rparr>;
         s = s\<lparr>clone_key_props := (clone_key_props s)(clone \<mapsto> props),
               wallet_clone_keys := (wallet_clone_keys s)
                 (caller c := us_insert clone (wallet_clone_keys s (caller c)))\<rparr>
     in Inr (clone_key_authorized_event (caller c) clone expiry deposit s))))))))))"

definition revoke_clone_key :: "ctx \<Rightarrow> address \<Rightarrow> sched \<Rightarrow> sched res" where
  "revoke_clone_key c clone s = not_payable c (
     require (clone_key_props s clone \<noteq> None) ''Clone-Key not found'' (
     bind_res (get_slot (clone_key_props s clone)) (\<lambda>props.
     require (ck_main_address props = caller c) ''Not the owner of this Clone-Key'' (
     let refund = (if ck_spent_amount props < ck_spend_limit props
                   then ck_spend_limit props - ck_spent_amount props else 0);
         s = s\<lparr>clone_key_props := (clone_key_props s)(clone := None),
               wallet_clone_keys := (wallet_clone_keys s)
                 (caller c := us_swap_remove clone (wallet_clone_keys s (caller c)))\<rparr>
     in bind_res (if 0 < refund then direct_egld (caller c) refund s else Inr s) (\<lambda>s.
     Inr (clone_key_revoked_event (caller c) clone refund s))))))"

text \<open>The message of the expiry check contains an em dash, three bytes in UTF-8.\<close>

definition err_clone_expired :: string where
  "err_clone_expired = ''Clone-Key has expired '' @ [CHR 0xE2, CHR 0x80, CHR 0x94] @
     '' revoke and create a new one''"

definition fund_clone_key :: "ctx \<Rightarrow> address \<Rightarrow> sched \<Rightarrow> sched res" where
  "fund_clone_key c clone s0 = payable_egld c (let s = receive c s0 in
     require_not_paused s (
     let added = egld_value c in
     require (0 < added) ''Must send EGLD'' (
     require (clone_key_props s clone \<noteq> None) ''Clone-Key not found'' (
     bind_res (get_slot (clone_key_props s clone)) (\<lambda>props.
     require (ck_main_address props = caller c) ''Not the owner of this Clone-Key'' (
     require (block_timestamp c < ck_expiry_timestamp props) err_clone_expired (
     let new_limit = ck_spend_limit props + added in
     require (new_limit \<le> MAX_CLONE_KEY_SPEND_LIMIT)
       ''New spend limit would exceed maximum (2 EGLD)'' (
     let s = s\<lparr>clone_key_props := (clone_key_props s)
                 (clone \<mapsto> props\<lparr>ck_spend_limit := new_limit\<rparr>)\<rparr>
     in Inr (clone_key_funded_event clone added s)))))))))"

definition get_clone_key_info :: "address \<Rightarrow> sched \<Rightarrow> clone_key_properties option" where
  "get_clone_key_info clone s = clone_key_props s clone"

definition get_wallet_clone_keys :: "address \<Rightarrow> sched \<Rightarrow> address list" where
  "get_wallet_clone_keys main s = wallet_clone_keys s main"

section \<open>Functions used by the scheduling module\<close>

definition resolve_caller :: "ctx \<Rightarrow> sched \<Rightarrow> address \<times> bool" where
  "resolve_caller c s = (case clone_key_props s (caller c) of
     None \<Rightarrow> (caller c, False)
   | Some props \<Rightarrow> if ck_expiry_timestamp props \<le> block_timestamp c then (caller c, False)
       else (ck_main_address props, True))"

definition charge_clone_key :: "ctx \<Rightarrow> address \<Rightarrow> nat \<Rightarrow> sched \<Rightarrow> sched res" where
  "charge_clone_key c clone x s =
     bind_res (get_slot (clone_key_props s clone)) (\<lambda>props.
     require (block_timestamp c < ck_expiry_timestamp props) ''Clone-Key has expired'' (
     let new_spent = ck_spent_amount props + x in
     require (new_spent \<le> ck_spend_limit props) ''Clone-Key spend limit exceeded'' (
     Inr (s\<lparr>clone_key_props := (clone_key_props s)
              (clone \<mapsto> props\<lparr>ck_spent_amount := new_spent\<rparr>)\<rparr>))))"

section \<open>Facts\<close>

lemmas clone_event_defs = clone_key_authorized_event_def clone_key_revoked_event_def
  clone_key_funded_event_def emit_def

lemma charge_clone_key_Inr [sched_simps]:
  "charge_clone_key c a x s = Inr t \<longleftrightarrow> (\<exists>props. clone_key_props s a = Some props \<and>
     block_timestamp c < ck_expiry_timestamp props \<and>
     ck_spent_amount props + x \<le> ck_spend_limit props \<and>
     t = s\<lparr>clone_key_props := (clone_key_props s)
             (a \<mapsto> props\<lparr>ck_spent_amount := ck_spent_amount props + x\<rparr>)\<rparr>)"
  by (auto simp: charge_clone_key_def res_simps Let_def)

lemma resolve_caller_cases:
  assumes "resolve_caller c s = (own, b)"
  obtains "own = caller c" "\<not> b"
    | props where "clone_key_props s (caller c) = Some props" "b" "own = ck_main_address props"
        "block_timestamp c < ck_expiry_timestamp props"
  using assms by (auto simp: resolve_caller_def not_le split: option.splits if_splits)

text \<open>What a clone key can still spend; it is owed to the main wallet.\<close>

definition clone_budget :: "clone_key_properties \<Rightarrow> nat" where
  "clone_budget p = ck_spend_limit p - ck_spent_amount p"

text \<open>
  The invariant of the module: no key has spent more than its limit, no limit exceeds 2 EGLD,
  and the keys listed for a wallet are exactly the keys whose properties name it.
\<close>

definition clone_inv :: "sched \<Rightarrow> bool" where
  "clone_inv s \<longleftrightarrow> finite (dom (clone_key_props s)) \<and>
     (\<forall>a p. clone_key_props s a = Some p \<longrightarrow> ck_spent_amount p \<le> ck_spend_limit p \<and>
        ck_spend_limit p \<le> MAX_CLONE_KEY_SPEND_LIMIT \<and> ck_main_address p \<noteq> a) \<and>
     (\<forall>w. distinct (wallet_clone_keys s w) \<and>
        length (wallet_clone_keys s w) \<le> MAX_CLONE_KEYS_PER_WALLET \<and>
        set (wallet_clone_keys s w) =
          {a. \<exists>p. clone_key_props s a = Some p \<and> ck_main_address p = w})"

lemma clone_inv_cong:
  "clone_key_props t = clone_key_props s \<Longrightarrow> wallet_clone_keys t = wallet_clone_keys s \<Longrightarrow>
     clone_inv t = clone_inv s"
  by (simp add: clone_inv_def)

lemma clone_invD:
  assumes "clone_inv s" and "clone_key_props s a = Some p"
  shows "ck_spent_amount p \<le> ck_spend_limit p" "ck_spend_limit p \<le> MAX_CLONE_KEY_SPEND_LIMIT"
    "a \<in> set (wallet_clone_keys s (ck_main_address p))" "finite (dom (clone_key_props s))"
  using assms by (auto simp: clone_inv_def)

text \<open>An update of a key that keeps its main wallet keeps the wallets' lists.\<close>

lemma clone_inv_update:
  assumes "clone_inv s" and "clone_key_props s a = Some p" and "ck_main_address p' = ck_main_address p"
    and "ck_spent_amount p' \<le> ck_spend_limit p'" and "ck_spend_limit p' \<le> MAX_CLONE_KEY_SPEND_LIMIT"
    and "clone_key_props t = (clone_key_props s)(a \<mapsto> p')"
    and "wallet_clone_keys t = wallet_clone_keys s"
  shows "clone_inv t"
  using assms unfolding clone_inv_def by (auto simp: fun_upd_apply)

lemma charge_clone_key_inv:
  assumes "charge_clone_key c a x s = Inr t" and "clone_inv s"
  shows "clone_inv t"
proof -
  obtain p where p: "clone_key_props s a = Some p" "ck_spent_amount p + x \<le> ck_spend_limit p"
    and t: "t = s\<lparr>clone_key_props := (clone_key_props s)
             (a \<mapsto> p\<lparr>ck_spent_amount := ck_spent_amount p + x\<rparr>)\<rparr>"
    using assms(1) by (auto simp: sched_simps)
  show ?thesis
    by (rule clone_inv_update [OF assms(2) p(1)]) (use p t clone_invD [OF assms(2) p(1)] in auto)
qed

lemma authorize_clone_key_inv:
  assumes "authorize_clone_key c a ttl s = Inr t" and "clone_inv s"
  shows "clone_inv t"
proof -
  from assms(1) have new: "clone_key_props s a = None" "a \<noteq> caller c"
    "egld_value c \<le> MAX_CLONE_KEY_SPEND_LIMIT"
    "length (wallet_clone_keys s (caller c)) < MAX_CLONE_KEYS_PER_WALLET"
    and props: "clone_key_props t = (clone_key_props s)
       (a \<mapsto> \<lparr>ck_main_address = caller c, ck_spend_limit = egld_value c, ck_spent_amount = 0,
             ck_expiry_timestamp = block_timestamp c + ttl\<rparr>)"
    and keys: "wallet_clone_keys t = (wallet_clone_keys s)
       (caller c := us_insert a (wallet_clone_keys s (caller c)))"
    by (auto simp: authorize_clone_key_def res_simps Let_def clone_event_defs receive_def)
  have dist: "distinct (wallet_clone_keys s (caller c))"
    using assms(2) by (simp add: clone_inv_def)
  have "a \<notin> set (wallet_clone_keys s w)" for w
    using assms(2) new(1) by (auto simp: clone_inv_def)
  then show ?thesis
    using assms(2) new us.len_ins_le [OF dist new(4)] us.elems_ins [OF dist]
      us.invar_ins [OF dist]
    unfolding clone_inv_def props keys by auto
qed

lemma revoke_clone_key_inv:
  assumes "revoke_clone_key c a s = Inr t" and "clone_inv s"
  shows "clone_inv t"
proof -
  from assms(1) obtain p where p: "clone_key_props s a = Some p" "ck_main_address p = caller c"
    and props: "clone_key_props t = (clone_key_props s)(a := None)"
    and keys: "wallet_clone_keys t = (wallet_clone_keys s)
       (caller c := us_swap_remove a (wallet_clone_keys s (caller c)))"
    by (auto simp: revoke_clone_key_def res_simps Let_def clone_event_defs split: if_splits)
  have dist: "distinct (wallet_clone_keys s (caller c))"
    and len: "length (wallet_clone_keys s (caller c)) \<le> MAX_CLONE_KEYS_PER_WALLET"
    using assms(2) by (simp_all add: clone_inv_def)
  have "length (us_swap_remove a (wallet_clone_keys s (caller c))) \<le> MAX_CLONE_KEYS_PER_WALLET"
    using us.len_del_le [OF dist, of a] len by linarith
  then show ?thesis
    using assms(2) p us.elems_del [OF dist, of a] us.invar_del [OF dist, of a]
    unfolding clone_inv_def props keys by (auto split: if_splits)
qed

lemma revoke_clone_key_Inr:
  assumes "revoke_clone_key c a s = Inr t"
  obtains p where "egld_value c = 0" "esdt_transfers c = []" "clone_key_props s a = Some p"
    "ck_main_address p = caller c" "clone_budget p \<le> egld_balance s"
    "t = s\<lparr>clone_key_props := (clone_key_props s)(a := None),
           wallet_clone_keys := (wallet_clone_keys s)
             (caller c := us_swap_remove a (wallet_clone_keys s (caller c))),
           egld_balance := egld_balance s - clone_budget p,
           outbox := outbox s @ send_pos (caller c) (clone_budget p) @
             [Event ''cloneKeyRevoked'' [AAddr (caller c), AAddr a, ANat (clone_budget p)]]\<rparr>"
proof -
  have b: "(if ck_spent_amount p < ck_spend_limit p then ck_spend_limit p - ck_spent_amount p
      else 0) = clone_budget p" for p
    by (simp add: clone_budget_def)
  show thesis
    using assms unfolding revoke_clone_key_def
    apply (simp only: res_simps Let_def b)
    apply (elim exE conjE)
    apply (rule that; (assumption | auto simp: clone_event_defs))
    done
qed

lemma fund_clone_key_inv:
  assumes "fund_clone_key c a s = Inr t" and "clone_inv s"
  shows "clone_inv t"
proof -
  from assms(1) obtain p where p: "clone_key_props s a = Some p"
    "ck_spend_limit p + egld_value c \<le> MAX_CLONE_KEY_SPEND_LIMIT"
    and t: "clone_key_props t = (clone_key_props s)
        (a \<mapsto> p\<lparr>ck_spend_limit := ck_spend_limit p + egld_value c\<rparr>)"
      "wallet_clone_keys t = wallet_clone_keys s"
    by (auto simp: fund_clone_key_def res_simps Let_def clone_event_defs receive_def)
  show ?thesis
    by (rule clone_inv_update [OF assms(2) p(1)])
      (use p t clone_invD [OF assms(2) p(1)] in auto)
qed

end
