(* ===== verification/Scheduler_Scheduling.thy ===== *)
theory Scheduler_Scheduling
  imports Scheduler_Clone_Keys
begin

text \<open>
  Creation and cancellation of tasks (contracts/scheduler/src/scheduling.rs). A task is stored
  under the hash of its encoding; only the owner, the deposit, the status and the start of the
  execution are kept on chain.
\<close>

section \<open>Internal functions\<close>

text \<open>
  Where the deposit comes from: the call value, or the budget of the clone key that calls.
  Both scheduling endpoints start with these lines.
\<close>

definition task_deposit :: "ctx \<Rightarrow> bool \<Rightarrow> nat option \<Rightarrow> sched \<Rightarrow> (nat \<times> sched) res" where
  "task_deposit c is_clone_key requested s =
     (if is_clone_key then
        require (egld_value c = 0) ''Clone-Keys cannot attach raw EGLD'' (
        case requested of
          None \<Rightarrow> Inl (UserError ''Clone-Key must specify requested_deposit'')
        | Some req \<Rightarrow> bind_res (charge_clone_key c (caller c) req s) (\<lambda>s. Inr (req, s)))
      else Inr (egld_value c, s))"

definition validate_task_parameters :: "task \<Rightarrow> nat \<Rightarrow> sched \<Rightarrow> unit res" where
  "validate_task_parameters tp deposit s =
     require (min_deposit s \<le> deposit) ''Deposit below minimum'' (
     bind_res (require_deposit_within_cap deposit s) (\<lambda>_.
     require (t_max_gas tp \<le> 400000000) ''max_gas too high'' (
     require (5000000 \<le> t_max_gas tp) ''XCRON-PROTECT: max_gas too low'' (
     require (t_ttl_seconds tp \<le> 157680000) ''ttl_seconds exceeds 5 years'' (
     require (t_created_at tp \<le> 200000000000000) ''created_at malformed'' (
     case t_trigger tp of
       TimeOnce target \<Rightarrow> require (target \<le> 200000000000000) ''target_time too large'' (Inr ())
     | TimeRecurring start _ _ \<Rightarrow>
         require (start \<le> 200000000000000) ''start_time too large'' (Inr ())
     | _ \<Rightarrow> Inr ()))))))"

definition enforce_rate_limits :: "ctx \<Rightarrow> address \<Rightarrow> sched \<Rightarrow> sched res" where
  "enforce_rate_limits c own s =
     require (length (owner_tasks s own) < 100) ''S-9: Too many active tasks'' (
     let round = block_round c;
         this_round = tasks_per_round s own round;
         max_per_round = max_tasks_per_round s
     in require (0 < max_per_round \<longrightarrow> this_round < max_per_round)
          ''S-11: Too many tasks this round'' (
     Inr (s\<lparr>tasks_per_round := (tasks_per_round s)
              (own := (tasks_per_round s own)(round := this_round + 1))\<rparr>)))"

text \<open>The task is stored as pending and listed for its owner.\<close>

definition store_pending :: "hash32 \<Rightarrow> address \<Rightarrow> nat \<Rightarrow> sched \<Rightarrow> sched" where
  "store_pending h own deposit s =
     s\<lparr>quantum_tasks := (quantum_tasks s)(h \<mapsto> \<lparr>q_owner = own, q_deposit = deposit,
         q_status = Pending, q_executing_at = 0\<rparr>),
       owner_tasks := (owner_tasks s)(own := us_insert h (owner_tasks s own))\<rparr>"

section \<open>Endpoints\<close>

definition schedule_quantum_task ::
  "sched_env \<Rightarrow> ctx \<Rightarrow> task \<Rightarrow> nat option \<Rightarrow> sched \<Rightarrow> (hash32 \<times> sched) res" where
  "schedule_quantum_task e c tp requested s0 = payable_egld c (let s = receive c s0 in
     require_not_paused s (
     let (own, is_clone_key) = resolve_caller c s in
     bind_res (task_deposit c is_clone_key requested s) (\<lambda>(deposit, s).
     bind_res (validate_task_parameters tp deposit s) (\<lambda>_.
     let h = sha256 e (encode_task e tp) in
     require (quantum_tasks s h = None) ''Task hash already exists'' (
     bind_res (enforce_rate_limits c own s) (\<lambda>s.
     Inr (h, task_scheduled_event_quantum h own (t_target_contract tp) (get_timestamp_ms c)
               (store_pending h own deposit s))))))))"

definition sovereign_task_hash :: "sched_env \<Rightarrow> bytes \<Rightarrow> address \<Rightarrow> nat \<Rightarrow> hash32" where
  "sovereign_task_hash e payload own deposit =
     sha256 e (encode_into e (payload @ bytes32 own) (to_bytes_be deposit))"

definition schedule_sovereign_task ::
  "sched_env \<Rightarrow> ctx \<Rightarrow> bytes \<Rightarrow> nat option \<Rightarrow> sched \<Rightarrow> (hash32 \<times> sched) res" where
  "schedule_sovereign_task e c payload requested s0 = payable_egld c (let s = receive c s0 in
     require_not_paused s (
     let (own, is_clone_key) = resolve_caller c s in
     bind_res (task_deposit c is_clone_key requested s) (\<lambda>(deposit, s).
     require (min_deposit s \<le> deposit) ''Deposit below minimum'' (
     bind_res (require_deposit_within_cap deposit s) (\<lambda>_.
     let h = sovereign_task_hash e payload own deposit in
     require (quantum_tasks s h = None) ''Sovereign task already exists'' (
     Inr (h, xse_payload_triggered_event own payload (store_pending h own deposit s))))))))"

definition cancel_quantum_task :: "ctx \<Rightarrow> hash32 \<Rightarrow> sched \<Rightarrow> sched res" where
  "cancel_quantum_task c h s = not_payable c (require_not_paused s (
     bind_res (get_slot (quantum_tasks s h)) (\<lambda>st.
     require (q_owner st \<noteq> 0) ''Task not found'' (
     let (own, _) = resolve_caller c s in
     require (q_owner st = own) ''Not task owner'' (
     require (q_status st = Pending) ''Only Pending tasks can be cancelled'' (
     let s = s\<lparr>quantum_tasks := (quantum_tasks s)(h := None),
               owner_tasks := (owner_tasks s)
                 (q_owner st := us_swap_remove h (owner_tasks s (q_owner st)))\<rparr>;
         penalty_fee = bps_of (q_deposit st) (protocol_fee_bps s);
         refund = (if penalty_fee < q_deposit st then q_deposit st - penalty_fee else 0)
     in bind_res (if 0 < refund then direct_egld (q_owner st) refund s else Inr s) (\<lambda>s.
     let s = (if 0 < penalty_fee
              then s\<lparr>accrued_protocol_fees := accrued_protocol_fees s + penalty_fee\<rparr> else s)
     in Inr (task_cancelled_event_quantum h s))))))))"

section \<open>Inversion\<close>

lemma task_deposit_Inr:
  assumes "task_deposit c b req s = Inr (d, t)"
  obtains "\<not> b" "d = egld_value c" "t = s"
    | p where "b" "egld_value c = 0" "req = Some d" "clone_key_props s (caller c) = Some p"
        "ck_spent_amount p + d \<le> ck_spend_limit p"
        "t = s\<lparr>clone_key_props := (clone_key_props s)
               (caller c \<mapsto> p\<lparr>ck_spent_amount := ck_spent_amount p + d\<rparr>)\<rparr>"
  using assms by (auto simp: task_deposit_def res_simps sched_simps split: if_splits option.splits)

lemma validate_task_parameters_Inr [sched_simps]:
  "validate_task_parameters tp d s = Inr u \<longleftrightarrow> min_deposit s \<le> d \<and>
     (max_exec_value_egld s = 0 \<or> d \<le> max_exec_value_egld s) \<and>
     5000000 \<le> t_max_gas tp \<and> t_max_gas tp \<le> 400000000 \<and> t_ttl_seconds tp \<le> 157680000 \<and>
     t_created_at tp \<le> 200000000000000 \<and>
     (case t_trigger tp of TimeOnce x \<Rightarrow> x \<le> 200000000000000
        | TimeRecurring x _ _ \<Rightarrow> x \<le> 200000000000000 | _ \<Rightarrow> True)"
  by (auto simp: validate_task_parameters_def res_simps sched_simps split: trigger.splits)

lemma enforce_rate_limits_Inr [sched_simps]:
  "enforce_rate_limits c own s = Inr t \<longleftrightarrow> length (owner_tasks s own) < 100 \<and>
     (max_tasks_per_round s = 0 \<or>
        tasks_per_round s own (block_round c) < max_tasks_per_round s) \<and>
     t = s\<lparr>tasks_per_round := (tasks_per_round s)
             (own := (tasks_per_round s own)(block_round c :=
                tasks_per_round s own (block_round c) + 1))\<rparr>"
  by (auto simp: enforce_rate_limits_def res_simps Let_def word_gt_0)

lemma schedule_quantum_task_Inr:
  assumes "schedule_quantum_task e c tp req s = Inr (h, t)"
  obtains own b d s1 s2 where "\<not> paused s" "esdt_transfers c = []"
    "resolve_caller c (receive c s) = (own, b)"
    "task_deposit c b req (receive c s) = Inr (d, s1)"
    "validate_task_parameters tp d s1 = Inr ()" "h = sha256 e (encode_task e tp)"
    "quantum_tasks s1 h = None" "enforce_rate_limits c own s1 = Inr s2"
    "t = task_scheduled_event_quantum h own (t_target_contract tp) (get_timestamp_ms c)
           (store_pending h own d s2)"
  using assms
  by (auto simp: schedule_quantum_task_def res_simps Let_def split: prod.splits)

lemma schedule_sovereign_task_Inr:
  assumes "schedule_sovereign_task e c pl req s = Inr (h, t)"
  obtains own b d s1 where "\<not> paused s" "esdt_transfers c = []"
    "resolve_caller c (receive c s) = (own, b)"
    "task_deposit c b req (receive c s) = Inr (d, s1)" "min_deposit s1 \<le> d"
    "max_exec_value_egld s1 = 0 \<or> d \<le> max_exec_value_egld s1"
    "h = sovereign_task_hash e pl own d" "quantum_tasks s1 h = None"
    "t = xse_payload_triggered_event own pl (store_pending h own d s1)"
  using assms
  by (auto simp: schedule_sovereign_task_def res_simps Let_def sched_simps split: prod.splits)

lemma cancel_quantum_task_Inr:
  assumes "cancel_quantum_task c h s = Inr t"
  obtains st fee refund where "egld_value c = 0" "esdt_transfers c = []" "\<not> paused s"
    "quantum_tasks s h = Some st" "q_owner st \<noteq> 0" "fst (resolve_caller c s) = q_owner st"
    "q_status st = Pending" "fee = bps_of (q_deposit st) (protocol_fee_bps s)"
    "refund = (if fee < q_deposit st then q_deposit st - fee else 0)" "refund \<le> egld_balance s"
    "t = s\<lparr>quantum_tasks := (quantum_tasks s)(h := None),
           owner_tasks := (owner_tasks s)
             (q_owner st := us_swap_remove h (owner_tasks s (q_owner st))),
           egld_balance := egld_balance s - refund,
           accrued_protocol_fees := accrued_protocol_fees s + fee,
           outbox := outbox s @ send_pos (q_owner st) refund @
             [Event ''taskCancelledQuantum'' [AHash h]]\<rparr>"
proof -
  obtain own b where r: "resolve_caller c s = (own, b)" by (cases "resolve_caller c s")
  have "\<exists>st. quantum_tasks s h = Some st \<and> egld_value c = 0 \<and> esdt_transfers c = [] \<and>
      \<not> paused s \<and> q_owner st \<noteq> 0 \<and> q_owner st = own \<and> q_status st = Pending"
    using assms unfolding cancel_quantum_task_def
    by (simp only: r res_simps Let_def prod.case sum.inject sched_simps) blast
  then obtain st where st: "quantum_tasks s h = Some st" "egld_value c = 0" "esdt_transfers c = []"
    "\<not> paused s" "q_owner st \<noteq> 0" "q_owner st = own" "q_status st = Pending" by blast
  show thesis
    by (rule that [OF _ _ _ st(1) _ _ _ refl refl])
      (insert assms, simp_all add: cancel_quantum_task_def st r res_simps Let_def sched_simps
        task_cancelled_event_quantum_def emit_def cong: if_cong split del: if_split)
qed

end
