(* ===== verification/Scheduler_Execution.thy ===== *)
theory Scheduler_Execution
  imports Scheduler_Scheduling
begin

text \<open>
  Execution of tasks (contracts/scheduler/src/execution.rs): a keeper presents the payload of
  a task, the contract checks it against the stored hash, marks the task as executing and
  registers an asynchronous call; the callback pays out the deposit. Confidential tasks are
  not called but settled later by the keeper that took them, or rescued by their owner.
\<close>

section \<open>Checks\<close>

definition require_xwap_market_safe :: "sched_env \<Rightarrow> sched \<Rightarrow> sched res" where
  "require_xwap_market_safe e s =
     bind_res (get_slot (xwap_address s)) (\<lambda>xwap_addr.
     if xwap_addr \<noteq> 0 then
       bind_res (sync_call e xwap_addr ''isSafeToExecute'' [] s) (\<lambda>(raw_results, s).
       require (first_bool e raw_results) ''XWAP Oracle unsafe: market conditions not met'' (Inr s))
     else Inr s)"

definition ripe_time_ms :: "ctx \<Rightarrow> task \<Rightarrow> u64" where
  "ripe_time_ms c tp = (case t_trigger tp of
     TimeOnce target \<Rightarrow> target
   | TimeRecurring start _ _ \<Rightarrow> start
   | _ \<Rightarrow> block_timestamp c * 1000)"

definition assigned_index :: "sched_env \<Rightarrow> ctx \<Rightarrow> task \<Rightarrow> hash32 \<Rightarrow> nat \<Rightarrow> nat" where
  "assigned_index e c tp h keeper_count =
     (let hash_data = bytes32 h @ u64_be (ripe_time_ms c tp) @ random_seed c;
          hash = sha256 e hash_data
      in from_bytes_be (take 8 (bytes32 hash)) mod keeper_count + 1)"

definition perform_round_robin_check ::
  "sched_env \<Rightarrow> ctx \<Rightarrow> task \<Rightarrow> hash32 \<Rightarrow> address \<Rightarrow> sched \<Rightarrow> unit res" where
  "perform_round_robin_check e c tp h keeper s =
     (let keeper_count = length (keeper_list s) in
      if 1 < keeper_count then
        bind_res (vec_get (keeper_list s) (assigned_index e c tp h keeper_count)) (\<lambda>assigned_keeper.
        if keeper \<noteq> assigned_keeper then
          let current_time_ms = block_timestamp c * 1000 in
          require (ripe_time_ms c tp + ROUND_ROBIN_GRACE_SECONDS * 1000 \<le> current_time_ms)
            ''Task assigned to another keeper'' (Inr ())
        else Inr ())
      else Inr ())"

section \<open>Dispatch\<close>

definition is_cross_shard :: "sched_env \<Rightarrow> ctx \<Rightarrow> task \<Rightarrow> bool" where
  "is_cross_shard e c tp \<longleftrightarrow> shard_of e (t_target_contract tp) \<noteq> shard_of e (sc_address c)"

definition cross_shard_overhead :: "sched_env \<Rightarrow> ctx \<Rightarrow> task \<Rightarrow> address \<Rightarrow> sched \<Rightarrow> u64" where
  "cross_shard_overhead e c tp keeper s =
     (if \<not> is_cross_shard e c tp then 0
      else if keeper_shard s keeper = shard_of e (t_target_contract tp)
           then t_max_gas tp * 15 div 100
      else t_max_gas tp * 30 div 100)"

definition callback_gas :: "sched_env \<Rightarrow> ctx \<Rightarrow> task \<Rightarrow> u64" where
  "callback_gas e c tp = (if is_cross_shard e c tp then CALLBACK_GAS_RESERVE
                          else CALLBACK_GAS_RESERVE * 80 div 100)"

definition min_gas_needed :: "sched_env \<Rightarrow> ctx \<Rightarrow> task \<Rightarrow> address \<Rightarrow> sched \<Rightarrow> u64" where
  "min_gas_needed e c tp keeper s =
     t_max_gas tp + cross_shard_overhead e c tp keeper s + callback_gas e c tp + 10000000"

text \<open>
  \<open>quantum_state\<close> was read by the caller before the oracles were called; it is written
  back here as it was then.
\<close>

definition dispatch_task_execution ::
  "sched_env \<Rightarrow> ctx \<Rightarrow> hash32 \<Rightarrow> task \<Rightarrow> address \<Rightarrow> quantum_task_state \<Rightarrow> sched \<Rightarrow> sched res" where
  "dispatch_task_execution e c h tp keeper quantum_state s =
     bind_res (require_task_ripe_quantum e c tp s) (\<lambda>s.
     bind_res (require_safe_target c (t_target_contract tp) (t_target_endpoint tp) s) (\<lambda>_.
     bind_res (if t_require_xwap_safe tp then require_xwap_market_safe e s else Inr s) (\<lambda>s.
     require (min_gas_needed e c tp keeper s \<le> gas_left c) ''Insufficient gas'' (
     let s = s\<lparr>quantum_tasks := (quantum_tasks s)(h \<mapsto> quantum_state
               \<lparr>q_status := Executing, q_executing_at := block_timestamp c\<rparr>)\<rparr> in
     if t_confidential tp then Inr (xse_payload_triggered_event keeper (bytes32 h) s)
     else Inr (s\<lparr>promises := promises s @
            [\<lparr>ep_to = t_target_contract tp, ep_endpoint = t_target_endpoint tp,
              ep_args = t_target_args tp, ep_gas = t_max_gas tp,
              ep_callback_gas = callback_gas e c tp, ep_task_hash = h,
              ep_target_contract = t_target_contract tp, ep_keeper = keeper\<rparr>]\<rparr>)))))"

definition execute_quantum_task ::
  "sched_env \<Rightarrow> ctx \<Rightarrow> task \<Rightarrow> hash32 option \<Rightarrow> sched \<Rightarrow> sched res" where
  "execute_quantum_task e c tp quantum_secret s = not_payable c (require_not_paused s (
     let keeper = caller c in
     bind_res (require_registered_keeper keeper s) (\<lambda>_.
     let h = sha256 e (encode_task e tp) in
     require (quantum_tasks s h \<noteq> None) ''Q-1: Invalid Quantum Seal.'' (
     bind_res (get_slot (quantum_tasks s h)) (\<lambda>quantum_state.
     require (q_status quantum_state = Pending) ''Task not Pending'' (
     bind_res (case t_trigger tp of
         QuantumSealedHash expected \<Rightarrow> (case quantum_secret of
             None \<Rightarrow> Inl (UserError ''Missing Quantum Secret'')
           | Some secret \<Rightarrow>
               require (length (bytes32 secret) = 32)
                 ''XCRON-PROTECT: Quantum Secret must be 32 bytes'' (
               require (sha256 e (bytes32 secret) = expected) ''Q-1: Quantum Hash Seal broken''
                 (Inr ())))
       | _ \<Rightarrow> Inr ()) (\<lambda>_.
     bind_res (case t_assigned_keeper tp of
         Some assigned \<Rightarrow> require (keeper = assigned) ''MEV Protection: Locked task'' (Inr ())
       | None \<Rightarrow> Inr ()) (\<lambda>_.
     bind_res (perform_round_robin_check e c tp h keeper s) (\<lambda>_.
     let s = (if t_confidential tp
              then s\<lparr>assigned_enclave_keeper := (assigned_enclave_keeper s)(h \<mapsto> keeper)\<rparr> else s)
     in dispatch_task_execution e c h tp keeper quantum_state s)))))))))"

definition execute_compressed_task ::
  "sched_env \<Rightarrow> ctx \<Rightarrow> task \<Rightarrow> bytes \<Rightarrow> sched \<Rightarrow> sched res" where
  "execute_compressed_task e c tp packed_proof s = not_payable c (require_not_paused s (
     let keeper = caller c in
     bind_res (require_registered_keeper keeper s) (\<lambda>_.
     let h = sha256 e (encode_task e tp) in
     require (\<not> used_compressed_tasks s h) ''XSC: Task already executed'' (
     bind_res (get_slot (xsc_address s)) (\<lambda>xsc_addr.
     require (xsc_addr \<noteq> 0) ''XSC: Core address not configured'' (
     bind_res (sync_call e xsc_addr ''verifyProof'' [AHash h, ABytes packed_proof] s)
       (\<lambda>(raw_result, s).
     require (first_bool e raw_result) ''XSC: Invalid State Proof'' (
     let virtual_state = \<lparr>q_owner = t_owner tp, q_deposit = t_deposit tp, q_status = Pending,
                          q_executing_at = 0\<rparr>
     in dispatch_task_execution e c h tp keeper virtual_state s))))))))"

section \<open>Settlement\<close>

definition calculate_reward :: "nat \<Rightarrow> sched \<Rightarrow> nat" where
  "calculate_reward deposit s =
     (let protocol_fee = bps_of deposit (protocol_fee_bps s);
          uncapped_reward = (if protocol_fee < deposit then deposit - protocol_fee else 0);
          max_reward = max_reward_per_exec s
      in if 0 < max_reward \<and> max_reward < uncapped_reward then max_reward else uncapped_reward)"

definition finalize_successful_execution ::
  "hash32 \<Rightarrow> address \<Rightarrow> address \<Rightarrow> nat \<Rightarrow> address \<Rightarrow> sched \<Rightarrow> sched res" where
  "finalize_successful_execution h target keeper deposit own s =
     (let s = s\<lparr>quantum_tasks := (quantum_tasks s)(h := None),
               owner_tasks := (owner_tasks s)(own := us_swap_remove h (owner_tasks s own)),
               used_compressed_tasks := (used_compressed_tasks s)(h := True),
               assigned_enclave_keeper := (assigned_enclave_keeper s)(h := None),
               total_successful_execs := total_successful_execs s + 1\<rparr>;
          s = (if target \<noteq> 0
               then s\<lparr>target_failure_count := (target_failure_count s)(target := 0)\<rparr> else s);
          reward = calculate_reward deposit s;
          protocol_fee = bps_of deposit (protocol_fee_bps s)
      in bind_res (direct_egld keeper reward s) (\<lambda>s.
      let total_spent = reward + protocol_fee in
      bind_res (if total_spent < deposit then direct_egld own (deposit - total_spent) s
                else Inr s) (\<lambda>s.
      bind_res (forward_keeper_result keeper True (forward_protocol_fee keeper 0 protocol_fee s)) (\<lambda>s.
      Inr (task_executed_event_quantum h keeper True s)))))"

definition finalize_failed_execution ::
  "hash32 \<Rightarrow> address \<Rightarrow> address \<Rightarrow> nat \<Rightarrow> address \<Rightarrow> sched \<Rightarrow> sched res" where
  "finalize_failed_execution h target keeper deposit own s =
     (let failures = target_failure_count s target + 1;
          s = s\<lparr>quantum_tasks := (quantum_tasks s)(h := None),
               owner_tasks := (owner_tasks s)(own := us_swap_remove h (owner_tasks s own)),
               assigned_enclave_keeper := (assigned_enclave_keeper s)(h := None),
               total_failed_execs := total_failed_execs s + 1,
               target_failure_count := (target_failure_count s)(target := failures)\<rparr>;
          s = (if MAX_TARGET_FAILURES \<le> failures
               then s\<lparr>target_blacklist := us_insert target (target_blacklist s)\<rparr> else s);
          protocol_fee = bps_of deposit (protocol_fee_bps s)
      in bind_res (if protocol_fee < deposit then direct_egld own (deposit - protocol_fee) s
                   else Inr s) (\<lambda>s.
      bind_res (forward_keeper_result keeper False (forward_protocol_fee keeper 0 protocol_fee s)) (\<lambda>s.
      Inr (task_executed_event_quantum h keeper False s))))"

definition execution_callback ::
  "hash32 \<Rightarrow> address \<Rightarrow> address \<Rightarrow> bool \<Rightarrow> sched \<Rightarrow> sched res" where
  "execution_callback h target keeper result_ok s =
     bind_res (get_slot (quantum_tasks s h)) (\<lambda>quantum_state.
     if result_ok
     then finalize_successful_execution h target keeper (q_deposit quantum_state)
            (q_owner quantum_state) s
     else finalize_failed_execution h target keeper (q_deposit quantum_state)
            (q_owner quantum_state) s)"

text \<open>
  The virtual machine delivers the result of a registered call once. A callback that fails is
  rolled back, but the call it belongs to is not delivered again.
\<close>

definition deliver_callback :: "nat \<Rightarrow> bool \<Rightarrow> sched \<Rightarrow> sched res" where
  "deliver_callback i result_ok s = vm_require (i < length (promises s)) ''no such promise'' (
     let p = promises s ! i;
         s = s\<lparr>promises := take i (promises s) @ drop (Suc i) (promises s)\<rparr>
     in case execution_callback (ep_task_hash p) (ep_target_contract p) (ep_keeper p) result_ok s of
          Inl _ \<Rightarrow> Inr s
        | Inr s' \<Rightarrow> Inr s')"

section \<open>Confidential tasks\<close>

definition settle_xse_task :: "sched_env \<Rightarrow> ctx \<Rightarrow> hash32 \<Rightarrow> bytes \<Rightarrow> sched \<Rightarrow> sched res" where
  "settle_xse_task e c h zk_proof s = not_payable c (require_not_paused s (
     let enforcer = caller c in
     bind_res (require_registered_keeper enforcer s) (\<lambda>_.
     bind_res (get_slot (assigned_enclave_keeper s h)) (\<lambda>assigned.
     require (enforcer = assigned) ''XSE: Unauthorized settler'' (
     bind_res (get_slot (quantum_tasks s h)) (\<lambda>quantum_state.
     require (q_status quantum_state = Executing) ''XSE: Task not in execution state'' (
     bind_res (get_slot (zk_verifier_addr s)) (\<lambda>zk_verifier.
     bind_res (if zk_verifier \<noteq> 0 then
         bind_res (sync_call e zk_verifier ''verifyZkProof'' [AHash h, ABytes zk_proof] s)
           (\<lambda>(raw_result, s).
         require (first_bool e raw_result) ''XSE: Invalid Enclave ZK-Proof'' (Inr s))
       else Inr s) (\<lambda>s.
     finalize_successful_execution h 0 enforcer (q_deposit quantum_state)
       (q_owner quantum_state) s)))))))))"

definition trigger_xse_enclave :: "ctx \<Rightarrow> bytes \<Rightarrow> sched \<Rightarrow> sched res" where
  "trigger_xse_enclave c payload s = not_payable c (
     bind_res (require_registered_keeper (caller c) s) (\<lambda>_.
     Inr (xse_payload_triggered_event (caller c) payload s)))"

definition rescue_stuck_xse_task :: "ctx \<Rightarrow> hash32 \<Rightarrow> sched \<Rightarrow> sched res" where
  "rescue_stuck_xse_task c h s = not_payable c (require_not_paused s (
     require (quantum_tasks s h \<noteq> None) ''Task not found'' (
     bind_res (get_slot (quantum_tasks s h)) (\<lambda>quantum_state.
     require (q_status quantum_state = Executing) ''V12: Task is not in Executing state'' (
     let current_time = block_timestamp c;
         stuck_threshold = 24 * 60 * 60
     in require (q_executing_at quantum_state + stuck_threshold \<le> current_time)
       ''V12: Task has not been stuck for 24 hours yet'' (
     require (caller c = q_owner quantum_state \<or> caller c = owner_address c)
       ''V12: Only task owner or protocol owner can rescue'' (
     bind_res (get_slot (assigned_enclave_keeper s h)) (\<lambda>assigned_keeper.
     bind_res (if assigned_keeper \<noteq> 0 then forward_keeper_result assigned_keeper False s
               else Inr s) (\<lambda>s.
     let own = q_owner quantum_state;
         s = s\<lparr>quantum_tasks := (quantum_tasks s)(h := None),
               owner_tasks := (owner_tasks s)(own := us_swap_remove h (owner_tasks s own)),
               assigned_enclave_keeper := (assigned_enclave_keeper s)(h := None)\<rparr>
     in bind_res (direct_egld own (q_deposit quantum_state) s) (\<lambda>s.
     Inr (task_executed_event_quantum h assigned_keeper False s)))))))))))"

section \<open>Inversion\<close>

lemma finalize_successful_Inr:
  assumes "finalize_successful_execution h tg k d own s = Inr t"
  obtains reward fee where "reward = calculate_reward d s" "fee = bps_of d (protocol_fee_bps s)"
    "reward + (d - (reward + fee)) \<le> egld_balance s"
    "t = s\<lparr>quantum_tasks := (quantum_tasks s)(h := None),
           owner_tasks := (owner_tasks s)(own := us_swap_remove h (owner_tasks s own)),
           used_compressed_tasks := (used_compressed_tasks s)(h := True),
           assigned_enclave_keeper := (assigned_enclave_keeper s)(h := None),
           total_successful_execs := total_successful_execs s + 1,
           target_failure_count := (if tg \<noteq> 0 then (target_failure_count s)(tg := 0)
                                    else target_failure_count s),
           egld_balance := egld_balance s - (reward + (d - (reward + fee))),
           accrued_protocol_fees := accrued_protocol_fees s + fee,
           outbox := outbox s @ SendEgld k reward #
             send_pos own (d - (reward + fee)) @
             keeper_report k True s @
             [Event ''taskExecutedQuantum'' [AHash h, AAddr k, ABool True]]\<rparr>"
proof -
  define s1 where "s1 = s\<lparr>quantum_tasks := (quantum_tasks s)(h := None),
           owner_tasks := (owner_tasks s)(own := us_swap_remove h (owner_tasks s own)),
           used_compressed_tasks := (used_compressed_tasks s)(h := True),
           assigned_enclave_keeper := (assigned_enclave_keeper s)(h := None),
           total_successful_execs := total_successful_execs s + 1,
           target_failure_count := (if tg \<noteq> 0 then (target_failure_count s)(tg := 0)
                                    else target_failure_count s)\<rparr>"
  have s1: "(if tg \<noteq> 0 then s'\<lparr>target_failure_count := (target_failure_count s')(tg := 0)\<rparr> else s') = s1"
    if "s' = s\<lparr>quantum_tasks := (quantum_tasks s)(h := None),
               owner_tasks := (owner_tasks s)(own := us_swap_remove h (owner_tasks s own)),
               used_compressed_tasks := (used_compressed_tasks s)(h := True),
               assigned_enclave_keeper := (assigned_enclave_keeper s)(h := None),
               total_successful_execs := total_successful_execs s + 1\<rparr>" for s'
    by (simp add: that s1_def)
  have sel: "calculate_reward d s1 = calculate_reward d s" "protocol_fee_bps s1 = protocol_fee_bps s"
    "keeper_registry_addr s1 = keeper_registry_addr s" "egld_balance s1 = egld_balance s"
    by (simp_all add: s1_def calculate_reward_def)
  show thesis
    using assms unfolding finalize_successful_execution_def
    apply (simp only: Let_def s1 [OF refl] sel res_simps sched_simps)
    apply (elim exE conjE)
    apply (rule that [OF refl refl])
     apply (simp add: sel)
    apply (simp add: task_executed_event_quantum_def emit_def keeper_report_def sel s1_def
        split del: if_split)
    done
qed

lemma finalize_failed_Inr:
  assumes "finalize_failed_execution h tg k d own s = Inr t"
  obtains fee failures where "fee = bps_of d (protocol_fee_bps s)"
    "failures = target_failure_count s tg + 1" "d - fee \<le> egld_balance s"
    "t = s\<lparr>quantum_tasks := (quantum_tasks s)(h := None),
           owner_tasks := (owner_tasks s)(own := us_swap_remove h (owner_tasks s own)),
           assigned_enclave_keeper := (assigned_enclave_keeper s)(h := None),
           total_failed_execs := total_failed_execs s + 1,
           target_failure_count := (target_failure_count s)(tg := failures),
           target_blacklist := (if MAX_TARGET_FAILURES \<le> failures
                                then us_insert tg (target_blacklist s) else target_blacklist s),
           egld_balance := egld_balance s - (d - fee),
           accrued_protocol_fees := accrued_protocol_fees s + fee,
           outbox := outbox s @ send_pos own (d - fee) @
             keeper_report k False s @
             [Event ''taskExecutedQuantum'' [AHash h, AAddr k, ABool False]]\<rparr>"
proof -
  define s1 where "s1 = s\<lparr>quantum_tasks := (quantum_tasks s)(h := None),
           owner_tasks := (owner_tasks s)(own := us_swap_remove h (owner_tasks s own)),
           assigned_enclave_keeper := (assigned_enclave_keeper s)(h := None),
           total_failed_execs := total_failed_execs s + 1,
           target_failure_count := (target_failure_count s)(tg := target_failure_count s tg + 1),
           target_blacklist := (if MAX_TARGET_FAILURES \<le> target_failure_count s tg + 1
                                then us_insert tg (target_blacklist s) else target_blacklist s)\<rparr>"
  have s1: "(if MAX_TARGET_FAILURES \<le> target_failure_count s tg + 1
      then s'\<lparr>target_blacklist := us_insert tg (target_blacklist s')\<rparr> else s') = s1"
    if "s' = s\<lparr>quantum_tasks := (quantum_tasks s)(h := None),
               owner_tasks := (owner_tasks s)(own := us_swap_remove h (owner_tasks s own)),
               assigned_enclave_keeper := (assigned_enclave_keeper s)(h := None),
               total_failed_execs := total_failed_execs s + 1,
               target_failure_count :=
                 (target_failure_count s)(tg := target_failure_count s tg + 1)\<rparr>" for s'
    by (simp add: that s1_def)
  have sel: "protocol_fee_bps s1 = protocol_fee_bps s" "egld_balance s1 = egld_balance s"
    "keeper_registry_addr s1 = keeper_registry_addr s"
    by (simp_all add: s1_def)
  show thesis
    using assms unfolding finalize_failed_execution_def
    apply (simp only: Let_def s1 [OF refl] sel res_simps sched_simps)
    apply (elim exE conjE)
    apply (rule that [OF refl refl])
     apply (simp add: sel)
    apply (simp add: task_executed_event_quantum_def emit_def keeper_report_def sel s1_def
        split del: if_split)
    done
qed

text \<open>What a dispatch does once its checks have passed.\<close>

definition dispatched ::
  "sched_env \<Rightarrow> ctx \<Rightarrow> hash32 \<Rightarrow> task \<Rightarrow> address \<Rightarrow> quantum_task_state \<Rightarrow> sched \<Rightarrow> sched" where
  "dispatched e c h tp k st s =
     (let s = s\<lparr>quantum_tasks := (quantum_tasks s)
                (h \<mapsto> st\<lparr>q_status := Executing, q_executing_at := block_timestamp c\<rparr>)\<rparr> in
      if t_confidential tp then xse_payload_triggered_event k (bytes32 h) s
      else s\<lparr>promises := promises s @
            [\<lparr>ep_to = t_target_contract tp, ep_endpoint = t_target_endpoint tp,
              ep_args = t_target_args tp, ep_gas = t_max_gas tp,
              ep_callback_gas = callback_gas e c tp, ep_task_hash = h,
              ep_target_contract = t_target_contract tp, ep_keeper = k\<rparr>]\<rparr>)"

lemma dispatch_task_execution_Inr:
  assumes "dispatch_task_execution e c h tp k st s = Inr t"
  obtains s1 s2 where "require_task_ripe_quantum e c tp s = Inr s1"
    "require_safe_target c (t_target_contract tp) (t_target_endpoint tp) s1 = Inr ()"
    "(if t_require_xwap_safe tp then require_xwap_market_safe e s1 else Inr s1) = Inr s2"
    "min_gas_needed e c tp k s2 \<le> gas_left c"
    "t = dispatched e c h tp k st s2"
  using assms unfolding dispatch_task_execution_def
  apply (simp only: res_simps Let_def if_distrib [of Inr, symmetric])
  apply (elim exE conjE)
  apply (rule that, assumption, simp, assumption+)
  apply (simp add: dispatched_def Let_def)
  done

lemma execute_quantum_task_Inr:
  assumes "execute_quantum_task e c tp secret s = Inr t"
  obtains h st where "egld_value c = 0" "esdt_transfers c = []" "\<not> paused s"
    "caller c \<in> set (whitelisted_keepers s)" "h = sha256 e (encode_task e tp)"
    "quantum_tasks s h = Some st" "q_status st = Pending"
    "\<And>x. t_trigger tp = QuantumSealedHash x \<Longrightarrow> \<exists>w. secret = Some w \<and> sha256 e (bytes32 w) = x"
    "t_assigned_keeper tp = None \<or> t_assigned_keeper tp = Some (caller c)"
    "perform_round_robin_check e c tp h (caller c) s = Inr ()"
    "dispatch_task_execution e c h tp (caller c) st (if t_confidential tp
       then s\<lparr>assigned_enclave_keeper := (assigned_enclave_keeper s)(h \<mapsto> caller c)\<rparr> else s) = Inr t"
  using assms unfolding execute_quantum_task_def
  apply (simp only: res_simps Let_def sched_simps)
  apply (elim exE conjE)
  apply (rule that, assumption+, rule refl, assumption+)
     apply (auto simp: res_simps split: trigger.splits option.splits)
  done

lemma execute_compressed_task_Inr:
  assumes "execute_compressed_task e c tp packed s = Inr t"
  obtains h xsc raw s1 where "egld_value c = 0" "esdt_transfers c = []" "\<not> paused s"
    "caller c \<in> set (whitelisted_keepers s)" "h = sha256 e (encode_task e tp)"
    "\<not> used_compressed_tasks s h" "xsc_address s = Some xsc" "xsc \<noteq> 0"
    "sync_call e xsc ''verifyProof'' [AHash h, ABytes packed] s = Inr (raw, s1)" "first_bool e raw"
    "dispatch_task_execution e c h tp (caller c) \<lparr>q_owner = t_owner tp, q_deposit = t_deposit tp,
       q_status = Pending, q_executing_at = 0\<rparr> s1 = Inr t"
  using assms unfolding execute_compressed_task_def
  apply (simp only: res_simps Let_def sched_simps split_paired_Ex prod.case)
  apply (elim exE conjE)
  apply (rule that, assumption+, rule refl, assumption+)
  done

lemma rescue_stuck_xse_task_Inr:
  assumes "rescue_stuck_xse_task c h s = Inr t"
  obtains st k where "egld_value c = 0" "esdt_transfers c = []" "\<not> paused s"
    "quantum_tasks s h = Some st" "q_status st = Executing"
    "q_executing_at st + 86400 \<le> block_timestamp c"
    "caller c = q_owner st \<or> caller c = owner_address c"
    "assigned_enclave_keeper s h = Some k" "q_deposit st \<le> egld_balance s"
    "t = s\<lparr>quantum_tasks := (quantum_tasks s)(h := None),
           owner_tasks := (owner_tasks s)
             (q_owner st := us_swap_remove h (owner_tasks s (q_owner st))),
           assigned_enclave_keeper := (assigned_enclave_keeper s)(h := None),
           egld_balance := egld_balance s - q_deposit st,
           outbox := outbox s @ (if k \<noteq> 0 then keeper_report k False s else []) @
             [SendEgld (q_owner st) (q_deposit st),
              Event ''taskExecutedQuantum'' [AHash h, AAddr k, ABool False]]\<rparr>"
proof -
  have r: "(if k \<noteq> 0 then forward_keeper_result k False s else Inr s) = Inr u \<longleftrightarrow>
      u = s\<lparr>outbox := outbox s @ (if k \<noteq> 0 then keeper_report k False s else [])\<rparr>" for k u
    by (auto simp: sched_simps)
  show thesis
    using assms unfolding rescue_stuck_xse_task_def
    apply (simp only: res_simps Let_def r)
    apply (elim exE conjE)
    apply (rule that, assumption+, simp, assumption+)
     apply simp
    apply (simp add: task_executed_event_quantum_def emit_def split del: if_split)
    done
qed

lemma settle_xse_task_Inr:
  assumes "settle_xse_task e c h proof s = Inr t"
  obtains st zk s1 where "egld_value c = 0" "esdt_transfers c = []" "\<not> paused s"
    "caller c \<in> set (whitelisted_keepers s)" "assigned_enclave_keeper s h = Some (caller c)"
    "quantum_tasks s h = Some st" "q_status st = Executing" "zk_verifier_addr s = Some zk"
    "zk = 0 \<and> s1 = s \<or> (\<exists>raw. sync_call e zk ''verifyZkProof'' [AHash h, ABytes proof] s =
        Inr (raw, s1) \<and> first_bool e raw)"
    "finalize_successful_execution h 0 (caller c) (q_deposit st) (q_owner st) s1 = Inr t"
  using assms unfolding settle_xse_task_def
  apply (simp only: res_simps Let_def sched_simps)
  apply (elim exE conjE)
  apply (rule that, assumption+, simp, assumption+)
   apply (auto simp: res_simps split: if_splits prod.splits)
  done

section \<open>Oracle calls that do not re-enter\<close>

text \<open>
  The contracts the Scheduler queries during an execution (oracle, market gate, proof
  verifiers) are documented as read-only views: they answer and leave the Scheduler as it is.
  This is a hypothesis on code outside the Scheduler; where a theorem needs it, it says so.
\<close>

definition sync_pure :: "sched_env \<Rightarrow> bool" where
  "sync_pure e \<longleftrightarrow> (\<forall>a f args s r t. sync_call e a f args s = Inr (r, t) \<longrightarrow> t = s)"

lemma sync_pureD: "sync_pure e \<Longrightarrow> sync_call e a f args s = Inr (r, t) \<Longrightarrow> t = s"
  unfolding sync_pure_def by blast

lemma ripe_pure: "sync_pure e \<Longrightarrow> require_task_ripe_quantum e c tp s = Inr t \<Longrightarrow> t = s"
  by (auto simp: require_task_ripe_quantum_def res_simps Let_def dest: sync_pureD
      split: trigger.splits prod.splits)

lemma xwap_pure: "sync_pure e \<Longrightarrow> require_xwap_market_safe e s = Inr t \<Longrightarrow> t = s"
  by (auto simp: require_xwap_market_safe_def res_simps dest: sync_pureD
      split: if_splits prod.splits)

lemma dispatch_pure:
  assumes "dispatch_task_execution e c h tp k st s = Inr t" and "sync_pure e"
  shows "t = dispatched e c h tp k st s"
proof -
  obtain s1 s2 where "require_task_ripe_quantum e c tp s = Inr s1"
    "(if t_require_xwap_safe tp then require_xwap_market_safe e s1 else Inr s1) = Inr s2"
    "t = dispatched e c h tp k st s2"
    using assms(1) by (rule dispatch_task_execution_Inr)
  then show ?thesis
    by (auto dest!: ripe_pure [OF assms(2)] xwap_pure [OF assms(2)] split: if_splits)
qed

text \<open>The reward never exceeds what is left of the deposit after the fee.\<close>

lemma calculate_reward_le:
  "unat (protocol_fee_bps s) \<le> 10000 \<Longrightarrow> calculate_reward d s + bps_of d (protocol_fee_bps s) \<le> d"
  using bps.cut_le [of "protocol_fee_bps s" d] by (auto simp: calculate_reward_def Let_def)

lemma calculate_reward_min:
  assumes "unat (protocol_fee_bps s) \<le> 10000"
  shows "calculate_reward d s = (if max_reward_per_exec s = 0 then d - bps_of d (protocol_fee_bps s)
           else min (max_reward_per_exec s) (d - bps_of d (protocol_fee_bps s)))"
  using bps.cut_le [OF assms, of d] by (auto simp: calculate_reward_def Let_def)

end
