(* ===== verification/Scheduler_Config.thy ===== *)
theory Scheduler_Config
  imports Scheduler_State
begin

text \<open>
  Configuration and administration of the Scheduler: config.rs, admin.rs and views.rs under
  contracts/scheduler/src. Every setter is restricted to the owner of the contract.
\<close>

section \<open>Setters (config.rs)\<close>

definition owner_set :: "ctx \<Rightarrow> (sched \<Rightarrow> sched) \<Rightarrow> sched \<Rightarrow> sched res" where
  "owner_set c f s = not_payable c (only_owner c (Inr (f s)))"

definition set_min_deposit :: "ctx \<Rightarrow> nat \<Rightarrow> sched \<Rightarrow> sched res" where
  "set_min_deposit c v = owner_set c (\<lambda>s. s\<lparr>min_deposit := v\<rparr>)"

definition set_protocol_fee_bps :: "ctx \<Rightarrow> u64 \<Rightarrow> sched \<Rightarrow> sched res" where
  "set_protocol_fee_bps c v s = not_payable c (only_owner c (
     require (v \<le> BPS_DENOMINATOR) ''Fee exceeds 100%'' (Inr (s\<lparr>protocol_fee_bps := v\<rparr>))))"

definition set_reveal_window :: "ctx \<Rightarrow> u64 \<Rightarrow> sched \<Rightarrow> sched res" where
  "set_reveal_window c v = owner_set c (\<lambda>s. s\<lparr>reveal_window := v\<rparr>)"

definition set_commit_bond :: "ctx \<Rightarrow> nat \<Rightarrow> sched \<Rightarrow> sched res" where
  "set_commit_bond c v = owner_set c (\<lambda>s. s\<lparr>commit_bond := v\<rparr>)"

definition set_keeper_registry_addr :: "ctx \<Rightarrow> address \<Rightarrow> sched \<Rightarrow> sched res" where
  "set_keeper_registry_addr c a = owner_set c (\<lambda>s. s\<lparr>keeper_registry_addr := Some a\<rparr>)"

definition set_rewards_addr :: "ctx \<Rightarrow> address \<Rightarrow> sched \<Rightarrow> sched res" where
  "set_rewards_addr c a = owner_set c (\<lambda>s. s\<lparr>rewards_addr := Some a\<rparr>)"

definition set_xwap_address :: "ctx \<Rightarrow> address \<Rightarrow> sched \<Rightarrow> sched res" where
  "set_xwap_address c a = owner_set c (\<lambda>s. s\<lparr>xwap_address := Some a\<rparr>)"

definition set_xsc_address :: "ctx \<Rightarrow> address \<Rightarrow> sched \<Rightarrow> sched res" where
  "set_xsc_address c a = owner_set c (\<lambda>s. s\<lparr>xsc_address := Some a\<rparr>)"

definition set_zk_verifier_addr :: "ctx \<Rightarrow> address \<Rightarrow> sched \<Rightarrow> sched res" where
  "set_zk_verifier_addr c a = owner_set c (\<lambda>s. s\<lparr>zk_verifier_addr := Some a\<rparr>)"

definition set_max_reward_per_exec :: "ctx \<Rightarrow> nat \<Rightarrow> sched \<Rightarrow> sched res" where
  "set_max_reward_per_exec c v = owner_set c (\<lambda>s. s\<lparr>max_reward_per_exec := v\<rparr>)"

section \<open>Keeper whitelist and round-robin list (config.rs)\<close>

definition add_whitelisted_keeper :: "ctx \<Rightarrow> address \<Rightarrow> sched \<Rightarrow> sched res" where
  "add_whitelisted_keeper c keeper s = not_payable c (only_owner c (
     let s = s\<lparr>whitelisted_keepers := us_insert keeper (whitelisted_keepers s),
               keeper_list := keeper_list s @ [Some keeper]\<rparr>
     in Inr (if round_robin_counter s = 0 then s\<lparr>round_robin_counter := 0\<rparr> else s)))"

text \<open>
  The loop over \<open>1..=len\<close>: the first entry that holds the keeper is overwritten by the last
  one, and the last slot is cleared. \<open>clear_entry\<close> empties the slot and keeps the length.
\<close>

fun remove_scan ::
  "address \<Rightarrow> nat \<Rightarrow> nat list \<Rightarrow> address option list \<Rightarrow> address option list res" where
  "remove_scan keeper len [] xs = Inr xs"
| "remove_scan keeper len (i # is) xs =
     bind_res (vec_get xs i) (\<lambda>x.
     if x = keeper then
       bind_res (if i < len
                 then bind_res (vec_get xs len) (\<lambda>last. Inr (xs[i - 1 := Some last]))
                 else Inr xs) (\<lambda>xs.
       Inr (xs[len - 1 := None]))
     else remove_scan keeper len is xs)"

definition remove_whitelisted_keeper :: "ctx \<Rightarrow> address \<Rightarrow> sched \<Rightarrow> sched res" where
  "remove_whitelisted_keeper c keeper s = not_payable c (only_owner c (
     let s = s\<lparr>whitelisted_keepers := us_swap_remove keeper (whitelisted_keepers s)\<rparr>;
         len = length (keeper_list s)
     in require (len \<le> 50) ''Keeper list too large for linear scan'' (
     bind_res (remove_scan keeper len [1..<Suc len] (keeper_list s)) (\<lambda>xs.
     Inr (s\<lparr>keeper_list := xs\<rparr>)))))"

section \<open>Protocol fees (config.rs)\<close>

definition flush_protocol_fees :: "ctx \<Rightarrow> sched \<Rightarrow> sched res" where
  "flush_protocol_fees c s = not_payable c (
     require (caller c \<in> set (whitelisted_keepers s) \<or> caller c = owner_address c)
       ''Not authorized'' (
     let accrued = accrued_protocol_fees s in
     require (0 < accrued) ''No fees to flush'' (
     let s = s\<lparr>accrued_protocol_fees := 0\<rparr> in
     bind_res (get_slot (rewards_addr s)) (\<lambda>rewards.
     transfer_execute rewards ''receiveExecutionFee'' [AAddr (caller c), AU64 0] accrued
       10000000 s))))"

definition get_accrued_protocol_fees :: "sched \<Rightarrow> nat" where
  "get_accrued_protocol_fees s = accrued_protocol_fees s"

definition get_xwap_address :: "sched \<Rightarrow> address res" where
  "get_xwap_address s = get_slot (xwap_address s)"

section \<open>Security administration (admin.rs)\<close>

definition blacklist_target :: "ctx \<Rightarrow> address \<Rightarrow> sched \<Rightarrow> sched res" where
  "blacklist_target c a = owner_set c (\<lambda>s. s\<lparr>target_blacklist := us_insert a (target_blacklist s)\<rparr>)"

definition remove_blacklist :: "ctx \<Rightarrow> address \<Rightarrow> sched \<Rightarrow> sched res" where
  "remove_blacklist c a =
     owner_set c (\<lambda>s. s\<lparr>target_blacklist := us_swap_remove a (target_blacklist s)\<rparr>)"

definition set_max_exec_value :: "ctx \<Rightarrow> nat \<Rightarrow> sched \<Rightarrow> sched res" where
  "set_max_exec_value c v = owner_set c (\<lambda>s. s\<lparr>max_exec_value_egld := v\<rparr>)"

definition register_keeper_shard :: "sched_env \<Rightarrow> ctx \<Rightarrow> sched \<Rightarrow> sched res" where
  "register_keeper_shard e c s = not_payable c (
     let keeper = caller c in
     bind_res (require_registered_keeper keeper s) (\<lambda>_.
     Inr (s\<lparr>keeper_shard := (keeper_shard s)(keeper := shard_of e keeper)\<rparr>)))"

definition get_security_metrics :: "sched \<Rightarrow> u64 \<times> u64 \<times> nat" where
  "get_security_metrics s =
     (total_successful_execs s, total_failed_execs s, length (target_blacklist s))"

definition is_blacklisted :: "address \<Rightarrow> sched \<Rightarrow> bool" where
  "is_blacklisted a s \<longleftrightarrow> a \<in> set (target_blacklist s)"

definition get_target_failures :: "address \<Rightarrow> sched \<Rightarrow> u64" where
  "get_target_failures a s = target_failure_count s a"

section \<open>Views (views.rs)\<close>

definition get_task_nonce :: "sched \<Rightarrow> u64" where
  "get_task_nonce s = task_nonce s"

fun push_all :: "'a list \<Rightarrow> 'a list \<Rightarrow> 'a list" where
  "push_all acc [] = acc"
| "push_all acc (x # xs) = push_all (acc @ [x]) xs"

definition get_owner_tasks_quantum :: "address \<Rightarrow> sched \<Rightarrow> hash32 list" where
  "get_owner_tasks_quantum own s = push_all [] (owner_tasks s own)"

definition get_min_deposit :: "sched \<Rightarrow> nat" where
  "get_min_deposit s = min_deposit s"

definition get_protocol_fee_bps :: "sched \<Rightarrow> u64" where
  "get_protocol_fee_bps s = protocol_fee_bps s"

definition get_whitelisted_keepers :: "sched \<Rightarrow> address list" where
  "get_whitelisted_keepers s = push_all [] (whitelisted_keepers s)"

fun collect_entries :: "address option list \<Rightarrow> nat list \<Rightarrow> address list \<Rightarrow> address list res" where
  "collect_entries xs [] acc = Inr acc"
| "collect_entries xs (i # is) acc = bind_res (vec_get xs i) (\<lambda>x. collect_entries xs is (acc @ [x]))"

definition get_keeper_list :: "sched \<Rightarrow> address list res" where
  "get_keeper_list s = collect_entries (keeper_list s) [1..<Suc (length (keeper_list s))] []"

definition get_cross_shard_stats :: "sched \<Rightarrow> u64 \<times> u64" where
  "get_cross_shard_stats s = (cross_shard_execs s, intra_shard_execs s)"

definition get_keeper_shard :: "address \<Rightarrow> sched \<Rightarrow> u32" where
  "get_keeper_shard a s = keeper_shard s a"

section \<open>Facts\<close>

lemmas setter_defs = set_min_deposit_def set_reveal_window_def set_commit_bond_def
  set_keeper_registry_addr_def set_rewards_addr_def set_xwap_address_def set_xsc_address_def
  set_zk_verifier_addr_def set_max_reward_per_exec_def blacklist_target_def
  remove_blacklist_def set_max_exec_value_def

lemma owner_set_Inr [sched_simps]:
  "owner_set c f s = Inr t \<longleftrightarrow> egld_value c = 0 \<and> esdt_transfers c = [] \<and>
     caller c = owner_address c \<and> t = f s"
  by (auto simp: owner_set_def res_simps)

lemma set_protocol_fee_bps_Inr [sched_simps]:
  "set_protocol_fee_bps c v s = Inr t \<longleftrightarrow> egld_value c = 0 \<and> esdt_transfers c = [] \<and>
     caller c = owner_address c \<and> unat v \<le> 10000 \<and> t = s\<lparr>protocol_fee_bps := v\<rparr>"
  by (auto simp: set_protocol_fee_bps_def res_simps BPS_DENOMINATOR_def word_le_nat_alt)

lemma add_whitelisted_keeper_Inr [sched_simps]:
  "add_whitelisted_keeper c k s = Inr t \<longleftrightarrow> egld_value c = 0 \<and> esdt_transfers c = [] \<and>
     caller c = owner_address c \<and>
     t = s\<lparr>whitelisted_keepers := us_insert k (whitelisted_keepers s),
           keeper_list := keeper_list s @ [Some k]\<rparr>"
  by (auto simp: add_whitelisted_keeper_def res_simps Let_def)

lemma remove_whitelisted_keeper_Inr [sched_simps]:
  "remove_whitelisted_keeper c k s = Inr t \<longleftrightarrow> egld_value c = 0 \<and> esdt_transfers c = [] \<and>
     caller c = owner_address c \<and> length (keeper_list s) \<le> 50 \<and>
     (\<exists>xs. remove_scan k (length (keeper_list s)) [1..<Suc (length (keeper_list s))] (keeper_list s)
         = Inr xs \<and>
       t = s\<lparr>whitelisted_keepers := us_swap_remove k (whitelisted_keepers s), keeper_list := xs\<rparr>)"
  by (auto simp: remove_whitelisted_keeper_def res_simps Let_def simp del: upt_Suc)

lemma flush_protocol_fees_Inr:
  assumes "flush_protocol_fees c s = Inr t"
  obtains r where "egld_value c = 0" "esdt_transfers c = []"
    "caller c \<in> set (whitelisted_keepers s) \<or> caller c = owner_address c"
    "0 < accrued_protocol_fees s" "rewards_addr s = Some r"
    "accrued_protocol_fees s \<le> egld_balance s"
    "t = s\<lparr>accrued_protocol_fees := 0, egld_balance := egld_balance s - accrued_protocol_fees s,
           outbox := outbox s @ [TransferExecute r ''receiveExecutionFee''
             [AAddr (caller c), AU64 0] (accrued_protocol_fees s) 10000000]\<rparr>"
  using assms by (auto simp: flush_protocol_fees_def res_simps Let_def)

lemma push_all_append [simp]: "push_all acc xs = acc @ xs"
  by (induction acc xs rule: push_all.induct) auto

text \<open>A removal clears the last slot and keeps the length; what remains is the other keepers.\<close>

lemma remove_scan_hole:
  assumes "remove_scan k (length xs) is xs = Inr ys" and "set is \<subseteq> {1..length xs}"
    and "\<exists>i\<in>set is. xs ! (i - 1) = Some k"
  shows "length ys = length xs \<and> last ys = None \<and>
         (\<exists>i\<in>set is. xs ! (i - 1) = Some k \<and> ys = xs[i - 1 := last xs, length xs - 1 := None])"
  using assms
proof (induction "is")
  case Nil
  then show ?case by simp
next
  case (Cons i "is")
  from Cons.prems have i: "1 \<le> i" "i \<le> length xs" by auto
  then have ne: "xs \<noteq> []" by auto
  show ?case
  proof (cases "xs ! (i - 1) = Some k")
    case True
    have "ys = xs[i - 1 := last xs, length xs - 1 := None]"
    proof (cases "i < length xs")
      case True
      then show ?thesis
        using Cons.prems(1) \<open>xs ! (i - 1) = Some k\<close> i ne
        by (auto simp: vec_get_def res_simps last_conv_nth)
    next
      case False
      then show ?thesis
        using Cons.prems(1) \<open>xs ! (i - 1) = Some k\<close> i ne
        by (auto simp: vec_get_def res_simps last_conv_nth list_update_overwrite)
    qed
    then show ?thesis
      using True ne by (auto simp: last_list_update)
  next
    case False
    then have "remove_scan k (length xs) is xs = Inr ys"
      using Cons.prems(1) i by (auto simp: vec_get_def res_simps)
    moreover have "\<exists>i\<in>set is. xs ! (i - 1) = Some k" using Cons.prems(3) False by auto
    ultimately show ?thesis using Cons.IH Cons.prems(2) by auto
  qed
qed

end
