(* ===== verification/Merkle.thy ===== *)
theory Merkle
  imports Prelude
begin

text \<open>
  Merkle proofs with sorted pairs, as three programs of the repository compute them: the
  Scheduler (\<open>verify_merkle_proof\<close> in contracts/scheduler/src/intents.rs), the XSC contract
  (contracts/xsc-core/src/xsc\_core.rs) and the keeper's engine (xcron-keeper-rs/src/pcit.rs).
  The hash function is a parameter. The interface \<open>proof_node\<close> is what the soundness and
  completeness of proofs rely on.
\<close>

section \<open>Programs\<close>

text \<open>The loop over the 32 bytes of two hashes that decides their order.\<close>

fun is_less_loop :: "bytes \<Rightarrow> bytes \<Rightarrow> bool" where
  "is_less_loop (a # as) (b # bs) =
     (if of_char a < (of_char b :: nat) then True
      else if of_char b < (of_char a :: nat) then False
      else is_less_loop as bs)"
| "is_less_loop _ _ = False"

definition merkle_step :: "(bytes \<Rightarrow> hash32) \<Rightarrow> hash32 \<Rightarrow> hash32 \<Rightarrow> hash32" where
  "merkle_step sha current sibling =
     (let combined = [char_of (1::nat)] in
      if is_less_loop (bytes32 current) (bytes32 sibling)
      then sha (combined @ bytes32 current @ bytes32 sibling)
      else sha (combined @ bytes32 sibling @ bytes32 current))"

fun merkle_chain :: "(bytes \<Rightarrow> hash32) \<Rightarrow> hash32 \<Rightarrow> hash32 list \<Rightarrow> hash32" where
  "merkle_chain sha current [] = current"
| "merkle_chain sha current (sibling # rest) = merkle_chain sha (merkle_step sha current sibling) rest"

definition verify_merkle_proof :: "(bytes \<Rightarrow> hash32) \<Rightarrow> hash32 \<Rightarrow> hash32 list \<Rightarrow> hash32 \<Rightarrow> bool" where
  "verify_merkle_proof sha leaf_hash prf root \<longleftrightarrow> merkle_chain sha leaf_hash prf = root"

section \<open>The byte loop is the order of the numbers\<close>

lemma from_bytes_be_bound: "from_bytes_be bs < 256 ^ length bs"
proof (induction bs rule: rev_induct)
  case Nil
  then show ?case by (simp add: from_bytes_be_def)
next
  case (snoc c bs)
  have c: "of_char c < (256::nat)" by simp
  have "from_bytes_be (bs @ [c]) < (from_bytes_be bs + 1) * 256"
    using c by (simp add: from_bytes_be_snoc)
  also have "\<dots> \<le> 256 ^ length bs * 256" using snoc by (intro mult_le_mono1) simp
  finally show ?case by simp
qed

lemma from_bytes_be_Cons:
  "from_bytes_be (b # bs) = of_char b * 256 ^ length bs + from_bytes_be bs"
proof (induction bs rule: rev_induct)
  case Nil
  then show ?case by (simp add: from_bytes_be_def)
next
  case (snoc c bs)
  have "from_bytes_be (b # bs @ [c]) = from_bytes_be (b # bs) * 256 + of_char c"
    using from_bytes_be_snoc [of "b # bs" c] by simp
  then show ?case using snoc by (simp add: from_bytes_be_snoc algebra_simps)
qed

lemma is_less_loop_from_bytes_be:
  "length as = length bs \<Longrightarrow> is_less_loop as bs \<longleftrightarrow> from_bytes_be as < from_bytes_be bs"
proof (induction as bs rule: list_induct2)
  case Nil
  then show ?case by simp
next
  case (Cons a as b bs)
  let ?w = "256 ^ length as :: nat"
  have bnd: "from_bytes_be as < ?w" "from_bytes_be bs < ?w"
    using from_bytes_be_bound [of as] from_bytes_be_bound [of bs] Cons.hyps by auto
  have lt: "x * ?w + p < y * ?w + q" if "x < y" "p < ?w" for x y p q :: nat
  proof -
    have "x * ?w + p < Suc x * ?w" using that(2) by simp
    also have "\<dots> \<le> y * ?w" using that(1) by (intro mult_le_mono1) simp
    finally show ?thesis by simp
  qed
  consider "of_char a < (of_char b :: nat)" | "of_char b < (of_char a :: nat)"
    | "of_char a = (of_char b :: nat)" by (rule linorder_cases)
  then show ?case
  proof cases
    case 1
    then show ?thesis using lt [OF 1 bnd(1)] Cons.hyps by (simp add: from_bytes_be_Cons)
  next
    case 2
    then show ?thesis using lt [OF 2 bnd(2), of "from_bytes_be as"] Cons.hyps
      by (simp add: from_bytes_be_Cons)
  next
    case 3
    then show ?thesis using Cons by (simp add: from_bytes_be_Cons)
  qed
qed

lemma from_bytes_be_bytes32: "from_bytes_be (bytes32 w) = unat w"
proof -
  have "unat w < 2 ^ 256" by (rule order.strict_trans2 [OF unsigned_less]) simp
  then show ?thesis by (simp add: bytes32_def from_bytes_be_be_bytes)
qed

lemma is_less_loop_bytes32 [simp]: "is_less_loop (bytes32 a) (bytes32 b) \<longleftrightarrow> a < b"
  by (simp add: is_less_loop_from_bytes_be from_bytes_be_bytes32 word_less_nat_alt)

section \<open>Interface of a proof node\<close>

text \<open>
  What a step hashes, and what proofs need of it: the step does not depend on which of the
  two arguments is the sibling, and the hashed text determines the pair of children.
\<close>

locale proof_node =
  fixes pre :: "hash32 \<Rightarrow> hash32 \<Rightarrow> bytes"
  assumes pre_commute: "pre a b = pre b a"
    and pre_inj: "pre a b = pre c d \<Longrightarrow> (a = c \<and> b = d) \<or> (a = d \<and> b = c)"
begin

lemma pre_child: "pre a b = pre c d \<Longrightarrow> c = a \<or> c = b"
  using pre_inj [of a b c d] by auto

lemma pre_sibling: "pre a b = pre a d \<Longrightarrow> b = d"
  using pre_inj [of a b a d] by auto

end

definition node_pre :: "hash32 \<Rightarrow> hash32 \<Rightarrow> bytes" where
  "node_pre a b = [char_of (1::nat)] @ (if a < b then bytes32 a @ bytes32 b
                                        else bytes32 b @ bytes32 a)"

lemma merkle_step_pre: "merkle_step sha a b = sha (node_pre a b)"
  by (simp add: merkle_step_def node_pre_def Let_def)

lemma sorted_pair_inj:
  assumes "(if a < b then bytes32 a @ bytes32 b else bytes32 b @ bytes32 a) =
           (if c < d then bytes32 c @ bytes32 d else bytes32 d @ bytes32 c)"
  shows "(a = c \<and> b = d) \<or> (a = d \<and> b = c)"
  using assms by (auto split: if_splits)

interpretation node: proof_node node_pre
proof
  fix a b :: hash32
  show "node_pre a b = node_pre b a"
    by (cases "a = b") (auto simp: node_pre_def dest: less_asym)
qed (auto simp: node_pre_def dest: sorted_pair_inj)

section \<open>Trees\<close>

text \<open>
  The trees whose roots are published, in the specification only: leaves hold the encoded
  data, and a node hashes its children the way a proof step does.
\<close>

datatype mtree = MLeaf bytes | MNode mtree mtree

fun mroot :: "(bytes \<Rightarrow> hash32) \<Rightarrow> mtree \<Rightarrow> hash32" where
  "mroot sha (MLeaf d) = sha d"
| "mroot sha (MNode l r) = merkle_step sha (mroot sha l) (mroot sha r)"

fun leaf_data :: "mtree \<Rightarrow> bytes set" where
  "leaf_data (MLeaf d) = {d}"
| "leaf_data (MNode l r) = leaf_data l \<union> leaf_data r"

text \<open>The subtrees at a given depth, and every text that is hashed to compute the root.\<close>

fun subtrees_at :: "nat \<Rightarrow> mtree \<Rightarrow> mtree set" where
  "subtrees_at 0 T = {T}"
| "subtrees_at (Suc n) (MLeaf d) = {}"
| "subtrees_at (Suc n) (MNode l r) = subtrees_at n l \<union> subtrees_at n r"

fun hashed_texts :: "(bytes \<Rightarrow> hash32) \<Rightarrow> mtree \<Rightarrow> bytes set" where
  "hashed_texts sha (MLeaf d) = {d}"
| "hashed_texts sha (MNode l r) =
     insert (node_pre (mroot sha l) (mroot sha r)) (hashed_texts sha l \<union> hashed_texts sha r)"

fun proof_texts :: "(bytes \<Rightarrow> hash32) \<Rightarrow> hash32 \<Rightarrow> hash32 list \<Rightarrow> bytes set" where
  "proof_texts sha x [] = {}"
| "proof_texts sha x (y # ys) = insert (node_pre x y) (proof_texts sha (merkle_step sha x y) ys)"

lemma mroot_in_hashed_texts: "\<exists>u \<in> hashed_texts sha T. mroot sha T = sha u"
  by (cases T) (auto simp: merkle_step_pre)

lemma merkle_chain_snoc: "merkle_chain sha x (ys @ [y]) = merkle_step sha (merkle_chain sha x ys) y"
  by (induction ys arbitrary: x) auto

lemma proof_texts_snoc:
  "proof_texts sha x (ys @ [y]) = insert (node_pre (merkle_chain sha x ys) y) (proof_texts sha x ys)"
  by (induction ys arbitrary: x) auto

text \<open>
  Soundness: a verified proof leads to a node of the tree at the depth of the proof, unless
  the texts hashed by the proof and by the tree exhibit a collision of the hash function.
  The prefix byte is what separates the texts of inner nodes from the data of the leaves.
\<close>

lemma merkle_sound_aux:
  assumes "merkle_chain sha x ys = mroot sha T"
    and "\<forall>d \<in> leaf_data T. take 1 d \<noteq> [char_of (1::nat)]"
  shows "(\<exists>S \<in> subtrees_at (length ys) T. mroot sha S = x) \<or>
         (\<exists>u \<in> hashed_texts sha T. \<exists>v \<in> proof_texts sha x ys. u \<noteq> v \<and> sha u = sha v)"
  using assms
proof (induction ys arbitrary: T rule: rev_induct)
  case Nil
  then show ?case by simp
next
  case (snoc y ys)
  let ?v = "node_pre (merkle_chain sha x ys) y"
  have v: "?v \<in> proof_texts sha x (ys @ [y])" by (simp add: proof_texts_snoc)
  have eq: "mroot sha T = sha ?v" using snoc.prems(1) by (simp add: merkle_chain_snoc merkle_step_pre)
  show ?case
  proof (cases T)
    case (MLeaf d)
    with snoc.prems(2) have "d \<noteq> ?v" by (auto simp: node_pre_def)
    moreover have "sha d = sha ?v" using eq MLeaf by simp
    ultimately show ?thesis using v MLeaf by auto
  next
    case (MNode l r)
    let ?u = "node_pre (mroot sha l) (mroot sha r)"
    show ?thesis
    proof (cases "?u = ?v")
      case False
      moreover have "sha ?u = sha ?v" using eq MNode by (simp add: merkle_step_pre)
      ultimately show ?thesis using v MNode by auto
    next
      case True
      then have "merkle_chain sha x ys = mroot sha l \<or> merkle_chain sha x ys = mroot sha r"
        by (rule node.pre_child)
      then obtain C where C: "C = l \<or> C = r" "merkle_chain sha x ys = mroot sha C" by blast
      have "\<forall>d \<in> leaf_data C. take 1 d \<noteq> [char_of (1::nat)]" using snoc.prems(2) C(1) MNode by auto
      from snoc.IH [OF C(2) this] show ?thesis
        using C(1) MNode by (auto simp: proof_texts_snoc)
    qed
  qed
qed

text \<open>Completeness: the siblings along a path form a proof that verifies.\<close>

lemma merkle_complete_aux:
  "S \<in> subtrees_at n T \<Longrightarrow> \<exists>ys. length ys = n \<and> merkle_chain sha (mroot sha S) ys = mroot sha T"
proof (induction n T rule: subtrees_at.induct)
  case (3 n l r)
  then consider ys where "length ys = n" "merkle_chain sha (mroot sha S) ys = mroot sha l"
    | ys where "length ys = n" "merkle_chain sha (mroot sha S) ys = mroot sha r" by auto
  then show ?case
  proof cases
    case 1
    then show ?thesis by (intro exI [of _ "ys @ [mroot sha r]"]) (simp add: merkle_chain_snoc)
  next
    case 2
    then show ?thesis
      by (intro exI [of _ "ys @ [mroot sha l]"])
        (simp add: merkle_chain_snoc merkle_step_pre node.pre_commute)
  qed
qed auto

end
