(* ===== verification/Scheduler_Intents.thy ===== *)
theory Scheduler_Intents
  imports Scheduler_State Merkle
begin

text \<open>
  Intents (contracts/scheduler/src/intents.rs): an owner deposits a token and a fee in EGLD
  and states what it wants in return; a registered keeper settles the intent by attaching the
  wanted tokens, in one transaction. Three kinds: one wanted token, a list of them, and a
  Merkle root over admissible executions.
\<close>

section \<open>Events\<close>

definition intent_created_event :: "u64 \<Rightarrow> address \<Rightarrow> sched \<Rightarrow> sched" where
  "intent_created_event i own = emit ''intentCreated'' [AU64 i, AAddr own]"

definition multi_intent_created_event :: "u64 \<Rightarrow> address \<Rightarrow> sched \<Rightarrow> sched" where
  "multi_intent_created_event i own = emit ''multiIntentCreated'' [AU64 i, AAddr own]"

definition multi_intent_settled_event :: "u64 \<Rightarrow> address \<Rightarrow> sched \<Rightarrow> sched" where
  "multi_intent_settled_event i solver = emit ''multiIntentSettled'' [AU64 i, AAddr solver]"

section \<open>Intents\<close>

definition create_intent ::
  "ctx \<Rightarrow> token \<Rightarrow> nat \<Rightarrow> u64 \<Rightarrow> nat \<Rightarrow> sched \<Rightarrow> (u64 \<times> sched) res" where
  "create_intent c token_out min_return deadline solver_fee s0 = (let s = receive c s0 in
     require_not_paused s (
     call_egld c (\<lambda>egld_payment.
     require (egld_payment = solver_fee)
       ''XCRON-PROTECT: EGLD adjunto debe coincidir exactamente con el solver_fee'' (
     require (length (esdt_transfers c) = 1) ''Must receive exactly 1 ESDT token'' (
     let esdt_transfer = esdt_transfers c ! 0;
         token_in = token_identifier esdt_transfer;
         amount_in = amount esdt_transfer
     in require (0 < amount_in) ''Amount in must be greater than 0'' (
     require (accepted_payment_tokens s token_in)
       ''XCRON-PROTECT: Token is not in the strict Whitelist. Poisoned Token Attack blocked.'' (
     require (deadline < 10000000000)
       ''XCRON-PROTECT: Deadline debe estar en segundos (Linux Epoch), no en milisegundos'' (
     require (block_timestamp c < deadline) ''XCRON-PROTECT: Deadline must be in the future'' (
     let intent_id = intent_nonce s + 1;
         intent = \<lparr>i_id = intent_id, i_owner = caller c, i_token_in = token_in,
                   i_amount_in = amount_in, i_token_out = token_out, i_min_return = min_return,
                   i_deadline = deadline, i_solver_fee = solver_fee, i_status = IPending,
                   i_settled_by = None\<rparr>;
         s = s\<lparr>intent_nonce := intent_id, intent_by_id := (intent_by_id s)(intent_id \<mapsto> intent)\<rparr>
     in Inr (intent_id, intent_created_event intent_id (caller c) s))))))))))"

definition cancel_intent :: "ctx \<Rightarrow> u64 \<Rightarrow> sched \<Rightarrow> sched res" where
  "cancel_intent c intent_id s = not_payable c (
     bind_res (get_slot (intent_by_id s intent_id)) (\<lambda>intent.
     require (i_owner intent = caller c) ''Only owner can cancel'' (
     require (i_status intent = IPending) ''Intent not pending'' (
     let intent = intent\<lparr>i_status := ICancelled\<rparr>;
         s = s\<lparr>intent_by_id := (intent_by_id s)(intent_id \<mapsto> intent)\<rparr>
     in bind_res (direct_esdt (caller c) (i_token_in intent) 0 (i_amount_in intent) s) (\<lambda>s.
     if 0 < i_solver_fee intent then direct_egld (caller c) (i_solver_fee intent) s else Inr s)))))"

definition solve_intent :: "ctx \<Rightarrow> u64 \<Rightarrow> sched \<Rightarrow> sched res" where
  "solve_intent c intent_id s0 = (let s = receive c s0 in
     bind_res (require_registered_keeper (caller c) s) (\<lambda>_.
     bind_res (get_slot (intent_by_id s intent_id)) (\<lambda>intent.
     require (i_status intent = IPending) ''XCRON-PROTECT: Intent not pending'' (
     require (block_timestamp c \<le> i_deadline intent) ''XCRON-PROTECT: Intent expired'' (
     bind_res (single_fungible_esdt c) (\<lambda>(payment_token, payment_amount).
     require (payment_token = i_token_out intent)
       ''XCRON-PROTECT: Token invalido aportado por el Solver'' (
     require (i_min_return intent \<le> payment_amount)
       ''XCRON-PROTECT: Slippage no cumplido (Zero-Score Hack evitado)'' (
     let intent = intent\<lparr>i_status := ISettled, i_settled_by := Some (caller c)\<rparr>;
         s = s\<lparr>intent_by_id := (intent_by_id s)(intent_id \<mapsto> intent)\<rparr>
     in bind_res (direct_esdt (i_owner intent) payment_token 0 payment_amount s) (\<lambda>s.
     bind_res (direct_esdt (caller c) (i_token_in intent) 0 (i_amount_in intent) s) (\<lambda>s.
     if 0 < i_solver_fee intent then direct_egld (caller c) (i_solver_fee intent) s
     else Inr s))))))))))"

section \<open>Multi-intents\<close>

text \<open>The nested loops that refuse a token that is wanted twice.\<close>

fun no_duplicate_after :: "token \<Rightarrow> multi_intent_outcome list \<Rightarrow> unit res" where
  "no_duplicate_after token_i [] = Inr ()"
| "no_duplicate_after token_i (out # outs) =
     require (token_i \<noteq> o_token_out out)
       ''XCRON-PROTECT: Duplicate tokens in MultiIntent outcomes not allowed''
       (no_duplicate_after token_i outs)"

fun no_duplicate_tokens :: "multi_intent_outcome list \<Rightarrow> unit res" where
  "no_duplicate_tokens [] = Inr ()"
| "no_duplicate_tokens (out # outs) =
     bind_res (no_duplicate_after (o_token_out out) outs) (\<lambda>_. no_duplicate_tokens outs)"

definition create_multi_intent ::
  "ctx \<Rightarrow> multi_intent_outcome list \<Rightarrow> u64 \<Rightarrow> nat \<Rightarrow> sched \<Rightarrow> (u64 \<times> sched) res" where
  "create_multi_intent c outcomes deadline solver_fee s0 = (let s = receive c s0 in
     require_not_paused s (
     call_egld c (\<lambda>egld_payment.
     require (egld_payment = solver_fee) ''XCRON-PROTECT: EGLD payment must match solver_fee'' (
     require (length (esdt_transfers c) = 1) ''Must receive exactly 1 ESDT token as input'' (
     let esdt_transfer = esdt_transfers c ! 0;
         token_in = token_identifier esdt_transfer;
         amount_in = amount esdt_transfer
     in require (accepted_payment_tokens s token_in) ''XCRON-PROTECT: Input token not whitelisted'' (
     require (0 < length outcomes) ''XCRON-PROTECT: Outcomes cannot be empty'' (
     require (length outcomes \<le> 5) ''XCRON-PROTECT: Too many outcomes (max 5)'' (
     bind_res (no_duplicate_tokens outcomes) (\<lambda>_.
     require (deadline < 10000000000) ''XCRON-PROTECT: Deadline must be in seconds'' (
     require (block_timestamp c < deadline) ''XCRON-PROTECT: Deadline must be in the future'' (
     let intent_id = multi_intent_nonce s + 1;
         intent = \<lparr>mi_id = intent_id, mi_owner = caller c, mi_token_in = token_in,
                   mi_amount_in = amount_in, mi_outcomes = outcomes, mi_deadline = deadline,
                   mi_solver_fee = solver_fee, mi_status = IPending, mi_settled_by = None\<rparr>;
         s = s\<lparr>multi_intent_nonce := intent_id,
               multi_intent_by_id := (multi_intent_by_id s)(intent_id \<mapsto> intent)\<rparr>
     in Inr (intent_id, multi_intent_created_event intent_id (caller c) s))))))))))))"

definition cancel_multi_intent :: "ctx \<Rightarrow> u64 \<Rightarrow> sched \<Rightarrow> sched res" where
  "cancel_multi_intent c intent_id s = not_payable c (
     bind_res (get_slot (multi_intent_by_id s intent_id)) (\<lambda>intent.
     require (mi_owner intent = caller c) ''Only owner can cancel'' (
     require (mi_status intent = IPending) ''Intent not pending'' (
     let intent = intent\<lparr>mi_status := ICancelled\<rparr>;
         s = s\<lparr>multi_intent_by_id := (multi_intent_by_id s)(intent_id \<mapsto> intent)\<rparr>
     in bind_res (direct_esdt (caller c) (mi_token_in intent) 0 (mi_amount_in intent) s) (\<lambda>s.
     if 0 < mi_solver_fee intent then direct_egld (caller c) (mi_solver_fee intent) s
     else Inr s)))))"

text \<open>The two messages with an index format it in decimal; there are at most five outcomes.\<close>

definition digit :: "nat \<Rightarrow> string" where
  "digit i = [char_of (48 + i)]"

fun payments_match :: "nat \<Rightarrow> multi_intent_outcome list \<Rightarrow> esdt_payment list \<Rightarrow> unit res" where
  "payments_match i (out # outs) (payment # payments) =
     require (token_identifier payment = o_token_out out)
       (''XCRON-PROTECT: Token mismatch at index '' @ digit i) (
     require (o_min_return out \<le> amount payment)
       (''XCRON-PROTECT: Slippage condition failed at index '' @ digit i)
     (payments_match (Suc i) outs payments))"
| "payments_match i (out # outs) [] = Inl (VmError ''ManagedVec index out of range'')"
| "payments_match i [] payments = Inr ()"

fun forward_payments :: "address \<Rightarrow> esdt_payment list \<Rightarrow> sched \<Rightarrow> sched res" where
  "forward_payments own [] s = Inr s"
| "forward_payments own (payment # payments) s =
     bind_res (direct_esdt own (token_identifier payment) 0 (amount payment) s)
       (\<lambda>s. forward_payments own payments s)"

definition solve_multi_intent :: "ctx \<Rightarrow> u64 \<Rightarrow> sched \<Rightarrow> sched res" where
  "solve_multi_intent c intent_id s0 = (let s = receive c s0 in
     bind_res (require_registered_keeper (caller c) s) (\<lambda>_.
     bind_res (get_slot (multi_intent_by_id s intent_id)) (\<lambda>intent.
     require (mi_status intent = IPending) ''XCRON-PROTECT: Intent not pending'' (
     require (block_timestamp c \<le> mi_deadline intent) ''XCRON-PROTECT: Intent expired'' (
     let payments = esdt_transfers c in
     require (length payments = length (mi_outcomes intent))
       ''XCRON-PROTECT: Number of tokens doesn't match requirements'' (
     bind_res (payments_match 0 (mi_outcomes intent) payments) (\<lambda>_.
     let intent = intent\<lparr>mi_status := ISettled, mi_settled_by := Some (caller c)\<rparr>;
         s = s\<lparr>multi_intent_by_id := (multi_intent_by_id s)(intent_id \<mapsto> intent)\<rparr>;
         s = multi_intent_settled_event intent_id (caller c) s
     in bind_res (forward_payments (mi_owner intent) payments s) (\<lambda>s.
     bind_res (direct_esdt (caller c) (mi_token_in intent) 0 (mi_amount_in intent) s) (\<lambda>s.
     if 0 < mi_solver_fee intent then direct_egld (caller c) (mi_solver_fee intent) s
     else Inr s)))))))))"

section \<open>Pre-cognitive intents\<close>

definition create_pre_cognitive_intent ::
  "ctx \<Rightarrow> hash32 \<Rightarrow> u64 \<Rightarrow> nat \<Rightarrow> sched \<Rightarrow> (u64 \<times> sched) res" where
  "create_pre_cognitive_intent c root deadline keeper_fee s0 = (let s = receive c s0 in
     require_not_paused s (
     call_egld c (\<lambda>egld_payment.
     require (egld_payment = keeper_fee)
       ''XCRON-PROTECT: EGLD adjunto debe coincidir exactamente con el keeper_fee'' (
     require (length (esdt_transfers c) = 1) ''Must receive exactly 1 ESDT token'' (
     let esdt_transfer = esdt_transfers c ! 0;
         token_in = token_identifier esdt_transfer;
         amount_in = amount esdt_transfer
     in require (0 < amount_in) ''Amount in must be greater than 0'' (
     require (deadline < 10000000000)
       ''XCRON-PROTECT: Deadline must be in Linux Epoch seconds'' (
     require (block_timestamp c < deadline) ''XCRON-PROTECT: Deadline must be in the future'' (
     let intent_id = pre_cognitive_intent_nonce s + 1;
         intent = \<lparr>p_id = intent_id, p_owner = caller c, p_token_in = token_in,
                   p_amount_in = amount_in, p_merkle_root = root, p_deadline = deadline,
                   p_keeper_fee = keeper_fee, p_status = PPending, p_executed_by = None\<rparr>
     in Inr (intent_id, s\<lparr>pre_cognitive_intent_nonce := intent_id,
          pre_cognitive_intent_by_id := (pre_cognitive_intent_by_id s)(intent_id \<mapsto> intent)\<rparr>)))))))))"

definition cancel_pre_cognitive_intent :: "ctx \<Rightarrow> u64 \<Rightarrow> sched \<Rightarrow> sched res" where
  "cancel_pre_cognitive_intent c intent_id s = not_payable c (
     bind_res (get_slot (pre_cognitive_intent_by_id s intent_id)) (\<lambda>intent.
     require (p_owner intent = caller c) ''Only owner can cancel'' (
     require (p_status intent = PPending) ''Intent not pending'' (
     let intent = intent\<lparr>p_status := PCancelled\<rparr>;
         s = s\<lparr>pre_cognitive_intent_by_id := (pre_cognitive_intent_by_id s)(intent_id \<mapsto> intent)\<rparr>
     in bind_res (direct_esdt (caller c) (p_token_in intent) 0 (p_amount_in intent) s) (\<lambda>s.
     if 0 < p_keeper_fee intent then direct_egld (caller c) (p_keeper_fee intent) s
     else Inr s)))))"

text \<open>
  The text of a leaf: three values are top-encoded into the buffer and the arguments, each
  with its length in four bytes, are appended to it.
\<close>

fun append_args :: "bytes \<Rightarrow> bytes list \<Rightarrow> bytes" where
  "append_args buf [] = buf"
| "append_args buf (a # as) = append_args (buf @ u32_be (length a) @ a) as"

definition encoded_leaf ::
  "sched_env \<Rightarrow> address \<Rightarrow> bytes \<Rightarrow> bytes list \<Rightarrow> token \<Rightarrow> nat \<Rightarrow> bytes" where
  "encoded_leaf e target endpoint args token_out min_return =
     (let buf = encode_into e [] (bytes32 target);
          buf = encode_into e buf endpoint;
          buf = append_args buf args;
          buf = encode_into e buf token_out
      in encode_into e buf (to_bytes_be min_return))"

definition execute_pre_cognitive_leaf ::
  "sched_env \<Rightarrow> ctx \<Rightarrow> u64 \<Rightarrow> hash32 list \<Rightarrow> address \<Rightarrow> bytes \<Rightarrow> bytes list \<Rightarrow> token \<Rightarrow> nat \<Rightarrow>
     sched \<Rightarrow> sched res" where
  "execute_pre_cognitive_leaf e c intent_id prf target endpoint args token_out min_return s0 =
     (let s = receive c s0 in
     bind_res (require_registered_keeper (caller c) s) (\<lambda>_.
     bind_res (get_slot (pre_cognitive_intent_by_id s intent_id)) (\<lambda>intent.
     require (p_status intent = PPending) ''XCRON-PROTECT: Intent not pending'' (
     require (block_timestamp c \<le> p_deadline intent) ''XCRON-PROTECT: Intent expired'' (
     let leaf_hash = sha256 e (encoded_leaf e target endpoint args token_out min_return) in
     require (verify_merkle_proof (sha256 e) leaf_hash prf (p_merkle_root intent))
       ''XCRON-PROTECT: Invalid Merkle Proof (Condition not met or AI didn't sign this leaf)'' (
     bind_res (single_fungible_esdt c) (\<lambda>(payment_token, payment_amount).
     require (payment_token = token_out) ''XCRON-PROTECT: Invalid execution outcome token'' (
     require (min_return \<le> payment_amount) ''XCRON-PROTECT: Slippage condition not matched'' (
     let intent = intent\<lparr>p_status := PExecuted, p_executed_by := Some (caller c)\<rparr>;
         s = s\<lparr>pre_cognitive_intent_by_id := (pre_cognitive_intent_by_id s)(intent_id \<mapsto> intent)\<rparr>
     in bind_res (direct_esdt (p_owner intent) payment_token 0 payment_amount s) (\<lambda>s.
     bind_res (direct_esdt (caller c) (p_token_in intent) 0 (p_amount_in intent) s) (\<lambda>s.
     if 0 < p_keeper_fee intent then direct_egld (caller c) (p_keeper_fee intent) s
     else Inr s)))))))))))"

section \<open>Inversion\<close>

lemmas intent_event_defs = intent_created_event_def multi_intent_created_event_def
  multi_intent_settled_event_def emit_def

lemma create_intent_Inr:
  assumes "create_intent c token_out min_return dl fee s = Inr (i, t)"
  obtains p where "\<not> paused s" "egld_value c = fee" "esdt_transfers c = [p]" "0 < amount p"
    "accepted_payment_tokens s (token_identifier p)" "dl < 10000000000" "block_timestamp c < dl"
    "i = intent_nonce s + 1"
    "t = intent_created_event i (caller c) ((receive c s)\<lparr>intent_nonce := i,
       intent_by_id := (intent_by_id s)(i \<mapsto> \<lparr>i_id = i, i_owner = caller c,
         i_token_in = token_identifier p, i_amount_in = amount p, i_token_out = token_out,
         i_min_return = min_return, i_deadline = dl, i_solver_fee = fee, i_status = IPending,
         i_settled_by = None\<rparr>)\<rparr>)" "egld_beside_tokens c"
  using assms
  by (auto simp: create_intent_def res_simps Let_def receive_def length_Suc_conv
      One_nat_def)

lemma cancel_intent_Inr:
  assumes "cancel_intent c i s = Inr t"
  obtains x where "egld_value c = 0" "esdt_transfers c = []" "intent_by_id s i = Some x"
    "i_owner x = caller c" "i_status x = IPending"
    "i_amount_in x \<le> esdt_balance s (i_token_in x) 0" "i_solver_fee x \<le> egld_balance s"
    "t = s\<lparr>intent_by_id := (intent_by_id s)(i \<mapsto> x\<lparr>i_status := ICancelled\<rparr>),
           esdt_balance := debit (i_token_in x) 0 (i_amount_in x) (esdt_balance s),
           egld_balance := egld_balance s - i_solver_fee x,
           outbox := outbox s @ SendEsdt (caller c) (i_token_in x) 0 (i_amount_in x) #
             send_pos (caller c) (i_solver_fee x)\<rparr>"
  using assms unfolding cancel_intent_def
  apply (simp only: res_simps Let_def)
  apply (elim exE conjE)
  apply (rule that, assumption+; simp)
  done

lemma solve_intent_Inr:
  assumes "solve_intent c i s = Inr t"
  obtains x p where "caller c \<in> set (whitelisted_keepers s)" "intent_by_id s i = Some x"
    "i_status x = IPending" "block_timestamp c \<le> i_deadline x" "esdt_transfers c = [p]"
    "token_nonce p = 0" "token_identifier p = i_token_out x" "i_min_return x \<le> amount p"
    "i_amount_in x \<le> debit (i_token_out x) 0 (amount p) (esdt_balance (receive c s)) (i_token_in x) 0"
    "i_solver_fee x \<le> egld_balance s + egld_value c"
    "t = (receive c s)\<lparr>intent_by_id := (intent_by_id s)
             (i \<mapsto> x\<lparr>i_status := ISettled, i_settled_by := Some (caller c)\<rparr>),
           esdt_balance := debit (i_token_in x) 0 (i_amount_in x)
             (debit (i_token_out x) 0 (amount p) (esdt_balance (receive c s))),
           egld_balance := egld_balance s + egld_value c - i_solver_fee x,
           outbox := outbox s @ SendEsdt (i_owner x) (i_token_out x) 0 (amount p) #
             SendEsdt (caller c) (i_token_in x) 0 (i_amount_in x) #
             send_pos (caller c) (i_solver_fee x)\<rparr>"
  using assms unfolding solve_intent_def
  apply (simp only: res_simps Let_def sched_simps split_paired_Ex prod.case)
  apply (elim exE conjE)
  apply (rule that; (assumption | simp add: receive_def))
  done

lemma no_duplicate_after_Inr:
  "no_duplicate_after tk outs = Inr u \<longleftrightarrow> tk \<notin> o_token_out ` set outs"
  by (induction outs) (auto simp: res_simps)

lemma no_duplicate_tokens_Inr [sched_simps]:
  "no_duplicate_tokens outs = Inr u \<longleftrightarrow> distinct (map o_token_out outs)"
  by (induction outs) (auto simp: res_simps no_duplicate_after_Inr)

lemma payments_match_Inr [sched_simps]:
  "length outs = length ps \<Longrightarrow> payments_match i outs ps = Inr u \<longleftrightarrow>
     list_all2 (\<lambda>out p. token_identifier p = o_token_out out \<and> o_min_return out \<le> amount p) outs ps"
  by (induction i outs ps rule: payments_match.induct) (auto simp: res_simps)

text \<open>Sums over a list of payments, to describe what the loops do to the balances.\<close>

definition token_total :: "token \<Rightarrow> esdt_payment list \<Rightarrow> nat" where
  "token_total t ps = sum_list (map amount (filter (\<lambda>p. token_identifier p = t) ps))"

definition debit_all :: "esdt_payment list \<Rightarrow> (token \<Rightarrow> u64 \<Rightarrow> nat) \<Rightarrow> token \<Rightarrow> u64 \<Rightarrow> nat" where
  "debit_all ps b = (\<lambda>t n. if n = 0 then b t 0 - token_total t ps else b t n)"

lemma forward_payments_Inr:
  "forward_payments own ps s = Inr u \<Longrightarrow>
     (\<forall>t. token_total t ps \<le> esdt_balance s t 0) \<and>
     u = s\<lparr>esdt_balance := debit_all ps (esdt_balance s),
           outbox := outbox s @ map (\<lambda>p. SendEsdt own (token_identifier p) 0 (amount p)) ps\<rparr>"
proof (induction ps arbitrary: s)
  case Nil
  have "debit_all [] b = b" for b by (intro ext) (simp add: debit_all_def token_total_def)
  with Nil show ?case by (simp add: token_total_def)
next
  case (Cons p ps)
  let ?s = "s\<lparr>esdt_balance := debit (token_identifier p) 0 (amount p) (esdt_balance s),
              outbox := outbox s @ [SendEsdt own (token_identifier p) 0 (amount p)]\<rparr>"
  from Cons.prems have le: "amount p \<le> esdt_balance s (token_identifier p) 0"
    and "forward_payments own ps ?s = Inr u" by (auto simp: res_simps)
  then have tot: "\<And>t. token_total t ps \<le> debit (token_identifier p) 0 (amount p) (esdt_balance s) t 0"
    and u: "u = ?s\<lparr>esdt_balance := debit_all ps (esdt_balance ?s), outbox := outbox ?s @
      map (\<lambda>p. SendEsdt own (token_identifier p) 0 (amount p)) ps\<rparr>"
    using Cons.IH [of ?s] by auto
  have "token_total t (p # ps) \<le> esdt_balance s t 0" for t
    using tot [of t] le by (auto simp: token_total_def debit_apply split: if_splits)
  moreover have "debit_all ps (debit (token_identifier p) 0 (amount p) (esdt_balance s)) =
      debit_all (p # ps) (esdt_balance s)"
    by (intro ext) (auto simp: debit_all_def debit_apply token_total_def)
  ultimately show ?case using u by simp
qed

lemma debit_credit_all:
  assumes "list_all (\<lambda>p. token_nonce p = 0) ps"
  shows "debit_all ps (credit_esdt ps b) = b"
proof (intro ext)
  fix t n
  have "filter (\<lambda>p. token_identifier p = t \<and> token_nonce p = n) ps =
      (if n = 0 then filter (\<lambda>p. token_identifier p = t) ps else [])"
    using assms by (induction ps) auto
  then show "debit_all ps (credit_esdt ps b) t n = b t n"
    by (simp add: debit_all_def credit_esdt_apply paid_in_def token_total_def split: if_splits)
qed

lemma debit_credit_one [simp]:
  "token_nonce p = 0 \<Longrightarrow> debit (token_identifier p) 0 (amount p) (credit_esdt [p] b) = b"
  by (intro ext) (simp add: debit_apply)

lemma create_multi_intent_Inr:
  assumes "create_multi_intent c outs dl fee s = Inr (i, t)"
  obtains p where "\<not> paused s" "egld_value c = fee" "esdt_transfers c = [p]"
    "accepted_payment_tokens s (token_identifier p)" "outs \<noteq> []" "length outs \<le> 5"
    "distinct (map o_token_out outs)" "dl < 10000000000" "block_timestamp c < dl"
    "i = multi_intent_nonce s + 1"
    "t = multi_intent_created_event i (caller c) ((receive c s)\<lparr>multi_intent_nonce := i,
       multi_intent_by_id := (multi_intent_by_id s)(i \<mapsto> \<lparr>mi_id = i, mi_owner = caller c,
         mi_token_in = token_identifier p, mi_amount_in = amount p, mi_outcomes = outs,
         mi_deadline = dl, mi_solver_fee = fee, mi_status = IPending, mi_settled_by = None\<rparr>)\<rparr>)" "egld_beside_tokens c"
  using assms
  by (auto simp: create_multi_intent_def res_simps Let_def receive_def length_Suc_conv
      sched_simps One_nat_def)

lemma cancel_multi_intent_Inr:
  assumes "cancel_multi_intent c i s = Inr t"
  obtains x where "egld_value c = 0" "esdt_transfers c = []" "multi_intent_by_id s i = Some x"
    "mi_owner x = caller c" "mi_status x = IPending"
    "mi_amount_in x \<le> esdt_balance s (mi_token_in x) 0" "mi_solver_fee x \<le> egld_balance s"
    "t = s\<lparr>multi_intent_by_id := (multi_intent_by_id s)(i \<mapsto> x\<lparr>mi_status := ICancelled\<rparr>),
           esdt_balance := debit (mi_token_in x) 0 (mi_amount_in x) (esdt_balance s),
           egld_balance := egld_balance s - mi_solver_fee x,
           outbox := outbox s @ SendEsdt (caller c) (mi_token_in x) 0 (mi_amount_in x) #
             send_pos (caller c) (mi_solver_fee x)\<rparr>"
  using assms unfolding cancel_multi_intent_def
  apply (simp only: res_simps Let_def)
  apply (elim exE conjE)
  apply (rule that, assumption+; simp)
  done

lemma solve_multi_intent_Inr:
  assumes "solve_multi_intent c i s = Inr t"
  obtains x where "caller c \<in> set (whitelisted_keepers s)" "multi_intent_by_id s i = Some x"
    "mi_status x = IPending" "block_timestamp c \<le> mi_deadline x"
    "list_all2 (\<lambda>out p. token_identifier p = o_token_out out \<and> o_min_return out \<le> amount p)
       (mi_outcomes x) (esdt_transfers c)"
    "mi_amount_in x \<le> debit_all (esdt_transfers c) (esdt_balance (receive c s)) (mi_token_in x) 0"
    "mi_solver_fee x \<le> egld_balance s + egld_value c"
    "t = (receive c s)\<lparr>multi_intent_by_id := (multi_intent_by_id s)
             (i \<mapsto> x\<lparr>mi_status := ISettled, mi_settled_by := Some (caller c)\<rparr>),
           esdt_balance := debit (mi_token_in x) 0 (mi_amount_in x)
             (debit_all (esdt_transfers c) (esdt_balance (receive c s))),
           egld_balance := egld_balance s + egld_value c - mi_solver_fee x,
           outbox := outbox s @ Event ''multiIntentSettled'' [AU64 i, AAddr (caller c)] #
             map (\<lambda>p. SendEsdt (mi_owner x) (token_identifier p) 0 (amount p)) (esdt_transfers c) @
             SendEsdt (caller c) (mi_token_in x) 0 (mi_amount_in x) #
             send_pos (caller c) (mi_solver_fee x)\<rparr>"
  using assms unfolding solve_multi_intent_def
  apply (simp only: res_simps Let_def require_registered_keeper_Inr)
  apply (elim exE conjE)
  apply (drule forward_payments_Inr)
  apply (rule that; (assumption | simp add: receive_def intent_event_defs sched_simps))
  done

lemma create_pre_cognitive_intent_Inr:
  assumes "create_pre_cognitive_intent c root dl fee s = Inr (i, t)"
  obtains p where "\<not> paused s" "egld_value c = fee" "esdt_transfers c = [p]" "0 < amount p"
    "dl < 10000000000" "block_timestamp c < dl" "i = pre_cognitive_intent_nonce s + 1"
    "t = (receive c s)\<lparr>pre_cognitive_intent_nonce := i,
       pre_cognitive_intent_by_id := (pre_cognitive_intent_by_id s)(i \<mapsto> \<lparr>p_id = i,
         p_owner = caller c, p_token_in = token_identifier p, p_amount_in = amount p,
         p_merkle_root = root, p_deadline = dl, p_keeper_fee = fee, p_status = PPending,
         p_executed_by = None\<rparr>)\<rparr>" "egld_beside_tokens c"
  using assms
  by (auto simp: create_pre_cognitive_intent_def res_simps Let_def receive_def length_Suc_conv
      One_nat_def)

lemma cancel_pre_cognitive_intent_Inr:
  assumes "cancel_pre_cognitive_intent c i s = Inr t"
  obtains x where "egld_value c = 0" "esdt_transfers c = []"
    "pre_cognitive_intent_by_id s i = Some x" "p_owner x = caller c" "p_status x = PPending"
    "p_amount_in x \<le> esdt_balance s (p_token_in x) 0" "p_keeper_fee x \<le> egld_balance s"
    "t = s\<lparr>pre_cognitive_intent_by_id := (pre_cognitive_intent_by_id s)
             (i \<mapsto> x\<lparr>p_status := PCancelled\<rparr>),
           esdt_balance := debit (p_token_in x) 0 (p_amount_in x) (esdt_balance s),
           egld_balance := egld_balance s - p_keeper_fee x,
           outbox := outbox s @ SendEsdt (caller c) (p_token_in x) 0 (p_amount_in x) #
             send_pos (caller c) (p_keeper_fee x)\<rparr>"
  using assms unfolding cancel_pre_cognitive_intent_def
  apply (simp only: res_simps Let_def)
  apply (elim exE conjE)
  apply (rule that, assumption+; simp)
  done

lemma execute_pre_cognitive_leaf_Inr:
  assumes "execute_pre_cognitive_leaf e c i prf tg ep args tk mr s = Inr t"
  obtains x p where "caller c \<in> set (whitelisted_keepers s)"
    "pre_cognitive_intent_by_id s i = Some x" "p_status x = PPending"
    "block_timestamp c \<le> p_deadline x"
    "verify_merkle_proof (sha256 e) (sha256 e (encoded_leaf e tg ep args tk mr)) prf (p_merkle_root x)"
    "esdt_transfers c = [p]" "token_nonce p = 0" "token_identifier p = tk" "mr \<le> amount p"
    "p_amount_in x \<le> debit tk 0 (amount p) (esdt_balance (receive c s)) (p_token_in x) 0"
    "p_keeper_fee x \<le> egld_balance s + egld_value c"
    "t = (receive c s)\<lparr>pre_cognitive_intent_by_id := (pre_cognitive_intent_by_id s)
             (i \<mapsto> x\<lparr>p_status := PExecuted, p_executed_by := Some (caller c)\<rparr>),
           esdt_balance := debit (p_token_in x) 0 (p_amount_in x)
             (debit tk 0 (amount p) (esdt_balance (receive c s))),
           egld_balance := egld_balance s + egld_value c - p_keeper_fee x,
           outbox := outbox s @ SendEsdt (p_owner x) tk 0 (amount p) #
             SendEsdt (caller c) (p_token_in x) 0 (p_amount_in x) #
             send_pos (caller c) (p_keeper_fee x)\<rparr>"
  using assms unfolding execute_pre_cognitive_leaf_def
  apply (simp only: res_simps Let_def sched_simps split_paired_Ex prod.case)
  apply (elim exE conjE)
  apply (rule that; (assumption | simp add: receive_def))
  done

end
