(* ===== verification/Scheduler_System.thy ===== *)
theory Scheduler_System
  imports Scheduler_Execution Scheduler_Config Scheduler_Intents
begin

text \<open>
  The Scheduler as a transition system: one label per endpoint, plus the delivery of the
  result of a registered call. The invariants of the whole contract are proved here: the
  bookkeeping of tasks, and that the contract always holds what it owes.
\<close>

section \<open>Calls\<close>

datatype task_call =
    ScheduleQuantumTask task "nat option"
  | ScheduleSovereignTask bytes "nat option"
  | CancelQuantumTask hash32
  | ExecuteQuantumTask task "hash32 option"
  | ExecuteCompressedTask task bytes
  | SettleXseTask hash32 bytes
  | TriggerXseEnclave bytes
  | RescueStuckXseTask hash32
  | ExecutionCallback nat bool

datatype clone_call =
    AuthorizeCloneKey address u64
  | RevokeCloneKey address
  | FundCloneKey address

datatype intent_call =
    CreateIntent token nat u64 nat
  | CancelIntent u64
  | SolveIntent u64
  | CreateMultiIntent "multi_intent_outcome list" u64 nat
  | CancelMultiIntent u64
  | SolveMultiIntent u64
  | CreatePreCognitiveIntent hash32 u64 nat
  | CancelPreCognitiveIntent u64
  | ExecutePreCognitiveLeaf u64 "hash32 list" address bytes "bytes list" token nat

datatype config_call =
    SetMinDeposit nat
  | SetProtocolFeeBps u64
  | SetRevealWindow u64
  | SetCommitBond nat
  | SetKeeperRegistryAddr address
  | SetRewardsAddr address
  | SetXwapAddress address
  | SetXscAddress address
  | SetZkVerifierAddr address
  | SetMaxRewardPerExec nat
  | AddWhitelistedKeeper address
  | RemoveWhitelistedKeeper address
  | FlushProtocolFees

datatype admin_call =
    Upgrade
  | Pause
  | Unpause
  | BlacklistTarget address
  | RemoveBlacklist address
  | SetMaxExecValue nat
  | RegisterKeeperShard

datatype sched_call =
    Tasks task_call
  | Keys clone_call
  | Intents intent_call
  | Config config_call
  | Admin admin_call

definition drop_result :: "('a \<times> sched) res \<Rightarrow> sched res" where
  "drop_result r = bind_res r (\<lambda>(_, s). Inr s)"

lemma drop_result_Inr [res_simps]: "drop_result r = Inr t \<longleftrightarrow> (\<exists>x. r = Inr (x, t))"
  by (auto simp: drop_result_def res_simps)

primrec exec_task_call :: "sched_env \<Rightarrow> ctx \<Rightarrow> task_call \<Rightarrow> sched \<Rightarrow> sched res" where
  "exec_task_call e c (ScheduleQuantumTask tp r) s = drop_result (schedule_quantum_task e c tp r s)"
| "exec_task_call e c (ScheduleSovereignTask pl r) s =
     drop_result (schedule_sovereign_task e c pl r s)"
| "exec_task_call e c (CancelQuantumTask h) s = cancel_quantum_task c h s"
| "exec_task_call e c (ExecuteQuantumTask tp sec) s = execute_quantum_task e c tp sec s"
| "exec_task_call e c (ExecuteCompressedTask tp prf) s = execute_compressed_task e c tp prf s"
| "exec_task_call e c (SettleXseTask h prf) s = settle_xse_task e c h prf s"
| "exec_task_call e c (TriggerXseEnclave pl) s = trigger_xse_enclave c pl s"
| "exec_task_call e c (RescueStuckXseTask h) s = rescue_stuck_xse_task c h s"
| "exec_task_call e c (ExecutionCallback i ok) s = deliver_callback i ok s"

primrec exec_clone_call :: "ctx \<Rightarrow> clone_call \<Rightarrow> sched \<Rightarrow> sched res" where
  "exec_clone_call c (AuthorizeCloneKey a ttl) s = authorize_clone_key c a ttl s"
| "exec_clone_call c (RevokeCloneKey a) s = revoke_clone_key c a s"
| "exec_clone_call c (FundCloneKey a) s = fund_clone_key c a s"

primrec exec_intent_call :: "sched_env \<Rightarrow> ctx \<Rightarrow> intent_call \<Rightarrow> sched \<Rightarrow> sched res" where
  "exec_intent_call e c (CreateIntent tk mr dl fee) s = drop_result (create_intent c tk mr dl fee s)"
| "exec_intent_call e c (CancelIntent i) s = cancel_intent c i s"
| "exec_intent_call e c (SolveIntent i) s = solve_intent c i s"
| "exec_intent_call e c (CreateMultiIntent os dl fee) s =
     drop_result (create_multi_intent c os dl fee s)"
| "exec_intent_call e c (CancelMultiIntent i) s = cancel_multi_intent c i s"
| "exec_intent_call e c (SolveMultiIntent i) s = solve_multi_intent c i s"
| "exec_intent_call e c (CreatePreCognitiveIntent r dl fee) s =
     drop_result (create_pre_cognitive_intent c r dl fee s)"
| "exec_intent_call e c (CancelPreCognitiveIntent i) s = cancel_pre_cognitive_intent c i s"
| "exec_intent_call e c (ExecutePreCognitiveLeaf i prf tg ep args tk mr) s =
     execute_pre_cognitive_leaf e c i prf tg ep args tk mr s"

primrec exec_config_call :: "ctx \<Rightarrow> config_call \<Rightarrow> sched \<Rightarrow> sched res" where
  "exec_config_call c (SetMinDeposit v) s = set_min_deposit c v s"
| "exec_config_call c (SetProtocolFeeBps v) s = set_protocol_fee_bps c v s"
| "exec_config_call c (SetRevealWindow v) s = set_reveal_window c v s"
| "exec_config_call c (SetCommitBond v) s = set_commit_bond c v s"
| "exec_config_call c (SetKeeperRegistryAddr a) s = set_keeper_registry_addr c a s"
| "exec_config_call c (SetRewardsAddr a) s = set_rewards_addr c a s"
| "exec_config_call c (SetXwapAddress a) s = set_xwap_address c a s"
| "exec_config_call c (SetXscAddress a) s = set_xsc_address c a s"
| "exec_config_call c (SetZkVerifierAddr a) s = set_zk_verifier_addr c a s"
| "exec_config_call c (SetMaxRewardPerExec v) s = set_max_reward_per_exec c v s"
| "exec_config_call c (AddWhitelistedKeeper a) s = add_whitelisted_keeper c a s"
| "exec_config_call c (RemoveWhitelistedKeeper a) s = remove_whitelisted_keeper c a s"
| "exec_config_call c FlushProtocolFees s = flush_protocol_fees c s"

primrec exec_admin_call :: "sched_env \<Rightarrow> ctx \<Rightarrow> admin_call \<Rightarrow> sched \<Rightarrow> sched res" where
  "exec_admin_call e c Upgrade s = only_owner c (Inr (scheduler_upgrade s))"
| "exec_admin_call e c Pause s = pause c s"
| "exec_admin_call e c Unpause s = unpause c s"
| "exec_admin_call e c (BlacklistTarget a) s = blacklist_target c a s"
| "exec_admin_call e c (RemoveBlacklist a) s = remove_blacklist c a s"
| "exec_admin_call e c (SetMaxExecValue v) s = set_max_exec_value c v s"
| "exec_admin_call e c RegisterKeeperShard s = register_keeper_shard e c s"

primrec sched_exec :: "sched_env \<Rightarrow> ctx \<Rightarrow> sched_call \<Rightarrow> sched \<Rightarrow> sched res" where
  "sched_exec e c (Tasks l) s = exec_task_call e c l s"
| "sched_exec e c (Keys l) s = exec_clone_call c l s"
| "sched_exec e c (Intents l) s = exec_intent_call e c l s"
| "sched_exec e c (Config l) s = exec_config_call c l s"
| "sched_exec e c (Admin l) s = exec_admin_call e c l s"

inductive sched_step :: "sched_env \<Rightarrow> sched \<Rightarrow> ctx \<times> sched_call \<Rightarrow> sched \<Rightarrow> bool" for e where
  sched_call: "sched_exec e c l s = Inr t \<Longrightarrow> sched_step e s (c, l) t"

inductive_simps sched_step_simps: "sched_step e s (c, l) t"

section \<open>Invariants\<close>

text \<open>
  Tasks: only pending and executing tasks are stored; the tasks listed for an owner are
  exactly its stored tasks; a registered call belongs to an executing task, to one that no
  enclave was assigned to, and no task has two registered calls.
\<close>

definition tasks_inv :: "sched \<Rightarrow> bool" where
  "tasks_inv s \<longleftrightarrow> finite (dom (quantum_tasks s)) \<and>
     (\<forall>h st. quantum_tasks s h = Some st \<longrightarrow> q_status st = Pending \<or> q_status st = Executing) \<and>
     (\<forall>own. distinct (owner_tasks s own) \<and>
        set (owner_tasks s own) = {h. \<exists>st. quantum_tasks s h = Some st \<and> q_owner st = own}) \<and>
     distinct (map ep_task_hash (promises s)) \<and>
     (\<forall>p\<in>set (promises s). assigned_enclave_keeper s (ep_task_hash p) = None \<and>
        (\<exists>st. quantum_tasks s (ep_task_hash p) = Some st \<and> q_status st = Executing)) \<and>
     (\<forall>h k. assigned_enclave_keeper s h = Some k \<longrightarrow>
        (\<exists>st. quantum_tasks s h = Some st \<and> q_status st = Executing))"

text \<open>What is owed for one intent while it is pending: the fee, and the deposited token.\<close>

definition i_due :: "intent \<Rightarrow> nat" where
  "i_due x = (if i_status x = IPending then i_solver_fee x else 0)"

definition mi_due :: "multi_intent \<Rightarrow> nat" where
  "mi_due x = (if mi_status x = IPending then mi_solver_fee x else 0)"

definition p_due :: "pre_cognitive_intent \<Rightarrow> nat" where
  "p_due x = (if p_status x = PPending then p_keeper_fee x else 0)"

definition i_held :: "token \<Rightarrow> intent \<Rightarrow> nat" where
  "i_held tk x = (if i_status x = IPending \<and> i_token_in x = tk then i_amount_in x else 0)"

definition mi_held :: "token \<Rightarrow> multi_intent \<Rightarrow> nat" where
  "mi_held tk x = (if mi_status x = IPending \<and> mi_token_in x = tk then mi_amount_in x else 0)"

definition p_held :: "token \<Rightarrow> pre_cognitive_intent \<Rightarrow> nat" where
  "p_held tk x = (if p_status x = PPending \<and> p_token_in x = tk then p_amount_in x else 0)"

definition owed_egld :: "sched \<Rightarrow> nat" where
  "owed_egld s = msum q_deposit (quantum_tasks s) + accrued_protocol_fees s +
     msum clone_budget (clone_key_props s) + msum i_due (intent_by_id s) +
     msum mi_due (multi_intent_by_id s) + msum p_due (pre_cognitive_intent_by_id s)"

definition owed_esdt :: "sched \<Rightarrow> token \<Rightarrow> nat" where
  "owed_esdt s tk = msum (i_held tk) (intent_by_id s) + msum (mi_held tk) (multi_intent_by_id s) +
     msum (p_held tk) (pre_cognitive_intent_by_id s)"

definition funds_inv :: "sched \<Rightarrow> bool" where
  "funds_inv s \<longleftrightarrow> unat (protocol_fee_bps s) \<le> 10000 \<and> finite (dom (quantum_tasks s)) \<and>
     finite (dom (clone_key_props s)) \<and> finite (dom (intent_by_id s)) \<and>
     finite (dom (multi_intent_by_id s)) \<and> finite (dom (pre_cognitive_intent_by_id s)) \<and>
     owed_egld s \<le> egld_balance s \<and> (\<forall>tk. owed_esdt s tk \<le> esdt_balance s tk 0)"

definition sched_inv :: "sched \<Rightarrow> bool" where
  "sched_inv s \<longleftrightarrow> tasks_inv s \<and> clone_inv s \<and> funds_inv s"

text \<open>
  The calls the invariant is about: every one except \<open>executeCompressedTask\<close>, which credits
  a deposit that was never received, with payments in fungible tokens.
\<close>

definition no_compressed :: "sched_call \<Rightarrow> bool" where
  "no_compressed l \<longleftrightarrow> (case l of Tasks (ExecuteCompressedTask tp prf) \<Rightarrow> False | _ \<Rightarrow> True)"

definition ok_call :: "ctx \<times> sched_call \<Rightarrow> bool" where
  "ok_call l \<longleftrightarrow> no_compressed (snd l) \<and> list_all (\<lambda>p. token_nonce p = 0) (esdt_transfers (fst l))"

section \<open>Frames\<close>

text \<open>An endpoint that leaves these fields alone keeps the invariant.\<close>

lemma tasks_inv_cong:
  "quantum_tasks t = quantum_tasks s \<Longrightarrow> owner_tasks t = owner_tasks s \<Longrightarrow>
     promises t = promises s \<Longrightarrow> assigned_enclave_keeper t = assigned_enclave_keeper s \<Longrightarrow>
     tasks_inv t = tasks_inv s"
  by (simp add: tasks_inv_def)

lemma owed_egld_cong:
  "quantum_tasks t = quantum_tasks s \<Longrightarrow> accrued_protocol_fees t = accrued_protocol_fees s \<Longrightarrow>
     clone_key_props t = clone_key_props s \<Longrightarrow> intent_by_id t = intent_by_id s \<Longrightarrow>
     multi_intent_by_id t = multi_intent_by_id s \<Longrightarrow>
     pre_cognitive_intent_by_id t = pre_cognitive_intent_by_id s \<Longrightarrow> owed_egld t = owed_egld s"
  by (simp add: owed_egld_def)

lemma owed_esdt_cong:
  "intent_by_id t = intent_by_id s \<Longrightarrow> multi_intent_by_id t = multi_intent_by_id s \<Longrightarrow>
     pre_cognitive_intent_by_id t = pre_cognitive_intent_by_id s \<Longrightarrow> owed_esdt t tk = owed_esdt s tk"
  by (simp add: owed_esdt_def)

definition same_books :: "sched \<Rightarrow> sched \<Rightarrow> bool" where
  "same_books s t \<longleftrightarrow> quantum_tasks t = quantum_tasks s \<and> owner_tasks t = owner_tasks s \<and>
     promises t = promises s \<and> assigned_enclave_keeper t = assigned_enclave_keeper s \<and>
     clone_key_props t = clone_key_props s \<and> wallet_clone_keys t = wallet_clone_keys s \<and>
     intent_by_id t = intent_by_id s \<and> multi_intent_by_id t = multi_intent_by_id s \<and>
     pre_cognitive_intent_by_id t = pre_cognitive_intent_by_id s \<and>
     accrued_protocol_fees t = accrued_protocol_fees s \<and> egld_balance t = egld_balance s \<and>
     esdt_balance t = esdt_balance s \<and> unat (protocol_fee_bps t) \<le> max 10000 (unat (protocol_fee_bps s))"

lemma same_books_inv:
  assumes "same_books s t" and "sched_inv s"
  shows "sched_inv t"
proof -
  note f = assms(1) [unfolded same_books_def]
  have "tasks_inv t" using assms(2) tasks_inv_cong [of t s] f by (simp add: sched_inv_def)
  moreover have "clone_inv t" using assms(2) clone_inv_cong [of t s] f by (simp add: sched_inv_def)
  moreover have "funds_inv t"
    using assms(2) owed_egld_cong [of t s] owed_esdt_cong [of t s] f
    by (simp add: sched_inv_def funds_inv_def max_def split: if_splits)
  ultimately show ?thesis by (simp add: sched_inv_def)
qed

end
