(* ===== verification/Scheduler_Invariants.thy ===== *)
theory Scheduler_Invariants
  imports Scheduler_System
begin

text \<open>
  Every endpoint of the Scheduler keeps the invariant of the contract. One lemma per endpoint
  that moves funds or tasks; everything else falls under the frame rule.
\<close>

section \<open>Configuration and administration\<close>

lemma config_call_inv:
  assumes "exec_config_call c l s = Inr t" and "sched_inv s"
  shows "sched_inv t"
proof (cases "l = FlushProtocolFees")
  case True
  with assms(1) have "flush_protocol_fees c s = Inr t" by simp
  then obtain r where le: "accrued_protocol_fees s \<le> egld_balance s"
    and t: "t = s\<lparr>accrued_protocol_fees := 0,
      egld_balance := egld_balance s - accrued_protocol_fees s,
      outbox := outbox s @ [TransferExecute r ''receiveExecutionFee'' [AAddr (caller c), AU64 0]
        (accrued_protocol_fees s) 10000000]\<rparr>"
    by (rule flush_protocol_fees_Inr)
  have "tasks_inv t" using assms(2) tasks_inv_cong [of t s] t by (simp add: sched_inv_def)
  moreover have "clone_inv t" using assms(2) clone_inv_cong [of t s] t by (simp add: sched_inv_def)
  moreover have "funds_inv t"
    using assms(2) by (auto simp: t sched_inv_def funds_inv_def owed_egld_def owed_esdt_def)
  ultimately show ?thesis by (simp add: sched_inv_def)
next
  case False
  then have "same_books s t"
    using assms(1)
    by (cases l) (auto simp: same_books_def setter_defs sched_simps)
  then show ?thesis using assms(2) by (rule same_books_inv)
qed

lemma admin_call_inv:
  assumes "exec_admin_call e c l s = Inr t" and "sched_inv s"
  shows "sched_inv t"
proof -
  have "same_books s t"
    using assms(1)
    by (cases l) (auto simp: same_books_def setter_defs sched_simps res_simps scheduler_upgrade_def
        pause_def unpause_def register_keeper_shard_def Let_def)
  then show ?thesis using assms(2) by (rule same_books_inv)
qed

section \<open>Clone keys\<close>

lemma clone_call_inv:
  assumes "exec_clone_call c l s = Inr t" and "sched_inv s"
  shows "sched_inv t"
proof -
  have ci: "clone_inv s" and fin: "finite (dom (clone_key_props s))"
    using assms(2) by (auto simp: sched_inv_def clone_inv_def)
  have "clone_inv t"
    using assms(1) ci
    by (cases l) (auto dest: authorize_clone_key_inv revoke_clone_key_inv fund_clone_key_inv)
  moreover have "tasks_inv t \<and> funds_inv t"
  proof (cases l)
    case (AuthorizeCloneKey a ttl)
    with assms(1) have t: "clone_key_props s a = None" "t = clone_key_authorized_event (caller c) a
        (block_timestamp c + ttl) (egld_value c) ((receive c s)\<lparr>clone_key_props := (clone_key_props s)
          (a \<mapsto> \<lparr>ck_main_address = caller c, ck_spend_limit = egld_value c, ck_spent_amount = 0,
               ck_expiry_timestamp = block_timestamp c + ttl\<rparr>),
          wallet_clone_keys := (wallet_clone_keys s)
            (caller c := us_insert a (wallet_clone_keys s (caller c)))\<rparr>)" "esdt_transfers c = []"
      by (auto simp: authorize_clone_key_def res_simps Let_def receive_def)
    then show ?thesis
      using assms(2) tasks_inv_cong [of t s] fin
      by (simp add: sched_inv_def funds_inv_def owed_egld_def owed_esdt_def clone_event_defs
          receive_def msum_insert_fresh clone_budget_def)
  next
    case (RevokeCloneKey a)
    with assms(1) have "revoke_clone_key c a s = Inr t" by simp
    then obtain p where p: "clone_key_props s a = Some p" "clone_budget p \<le> egld_balance s"
      and t: "t = s\<lparr>clone_key_props := (clone_key_props s)(a := None),
           wallet_clone_keys := (wallet_clone_keys s)
             (caller c := us_swap_remove a (wallet_clone_keys s (caller c))),
           egld_balance := egld_balance s - clone_budget p,
           outbox := outbox s @ send_pos (caller c) (clone_budget p) @
             [Event ''cloneKeyRevoked'' [AAddr (caller c), AAddr a, ANat (clone_budget p)]]\<rparr>"
      by (rule revoke_clone_key_Inr)
    then show ?thesis
      using assms(2) tasks_inv_cong [of t s] msum_remove [OF fin p(1), of clone_budget] fin
      by (auto simp: sched_inv_def funds_inv_def owed_egld_def owed_esdt_def)
  next
    case (FundCloneKey a)
    with assms(1) obtain p where p: "clone_key_props s a = Some p"
      and t: "t = clone_key_funded_event a (egld_value c) ((receive c s)\<lparr>clone_key_props :=
        (clone_key_props s)(a \<mapsto> p\<lparr>ck_spend_limit := ck_spend_limit p + egld_value c\<rparr>)\<rparr>)"
      and "esdt_transfers c = []"
      by (auto simp: fund_clone_key_def res_simps Let_def receive_def)
    moreover have "clone_budget (p\<lparr>ck_spend_limit := ck_spend_limit p + egld_value c\<rparr>) =
        clone_budget p + egld_value c"
      using clone_invD(1) [OF ci p] by (simp add: clone_budget_def)
    ultimately show ?thesis
      using assms(2) tasks_inv_cong [of t s] fin msum_update [OF fin p, of clone_budget
        "p\<lparr>ck_spend_limit := ck_spend_limit p + egld_value c\<rparr>"]
      by (simp add: sched_inv_def funds_inv_def owed_egld_def owed_esdt_def clone_event_defs
          receive_def)
  qed
  ultimately show ?thesis by (simp add: sched_inv_def)
qed

section \<open>The books of tasks\<close>

lemma tasks_invD:
  assumes "tasks_inv s"
  shows "finite (dom (quantum_tasks s))" "distinct (owner_tasks s own)"
    "set (owner_tasks s own) = {h. \<exists>st. quantum_tasks s h = Some st \<and> q_owner st = own}"
    "assigned_enclave_keeper s h = Some k \<Longrightarrow> \<exists>st. quantum_tasks s h = Some st \<and> q_status st = Executing"
    "p \<in> set (promises s) \<Longrightarrow> assigned_enclave_keeper s (ep_task_hash p) = None"
    "p \<in> set (promises s) \<Longrightarrow> \<exists>st. quantum_tasks s (ep_task_hash p) = Some st \<and> q_status st = Executing"
    "quantum_tasks s h = Some st \<Longrightarrow> q_status st = Pending \<or> q_status st = Executing"
    "distinct (map ep_task_hash (promises s))"
  using assms unfolding tasks_inv_def by blast+

lemma store_pending_tasks_inv:
  assumes "tasks_inv s" and "quantum_tasks s h = None"
  shows "tasks_inv (store_pending h own d s)"
proof -
  note d = tasks_invD [OF assms(1)]
  have new: "h \<notin> set (owner_tasks s o')" for o' using d(3) assms(2) by auto
  have "h \<notin> ep_task_hash ` set (promises s)" using d(6) assms(2) by force
  moreover have "assigned_enclave_keeper s h = None" using d(4) [of h] assms(2) by fastforce
  ultimately show ?thesis
    using assms(1) new us.elems_ins [OF d(2)] us.invar_ins [OF d(2)]
    unfolding tasks_inv_def store_pending_def by auto
qed

lemma tasks_inv_remove:
  assumes "tasks_inv s" and "quantum_tasks s h = Some st"
    and "quantum_tasks t = (quantum_tasks s)(h := None)"
    and "owner_tasks t = (owner_tasks s)(q_owner st := us_swap_remove h (owner_tasks s (q_owner st)))"
    and "assigned_enclave_keeper t = (assigned_enclave_keeper s)(h := None)"
    and "distinct (map ep_task_hash (promises t))" and "set (promises t) \<subseteq> set (promises s)"
    and "h \<notin> ep_task_hash ` set (promises t)"
  shows "tasks_inv t"
proof -
  note d = tasks_invD [OF assms(1)]
  have own: "distinct (owner_tasks t o') \<and>
      set (owner_tasks t o') = {h'. \<exists>st. quantum_tasks t h' = Some st \<and> q_owner st = o'}" for o'
    using d(2,3) assms(2) us.elems_del [OF d(2), of h] us.invar_del [OF d(2), of h]
    unfolding assms(3,4) by auto
  have pr: "assigned_enclave_keeper t (ep_task_hash p) = None \<and>
      (\<exists>st. quantum_tasks t (ep_task_hash p) = Some st \<and> q_status st = Executing)"
    if "p \<in> set (promises t)" for p
    using that assms(7,8) d(5,6) [of p] unfolding assms(3,5) by auto
  have "\<exists>st. quantum_tasks t h' = Some st \<and> q_status st = Executing"
    if "assigned_enclave_keeper t h' = Some k" for h' k
    using that d(4) [of h' k] unfolding assms(3,5) by (auto split: if_splits)
  with own pr assms(6) d(1,7) show ?thesis
    unfolding tasks_inv_def assms(3) by (auto split: if_splits)
qed

lemma tasks_inv_executing:
  assumes "tasks_inv s" and "quantum_tasks s h = Some st" and "q_status st = Pending"
    and "quantum_tasks t = (quantum_tasks s)(h \<mapsto> st\<lparr>q_status := Executing, q_executing_at := b\<rparr>)"
    and "owner_tasks t = owner_tasks s"
    and "promises t = promises s \<and> assigned_enclave_keeper t = (assigned_enclave_keeper s)(h \<mapsto> k) \<or>
         assigned_enclave_keeper t = assigned_enclave_keeper s \<and>
           (\<exists>p. promises t = promises s @ [p] \<and> ep_task_hash p = h)"
  shows "tasks_inv t"
proof -
  note d = tasks_invD [OF assms(1)]
  have nh: "h \<notin> ep_task_hash ` set (promises s)" using d(6) assms(2,3) by fastforce
  have na: "assigned_enclave_keeper s h = None" using d(4) [of h] assms(2,3) by fastforce
  have own: "{h'. \<exists>st. quantum_tasks t h' = Some st \<and> q_owner st = o'} =
      {h'. \<exists>st. quantum_tasks s h' = Some st \<and> q_owner st = o'}" for o'
    unfolding assms(4) using assms(2) by auto
  show ?thesis
    using assms(6)
  proof (elim disjE conjE exE)
    assume "promises t = promises s" "assigned_enclave_keeper t = (assigned_enclave_keeper s)(h \<mapsto> k)"
    then show ?thesis
      using assms(1) nh own unfolding tasks_inv_def assms(4,5) by (auto split: if_splits)
  next
    fix p
    assume "assigned_enclave_keeper t = assigned_enclave_keeper s" "promises t = promises s @ [p]"
      "ep_task_hash p = h"
    then show ?thesis
      using assms(1) nh na own unfolding tasks_inv_def assms(4,5) by (auto split: if_splits)
  qed
qed

section \<open>The books of funds\<close>

text \<open>
  The contract stays solvent when what it owes grows by no more than what it holds.
\<close>

lemma funds_inv_change:
  assumes "funds_inv s" and "unat (protocol_fee_bps t) \<le> 10000"
    and "finite (dom (quantum_tasks t))" "finite (dom (clone_key_props t))"
      "finite (dom (intent_by_id t))" "finite (dom (multi_intent_by_id t))"
      "finite (dom (pre_cognitive_intent_by_id t))"
    and "owed_egld t + egld_balance s \<le> owed_egld s + egld_balance t"
    and "\<And>tk. owed_esdt t tk + esdt_balance s tk 0 \<le> owed_esdt s tk + esdt_balance t tk 0"
  shows "funds_inv t"
proof -
  have "owed_egld t \<le> egld_balance t" using assms(1,8) by (simp add: funds_inv_def)
  moreover have "owed_esdt t tk \<le> esdt_balance t tk 0" for tk
    using assms(1) assms(9) [of tk] by (auto simp: funds_inv_def dest!: spec [of _ tk])
  ultimately show ?thesis using assms by (simp add: funds_inv_def)
qed

lemma funds_invD:
  assumes "funds_inv s"
  shows "unat (protocol_fee_bps s) \<le> 10000" "finite (dom (quantum_tasks s))"
    "finite (dom (clone_key_props s))" "finite (dom (intent_by_id s))"
    "finite (dom (multi_intent_by_id s))" "finite (dom (pre_cognitive_intent_by_id s))"
    "owed_egld s \<le> egld_balance s" "owed_esdt s tk \<le> esdt_balance s tk 0"
  using assms by (auto simp: funds_inv_def)

lemma receive_sched [simp]:
  "quantum_tasks (receive c s) = quantum_tasks s" "owner_tasks (receive c s) = owner_tasks s"
  "promises (receive c s) = promises s"
  "assigned_enclave_keeper (receive c s) = assigned_enclave_keeper s"
  "clone_key_props (receive c s) = clone_key_props s"
  "wallet_clone_keys (receive c s) = wallet_clone_keys s"
  "intent_by_id (receive c s) = intent_by_id s"
  "multi_intent_by_id (receive c s) = multi_intent_by_id s"
  "pre_cognitive_intent_by_id (receive c s) = pre_cognitive_intent_by_id s"
  "accrued_protocol_fees (receive c s) = accrued_protocol_fees s"
  "protocol_fee_bps (receive c s) = protocol_fee_bps s"
  "whitelisted_keepers (receive c s) = whitelisted_keepers s"
  by (simp_all add: receive_def)

lemma receive_owed [simp]:
  "owed_egld (receive c s) = owed_egld s" "owed_esdt (receive c s) = owed_esdt s"
  by (simp_all add: owed_egld_def owed_esdt_def fun_eq_iff)

lemma receive_inv: "sched_inv s \<Longrightarrow> sched_inv (receive c s)"
proof -
  assume inv: "sched_inv s"
  have "tasks_inv (receive c s)" "clone_inv (receive c s)"
    using inv tasks_inv_cong [of "receive c s" s] clone_inv_cong [of "receive c s" s]
    by (simp_all add: sched_inv_def)
  moreover have "funds_inv (receive c s)"
  proof -
    have fi: "funds_inv s" using inv by (simp add: sched_inv_def)
    show ?thesis
      by (rule funds_inv_change [OF fi]) (simp_all add: funds_invD [OF fi] credit_esdt_apply)
  qed
  ultimately show ?thesis by (simp add: sched_inv_def)
qed

section \<open>Scheduling and cancellation\<close>

lemma task_deposit_inv:
  assumes "task_deposit c b req (receive c s) = Inr (d, s1)" and "sched_inv s"
  shows "sched_inv s1 \<and> owed_egld s1 + d \<le> egld_balance s1 \<and> quantum_tasks s1 = quantum_tasks s"
  using assms(1)
proof (cases rule: task_deposit_Inr)
  case 1
  then show ?thesis
    using receive_inv [OF assms(2), of c] assms(2) by (simp add: sched_inv_def funds_inv_def)
next
  case (2 p)
  let ?p = "p\<lparr>ck_spent_amount := ck_spent_amount p + d\<rparr>"
  have ri: "sched_inv (receive c s)" by (rule receive_inv [OF assms(2)])
  have p: "clone_key_props s (caller c) = Some p" using 2 by simp
  have fin: "finite (dom (clone_key_props s))" using assms(2) by (simp add: sched_inv_def funds_inv_def)
  have "clone_budget ?p + d = clone_budget p" using 2 by (simp add: clone_budget_def)
  then have owed: "owed_egld s1 + d = owed_egld s"
    using msum_update [OF fin p, of clone_budget ?p] 2 by (simp add: owed_egld_def)
  have "charge_clone_key c (caller c) d (receive c s) = Inr s1"
    using assms(1) 2 by (simp add: task_deposit_def res_simps)
  then have "clone_inv s1" using ri charge_clone_key_inv unfolding sched_inv_def by blast
  moreover have "tasks_inv s1"
    using ri tasks_inv_cong [of s1 "receive c s"] 2 by (simp add: sched_inv_def)
  moreover have "funds_inv s1"
  proof -
    have fi: "funds_inv (receive c s)" using ri by (simp add: sched_inv_def)
    have sel: "protocol_fee_bps s1 = protocol_fee_bps s" "quantum_tasks s1 = quantum_tasks s"
      "finite (dom (clone_key_props s1))" "intent_by_id s1 = intent_by_id s"
      "multi_intent_by_id s1 = multi_intent_by_id s" "egld_balance s1 = egld_balance s"
      "pre_cognitive_intent_by_id s1 = pre_cognitive_intent_by_id s"
      "esdt_balance s1 = esdt_balance (receive c s)"
      using fin by (simp_all add: 2)
    show ?thesis
      by (rule funds_inv_change [OF fi])
        (use owed funds_invD [OF fi] 2(2) in \<open>simp_all add: sel owed_esdt_def\<close>)
  qed
  moreover have "owed_egld s1 + d \<le> egld_balance s1"
    using owed 2 assms(2) by (simp add: sched_inv_def funds_inv_def)
  ultimately show ?thesis using 2 by (simp add: sched_inv_def)
qed

lemma store_pending_inv:
  assumes "sched_inv s" and "owed_egld s + d \<le> egld_balance s" and "quantum_tasks s h = None"
  shows "sched_inv (store_pending h own d s)"
proof -
  have fin: "finite (dom (quantum_tasks s))" using assms(1) by (simp add: sched_inv_def funds_inv_def)
  have "owed_egld (store_pending h own d s) = owed_egld s + d"
    using assms(3) fin by (simp add: owed_egld_def store_pending_def msum_insert_fresh)
  then have "funds_inv (store_pending h own d s)"
    using assms(1,2) by (auto simp: sched_inv_def funds_inv_def store_pending_def owed_esdt_def)
  moreover have "clone_inv (store_pending h own d s)"
    using assms(1) clone_inv_cong [of "store_pending h own d s" s]
    by (simp add: sched_inv_def store_pending_def)
  ultimately show ?thesis
    using assms(1,3) store_pending_tasks_inv by (simp add: sched_inv_def)
qed

lemma schedule_quantum_task_inv:
  assumes "schedule_quantum_task e c tp req s = Inr (h, t)" and "sched_inv s"
  shows "sched_inv t"
  using assms(1)
proof (cases rule: schedule_quantum_task_Inr)
  case (1 own b d s1 s2)
  have i: "sched_inv s1 \<and> owed_egld s1 + d \<le> egld_balance s1 \<and> quantum_tasks s1 = quantum_tasks s"
    using 1(4) assms(2) by (rule task_deposit_inv)
  then have "sched_inv (store_pending h own d s1)" using 1(7) by (blast intro: store_pending_inv)
  moreover have "same_books (store_pending h own d s1) t"
    using 1(8,9) by (simp add: same_books_def sched_simps store_pending_def sched_event_defs)
  ultimately show ?thesis by (blast intro: same_books_inv)
qed

lemma schedule_sovereign_task_inv:
  assumes "schedule_sovereign_task e c pl req s = Inr (h, t)" and "sched_inv s"
  shows "sched_inv t"
  using assms(1)
proof (cases rule: schedule_sovereign_task_Inr)
  case (1 own b d s1)
  have i: "sched_inv s1 \<and> owed_egld s1 + d \<le> egld_balance s1 \<and> quantum_tasks s1 = quantum_tasks s"
    using 1(4) assms(2) by (rule task_deposit_inv)
  then have "sched_inv (store_pending h own d s1)" using 1(8) by (blast intro: store_pending_inv)
  moreover have "same_books (store_pending h own d s1) t"
    using 1(9) by (simp add: same_books_def store_pending_def sched_event_defs)
  ultimately show ?thesis by (blast intro: same_books_inv)
qed

text \<open>
  Every way a task leaves the books pays out at most its deposit, the protocol fee included.
\<close>

lemma remove_task_inv:
  assumes "sched_inv s" and "quantum_tasks s h = Some st"
    and "quantum_tasks t = (quantum_tasks s)(h := None)"
    and "egld_balance t + paid = egld_balance s" and "accrued_protocol_fees t = accrued_protocol_fees s + fee"
    and "paid + fee \<le> q_deposit st"
    and "clone_key_props t = clone_key_props s" "wallet_clone_keys t = wallet_clone_keys s"
      "intent_by_id t = intent_by_id s" "multi_intent_by_id t = multi_intent_by_id s"
      "pre_cognitive_intent_by_id t = pre_cognitive_intent_by_id s"
      "esdt_balance t = esdt_balance s" "protocol_fee_bps t = protocol_fee_bps s"
    and "tasks_inv t"
  shows "sched_inv t"
proof -
  have fin: "finite (dom (quantum_tasks s))" using assms(1) by (simp add: sched_inv_def funds_inv_def)
  have "owed_egld t + q_deposit st = owed_egld s + fee"
    using msum_remove [OF fin assms(2), of q_deposit] assms(3,5,7,9-11) by (simp add: owed_egld_def)
  then have le: "owed_egld t + egld_balance s \<le> owed_egld s + egld_balance t"
    using assms(4,6) by linarith
  have fi: "funds_inv s" using assms(1) by (simp add: sched_inv_def)
  have "funds_inv t"
    by (rule funds_inv_change [OF fi])
      (use le funds_invD [OF fi] in \<open>simp_all add: assms(3,7,9-13) owed_esdt_def\<close>)
  moreover have "clone_inv t"
    using assms(1) clone_inv_cong [OF assms(7,8)] by (simp add: sched_inv_def)
  ultimately show ?thesis using assms(14) by (simp add: sched_inv_def)
qed

lemma cancel_quantum_task_inv:
  assumes "cancel_quantum_task c h s = Inr t" and "sched_inv s"
  shows "sched_inv t"
  using assms(1)
proof (cases rule: cancel_quantum_task_Inr)
  case (1 st fee refund)
  have ti: "tasks_inv s" using assms(2) by (simp add: sched_inv_def)
  have "fee \<le> q_deposit st"
    using 1(8) assms(2) by (simp add: sched_inv_def funds_inv_def bps.cut_le)
  then have pf: "refund + fee \<le> q_deposit st" using 1(9) by auto
  have na: "assigned_enclave_keeper s h = None" "h \<notin> ep_task_hash ` set (promises s)"
    using tasks_invD(4) [OF ti, of h] tasks_invD(6) [OF ti] 1(4,7) by fastforce+
  have "tasks_inv t"
    by (rule tasks_inv_remove [OF ti 1(4)])
      (use na tasks_invD(8) [OF ti] in \<open>simp_all add: 1(11) fun_upd_idem\<close>)
  then show ?thesis
    by (intro remove_task_inv [OF assms(2) 1(4), where paid = refund and fee = fee])
      (use pf 1(10) in \<open>simp_all add: 1(11)\<close>)
qed

section \<open>Execution\<close>

lemma execute_quantum_task_inv:
  assumes "execute_quantum_task e c tp sec s = Inr t" and "sched_inv s" and "sync_pure e"
  shows "sched_inv t"
  using assms(1)
proof (cases rule: execute_quantum_task_Inr)
  case (1 h st)
  let ?s = "if t_confidential tp
    then s\<lparr>assigned_enclave_keeper := (assigned_enclave_keeper s)(h \<mapsto> caller c)\<rparr> else s"
  let ?st = "st\<lparr>q_status := Executing, q_executing_at := block_timestamp c\<rparr>"
  have t: "t = dispatched e c h tp (caller c) st ?s"
    using dispatch_pure [OF 1(11) assms(3)] .
  have ti: "tasks_inv s" and fi: "funds_inv s" using assms(2) by (simp_all add: sched_inv_def)
  have qt: "quantum_tasks t = (quantum_tasks s)(h \<mapsto> ?st)"
    and same: "owner_tasks t = owner_tasks s" "clone_key_props t = clone_key_props s"
      "wallet_clone_keys t = wallet_clone_keys s" "intent_by_id t = intent_by_id s"
      "multi_intent_by_id t = multi_intent_by_id s" "egld_balance t = egld_balance s"
      "pre_cognitive_intent_by_id t = pre_cognitive_intent_by_id s"
      "accrued_protocol_fees t = accrued_protocol_fees s" "esdt_balance t = esdt_balance s"
      "protocol_fee_bps t = protocol_fee_bps s"
    by (simp_all add: t dispatched_def Let_def sched_event_defs)
  have "tasks_inv t"
    by (rule tasks_inv_executing [OF ti 1(6,7) qt same(1), where k = "caller c"])
      (simp add: t dispatched_def Let_def sched_event_defs)
  moreover have "clone_inv t"
    using assms(2) clone_inv_cong [OF same(2,3)] by (simp add: sched_inv_def)
  moreover have "msum q_deposit (quantum_tasks t) = msum q_deposit (quantum_tasks s)"
    unfolding qt using funds_invD(2) [OF fi] 1(6) by (rule msum_update_same) simp
  then have "funds_inv t"
    by (intro funds_inv_change [OF fi])
      (use funds_invD [OF fi] in \<open>simp_all add: same owed_egld_def owed_esdt_def qt\<close>)
  ultimately show ?thesis by (simp add: sched_inv_def)
qed

text \<open>
  The two ways to finalise, given that no registered call is left for the task.
\<close>

lemma finalize_successful_inv:
  assumes "finalize_successful_execution h tg k (q_deposit st) (q_owner st) s = Inr t"
    and "sched_inv s" and "quantum_tasks s h = Some st"
    and "h \<notin> ep_task_hash ` set (promises s)"
  shows "sched_inv t"
  using assms(1)
proof (cases rule: finalize_successful_Inr)
  case (1 reward fee)
  have ti: "tasks_inv s" and fi: "funds_inv s" using assms(2) by (simp_all add: sched_inv_def)
  have "reward + fee \<le> q_deposit st"
    using calculate_reward_le [OF funds_invD(1) [OF fi]] 1(1,2) by simp
  then have "reward + (q_deposit st - (reward + fee)) + fee \<le> q_deposit st" by simp
  moreover have "tasks_inv t"
    by (rule tasks_inv_remove [OF ti assms(3)])
      (use assms(4) tasks_invD(8) [OF ti] in \<open>simp_all add: 1(4)\<close>)
  ultimately show ?thesis
    by (intro remove_task_inv [OF assms(2,3), where fee = fee and
          paid = "reward + (q_deposit st - (reward + fee))"])
      (use 1(3) in \<open>simp_all add: 1(4)\<close>)
qed

lemma finalize_failed_inv:
  assumes "finalize_failed_execution h tg k (q_deposit st) (q_owner st) s = Inr t"
    and "sched_inv s" and "quantum_tasks s h = Some st"
    and "h \<notin> ep_task_hash ` set (promises s)"
  shows "sched_inv t"
  using assms(1)
proof (cases rule: finalize_failed_Inr)
  case (1 fee failures)
  have ti: "tasks_inv s" and fi: "funds_inv s" using assms(2) by (simp_all add: sched_inv_def)
  have "fee \<le> q_deposit st" using bps.cut_le [OF funds_invD(1) [OF fi]] 1(1) by simp
  then have "q_deposit st - fee + fee \<le> q_deposit st" by simp
  moreover have "tasks_inv t"
    by (rule tasks_inv_remove [OF ti assms(3)])
      (use assms(4) tasks_invD(8) [OF ti] in \<open>simp_all add: 1(4)\<close>)
  ultimately show ?thesis
    by (intro remove_task_inv [OF assms(2,3), where fee = fee and paid = "q_deposit st - fee"])
      (use 1(3) in \<open>simp_all add: 1(4)\<close>)
qed

text \<open>In a state that keeps its books, a callback is never short of funds.\<close>

lemma finalize_funded:
  assumes fee: "unat (protocol_fee_bps s) \<le> 10000" and bal: "d \<le> egld_balance s"
  shows "\<exists>t. finalize_successful_execution h tg k d own s = Inr t"
    and "\<exists>t. finalize_failed_execution h tg k d own s = Inr t"
proof -
  let ?fee = "bps_of d (protocol_fee_bps s)"
  have r: "calculate_reward d s + ?fee \<le> d" using fee by (rule calculate_reward_le)
  have rest: "d - (calculate_reward d s + ?fee) \<le> egld_balance s - calculate_reward d s"
    and rest2: "d - ?fee \<le> egld_balance s"
    using r bal by linarith+
  have rew: "calculate_reward d (s'\<lparr>quantum_tasks := a, owner_tasks := b, used_compressed_tasks := u,
      assigned_enclave_keeper := v, total_successful_execs := w\<rparr>) = calculate_reward d s'"
    "calculate_reward d (s'\<lparr>quantum_tasks := a, owner_tasks := b, used_compressed_tasks := u,
      assigned_enclave_keeper := v, total_successful_execs := w, target_failure_count := x\<rparr>) =
        calculate_reward d s'" for d s' a b u v w x
    by (simp_all add: calculate_reward_def)
  have fwd: "forward_keeper_result k b s' = Inr (s'\<lparr>outbox := outbox s' @ keeper_report k b s'\<rparr>)" for b s'
    by (simp add: forward_keeper_result_Inr)
  show "\<exists>t. finalize_successful_execution h tg k d own s = Inr t"
    using r bal rest
    by (cases "tg = 0") (simp_all add: finalize_successful_execution_def Let_def rew direct_egld_def fwd)
  show "\<exists>t. finalize_failed_execution h tg k d own s = Inr t"
    using rest2 by (simp add: finalize_failed_execution_def Let_def direct_egld_def fwd)
qed

lemma finalize_total:
  assumes "sched_inv s" and "quantum_tasks s h = Some st"
  shows "\<exists>t. finalize_successful_execution h tg k (q_deposit st) (q_owner st) s = Inr t"
    and "\<exists>t. finalize_failed_execution h tg k (q_deposit st) (q_owner st) s = Inr t"
proof -
  have fi: "funds_inv s" using assms(1) by (simp add: sched_inv_def)
  have "q_deposit st \<le> msum q_deposit (quantum_tasks s)"
    using funds_invD(2) [OF fi] assms(2) by (rule msum_ge)
  then have bal: "q_deposit st \<le> egld_balance s"
    using funds_invD(7) [OF fi] by (simp add: owed_egld_def)
  show "\<exists>t. finalize_successful_execution h tg k (q_deposit st) (q_owner st) s = Inr t"
    and "\<exists>t. finalize_failed_execution h tg k (q_deposit st) (q_owner st) s = Inr t"
    by (rule finalize_funded [OF funds_invD(1) [OF fi] bal])+
qed

text \<open>A registered call that has been taken out, and not yet answered.\<close>

lemma undelivered_inv:
  assumes "sched_inv s"
  shows "sched_inv (s\<lparr>promises := take i (promises s) @ drop (Suc i) (promises s)\<rparr>)"
    (is "sched_inv ?s")
proof -
  let ?ps = "take i (promises s) @ drop (Suc i) (promises s)"
  have ti: "tasks_inv s" using assms by (simp add: sched_inv_def)
  have sub: "set ?ps \<subseteq> set (promises s)" by (auto dest: in_set_takeD in_set_dropD)
  have "distinct (map ep_task_hash ?ps)"
    using tasks_invD(8) [OF ti] set_take_disj_set_drop_if_distinct
        [of "map ep_task_hash (promises s)" i "Suc i"]
    by (simp only: map_append take_map [symmetric] drop_map [symmetric] distinct_append
        distinct_take distinct_drop)
  then have "tasks_inv ?s" using ti sub unfolding tasks_inv_def by (auto dest: subsetD)
  moreover have "clone_inv ?s" "funds_inv ?s"
    using assms clone_inv_cong [of ?s s]
    by (simp_all add: sched_inv_def funds_inv_def owed_egld_def owed_esdt_def)
  ultimately show ?thesis by (simp add: sched_inv_def)
qed

lemma deliver_callback_inv:
  assumes "deliver_callback i b s = Inr t" and "sched_inv s"
  shows "sched_inv t"
proof -
  define p where "p = promises s ! i"
  define s1 where "s1 = s\<lparr>promises := take i (promises s) @ drop (Suc i) (promises s)\<rparr>"
  have i: "i < length (promises s)"
    using assms(1) by (simp add: deliver_callback_def res_simps)
  have ti: "tasks_inv s" using assms(2) by (simp add: sched_inv_def)
  note split = id_take_nth_drop [OF i, folded p_def]
  have "distinct (map ep_task_hash (take i (promises s) @ p # drop (Suc i) (promises s)))"
    using tasks_invD(8) [OF ti] split by simp
  then have gone: "ep_task_hash p \<notin> ep_task_hash ` set (promises s1)"
    by (auto simp: s1_def)
  have inv1: "sched_inv s1" unfolding s1_def by (rule undelivered_inv [OF assms(2)])
  have "p \<in> set (promises s)" using i by (simp add: p_def)
  then obtain st where st: "quantum_tasks s (ep_task_hash p) = Some st"
    using tasks_invD(6) [OF ti] by blast
  then have st1: "quantum_tasks s1 (ep_task_hash p) = Some st" by (simp add: s1_def)
  have "t = s1 \<or>
      execution_callback (ep_task_hash p) (ep_target_contract p) (ep_keeper p) b s1 = Inr t"
    using assms(1) i by (simp add: deliver_callback_def Let_def p_def s1_def split: sum.splits)
  then show ?thesis
    using inv1 st1 gone finalize_successful_inv finalize_failed_inv
    by (cases b) (auto simp: execution_callback_def)
qed

lemma settle_xse_task_inv:
  assumes "settle_xse_task e c h prf s = Inr t" and "sched_inv s" and "sync_pure e"
  shows "sched_inv t"
  using assms(1)
proof (cases rule: settle_xse_task_Inr)
  case (1 st zk s1)
  have "s1 = s" using 1(9) sync_pureD [OF assms(3)] by blast
  moreover have "h \<notin> ep_task_hash ` set (promises s)"
    using tasks_invD(5) [of s] assms(2) 1(5) by (force simp: sched_inv_def)
  ultimately show ?thesis
    using finalize_successful_inv [OF _ assms(2) 1(6)] 1(10) by blast
qed

lemma rescue_stuck_xse_task_inv:
  assumes "rescue_stuck_xse_task c h s = Inr t" and "sched_inv s"
  shows "sched_inv t"
  using assms(1)
proof (cases rule: rescue_stuck_xse_task_Inr)
  case (1 st k)
  have ti: "tasks_inv s" using assms(2) by (simp add: sched_inv_def)
  have nh: "h \<notin> ep_task_hash ` set (promises s)" using tasks_invD(5) [OF ti] 1(8) by force
  have "tasks_inv t"
    by (rule tasks_inv_remove [OF ti 1(4)])
      (use nh tasks_invD(8) [OF ti] in \<open>simp_all add: 1(10)\<close>)
  then show ?thesis
    by (intro remove_task_inv [OF assms(2) 1(4), where fee = 0 and paid = "q_deposit st"])
      (use 1(9) in \<open>simp_all add: 1(10)\<close>)
qed

lemma task_call_inv:
  assumes "exec_task_call e c l s = Inr t" and "no_compressed (Tasks l)" and "sched_inv s"
    and "sync_pure e"
  shows "sched_inv t"
proof (cases l)
  case (TriggerXseEnclave pl)
  then have "same_books s t"
    using assms(1)
    by (auto simp: trigger_xse_enclave_def same_books_def res_simps sched_event_defs)
  then show ?thesis using assms(3) by (rule same_books_inv)
qed (use assms in \<open>auto simp: res_simps no_compressed_def dest: schedule_quantum_task_inv
    schedule_sovereign_task_inv cancel_quantum_task_inv execute_quantum_task_inv
    settle_xse_task_inv rescue_stuck_xse_task_inv deliver_callback_inv\<close>)

section \<open>Intents\<close>

text \<open>
  The part of the state that no intent endpoint touches, and what is left to show for one.
\<close>

definition same_tasks :: "sched \<Rightarrow> sched \<Rightarrow> bool" where
  "same_tasks s t \<longleftrightarrow> quantum_tasks t = quantum_tasks s \<and> owner_tasks t = owner_tasks s \<and>
     promises t = promises s \<and> assigned_enclave_keeper t = assigned_enclave_keeper s \<and>
     clone_key_props t = clone_key_props s \<and> wallet_clone_keys t = wallet_clone_keys s \<and>
     accrued_protocol_fees t = accrued_protocol_fees s \<and> protocol_fee_bps t = protocol_fee_bps s"

definition intent_egld :: "sched \<Rightarrow> nat" where
  "intent_egld s = msum i_due (intent_by_id s) + msum mi_due (multi_intent_by_id s) +
     msum p_due (pre_cognitive_intent_by_id s)"

definition intents_finite :: "sched \<Rightarrow> bool" where
  "intents_finite s \<longleftrightarrow> finite (dom (intent_by_id s)) \<and> finite (dom (multi_intent_by_id s)) \<and>
     finite (dom (pre_cognitive_intent_by_id s))"

lemma intent_books_inv:
  assumes "sched_inv s" and "same_tasks s t" and "intents_finite t"
    and "intent_egld t + egld_balance s \<le> intent_egld s + egld_balance t"
    and "\<And>tk. owed_esdt t tk + esdt_balance s tk 0 \<le> owed_esdt s tk + esdt_balance t tk 0"
  shows "sched_inv t"
proof -
  note f = assms(2) [unfolded same_tasks_def]
  have fi: "funds_inv s" using assms(1) by (simp add: sched_inv_def)
  have "owed_egld t + egld_balance s \<le> owed_egld s + egld_balance t"
    using assms(4) f by (simp add: owed_egld_def intent_egld_def)
  then have "funds_inv t"
    by (intro funds_inv_change [OF fi])
      (use f assms(3,5) funds_invD [OF fi] in \<open>simp_all add: intents_finite_def\<close>)
  moreover have "tasks_inv t" "clone_inv t"
    using assms(1) tasks_inv_cong [of t s] clone_inv_cong [of t s] f by (simp_all add: sched_inv_def)
  ultimately show ?thesis by (simp add: sched_inv_def)
qed

lemma sched_inv_intents_finite: "sched_inv s \<Longrightarrow> intents_finite s"
  by (simp add: sched_inv_def funds_inv_def intents_finite_def)

lemmas intent_book_defs = same_tasks_def intents_finite_def intent_egld_def owed_esdt_def
  intent_event_defs

lemma create_intent_inv:
  assumes "create_intent c tk mr dl fee s = Inr (i, t)" and "sched_inv s"
    and "list_all (\<lambda>p. token_nonce p = 0) (esdt_transfers c)"
  shows "sched_inv t"
  using assms(1)
proof (cases rule: create_intent_Inr)
  case (1 p)
  note fin = sched_inv_intents_finite [OF assms(2), unfolded intents_finite_def]
  let ?x = "\<lparr>i_id = i, i_owner = caller c, i_token_in = token_identifier p,
    i_amount_in = amount p, i_token_out = tk, i_min_return = mr, i_deadline = dl,
    i_solver_fee = fee, i_status = IPending, i_settled_by = None\<rparr>"
  have m: "msum f ((intent_by_id s)(i \<mapsto> ?x)) \<le> f ?x + msum f (intent_by_id s)" for f
    using fin by (simp add: msum_insert_le)
  show ?thesis
  proof (rule intent_books_inv [OF assms(2)])
    show "intent_egld t + egld_balance s \<le> intent_egld s + egld_balance t"
      using m [of i_due] 1(2) by (simp add: 1(9) intent_book_defs i_due_def)
    show "owed_esdt t tk' + esdt_balance s tk' 0 \<le> owed_esdt s tk' + esdt_balance t tk' 0" for tk'
      using m [of "i_held tk'"] 1(3) assms(3)
      by (simp add: 1(9) intent_book_defs i_held_def split: if_splits)
  qed (use fin in \<open>simp_all add: 1(9) intent_book_defs\<close>)
qed

lemma cancel_intent_inv:
  assumes "cancel_intent c i s = Inr t" and "sched_inv s"
  shows "sched_inv t"
  using assms(1)
proof (cases rule: cancel_intent_Inr)
  case (1 x)
  note fin = sched_inv_intents_finite [OF assms(2), unfolded intents_finite_def]
  have m: "msum f ((intent_by_id s)(i \<mapsto> x\<lparr>i_status := ICancelled\<rparr>)) + f x =
      f (x\<lparr>i_status := ICancelled\<rparr>) + msum f (intent_by_id s)" for f
    using fin 1(3) by (simp add: msum_update)
  show ?thesis
  proof (rule intent_books_inv [OF assms(2)])
    show "intent_egld t + egld_balance s \<le> intent_egld s + egld_balance t"
      using m [of i_due] 1(5,7) by (simp add: 1(8) intent_book_defs i_due_def)
    show "owed_esdt t tk + esdt_balance s tk 0 \<le> owed_esdt s tk + esdt_balance t tk 0" for tk
      using m [of "i_held tk"] 1(5,6)
      by (simp add: 1(8) intent_book_defs i_held_def debit_apply split: if_splits)
  qed (use fin in \<open>simp_all add: 1(8) intent_book_defs\<close>)
qed

lemma solve_intent_inv:
  assumes "solve_intent c i s = Inr t" and "sched_inv s"
  shows "sched_inv t"
  using assms(1)
proof (cases rule: solve_intent_Inr)
  case (1 x p)
  note fin = sched_inv_intents_finite [OF assms(2), unfolded intents_finite_def]
  let ?x = "x\<lparr>i_status := ISettled, i_settled_by := Some (caller c)\<rparr>"
  have m: "msum f ((intent_by_id s)(i \<mapsto> ?x)) + f x = f ?x + msum f (intent_by_id s)" for f
    using fin 1(2) by (simp add: msum_update)
  have bal: "debit (i_token_out x) 0 (amount p) (esdt_balance (receive c s)) = esdt_balance s"
    using debit_credit_one [OF 1(6)] 1(5,7) by simp
  show ?thesis
  proof (rule intent_books_inv [OF assms(2)])
    show "intent_egld t + egld_balance s \<le> intent_egld s + egld_balance t"
      using m [of i_due] 1(3,10) by (simp add: 1(11) intent_book_defs i_due_def)
    show "owed_esdt t tk + esdt_balance s tk 0 \<le> owed_esdt s tk + esdt_balance t tk 0" for tk
      using m [of "i_held tk"] 1(3) 1(9) [unfolded bal]
      by (simp add: 1(11) bal intent_book_defs i_held_def debit_apply
          del: receive_esdt_balance split: if_splits)
  qed (use fin in \<open>simp_all add: 1(11) intent_book_defs\<close>)
qed

lemma create_multi_intent_inv:
  assumes "create_multi_intent c outs dl fee s = Inr (i, t)" and "sched_inv s"
    and "list_all (\<lambda>p. token_nonce p = 0) (esdt_transfers c)"
  shows "sched_inv t"
  using assms(1)
proof (cases rule: create_multi_intent_Inr)
  case (1 p)
  note fin = sched_inv_intents_finite [OF assms(2), unfolded intents_finite_def]
  let ?x = "\<lparr>mi_id = i, mi_owner = caller c, mi_token_in = token_identifier p,
    mi_amount_in = amount p, mi_outcomes = outs, mi_deadline = dl, mi_solver_fee = fee,
    mi_status = IPending, mi_settled_by = None\<rparr>"
  have m: "msum f ((multi_intent_by_id s)(i \<mapsto> ?x)) \<le> f ?x + msum f (multi_intent_by_id s)" for f
    using fin by (simp add: msum_insert_le)
  show ?thesis
  proof (rule intent_books_inv [OF assms(2)])
    show "intent_egld t + egld_balance s \<le> intent_egld s + egld_balance t"
      using m [of mi_due] 1(2) by (simp add: 1(11) intent_book_defs mi_due_def)
    show "owed_esdt t tk' + esdt_balance s tk' 0 \<le> owed_esdt s tk' + esdt_balance t tk' 0" for tk'
      using m [of "mi_held tk'"] 1(3) assms(3)
      by (simp add: 1(11) intent_book_defs mi_held_def split: if_splits)
  qed (use fin in \<open>simp_all add: 1(11) intent_book_defs\<close>)
qed

lemma cancel_multi_intent_inv:
  assumes "cancel_multi_intent c i s = Inr t" and "sched_inv s"
  shows "sched_inv t"
  using assms(1)
proof (cases rule: cancel_multi_intent_Inr)
  case (1 x)
  note fin = sched_inv_intents_finite [OF assms(2), unfolded intents_finite_def]
  have m: "msum f ((multi_intent_by_id s)(i \<mapsto> x\<lparr>mi_status := ICancelled\<rparr>)) + f x =
      f (x\<lparr>mi_status := ICancelled\<rparr>) + msum f (multi_intent_by_id s)" for f
    using fin 1(3) by (simp add: msum_update)
  show ?thesis
  proof (rule intent_books_inv [OF assms(2)])
    show "intent_egld t + egld_balance s \<le> intent_egld s + egld_balance t"
      using m [of mi_due] 1(5,7) by (simp add: 1(8) intent_book_defs mi_due_def)
    show "owed_esdt t tk + esdt_balance s tk 0 \<le> owed_esdt s tk + esdt_balance t tk 0" for tk
      using m [of "mi_held tk"] 1(5,6)
      by (simp add: 1(8) intent_book_defs mi_held_def debit_apply split: if_splits)
  qed (use fin in \<open>simp_all add: 1(8) intent_book_defs\<close>)
qed

lemma solve_multi_intent_inv:
  assumes "solve_multi_intent c i s = Inr t" and "sched_inv s"
    and "list_all (\<lambda>p. token_nonce p = 0) (esdt_transfers c)"
  shows "sched_inv t"
  using assms(1)
proof (cases rule: solve_multi_intent_Inr)
  case (1 x)
  note fin = sched_inv_intents_finite [OF assms(2), unfolded intents_finite_def]
  let ?x = "x\<lparr>mi_status := ISettled, mi_settled_by := Some (caller c)\<rparr>"
  have m: "msum f ((multi_intent_by_id s)(i \<mapsto> ?x)) + f x = f ?x + msum f (multi_intent_by_id s)" for f
    using fin 1(2) by (simp add: msum_update)
  have bal: "debit_all (esdt_transfers c) (esdt_balance (receive c s)) = esdt_balance s"
    using debit_credit_all [OF assms(3)] by simp
  show ?thesis
  proof (rule intent_books_inv [OF assms(2)])
    show "intent_egld t + egld_balance s \<le> intent_egld s + egld_balance t"
      using m [of mi_due] 1(3,7) by (simp add: 1(8) intent_book_defs mi_due_def)
    show "owed_esdt t tk + esdt_balance s tk 0 \<le> owed_esdt s tk + esdt_balance t tk 0" for tk
      using m [of "mi_held tk"] 1(3) 1(6) [unfolded bal]
      by (simp add: 1(8) bal intent_book_defs mi_held_def debit_apply
          del: receive_esdt_balance split: if_splits)
  qed (use fin in \<open>simp_all add: 1(8) intent_book_defs\<close>)
qed

lemma create_pre_cognitive_intent_inv:
  assumes "create_pre_cognitive_intent c root dl fee s = Inr (i, t)" and "sched_inv s"
    and "list_all (\<lambda>p. token_nonce p = 0) (esdt_transfers c)"
  shows "sched_inv t"
  using assms(1)
proof (cases rule: create_pre_cognitive_intent_Inr)
  case (1 p)
  note fin = sched_inv_intents_finite [OF assms(2), unfolded intents_finite_def]
  let ?x = "\<lparr>p_id = i, p_owner = caller c, p_token_in = token_identifier p,
    p_amount_in = amount p, p_merkle_root = root, p_deadline = dl, p_keeper_fee = fee,
    p_status = PPending, p_executed_by = None\<rparr>"
  have m: "msum f ((pre_cognitive_intent_by_id s)(i \<mapsto> ?x)) \<le>
      f ?x + msum f (pre_cognitive_intent_by_id s)" for f
    using fin by (simp add: msum_insert_le)
  show ?thesis
  proof (rule intent_books_inv [OF assms(2)])
    show "intent_egld t + egld_balance s \<le> intent_egld s + egld_balance t"
      using m [of p_due] 1(2) by (simp add: 1(8) intent_book_defs p_due_def)
    show "owed_esdt t tk' + esdt_balance s tk' 0 \<le> owed_esdt s tk' + esdt_balance t tk' 0" for tk'
      using m [of "p_held tk'"] 1(3) assms(3)
      by (simp add: 1(8) intent_book_defs p_held_def split: if_splits)
  qed (use fin in \<open>simp_all add: 1(8) intent_book_defs\<close>)
qed

lemma cancel_pre_cognitive_intent_inv:
  assumes "cancel_pre_cognitive_intent c i s = Inr t" and "sched_inv s"
  shows "sched_inv t"
  using assms(1)
proof (cases rule: cancel_pre_cognitive_intent_Inr)
  case (1 x)
  note fin = sched_inv_intents_finite [OF assms(2), unfolded intents_finite_def]
  have m: "msum f ((pre_cognitive_intent_by_id s)(i \<mapsto> x\<lparr>p_status := PCancelled\<rparr>)) + f x =
      f (x\<lparr>p_status := PCancelled\<rparr>) + msum f (pre_cognitive_intent_by_id s)" for f
    using fin 1(3) by (simp add: msum_update)
  show ?thesis
  proof (rule intent_books_inv [OF assms(2)])
    show "intent_egld t + egld_balance s \<le> intent_egld s + egld_balance t"
      using m [of p_due] 1(5,7) by (simp add: 1(8) intent_book_defs p_due_def)
    show "owed_esdt t tk + esdt_balance s tk 0 \<le> owed_esdt s tk + esdt_balance t tk 0" for tk
      using m [of "p_held tk"] 1(5,6)
      by (simp add: 1(8) intent_book_defs p_held_def debit_apply split: if_splits)
  qed (use fin in \<open>simp_all add: 1(8) intent_book_defs\<close>)
qed

lemma execute_pre_cognitive_leaf_inv:
  assumes "execute_pre_cognitive_leaf e c i prf tg ep args tk mr s = Inr t" and "sched_inv s"
  shows "sched_inv t"
  using assms(1)
proof (cases rule: execute_pre_cognitive_leaf_Inr)
  case (1 x p)
  note fin = sched_inv_intents_finite [OF assms(2), unfolded intents_finite_def]
  let ?x = "x\<lparr>p_status := PExecuted, p_executed_by := Some (caller c)\<rparr>"
  have m: "msum f ((pre_cognitive_intent_by_id s)(i \<mapsto> ?x)) + f x =
      f ?x + msum f (pre_cognitive_intent_by_id s)" for f
    using fin 1(2) by (simp add: msum_update)
  have bal: "debit tk 0 (amount p) (esdt_balance (receive c s)) = esdt_balance s"
    using debit_credit_one [OF 1(7)] 1(6,8) by simp
  show ?thesis
  proof (rule intent_books_inv [OF assms(2)])
    show "intent_egld t + egld_balance s \<le> intent_egld s + egld_balance t"
      using m [of p_due] 1(3,11) by (simp add: 1(12) intent_book_defs p_due_def)
    show "owed_esdt t tk + esdt_balance s tk 0 \<le> owed_esdt s tk + esdt_balance t tk 0" for tk
      using m [of "p_held tk"] 1(3) 1(10) [unfolded bal]
      by (simp add: 1(12) bal intent_book_defs p_held_def debit_apply
          del: receive_esdt_balance split: if_splits)
  qed (use fin in \<open>simp_all add: 1(12) intent_book_defs\<close>)
qed

lemma intent_call_inv:
  assumes "exec_intent_call e c l s = Inr t" and "sched_inv s"
    and "list_all (\<lambda>p. token_nonce p = 0) (esdt_transfers c)"
  shows "sched_inv t"
  using assms
  by (cases l) (auto simp: res_simps dest: create_intent_inv cancel_intent_inv solve_intent_inv
      create_multi_intent_inv cancel_multi_intent_inv solve_multi_intent_inv
      create_pre_cognitive_intent_inv cancel_pre_cognitive_intent_inv
      execute_pre_cognitive_leaf_inv)

section \<open>The contract\<close>

lemma sched_step_inv:
  assumes "sched_step e s l t" and "sync_pure e" and "ok_call l" and "sched_inv s"
  shows "sched_inv t"
proof -
  obtain c k where l: "l = (c, k)" by (cases l)
  then have "sched_exec e c k s = Inr t" using assms(1) by (simp add: sched_step_simps)
  then show ?thesis
    using assms(2-4) unfolding l ok_call_def
    by (cases k) (auto dest: task_call_inv clone_call_inv intent_call_inv config_call_inv
        admin_call_inv)
qed

lemma scheduler_init_inv:
  assumes "scheduler_init r w m fee = Inr s"
  shows "sched_inv s"
proof -
  have "unat fee \<le> 10000"
    using assms by (auto simp: scheduler_init_def res_simps word_le_nat_alt)
  then show ?thesis
    using assms by (auto simp: scheduler_init_def res_simps sched_empty_def sched_inv_def
        tasks_inv_def clone_inv_def funds_inv_def owed_egld_def owed_esdt_def msum_empty)
qed

end
