(* ===== verification/Pcit.thy ===== *)
theory Pcit
  imports Scheduler_Intents
begin

text \<open>
  The keeper's off-chain engine for pre-cognitive intents (xcron-keeper-rs/src/pcit.rs): the
  encoding of a leaf and the root of a chain of siblings, to be compared with what the
  Scheduler computes in \<open>execute_pre_cognitive_leaf\<close>.
\<close>

record pcit_leaf =
  l_target_contract :: address
  l_target_endpoint :: bytes
  l_target_args :: "bytes list"
  l_expected_token_out :: bytes
  l_min_return :: nat

fun extend_args :: "bytes \<Rightarrow> bytes list \<Rightarrow> bytes" where
  "extend_args buf [] = buf"
| "extend_args buf (a # as) = extend_args ((buf @ u32_be (length a)) @ a) as"

definition pcit_top_encode :: "pcit_leaf \<Rightarrow> bytes" where
  "pcit_top_encode l =
     (let buf = bytes32 (l_target_contract l);
          buf = buf @ l_target_endpoint l;
          buf = extend_args buf (l_target_args l);
          buf = buf @ l_expected_token_out l
      in if 0 < l_min_return l then buf @ to_bytes_be (l_min_return l) else buf)"

definition to_hash :: "(bytes \<Rightarrow> hash32) \<Rightarrow> pcit_leaf \<Rightarrow> hash32" where
  "to_hash sha l = sha (pcit_top_encode l)"

text \<open>Rust compares arrays of bytes lexicographically.\<close>

fun compute_chain_root :: "(bytes \<Rightarrow> hash32) \<Rightarrow> hash32 \<Rightarrow> hash32 list \<Rightarrow> hash32" where
  "compute_chain_root sha current [] = current"
| "compute_chain_root sha current (sibling # rest) =
     compute_chain_root sha
       (if \<not> is_less_loop (bytes32 sibling) (bytes32 current)
        then sha (bytes32 current @ bytes32 sibling)
        else sha (bytes32 sibling @ bytes32 current)) rest"

section \<open>Leaf encoding\<close>

lemma append_args_eq: "append_args buf as = extend_args buf as"
  by (induction as arbitrary: buf) simp_all

lemma to_bytes_be_0 [simp]: "to_bytes_be 0 = []"
  by (simp add: to_bytes_be.simps)

section \<open>Chain roots\<close>

definition chain_pre :: "hash32 \<Rightarrow> hash32 \<Rightarrow> bytes" where
  "chain_pre a b = (if a \<le> b then bytes32 a @ bytes32 b else bytes32 b @ bytes32 a)"

lemma compute_chain_root_snoc:
  "compute_chain_root sha x (ys @ [y]) = sha (chain_pre (compute_chain_root sha x ys) y)"
  by (induction ys arbitrary: x) (auto simp: chain_pre_def)

text \<open>The two last texts differ in length, whatever the siblings are.\<close>

lemma chain_pre_neq_node_pre: "chain_pre a b \<noteq> node_pre c d"
proof
  assume "chain_pre a b = node_pre c d"
  then have "length (chain_pre a b) = length (node_pre c d)" by simp
  then show False by (simp add: chain_pre_def node_pre_def split: if_splits)
qed

interpretation chain: proof_node chain_pre
proof
  fix a b :: hash32
  show "chain_pre a b = chain_pre b a" by (cases "a = b") (auto simp: chain_pre_def)
next
  fix a b c d :: hash32
  assume "chain_pre a b = chain_pre c d"
  then show "(a = c \<and> b = d) \<or> (a = d \<and> b = c)" by (auto simp: chain_pre_def split: if_splits)
qed

end
