(* ===== verification/Xsc_Core.thy ===== *)
theory Xsc_Core
  imports Runtime Merkle
begin

text \<open>
  The state-compression contract (contracts/xsc-core/src/xsc\_core.rs): an authorised keeper
  publishes Merkle roots, and a view checks packed proofs against the current one. The
  contract works on byte buffers where the Scheduler works on 32-byte arrays; the last section
  shows that both compute the same.
\<close>

section \<open>State and administration\<close>

record xsc = account +
  xsc_merkle_root :: bytes
  authorized_keeper :: "address option"
  root_nonce :: u64
  xsc_is_paused :: bool

definition xsc_init :: "address \<Rightarrow> xsc" where
  "xsc_init keeper = \<lparr>egld_balance = 0, esdt_balance = (\<lambda>_ _. 0), outbox = [],
     xsc_merkle_root = [], authorized_keeper = Some keeper, root_nonce = 0, xsc_is_paused = False\<rparr>"

definition xsc_upgrade :: "address \<Rightarrow> xsc \<Rightarrow> xsc" where
  "xsc_upgrade keeper s = s\<lparr>authorized_keeper := Some keeper\<rparr>"

definition xsc_set_paused :: "ctx \<Rightarrow> bool \<Rightarrow> xsc \<Rightarrow> xsc res" where
  "xsc_set_paused c b s = not_payable c (only_owner c (Inr (s\<lparr>xsc_is_paused := b\<rparr>)))"

definition set_authorized_keeper :: "ctx \<Rightarrow> address \<Rightarrow> xsc \<Rightarrow> xsc res" where
  "set_authorized_keeper c a s = not_payable c (only_owner c (Inr (s\<lparr>authorized_keeper := Some a\<rparr>)))"

definition xsc_require_not_paused :: "xsc \<Rightarrow> 'a res \<Rightarrow> 'a res" where
  "xsc_require_not_paused s k = require (\<not> xsc_is_paused s) ''Protocol Paused'' k"

definition root_updated_event :: "bytes \<Rightarrow> u64 \<Rightarrow> xsc \<Rightarrow> xsc" where
  "root_updated_event r n = emit ''rootUpdated'' [ABytes r, AU64 n]"

definition update_root :: "ctx \<Rightarrow> bytes \<Rightarrow> xsc \<Rightarrow> xsc res" where
  "update_root c new_root s = not_payable c (xsc_require_not_paused s (
     bind_res (get_slot (authorized_keeper s)) (\<lambda>keeper.
     require (caller c = keeper) ''Unauthorized Keeper'' (
     require (length new_root = 32) ''Invalid Root Length'' (
     let nonce = root_nonce s + 1;
         s = s\<lparr>root_nonce := nonce, xsc_merkle_root := new_root\<rparr>
     in Inr (root_updated_event new_root nonce s))))))"

section \<open>Packed proofs\<close>

text \<open>
  \<open>load_slice\<close> fills a 32-byte array; when the buffer is too short the call fails, its
  result is ignored and the array keeps its zeros.
\<close>

definition load32 :: "bytes \<Rightarrow> bytes" where
  "load32 b = (if length b < 32 then replicate 32 (char_of (0::nat)) else take 32 b)"

fun compare_loop :: "bytes \<Rightarrow> bytes \<Rightarrow> int" where
  "compare_loop (a # as) (b # bs) =
     (if of_char a < (of_char b :: nat) then - 1
      else if of_char b < (of_char a :: nat) then 1
      else compare_loop as bs)"
| "compare_loop _ _ = 0"

definition buf_compare :: "bytes \<Rightarrow> bytes \<Rightarrow> int" where
  "buf_compare a b = compare_loop (load32 a) (load32 b)"

definition compute_parent_hash :: "(bytes \<Rightarrow> hash32) \<Rightarrow> bytes \<Rightarrow> bytes \<Rightarrow> bytes" where
  "compute_parent_hash sha a b =
     (let concat = [char_of (1::nat)] in
      if buf_compare a b \<le> 0 then bytes32 (sha (concat @ a @ b)) else bytes32 (sha (concat @ b @ a)))"

definition copy_slice :: "bytes \<Rightarrow> nat \<Rightarrow> nat \<Rightarrow> bytes option" where
  "copy_slice b start len = (if start + len \<le> length b then Some (take len (drop start b)) else None)"

function packed_loop :: "(bytes \<Rightarrow> hash32) \<Rightarrow> bytes \<Rightarrow> nat \<Rightarrow> bytes \<Rightarrow> bytes res" where
  "packed_loop sha packed offset computed =
     (if offset < length packed then
        (case copy_slice packed offset 32 of
           None \<Rightarrow> Inl (VmError ''called Option::unwrap() on a None value'')
         | Some sibling \<Rightarrow>
             packed_loop sha packed (offset + 32) (compute_parent_hash sha computed sibling))
      else Inr computed)"
  by pat_completeness auto
termination
  by (relation "measure (\<lambda>(sha, packed, offset, computed). length packed - offset)") auto

declare packed_loop.simps [simp del]

definition verify_proof :: "(bytes \<Rightarrow> hash32) \<Rightarrow> bytes \<Rightarrow> bytes \<Rightarrow> xsc \<Rightarrow> bool res" where
  "verify_proof sha leaf packed s = xsc_require_not_paused s (
     require (length leaf = 32) ''Invalid Leaf Length'' (
     require (length packed mod 32 = 0) ''Invalid Packed Proof Length'' (
     require (length packed \<le> 1024) ''Proof depth exceeds maximum limit'' (
     let current_root = xsc_merkle_root s in
     bind_res (packed_loop sha packed 0 leaf) (\<lambda>computed_hash.
     Inr (computed_hash = current_root))))))"

section \<open>Agreement with the array version\<close>

definition word_of :: "bytes \<Rightarrow> hash32" where
  "word_of bs = of_nat (from_bytes_be bs)"

lemma be_bytes_from_bytes_be: "be_bytes (length bs) (from_bytes_be bs) = bs"
proof (induction bs rule: rev_induct)
  case (snoc c bs)
  have "(from_bytes_be bs * 256 + of_char c) div 256 = from_bytes_be bs" by simp
  then show ?case using snoc by (simp add: from_bytes_be_snoc)
qed simp

lemma bytes32_word_of: "length bs = 32 \<Longrightarrow> bytes32 (word_of bs) = bs"
proof -
  assume len: "length bs = 32"
  then have "from_bytes_be bs < 2 ^ 256" using from_bytes_be_bound [of bs] by simp
  then have "unat (word_of bs) = from_bytes_be bs"
    by (simp add: word_of_def unsigned_of_nat take_bit_nat_eq_self)
  then show ?thesis using be_bytes_from_bytes_be [of bs] len by (simp add: bytes32_def)
qed

lemma word_of_bytes32 [simp]: "word_of (bytes32 w) = w"
  by (simp add: word_of_def from_bytes_be_bytes32)

lemma load32_id: "length b = 32 \<Longrightarrow> load32 b = b"
  by (simp add: load32_def)

lemma compare_loop_is_less:
  "length a = length b \<Longrightarrow> compare_loop a b \<le> 0 \<longleftrightarrow> is_less_loop a b \<or> a = b"
proof (induction a b rule: list_induct2)
  case (Cons x xs y ys)
  then show ?case by (cases "of_char x = (of_char y :: nat)") auto
qed simp

lemma compute_parent_hash_eq:
  assumes "length a = 32" "length b = 32"
  shows "compute_parent_hash sha a b = bytes32 (merkle_step sha (word_of a) (word_of b))"
proof -
  have "is_less_loop a b \<longleftrightarrow> word_of a < word_of b"
    using assms is_less_loop_bytes32 [of "word_of a" "word_of b"] by (simp add: bytes32_word_of)
  then show ?thesis
    using assms
    by (auto simp: compute_parent_hash_def merkle_step_pre node_pre_def Let_def buf_compare_def
        load32_id compare_loop_is_less bytes32_word_of)
qed

text \<open>A packed proof is a list of siblings of 32 bytes each.\<close>

fun siblings :: "nat \<Rightarrow> bytes \<Rightarrow> hash32 list" where
  "siblings 0 packed = []"
| "siblings (Suc n) packed = word_of (take 32 packed) # siblings n (drop 32 packed)"

lemma packed_loop_eq:
  "length packed = offset + 32 * n \<Longrightarrow> length computed = 32 \<Longrightarrow>
     packed_loop sha packed offset computed =
       Inr (bytes32 (merkle_chain sha (word_of computed) (siblings n (drop offset packed))))"
proof (induction n arbitrary: offset computed)
  case 0
  then show ?case by (simp add: packed_loop.simps [of _ _ offset] bytes32_word_of)
next
  case (Suc n)
  let ?sib = "take 32 (drop offset packed)"
  have sib: "copy_slice packed offset 32 = Some ?sib" "length ?sib = 32"
    using Suc.prems(1) by (simp_all add: copy_slice_def)
  have "packed_loop sha packed offset computed =
      packed_loop sha packed (offset + 32) (compute_parent_hash sha computed ?sib)"
    using Suc.prems(1) sib by (simp add: packed_loop.simps [of _ _ offset])
  also have "\<dots> = Inr (bytes32 (merkle_chain sha
      (word_of (compute_parent_hash sha computed ?sib)) (siblings n (drop (offset + 32) packed))))"
    using Suc.prems sib(2) by (intro Suc.IH) (simp_all add: compute_parent_hash_eq)
  also have "\<dots> = Inr (bytes32 (merkle_chain sha (word_of computed)
      (siblings (Suc n) (drop offset packed))))"
    using Suc.prems sib(2) by (simp add: compute_parent_hash_eq add.commute)
  finally show ?case .
qed

lemma siblings_concat: "siblings (length ws) (concat (map bytes32 ws)) = ws"
  by (induction ws) simp_all

lemma length_siblings [simp]: "length (siblings n packed) = n"
  by (induction n arbitrary: packed) simp_all

lemma xsc_verifies:
  assumes "\<not> xsc_is_paused s" and "length leaf = 32" and "length packed = 32 * n" and "n \<le> 32"
    and "length (xsc_merkle_root s) = 32"
  shows "verify_proof sha leaf packed s =
     Inr (merkle_chain sha (word_of leaf) (siblings n packed) = word_of (xsc_merkle_root s))"
proof -
  have "packed_loop sha packed 0 leaf =
      Inr (bytes32 (merkle_chain sha (word_of leaf) (siblings n packed)))"
    using packed_loop_eq [of packed 0 n leaf] assms(2,3) by simp
  moreover have "bytes32 h = xsc_merkle_root s \<longleftrightarrow> h = word_of (xsc_merkle_root s)" for h
    using bytes32_word_of [OF assms(5)] by (metis word_of_bytes32)
  ultimately show ?thesis
    using assms by (simp add: verify_proof_def xsc_require_not_paused_def Let_def)
qed

end
