(* ===== verification/Scheduler_Properties.thy ===== *)
theory Scheduler_Properties
  imports Scheduler_Invariants Pcit Xsc_Core
begin

text \<open>
  What the Scheduler guarantees, stated over whole histories of calls and over single
  endpoints. The witnesses run the model on a small deployment that is defined first.
\<close>

section \<open>A small deployment\<close>

text \<open>
  An environment whose contracts answer nothing and change nothing, a context, a task that is
  always ripe, and the state after deployment with a fee of one percent and one keeper.
\<close>

definition demo_env :: sched_env where
  "demo_env = \<lparr>sha256 = (\<lambda>bs. of_nat (length bs)), encode_task = (\<lambda>tp. []), encode_into = (@),
     decode_bool = (\<lambda>bs. Some (bs \<noteq> [])), shard_of = (\<lambda>a. 0),
     sync_call = (\<lambda>a f args s. Inr ([], s))\<rparr>"

definition demo_ctx :: "address \<Rightarrow> nat \<Rightarrow> ctx" where
  "demo_ctx a x = \<lparr>caller = a, owner_address = 100, sc_address = 200, egld_value = x,
     esdt_transfers = [], block_timestamp = 1000, block_round = 5, block_nonce = 5,
     gas_left = 600000000, random_seed = [], egld_beside_tokens = True\<rparr>"

definition demo_task :: task where
  "demo_task = \<lparr>t_id = 0, t_owner = 9, t_target_contract = 300, t_target_endpoint = ''ping'',
     t_target_args = [], t_trigger = TimeOnce 0, t_max_gas = 5000000, t_deposit = 0,
     t_max_retries = 0, t_retry_count = 0, t_ttl_seconds = 0, t_created_at = 0,
     t_status = Pending, t_assigned_keeper = None, t_completed_at = 0, t_post_task_id = None,
     t_require_xwap_safe = False, t_confidential = False\<rparr>"

definition demo_state :: sched where
  "demo_state = sched_empty\<lparr>keeper_registry_addr := Some 1, rewards_addr := Some 2,
     protocol_fee_bps := 100, reveal_window := 60, version := 1,
     max_reward_per_exec := 50000000000000000, max_tasks_per_round := 10,
     whitelisted_keepers := [50], keeper_list := [Some 50]\<rparr>"

lemmas demo_defs = demo_env_def demo_ctx_def demo_task_def demo_state_def sched_empty_def

lemma demo_sync_pure: "sync_pure demo_env"
  by (simp add: sync_pure_def demo_env_def)

lemma demo_init: "scheduler_init 1 2 0 100 = Inr (demo_state\<lparr>whitelisted_keepers := [], keeper_list := []\<rparr>)"
  by (simp add: scheduler_init_def demo_state_def sched_empty_def constant_defs)

text \<open>Running a list of calls, to evaluate a history.\<close>

primrec exec_all :: "sched_env \<Rightarrow> (ctx \<times> sched_call) list \<Rightarrow> sched \<Rightarrow> sched res" where
  "exec_all e [] s = Inr s"
| "exec_all e (l # ls) s = bind_res (sched_exec e (fst l) (snd l) s) (exec_all e ls)"

lemma exec_all_run: "exec_all e ls s = Inr t \<Longrightarrow> run (sched_step e) s ls t"
  by (induction ls arbitrary: s) (auto simp: res_simps intro!: run.intros sched_step.intros)

definition demo_calls :: "(ctx \<times> sched_call) list" where
  "demo_calls = [(demo_ctx 100 0, Config (AddWhitelistedKeeper 50)),
     (demo_ctx 9 1000, Tasks (ScheduleQuantumTask demo_task None)),
     (demo_ctx 50 0, Tasks (ExecuteQuantumTask demo_task None))]"

definition demo_scheduled :: sched where
  "demo_scheduled = demo_state\<lparr>egld_balance := 1000,
     quantum_tasks := [0 \<mapsto> \<lparr>q_owner = 9, q_deposit = 1000, q_status = Pending,
                            q_executing_at = 0\<rparr>],
     owner_tasks := (\<lambda>_. [])(9 := [0]), tasks_per_round := (\<lambda>_ _. 0)(9 := (\<lambda>_. 0)(5 := 1)),
     outbox := [Event ''taskScheduledQuantum'' [AHash 0, AAddr 9, AAddr 300, AU64 1000000]]\<rparr>"

definition demo_running :: sched where
  "demo_running = demo_scheduled\<lparr>
     quantum_tasks := [0 \<mapsto> \<lparr>q_owner = 9, q_deposit = 1000, q_status = Executing,
                            q_executing_at = 1000\<rparr>],
     promises := [\<lparr>ep_to = 300, ep_endpoint = ''ping'', ep_args = [], ep_gas = 5000000,
        ep_callback_gas = 20000000, ep_task_hash = 0, ep_target_contract = 300, ep_keeper = 50\<rparr>]\<rparr>"

lemmas eval_defs = schedule_quantum_task_def payable_egld_def not_payable_def only_owner_def
  require_not_paused_def resolve_caller_def task_deposit_def receive_def
  validate_task_parameters_def require_deposit_within_cap_def enforce_rate_limits_def Let_def
  get_timestamp_ms_def execute_quantum_task_def require_registered_keeper_def
  perform_round_robin_check_def dispatch_task_execution_def require_task_ripe_quantum_def
  require_safe_target_def min_gas_needed_def cross_shard_overhead_def is_cross_shard_def
  callback_gas_def dangerous_endpoints_def store_pending_def us_insert_def sched_event_defs
  add_whitelisted_keeper_def drop_result_def constant_defs

lemma demo_exec: "exec_all demo_env demo_calls
    (demo_state\<lparr>whitelisted_keepers := [], keeper_list := []\<rparr>) = Inr demo_running"
  by (simp add: demo_calls_def eval_defs demo_defs demo_running_def demo_scheduled_def)

lemmas demo_run = exec_all_run [OF demo_exec]

lemma demo_ok: "list_all ok_call demo_calls"
  by (simp add: demo_calls_def ok_call_def no_compressed_def demo_ctx_def)

section \<open>Histories\<close>

text \<open>
  Calls made while the queried contracts answer without calling back. For these the books of
  the contract are an invariant of every history that avoids compressed tasks.
\<close>

definition pure_step :: "sched_env \<Rightarrow> sched \<Rightarrow> ctx \<times> sched_call \<Rightarrow> sched \<Rightarrow> bool" where
  "pure_step e s l t \<longleftrightarrow> sync_pure e \<and> sched_step e s l t"

interpretation books: invariant_system "pure_step e" ok_call sched_inv for e
  by unfold_locales (auto simp: pure_step_def intro: sched_step_inv)

lemma reachable_inv:
  assumes "scheduler_init r w m fee = Inr s" and "sync_pure e" and "run (sched_step e) s ls t"
    and "list_all ok_call ls"
  shows "sched_inv t"
proof -
  have "pure_step e = sched_step e" using assms(2) by (simp add: pure_step_def fun_eq_iff)
  then have "run (pure_step e) s ls t" using assms(3) by simp
  then show ?thesis using books.run_inv scheduler_init_inv [OF assms(1)] assms(4) by blast
qed

text \<open>
  C1. Solvency. After any history of calls from deployment (compressed tasks apart, fungible
  payments, queried contracts that do not re-enter), the Scheduler holds at least the EGLD it
  owes: the deposits of all stored tasks, the accrued protocol fees, what clone keys can
  still spend and the fees of pending intents; and of every token at least what pending
  intents have deposited.
\<close>

theorem scheduler_solvent:
  assumes "scheduler_init r w m fee = Inr s" and "sync_pure e" and "run (sched_step e) s ls t"
    and "list_all ok_call ls"
  shows "owed_egld t \<le> egld_balance t \<and> (\<forall>tk. owed_esdt t tk \<le> esdt_balance t tk 0)"
  using reachable_inv [OF assms] by (auto simp: sched_inv_def funds_inv_def)

theorem scheduler_solvent_witness:
  "owed_egld demo_running \<le> egld_balance demo_running \<and>
   owed_esdt demo_running ''WEGLD'' \<le> esdt_balance demo_running ''WEGLD'' 0 \<and>
   egld_balance demo_running = 1000"
  using scheduler_solvent [OF demo_init demo_sync_pure demo_run demo_ok]
  by (simp add: demo_running_def demo_scheduled_def)

text \<open>
  C4. The books are well formed. After any such history only pending and executing tasks are
  stored, the tasks listed for an owner are exactly the owner's stored tasks, every registered
  call belongs to an executing task that no enclave was assigned to, and no task has two
  registered calls; no clone key has spent more than its limit, no limit exceeds 2 EGLD, no
  wallet has more than three keys, and the keys listed for a wallet are exactly the keys
  authorised by it.
\<close>

theorem scheduler_books:
  assumes "scheduler_init r w m fee = Inr s" and "sync_pure e" and "run (sched_step e) s ls t"
    and "list_all ok_call ls"
  shows "tasks_inv t \<and> clone_inv t"
  using reachable_inv [OF assms] by (simp add: sched_inv_def)

theorem scheduler_books_witness: "tasks_inv demo_running \<and> clone_inv demo_running \<and> promises demo_running \<noteq> []"
  using scheduler_books [OF demo_init demo_sync_pure demo_run demo_ok]
  by (simp add: demo_running_def)

text \<open>
  C5. Callbacks settle. After any history as for the solvency (compressed tasks apart,
  fungible payments, queried contracts that do not re-enter) the callback of every registered
  call, whatever the result of the call, finds its task and enough funds: it never fails, so
  no deposit is left behind by a callback. Receivers are taken to accept payments.
\<close>

theorem callback_settles:
  assumes "scheduler_init r w m fee = Inr s" and "sync_pure e" and "run (sched_step e) s ls t"
    and "list_all ok_call ls" and "p \<in> set (promises t)"
  shows "\<exists>u. execution_callback (ep_task_hash p) (ep_target_contract p) (ep_keeper p) b t = Inr u"
proof -
  have inv: "sched_inv t" by (rule reachable_inv [OF assms(1-4)])
  then obtain st where st: "quantum_tasks t (ep_task_hash p) = Some st"
    using tasks_invD(6) [of t p] assms(5) by (auto simp: sched_inv_def)
  show ?thesis
    using finalize_total [OF inv st] st by (cases b) (simp_all add: execution_callback_def)
qed

theorem callback_settles_witness:
  "\<exists>u. execution_callback 0 300 50 True demo_running = Inr u"
  using callback_settles [OF demo_init demo_sync_pure demo_run demo_ok,
      of "hd (promises demo_running)" True]
  by (simp add: demo_running_def)

section \<open>Settlement of a task\<close>

text \<open>
  C6. A successful call. The callback pays the keeper the deposit less the protocol fee,
  capped by the maximal reward if one is set, sends the rest of the deposit back to the owner,
  accrues the fee, reports the success to the registry, and removes the task; the three parts
  add up to the deposit, and the balance falls by what was sent.
\<close>

theorem success_settlement:
  assumes "execution_callback h tg k True s = Inr t" and "quantum_tasks s h = Some st"
    and "unat (protocol_fee_bps s) \<le> 10000"
  shows "\<exists>reward refund fee. reward + refund + fee = q_deposit st \<and>
     fee = bps_of (q_deposit st) (protocol_fee_bps s) \<and>
     reward = (if max_reward_per_exec s = 0 then q_deposit st - fee
               else min (max_reward_per_exec s) (q_deposit st - fee)) \<and>
     egld_balance s = egld_balance t + reward + refund \<and>
     accrued_protocol_fees t = accrued_protocol_fees s + fee \<and>
     outbox t = outbox s @ [SendEgld k reward] @ send_pos (q_owner st) refund @
       keeper_report k True s @ [Event ''taskExecutedQuantum'' [AHash h, AAddr k, ABool True]] \<and>
     quantum_tasks t = (quantum_tasks s)(h := None)"
proof -
  have "finalize_successful_execution h tg k (q_deposit st) (q_owner st) s = Inr t"
    using assms(1,2) by (simp add: execution_callback_def)
  then show ?thesis
  proof (cases rule: finalize_successful_Inr)
    case (1 reward fee)
    have "reward + fee \<le> q_deposit st" using 1(1,2) calculate_reward_le [OF assms(3)] by simp
    then show ?thesis
      using 1(1-3) calculate_reward_min [OF assms(3)]
      by (intro exI [of _ reward] exI [of _ "q_deposit st - (reward + fee)"] exI [of _ fee])
        (simp add: 1(4))
  qed
qed

text \<open>The settled states of the small deployment.\<close>

lemma demo_settled:
  "\<exists>t. execution_callback 0 300 50 True demo_running = Inr t \<and> egld_balance t = 10 \<and>
     accrued_protocol_fees t = 10"
  "\<exists>t. execution_callback 0 300 50 False demo_running = Inr t \<and> egld_balance t = 10 \<and>
     accrued_protocol_fees t = 10 \<and> target_failure_count t 300 = 1"
  by (simp_all add: execution_callback_def finalize_successful_execution_def Let_def
      finalize_failed_execution_def calculate_reward_def demo_running_def demo_scheduled_def demo_defs
      bps_of_def direct_egld_def forward_protocol_fee_def forward_keeper_result_def
      transfer_execute_def sched_event_defs constant_defs)

lemma demo_running_task:
  "quantum_tasks demo_running 0 = Some \<lparr>q_owner = 9, q_deposit = 1000, q_status = Executing,
     q_executing_at = 1000\<rparr>"
  "unat (protocol_fee_bps demo_running) \<le> 10000"
  by (simp_all add: demo_running_def demo_scheduled_def demo_state_def)

theorem success_settlement_witness:
  "\<exists>t reward refund fee. execution_callback 0 300 50 True demo_running = Inr t \<and>
     reward + refund + fee = 1000 \<and> egld_balance demo_running = egld_balance t + reward + refund"
proof -
  obtain t where t: "execution_callback 0 300 50 True demo_running = Inr t"
    using demo_settled(1) by blast
  from success_settlement [OF t demo_running_task] show ?thesis using t by auto
qed

text \<open>
  C7. A failed call. The keeper is paid nothing; the owner gets the deposit less the protocol
  fee, which is accrued; the failure is reported to the registry and counted against the
  target, and the tenth failure in a row blacklists it.
\<close>

theorem failure_settlement:
  assumes "execution_callback h tg k False s = Inr t" and "quantum_tasks s h = Some st"
    and "unat (protocol_fee_bps s) \<le> 10000"
  shows "\<exists>refund fee. refund + fee = q_deposit st \<and>
     fee = bps_of (q_deposit st) (protocol_fee_bps s) \<and>
     egld_balance s = egld_balance t + refund \<and>
     accrued_protocol_fees t = accrued_protocol_fees s + fee \<and>
     outbox t = outbox s @ send_pos (q_owner st) refund @ keeper_report k False s @
       [Event ''taskExecutedQuantum'' [AHash h, AAddr k, ABool False]] \<and>
     quantum_tasks t = (quantum_tasks s)(h := None) \<and>
     target_failure_count t tg = target_failure_count s tg + 1 \<and>
     (10 \<le> target_failure_count t tg \<longrightarrow> tg \<in> set (target_blacklist t))"
proof -
  have "finalize_failed_execution h tg k (q_deposit st) (q_owner st) s = Inr t"
    using assms(1,2) by (simp add: execution_callback_def)
  then show ?thesis
  proof (cases rule: finalize_failed_Inr)
    case (1 fee failures)
    have "fee \<le> q_deposit st" using 1(1) bps.cut_le [OF assms(3)] by simp
    then show ?thesis
      using 1(1-3)
      by (intro exI [of _ "q_deposit st - fee"] exI [of _ fee])
        (simp add: 1(4) us_insert_def MAX_TARGET_FAILURES_def)
  qed
qed

theorem failure_settlement_witness:
  "\<exists>t refund fee. execution_callback 0 300 50 False demo_running = Inr t \<and> refund + fee = 1000 \<and>
     egld_balance demo_running = egld_balance t + refund"
proof -
  obtain t where t: "execution_callback 0 300 50 False demo_running = Inr t"
    using demo_settled(2) by blast
  from failure_settlement [OF t demo_running_task] show ?thesis using t by auto
qed

text \<open>
  No second payout. When no task is stored under a hash, which is how every settlement,
  cancellation and rescue leaves it, each later attempt on that hash fails: a late callback is
  dropped with no effect but the loss of the registered call, and executing, settling,
  cancelling or rescuing the task is an error.
\<close>

theorem settled_task_is_gone:
  assumes "quantum_tasks s h = None"
  shows "execution_callback h tg k b s = Inl (VmError ''storage decode error'') \<and>
     (\<forall>i. i < length (promises s) \<and> ep_task_hash (promises s ! i) = h \<longrightarrow>
        deliver_callback i b s = Inr (s\<lparr>promises := take i (promises s) @ drop (Suc i) (promises s)\<rparr>)) \<and>
     (\<forall>t. cancel_quantum_task c h s \<noteq> Inr t) \<and> (\<forall>t. rescue_stuck_xse_task c h s \<noteq> Inr t) \<and>
     (\<forall>t. settle_xse_task e c h prf s \<noteq> Inr t) \<and>
     (\<forall>tp sec t. sha256 e (encode_task e tp) = h \<longrightarrow> execute_quantum_task e c tp sec s \<noteq> Inr t)"
proof -
  have cb: "execution_callback h tg' k' b s' = Inl (VmError ''storage decode error'')"
    if "quantum_tasks s' h = None" for tg' k' s'
    using that by (simp add: execution_callback_def)
  have "deliver_callback i b s = Inr (s\<lparr>promises := take i (promises s) @ drop (Suc i) (promises s)\<rparr>)"
    if "i < length (promises s)" "ep_task_hash (promises s ! i) = h" for i
    using that assms by (simp add: deliver_callback_def Let_def cb)
  moreover have "cancel_quantum_task c h s \<noteq> Inr t" "rescue_stuck_xse_task c h s \<noteq> Inr t"
    "settle_xse_task e c h prf s \<noteq> Inr t" for t
    using assms by (auto elim: cancel_quantum_task_Inr rescue_stuck_xse_task_Inr settle_xse_task_Inr)
  moreover have "execute_quantum_task e c tp sec s \<noteq> Inr t"
    if "sha256 e (encode_task e tp) = h" for tp sec t
    using assms that by (auto elim!: execute_quantum_task_Inr)
  ultimately show ?thesis using cb [OF assms] by blast
qed

theorem settled_task_is_gone_witness:
  "deliver_callback 0 True (demo_running\<lparr>quantum_tasks := Map.empty\<rparr>) =
     Inr (demo_running\<lparr>quantum_tasks := Map.empty, promises := []\<rparr>)"
  using settled_task_is_gone [of "demo_running\<lparr>quantum_tasks := Map.empty\<rparr>" 0 300 50 True
      "demo_ctx 9 0" demo_env "[]"]
  by (simp add: demo_running_def)

text \<open>
  Cancellation. Only the owner of a pending task, or a live clone key of the owner, can
  cancel it; the owner gets the deposit less the protocol fee, the fee is accrued, and the
  two add up to the deposit.
\<close>

theorem cancel_refunds_owner:
  assumes "cancel_quantum_task c h s = Inr t" and "unat (protocol_fee_bps s) \<le> 10000"
  shows "\<exists>st. quantum_tasks s h = Some st \<and> q_status st = Pending \<and>
     fst (resolve_caller c s) = q_owner st \<and>
     (\<exists>refund fee. refund + fee = q_deposit st \<and>
        fee = bps_of (q_deposit st) (protocol_fee_bps s) \<and>
        egld_balance s = egld_balance t + refund \<and>
        accrued_protocol_fees t = accrued_protocol_fees s + fee \<and>
        outbox t = outbox s @ send_pos (q_owner st) refund @
          [Event ''taskCancelledQuantum'' [AHash h]]) \<and>
     quantum_tasks t = (quantum_tasks s)(h := None)"
  using assms(1)
proof (cases rule: cancel_quantum_task_Inr)
  case (1 st fee refund)
  have "fee \<le> q_deposit st" using 1(8) bps.cut_le [OF assms(2)] by simp
  then have r: "refund + fee = q_deposit st" using 1(9) by auto
  show ?thesis
    by (intro exI [of _ st] conjI exI [of _ refund] exI [of _ fee])
      (use r 1(4,6,7,8,10) in \<open>simp_all add: 1(11)\<close>)
qed

lemma demo_cancel: "\<exists>t. cancel_quantum_task (demo_ctx 9 0) 0 demo_scheduled = Inr t"
  by (simp add: cancel_quantum_task_def eval_defs demo_scheduled_def demo_defs bps_of_def
      direct_egld_def)

theorem cancel_refunds_owner_witness:
  "\<exists>t. cancel_quantum_task (demo_ctx 9 0) 0 demo_scheduled = Inr t \<and>
     quantum_tasks t 0 = None \<and> (\<exists>refund fee. refund + fee = 1000 \<and>
       egld_balance demo_scheduled = egld_balance t + refund)"
proof -
  obtain t where t: "cancel_quantum_task (demo_ctx 9 0) 0 demo_scheduled = Inr t"
    using demo_cancel by blast
  have "unat (protocol_fee_bps demo_scheduled) \<le> 10000"
    by (simp add: demo_scheduled_def demo_state_def)
  from cancel_refunds_owner [OF t this] show ?thesis using t by (auto simp: demo_scheduled_def)
qed

section \<open>Scheduling\<close>

text \<open>
  A scheduled task. The task is stored under the hash of its encoding, as pending, owned by
  the caller or by the main wallet of a live clone key; its deposit is at least the minimum and
  at most the cap, was received with the call or taken from the budget of the clone key; the
  owner had fewer than 100 tasks and had not used up the tasks of this round.
\<close>

theorem schedule_stores_task:
  assumes "schedule_quantum_task e c tp req s = Inr (h, t)"
  shows "h = sha256 e (encode_task e tp) \<and> quantum_tasks s h = None \<and>
     (\<exists>own b d. resolve_caller c s = (own, b) \<and>
        quantum_tasks t = (quantum_tasks s)(h \<mapsto> \<lparr>q_owner = own, q_deposit = d,
          q_status = Pending, q_executing_at = 0\<rparr>) \<and>
        h \<in> set (owner_tasks t own) \<and> min_deposit s \<le> d \<and>
        (max_exec_value_egld s = 0 \<or> d \<le> max_exec_value_egld s) \<and>
        length (owner_tasks s own) < 100 \<and>
        (max_tasks_per_round s = 0 \<or>
          tasks_per_round s own (block_round c) < max_tasks_per_round s) \<and>
        (if b then egld_value c = 0 \<and> (\<exists>p. clone_key_props s (caller c) = Some p \<and>
              clone_key_props t (caller c) = Some (p\<lparr>ck_spent_amount := ck_spent_amount p + d\<rparr>) \<and>
              ck_spent_amount p + d \<le> ck_spend_limit p)
         else d = egld_value c))"
  using assms
proof (cases rule: schedule_quantum_task_Inr)
  case (1 own b d s1 s2)
  have rc: "resolve_caller c s = (own, b)" using 1(3) by (simp add: resolve_caller_def receive_def)
  have s1: "quantum_tasks s1 = quantum_tasks s" "owner_tasks s1 = owner_tasks s"
    "min_deposit s1 = min_deposit s" "max_exec_value_egld s1 = max_exec_value_egld s"
    "max_tasks_per_round s1 = max_tasks_per_round s" "tasks_per_round s1 = tasks_per_round s"
    using 1(4) by (cases rule: task_deposit_Inr; simp add: receive_def)+
  have pay: "if b then egld_value c = 0 \<and> (\<exists>p. clone_key_props s (caller c) = Some p \<and>
      clone_key_props s1 (caller c) = Some (p\<lparr>ck_spent_amount := ck_spent_amount p + d\<rparr>) \<and>
      ck_spent_amount p + d \<le> ck_spend_limit p) else d = egld_value c"
    using 1(4) by (cases rule: task_deposit_Inr) auto
  have t: "quantum_tasks t = (quantum_tasks s)(h \<mapsto> \<lparr>q_owner = own, q_deposit = d,
      q_status = Pending, q_executing_at = 0\<rparr>)" "clone_key_props t = clone_key_props s1"
    "h \<in> set (owner_tasks t own)"
    using 1(8) s1(1) by (auto simp: 1(9) sched_event_defs store_pending_def sched_simps us_insert_def)
  show ?thesis
    using 1(5,6,7,8) rc pay t s1 by (auto simp: sched_simps)
qed

lemma demo_schedule:
  "schedule_quantum_task demo_env (demo_ctx 9 1000) demo_task None demo_state = Inr (0, demo_scheduled)"
  by (simp add: eval_defs demo_defs demo_scheduled_def)

theorem schedule_stores_task_witness:
  "quantum_tasks demo_scheduled 0 = Some \<lparr>q_owner = 9, q_deposit = 1000, q_status = Pending,
     q_executing_at = 0\<rparr> \<and> 0 \<in> set (owner_tasks demo_scheduled 9)"
  using schedule_stores_task [OF demo_schedule]
  by (auto simp: resolve_caller_def demo_state_def sched_empty_def demo_ctx_def)

text \<open>
  C8. No overflow for a validated task. The parameters accepted at scheduling keep the 64-bit
  arithmetic of the execution exact: the expiry time and the gas that is required do not wrap
  around, and neither does the end of the round-robin grace period, which counts from the target
  time of a one-time task, from the start time of a recurring one and, for every other trigger,
  from the time of the block, as long as that lies before the year 318000.
\<close>

theorem validated_task_no_overflow:
  assumes "validate_task_parameters tp d s = Inr u"
  shows "unat (t_created_at tp + t_ttl_seconds tp * 1000) =
       unat (t_created_at tp) + unat (t_ttl_seconds tp) * 1000 \<and>
     (\<forall>x i n. t_trigger tp = TimeOnce x \<or> t_trigger tp = TimeRecurring x i n \<longrightarrow>
       unat (ripe_time_ms c tp + ROUND_ROBIN_GRACE_SECONDS * 1000) = unat x + 30000) \<and>
     ((\<forall>x i n. t_trigger tp \<noteq> TimeOnce x \<and> t_trigger tp \<noteq> TimeRecurring x i n) \<and>
        unat (block_timestamp c) < 10 ^ 13 \<longrightarrow>
       unat (ripe_time_ms c tp + ROUND_ROBIN_GRACE_SECONDS * 1000) = unat (block_timestamp c) * 1000 + 30000) \<and>
     unat (min_gas_needed e c tp k s') =
       unat (t_max_gas tp) + unat (cross_shard_overhead e c tp k s') + unat (callback_gas e c tp) +
       10000000 \<and>
     unat (cross_shard_overhead e c tp k s') * 100 \<le> unat (t_max_gas tp) * 30"
proof -
  have v: "t_max_gas tp \<le> 400000000" "t_ttl_seconds tp \<le> 157680000"
    "t_created_at tp \<le> 200000000000000"
    and tr: "t_trigger tp = TimeOnce x \<or> t_trigger tp = TimeRecurring x i n \<Longrightarrow> x \<le> 200000000000000" for x i n
    using assms by (auto simp: sched_simps split: trigger.splits)
  note un = v [unfolded word_le_nat_alt, simplified]
  have ttl: "unat (t_ttl_seconds tp * 1000) = unat (t_ttl_seconds tp) * 1000"
    using un(2) by (subst unat_mult_lem [THEN iffD1]) simp_all
  have exp: "unat (t_created_at tp + t_ttl_seconds tp * 1000) =
      unat (t_created_at tp) + unat (t_ttl_seconds tp) * 1000"
    using un ttl by (subst unat_add_lem [THEN iffD1]) simp_all
  have grace: "unat (ripe_time_ms c tp + ROUND_ROBIN_GRACE_SECONDS * 1000) = unat x + 30000"
    if "t_trigger tp = TimeOnce x \<or> t_trigger tp = TimeRecurring x i n" for x i n
  proof -
    have "ripe_time_ms c tp = x" using that by (auto simp: ripe_time_ms_def)
    moreover have "unat x \<le> 200000000000000" using tr [OF that] by (simp add: word_le_nat_alt)
    ultimately show ?thesis
      by (simp add: ROUND_ROBIN_GRACE_SECONDS_def) (subst unat_add_lem [THEN iffD1], simp_all)
  qed
  have other: "unat (ripe_time_ms c tp + ROUND_ROBIN_GRACE_SECONDS * 1000) = unat (block_timestamp c) * 1000 + 30000"
    if "\<forall>x i n. t_trigger tp \<noteq> TimeOnce x \<and> t_trigger tp \<noteq> TimeRecurring x i n"
      and b: "unat (block_timestamp c) < 10 ^ 13"
  proof -
    have "ripe_time_ms c tp = block_timestamp c * 1000"
      using that(1) by (auto simp: ripe_time_ms_def split: trigger.splits)
    moreover have m: "unat (block_timestamp c * 1000) = unat (block_timestamp c) * 1000"
      using b by (subst unat_mult_lem [THEN iffD1]) simp_all
    moreover have "unat (block_timestamp c * 1000 + 30000) = unat (block_timestamp c * 1000) + 30000"
      using b m by (subst unat_add_lem [THEN iffD1]) simp_all
    ultimately show ?thesis by (simp add: ROUND_ROBIN_GRACE_SECONDS_def)
  qed
  have share: "unat (t_max_gas tp * of_nat n div 100) = unat (t_max_gas tp) * n div 100"
    if "n \<le> 30" for n
  proof -
    have "unat (of_nat n :: u64) = n" using that by (simp add: unsigned_of_nat take_bit_nat_eq_self)
    moreover have "unat (t_max_gas tp) * n \<le> 400000000 * 30"
      using un(1) that by (rule mult_le_mono)
    ultimately have "unat (t_max_gas tp * of_nat n) = unat (t_max_gas tp) * n"
      by (subst unat_mult_lem [THEN iffD1]) simp_all
    then show ?thesis by (simp add: unat_div)
  qed
  have over: "unat (cross_shard_overhead e c tp k s') * 100 \<le> unat (t_max_gas tp) * 30"
  proof -
    have "10 * (3 * g div 20) \<le> 3 * g" for g :: nat by linarith
    then show ?thesis using share [of 15] share [of 30] by (simp add: cross_shard_overhead_def)
  qed
  have cb: "unat (callback_gas e c tp) \<le> 25000000"
    by (simp add: callback_gas_def CALLBACK_GAS_RESERVE_def)
  have "unat (t_max_gas tp + cross_shard_overhead e c tp k s') =
      unat (t_max_gas tp) + unat (cross_shard_overhead e c tp k s')"
    using un(1) over by (subst unat_add_lem [THEN iffD1]) simp_all
  moreover from this have "unat (t_max_gas tp + cross_shard_overhead e c tp k s' + callback_gas e c tp) =
      unat (t_max_gas tp + cross_shard_overhead e c tp k s') + unat (callback_gas e c tp)"
    using un(1) over cb by (subst unat_add_lem [THEN iffD1]) simp_all
  ultimately have "unat (min_gas_needed e c tp k s') = unat (t_max_gas tp) +
      unat (cross_shard_overhead e c tp k s') + unat (callback_gas e c tp) + 10000000"
    unfolding min_gas_needed_def using un(1) over cb by (subst unat_add_lem [THEN iffD1]) simp_all
  then show ?thesis using exp grace other over by blast
qed

theorem validated_task_no_overflow_witness:
  "unat (min_gas_needed demo_env (demo_ctx 50 0) demo_task 50 demo_state) = 35000000"
proof -
  have "validate_task_parameters demo_task 1000 demo_state = Inr ()"
    by (simp add: sched_simps demo_defs)
  from validated_task_no_overflow [OF this, where c = "demo_ctx 50 0" and e = demo_env and k = 50
      and s' = demo_state]
  show ?thesis
    by (simp add: demo_defs cross_shard_overhead_def is_cross_shard_def callback_gas_def constant_defs)
qed

end
