(* ===== verification/Scheduler_Guards.thy ===== *)
theory Scheduler_Guards
  imports Scheduler_Properties
begin

text \<open>
  Who may do what, and when: the checks of an execution, the round-robin assignment of
  keepers, blacklisting, clone keys, the circuit breaker and the owner's configuration.
\<close>

section \<open>Execution\<close>

text \<open>The trigger of a task holds at the time of the call, on the state the call started in.\<close>

definition trigger_holds :: "sched_env \<Rightarrow> ctx \<Rightarrow> task \<Rightarrow> sched \<Rightarrow> bool" where
  "trigger_holds e c tp s \<longleftrightarrow> (case t_trigger tp of
     TimeOnce x \<Rightarrow> x \<le> get_timestamp_ms c
   | TimeRecurring x _ _ \<Rightarrow> x \<le> get_timestamp_ms c
   | StateDriven oracle query _ comparator bound \<Rightarrow>
       (\<exists>raw u. sync_call e oracle query [] s = Inr (raw, u) \<and>
          compare_values comparator (case raw of [] \<Rightarrow> 0 | r # _ \<Rightarrow> from_bytes_be r) bound)
   | _ \<Rightarrow> True)"

lemma ripe_trigger_holds:
  assumes "require_task_ripe_quantum e c tp s = Inr t"
  shows "trigger_holds e c tp s \<and>
    (0 < t_ttl_seconds tp \<longrightarrow> get_timestamp_ms c \<le> t_created_at tp + t_ttl_seconds tp * 1000)"
  using assms
  by (auto simp: require_task_ripe_quantum_def trigger_holds_def res_simps Let_def
      split: trigger.splits prod.splits)

text \<open>The state on which the trigger is checked: a confidential task has its keeper noted before.\<close>

definition entered :: "sched_env \<Rightarrow> ctx \<Rightarrow> task \<Rightarrow> sched \<Rightarrow> sched" where
  "entered e c tp s = (if t_confidential tp
     then s\<lparr>assigned_enclave_keeper := (assigned_enclave_keeper s)(sha256 e (encode_task e tp) \<mapsto> caller c)\<rparr> else s)"

text \<open>The call that the execution of a task registers.\<close>

definition task_promise :: "sched_env \<Rightarrow> ctx \<Rightarrow> task \<Rightarrow> exec_promise" where
  "task_promise e c tp = \<lparr>ep_to = t_target_contract tp, ep_endpoint = t_target_endpoint tp,
     ep_args = t_target_args tp, ep_gas = t_max_gas tp, ep_callback_gas = callback_gas e c tp,
     ep_task_hash = sha256 e (encode_task e tp), ep_target_contract = t_target_contract tp,
     ep_keeper = caller c\<rparr>"


lemma demo_execute:
  "execute_quantum_task demo_env (demo_ctx 50 0) demo_task None demo_scheduled = Inr demo_running"
  by (simp add: eval_defs demo_defs demo_scheduled_def demo_running_def)


text \<open>
  C10. Round-robin. With more than one listed keeper, the index that the hash assigns falls within
  the list for every task, block and state, so the check never fails for its range. The keeper at
  that index always passes the check; while the grace period of the task has not passed no other
  keeper does, and none can execute the task; after it every keeper passes, unless the entry of the
  list has been emptied by a removal.
\<close>

theorem round_robin_exclusive:
  assumes "1 < length (keeper_list s)"
    and "i = assigned_index e c tp (sha256 e (encode_task e tp)) (length (keeper_list s))"
  shows "1 \<le> i \<and> i \<le> length (keeper_list s) \<and>
     (\<forall>k. keeper_list s ! (i - 1) = Some k \<longrightarrow>
        perform_round_robin_check e c tp (sha256 e (encode_task e tp)) k s = Inr ()) \<and>
     (block_timestamp c * 1000 < ripe_time_ms c tp + ROUND_ROBIN_GRACE_SECONDS * 1000 \<longrightarrow>
        (\<forall>k. perform_round_robin_check e c tp (sha256 e (encode_task e tp)) k s = Inr () \<longrightarrow>
           keeper_list s ! (i - 1) = Some k) \<and>
        (\<forall>sec t. execute_quantum_task e c tp sec s = Inr t \<longrightarrow> keeper_list s ! (i - 1) = Some (caller c))) \<and>
     (ripe_time_ms c tp + ROUND_ROBIN_GRACE_SECONDS * 1000 \<le> block_timestamp c * 1000 \<and>
        keeper_list s ! (i - 1) \<noteq> None \<longrightarrow>
        (\<forall>k. perform_round_robin_check e c tp (sha256 e (encode_task e tp)) k s = Inr ()))"
proof -
  let ?h = "sha256 e (encode_task e tp)"
  have range: "1 \<le> i" "i \<le> length (keeper_list s)"
    using assms by (auto simp: assigned_index_def Let_def Suc_le_eq intro!: mod_less_divisor)
  have get: "vec_get (keeper_list s) i = get_slot (keeper_list s ! (i - 1))"
    using range by (simp add: vec_get_def)
  have chk: "perform_round_robin_check e c tp ?h k s = bind_res (get_slot (keeper_list s ! (i - 1))) (\<lambda>a.
      if k \<noteq> a then require (ripe_time_ms c tp + ROUND_ROBIN_GRACE_SECONDS * 1000 \<le> block_timestamp c * 1000)
        ''Task assigned to another keeper'' (Inr ()) else Inr ())" for k
    unfolding perform_round_robin_check_def Let_def assms(2) [symmetric] get using assms(1) by simp
  have mine: "perform_round_robin_check e c tp ?h k s = Inr ()" if "keeper_list s ! (i - 1) = Some k" for k
    using that by (simp add: chk)
  have only: "keeper_list s ! (i - 1) = Some k"
    if "block_timestamp c * 1000 < ripe_time_ms c tp + ROUND_ROBIN_GRACE_SECONDS * 1000"
      "perform_round_robin_check e c tp ?h k s = Inr ()" for k
    using that by (cases "keeper_list s ! (i - 1)") (auto simp: chk require_def split: if_splits)
  have exec: "keeper_list s ! (i - 1) = Some (caller c)"
    if g: "block_timestamp c * 1000 < ripe_time_ms c tp + ROUND_ROBIN_GRACE_SECONDS * 1000"
      and x: "execute_quantum_task e c tp sec s = Inr t" for sec t
    using x by (rule execute_quantum_task_Inr) (use only [OF g] in auto)
  have late: "perform_round_robin_check e c tp ?h k s = Inr ()"
    if "ripe_time_ms c tp + ROUND_ROBIN_GRACE_SECONDS * 1000 \<le> block_timestamp c * 1000"
      "keeper_list s ! (i - 1) \<noteq> None" for k
    using that by (auto simp: chk)
  show ?thesis using range mine only exec late by blast
qed

definition demo_two_keepers :: sched where
  "demo_two_keepers = demo_scheduled\<lparr>whitelisted_keepers := [50, 51], keeper_list := [Some 50, Some 51]\<rparr>"

definition demo_early :: task where
  "demo_early = demo_task\<lparr>t_trigger := TimeOnce 990000\<rparr>"

lemma demo_early_facts:
  "length (keeper_list demo_two_keepers) = 2"
  "sha256 demo_env (encode_task demo_env demo_early) = 0"
  "block_timestamp (demo_ctx 50 0) * 1000 <
     ripe_time_ms (demo_ctx 50 0) demo_early + ROUND_ROBIN_GRACE_SECONDS * 1000"
  "keeper_list demo_two_keepers = [Some 50, Some 51]" "caller (demo_ctx 50 0) = 50"
  by (simp_all add: demo_two_keepers_def demo_env_def demo_early_def demo_task_def demo_ctx_def
      ripe_time_ms_def ROUND_ROBIN_GRACE_SECONDS_def)

lemma demo_early_index: "assigned_index demo_env (demo_ctx 50 0) demo_early 0 2 = 1"
proof -
  have "from_bytes_be (take 8 (be_bytes 32 40)) = 0" by code_simp
  then show ?thesis
    by (simp add: assigned_index_def demo_env_def demo_ctx_def demo_early_def demo_task_def Let_def
        ripe_time_ms_def u64_be_def bytes32_def)
qed

lemma demo_early_execute:
  "\<exists>t. execute_quantum_task demo_env (demo_ctx 50 0) demo_early None demo_two_keepers = Inr t"
proof -
  have "perform_round_robin_check demo_env (demo_ctx 50 0) demo_early 0 50 demo_two_keepers = Inr ()"
    by (simp add: perform_round_robin_check_def demo_early_index vec_get_def
        demo_early_facts(4) numeral_2_eq_2 [symmetric] Let_def)
  moreover have "\<exists>t. dispatch_task_execution demo_env (demo_ctx 50 0) 0 demo_early 50 st
      demo_two_keepers = Inr t" for st
    by (simp add: eval_defs demo_defs demo_two_keepers_def demo_early_def demo_scheduled_def)
  moreover have "t_trigger demo_early = TimeOnce 990000" "t_assigned_keeper demo_early = None"
    "\<not> t_confidential demo_early" by (simp_all add: demo_early_def demo_task_def)
  moreover have "\<not> paused demo_two_keepers" "50 \<in> set (whitelisted_keepers demo_two_keepers)"
    "\<exists>st. quantum_tasks demo_two_keepers 0 = Some st \<and> q_status st = Pending"
    "egld_value (demo_ctx 50 0) = 0" "esdt_transfers (demo_ctx 50 0) = []"
    by (simp_all add: demo_two_keepers_def demo_scheduled_def demo_defs)
  ultimately show ?thesis
    by (auto simp: execute_quantum_task_def demo_early_facts(2,5) Let_def not_payable_def
        require_not_paused_def require_registered_keeper_def)
qed

theorem round_robin_exclusive_witness:
  "keeper_list demo_two_keepers ! (assigned_index demo_env (demo_ctx 50 0) demo_early 0 2 - 1) = Some 50 \<and>
   perform_round_robin_check demo_env (demo_ctx 51 0) demo_early 0 51 demo_two_keepers \<noteq> Inr ()"
proof -
  obtain t where t: "execute_quantum_task demo_env (demo_ctx 50 0) demo_early None demo_two_keepers = Inr t"
    using demo_early_execute by blast
  have grace: "block_timestamp (demo_ctx a 0) * 1000 <
      ripe_time_ms (demo_ctx a 0) demo_early + ROUND_ROBIN_GRACE_SECONDS * 1000" for a
    by (simp add: ripe_time_ms_def demo_early_def demo_ctx_def ROUND_ROBIN_GRACE_SECONDS_def)
  have one: "1 = assigned_index demo_env (demo_ctx a 0) demo_early 0 2" for a
    using demo_early_index
    by (simp add: ripe_time_ms_def demo_early_def demo_ctx_def assigned_index_def demo_env_def Let_def)
  have two: "(1::nat) < 2" by simp
  note rr = round_robin_exclusive [of demo_two_keepers 1 demo_env _ demo_early, unfolded demo_early_facts(1,2), OF two one]
  have "keeper_list demo_two_keepers ! (1 - 1) = Some (caller (demo_ctx 50 0))"
    using rr [of 50] grace [of 50] t by blast
  moreover have "keeper_list demo_two_keepers ! (1 - 1) = Some 51"
    if "perform_round_robin_check demo_env (demo_ctx 51 0) demo_early 0 51 demo_two_keepers = Inr ()"
    using rr [of 51] grace [of 51] that by blast
  ultimately show ?thesis by (auto simp: demo_early_facts(4,5) simp flip: one)
qed

section \<open>Clone keys\<close>

text \<open>
  Authorising a clone key and revoking it before it has spent anything gives the whole
  deposit back to the main wallet and leaves balance, keys and wallet lists as they were.
\<close>

theorem authorize_revoke_roundtrip:
  assumes "authorize_clone_key c a ttl s = Inr s1" and "clone_inv s"
    and "caller c' = caller c" "egld_value c' = 0" "esdt_transfers c' = []"
  shows "\<exists>t. revoke_clone_key c' a s1 = Inr t \<and> clone_key_props t = clone_key_props s \<and>
     wallet_clone_keys t = wallet_clone_keys s \<and> egld_balance t = egld_balance s \<and>
     SendEgld (caller c) (egld_value c) \<in> set (outbox t)"
proof -
  let ?p = "\<lparr>ck_main_address = caller c, ck_spend_limit = egld_value c, ck_spent_amount = 0,
     ck_expiry_timestamp = block_timestamp c + ttl\<rparr>"
  from assms(1) have pos: "0 < egld_value c" and new: "clone_key_props s a = None"
    and s1: "clone_key_props s1 = (clone_key_props s)(a \<mapsto> ?p)"
      "wallet_clone_keys s1 = (wallet_clone_keys s)
         (caller c := us_insert a (wallet_clone_keys s (caller c)))"
      "egld_balance s1 = egld_balance s + egld_value c"
    by (auto simp: authorize_clone_key_def res_simps Let_def clone_event_defs receive_def)
  have "a \<notin> set (wallet_clone_keys s (caller c))" using assms(2) new by (auto simp: clone_inv_def)
  then have keys: "us_swap_remove a (us_insert a (wallet_clone_keys s (caller c))) =
      wallet_clone_keys s (caller c)"
    by (simp add: us_insert_def us_swap_remove_def us_replace_append_last)
  show ?thesis
    using assms(3-5) pos new
    by (simp add: revoke_clone_key_def not_payable_def s1 Let_def keys direct_egld_def
        clone_event_defs fun_upd_idem)
qed

lemma demo_authorize: "\<exists>t. authorize_clone_key (demo_ctx 9 500) 7 3600 demo_state = Inr t"
  by (simp add: authorize_clone_key_def eval_defs demo_defs clone_event_defs)

lemma demo_state_clone_inv: "clone_inv demo_state"
  by (simp add: demo_state_def sched_empty_def clone_inv_def)

theorem authorize_revoke_roundtrip_witness:
  "\<exists>s1 t. authorize_clone_key (demo_ctx 9 500) 7 3600 demo_state = Inr s1 \<and>
     revoke_clone_key (demo_ctx 9 0) 7 s1 = Inr t \<and> egld_balance t = egld_balance demo_state"
proof -
  obtain s1 where s1: "authorize_clone_key (demo_ctx 9 500) 7 3600 demo_state = Inr s1"
    using demo_authorize by blast
  from authorize_revoke_roundtrip [OF s1 demo_state_clone_inv, of "demo_ctx 9 0"] show ?thesis
    using s1 by (auto simp: demo_ctx_def)
qed

section \<open>Circuit breaker and configuration\<close>

text \<open>
  A paused contract. While the contract is paused no task is scheduled, cancelled,
  executed, settled or rescued: the only calls of the task modules that succeed are callbacks
  of calls registered before, and the enclave trigger, which only emits an event.
\<close>

theorem paused_freezes_tasks:
  assumes "exec_task_call e c l s = Inr t" and "paused s"
  shows "(\<exists>i b. l = ExecutionCallback i b) \<or> (\<exists>pl. l = TriggerXseEnclave pl \<and>
     quantum_tasks t = quantum_tasks s \<and> egld_balance t = egld_balance s \<and> promises t = promises s)"
proof (cases l)
  case (TriggerXseEnclave pl)
  then show ?thesis
    using assms(1) by (auto simp: trigger_xse_enclave_def res_simps sched_event_defs)
qed (use assms in \<open>auto simp: res_simps elim: schedule_quantum_task_Inr schedule_sovereign_task_Inr
    cancel_quantum_task_Inr execute_quantum_task_Inr execute_compressed_task_Inr
    settle_xse_task_Inr rescue_stuck_xse_task_Inr\<close>)

theorem paused_freezes_tasks_witness:
  "\<exists>t. deliver_callback 0 True (demo_running\<lparr>paused := True\<rparr>) = Inr t \<and>
     exec_task_call demo_env (demo_ctx 1 0) (CancelQuantumTask 0) (demo_running\<lparr>paused := True\<rparr>) \<noteq> Inr t"
proof -
  have "\<exists>t. deliver_callback 0 True (demo_running\<lparr>paused := True\<rparr>) = Inr t"
    by (simp add: deliver_callback_def demo_running_def Let_def split: sum.splits)
  moreover have "exec_task_call demo_env (demo_ctx 1 0) (CancelQuantumTask 0)
      (demo_running\<lparr>paused := True\<rparr>) \<noteq> Inr t" for t
    using paused_freezes_tasks [of demo_env "demo_ctx 1 0" "CancelQuantumTask 0"
        "demo_running\<lparr>paused := True\<rparr>" t] by auto
  ultimately show ?thesis by blast
qed

text \<open>Everything the owner configures.\<close>

definition config_of :: "sched \<Rightarrow> _" where
  "config_of s = (paused s, min_deposit s, protocol_fee_bps s, reveal_window s, commit_bond s,
     keeper_registry_addr s, rewards_addr s, xwap_address s, zk_verifier_addr s, xsc_address s,
     whitelisted_keepers s, max_reward_per_exec s, keeper_list s, max_exec_value_egld s,
     max_tasks_per_round s, version s, accepted_payment_tokens s)"

lemma receive_config [simp]: "config_of (receive c s) = config_of s"
  by (simp add: config_of_def receive_def)

lemma task_deposit_config: "task_deposit c b r s = Inr (d, t) \<Longrightarrow> config_of t = config_of s"
  by (erule task_deposit_Inr) (simp_all add: config_of_def)

lemma dispatched_config [simp]: "config_of (dispatched e c h tp k st s) = config_of s"
  by (simp add: config_of_def dispatched_def Let_def sched_event_defs)

lemma finalize_config:
  "finalize_successful_execution h tg k d own s = Inr t \<Longrightarrow> config_of t = config_of s"
  "finalize_failed_execution h tg k d own s = Inr t \<Longrightarrow> config_of t = config_of s"
  by (erule finalize_successful_Inr finalize_failed_Inr; simp add: config_of_def)+

lemma callback_config: "deliver_callback i b s = Inr t \<Longrightarrow> config_of t = config_of s"
  by (auto simp: deliver_callback_def res_simps Let_def execution_callback_def config_of_def
      dest!: finalize_config split: sum.splits if_splits)

lemma schedule_config:
  "schedule_quantum_task e c tp r s = Inr (h, t) \<Longrightarrow> config_of t = config_of s"
  "schedule_sovereign_task e c pl r s = Inr (h, t) \<Longrightarrow> config_of t = config_of s"
proof -
  assume "schedule_quantum_task e c tp r s = Inr (h, t)"
  then show "config_of t = config_of s"
  proof (cases rule: schedule_quantum_task_Inr)
    case (1 own b d s1 s2)
    have "config_of t = config_of s1"
      using 1(8,9) by (simp add: config_of_def sched_simps store_pending_def sched_event_defs)
    then show ?thesis using task_deposit_config [OF 1(4)] by simp
  qed
next
  assume "schedule_sovereign_task e c pl r s = Inr (h, t)"
  then show "config_of t = config_of s"
  proof (cases rule: schedule_sovereign_task_Inr)
    case (1 own b d s1)
    have "config_of t = config_of s1"
      using 1(9) by (simp add: config_of_def store_pending_def sched_event_defs)
    then show ?thesis using task_deposit_config [OF 1(4)] by simp
  qed
qed

lemma execute_config:
  assumes "sync_pure e"
  shows "execute_quantum_task e c tp sec s = Inr t \<Longrightarrow> config_of t = config_of s"
    and "execute_compressed_task e c tp prf s = Inr t \<Longrightarrow> config_of t = config_of s"
    and "settle_xse_task e c h prf s = Inr t \<Longrightarrow> config_of t = config_of s"
proof -
  assume "execute_quantum_task e c tp sec s = Inr t"
  then show "config_of t = config_of s"
    by (rule execute_quantum_task_Inr)
      (drule dispatch_pure [OF _ assms], simp, simp add: config_of_def)
next
  assume "execute_compressed_task e c tp prf s = Inr t"
  then show "config_of t = config_of s"
    by (rule execute_compressed_task_Inr)
      (drule dispatch_pure [OF _ assms], drule sync_pureD [OF assms], simp)
next
  assume "settle_xse_task e c h prf s = Inr t"
  then show "config_of t = config_of s"
    by (rule settle_xse_task_Inr) (drule finalize_config, auto dest: sync_pureD [OF assms])
qed

lemma task_call_config:
  assumes "exec_task_call e c l s = Inr t" and "sync_pure e"
  shows "config_of t = config_of s"
proof (cases l)
  case (CancelQuantumTask h)
  with assms(1) show ?thesis by (auto simp: config_of_def elim: cancel_quantum_task_Inr)
next
  case (RescueStuckXseTask h)
  with assms(1) show ?thesis by (auto simp: config_of_def elim: rescue_stuck_xse_task_Inr)
next
  case (TriggerXseEnclave pl)
  with assms(1) show ?thesis
    by (auto simp: config_of_def trigger_xse_enclave_def res_simps sched_event_defs)
qed (use assms in \<open>auto simp: res_simps dest: schedule_config execute_config callback_config\<close>)

lemma clone_call_config: "exec_clone_call c l s = Inr t \<Longrightarrow> config_of t = config_of s"
  by (cases l) (auto simp: config_of_def authorize_clone_key_def fund_clone_key_def res_simps
      Let_def clone_event_defs receive_def elim: revoke_clone_key_Inr)

lemma intent_call_config: "exec_intent_call e c l s = Inr t \<Longrightarrow> config_of t = config_of s"
  by (cases l) (auto simp: res_simps config_of_def intent_event_defs receive_def
      elim!: create_intent_Inr cancel_intent_Inr solve_intent_Inr create_multi_intent_Inr
        cancel_multi_intent_Inr solve_multi_intent_Inr create_pre_cognitive_intent_Inr
        cancel_pre_cognitive_intent_Inr execute_pre_cognitive_leaf_Inr)

lemma config_call_owner:
  assumes "exec_config_call c l s = Inr t" and "caller c \<noteq> owner_address c"
  shows "config_of t = config_of s"
proof (cases "l = FlushProtocolFees")
  case True
  with assms(1) show ?thesis by (auto simp: config_of_def elim: flush_protocol_fees_Inr)
next
  case False
  with assms show ?thesis by (cases l) (auto simp: setter_defs sched_simps)
qed

lemma admin_call_owner:
  "exec_admin_call e c l s = Inr t \<Longrightarrow> caller c \<noteq> owner_address c \<Longrightarrow> config_of t = config_of s"
  by (cases l) (auto simp: setter_defs sched_simps res_simps pause_def unpause_def config_of_def
      register_keeper_shard_def Let_def)

text \<open>
  Only the owner configures. No call by anyone else changes the fee, the limits, the
  addresses of the other contracts, the keeper whitelist, the round-robin list or the circuit
  breaker (contracts that are queried do not re-enter).
\<close>

theorem only_owner_configures:
  assumes "sched_step e s (c, l) t" and "sync_pure e" and "caller c \<noteq> owner_address c"
  shows "config_of t = config_of s"
proof -
  have "sched_exec e c l s = Inr t" using assms(1) by (simp add: sched_step_simps)
  then show ?thesis
    using assms(2,3)
    by (cases l) (auto dest: task_call_config clone_call_config intent_call_config
        config_call_owner admin_call_owner)
qed

theorem only_owner_configures_witness: "config_of demo_running = config_of demo_scheduled"
proof -
  have "sched_step demo_env demo_scheduled (demo_ctx 50 0, Tasks (ExecuteQuantumTask demo_task None))
      demo_running"
    by (simp add: sched_step_simps demo_execute)
  from only_owner_configures [OF this demo_sync_pure] show ?thesis by (simp add: demo_ctx_def)
qed

end
