(* ===== verification/Scheduler_Limits.thy ===== *)
theory Scheduler_Limits
  imports Scheduler_Guards
begin

text \<open>
  Where the guarantees of the Scheduler end: what compressed tasks, contracts that re-enter,
  sovereign tasks and the removal of a keeper do to the invariants.
\<close>

section \<open>Compressed tasks\<close>

text \<open>
  A compressed task is paid from other people's deposits. Executing one whose hash is not
  stored books the deposit its payload claims, while the contract receives nothing: what the
  contract owes grows by that amount and what it holds does not.
\<close>

theorem compressed_task_is_unfunded:
  assumes "execute_compressed_task e c tp packed s = Inr t" and "sync_pure e"
    and "quantum_tasks s (sha256 e (encode_task e tp)) = None" and "finite (dom (quantum_tasks s))"
  shows "owed_egld t = owed_egld s + t_deposit tp \<and> egld_balance t = egld_balance s"
  using assms(1)
proof (cases rule: execute_compressed_task_Inr)
  case (1 h xsc raw s1)
  have s1: "s1 = s" using sync_pureD [OF assms(2) 1(9)] .
  have t: "t = dispatched e c h tp (caller c) \<lparr>q_owner = t_owner tp, q_deposit = t_deposit tp,
      q_status = Pending, q_executing_at = 0\<rparr> s"
    using dispatch_pure [OF 1(11) assms(2)] s1 by simp
  show ?thesis
    using assms(3,4) 1(5)
    by (simp add: t dispatched_def Let_def sched_event_defs owed_egld_def msum_insert_fresh)
qed

definition demo_xsc_env :: sched_env where
  "demo_xsc_env = demo_env\<lparr>sync_call := (\<lambda>a f args s. Inr ([''1''], s))\<rparr>"

lemma demo_compressed:
  "\<exists>t. execute_compressed_task demo_xsc_env (demo_ctx 50 0) (demo_task\<lparr>t_deposit := 1000\<rparr>) []
     (demo_state\<lparr>xsc_address := Some 400\<rparr>) = Inr t"
  by (simp add: execute_compressed_task_def eval_defs demo_defs demo_xsc_env_def first_bool_def)

theorem compressed_task_is_unfunded_witness:
  "\<exists>t. execute_compressed_task demo_xsc_env (demo_ctx 50 0) (demo_task\<lparr>t_deposit := 1000\<rparr>) []
       (demo_state\<lparr>xsc_address := Some 400\<rparr>) = Inr t \<and>
     owed_egld t = owed_egld (demo_state\<lparr>xsc_address := Some 400\<rparr>) + 1000 \<and> egld_balance t = 0"
proof -
  obtain t where t: "execute_compressed_task demo_xsc_env (demo_ctx 50 0)
      (demo_task\<lparr>t_deposit := 1000\<rparr>) [] (demo_state\<lparr>xsc_address := Some 400\<rparr>) = Inr t"
    using demo_compressed by blast
  have "sync_pure demo_xsc_env" by (simp add: sync_pure_def demo_xsc_env_def)
  from compressed_task_is_unfunded [OF t this] show ?thesis
    using t by (simp add: demo_state_def sched_empty_def)
qed

section \<open>Contracts that re-enter\<close>

text \<open>The state in which a task goes on when its oracle has cancelled it during the query.\<close>

lemma reentrant_dispatch:
  assumes "execute_quantum_task e c tp sec s = Inr t"
    and "t_trigger tp = StateDriven oracle query qargs comparator bound"
    and "\<not> t_confidential tp" and "\<not> t_require_xwap_safe tp"
    and "sync_call e oracle query [] s = Inr (raw, u)"
    and "quantum_tasks s (sha256 e (encode_task e tp)) = Some st"
  shows "t = dispatched e c (sha256 e (encode_task e tp)) tp (caller c) st u"
  using assms(1)
proof (cases rule: execute_quantum_task_Inr)
  case (1 h st')
  then have "dispatch_task_execution e c h tp (caller c) st s = Inr t" and h: "h = sha256 e (encode_task e tp)"
    using assms(3,6) by auto
  then obtain s1 where "require_task_ripe_quantum e c tp s = Inr s1" and t: "t = dispatched e c h tp (caller c) st s1"
    using assms(4) by (auto elim!: dispatch_task_execution_Inr)
  then have "s1 = u" using assms(2,5) by (auto simp: require_task_ripe_quantum_def res_simps Let_def)
  then show ?thesis using t h by simp
qed

text \<open>
  C14. A re-entrant oracle makes the contract pay a deposit twice. Let the books be in order, let
  the oracle of a pending task use the query to have the task cancelled by its owner, and let the
  execution go through after that answer. Then the task is booked again with its full deposit
  although the owner has been refunded. When the contract holds that much, the callback of a
  successful call settles it once more: the balance has fallen by twice the deposit less the
  fee, the fee is accrued twice, and the margin of what the contract holds over what it owes has
  shrunk by the deposit, at the expense of the other depositors.
\<close>

theorem reentrant_oracle_drains:
  assumes "sched_inv s" and "quantum_tasks s (sha256 e (encode_task e tp)) = Some st"
    and "t_trigger tp = StateDriven oracle query qargs comparator bound"
    and "\<not> t_confidential tp" and "\<not> t_require_xwap_safe tp"
    and "sync_call e oracle query [] s = Inr (raw, u)"
    and "cancel_quantum_task c' (sha256 e (encode_task e tp)) s = Inr u"
    and "execute_quantum_task e c tp sec s = Inr t" and "q_deposit st \<le> egld_balance t"
  shows "\<exists>v. deliver_callback (length (promises s)) True t = Inr v \<and>
     egld_balance v + 2 * (q_deposit st - bps_of (q_deposit st) (protocol_fee_bps s)) = egld_balance s \<and>
     accrued_protocol_fees v = accrued_protocol_fees s + 2 * bps_of (q_deposit st) (protocol_fee_bps s) \<and>
     egld_balance v + owed_egld s + q_deposit st = egld_balance s + owed_egld v"
  using assms(7)
proof (cases rule: cancel_quantum_task_Inr)
  case (1 st' fee refund)
  let ?h = "sha256 e (encode_task e tp)"
  have st': "st' = st" using 1(4) assms(2) by simp
  have fi: "funds_inv s" using assms(1) by (simp add: sched_inv_def)
  note bps = funds_invD(1) [OF fi]
  have fee: "fee \<le> q_deposit st" "refund = q_deposit st - fee"
    using bps.cut_le [OF bps, of "q_deposit st"] by (auto simp: 1(8,9) st')
  have t: "t = dispatched e c ?h tp (caller c) st u"
    by (rule reentrant_dispatch [OF assms(8,3-6,2)])
  let ?p = "task_promise e c tp" and ?w = "t\<lparr>promises := promises s\<rparr>"
  let ?st = "st\<lparr>q_status := Executing, q_executing_at := block_timestamp c\<rparr>"
  have w: "promises t = promises s @ [?p]" "quantum_tasks ?w = (quantum_tasks s)(?h \<mapsto> ?st)"
    "egld_balance ?w = egld_balance s - refund" "accrued_protocol_fees ?w = accrued_protocol_fees s + fee"
    "protocol_fee_bps ?w = protocol_fee_bps s"
    using assms(4) by (simp_all add: t dispatched_def task_promise_def Let_def 1(11) fun_eq_iff)
  have others: "clone_key_props ?w = clone_key_props s" "intent_by_id ?w = intent_by_id s"
    "multi_intent_by_id ?w = multi_intent_by_id s" "pre_cognitive_intent_by_id ?w = pre_cognitive_intent_by_id s"
    using assms(4) by (simp_all add: t dispatched_def Let_def 1(11))
  have "unat (protocol_fee_bps ?w) \<le> 10000" "q_deposit st \<le> egld_balance ?w" using bps w(5) assms(9) by simp_all
  from finalize_funded(1) [OF this] obtain v where
    v: "finalize_successful_execution ?h (t_target_contract tp) (caller c) (q_deposit st) (q_owner st) ?w = Inr v" by blast
  then have cb: "execution_callback ?h (t_target_contract tp) (caller c) True ?w = Inr v"
    using w(2) by (simp add: execution_callback_def)
  have "deliver_callback (length (promises s)) True t = Inr v"
    using cb w(1) by (simp add: deliver_callback_def task_promise_def)
  moreover have pay: "egld_balance v + (q_deposit st - fee) = egld_balance ?w"
    "accrued_protocol_fees v = accrued_protocol_fees ?w + fee"
    "quantum_tasks v = (quantum_tasks s)(?h := None)"
    using v
  proof (atomize (full), cases rule: finalize_successful_Inr)
    case (1 reward f)
    have f: "f = fee" using 1(2) w(5) \<open>fee = _\<close> st' by simp
    have "reward + fee \<le> q_deposit st" using 1(1,2) f calculate_reward_le [of ?w "q_deposit st"] bps w(5) by simp
    then show "egld_balance v + (q_deposit st - fee) = egld_balance ?w \<and>
        accrued_protocol_fees v = accrued_protocol_fees ?w + fee \<and> quantum_tasks v = (quantum_tasks s)(?h := None)"
      using 1(3) w(2) by (simp add: 1(4) f)
  qed
  moreover have "owed_egld v + q_deposit st = owed_egld s + 2 * fee"
  proof -
    have "clone_key_props v = clone_key_props s" "intent_by_id v = intent_by_id s"
      "multi_intent_by_id v = multi_intent_by_id s" "pre_cognitive_intent_by_id v = pre_cognitive_intent_by_id s"
      using v others by (auto elim!: finalize_successful_Inr)
    then show ?thesis
      using msum_remove [OF funds_invD(2) [OF fi] assms(2), of q_deposit] pay(2,3) w(4) by (simp add: owed_egld_def)
  qed
  ultimately show ?thesis using fee w(3,4) 1(8,10) st' by (intro exI [of _ v]) auto
qed

text \<open>
  A deployment with two tasks of 1000 each, reached by ordinary calls. The task of contract 9 is
  driven by an oracle that is contract 9 itself: when the Scheduler queries it, it cancels its own
  task and then answers that the condition holds.
\<close>

definition reentrant_env :: sched_env where
  "reentrant_env = demo_env\<lparr>encode_task := (\<lambda>tp. if t_owner tp = 9 then [] else ''x''),
     sync_call := (\<lambda>a f args s. case cancel_quantum_task (demo_ctx 9 0) 0 s of
       Inl err \<Rightarrow> Inl err
     | Inr s' \<Rightarrow> Inr ([''1''], s'))\<rparr>"

definition oracle_task :: task where
  "oracle_task = demo_task\<lparr>t_trigger := StateDriven 9 ''price'' [] Gt 0\<rparr>"

definition two_tasks_calls :: "(ctx \<times> sched_call) list" where
  "two_tasks_calls = [(demo_ctx 100 0, Config (AddWhitelistedKeeper 50)),
     (demo_ctx 9 1000, Tasks (ScheduleQuantumTask oracle_task None)),
     (demo_ctx 8 1000, Tasks (ScheduleQuantumTask (demo_task\<lparr>t_owner := 8\<rparr>) None))]"

definition two_tasks :: sched where
  "two_tasks = demo_scheduled\<lparr>egld_balance := 2000,
     quantum_tasks := [0 \<mapsto> \<lparr>q_owner = 9, q_deposit = 1000, q_status = Pending, q_executing_at = 0\<rparr>,
                       1 \<mapsto> \<lparr>q_owner = 8, q_deposit = 1000, q_status = Pending, q_executing_at = 0\<rparr>],
     owner_tasks := (\<lambda>_. [])(9 := [0], 8 := [1]),
     tasks_per_round := (\<lambda>_ _. 0)(9 := (\<lambda>_. 0)(5 := 1), 8 := (\<lambda>_. 0)(5 := 1)),
     outbox := [Event ''taskScheduledQuantum'' [AHash 0, AAddr 9, AAddr 300, AU64 1000000],
       Event ''taskScheduledQuantum'' [AHash 1, AAddr 8, AAddr 300, AU64 1000000]]\<rparr>"

lemma two_tasks_inv: "sched_inv two_tasks"
  by (auto simp: two_tasks_def demo_scheduled_def demo_defs sched_inv_def tasks_inv_def clone_inv_def
      funds_inv_def owed_egld_def owed_esdt_def msum_insert_fresh msum_empty split: if_splits)

lemma two_tasks_run:
  "run (sched_step reentrant_env) (demo_state\<lparr>whitelisted_keepers := [], keeper_list := []\<rparr>)
     two_tasks_calls two_tasks"
  by (rule exec_all_run)
    (simp add: two_tasks_calls_def eval_defs demo_defs two_tasks_def demo_scheduled_def reentrant_env_def
      oracle_task_def)

definition reentered :: sched where
  "reentered = two_tasks\<lparr>egld_balance := 1010, quantum_tasks := (quantum_tasks two_tasks)(0 := None),
     owner_tasks := (owner_tasks two_tasks)(9 := us_swap_remove 0 (owner_tasks two_tasks 9)),
     accrued_protocol_fees := 10,
     outbox := outbox two_tasks @ [SendEgld 9 990, Event ''taskCancelledQuantum'' [AHash 0]]\<rparr>"

lemma two_tasks_0:
  "quantum_tasks two_tasks 0 = Some \<lparr>q_owner = 9, q_deposit = 1000, q_status = Pending, q_executing_at = 0\<rparr>"
  by (simp add: two_tasks_def)

lemma reentrant_cancel: "cancel_quantum_task (demo_ctx 9 0) 0 two_tasks = Inr reentered"
  using two_tasks_0
  by (simp add: cancel_quantum_task_def eval_defs demo_ctx_def bps_of_def direct_egld_def)
    (simp add: two_tasks_def demo_scheduled_def demo_state_def sched_empty_def reentered_def direct_egld_def)

lemma reentrant_execute:
  "execute_quantum_task reentrant_env (demo_ctx 50 0) oracle_task None two_tasks =
     Inr (dispatched reentrant_env (demo_ctx 50 0) 0 oracle_task 50
       \<lparr>q_owner = 9, q_deposit = 1000, q_status = Pending, q_executing_at = 0\<rparr> reentered)"
proof -
  have call: "sync_call reentrant_env a f args two_tasks = Inr ([''1''], reentered)" for a f args
    by (simp add: reentrant_env_def reentrant_cancel)
  have ripe: "require_task_ripe_quantum reentrant_env (demo_ctx 50 0) oracle_task two_tasks = Inr reentered"
    by (simp add: require_task_ripe_quantum_def oracle_task_def demo_task_def call from_bytes_be_def Let_def)
  have disp: "dispatch_task_execution reentrant_env (demo_ctx 50 0) 0 oracle_task 50 st two_tasks =
      Inr (dispatched reentrant_env (demo_ctx 50 0) 0 oracle_task 50 st reentered)" for st
    unfolding dispatch_task_execution_def ripe
    by (simp add: eval_defs dispatched_def reentered_def two_tasks_def demo_scheduled_def demo_defs reentrant_env_def
        oracle_task_def)
  have "keeper_list two_tasks = [Some 50]" "whitelisted_keepers two_tasks = [50]"
    "\<not> paused two_tasks" by (simp_all add: two_tasks_def demo_scheduled_def demo_defs)
  with disp two_tasks_0 show ?thesis
    by (simp add: execute_quantum_task_def not_payable_def require_not_paused_def
        require_registered_keeper_def perform_round_robin_check_def Let_def)
      (simp add: reentrant_env_def oracle_task_def demo_defs)
qed

theorem reentrant_oracle_drains_witness:
  "run (sched_step reentrant_env) (demo_state\<lparr>whitelisted_keepers := [], keeper_list := []\<rparr>)
     two_tasks_calls two_tasks \<and>
   (\<exists>t v. execute_quantum_task reentrant_env (demo_ctx 50 0) oracle_task None two_tasks = Inr t \<and>
      deliver_callback 0 True t = Inr v \<and> egld_balance v = 20 \<and> owed_egld v = 1020)"
proof -
  let ?t = "dispatched reentrant_env (demo_ctx 50 0) 0 oracle_task 50
    \<lparr>q_owner = 9, q_deposit = 1000, q_status = Pending, q_executing_at = 0\<rparr> reentered"
  have h: "sha256 reentrant_env (encode_task reentrant_env oracle_task) = 0"
    "sync_call reentrant_env 9 ''price'' [] two_tasks = Inr ([''1''], reentered)"
    "t_trigger oracle_task = StateDriven 9 ''price'' [] Gt 0"
    "\<not> t_confidential oracle_task" "\<not> t_require_xwap_safe oracle_task"
    by (simp_all add: reentrant_env_def reentrant_cancel oracle_task_def demo_task_def demo_env_def)
  have bal: "egld_balance ?t = 1010" "promises two_tasks = []" "protocol_fee_bps two_tasks = 100"
    "egld_balance two_tasks = 2000" "owed_egld two_tasks = 2000"
    using h(4)
    by (simp_all add: dispatched_def Let_def reentered_def two_tasks_def demo_scheduled_def demo_state_def
      sched_empty_def owed_egld_def msum_insert_fresh msum_empty)
  have "\<exists>v. deliver_callback 0 True ?t = Inr v \<and> egld_balance v = 20 \<and> owed_egld v = 1020"
    using reentrant_oracle_drains [OF two_tasks_inv, of reentrant_env oracle_task, unfolded h(1),
        OF two_tasks_0 h(3-5,2) reentrant_cancel reentrant_execute] bal
    by (auto simp: bps_of_def)
  then show ?thesis using two_tasks_run reentrant_execute by blast
qed

section \<open>Removing a keeper\<close>

text \<open>
  Removing a keeper leaves a hole. When a listed keeper is removed, the round-robin list
  keeps its length and its last entry is empty: the view of the list fails, and as long as two
  entries are left every execution whose assigned index is the last one fails, for every keeper.
\<close>

theorem removed_keeper_leaves_hole:
  assumes "remove_whitelisted_keeper c k s = Inr t" and "Some k \<in> set (keeper_list s)"
  shows "length (keeper_list t) = length (keeper_list s) \<and> last (keeper_list t) = None \<and>
     get_keeper_list t = Inl (VmError ''storage decode error'') \<and>
     (1 < length (keeper_list t) \<and>
        assigned_index e c' tp (sha256 e (encode_task e tp)) (length (keeper_list t)) = length (keeper_list t) \<longrightarrow>
        (\<forall>sec u. execute_quantum_task e c' tp sec t \<noteq> Inr u))"
proof -
  let ?n = "length (keeper_list s)"
  obtain xs where scan: "remove_scan k ?n [1..<Suc ?n] (keeper_list s) = Inr xs"
    and kl: "keeper_list t = xs"
    using assms(1) by (auto simp: remove_whitelisted_keeper_Inr)
  have "set [1..<Suc ?n] \<subseteq> {1..?n}" by auto
  moreover have "\<exists>i\<in>set [1..<Suc ?n]. keeper_list s ! (i - 1) = Some k"
  proof -
    obtain j where "j < ?n" "keeper_list s ! j = Some k" using assms(2) by (auto simp: in_set_conv_nth)
    then show ?thesis by (intro bexI [of _ "Suc j"]) auto
  qed
  ultimately have hole: "length xs = ?n" "last xs = None"
    using remove_scan_hole [OF scan] by blast+
  have ne: "xs \<noteq> []" using hole(1) assms(2) by auto
  have none: "vec_get xs (length xs) = Inl (VmError ''storage decode error'')"
    using ne hole(2) by (simp add: vec_get_def last_conv_nth Suc_le_eq)
  have "collect_entries xs (is @ [length xs]) acc = Inl (VmError ''storage decode error'')"
    if "set is \<subseteq> {1..length xs}" for "is" acc
    using that none
    by (induction "is" arbitrary: acc) (auto simp: vec_get_def bind_res_def get_slot_def split: option.splits)
  moreover have "[1..<Suc (length xs)] = [1..<length xs] @ [length xs]"
    using ne by (cases xs) auto
  ultimately have "get_keeper_list t = Inl (VmError ''storage decode error'')"
    unfolding get_keeper_list_def kl by force
  moreover have "execute_quantum_task e c' tp sec t \<noteq> Inr u"
    if "1 < length xs" "assigned_index e c' tp (sha256 e (encode_task e tp)) (length xs) = length xs" for sec u
    using that none by (auto simp: perform_round_robin_check_def kl Let_def elim!: execute_quantum_task_Inr)
  ultimately show ?thesis using hole kl by blast
qed

definition demo_three_keepers :: sched where
  "demo_three_keepers = demo_state\<lparr>whitelisted_keepers := [50, 51, 52],
     keeper_list := [Some 50, Some 51, Some 52]\<rparr>"

lemma demo_remove:
  "remove_whitelisted_keeper (demo_ctx 100 0) 50 demo_three_keepers =
     Inr (demo_three_keepers\<lparr>whitelisted_keepers := [52, 51], keeper_list := [Some 52, Some 51, None]\<rparr>)"
  by (simp add: remove_whitelisted_keeper_def eval_defs demo_ctx_def demo_three_keepers_def
      us_swap_remove_def upt_rec vec_get_def)

theorem removed_keeper_leaves_hole_witness:
  "get_keeper_list (demo_three_keepers\<lparr>whitelisted_keepers := [52, 51],
     keeper_list := [Some 52, Some 51, None]\<rparr>) = Inl (VmError ''storage decode error'')"
  using removed_keeper_leaves_hole [OF demo_remove] by (simp add: demo_three_keepers_def)

section \<open>Sovereign tasks\<close>

text \<open>
  Sovereign tasks are not rate limited. A caller that is no clone key and pays a deposit
  between the minimum and the cap can store a sovereign task however many tasks it has and
  however many it stored in this round; the counter of the round is not touched.
\<close>

theorem sovereign_task_not_rate_limited:
  assumes "\<not> paused s" and "esdt_transfers c = []" and "clone_key_props s (caller c) = None"
    and "min_deposit s \<le> egld_value c"
    and "max_exec_value_egld s = 0 \<or> egld_value c \<le> max_exec_value_egld s"
    and "quantum_tasks s (sovereign_task_hash e payload (caller c) (egld_value c)) = None"
  shows "\<exists>t. schedule_sovereign_task e c payload None s =
       Inr (sovereign_task_hash e payload (caller c) (egld_value c), t) \<and>
     length (owner_tasks t (caller c)) \<le> Suc (length (owner_tasks s (caller c))) \<and>
     sovereign_task_hash e payload (caller c) (egld_value c) \<in> set (owner_tasks t (caller c)) \<and>
     tasks_per_round t = tasks_per_round s"
  using assms
  by (auto simp: schedule_sovereign_task_def payable_egld_def require_not_paused_def
      resolve_caller_def task_deposit_def require_deposit_within_cap_def receive_def Let_def
      store_pending_def sched_event_defs us_insert_def require_def)

theorem sovereign_task_not_rate_limited_witness:
  "\<exists>t. schedule_sovereign_task demo_env (demo_ctx 9 1000) ''x'' None
     (demo_state\<lparr>owner_tasks := (\<lambda>_. map of_nat [100..<200])\<rparr>) = Inr (sovereign_task_hash demo_env ''x'' 9 1000, t)"
  using sovereign_task_not_rate_limited
    [of "demo_state\<lparr>owner_tasks := (\<lambda>_. map of_nat [100..<200])\<rparr>" "demo_ctx 9 1000" demo_env "''x''"]
  by (auto simp: demo_defs)

end
