(* ===== verification/Intent_Properties.thy ===== *)
theory Intent_Properties
  imports Scheduler_Guards
begin

text \<open>
  Intents and Merkle proofs: atomic settlement, refunds, and what a verified proof says about
  the tree behind a published root, on chain and in the keeper's engine.
\<close>

section \<open>Settlement of intents\<close>

text \<open>
  Atomic settlement. A solver that settles an intent is a registered keeper, acts before
  the deadline and attaches at least the wanted amount of the wanted token; the owner gets the
  whole attached payment, the solver gets the deposit and the fee, the contract keeps its
  other balances, and the intent can be neither settled again nor cancelled.
\<close>

theorem solve_intent_atomic:
  assumes "solve_intent c i s = Inr t"
  shows "\<exists>x p. intent_by_id s i = Some x \<and> i_status x = IPending \<and>
     caller c \<in> set (whitelisted_keepers s) \<and> block_timestamp c \<le> i_deadline x \<and>
     esdt_transfers c = [p] \<and> token_identifier p = i_token_out x \<and> i_min_return x \<le> amount p \<and>
     outbox t = outbox s @ [SendEsdt (i_owner x) (i_token_out x) 0 (amount p),
       SendEsdt (caller c) (i_token_in x) 0 (i_amount_in x)] @ send_pos (caller c) (i_solver_fee x) \<and>
     esdt_balance t = debit (i_token_in x) 0 (i_amount_in x) (esdt_balance s) \<and>
     egld_balance t + i_solver_fee x = egld_balance s + egld_value c \<and>
     (\<exists>y. intent_by_id t i = Some y \<and> i_status y = ISettled \<and> i_settled_by y = Some (caller c)) \<and>
     (\<forall>c' u. solve_intent c' i t \<noteq> Inr u \<and> cancel_intent c' i t \<noteq> Inr u)"
  using assms
proof (cases rule: solve_intent_Inr)
  case (1 x p)
  have bal: "debit (i_token_out x) 0 (amount p) (esdt_balance (receive c s)) = esdt_balance s"
    using debit_credit_one [OF 1(6)] 1(5,7) by simp
  have y: "intent_by_id t i = Some (x\<lparr>i_status := ISettled, i_settled_by := Some (caller c)\<rparr>)"
    by (simp add: 1(11))
  then have "solve_intent c' i t \<noteq> Inr u" "cancel_intent c' i t \<noteq> Inr u" for c' u
    by (auto elim!: solve_intent_Inr cancel_intent_Inr)
  then show ?thesis
    using 1(1-5,7,8,10) y bal
    by (intro exI [of _ x] exI [of _ p]) (simp add: 1(11) del: receive_esdt_balance)
qed

definition demo_intent :: intent where
  "demo_intent = \<lparr>i_id = 1, i_owner = 9, i_token_in = ''USDC'', i_amount_in = 70,
     i_token_out = ''WEGLD'', i_min_return = 5, i_deadline = 2000, i_solver_fee = 3,
     i_status = IPending, i_settled_by = None\<rparr>"

definition demo_swap :: sched where
  "demo_swap = demo_state\<lparr>egld_balance := 3,
     esdt_balance := (\<lambda>t n. if t = ''USDC'' then 70 else 0),
     intent_nonce := 1, intent_by_id := [1 \<mapsto> demo_intent]\<rparr>"

definition demo_solver :: ctx where
  "demo_solver = (demo_ctx 50 0)\<lparr>esdt_transfers :=
     [\<lparr>token_identifier = ''WEGLD'', token_nonce = 0, amount = 6\<rparr>]\<rparr>"

lemma demo_solve: "\<exists>t. solve_intent demo_solver 1 demo_swap = Inr t"
  by (simp add: solve_intent_def demo_solver_def demo_swap_def demo_intent_def eval_defs demo_defs
      single_fungible_esdt_def direct_esdt_def direct_egld_def debit_apply)

theorem solve_intent_atomic_witness:
  "\<exists>t. solve_intent demo_solver 1 demo_swap = Inr t \<and>
     (\<exists>y. intent_by_id t 1 = Some y \<and> i_status y = ISettled)"
proof -
  obtain t where t: "solve_intent demo_solver 1 demo_swap = Inr t" using demo_solve by blast
  from solve_intent_atomic [OF t] show ?thesis using t by blast
qed

text \<open>
  Multi-intents. The solver attaches, in the order of the wanted outcomes, one payment per
  outcome with the right token and at least the wanted amount; all payments go to the owner,
  the deposit and the fee to the solver, and the wanted tokens were pairwise different when the
  intent was created.
\<close>

theorem solve_multi_intent_atomic:
  assumes "solve_multi_intent c i s = Inr t"
    and "list_all (\<lambda>p. token_nonce p = 0) (esdt_transfers c)"
  shows "\<exists>x. multi_intent_by_id s i = Some x \<and> mi_status x = IPending \<and>
     caller c \<in> set (whitelisted_keepers s) \<and> block_timestamp c \<le> mi_deadline x \<and>
     map token_identifier (esdt_transfers c) = map o_token_out (mi_outcomes x) \<and>
     list_all2 (\<lambda>out p. o_min_return out \<le> amount p) (mi_outcomes x) (esdt_transfers c) \<and>
     outbox t = outbox s @ Event ''multiIntentSettled'' [AU64 i, AAddr (caller c)] #
       map (\<lambda>p. SendEsdt (mi_owner x) (token_identifier p) 0 (amount p)) (esdt_transfers c) @
       SendEsdt (caller c) (mi_token_in x) 0 (mi_amount_in x) #
       send_pos (caller c) (mi_solver_fee x) \<and>
     esdt_balance t = debit (mi_token_in x) 0 (mi_amount_in x) (esdt_balance s) \<and>
     (\<forall>c' u. solve_multi_intent c' i t \<noteq> Inr u \<and> cancel_multi_intent c' i t \<noteq> Inr u)"
  using assms(1)
proof (cases rule: solve_multi_intent_Inr)
  case (1 x)
  have bal: "debit_all (esdt_transfers c) (esdt_balance (receive c s)) = esdt_balance s"
    using debit_credit_all [OF assms(2)] by simp
  have "multi_intent_by_id t i = Some (x\<lparr>mi_status := ISettled, mi_settled_by := Some (caller c)\<rparr>)"
    by (simp add: 1(8))
  then have "solve_multi_intent c' i t \<noteq> Inr u" "cancel_multi_intent c' i t \<noteq> Inr u" for c' u
    by (auto elim!: solve_multi_intent_Inr cancel_multi_intent_Inr)
  moreover have "map token_identifier ps = map o_token_out outs \<and>
      list_all2 (\<lambda>out p. o_min_return out \<le> amount p) outs ps"
    if "list_all2 (\<lambda>out p. token_identifier p = o_token_out out \<and> o_min_return out \<le> amount p) outs ps"
    for outs ps
    using that by (induction rule: list_all2_induct) auto
  ultimately show ?thesis
    using 1(1-5) bal by (intro exI [of _ x]) (simp add: 1(8) del: receive_esdt_balance)
qed

definition demo_multi :: sched where
  "demo_multi = demo_swap\<lparr>multi_intent_nonce := 1, multi_intent_by_id := [1 \<mapsto> \<lparr>mi_id = 1,
     mi_owner = 9, mi_token_in = ''USDC'', mi_amount_in = 70,
     mi_outcomes = [\<lparr>o_token_out = ''WEGLD'', o_min_return = 5\<rparr>], mi_deadline = 2000,
     mi_solver_fee = 3, mi_status = IPending, mi_settled_by = None\<rparr>]\<rparr>"

lemma demo_solve_multi: "\<exists>t. solve_multi_intent demo_solver 1 demo_multi = Inr t"
  by (simp add: solve_multi_intent_def demo_multi_def demo_solver_def demo_swap_def eval_defs
      demo_defs direct_esdt_def direct_egld_def debit_apply intent_event_defs)

theorem solve_multi_intent_atomic_witness:
  "\<exists>t. solve_multi_intent demo_solver 1 demo_multi = Inr t \<and>
     (\<exists>x. multi_intent_by_id demo_multi 1 = Some x \<and>
        map token_identifier (esdt_transfers demo_solver) = map o_token_out (mi_outcomes x))"
proof -
  obtain t where t: "solve_multi_intent demo_solver 1 demo_multi = Inr t"
    using demo_solve_multi by blast
  have "list_all (\<lambda>p. token_nonce p = 0) (esdt_transfers demo_solver)"
    by (simp add: demo_solver_def)
  from solve_multi_intent_atomic [OF t this] show ?thesis using t by blast
qed


lemma demo_scheduled_run:
  "run (sched_step demo_env) (demo_state\<lparr>whitelisted_keepers := [], keeper_list := []\<rparr>)
     (butlast demo_calls) demo_scheduled"
  by (rule exec_all_run) (simp add: demo_calls_def eval_defs demo_defs demo_scheduled_def)


text \<open>
  A framework that refuses to read the EGLD of a call that carries tokens, as its documentation
  says of \<open>egld()\<close>, refuses every creation of an intent: the endpoints read the EGLD and then ask
  for exactly one token.
\<close>

theorem strict_egld_blocks_intents:
  assumes "\<not> egld_beside_tokens c"
  shows "create_intent c tk mr dl sf s \<noteq> Inr u \<and> create_multi_intent c outs dl sf s \<noteq> Inr u \<and>
     create_pre_cognitive_intent c root dl kf s \<noteq> Inr u"
  using assms
  by (cases u) (auto elim!: create_intent_Inr create_multi_intent_Inr create_pre_cognitive_intent_Inr)

definition demo_deposit :: ctx where
  "demo_deposit = (demo_ctx 9 3)\<lparr>esdt_transfers :=
     [\<lparr>token_identifier = ''USDC'', token_nonce = 0, amount = 70\<rparr>]\<rparr>"

definition demo_pci :: pre_cognitive_intent where
  "demo_pci = \<lparr>p_id = 1, p_owner = 9, p_token_in = ''USDC'', p_amount_in = 70, p_merkle_root = 77,
     p_deadline = 2000, p_keeper_fee = 3, p_status = PPending, p_executed_by = None\<rparr>"

definition demo_waiting :: sched where
  "demo_waiting = demo_state\<lparr>whitelisted_keepers := [], keeper_list := [], egld_balance := 3,
     esdt_balance := (\<lambda>_ _. 0)(''USDC'' := (\<lambda>_. 0)(0 := 70)),
     pre_cognitive_intent_nonce := 1, pre_cognitive_intent_by_id := [1 \<mapsto> demo_pci]\<rparr>"

lemma demo_waiting_run:
  "run (sched_step demo_env) (demo_state\<lparr>whitelisted_keepers := [], keeper_list := []\<rparr>)
     [(demo_deposit, Intents (CreatePreCognitiveIntent 77 2000 3))] demo_waiting"
  by (rule exec_all_run)
    (simp add: create_pre_cognitive_intent_def call_egld_def demo_deposit_def demo_waiting_def demo_pci_def
      eval_defs demo_defs)

section \<open>Merkle proofs\<close>

text \<open>
  A verified proof for a text that, like the data of the leaves, does not start with the byte of
  the inner nodes leads to a leaf with exactly this text, or to a collision.
\<close>

lemma merkle_leaf_sound:
  assumes "merkle_chain sha (sha d) prf = mroot sha T"
    and "\<forall>x \<in> insert d (leaf_data T). take 1 x \<noteq> [char_of (1::nat)]"
  shows "MLeaf d \<in> subtrees_at (length prf) T \<or>
     (\<exists>u \<in> hashed_texts sha T. \<exists>v \<in> insert d (proof_texts sha (sha d) prf). u \<noteq> v \<and> sha u = sha v)"
proof -
  have texts: "hashed_texts sha S \<subseteq> hashed_texts sha T" if "S \<in> subtrees_at n T" for S n
    using that by (induction n T rule: subtrees_at.induct) auto
  from merkle_sound_aux [OF assms(1)] assms(2) consider
      S where "S \<in> subtrees_at (length prf) T" "mroot sha S = sha d"
    | "\<exists>u \<in> hashed_texts sha T. \<exists>v \<in> proof_texts sha (sha d) prf. u \<noteq> v \<and> sha u = sha v"
    by blast
  then show ?thesis
  proof cases
    case 1
    show ?thesis
    proof (cases S)
      case (MLeaf x)
      then show ?thesis using 1 texts [OF 1(1)] by auto
    next
      case (MNode l r)
      let ?u = "node_pre (mroot sha l) (mroot sha r)"
      have "sha ?u = sha d" using 1(2) by (simp add: MNode merkle_step_pre)
      moreover have "?u \<noteq> d" using assms(2) by (auto simp: node_pre_def)
      moreover have "?u \<in> hashed_texts sha T" using texts [OF 1(1)] by (auto simp: MNode)
      ultimately show ?thesis by blast
    qed
  qed blast
qed

text \<open>
  C12. What an executed leaf proves. Let the root of an intent be the root of a tree, and let
  neither the data of its leaves nor the encoded leaf that is executed start with the byte 0x01,
  which marks inner nodes. If a keeper executes the encoded leaf with some proof, then the tree
  has a leaf with exactly this text at the depth of the proof, or the texts hashed for the proof
  and for the tree contain an explicit collision of the hash function: an inner node cannot be
  passed off as a leaf.
\<close>

theorem executed_leaf_in_tree:
  assumes "execute_pre_cognitive_leaf e c i prf tg ep args tk mr s = Inr t"
    and "pre_cognitive_intent_by_id s i = Some x" and "p_merkle_root x = mroot (sha256 e) T"
    and "\<forall>d \<in> insert (encoded_leaf e tg ep args tk mr) (leaf_data T). take 1 d \<noteq> [char_of (1::nat)]"
  shows "MLeaf (encoded_leaf e tg ep args tk mr) \<in> subtrees_at (length prf) T \<or>
     (\<exists>u \<in> hashed_texts (sha256 e) T.
      \<exists>v \<in> insert (encoded_leaf e tg ep args tk mr)
            (proof_texts (sha256 e) (sha256 e (encoded_leaf e tg ep args tk mr)) prf).
        u \<noteq> v \<and> sha256 e u = sha256 e v)"
  using assms(1)
proof (cases rule: execute_pre_cognitive_leaf_Inr)
  case (1 y p)
  have "merkle_chain (sha256 e) (sha256 e (encoded_leaf e tg ep args tk mr)) prf = mroot (sha256 e) T"
    using 1(2,5) assms(2,3) by (simp add: verify_merkle_proof_def)
  then show ?thesis using assms(4) by (rule merkle_leaf_sound)
qed

text \<open>A tree with two leaves, and the proof with the hash of the other leaf as its only sibling.\<close>

definition demo_tree :: mtree where
  "demo_tree = MNode (MLeaf (encoded_leaf demo_env 300 ''buy'' [] ''WEGLD'' 5)) (MLeaf ''sell'')"

definition demo_leaf_state :: sched where
  "demo_leaf_state = demo_swap\<lparr>pre_cognitive_intent_by_id := [1 \<mapsto> demo_pci\<lparr>p_merkle_root :=
     mroot (sha256 demo_env) demo_tree\<rparr>]\<rparr>"

lemma demo_leaf:
  "\<exists>t. execute_pre_cognitive_leaf demo_env demo_solver 1 [sha256 demo_env ''sell''] 300 ''buy'' [] ''WEGLD'' 5
     demo_leaf_state = Inr t"
proof -
  have "verify_merkle_proof (sha256 demo_env) (sha256 demo_env (encoded_leaf demo_env 300 ''buy'' [] ''WEGLD'' 5))
      [sha256 demo_env ''sell''] (mroot (sha256 demo_env) demo_tree)"
    by (simp add: verify_merkle_proof_def demo_tree_def)
  then show ?thesis
    by (simp add: execute_pre_cognitive_leaf_def demo_leaf_state_def demo_swap_def demo_solver_def
      demo_pci_def eval_defs demo_ctx_def demo_state_def sched_empty_def single_fungible_esdt_def
      direct_esdt_def direct_egld_def debit_apply)
qed

theorem executed_leaf_in_tree_witness:
  "MLeaf (encoded_leaf demo_env 300 ''buy'' [] ''WEGLD'' 5) \<in> subtrees_at 1 demo_tree \<or>
   (\<exists>u \<in> hashed_texts (sha256 demo_env) demo_tree.
    \<exists>v \<in> insert (encoded_leaf demo_env 300 ''buy'' [] ''WEGLD'' 5)
          (proof_texts (sha256 demo_env) (sha256 demo_env (encoded_leaf demo_env 300 ''buy'' [] ''WEGLD'' 5))
            [sha256 demo_env ''sell'']).
      u \<noteq> v \<and> sha256 demo_env u = sha256 demo_env v)"
proof -
  obtain t where t: "execute_pre_cognitive_leaf demo_env demo_solver 1 [sha256 demo_env ''sell''] 300 ''buy'' []
      ''WEGLD'' 5 demo_leaf_state = Inr t" using demo_leaf by blast
  have "hd (be_bytes 32 300) \<noteq> char_of (1::nat)" by code_simp
  then have one: "take 1 (encoded_leaf demo_env 300 ''buy'' [] ''WEGLD'' 5) \<noteq> [char_of (1::nat)]"
    by (cases "be_bytes 32 300") (auto simp: encoded_leaf_def demo_env_def bytes32_def
        dest: arg_cong [of _ _ length])
  have "CHR ''s'' \<noteq> char_of (1::nat)" by code_simp
  with one have "\<forall>d \<in> insert (encoded_leaf demo_env 300 ''buy'' [] ''WEGLD'' 5) (leaf_data demo_tree).
      take 1 d \<noteq> [char_of (1::nat)]" by (simp add: demo_tree_def)
  then show ?thesis
    using executed_leaf_in_tree [OF t, of "demo_pci\<lparr>p_merkle_root := mroot (sha256 demo_env) demo_tree\<rparr>" demo_tree]
    by (simp add: demo_leaf_state_def)
qed

text \<open>
  Completeness. Every node of a tree has a proof of the length of its depth that the
  contract accepts against the root.
\<close>

theorem merkle_proof_complete:
  assumes "S \<in> subtrees_at n T"
  shows "\<exists>prf. length prf = n \<and> verify_merkle_proof sha (mroot sha S) prf (mroot sha T)"
  using merkle_complete_aux [OF assms] by (simp add: verify_merkle_proof_def)

theorem merkle_proof_complete_witness:
  "\<exists>prf. length prf = 1 \<and> verify_merkle_proof (sha256 demo_env) (mroot (sha256 demo_env) (MLeaf ''a''))
     prf (mroot (sha256 demo_env) (MNode (MLeaf ''a'') (MLeaf ''b'')))"
proof -
  have "MLeaf ''a'' \<in> subtrees_at 1 (MNode (MLeaf ''a'') (MLeaf ''b''))" by simp
  from merkle_proof_complete [OF this] show ?thesis .
qed

text \<open>
  C13. One verifier, two implementations. On every input and in every state the XSC contract's
  view ends: it refuses when the contract is paused, when the leaf is not 32 bytes long, when the
  packed proof is not a sequence of 32-byte siblings or when it has more than 32 of them, and
  otherwise it gives the answer of the Scheduler's loop over the list of these siblings against
  the published root; before a root is published the answer is no.
\<close>

theorem xsc_verifies_like_scheduler:
  "verify_proof sha leaf packed s =
     (if xsc_is_paused s then Inl (UserError ''Protocol Paused'')
      else if length leaf \<noteq> 32 then Inl (UserError ''Invalid Leaf Length'')
      else if length packed mod 32 \<noteq> 0 then Inl (UserError ''Invalid Packed Proof Length'')
      else if 1024 < length packed then Inl (UserError ''Proof depth exceeds maximum limit'')
      else Inr (length (xsc_merkle_root s) = 32 \<and>
        verify_merkle_proof sha (word_of leaf) (siblings (length packed div 32) packed) (word_of (xsc_merkle_root s))))"
proof (cases "\<not> xsc_is_paused s \<and> length leaf = 32 \<and> length packed mod 32 = 0 \<and> length packed \<le> 1024")
  case True
  let ?n = "length packed div 32"
  have n: "length packed = 32 * ?n" "?n \<le> 32" using True by auto
  show ?thesis
  proof (cases "length (xsc_merkle_root s) = 32")
    case len: True
    show ?thesis using xsc_verifies [OF _ _ n len] True len by (simp add: verify_merkle_proof_def)
  next
    case False
    have "packed_loop sha packed 0 leaf = Inr (bytes32 (merkle_chain sha (word_of leaf) (siblings ?n packed)))"
      using packed_loop_eq [of packed 0 ?n leaf] n True by simp
    moreover have "bytes32 h \<noteq> xsc_merkle_root s" for h using False length_bytes32 by metis
    ultimately show ?thesis using True False by (simp add: verify_proof_def xsc_require_not_paused_def)
  qed
next
  case False
  then show ?thesis by (auto simp: verify_proof_def xsc_require_not_paused_def require_def)
qed

text \<open>
  Leaf encodings agree when top-encoding appends. If encoding a value into a buffer
  appends it, as the keeper's engine assumes, the hash of a leaf computed by the engine is the
  one the contract computes.
\<close>

theorem pcit_leaf_agrees:
  assumes "\<And>old enc. encode_into e old enc = old @ enc"
  shows "to_hash (sha256 e) l = sha256 e (encoded_leaf e (l_target_contract l) (l_target_endpoint l)
     (l_target_args l) (l_expected_token_out l) (l_min_return l))"
  by (simp add: to_hash_def pcit_top_encode_def encoded_leaf_def Let_def assms append_args_eq)

theorem pcit_leaf_agrees_witness:
  "to_hash (sha256 demo_env) \<lparr>l_target_contract = 300, l_target_endpoint = ''buy'', l_target_args = [],
     l_expected_token_out = ''WEGLD'', l_min_return = 5\<rparr> =
   sha256 demo_env (encoded_leaf demo_env 300 ''buy'' [] ''WEGLD'' 5)"
  using pcit_leaf_agrees [of demo_env "\<lparr>l_target_contract = 300, l_target_endpoint = ''buy'',
     l_target_args = [], l_expected_token_out = ''WEGLD'', l_min_return = 5\<rparr>"]
  by (simp add: demo_env_def)

text \<open>
  The engine's root is not the contract's. The engine hashes a pair without the prefix
  byte that the contract puts in front, so for every proof with at least one sibling the
  contract accepts the root the engine computes only if the hash function maps two explicit
  texts, of 64 and of 65 bytes, to the same value.
\<close>

theorem pcit_root_needs_collision:
  assumes "verify_merkle_proof sha leaf prf (compute_chain_root sha leaf prf)" and "prf \<noteq> []"
  shows "\<exists>a b. chain_pre a (last prf) \<noteq> node_pre b (last prf) \<and>
     length (chain_pre a (last prf)) = 64 \<and> length (node_pre b (last prf)) = 65 \<and>
     sha (chain_pre a (last prf)) = sha (node_pre b (last prf))"
proof -
  obtain ys y where eq: "prf = ys @ [y]" using assms(2) by (cases "prf" rule: rev_cases) auto
  have "sha (node_pre (merkle_chain sha leaf ys) y) = sha (chain_pre (compute_chain_root sha leaf ys) y)"
    using assms(1) unfolding eq
    by (simp add: verify_merkle_proof_def merkle_chain_snoc merkle_step_pre compute_chain_root_snoc)
  then show ?thesis
    using chain_pre_neq_node_pre [of _ y _ y]
    by (intro exI [of _ "compute_chain_root sha leaf ys"] exI [of _ "merkle_chain sha leaf ys"])
      (simp add: eq chain_pre_def node_pre_def)
qed

theorem pcit_root_needs_collision_witness:
  "\<exists>a b. chain_pre a (5::hash32) \<noteq> node_pre b 5"
  using pcit_root_needs_collision [of "\<lambda>_. 0" 3 "[5]"]
  by (auto simp: verify_merkle_proof_def merkle_step_def Let_def)

text \<open>
  Overwriting encodings lose the leaf. If encoding a value into a buffer replaces its
  content, then the text of a leaf is the encoding of the minimal return alone: two leaves
  with different targets, endpoints, arguments and tokens have the same hash, and a proof for
  one is a proof for the other.
\<close>

theorem overwriting_leaf_is_min_return:
  assumes "\<And>old enc. encode_into e old enc = enc"
  shows "encoded_leaf e target endpoint args token_out min_return = to_bytes_be min_return"
  by (simp add: encoded_leaf_def Let_def assms)

theorem overwriting_leaf_is_min_return_witness:
  "encoded_leaf (demo_env\<lparr>encode_into := \<lambda>old enc. enc\<rparr>) 1 ''a'' [] ''T'' 7 =
   encoded_leaf (demo_env\<lparr>encode_into := \<lambda>old enc. enc\<rparr>) 2 ''b'' [''x''] ''U'' 7"
  using overwriting_leaf_is_min_return [of "demo_env\<lparr>encode_into := \<lambda>old enc. enc\<rparr>" 1 "''a''" "[]" "''T''" 7]
    overwriting_leaf_is_min_return [of "demo_env\<lparr>encode_into := \<lambda>old enc. enc\<rparr>" 2 "''b''" "[''x'']" "''U''" 7]
  by simp

section \<open>Token whitelist\<close>

lemma init_no_token: "scheduler_init r w m fee = Inr s \<Longrightarrow> accepted_payment_tokens s = (\<lambda>_. False)"
  by (auto simp: scheduler_init_def res_simps sched_empty_def)

lemma step_token_whitelist:
  assumes "pure_step e s l t"
  shows "accepted_payment_tokens t = accepted_payment_tokens s"
proof -
  obtain c k where l: "l = (c, k)" by (cases l)
  have x: "sched_exec e c k s = Inr t" "sync_pure e"
    using assms by (simp_all add: l pure_step_def sched_step_simps)
  show ?thesis
  proof (cases k)
    case (Config cc)
    then show ?thesis using x(1)
      by (cases cc) (auto simp: setter_defs sched_simps elim: flush_protocol_fees_Inr)
  next
    case (Admin ac)
    then show ?thesis using x(1)
      by (cases ac) (auto simp: setter_defs sched_simps res_simps pause_def unpause_def
          register_keeper_shard_def scheduler_upgrade_def Let_def)
  qed (use x in \<open>auto dest!: task_call_config clone_call_config intent_call_config simp: config_of_def\<close>)
qed

interpretation whitelist: invariant_system "pure_step e" "\<lambda>_. True"
  "\<lambda>s. accepted_payment_tokens s = (\<lambda>_. False)" for e
  by unfold_locales (simp add: step_token_whitelist)

text \<open>
  Intents cannot be created. No endpoint of the contract whitelists a payment token, so
  after every history of calls from deployment \<open>createIntent\<close> and \<open>createMultiIntent\<close> fail,
  whatever their arguments (contracts that are queried do not re-enter).
\<close>

theorem intents_never_created:
  assumes "scheduler_init r w m fee = Inr s" and "sync_pure e" and "run (sched_step e) s ls t"
  shows "create_intent c tk mr dl sf t \<noteq> Inr u \<and> create_multi_intent c outs dl sf t \<noteq> Inr u"
proof -
  have "pure_step e = sched_step e" using assms(2) by (simp add: pure_step_def fun_eq_iff)
  then have "run (pure_step e) s ls t" using assms(3) by simp
  then have "accepted_payment_tokens t = (\<lambda>_. False)"
    using whitelist.run_inv [of e s ls t] init_no_token [OF assms(1)] by (simp add: list_all_iff)
  then show ?thesis
    by (cases u) (auto elim!: create_intent_Inr create_multi_intent_Inr)
qed

theorem intents_never_created_witness:
  "create_intent demo_deposit ''WEGLD'' 5 2000 3 demo_waiting \<noteq> Inr (1, demo_waiting)"
  using intents_never_created [OF demo_init demo_sync_pure demo_waiting_run] by blast

end
