(* ===== verification/Keeper_Registry.thy ===== *)
theory Keeper_Registry
  imports Common_Types
begin

text \<open>
  The KeeperRegistry contract (contracts/keeper-registry/src): keepers stake EGLD, are slashed
  step by step for failed executions and expelled at the third failure in a row, and withdraw
  their stake after a cooldown. The staking provider is code outside the repository.
\<close>

section \<open>Storage (storage.rs)\<close>

record kreg = pausable +
  keepers :: "address \<rightharpoonup> keeper_info"
  active_keeper_set :: "address list"
  unstake_request_time :: "address \<Rightarrow> u64"
  min_stake :: nat
  slash_pct_bps :: u64
  cooldown_seconds :: u64
  treasury_addr :: "address option"
  authorized_callers :: "address list"
  kr_version :: u32
  staking_provider_addr :: "address option"
  total_yield_generated :: nat
  slashed_pending_unbond :: "address \<Rightarrow> nat"
  total_committed_cooldown_egld :: nat

text \<open>
  A synchronous call to the staking provider: endpoint, arguments and EGLD, on the state of the
  registry after the EGLD has left it. The provider may send EGLD back.
\<close>

type_synonym provider_call = "address \<Rightarrow> bytes \<Rightarrow> arg list \<Rightarrow> nat \<Rightarrow> kreg \<Rightarrow> kreg res"

section \<open>Deployment (lib.rs)\<close>

definition kreg_empty :: kreg where
  "kreg_empty = \<lparr>egld_balance = 0, esdt_balance = (\<lambda>_ _. 0), outbox = [], paused = False,
     keepers = Map.empty, active_keeper_set = [], unstake_request_time = (\<lambda>_. 0), min_stake = 0,
     slash_pct_bps = 0, cooldown_seconds = 0, treasury_addr = None, authorized_callers = [],
     kr_version = 0, staking_provider_addr = None, total_yield_generated = 0,
     slashed_pending_unbond = (\<lambda>_. 0), total_committed_cooldown_egld = 0\<rparr>"

definition kr_init :: "nat \<Rightarrow> u64 \<Rightarrow> u64 \<Rightarrow> address \<Rightarrow> kreg res" where
  "kr_init m pct cooldown treasury =
     require (pct \<le> 10000) ''Slash percentage cannot exceed 100%'' (
     require (treasury \<noteq> 0) ''Treasury address cannot be zero'' (
     Inr (kreg_empty\<lparr>min_stake := m, slash_pct_bps := pct, cooldown_seconds := cooldown,
       treasury_addr := Some treasury, paused := False, kr_version := 1\<rparr>)))"

definition kr_upgrade :: "kreg \<Rightarrow> kreg" where
  "kr_upgrade s = s\<lparr>kr_version := kr_version s + 1,
     cooldown_seconds := (if cooldown_seconds s = 0 then UNSTAKE_COOLDOWN_SECONDS
                          else cooldown_seconds s),
     total_committed_cooldown_egld := (if total_committed_cooldown_egld s = 0 then 0
                                       else total_committed_cooldown_egld s)\<rparr>"

section \<open>Events and validation\<close>

definition keeper_registered_event :: "address \<Rightarrow> kreg \<Rightarrow> kreg" where
  "keeper_registered_event a = emit ''keeperRegistered'' [AAddr a]"

definition keeper_unregistered_event :: "address \<Rightarrow> kreg \<Rightarrow> kreg" where
  "keeper_unregistered_event a = emit ''keeperUnregistered'' [AAddr a]"

definition keeper_slashed_event :: "address \<Rightarrow> nat \<Rightarrow> bytes \<Rightarrow> kreg \<Rightarrow> kreg" where
  "keeper_slashed_event a x reason = emit ''keeperSlashed'' [AAddr a, ANat x, ABytes reason]"

definition require_authorized_caller :: "ctx \<Rightarrow> kreg \<Rightarrow> 'a res \<Rightarrow> 'a res" where
  "require_authorized_caller c s k =
     require (caller c \<in> set (authorized_callers s) \<or> caller c = owner_address c) ''Not authorized'' k"

section \<open>Registration\<close>

definition register_keeper :: "ctx \<Rightarrow> kreg \<Rightarrow> kreg res" where
  "register_keeper c s0 = payable_egld c (let s = receive c s0 in
     require_not_paused s (
     let stake = egld_value c in
     require (keepers s (caller c) = None) ''Keeper already registered'' (
     require (min_stake s \<le> stake) ''Stake below minimum'' (
     let info = \<lparr>k_addr = caller c, k_stake = stake, k_registered_at = block_timestamp c,
                 k_total_executions = 0, k_successful_execs = 0, k_failed_execs = 0,
                 k_slashed_amount = 0, k_active = True, k_consecutive_failures = 0\<rparr>;
         s = s\<lparr>keepers := (keepers s)(caller c \<mapsto> info),
               active_keeper_set := us_insert (caller c) (active_keeper_set s)\<rparr>
     in Inr (keeper_registered_event (caller c) s)))))"

definition add_stake :: "ctx \<Rightarrow> kreg \<Rightarrow> kreg res" where
  "add_stake c s0 = payable_egld c (let s = receive c s0 in
     require_not_paused s (
     require (keepers s (caller c) \<noteq> None) ''Keeper not registered'' (
     bind_res (get_slot (keepers s (caller c))) (\<lambda>info.
     let s = s\<lparr>keepers := (keepers s)
                 (caller c \<mapsto> info\<lparr>k_stake := k_stake info + egld_value c\<rparr>)\<rparr>
     in Inr (keeper_registered_event (caller c) s)))))"

section \<open>Unstaking\<close>

definition request_unstake :: "ctx \<Rightarrow> kreg \<Rightarrow> kreg res" where
  "request_unstake c s = not_payable c (require_not_paused s (
     bind_res (get_slot (keepers s (caller c))) (\<lambda>info.
     require (k_active info) ''Keeper not active'' (
     Inr (s\<lparr>keepers := (keepers s)(caller c \<mapsto> info\<lparr>k_active := False\<rparr>),
            active_keeper_set := us_swap_remove (caller c) (active_keeper_set s),
            unstake_request_time := (unstake_request_time s)(caller c := block_timestamp c),
            total_committed_cooldown_egld := total_committed_cooldown_egld s + k_stake info\<rparr>)))))"

text \<open>The saturating update of the cooldown tracker, written three times in the source.\<close>

definition release_committed :: "nat \<Rightarrow> kreg \<Rightarrow> kreg" where
  "release_committed x s = s\<lparr>total_committed_cooldown_egld :=
     (if x \<le> total_committed_cooldown_egld s then total_committed_cooldown_egld s - x else 0)\<rparr>"

definition withdraw_stake :: "ctx \<Rightarrow> kreg \<Rightarrow> kreg res" where
  "withdraw_stake c s = not_payable c (
     bind_res (get_slot (keepers s (caller c))) (\<lambda>info.
     require (\<not> k_active info) ''Must request unstake first'' (
     let request_time = unstake_request_time s (caller c);
         current = block_timestamp c
     in require (request_time + cooldown_seconds s \<le> current) ''Cooldown not elapsed'' (
     let s = release_committed (k_stake info) s in
     bind_res (if current < k_registered_at info + MIN_KEEPER_DAYS_SECONDS then
         let penalty = bps_of (k_stake info) EARLY_EXIT_PENALTY_BPS in
         bind_res (big_sub (k_stake info) penalty) (\<lambda>rest.
         bind_res (get_slot (treasury_addr s)) (\<lambda>treasury.
         bind_res (direct_egld treasury penalty s) (\<lambda>s.
         Inr (rest, s))))
       else Inr (k_stake info, s)) (\<lambda>(amount_out, s).
     let s = s\<lparr>keepers := (keepers s)(caller c := None),
               unstake_request_time := (unstake_request_time s)(caller c := 0)\<rparr>
     in bind_res (direct_egld (caller c) amount_out s) (\<lambda>s.
     Inr (keeper_unregistered_event (caller c) s)))))))"

section \<open>Slashing and reputation\<close>

text \<open>
  The steps that \<open>slash_keeper\<close> and \<open>record_execution\<close> share: the amount, taken from the
  stake; the keeper leaves the active set under a condition; the cooldown tracker is reduced
  when the keeper is waiting to withdraw; the amount goes to the treasury at once or, when a
  provider holds the stake, to the debt that is swept later.
\<close>

definition slash_of :: "nat \<Rightarrow> u64 \<Rightarrow> nat" where
  "slash_of stake bps = (let calculated_slash = bps_of stake bps in
     if calculated_slash < stake then calculated_slash else stake)"

definition deduct :: "nat \<Rightarrow> keeper_info \<Rightarrow> keeper_info" where
  "deduct x info = info\<lparr>k_stake := k_stake info - x, k_slashed_amount := k_slashed_amount info + x\<rparr>"

definition deactivated :: "bool \<Rightarrow> keeper_info \<Rightarrow> keeper_info" where
  "deactivated b info = (if b then info\<lparr>k_active := False\<rparr> else info)"

definition leave_set :: "bool \<Rightarrow> address \<Rightarrow> kreg \<Rightarrow> kreg" where
  "leave_set b keeper s =
     (if b then s\<lparr>active_keeper_set := us_swap_remove keeper (active_keeper_set s)\<rparr> else s)"

definition release_if_cooling :: "address \<Rightarrow> keeper_info \<Rightarrow> nat \<Rightarrow> kreg \<Rightarrow> kreg" where
  "release_if_cooling keeper info x s =
     (if \<not> k_active info \<and> unstake_request_time s keeper \<noteq> 0 then release_committed x s else s)"

definition collect_slash :: "address \<Rightarrow> nat \<Rightarrow> address \<Rightarrow> address \<Rightarrow> kreg \<Rightarrow> kreg res" where
  "collect_slash keeper x treasury provider s =
     (if provider = 0 then direct_egld treasury x s
      else Inr (s\<lparr>slashed_pending_unbond := (slashed_pending_unbond s)
             (keeper := slashed_pending_unbond s keeper + x)\<rparr>))"

definition slash_keeper :: "ctx \<Rightarrow> address \<Rightarrow> bytes \<Rightarrow> kreg \<Rightarrow> kreg res" where
  "slash_keeper c keeper reason s = not_payable c (require_authorized_caller c s (
     bind_res (get_slot (keepers s keeper)) (\<lambda>info.
     let slash_amount = slash_of (k_stake info) (slash_pct_bps s);
         info = deduct slash_amount info;
         below = k_stake info < min_stake s;
         info = deactivated below info;
         s = leave_set below keeper s;
         s = release_if_cooling keeper info slash_amount s;
         s = s\<lparr>keepers := (keepers s)(keeper \<mapsto> info)\<rparr>
     in bind_res (get_slot (treasury_addr s)) (\<lambda>treasury.
     let provider = (case staking_provider_addr s of None \<Rightarrow> 0 | Some p \<Rightarrow> p) in
     bind_res (collect_slash keeper slash_amount treasury provider s) (\<lambda>s.
     Inr (keeper_slashed_event keeper slash_amount reason s))))))"

definition strike_bps :: "u64 \<Rightarrow> u64" where
  "strike_bps failures = (if failures = 1 then SLASH_STRIKE_1_BPS
     else if failures = 2 then SLASH_STRIKE_2_BPS else SLASH_STRIKE_3_BPS)"

definition strike_reason :: "u64 \<Rightarrow> bytes" where
  "strike_reason failures = (if failures = 1 then ''Strike 1 - 5% slash''
     else if failures = 2 then ''Strike 2 - 15% slash'' else ''Strike 3 - 20% slash + expulsion'')"

definition record_success :: "address \<Rightarrow> keeper_info \<Rightarrow> kreg \<Rightarrow> kreg res" where
  "record_success keeper info s =
     Inr (s\<lparr>keepers := (keepers s)(keeper \<mapsto> info\<lparr>k_successful_execs := k_successful_execs info + 1,
              k_consecutive_failures := 0\<rparr>)\<rparr>)"

definition record_failure :: "address \<Rightarrow> keeper_info \<Rightarrow> kreg \<Rightarrow> kreg res" where
  "record_failure keeper info s =
     (let failures = k_consecutive_failures info + 1;
          info = info\<lparr>k_failed_execs := k_failed_execs info + 1, k_consecutive_failures := failures\<rparr>;
          slash_amount = slash_of (k_stake info) (strike_bps failures);
          info = deduct slash_amount info
      in bind_res (get_slot (treasury_addr s)) (\<lambda>treasury.
      bind_res (get_slot (staking_provider_addr s)) (\<lambda>provider.
      bind_res (collect_slash keeper slash_amount treasury provider s) (\<lambda>s.
      let s = keeper_slashed_event keeper slash_amount (strike_reason failures) s;
          maintenance_threshold = min_stake s * 75 div 100;
          expelled = (MAX_STRIKES \<le> failures \<or> k_stake info < maintenance_threshold);
          info = deactivated expelled info;
          s = leave_set expelled keeper s;
          s = release_if_cooling keeper info slash_amount s
      in Inr (s\<lparr>keepers := (keepers s)(keeper \<mapsto> info)\<rparr>)))))"

definition record_execution :: "ctx \<Rightarrow> address \<Rightarrow> bool \<Rightarrow> kreg \<Rightarrow> kreg res" where
  "record_execution c keeper success s = not_payable c (require_authorized_caller c s (
     bind_res (get_slot (keepers s keeper)) (\<lambda>info.
     let info = info\<lparr>k_total_executions := k_total_executions info + 1\<rparr>
     in if success then record_success keeper info s else record_failure keeper info s)))"

section \<open>Delegation to the staking provider\<close>

definition require_provider :: "kreg \<Rightarrow> (address \<Rightarrow> 'a res) \<Rightarrow> 'a res" where
  "require_provider s k = bind_res (get_slot (staking_provider_addr s)) (\<lambda>provider.
     require (provider \<noteq> 0) ''Staking provider not set'' (k provider))"

definition call_provider ::
  "provider_call \<Rightarrow> address \<Rightarrow> bytes \<Rightarrow> arg list \<Rightarrow> nat \<Rightarrow> kreg \<Rightarrow> kreg res" where
  "call_provider pc a f args x s = vm_require (x \<le> egld_balance s) ''insufficient funds''
     (pc a f args x (s\<lparr>egld_balance := egld_balance s - x\<rparr>))"

definition delegate_stake :: "provider_call \<Rightarrow> ctx \<Rightarrow> nat \<Rightarrow> kreg \<Rightarrow> kreg res" where
  "delegate_stake pc c x s = not_payable c (only_owner c (
     require_provider s (\<lambda>provider.
     let balance = egld_balance s;
         committed_egld = total_committed_cooldown_egld s;
         delegable = (if committed_egld < balance then balance - committed_egld else 0)
     in require (x \<le> delegable)
          ''V3: Would leave insufficient liquidity for pending keeper withdrawals'' (
     call_provider pc provider ''delegate'' [] x s))))"

definition undelegate_stake :: "provider_call \<Rightarrow> ctx \<Rightarrow> nat \<Rightarrow> kreg \<Rightarrow> kreg res" where
  "undelegate_stake pc c x s = not_payable c (only_owner c (
     require_provider s (\<lambda>provider. call_provider pc provider ''unDelegate'' [ANat x] 0 s)))"

definition claim_provider_rewards :: "provider_call \<Rightarrow> ctx \<Rightarrow> kreg \<Rightarrow> kreg res" where
  "claim_provider_rewards pc c s = not_payable c (only_owner c (
     require_provider s (\<lambda>provider.
     let initial_balance = egld_balance s in
     bind_res (call_provider pc provider ''claimRewards'' [] 0 s) (\<lambda>s.
     let final_balance = egld_balance s in
     require (initial_balance \<le> final_balance)
       ''V4: Provider claim returned less than initial balance'' (
     if initial_balance < final_balance then
       let yield_generated = final_balance - initial_balance;
           s = s\<lparr>total_yield_generated := total_yield_generated s + yield_generated\<rparr>
       in bind_res (get_slot (treasury_addr s)) (\<lambda>treasury.
          if treasury \<noteq> 0 then direct_egld treasury yield_generated s else Inr s)
     else Inr s)))))"

definition withdraw_provider_stake :: "provider_call \<Rightarrow> ctx \<Rightarrow> kreg \<Rightarrow> kreg res" where
  "withdraw_provider_stake pc c s = not_payable c (only_owner c (
     require_provider s (\<lambda>provider. call_provider pc provider ''withdraw'' [] 0 s)))"

definition sweep_slashed_debt :: "ctx \<Rightarrow> address \<Rightarrow> kreg \<Rightarrow> kreg res" where
  "sweep_slashed_debt c keeper s = not_payable c (only_owner c (
     let debt = slashed_pending_unbond s keeper in
     require (0 < debt) ''No unbonded debt'' (
     bind_res (get_slot (treasury_addr s)) (\<lambda>treasury.
     bind_res (direct_egld treasury debt s) (\<lambda>s.
     Inr (s\<lparr>slashed_pending_unbond := (slashed_pending_unbond s)(keeper := 0)\<rparr>))))))"

section \<open>Configuration (config.rs) and views (views.rs)\<close>

definition kr_owner_set :: "ctx \<Rightarrow> (kreg \<Rightarrow> kreg) \<Rightarrow> kreg \<Rightarrow> kreg res" where
  "kr_owner_set c f s = not_payable c (only_owner c (Inr (f s)))"

definition set_min_stake :: "ctx \<Rightarrow> nat \<Rightarrow> kreg \<Rightarrow> kreg res" where
  "set_min_stake c v = kr_owner_set c (\<lambda>s. s\<lparr>min_stake := v\<rparr>)"

definition set_slash_pct_bps :: "ctx \<Rightarrow> u64 \<Rightarrow> kreg \<Rightarrow> kreg res" where
  "set_slash_pct_bps c v s = not_payable c (only_owner c (
     require (v \<le> BPS_DENOMINATOR) ''Slash exceeds 100%'' (Inr (s\<lparr>slash_pct_bps := v\<rparr>))))"

definition set_cooldown_seconds :: "ctx \<Rightarrow> u64 \<Rightarrow> kreg \<Rightarrow> kreg res" where
  "set_cooldown_seconds c v = kr_owner_set c (\<lambda>s. s\<lparr>cooldown_seconds := v\<rparr>)"

definition set_treasury_addr :: "ctx \<Rightarrow> address \<Rightarrow> kreg \<Rightarrow> kreg res" where
  "set_treasury_addr c a = kr_owner_set c (\<lambda>s. s\<lparr>treasury_addr := Some a\<rparr>)"

definition add_authorized_caller :: "ctx \<Rightarrow> address \<Rightarrow> kreg \<Rightarrow> kreg res" where
  "add_authorized_caller c a =
     kr_owner_set c (\<lambda>s. s\<lparr>authorized_callers := us_insert a (authorized_callers s)\<rparr>)"

definition remove_authorized_caller :: "ctx \<Rightarrow> address \<Rightarrow> kreg \<Rightarrow> kreg res" where
  "remove_authorized_caller c a =
     kr_owner_set c (\<lambda>s. s\<lparr>authorized_callers := us_swap_remove a (authorized_callers s)\<rparr>)"

definition set_staking_provider :: "ctx \<Rightarrow> address \<Rightarrow> kreg \<Rightarrow> kreg res" where
  "set_staking_provider c a = kr_owner_set c (\<lambda>s. s\<lparr>staking_provider_addr := Some a\<rparr>)"

definition is_active_keeper :: "address \<Rightarrow> kreg \<Rightarrow> bool" where
  "is_active_keeper a s = (case keepers s a of None \<Rightarrow> False | Some info \<Rightarrow> k_active info)"

definition get_keeper_info :: "address \<Rightarrow> kreg \<Rightarrow> keeper_info res" where
  "get_keeper_info a s = get_slot (keepers s a)"

definition get_active_keeper_count :: "kreg \<Rightarrow> nat" where
  "get_active_keeper_count s = length (active_keeper_set s)"

definition get_keeper_stake :: "address \<Rightarrow> kreg \<Rightarrow> nat" where
  "get_keeper_stake a s = (case keepers s a of None \<Rightarrow> 0 | Some info \<Rightarrow> k_stake info)"

definition get_min_stake :: "kreg \<Rightarrow> nat" where
  "get_min_stake s = min_stake s"

section \<open>Calls\<close>

datatype kreg_call =
    RegisterKeeper
  | AddStake
  | RequestUnstake
  | WithdrawStake
  | SlashKeeper address bytes
  | RecordExecution address bool
  | SweepSlashedDebt address
  | KrPause
  | KrUnpause
  | KrUpgrade
  | SetMinStake nat
  | SetSlashPctBps u64
  | SetCooldownSeconds u64
  | SetTreasuryAddr address
  | AddAuthorizedCaller address
  | RemoveAuthorizedCaller address
  | SetStakingProvider address

text \<open>
  Every call except the four that talk to the staking provider, whose effect on the balance is
  that of code outside the repository; \<open>Staked_Registry\<close> adds them.
\<close>

primrec kreg_exec :: "ctx \<Rightarrow> kreg_call \<Rightarrow> kreg \<Rightarrow> kreg res" where
  "kreg_exec c RegisterKeeper s = register_keeper c s"
| "kreg_exec c AddStake s = add_stake c s"
| "kreg_exec c RequestUnstake s = request_unstake c s"
| "kreg_exec c WithdrawStake s = withdraw_stake c s"
| "kreg_exec c (SlashKeeper a r) s = slash_keeper c a r s"
| "kreg_exec c (RecordExecution a b) s = record_execution c a b s"
| "kreg_exec c (SweepSlashedDebt a) s = sweep_slashed_debt c a s"
| "kreg_exec c KrPause s = pause c s"
| "kreg_exec c KrUnpause s = unpause c s"
| "kreg_exec c KrUpgrade s = only_owner c (Inr (kr_upgrade s))"
| "kreg_exec c (SetMinStake v) s = set_min_stake c v s"
| "kreg_exec c (SetSlashPctBps v) s = set_slash_pct_bps c v s"
| "kreg_exec c (SetCooldownSeconds v) s = set_cooldown_seconds c v s"
| "kreg_exec c (SetTreasuryAddr a) s = set_treasury_addr c a s"
| "kreg_exec c (AddAuthorizedCaller a) s = add_authorized_caller c a s"
| "kreg_exec c (RemoveAuthorizedCaller a) s = remove_authorized_caller c a s"
| "kreg_exec c (SetStakingProvider a) s = set_staking_provider c a s"

inductive kreg_step :: "kreg \<Rightarrow> ctx \<times> kreg_call \<Rightarrow> kreg \<Rightarrow> bool" where
  kreg_call: "kreg_exec c l s = Inr t \<Longrightarrow> kreg_step s (c, l) t"

inductive_simps kreg_step_simps: "kreg_step s (c, l) t"

section \<open>Inversion\<close>

lemmas kreg_event_defs = keeper_registered_event_def keeper_unregistered_event_def
  keeper_slashed_event_def emit_def

lemma require_authorized_caller_eq_Inr [res_simps]:
  "require_authorized_caller c s k = Inr x \<longleftrightarrow>
     (caller c \<in> set (authorized_callers s) \<or> caller c = owner_address c) \<and> k = Inr x"
  by (simp add: require_authorized_caller_def res_simps)

lemma slash_of_le: "slash_of x b \<le> x"
  by (simp add: slash_of_def Let_def)

lemma slash_of_bps: "unat b \<le> 10000 \<Longrightarrow> slash_of x b = bps_of x b"
  using bps.cut_le [of b x] by (auto simp: slash_of_def Let_def)

text \<open>
  Where a slashed amount goes: to the treasury at once, or to the debt that is swept after the
  provider has unbonded it.
\<close>

definition slash_paid :: "address \<Rightarrow> nat \<Rightarrow> kreg \<Rightarrow> kreg \<Rightarrow> bool" where
  "slash_paid k x s t \<longleftrightarrow>
     ((staking_provider_addr s = None \<or> staking_provider_addr s = Some 0) \<and>
        egld_balance s = egld_balance t + x \<and> slashed_pending_unbond t = slashed_pending_unbond s \<and>
        (\<exists>tr r. treasury_addr s = Some tr \<and>
           outbox t = outbox s @ [SendEgld tr x, Event ''keeperSlashed'' [AAddr k, ANat x, ABytes r]])) \<or>
     (\<exists>p r. staking_provider_addr s = Some p \<and> p \<noteq> 0 \<and> egld_balance t = egld_balance s \<and>
        slashed_pending_unbond t = (slashed_pending_unbond s)(k := slashed_pending_unbond s k + x) \<and>
        outbox t = outbox s @ [Event ''keeperSlashed'' [AAddr k, ANat x, ABytes r]])"

text \<open>What each of the shared steps leaves alone.\<close>

lemma leave_set_sel [simp]:
  "keepers (leave_set b k s) = keepers s" "min_stake (leave_set b k s) = min_stake s"
  "treasury_addr (leave_set b k s) = treasury_addr s"
  "unstake_request_time (leave_set b k s) = unstake_request_time s"
  "staking_provider_addr (leave_set b k s) = staking_provider_addr s"
  "egld_balance (leave_set b k s) = egld_balance s" "outbox (leave_set b k s) = outbox s"
  "slashed_pending_unbond (leave_set b k s) = slashed_pending_unbond s"
  "active_keeper_set (leave_set b k s) =
     (if b then us_swap_remove k (active_keeper_set s) else active_keeper_set s)"
  by (simp_all add: leave_set_def)

lemma release_sel [simp]:
  "keepers (release_if_cooling k i x s) = keepers s"
  "min_stake (release_if_cooling k i x s) = min_stake s"
  "treasury_addr (release_if_cooling k i x s) = treasury_addr s"
  "unstake_request_time (release_if_cooling k i x s) = unstake_request_time s"
  "staking_provider_addr (release_if_cooling k i x s) = staking_provider_addr s"
  "egld_balance (release_if_cooling k i x s) = egld_balance s"
  "outbox (release_if_cooling k i x s) = outbox s"
  "slashed_pending_unbond (release_if_cooling k i x s) = slashed_pending_unbond s"
  "active_keeper_set (release_if_cooling k i x s) = active_keeper_set s"
  by (simp_all add: release_if_cooling_def release_committed_def)

lemma collect_slash_sel:
  assumes "collect_slash k x tr p s = Inr u"
  shows "keepers u = keepers s" "active_keeper_set u = active_keeper_set s"
    "min_stake u = min_stake s" "treasury_addr u = treasury_addr s"
    "unstake_request_time u = unstake_request_time s"
  using assms by (auto simp: collect_slash_def res_simps split: if_splits)

lemma collect_slash_paid:
  assumes "collect_slash k x tr p s = Inr u" and "treasury_addr s = Some tr"
    and "p = (case staking_provider_addr s of None \<Rightarrow> 0 | Some p \<Rightarrow> p)"
    and "outbox t = outbox u @ [Event ''keeperSlashed'' [AAddr k, ANat x, ABytes r]]"
      "egld_balance t = egld_balance u" "slashed_pending_unbond t = slashed_pending_unbond u"
  shows "slash_paid k x s t"
  using assms
  by (auto simp: slash_paid_def collect_slash_def res_simps split: if_splits option.splits)

lemma slash_paid_cong:
  "slash_paid k x s t \<Longrightarrow> staking_provider_addr s' = staking_provider_addr s \<Longrightarrow>
     egld_balance s' = egld_balance s \<Longrightarrow> slashed_pending_unbond s' = slashed_pending_unbond s \<Longrightarrow>
     treasury_addr s' = treasury_addr s \<Longrightarrow> outbox s' = outbox s \<Longrightarrow> slash_paid k x s' t"
  by (simp add: slash_paid_def)

lemma deactivated_deduct:
  "deactivated b (deduct x info) = info\<lparr>k_stake := k_stake info - x,
     k_slashed_amount := k_slashed_amount info + x, k_active := k_active info \<and> \<not> b\<rparr>"
  by (simp add: deactivated_def deduct_def)

lemma slash_keeper_Inr:
  assumes "slash_keeper c k reason s = Inr t"
  obtains info x where "keepers s k = Some info" "x = slash_of (k_stake info) (slash_pct_bps s)"
    "keepers t = (keepers s)(k \<mapsto> info\<lparr>k_stake := k_stake info - x,
       k_slashed_amount := k_slashed_amount info + x,
       k_active := k_active info \<and> \<not> k_stake info - x < min_stake s\<rparr>)"
    "active_keeper_set t = (if k_stake info - x < min_stake s
       then us_swap_remove k (active_keeper_set s) else active_keeper_set s)"
    "treasury_addr t = treasury_addr s" "unstake_request_time t = unstake_request_time s"
    "slash_paid k x s t"
proof -
  from assms obtain info where info: "keepers s k = Some info"
    by (auto simp: slash_keeper_def res_simps)
  define x where "x = slash_of (k_stake info) (slash_pct_bps s)"
  have st: "k_stake (deduct x info) = k_stake info - x" by (simp add: deduct_def)
  define below where "below \<longleftrightarrow> k_stake info - x < min_stake s"
  define i' where "i' = deactivated below (deduct x info)"
  define s1 where "s1 = (release_if_cooling k i' x (leave_set below k s))\<lparr>keepers := (keepers s)(k \<mapsto> i')\<rparr>"
  have sel: "treasury_addr s1 = treasury_addr s" "staking_provider_addr s1 = staking_provider_addr s"
    by (simp_all add: s1_def)
  obtain tr u where tr: "treasury_addr s = Some tr"
    and pay: "collect_slash k x tr (case staking_provider_addr s of None \<Rightarrow> 0 | Some p \<Rightarrow> p) s1 = Inr u"
    and t: "t = keeper_slashed_event k x reason u"
    using assms
    by (auto simp: slash_keeper_def info res_simps Let_def x_def [symmetric] st
        below_def [symmetric] i'_def [symmetric] s1_def [symmetric])
  note fr = collect_slash_sel [OF pay]
  have paid: "slash_paid k x s1 t"
    by (rule collect_slash_paid [OF pay]) (simp_all add: t kreg_event_defs sel tr)
  show thesis
    by (rule that [OF info x_def])
      (use fr slash_paid_cong [OF paid, of s] in \<open>simp_all add: t kreg_event_defs s1_def i'_def
        deactivated_deduct below_def\<close>)
qed

lemma record_success_Inr:
  assumes "record_execution c k True s = Inr t"
  obtains info where "keepers s k = Some info"
    "t = s\<lparr>keepers := (keepers s)(k \<mapsto> info\<lparr>k_total_executions := k_total_executions info + 1,
       k_successful_execs := k_successful_execs info + 1, k_consecutive_failures := 0\<rparr>)\<rparr>"
  using assms by (auto simp: record_execution_def record_success_def res_simps Let_def)

lemma record_failure_Inr:
  assumes "record_execution c k False s = Inr t"
  obtains info n x where "keepers s k = Some info" "n = k_consecutive_failures info + 1"
    "x = slash_of (k_stake info) (strike_bps n)" "staking_provider_addr s \<noteq> None"
    "keepers t = (keepers s)(k \<mapsto> info\<lparr>k_total_executions := k_total_executions info + 1,
       k_failed_execs := k_failed_execs info + 1, k_consecutive_failures := n,
       k_stake := k_stake info - x, k_slashed_amount := k_slashed_amount info + x,
       k_active := k_active info \<and> \<not> (3 \<le> n \<or> k_stake info - x < min_stake s * 75 div 100)\<rparr>)"
    "active_keeper_set t = (if 3 \<le> n \<or> k_stake info - x < min_stake s * 75 div 100
       then us_swap_remove k (active_keeper_set s) else active_keeper_set s)"
    "treasury_addr t = treasury_addr s" "unstake_request_time t = unstake_request_time s"
    "slash_paid k x s t"
proof -
  from assms obtain info where info: "keepers s k = Some info"
    by (auto simp: record_execution_def res_simps)
  define n where "n = k_consecutive_failures info + 1"
  define x where "x = slash_of (k_stake info) (strike_bps n)"
  define i1 where "i1 = info\<lparr>k_total_executions := k_total_executions info + 1,
    k_failed_execs := k_failed_execs info + 1, k_consecutive_failures := n\<rparr>"
  have st: "k_stake (deduct x i1) = k_stake info - x" by (simp add: deduct_def i1_def)
  define out where "out \<longleftrightarrow> 3 \<le> n \<or> k_stake info - x < min_stake s * 75 div 100"
  define i' where "i' = deactivated out (deduct x i1)"
  obtain tr p u where tr: "treasury_addr s = Some tr" "staking_provider_addr s = Some p"
    and pay: "collect_slash k x tr p s = Inr u"
    and t: "t = (release_if_cooling k i' x (leave_set out k
       (keeper_slashed_event k x (strike_reason n) u)))\<lparr>keepers := (keepers u)(k \<mapsto> i')\<rparr>"
    using assms
    by (auto simp: record_execution_def record_failure_def info res_simps Let_def n_def [symmetric]
        x_def [symmetric] i1_def [symmetric] st MAX_STRIKES_def collect_slash_sel(3) out_def
        i'_def kreg_event_defs)
  note fr = collect_slash_sel [OF pay]
  have paid: "slash_paid k x s t"
    by (rule collect_slash_paid [OF pay tr(1)]) (simp_all add: t kreg_event_defs tr)
  show thesis
    by (rule that [OF info n_def x_def])
      (use fr paid tr in \<open>simp_all add: t kreg_event_defs i'_def deactivated_deduct out_def i1_def\<close>)
qed

end
