(* ===== verification/Keeper_Registry_Properties.thy ===== *)
theory Keeper_Registry_Properties
  imports Keeper_Registry
begin

text \<open>
  The invariant of the KeeperRegistry over every history of calls, and what slashing and
  withdrawing do.
\<close>

section \<open>Withdrawal\<close>

definition exit_penalty :: "ctx \<Rightarrow> keeper_info \<Rightarrow> nat" where
  "exit_penalty c info = (if block_timestamp c < k_registered_at info + MIN_KEEPER_DAYS_SECONDS
     then bps_of (k_stake info) EARLY_EXIT_PENALTY_BPS else 0)"

lemma exit_penalty_le: "exit_penalty c info \<le> k_stake info"
  by (simp add: exit_penalty_def bps.cut_le EARLY_EXIT_PENALTY_BPS_def)

lemma withdraw_stake_Inr:
  assumes "withdraw_stake c s = Inr t"
  obtains info where "egld_value c = 0" "esdt_transfers c = []" "keepers s (caller c) = Some info"
    "\<not> k_active info" "unstake_request_time s (caller c) + cooldown_seconds s \<le> block_timestamp c"
    "k_stake info \<le> egld_balance s" "egld_balance t = egld_balance s - k_stake info"
    "keepers t = (keepers s)(caller c := None)" "active_keeper_set t = active_keeper_set s"
    "slashed_pending_unbond t = slashed_pending_unbond s" "treasury_addr t = treasury_addr s"
    "unstake_request_time t = (unstake_request_time s)(caller c := 0)"
    "egld_sent_to (caller c) (outbox t) + (if treasury_addr s = Some (caller c) then 0 else exit_penalty c info)
       = egld_sent_to (caller c) (outbox s) + k_stake info"
    "total_committed_cooldown_egld t = total_committed_cooldown_egld s - k_stake info"
proof -
  from assms obtain info where i: "keepers s (caller c) = Some info" "egld_value c = 0"
    "esdt_transfers c = []" "\<not> k_active info"
    "unstake_request_time s (caller c) + cooldown_seconds s \<le> block_timestamp c"
    by (auto simp: withdraw_stake_def res_simps Let_def)
  show thesis
  proof (cases "block_timestamp c < k_registered_at info + MIN_KEEPER_DAYS_SECONDS")
    case True
    have pen: "exit_penalty c info = bps_of (k_stake info) EARLY_EXIT_PENALTY_BPS"
      using True by (simp add: exit_penalty_def)
    note le = exit_penalty_le [of c info, unfolded pen]
    show thesis
      by (rule that [OF i(2,3,1,4,5)])
        (use assms True le in \<open>auto simp: withdraw_stake_def i res_simps Let_def
          release_committed_def kreg_event_defs pen\<close>)
  next
    case False
    then have pen: "exit_penalty c info = 0" by (simp add: exit_penalty_def)
    show thesis
      by (rule that [OF i(2,3,1,4,5)])
        (use assms False in \<open>auto simp: withdraw_stake_def i res_simps Let_def
          release_committed_def kreg_event_defs pen\<close>)
  qed
qed

section \<open>Invariant\<close>

text \<open>
  The active set is the set of active keepers; every keeper's counters add up, and an active
  keeper has fewer than three failures in a row; the registry holds all stakes and all slashed
  amounts that still await a sweep; a treasury is set.
\<close>

definition keeper_ok :: "address \<Rightarrow> keeper_info \<Rightarrow> bool" where
  "keeper_ok a i \<longleftrightarrow> k_addr i = a \<and>
     k_total_executions i = k_successful_execs i + k_failed_execs i \<and>
     (k_active i \<longrightarrow> unat (k_consecutive_failures i) < 3)"

definition kr_inv :: "kreg \<Rightarrow> bool" where
  "kr_inv s \<longleftrightarrow> finite (dom (keepers s)) \<and> fin_supp (slashed_pending_unbond s) \<and>
     (\<forall>a i. keepers s a = Some i \<longrightarrow> keeper_ok a i) \<and> distinct (active_keeper_set s) \<and>
     set (active_keeper_set s) = {a. \<exists>i. keepers s a = Some i \<and> k_active i} \<and>
     msum k_stake (keepers s) + fsum (slashed_pending_unbond s) \<le> egld_balance s \<and>
     treasury_addr s \<noteq> None"

lemma kr_invD:
  assumes "kr_inv s"
  shows "finite (dom (keepers s))" "fin_supp (slashed_pending_unbond s)"
    "keepers s a = Some i \<Longrightarrow> keeper_ok a i" "distinct (active_keeper_set s)"
    "set (active_keeper_set s) = {a. \<exists>i. keepers s a = Some i \<and> k_active i}"
    "msum k_stake (keepers s) + fsum (slashed_pending_unbond s) \<le> egld_balance s"
    "treasury_addr s \<noteq> None"
  using assms unfolding kr_inv_def by blast+

text \<open>An update of one keeper, with what has to be shown for it.\<close>

lemma kr_inv_update:
  assumes "kr_inv s" and "keepers s k = Some i" and "keepers t = (keepers s)(k \<mapsto> i')"
    and "keeper_ok k i'" and "k_active i' \<longrightarrow> k_active i"
    and "active_keeper_set t = (if b then us_swap_remove k (active_keeper_set s) else active_keeper_set s)"
    and "k_active i' \<longleftrightarrow> k_active i \<and> \<not> b" and "treasury_addr t = treasury_addr s"
    and "fin_supp (slashed_pending_unbond t)"
    and "k_stake i' + fsum (slashed_pending_unbond t) + egld_balance s \<le>
         k_stake i + fsum (slashed_pending_unbond s) + egld_balance t"
  shows "kr_inv t"
proof -
  note d = kr_invD [OF assms(1)]
  have set: "set (active_keeper_set t) = {a. \<exists>i. keepers t a = Some i \<and> k_active i}"
    using d(5) assms(2,7) us.elems_del [OF d(4), of k] unfolding assms(3,6) by auto
  have dist: "distinct (active_keeper_set t)"
    using d(4) us.invar_del [OF d(4), of k] unfolding assms(6) by simp
  have "msum k_stake (keepers t) + k_stake i = k_stake i' + msum k_stake (keepers s)"
    unfolding assms(3) using d(1) assms(2) by (rule msum_update)
  then have "msum k_stake (keepers t) + fsum (slashed_pending_unbond t) \<le> egld_balance t"
    using d(6) assms(10) by linarith
  then show ?thesis
    using d set dist assms(4,8,9) unfolding kr_inv_def assms(3) by auto
qed

lemma slash_paid_books:
  assumes "slash_paid k x s t" and "fin_supp (slashed_pending_unbond s)"
  shows "fin_supp (slashed_pending_unbond t)"
    and "fsum (slashed_pending_unbond t) + egld_balance s =
         x + fsum (slashed_pending_unbond s) + egld_balance t"
  using assms fsum_update [OF assms(2), of k "slashed_pending_unbond s k + x"]
  by (auto simp: slash_paid_def)

lemma slash_keeper_inv:
  assumes "slash_keeper c k r s = Inr t" and "kr_inv s"
  shows "kr_inv t"
  using assms(1)
proof (cases rule: slash_keeper_Inr)
  case (1 i x)
  note b = slash_paid_books [OF 1(7) kr_invD(2) [OF assms(2)]]
  have le: "x \<le> k_stake i" using 1(2) by (simp add: slash_of_le)
  show ?thesis
    by (rule kr_inv_update [OF assms(2) 1(1,3) _ _ 1(4) _ 1(5) b(1)])
      (use kr_invD(3) [OF assms(2) 1(1)] b(2) le in \<open>auto simp: keeper_ok_def\<close>)
qed

lemma record_execution_inv:
  assumes "record_execution c k b s = Inr t" and "kr_inv s"
  shows "kr_inv t"
proof (cases b)
  case True
  with assms(1) have "record_execution c k True s = Inr t" by simp
  then show ?thesis
  proof (cases rule: record_success_Inr)
    case (1 i)
    show ?thesis
      by (rule kr_inv_update [OF assms(2) 1(1), where b = False and i' = "i\<lparr>k_total_executions :=
            k_total_executions i + 1, k_successful_execs := k_successful_execs i + 1,
            k_consecutive_failures := 0\<rparr>"])
        (use kr_invD(2,3) [OF assms(2)] 1(1) in \<open>auto simp: 1(2) keeper_ok_def\<close>)
  qed
next
  case False
  with assms(1) have "record_execution c k False s = Inr t" by simp
  then show ?thesis
  proof (cases rule: record_failure_Inr)
    case (1 i n x)
    note bk = slash_paid_books [OF 1(9) kr_invD(2) [OF assms(2)]]
    have le: "x \<le> k_stake i" using 1(3) by (simp add: slash_of_le)
    have n: "unat n < 3" if "n < 3" using that by (simp add: word_less_nat_alt)
    show ?thesis
      by (rule kr_inv_update [OF assms(2) 1(1,5) _ _ 1(6) _ 1(7) bk(1)])
        (use kr_invD(3) [OF assms(2) 1(1)] bk(2) le n in \<open>auto simp: keeper_ok_def not_le\<close>)
  qed
qed

lemma register_keeper_inv:
  assumes "register_keeper c s = Inr t" and "kr_inv s"
  shows "kr_inv t"
proof -
  note d = kr_invD [OF assms(2)]
  let ?i = "\<lparr>k_addr = caller c, k_stake = egld_value c, k_registered_at = block_timestamp c,
     k_total_executions = 0, k_successful_execs = 0, k_failed_execs = 0,
     k_slashed_amount = 0, k_active = True, k_consecutive_failures = 0\<rparr>"
  from assms(1) have new: "keepers s (caller c) = None"
    and t: "keepers t = (keepers s)(caller c \<mapsto> ?i)"
      "active_keeper_set t = us_insert (caller c) (active_keeper_set s)"
      "egld_balance t = egld_balance s + egld_value c" "treasury_addr t = treasury_addr s"
      "slashed_pending_unbond t = slashed_pending_unbond s"
    by (auto simp: register_keeper_def res_simps Let_def kreg_event_defs receive_def)
  have "keeper_ok (caller c) ?i" by (simp add: keeper_ok_def)
  moreover have "msum k_stake (keepers t) = egld_value c + msum k_stake (keepers s)"
    unfolding t(1) using d(1) new by (simp add: msum_insert_fresh)
  ultimately show ?thesis
    using d new us.elems_ins [OF d(4)] us.invar_ins [OF d(4)]
    unfolding kr_inv_def t(1,2,4,5) by (auto simp: t(3))
qed

lemma request_unstake_inv:
  assumes "request_unstake c s = Inr t" and "kr_inv s"
  shows "kr_inv t"
proof -
  from assms(1) obtain i where i: "keepers s (caller c) = Some i" "k_active i"
    and t: "t = s\<lparr>keepers := (keepers s)(caller c \<mapsto> i\<lparr>k_active := False\<rparr>),
            active_keeper_set := us_swap_remove (caller c) (active_keeper_set s),
            unstake_request_time := (unstake_request_time s)(caller c := block_timestamp c),
            total_committed_cooldown_egld := total_committed_cooldown_egld s + k_stake i\<rparr>"
    by (auto simp: request_unstake_def res_simps)
  show ?thesis
    by (rule kr_inv_update [OF assms(2) i(1), where b = True])
      (use kr_invD(2,3) [OF assms(2)] i in \<open>auto simp: t keeper_ok_def\<close>)
qed

lemma add_stake_inv:
  assumes "add_stake c s = Inr t" and "kr_inv s"
  shows "kr_inv t"
proof -
  from assms(1) obtain i where i: "keepers s (caller c) = Some i"
    and t: "t = keeper_registered_event (caller c) ((receive c s)\<lparr>keepers := (keepers s)
            (caller c \<mapsto> i\<lparr>k_stake := k_stake i + egld_value c\<rparr>)\<rparr>)"
    by (auto simp: add_stake_def res_simps Let_def receive_def)
  show ?thesis
    by (rule kr_inv_update [OF assms(2) i, where b = False and
          i' = "i\<lparr>k_stake := k_stake i + egld_value c\<rparr>"])
      (use kr_invD(2,3) [OF assms(2)] i in \<open>auto simp: t keeper_ok_def kreg_event_defs receive_def\<close>)
qed

lemma withdraw_stake_inv:
  assumes "withdraw_stake c s = Inr t" and "kr_inv s"
  shows "kr_inv t"
  using assms(1)
proof (cases rule: withdraw_stake_Inr)
  case (1 i)
  note d = kr_invD [OF assms(2)]
  have "msum k_stake (keepers s) = k_stake i + msum k_stake (keepers t)"
    unfolding 1(8) using d(1) 1(3) by (rule msum_remove)
  then have "msum k_stake (keepers t) + fsum (slashed_pending_unbond t) \<le> egld_balance t"
    using d(6) 1(6,7,10) by simp
  then show ?thesis
    using d 1(3,4) unfolding kr_inv_def 1(8,9,10,11) by (auto split: if_splits)
qed

lemma sweep_slashed_debt_inv:
  assumes "sweep_slashed_debt c k s = Inr t" and "kr_inv s"
  shows "kr_inv t"
proof -
  note d = kr_invD [OF assms(2)]
  from assms(1) obtain tr where le: "slashed_pending_unbond s k \<le> egld_balance s"
    and t: "t = s\<lparr>egld_balance := egld_balance s - slashed_pending_unbond s k,
        outbox := outbox s @ [SendEgld tr (slashed_pending_unbond s k)],
        slashed_pending_unbond := (slashed_pending_unbond s)(k := 0)\<rparr>"
    by (auto simp: sweep_slashed_debt_def res_simps Let_def)
  have "msum k_stake (keepers t) + fsum (slashed_pending_unbond t) \<le> egld_balance t"
    using d(6) fsum_remove [OF d(2), of k] by (simp add: t)
  then show ?thesis using d by (auto simp: kr_inv_def t)
qed

lemma kr_inv_frame:
  "keepers t = keepers s \<Longrightarrow> active_keeper_set t = active_keeper_set s \<Longrightarrow>
     slashed_pending_unbond t = slashed_pending_unbond s \<Longrightarrow> egld_balance t = egld_balance s \<Longrightarrow>
     treasury_addr t = treasury_addr s \<or> treasury_addr t \<noteq> None \<Longrightarrow> kr_inv s \<Longrightarrow> kr_inv t"
  by (auto simp: kr_inv_def)

lemmas kr_setter_defs = set_min_stake_def set_slash_pct_bps_def set_cooldown_seconds_def
  set_treasury_addr_def add_authorized_caller_def remove_authorized_caller_def
  set_staking_provider_def kr_owner_set_def

lemma kreg_step_inv:
  assumes "kreg_step s l t" and "kr_inv s"
  shows "kr_inv t"
proof -
  obtain c k where l: "l = (c, k)" by (cases l)
  then have x: "kreg_exec c k s = Inr t" using assms(1) by (simp add: kreg_step_simps)
  show ?thesis
    by (cases k; (insert x assms(2), auto dest: register_keeper_inv add_stake_inv
        request_unstake_inv withdraw_stake_inv slash_keeper_inv record_execution_inv
        sweep_slashed_debt_inv; fail)?; rule kr_inv_frame [OF _ _ _ _ _ assms(2)];
        insert x; auto simp: kr_setter_defs res_simps pause_def unpause_def kr_upgrade_def)
qed

interpretation registry: invariant_system kreg_step "\<lambda>_. True" kr_inv
  by unfold_locales (rule kreg_step_inv)

lemma kr_init_inv: "kr_init m pct cd tr = Inr s \<Longrightarrow> kr_inv s"
  by (auto simp: kr_init_def res_simps kreg_empty_def kr_inv_def msum_empty)

section \<open>A small registry\<close>

definition kctx :: "address \<Rightarrow> nat \<Rightarrow> u64 \<Rightarrow> ctx" where
  "kctx a x now = \<lparr>caller = a, owner_address = 100, sc_address = 1, egld_value = x,
     esdt_transfers = [], block_timestamp = now, block_round = 0, block_nonce = 0,
     gas_left = 0, random_seed = [], egld_beside_tokens = True\<rparr>"

definition demo_keeper :: "address \<Rightarrow> keeper_info" where
  "demo_keeper a = \<lparr>k_addr = a, k_stake = 1000, k_registered_at = 50000, k_total_executions = 0,
     k_successful_execs = 0, k_failed_execs = 0, k_slashed_amount = 0, k_active = True,
     k_consecutive_failures = 0\<rparr>"

definition demo_registry :: kreg where
  "demo_registry = kreg_empty\<lparr>min_stake := 1000, slash_pct_bps := 500, cooldown_seconds := 43200,
     treasury_addr := Some 77, kr_version := 1\<rparr>"

definition demo_staked :: kreg where
  "demo_staked = demo_registry\<lparr>egld_balance := 1000, keepers := [9 \<mapsto> demo_keeper 9],
     active_keeper_set := [9], outbox := [Event ''keeperRegistered'' [AAddr 9]]\<rparr>"

lemmas kdemo_defs = demo_registry_def demo_staked_def kreg_empty_def demo_keeper_def kctx_def

lemmas keval_defs = payable_egld_def not_payable_def only_owner_def require_not_paused_def
  receive_def Let_def register_keeper_def us_insert_def kreg_event_defs

lemma demo_kr_init: "kr_init 1000 500 43200 77 = Inr demo_registry"
  by (simp add: kr_init_def demo_registry_def kreg_empty_def)

lemma demo_registered: "register_keeper (kctx 9 1000 50000) demo_registry = Inr demo_staked"
  by (simp add: keval_defs kdemo_defs)

lemma demo_kr_run: "run kreg_step demo_registry [(kctx 9 1000 50000, RegisterKeeper)] demo_staked"
  by (auto intro!: run.intros kreg_step.intros simp: demo_registered)

section \<open>Properties\<close>

text \<open>
  The books of the registry on its own. After every history of calls (calls to the staking provider
  apart), the registry holds all stakes and all slashed amounts that await a sweep, the active
  set lists exactly the active keepers, the executions of every keeper are its successes plus
  its failures, and an active keeper has fewer than three failures in a row.
\<close>

theorem registry_books:
  assumes "kr_init m pct cd tr = Inr s" and "run kreg_step s ls t"
  shows "msum k_stake (keepers t) + fsum (slashed_pending_unbond t) \<le> egld_balance t \<and>
     distinct (active_keeper_set t) \<and>
     set (active_keeper_set t) = {a. \<exists>i. keepers t a = Some i \<and> k_active i} \<and>
     (\<forall>a i. keepers t a = Some i \<longrightarrow> k_addr i = a \<and>
        k_total_executions i = k_successful_execs i + k_failed_execs i \<and>
        (k_active i \<longrightarrow> unat (k_consecutive_failures i) < 3))"
proof -
  have "kr_inv t"
    using registry.run_inv [OF assms(2)] kr_init_inv [OF assms(1)] by (simp add: list_all_iff)
  then show ?thesis by (simp add: kr_inv_def keeper_ok_def)
qed

theorem registry_books_witness:
  "msum k_stake (keepers demo_staked) + fsum (slashed_pending_unbond demo_staked) \<le> 1000 \<and>
   set (active_keeper_set demo_staked) = {9}"
  using registry_books [OF demo_kr_init demo_kr_run] by (simp add: demo_staked_def)

text \<open>
  Progressive slashing. A failed execution takes 5 percent of the stake at the first
  failure in a row, 15 percent at the second and 20 percent from the third on; the amount moves
  from the stake to the slashed total and to the treasury (or, with a staking provider, to the
  debt); at the third failure in a row, or when the stake falls below 75 percent of the
  minimum, the keeper leaves the active set. Nothing else of the keepers changes.
\<close>

theorem progressive_slashing:
  assumes "record_execution c k False s = Inr t" and "kr_inv s"
  shows "\<exists>i i' x. keepers s k = Some i \<and> keepers t = (keepers s)(k \<mapsto> i') \<and>
     x = bps_of (k_stake i) (if k_consecutive_failures i = 0 then 500
                            else if k_consecutive_failures i = 1 then 1500 else 2000) \<and>
     k_stake i' + x = k_stake i \<and> k_slashed_amount i' = k_slashed_amount i + x \<and>
     k_failed_execs i' = k_failed_execs i + 1 \<and>
     k_consecutive_failures i' = k_consecutive_failures i + 1 \<and>
     slash_paid k x s t \<and>
     (k_active i' \<longleftrightarrow> k_active i \<and> k_consecutive_failures i + 1 < 3 \<and>
        min_stake s * 75 div 100 \<le> k_stake i') \<and>
     (k \<in> set (active_keeper_set t) \<longleftrightarrow> k_active i')"
  using assms(1)
proof (cases rule: record_failure_Inr)
  case (1 i n x)
  have bps: "strike_bps n = (if k_consecutive_failures i = 0 then 500
      else if k_consecutive_failures i = 1 then 1500 else 2000)"
  proof -
    have "n = 1 \<longleftrightarrow> k_consecutive_failures i = 0" "n = 2 \<longleftrightarrow> k_consecutive_failures i = 1"
      unfolding 1(2) by (simp, metis add_right_cancel one_add_one)
    then show ?thesis
      by (simp add: strike_bps_def SLASH_STRIKE_1_BPS_def SLASH_STRIKE_2_BPS_def SLASH_STRIKE_3_BPS_def)
  qed
  have x: "x = bps_of (k_stake i) (strike_bps n)" "x \<le> k_stake i"
    using 1(3) slash_of_le [of "k_stake i" "strike_bps n"] slash_of_bps [of "strike_bps n" "k_stake i"]
    by (simp_all add: bps)
  have inv: "kr_inv t" using assms by (rule record_execution_inv)
  have mem: "k \<in> set (active_keeper_set t) \<longleftrightarrow> (\<exists>i. keepers t k = Some i \<and> k_active i)"
    using kr_invD(5) [OF inv] by simp
  show ?thesis
    by (intro exI [of _ i] exI [of _ "the (keepers t k)"] exI [of _ x])
      (use 1(1,2,5,9) x mem in \<open>auto simp: bps [symmetric] not_le not_less\<close>)
qed

lemma demo_strike:
  "\<exists>t. record_execution (kctx 100 0 60000) 9 False (demo_staked\<lparr>staking_provider_addr := Some 0\<rparr>) = Inr t"
  by (simp add: record_execution_def record_failure_def keval_defs kdemo_defs
      require_authorized_caller_def slash_of_def strike_bps_def bps_of_def constant_defs deduct_def
      collect_slash_def direct_egld_def deactivated_def leave_set_def release_if_cooling_def)

lemma demo_staked_inv: "kr_inv (demo_staked\<lparr>staking_provider_addr := Some 0\<rparr>)"
proof -
  have "kr_inv demo_staked"
    using registry.run_inv [OF demo_kr_run] kr_init_inv [OF demo_kr_init] by simp
  then show ?thesis by (rule kr_inv_frame [rotated 5]) simp_all
qed

theorem progressive_slashing_witness:
  "\<exists>t i'. record_execution (kctx 100 0 60000) 9 False (demo_staked\<lparr>staking_provider_addr := Some 0\<rparr>) = Inr t \<and>
     keepers t 9 = Some i' \<and> k_stake i' = 950 \<and> k_slashed_amount i' = 50"
proof -
  obtain t where t: "record_execution (kctx 100 0 60000) 9 False
      (demo_staked\<lparr>staking_provider_addr := Some 0\<rparr>) = Inr t" using demo_strike by blast
  from progressive_slashing [OF t demo_staked_inv] show ?thesis
    using t by (auto simp: demo_staked_def demo_keeper_def bps_of_def)
qed

text \<open>
  Withdrawal after the cooldown, by the funds: with enough EGLD at hand the keeper gets its stake
  less the penalty and is forgotten, otherwise the call fails.
\<close>

lemma withdrawal_funded:
  assumes "keepers s (caller c) = Some i" and "\<not> k_active i" and "egld_value c = 0" and "esdt_transfers c = []"
    and "treasury_addr s \<noteq> None"
    and "unstake_request_time s (caller c) + cooldown_seconds s \<le> block_timestamp c"
  shows "if k_stake i \<le> egld_balance s
     then \<exists>t. withdraw_stake c s = Inr t \<and> keepers t (caller c) = None \<and>
       egld_balance t + k_stake i = egld_balance s \<and>
       (treasury_addr s \<noteq> Some (caller c) \<longrightarrow>
          egld_sent_to (caller c) (outbox t) + exit_penalty c i =
          egld_sent_to (caller c) (outbox s) + k_stake i)
     else withdraw_stake c s = Inl (VmError ''insufficient funds'')"
proof -
  obtain tr where tr: "treasury_addr s = Some tr" using assms(5) by blast
  have pen: "bps_of (k_stake i) EARLY_EXIT_PENALTY_BPS \<le> k_stake i"
    by (simp add: bps.cut_le EARLY_EXIT_PENALTY_BPS_def)
  have ok: "\<exists>t. withdraw_stake c s = Inr t" if "k_stake i \<le> egld_balance s"
    using that assms(1-4,6) tr pen
    by (cases "block_timestamp c < k_registered_at i + MIN_KEEPER_DAYS_SECONDS")
      (auto simp: withdraw_stake_def not_payable_def Let_def big_sub_def release_committed_def
          direct_egld_def vm_require_def)
  have short: "withdraw_stake c s = Inl (VmError ''insufficient funds'')" if "\<not> k_stake i \<le> egld_balance s"
    using that assms(1-4,6) tr pen
    by (cases "block_timestamp c < k_registered_at i + MIN_KEEPER_DAYS_SECONDS")
      (auto simp: withdraw_stake_def not_payable_def Let_def big_sub_def release_committed_def
          direct_egld_def vm_require_def)
  show ?thesis
  proof (cases "k_stake i \<le> egld_balance s")
    case True
    with ok obtain t where t: "withdraw_stake c s = Inr t" by blast
    then show ?thesis
    proof (cases rule: withdraw_stake_Inr)
      case (1 i')
      then show ?thesis using t True assms(1) by auto
    qed
  qed (use short in simp)
qed

text \<open>Histories in which the owner never names a staking provider.\<close>

definition no_provider_set :: "ctx \<times> kreg_call \<Rightarrow> bool" where
  "no_provider_set l \<longleftrightarrow> (\<forall>a. snd l \<noteq> SetStakingProvider a)"

lemma step_keeps_no_provider:
  assumes "kreg_step s l t" and "no_provider_set l" and "staking_provider_addr s = None"
  shows "staking_provider_addr t = None"
proof -
  obtain c k where l: "l = (c, k)" by (cases l)
  have x: "kreg_exec c k s = Inr t" using assms(1) by (simp add: l kreg_step_simps)
  have slash: "collect_slash a y tr p u = Inr v \<Longrightarrow> staking_provider_addr v = staking_provider_addr u"
    for a y tr p u v by (auto simp: collect_slash_def res_simps split: if_splits)
  show ?thesis
  proof (cases k)
    case (RecordExecution a b)
    with x assms(3) show ?thesis
      by (cases b) (auto simp: record_execution_def record_success_def record_failure_def res_simps Let_def)
  next
    case (SlashKeeper a r)
    with x assms(3) show ?thesis
      by (auto simp: slash_keeper_def res_simps Let_def kreg_event_defs dest!: slash)
  next
    case WithdrawStake
    with x assms(3) show ?thesis
      by (auto simp: withdraw_stake_def res_simps Let_def kreg_event_defs release_committed_def
          split: if_splits)
  qed (use x assms(2,3) in \<open>auto simp: l no_provider_set_def kr_setter_defs res_simps pause_def
      unpause_def kr_upgrade_def register_keeper_def add_stake_def request_unstake_def
      sweep_slashed_debt_def kreg_event_defs receive_def Let_def\<close>)
qed

interpretation unset_provider: invariant_system kreg_step no_provider_set
  "\<lambda>s. staking_provider_addr s = None"
  by unfold_locales (rule step_keeps_no_provider)

text \<open>
  Failures are not recorded without a provider address. In every history in which the
  owner has not called \<open>setStakingProvider\<close>, reporting a failed execution is an error, for
  every keeper and every caller, so no keeper is slashed or expelled for failures (the slash
  endpoint treats a missing provider as none).
\<close>

theorem failures_need_provider:
  assumes "kr_init m pct cd tr = Inr s" and "run kreg_step s ls t" and "list_all no_provider_set ls"
  shows "record_execution c k False t \<noteq> Inr u"
proof -
  have "staking_provider_addr s = None" using assms(1) by (auto simp: kr_init_def res_simps kreg_empty_def)
  then have "staking_provider_addr t = None" using unset_provider.run_inv [OF assms(2,3)] by blast
  then show ?thesis by (auto elim!: record_failure_Inr)
qed

theorem failures_need_provider_witness:
  "record_execution (kctx 100 0 60000) 9 False demo_staked \<noteq> Inr demo_staked"
  using failures_need_provider [OF demo_kr_init demo_kr_run] by (simp add: no_provider_set_def)

text \<open>A registry with one keeper in its cooldown and one that failed twice.\<close>

definition expelled_case :: kreg where
  "expelled_case = demo_registry\<lparr>egld_balance := 2000, staking_provider_addr := Some 0,
     keepers := [8 \<mapsto> (demo_keeper 8)\<lparr>k_active := False\<rparr>,
                 9 \<mapsto> (demo_keeper 9)\<lparr>k_consecutive_failures := 2, k_total_executions := 2,
                        k_failed_execs := 2\<rparr>],
     active_keeper_set := [9], unstake_request_time := (\<lambda>_. 0)(8 := 60000),
     total_committed_cooldown_egld := 1000\<rparr>"

lemma expelled_case_inv: "kr_inv expelled_case"
  by (auto simp: kr_inv_def expelled_case_def demo_registry_def kreg_empty_def demo_keeper_def
      keeper_ok_def msum_insert_fresh msum_empty split: if_splits)

text \<open>
  An expelled keeper withdraws at once and releases the reserve of others. Keeper 8 waits
  in its cooldown, so its stake is reserved; keeper 9 is expelled for failing three times and
  withdraws in the same second, without a cooldown of its own; the reserve is reduced by the
  stake of keeper 9 although it was never part of it, and less than the stake of keeper 8 stays
  reserved from delegation.
\<close>

theorem expelled_keeper_releases_reserve:
  "kr_inv expelled_case \<and>
   (\<exists>s t. record_execution (kctx 100 0 60001) 9 False expelled_case = Inr s \<and>
      withdraw_stake (kctx 9 0 60001) s = Inr t \<and> egld_sent_to 9 (outbox t) = 760 \<and>
      get_keeper_stake 8 t = 1000 \<and> total_committed_cooldown_egld t = 200)"
proof -
  have "\<exists>s t. record_execution (kctx 100 0 60001) 9 False expelled_case = Inr s \<and>
      withdraw_stake (kctx 9 0 60001) s = Inr t \<and> egld_sent_to 9 (outbox t) = 760 \<and>
      get_keeper_stake 8 t = 1000 \<and> total_committed_cooldown_egld t = 200"
    by (simp add: record_execution_def record_failure_def keval_defs kdemo_defs expelled_case_def
        require_authorized_caller_def slash_of_def strike_bps_def bps_of_def constant_defs deduct_def
        collect_slash_def direct_egld_def deactivated_def leave_set_def release_if_cooling_def
        withdraw_stake_def release_committed_def big_sub_def get_keeper_stake_def)
  then show ?thesis using expelled_case_inv by blast
qed

end
