(* ===== verification/Staked_Registry.thy ===== *)
theory Staked_Registry
  imports Keeper_Registry_Properties
begin

text \<open>
  The keeper registry together with a staking provider that holds part of its funds. The provider
  is a contract outside the repository: a state of its own and a function from a call to the EGLD
  it sends back. What is relied on is \<open>provider_documented\<close>: it never loses what was delegated,
  and it pays rewards on top. With it the stakes of the keepers are covered at all times by the
  balance and the delegation together, through every history that includes the four endpoints
  that talk to the provider.
\<close>

section \<open>The provider\<close>

type_synonym 'p provider = "bytes \<Rightarrow> arg list \<Rightarrow> nat \<Rightarrow> 'p \<Rightarrow> (nat \<times> 'p) res"

text \<open>\<open>owed p\<close> is what the provider holds for the registry, unbonding amounts included.\<close>

definition provider_documented :: "'p provider \<Rightarrow> ('p \<Rightarrow> nat) \<Rightarrow> bool" where
  "provider_documented prov owed \<longleftrightarrow>
     (\<forall>f as x p refund q. prov f as x p = Inr (refund, q) \<longrightarrow> owed p + x \<le> owed q + refund) \<and>
     (\<forall>as x p refund q. prov ''claimRewards'' as x p = Inr (refund, q) \<longrightarrow> owed p + x \<le> owed q)"

text \<open>The answer of the provider as the registry sees it.\<close>

definition answer_of :: "(nat \<times> 'p) res \<Rightarrow> provider_call" where
  "answer_of r = (\<lambda>a f as x s. bind_res r (\<lambda>(refund, q). Inr (s\<lparr>egld_balance := egld_balance s + refund\<rparr>)))"

section \<open>Both contracts\<close>

datatype staked_call =
    RegistryCall kreg_call
  | DelegateStake nat
  | UnDelegateStake nat
  | ClaimProviderRewards
  | WithdrawProviderStake

text \<open>
  An endpoint that calls the provider, with the request it makes: the provider at \<open>pa\<close> answers
  and moves on when the endpoint succeeds.
\<close>

definition with_provider ::
  "address \<Rightarrow> (nat \<times> 'p) res \<Rightarrow> (provider_call \<Rightarrow> kreg \<Rightarrow> kreg res) \<Rightarrow> kreg \<Rightarrow> (kreg \<times> 'p) res" where
  "with_provider pa r endpoint_of s = vm_require (staking_provider_addr s = Some pa) ''another contract''
     (bind_res (endpoint_of (answer_of r) s) (\<lambda>t. bind_res r (\<lambda>(refund, q). Inr (t, q))))"

fun staked_exec ::
  "address \<Rightarrow> 'p provider \<Rightarrow> ctx \<Rightarrow> staked_call \<Rightarrow> kreg \<times> 'p \<Rightarrow> (kreg \<times> 'p) res" where
  "staked_exec pa prov c (RegistryCall l) (s, p) = bind_res (kreg_exec c l s) (\<lambda>t. Inr (t, p))"
| "staked_exec pa prov c (DelegateStake x) (s, p) =
     with_provider pa (prov ''delegate'' [] x p) (\<lambda>pc. delegate_stake pc c x) s"
| "staked_exec pa prov c (UnDelegateStake x) (s, p) =
     with_provider pa (prov ''unDelegate'' [ANat x] 0 p) (\<lambda>pc. undelegate_stake pc c x) s"
| "staked_exec pa prov c ClaimProviderRewards (s, p) =
     with_provider pa (prov ''claimRewards'' [] 0 p) (\<lambda>pc. claim_provider_rewards pc c) s"
| "staked_exec pa prov c WithdrawProviderStake (s, p) =
     with_provider pa (prov ''withdraw'' [] 0 p) (\<lambda>pc. withdraw_provider_stake pc c) s"

inductive staked_step ::
  "address \<Rightarrow> 'p provider \<Rightarrow> kreg \<times> 'p \<Rightarrow> ctx \<times> staked_call \<Rightarrow> kreg \<times> 'p \<Rightarrow> bool" for pa prov where
  staked_call: "staked_exec pa prov c l s = Inr t \<Longrightarrow> staked_step pa prov s (c, l) t"

section \<open>The registry with the delegated funds added\<close>

text \<open>
  A registry that also held the delegated funds itself could do every call that it can do without
  them, with the same effect: so the invariant of the registry carries over.
\<close>

definition boost :: "nat \<Rightarrow> kreg \<Rightarrow> kreg" where
  "boost d s = s\<lparr>egld_balance := egld_balance s + d\<rparr>"

lemma boost_simps [simp]:
  "keepers (boost d s) = keepers s" "active_keeper_set (boost d s) = active_keeper_set s"
  "slashed_pending_unbond (boost d s) = slashed_pending_unbond s" "treasury_addr (boost d s) = treasury_addr s"
  "staking_provider_addr (boost d s) = staking_provider_addr s" "min_stake (boost d s) = min_stake s"
  "slash_pct_bps (boost d s) = slash_pct_bps s" "authorized_callers (boost d s) = authorized_callers s"
  "unstake_request_time (boost d s) = unstake_request_time s" "cooldown_seconds (boost d s) = cooldown_seconds s"
  "egld_balance (boost d s) = egld_balance s + d" "boost 0 s = s"
  by (simp_all add: boost_def)

lemma boost_commutes [simp]:
  "(boost d s)\<lparr>keepers := ks\<rparr> = boost d (s\<lparr>keepers := ks\<rparr>)"
  "(boost d s)\<lparr>unstake_request_time := us\<rparr> = boost d (s\<lparr>unstake_request_time := us\<rparr>)"
  "leave_set b k (boost d s) = boost d (leave_set b k s)"
  "release_committed x (boost d s) = boost d (release_committed x s)"
  "release_if_cooling k i x (boost d s) = boost d (release_if_cooling k i x s)"
  "keeper_slashed_event k x r (boost d s) = boost d (keeper_slashed_event k x r s)"
  "keeper_unregistered_event k (boost d s) = boost d (keeper_unregistered_event k s)"
  by (simp_all add: boost_def leave_set_def release_committed_def release_if_cooling_def kreg_event_defs)

lemma require_authorized_boost [simp]:
  "require_authorized_caller c (boost d s) k = require_authorized_caller c s k"
  by (simp add: require_authorized_caller_def)

lemma direct_egld_boost: "direct_egld a x s = Inr t \<Longrightarrow> direct_egld a x (boost d s) = Inr (boost d t)"
  by (auto simp: direct_egld_def boost_def res_simps)

lemma kr_inv_more: "kr_inv (boost d s) \<Longrightarrow> d \<le> e \<Longrightarrow> kr_inv (boost e s)"
  by (auto simp: kr_inv_def)

lemma simple_boost:
  "register_keeper c s = Inr t \<Longrightarrow> register_keeper c (boost d s) = Inr (boost d t)"
  "add_stake c s = Inr t \<Longrightarrow> add_stake c (boost d s) = Inr (boost d t)"
  "request_unstake c s = Inr t \<Longrightarrow> request_unstake c (boost d s) = Inr (boost d t)"
  "sweep_slashed_debt c k s = Inr t \<Longrightarrow> sweep_slashed_debt c k (boost d s) = Inr (boost d t)"
  by (auto simp: register_keeper_def add_stake_def request_unstake_def sweep_slashed_debt_def res_simps Let_def
    kreg_event_defs receive_def boost_def)

lemma collect_slash_boost:
  "collect_slash k x tr p s = Inr t \<Longrightarrow> collect_slash k x tr p (boost d s) = Inr (boost d t)"
  by (auto simp: collect_slash_def boost_def res_simps split: if_splits)

lemma slash_keeper_boost: "slash_keeper c k r s = Inr t \<Longrightarrow> slash_keeper c k r (boost d s) = Inr (boost d t)"
  by (auto simp: slash_keeper_def Let_def res_simps collect_slash_boost)

lemma record_execution_boost:
  "record_execution c k b s = Inr t \<Longrightarrow> record_execution c k b (boost d s) = Inr (boost d t)"
  by (cases b) (auto simp: record_execution_def record_success_def record_failure_def Let_def res_simps
    collect_slash_boost)

lemma withdraw_stake_boost:
  assumes "withdraw_stake c s = Inr t"
  shows "withdraw_stake c (boost d s) = Inr (boost d t)"
proof -
  note defs = withdraw_stake_def Let_def not_payable_def
  from assms obtain i where i: "keepers s (caller c) = Some i" "egld_value c = 0" "esdt_transfers c = []"
    "\<not> k_active i" "unstake_request_time s (caller c) + cooldown_seconds s \<le> block_timestamp c"
    by (auto simp: withdraw_stake_def res_simps Let_def)
  show ?thesis
  proof (cases "block_timestamp c < k_registered_at i + MIN_KEEPER_DAYS_SECONDS")
    case True
    with assms obtain tr u v where pay: "bps_of (k_stake i) EARLY_EXIT_PENALTY_BPS \<le> k_stake i"
      "treasury_addr (release_committed (k_stake i) s) = Some tr"
      "direct_egld tr (bps_of (k_stake i) EARLY_EXIT_PENALTY_BPS) (release_committed (k_stake i) s) = Inr u"
      "direct_egld (caller c) (k_stake i - bps_of (k_stake i) EARLY_EXIT_PENALTY_BPS)
        (u\<lparr>keepers := (keepers u)(caller c := None), unstake_request_time := (unstake_request_time u)(caller c := 0)\<rparr>) = Inr v"
      "t = keeper_unregistered_event (caller c) v"
      by (auto simp: defs i res_simps simp del: direct_egld_eq_Inr)
    show ?thesis
      using True direct_egld_boost [OF pay(3), of d] direct_egld_boost [OF pay(4), of d]
      by (simp add: defs i pay(1,2,5) big_sub_def)
  next
    case False
    with assms obtain v where pay: "direct_egld (caller c) (k_stake i)
        ((release_committed (k_stake i) s)\<lparr>keepers := (keepers (release_committed (k_stake i) s))(caller c := None),
          unstake_request_time := (unstake_request_time (release_committed (k_stake i) s))(caller c := 0)\<rparr>) = Inr v"
      "t = keeper_unregistered_event (caller c) v"
      by (auto simp: defs i res_simps simp del: direct_egld_eq_Inr)
    show ?thesis using False direct_egld_boost [OF pay(1), of d] by (simp add: defs i pay(2))
  qed
qed

lemma kreg_exec_boost: "kreg_exec c l s = Inr t \<Longrightarrow> kreg_exec c l (boost d s) = Inr (boost d t)"
  by (cases l; (simp add: simple_boost slash_keeper_boost record_execution_boost withdraw_stake_boost; fail)?)
    (auto simp: kr_setter_defs res_simps pause_def unpause_def kr_upgrade_def boost_def)

section \<open>Invariant\<close>

lemma answer_of_Inr:
  "answer_of r a f as x s = Inr t \<longleftrightarrow> (\<exists>refund q. r = Inr (refund, q) \<and> t = s\<lparr>egld_balance := egld_balance s + refund\<rparr>)"
  by (cases r) (auto simp: answer_of_def split: prod.splits)

text \<open>
  What a successful call to the provider does to the books: nothing but the balance counts, and
  the balance falls by the EGLD sent and rises by the EGLD sent back, which the claim of rewards
  passes on or keeps.
\<close>

definition same_stakes :: "kreg \<Rightarrow> kreg \<Rightarrow> bool" where
  "same_stakes s t \<longleftrightarrow> keepers t = keepers s \<and> active_keeper_set t = active_keeper_set s \<and>
     slashed_pending_unbond t = slashed_pending_unbond s \<and> treasury_addr t = treasury_addr s"

lemma kr_inv_same_stakes:
  assumes "kr_inv (boost d s)" and "same_stakes s t" and "egld_balance s + d \<le> egld_balance t + e"
  shows "kr_inv (boost e t)"
  using assms by (auto simp: kr_inv_def same_stakes_def)

lemma call_provider_answer:
  "call_provider (answer_of (Inr (refund, q))) a f as x s = Inr t \<longleftrightarrow>
     x \<le> egld_balance s \<and> t = s\<lparr>egld_balance := egld_balance s - x + refund\<rparr>"
  by (auto simp: call_provider_def answer_of_def res_simps)

lemma provider_endpoints:
  "delegate_stake (answer_of (Inr (refund, q))) c x s = Inr t \<Longrightarrow>
     same_stakes s t \<and> egld_balance t + x = egld_balance s + refund"
  "undelegate_stake (answer_of (Inr (refund, q))) c x s = Inr t \<Longrightarrow>
     same_stakes s t \<and> egld_balance t = egld_balance s + refund"
  "withdraw_provider_stake (answer_of (Inr (refund, q))) c s = Inr t \<Longrightarrow>
     same_stakes s t \<and> egld_balance t = egld_balance s + refund"
  by (auto simp: delegate_stake_def undelegate_stake_def withdraw_provider_stake_def require_provider_def
    res_simps Let_def call_provider_answer same_stakes_def)

lemma claim_endpoint:
  assumes "claim_provider_rewards (answer_of (Inr (refund, q))) c s = Inr t"
  shows "same_stakes s t \<and> egld_balance s \<le> egld_balance t"
proof -
  from assms obtain p u where call: "call_provider (answer_of (Inr (refund, q))) p ''claimRewards'' [] 0 s = Inr u"
    and t: "(if egld_balance s < egld_balance u then
       let yield_generated = egld_balance u - egld_balance s;
           s = u\<lparr>total_yield_generated := total_yield_generated u + yield_generated\<rparr>
       in bind_res (get_slot (treasury_addr s)) (\<lambda>treasury.
          if treasury \<noteq> 0 then direct_egld treasury yield_generated s else Inr s)
     else Inr u) = Inr t"
    unfolding claim_provider_rewards_def require_provider_def Let_def
    by (auto simp: not_payable_eq_Inr only_owner_eq_Inr bind_res_eq_Inr require_eq_Inr)
  from call have u: "u = s\<lparr>egld_balance := egld_balance s + refund\<rparr>" by (simp add: call_provider_answer)
  show ?thesis
  proof (cases "refund = 0")
    case True
    with t show ?thesis by (simp add: u same_stakes_def)
  next
    case False
    obtain tr where tr: "treasury_addr s = Some tr"
      using t False by (cases "treasury_addr s") (simp_all add: u get_slot_def Let_def)
    show ?thesis
    proof (cases "tr = 0")
      case True
      with t False tr show ?thesis by (auto simp: u get_slot_def Let_def same_stakes_def)
    next
      case False
      with t \<open>refund \<noteq> 0\<close> tr show ?thesis
        by (auto simp: u get_slot_def Let_def same_stakes_def direct_egld_def require_eq_Inr)
    qed
  qed
qed

lemma with_provider_Inr:
  assumes "with_provider pa r g s = Inr (t, q)"
  obtains refund where "r = Inr (refund, q)" "g (answer_of r) s = Inr t" "staking_provider_addr s = Some pa"
proof -
  from assms obtain u where 1: "staking_provider_addr s = Some pa" "g (answer_of r) s = Inr u"
    and 2: "bind_res r (\<lambda>(refund, q). Inr (u, q)) = Inr (t, q)"
    unfolding with_provider_def vm_require_eq_Inr bind_res_eq_Inr by blast
  from 2 obtain y where "r = Inr y" and y: "(case y of (refund, q) \<Rightarrow> Inr (u, q)) = (Inr (t, q) :: (kreg \<times> 'a) res)"
    unfolding bind_res_eq_Inr by blast
  then have "r = Inr (fst y, q)" "u = t" by (auto split: prod.splits)
  with 1 that show ?thesis by blast
qed

definition staked_inv :: "('p \<Rightarrow> nat) \<Rightarrow> kreg \<times> 'p \<Rightarrow> bool" where
  "staked_inv owed sp \<longleftrightarrow> kr_inv (boost (owed (snd sp)) (fst sp))"

lemma staked_step_inv:
  assumes doc: "provider_documented prov owed" and "staked_step pa prov sp l tq" and inv: "staked_inv owed sp"
  shows "staked_inv owed tq"
proof -
  obtain c k where l: "l = (c, k)" by (cases l)
  obtain s p where sp: "sp = (s, p)" by (cases sp)
  obtain t q where tq: "tq = (t, q)" by (cases tq)
  have x: "staked_exec pa prov c k (s, p) = Inr (t, q)"
    using assms(2) by (auto simp: l sp tq elim: staked_step.cases)
  have inv: "kr_inv (boost (owed p) s)" using inv by (simp add: staked_inv_def sp)
  have law: "owed p + y \<le> owed q + refund" if "prov f as y p = Inr (refund, q)" for f as y refund
    using doc that by (simp add: provider_documented_def)
  have claim: "owed p \<le> owed q" if "prov ''claimRewards'' [] 0 p = Inr (refund, q)" for refund
    using doc that by (metis add_0_right provider_documented_def)
  have "kr_inv (boost (owed q) t)"
  proof (cases k)
    case (RegistryCall j)
    with x have "kreg_exec c j s = Inr t" "q = p" by (auto simp: res_simps)
    then have "kreg_step (boost (owed p) s) (c, j) (boost (owed p) t)"
      by (simp add: kreg_step_simps kreg_exec_boost)
    then show ?thesis using kreg_step_inv inv \<open>q = p\<close> by blast
  next
    case (DelegateStake y)
    with x obtain refund where r: "prov ''delegate'' [] y p = Inr (refund, q)"
      "delegate_stake (answer_of (prov ''delegate'' [] y p)) c y s = Inr t"
      by (auto elim!: with_provider_Inr)
    show ?thesis
      using kr_inv_same_stakes [OF inv, of t "owed q"] provider_endpoints(1) [OF r(2) [unfolded r(1)]] law [OF r(1)] by linarith
  next
    case (UnDelegateStake y)
    with x obtain refund where r: "prov ''unDelegate'' [ANat y] 0 p = Inr (refund, q)"
      "undelegate_stake (answer_of (prov ''unDelegate'' [ANat y] 0 p)) c y s = Inr t"
      by (auto elim!: with_provider_Inr)
    show ?thesis
      using kr_inv_same_stakes [OF inv, of t "owed q"] provider_endpoints(2) [OF r(2) [unfolded r(1)]] law [OF r(1)] by linarith
  next
    case ClaimProviderRewards
    with x obtain refund where r: "prov ''claimRewards'' [] 0 p = Inr (refund, q)"
      "claim_provider_rewards (answer_of (prov ''claimRewards'' [] 0 p)) c s = Inr t"
      by (auto elim!: with_provider_Inr)
    show ?thesis
      using kr_inv_same_stakes [OF inv, of t "owed q"] claim_endpoint [OF r(2) [unfolded r(1)]] claim [OF r(1)] by linarith
  next
    case WithdrawProviderStake
    with x obtain refund where r: "prov ''withdraw'' [] 0 p = Inr (refund, q)"
      "withdraw_provider_stake (answer_of (prov ''withdraw'' [] 0 p)) c s = Inr t"
      by (auto elim!: with_provider_Inr)
    show ?thesis
      using kr_inv_same_stakes [OF inv, of t "owed q"] provider_endpoints(3) [OF r(2) [unfolded r(1)]] law [OF r(1)] by linarith
  qed
  then show ?thesis by (simp add: staked_inv_def tq)
qed

lemma staked_run_inv:
  assumes "provider_documented prov owed" and "kr_init m pct cd tr = Inr s"
    and "run (staked_step pa prov) (s, p) ls (t, q)"
  shows "kr_inv (boost (owed q) t)"
proof -
  have start: "staked_inv owed (s, p)"
    using kr_inv_more [of 0 s "owed p"] kr_init_inv [OF assms(2)] by (simp add: staked_inv_def)
  have "invariant_system (staked_step pa prov) (\<lambda>_. True) (staked_inv owed)"
    by unfold_locales (rule staked_step_inv [OF assms(1)])
  from invariant_system.run_inv [OF this assms(3)] start show ?thesis
    by (simp add: staked_inv_def list_all_iff)
qed

lemma delegation_liquidity:
  assumes "delegate_stake (answer_of (Inr (refund, q))) c x s = Inr t" and "0 < x"
  shows "total_committed_cooldown_egld t = total_committed_cooldown_egld s \<and>
     total_committed_cooldown_egld s \<le> egld_balance t"
  using assms by (auto simp: delegate_stake_def require_provider_def res_simps Let_def call_provider_answer
    split: if_splits)

section \<open>A provider that keeps what it is given\<close>

definition demo_provider :: "nat provider" where
  "demo_provider f as x p = (if f = ''withdraw'' then Inr (p + x, 0) else Inr (0, p + x))"

lemma demo_provider_documented: "provider_documented demo_provider (\<lambda>p. p)"
  by (simp add: provider_documented_def demo_provider_def)

definition demo_staked_calls :: "(ctx \<times> staked_call) list" where
  "demo_staked_calls = [(kctx 100 0 40000, RegistryCall (SetStakingProvider 55)),
     (kctx 9 1000 50000, RegistryCall RegisterKeeper), (kctx 100 0 50001, DelegateStake 600)]"

definition demo_delegated :: kreg where
  "demo_delegated = demo_staked\<lparr>staking_provider_addr := Some 55, egld_balance := 400\<rparr>"

lemma demo_staked_run:
  "run (staked_step 55 demo_provider) (demo_registry, 0) demo_staked_calls (demo_delegated, 600)"
proof -
  have 1: "staked_exec 55 demo_provider (kctx 100 0 40000) (RegistryCall (SetStakingProvider 55)) (demo_registry, 0) =
      Inr (demo_registry\<lparr>staking_provider_addr := Some 55\<rparr>, 0)"
    by (simp add: kr_setter_defs keval_defs kdemo_defs)
  have 2: "staked_exec 55 demo_provider (kctx 9 1000 50000) (RegistryCall RegisterKeeper)
      (demo_registry\<lparr>staking_provider_addr := Some 55\<rparr>, 0) = Inr (demo_staked\<lparr>staking_provider_addr := Some 55\<rparr>, 0)"
    by (simp add: keval_defs kdemo_defs)
  have 3: "staked_exec 55 demo_provider (kctx 100 0 50001) (DelegateStake 600)
      (demo_staked\<lparr>staking_provider_addr := Some 55\<rparr>, 0) = Inr (demo_delegated, 600)"
    by (simp add: keval_defs kdemo_defs demo_delegated_def demo_provider_def with_provider_def answer_of_def
      delegate_stake_def require_provider_def call_provider_def)
  show ?thesis unfolding demo_staked_calls_def
    by (rule run.intros staked_step.intros 1 2 3)+
qed

section \<open>Property\<close>

text \<open>
  C15. The books of the registry with a staking provider. After every history of calls, those
  that delegate to a documented provider at one address and bring funds back from it included,
  the balance and the amount the provider owes cover together all stakes and all slashed amounts
  that await a sweep, the active set lists exactly the active keepers, the executions of every
  keeper are its successes plus its failures, and an active keeper has fewer than three failures
  in a row; and a further delegation of any amount leaves in the registry what is committed to
  keepers in their cooldown.
\<close>

theorem staked_registry_books:
  assumes "provider_documented prov owed" and "kr_init m pct cd tr = Inr s"
    and "run (staked_step pa prov) (s, p) ls (t, q)"
  shows "msum k_stake (keepers t) + fsum (slashed_pending_unbond t) \<le> egld_balance t + owed q \<and>
     distinct (active_keeper_set t) \<and>
     set (active_keeper_set t) = {a. \<exists>i. keepers t a = Some i \<and> k_active i} \<and>
     (\<forall>a i. keepers t a = Some i \<longrightarrow> k_addr i = a \<and>
        k_total_executions i = k_successful_execs i + k_failed_execs i \<and>
        (k_active i \<longrightarrow> unat (k_consecutive_failures i) < 3)) \<and>
     (\<forall>c x u r. 0 < x \<and> staked_exec pa prov c (DelegateStake x) (t, q) = Inr (u, r) \<longrightarrow>
        total_committed_cooldown_egld u \<le> egld_balance u)"
proof -
  have "kr_inv (boost (owed q) t)" by (rule staked_run_inv [OF assms])
  moreover have "total_committed_cooldown_egld u \<le> egld_balance u"
    if x: "0 < x" and u: "staked_exec pa prov c (DelegateStake x) (t, q) = Inr (u, r)" for c x u r
  proof -
    obtain refund where a: "prov ''delegate'' [] x q = Inr (refund, r)"
      "delegate_stake (answer_of (prov ''delegate'' [] x q)) c x t = Inr u"
      using u by (auto elim!: with_provider_Inr)
    show ?thesis using delegation_liquidity [OF a(2) [unfolded a(1)] x] by simp
  qed
  ultimately show ?thesis by (auto simp: kr_inv_def keeper_ok_def)
qed

theorem staked_registry_books_witness:
  "msum k_stake (keepers demo_delegated) + fsum (slashed_pending_unbond demo_delegated) \<le> 400 + 600 \<and>
   set (active_keeper_set demo_delegated) = {9}"
  using staked_registry_books [OF demo_provider_documented demo_kr_init demo_staked_run]
  by (simp add: demo_delegated_def demo_staked_def)

text \<open>
  C17. Withdrawal. After every history of calls, delegation to a documented provider at one
  address included, a keeper that is no longer active can withdraw once the cooldown since its
  request has passed, even while the registry is paused, whenever the registry holds its
  stake: it gets its stake, less 5 percent for the treasury within the first 30 days of its
  registration, and is forgotten. The stake is always covered by the balance together with
  what the provider owes, so with nothing delegated the withdrawal succeeds. When the balance
  is too low, because the owner has delegated, the withdrawal fails until the funds are back;
  before the cooldown has passed it is refused. Receivers are taken to accept payments.
\<close>

theorem withdrawal_after_cooldown:
  assumes "provider_documented prov owed" and "kr_init m pct cd tr = Inr s0"
    and "run (staked_step pa prov) (s0, p) ls (s, q)"
    and "keepers s (caller c) = Some i" and "\<not> k_active i" and "egld_value c = 0"
    and "esdt_transfers c = []"
  shows "k_stake i \<le> egld_balance s + owed q \<and>
    (if \<not> unstake_request_time s (caller c) + cooldown_seconds s \<le> block_timestamp c
     then withdraw_stake c s = Inl (UserError ''Cooldown not elapsed'')
     else if k_stake i \<le> egld_balance s
     then \<exists>t. withdraw_stake c s = Inr t \<and> keepers t (caller c) = None \<and>
       egld_balance t + k_stake i = egld_balance s \<and>
       (treasury_addr s \<noteq> Some (caller c) \<longrightarrow>
          egld_sent_to (caller c) (outbox t) + exit_penalty c i =
          egld_sent_to (caller c) (outbox s) + k_stake i)
     else withdraw_stake c s = Inl (VmError ''insufficient funds''))"
proof -
  note inv = staked_run_inv [OF assms(1-3)]
  have "treasury_addr s \<noteq> None" using kr_invD(7) [OF inv] by simp
  moreover have "k_stake i \<le> egld_balance s + owed q"
    using msum_ge [OF kr_invD(1) [OF inv], of "caller c" i k_stake] assms(4) kr_invD(6) [OF inv] by simp
  moreover have "withdraw_stake c s = Inl (UserError ''Cooldown not elapsed'')"
    if "\<not> unstake_request_time s (caller c) + cooldown_seconds s \<le> block_timestamp c"
    using that assms(4-7) by (simp add: withdraw_stake_def not_payable_def Let_def)
  ultimately show ?thesis using withdrawal_funded [OF assms(4-7)] by auto
qed

definition demo_delegated_leaving :: kreg where
  "demo_delegated_leaving = demo_delegated\<lparr>keepers := [9 \<mapsto> (demo_keeper 9)\<lparr>k_active := False\<rparr>],
     active_keeper_set := [], unstake_request_time := (\<lambda>_. 0)(9 := 60000),
     total_committed_cooldown_egld := 1000\<rparr>"

lemma demo_leaving_runs:
  "run (staked_step 55 demo_provider) (demo_registry, 0)
     (demo_staked_calls @ [(kctx 9 0 60000, RegistryCall RequestUnstake)]) (demo_delegated_leaving, 600)"
  "run (staked_step 55 demo_provider) (demo_registry, 0)
     (demo_staked_calls @ [(kctx 9 0 60000, RegistryCall RequestUnstake), (kctx 100 0 60001, WithdrawProviderStake)])
     (demo_delegated_leaving\<lparr>egld_balance := 1000\<rparr>, 0)"
proof -
  have 1: "staked_exec 55 demo_provider (kctx 9 0 60000) (RegistryCall RequestUnstake) (demo_delegated, 600) =
      Inr (demo_delegated_leaving, 600)"
    by (simp add: request_unstake_def keval_defs kdemo_defs demo_delegated_def demo_delegated_leaving_def us_swap_remove_def)
  have 2: "staked_exec 55 demo_provider (kctx 100 0 60001) WithdrawProviderStake (demo_delegated_leaving, 600) =
      Inr (demo_delegated_leaving\<lparr>egld_balance := 1000\<rparr>, 0)"
    by (simp add: keval_defs kdemo_defs demo_delegated_def demo_delegated_leaving_def demo_provider_def
      with_provider_def answer_of_def withdraw_provider_stake_def require_provider_def call_provider_def)
  show "run (staked_step 55 demo_provider) (demo_registry, 0)
     (demo_staked_calls @ [(kctx 9 0 60000, RegistryCall RequestUnstake)]) (demo_delegated_leaving, 600)"
    by (rule run_append [OF demo_staked_run]) (rule run.intros staked_step.intros 1)+
  show "run (staked_step 55 demo_provider) (demo_registry, 0)
     (demo_staked_calls @ [(kctx 9 0 60000, RegistryCall RequestUnstake), (kctx 100 0 60001, WithdrawProviderStake)])
     (demo_delegated_leaving\<lparr>egld_balance := 1000\<rparr>, 0)"
    by (rule run_append [OF demo_staked_run]) (rule run.intros staked_step.intros 1 2)+
qed

theorem withdrawal_after_cooldown_witness:
  "withdraw_stake (kctx 9 0 200000) demo_delegated_leaving = Inl (VmError ''insufficient funds'') \<and>
   withdraw_stake (kctx 9 0 70000) demo_delegated_leaving = Inl (UserError ''Cooldown not elapsed'') \<and>
   (\<exists>t. withdraw_stake (kctx 9 0 200000) (demo_delegated_leaving\<lparr>egld_balance := 1000\<rparr>) = Inr t \<and> egld_balance t = 0)"
  using withdrawal_after_cooldown [OF demo_provider_documented demo_kr_init demo_leaving_runs(1), of "kctx 9 0 200000"]
    withdrawal_after_cooldown [OF demo_provider_documented demo_kr_init demo_leaving_runs(1), of "kctx 9 0 70000"]
    withdrawal_after_cooldown [OF demo_provider_documented demo_kr_init demo_leaving_runs(2), of "kctx 9 0 200000"]
  by (auto simp: demo_delegated_leaving_def demo_delegated_def demo_staked_def demo_registry_def kctx_def demo_keeper_def)

end
