(* ===== verification/Rewards.thy ===== *)
theory Rewards
  imports Common_Types
begin

text \<open>
  The Rewards contract (contracts/rewards/src): it receives the protocol fees that the
  Scheduler flushes, splits them between the treasury and the keeper that flushed, and pays
  them out.
\<close>

section \<open>Storage and deployment\<close>

record rewards = pausable +
  rw_keeper_registry_addr :: "address option"
  treasury_split_bps :: u64
  pending_rewards :: "address \<Rightarrow> nat"
  treasury_balance :: nat
  authorized_schedulers :: "address list"
  rw_version :: u32

definition rewards_init :: "address \<Rightarrow> u64 \<Rightarrow> rewards" where
  "rewards_init registry split = \<lparr>egld_balance = 0, esdt_balance = (\<lambda>_ _. 0), outbox = [],
     paused = False, rw_keeper_registry_addr = Some registry, treasury_split_bps = split,
     pending_rewards = (\<lambda>_. 0), treasury_balance = 0, authorized_schedulers = [], rw_version = 1\<rparr>"

definition rewards_upgrade :: "rewards \<Rightarrow> rewards" where
  "rewards_upgrade s = s\<lparr>rw_version := rw_version s + 1,
     treasury_balance := (if treasury_balance s = 0 then 0 else treasury_balance s)\<rparr>"

section \<open>Events and validation\<close>

definition reward_accrued_event :: "u64 \<Rightarrow> address \<Rightarrow> nat \<Rightarrow> rewards \<Rightarrow> rewards" where
  "reward_accrued_event i k x = emit ''rewardAccrued'' [AU64 i, AAddr k, ANat x]"

definition rewards_claimed_event :: "address \<Rightarrow> nat \<Rightarrow> rewards \<Rightarrow> rewards" where
  "rewards_claimed_event k x = emit ''rewardsClaimed'' [AAddr k, ANat x]"

definition treasury_withdrawn_event :: "address \<Rightarrow> nat \<Rightarrow> rewards \<Rightarrow> rewards" where
  "treasury_withdrawn_event a x = emit ''treasuryWithdrawn'' [AAddr a, ANat x]"

definition require_scheduler_caller :: "ctx \<Rightarrow> rewards \<Rightarrow> 'a res \<Rightarrow> 'a res" where
  "require_scheduler_caller c s k =
     require (caller c \<in> set (authorized_schedulers s) \<or> caller c = owner_address c)
       ''Not authorized'' k"

section \<open>Endpoints\<close>

definition receive_execution_fee :: "ctx \<Rightarrow> address \<Rightarrow> u64 \<Rightarrow> rewards \<Rightarrow> rewards res" where
  "receive_execution_fee c keeper task_id s0 = payable_egld c (let s = receive c s0 in
     require_scheduler_caller c s (
     let fee = egld_value c;
         treasury_cut = bps_of fee (treasury_split_bps s)
     in bind_res (big_sub fee treasury_cut) (\<lambda>keeper_bonus.
     let s = s\<lparr>treasury_balance := treasury_balance s + treasury_cut,
               pending_rewards := (pending_rewards s)(keeper := pending_rewards s keeper + keeper_bonus)\<rparr>
     in Inr (reward_accrued_event task_id keeper keeper_bonus s))))"

definition claim_rewards :: "ctx \<Rightarrow> rewards \<Rightarrow> rewards res" where
  "claim_rewards c s = not_payable c (require_not_paused s (
     let amt = pending_rewards s (caller c) in
     require (0 < amt) ''No pending rewards'' (
     let s = s\<lparr>pending_rewards := (pending_rewards s)(caller c := 0)\<rparr> in
     bind_res (direct_egld (caller c) amt s) (\<lambda>s.
     Inr (rewards_claimed_event (caller c) amt s)))))"

definition withdraw_treasury :: "ctx \<Rightarrow> address \<Rightarrow> nat \<Rightarrow> rewards \<Rightarrow> rewards res" where
  "withdraw_treasury c to amt s = not_payable c (only_owner c (
     require (amt \<le> treasury_balance s) ''Insufficient treasury'' (
     bind_res (big_sub (treasury_balance s) amt) (\<lambda>left.
     bind_res (direct_egld to amt (s\<lparr>treasury_balance := left\<rparr>)) (\<lambda>s.
     Inr (treasury_withdrawn_event to amt s))))))"

definition rw_owner_set :: "ctx \<Rightarrow> (rewards \<Rightarrow> rewards) \<Rightarrow> rewards \<Rightarrow> rewards res" where
  "rw_owner_set c f s = not_payable c (only_owner c (Inr (f s)))"

definition set_treasury_split_bps :: "ctx \<Rightarrow> u64 \<Rightarrow> rewards \<Rightarrow> rewards res" where
  "set_treasury_split_bps c v s = not_payable c (only_owner c (
     require (v \<le> BPS_DENOMINATOR) ''Split exceeds 100%'' (Inr (s\<lparr>treasury_split_bps := v\<rparr>))))"

definition rw_set_keeper_registry_addr :: "ctx \<Rightarrow> address \<Rightarrow> rewards \<Rightarrow> rewards res" where
  "rw_set_keeper_registry_addr c a = rw_owner_set c (\<lambda>s. s\<lparr>rw_keeper_registry_addr := Some a\<rparr>)"

definition add_authorized_scheduler :: "ctx \<Rightarrow> address \<Rightarrow> rewards \<Rightarrow> rewards res" where
  "add_authorized_scheduler c a =
     rw_owner_set c (\<lambda>s. s\<lparr>authorized_schedulers := us_insert a (authorized_schedulers s)\<rparr>)"

definition remove_authorized_scheduler :: "ctx \<Rightarrow> address \<Rightarrow> rewards \<Rightarrow> rewards res" where
  "remove_authorized_scheduler c a =
     rw_owner_set c (\<lambda>s. s\<lparr>authorized_schedulers := us_swap_remove a (authorized_schedulers s)\<rparr>)"

definition get_pending_rewards :: "address \<Rightarrow> rewards \<Rightarrow> nat" where
  "get_pending_rewards k s = (if pending_rewards s k = 0 then 0 else pending_rewards s k)"

definition get_treasury_balance :: "rewards \<Rightarrow> nat" where
  "get_treasury_balance s = treasury_balance s"

definition get_treasury_split_bps :: "rewards \<Rightarrow> u64" where
  "get_treasury_split_bps s = treasury_split_bps s"

section \<open>Calls\<close>

datatype rewards_call =
    ReceiveExecutionFee address u64
  | ClaimRewards
  | WithdrawTreasury address nat
  | SetTreasurySplitBps u64
  | RwSetKeeperRegistryAddr address
  | AddAuthorizedScheduler address
  | RemoveAuthorizedScheduler address
  | RwPause
  | RwUnpause
  | RwUpgrade

primrec rewards_exec :: "ctx \<Rightarrow> rewards_call \<Rightarrow> rewards \<Rightarrow> rewards res" where
  "rewards_exec c (ReceiveExecutionFee k i) s = receive_execution_fee c k i s"
| "rewards_exec c ClaimRewards s = claim_rewards c s"
| "rewards_exec c (WithdrawTreasury a x) s = withdraw_treasury c a x s"
| "rewards_exec c (SetTreasurySplitBps v) s = set_treasury_split_bps c v s"
| "rewards_exec c (RwSetKeeperRegistryAddr a) s = rw_set_keeper_registry_addr c a s"
| "rewards_exec c (AddAuthorizedScheduler a) s = add_authorized_scheduler c a s"
| "rewards_exec c (RemoveAuthorizedScheduler a) s = remove_authorized_scheduler c a s"
| "rewards_exec c RwPause s = pause c s"
| "rewards_exec c RwUnpause s = unpause c s"
| "rewards_exec c RwUpgrade s = only_owner c (Inr (rewards_upgrade s))"

inductive rewards_step :: "rewards \<Rightarrow> ctx \<times> rewards_call \<Rightarrow> rewards \<Rightarrow> bool" where
  rewards_call: "rewards_exec c l s = Inr t \<Longrightarrow> rewards_step s (c, l) t"

inductive_simps rewards_step_simps: "rewards_step s (c, l) t"

section \<open>Invariant\<close>

text \<open>Every EGLD the contract holds belongs to the treasury or to a keeper.\<close>

definition rewards_inv :: "rewards \<Rightarrow> bool" where
  "rewards_inv s \<longleftrightarrow> fin_supp (pending_rewards s) \<and>
     egld_balance s = treasury_balance s + fsum (pending_rewards s)"

lemmas rewards_event_defs = reward_accrued_event_def rewards_claimed_event_def
  treasury_withdrawn_event_def emit_def

lemma receive_execution_fee_Inr:
  assumes "receive_execution_fee c k i s = Inr t"
  obtains cut where "cut = bps_of (egld_value c) (treasury_split_bps s)" "cut \<le> egld_value c"
    "egld_balance t = egld_balance s + egld_value c"
    "treasury_balance t = treasury_balance s + cut"
    "pending_rewards t = (pending_rewards s)(k := pending_rewards s k + (egld_value c - cut))"
    "caller c \<in> set (authorized_schedulers s) \<or> caller c = owner_address c"
  using assms
  by (auto simp: receive_execution_fee_def require_scheduler_caller_def res_simps Let_def
      rewards_event_defs receive_def)

lemma receive_execution_fee_inv:
  assumes "receive_execution_fee c k i s = Inr t" and "rewards_inv s"
  shows "rewards_inv t"
  using assms(1)
proof (cases rule: receive_execution_fee_Inr)
  case (1 cut)
  then show ?thesis
    using assms(2) fsum_update [of "pending_rewards s" k "pending_rewards s k + (egld_value c - cut)"]
    by (auto simp: rewards_inv_def)
qed

lemma claim_rewards_inv:
  assumes "claim_rewards c s = Inr t" and "rewards_inv s"
  shows "rewards_inv t"
  using assms fsum_remove [of "pending_rewards s" "caller c"]
  by (auto simp: claim_rewards_def res_simps Let_def rewards_event_defs rewards_inv_def)

lemma withdraw_treasury_inv:
  assumes "withdraw_treasury c a x s = Inr t" and "rewards_inv s"
  shows "rewards_inv t"
  using assms by (auto simp: withdraw_treasury_def res_simps rewards_event_defs rewards_inv_def)

lemma rewards_step_inv:
  assumes "rewards_step s l t" and "rewards_inv s"
  shows "rewards_inv t"
proof -
  obtain c k where l: "l = (c, k)" by (cases l)
  have x: "rewards_exec c k s = Inr t" using assms(1) by (simp add: l rewards_step_simps)
  show ?thesis
    by (cases k; insert x assms(2); auto dest: receive_execution_fee_inv claim_rewards_inv
        withdraw_treasury_inv simp: set_treasury_split_bps_def rw_set_keeper_registry_addr_def
        add_authorized_scheduler_def remove_authorized_scheduler_def rw_owner_set_def res_simps
        pause_def unpause_def rewards_upgrade_def rewards_inv_def)
qed

interpretation rewards_books: invariant_system rewards_step "\<lambda>_. True" rewards_inv
  by unfold_locales (rule rewards_step_inv)

section \<open>Properties\<close>

text \<open>
  C18. The books of the Rewards contract. After every history of calls the balance is exactly
  the treasury plus the pending rewards of all keepers; hence every keeper with pending
  rewards can claim them while the contract is not paused, and gets exactly that amount.
  Receivers are taken to accept payments.
\<close>

theorem rewards_fully_backed:
  assumes "run rewards_step (rewards_init r split) ls s"
  shows "egld_balance s = treasury_balance s + fsum (pending_rewards s) \<and>
     (\<forall>c. \<not> paused s \<and> 0 < pending_rewards s (caller c) \<and> egld_value c = 0 \<and> esdt_transfers c = [] \<longrightarrow>
        (\<exists>t. claim_rewards c s = Inr t \<and> pending_rewards t (caller c) = 0 \<and>
           outbox t = outbox s @ [SendEgld (caller c) (pending_rewards s (caller c)),
             Event ''rewardsClaimed'' [AAddr (caller c), ANat (pending_rewards s (caller c))]]))"
proof -
  have "rewards_inv (rewards_init r split)" by (simp add: rewards_inv_def rewards_init_def)
  then have inv: "rewards_inv s" using rewards_books.run_inv [OF assms] by (simp add: list_all_iff)
  have "pending_rewards s k \<le> egld_balance s" for k
    using inv fsum_ge [of "pending_rewards s" k] by (simp add: rewards_inv_def)
  then show ?thesis
    using inv by (auto simp: rewards_inv_def claim_rewards_def not_payable_def require_not_paused_def
        Let_def direct_egld_def rewards_event_defs)
qed

definition fee_ctx :: "address \<Rightarrow> nat \<Rightarrow> ctx" where
  "fee_ctx a x = \<lparr>caller = a, owner_address = 100, sc_address = 2, egld_value = x,
     esdt_transfers = [], block_timestamp = 0, block_round = 0, block_nonce = 0, gas_left = 0,
     random_seed = [], egld_beside_tokens = True\<rparr>"

definition demo_rewards :: rewards where
  "demo_rewards = (rewards_init 1 2000)\<lparr>egld_balance := 1000, treasury_balance := 200,
     pending_rewards := (\<lambda>_. 0)(50 := 800),
     outbox := [Event ''rewardAccrued'' [AU64 0, AAddr 50, ANat 800]]\<rparr>"

lemma demo_rewards_run:
  "run rewards_step (rewards_init 1 2000) [(fee_ctx 100 1000, ReceiveExecutionFee 50 0)] demo_rewards"
proof -
  have "receive_execution_fee (fee_ctx 100 1000) 50 0 (rewards_init 1 2000) = Inr demo_rewards"
    by (simp add: receive_execution_fee_def payable_egld_def require_scheduler_caller_def Let_def
        big_sub_def receive_def rewards_init_def fee_ctx_def demo_rewards_def bps_of_def rewards_event_defs)
  then show ?thesis by (auto intro!: run.intros rewards_step.intros)
qed

theorem rewards_fully_backed_witness:
  "\<exists>t. claim_rewards (fee_ctx 50 0) demo_rewards = Inr t \<and> pending_rewards t 50 = 0"
  using rewards_fully_backed [OF demo_rewards_run]
  by (auto simp: demo_rewards_def rewards_init_def fee_ctx_def dest!: spec [of _ "fee_ctx 50 0"])

text \<open>
  Splitting a fee. With a split of at most 100 percent every fee an authorised caller
  sends is accepted and divided exactly between the treasury and the keeper; with a larger
  split, which deployment does not refuse, a fee whose share exceeds it is refused.
\<close>

theorem fee_split_exact:
  assumes "esdt_transfers c = []" and "caller c \<in> set (authorized_schedulers s) \<or> caller c = owner_address c"
  shows "(unat (treasury_split_bps s) \<le> 10000 \<longrightarrow>
     (\<exists>t. receive_execution_fee c k i s = Inr t \<and>
        treasury_balance t - treasury_balance s + (pending_rewards t k - pending_rewards s k) = egld_value c \<and>
        treasury_balance t = treasury_balance s + bps_of (egld_value c) (treasury_split_bps s) \<and>
        (\<forall>a. a \<noteq> k \<longrightarrow> pending_rewards t a = pending_rewards s a))) \<and>
   (egld_value c < bps_of (egld_value c) (treasury_split_bps s) \<longrightarrow>
     receive_execution_fee c k i s = Inl (VmError ''cannot subtract because result would be negative''))"
  using assms bps.cut_le [of "treasury_split_bps s" "egld_value c"]
  by (auto simp: receive_execution_fee_def payable_egld_def require_scheduler_caller_def Let_def
      big_sub_def receive_def rewards_event_defs vm_require_def)

theorem fee_split_exact_witness:
  "(\<exists>t. receive_execution_fee (fee_ctx 100 1000) 50 0 (rewards_init 1 2000) = Inr t \<and>
      treasury_balance t = 200) \<and>
   receive_execution_fee (fee_ctx 100 1000) 50 0 (rewards_init 1 20000) =
     Inl (VmError ''cannot subtract because result would be negative'')"
  using fee_split_exact [of "fee_ctx 100 1000" "rewards_init 1 2000" 50 0]
    fee_split_exact [of "fee_ctx 100 1000" "rewards_init 1 20000" 50 0]
  by (auto simp: fee_ctx_def rewards_init_def bps_of_def)

end
