(* ===== verification/Xwap.thy ===== *)
theory Xwap
  imports Common_Types
begin

text \<open>
  The XWAP price oracle (contracts/xwap/src): registered keepers report off-chain prices,
  anybody feeds pool reserves, and the contract keeps an exponentially weighted average of the
  reserves whose weight adapts to volatility, trend and agreement with the reported prices. The
  Scheduler asks it whether the market is safe to execute in.
\<close>

section \<open>Storage (storage.rs)\<close>

record keeper_price_report =
  kr_price :: nat
  kr_block :: u64

record xwap_signals =
  gate_open :: bool
  consensus_ok :: bool
  freshness_ok :: bool
  stability_permille :: u64
  safe :: bool

record xwap = account +
  ewma_reserve_a :: nat
  ewma_reserve_b :: nat
  xwap_price :: nat
  prev_xwap_price :: nat
  alpha_x1000 :: u64
  price_history :: "u64 \<Rightarrow> nat"
  price_history_idx :: u64
  update_count :: u64
  keeper_report_of :: "address \<rightharpoonup> keeper_price_report"
  registered_keepers :: "address list"
  gate_threshold_permille :: u64
  alpha_min_x1000 :: u64
  alpha_max_x1000 :: u64
  trend_boost_x1000 :: u64
  gate_boost_x1000 :: u64
  freshness_blocks :: u64
  consensus_min_permille :: u64
  pool_address :: "address option"
  xw_owner_address :: "address option"

section \<open>Deployment (lib.rs)\<close>

definition xwap_init :: "ctx \<Rightarrow> address \<Rightarrow> xwap" where
  "xwap_init c pool = \<lparr>egld_balance = 0, esdt_balance = (\<lambda>_ _. 0), outbox = [],
     ewma_reserve_a = 0, ewma_reserve_b = 0, xwap_price = 0, prev_xwap_price = 0,
     alpha_x1000 = 50, price_history = (\<lambda>_. 0), price_history_idx = 0, update_count = 0,
     keeper_report_of = Map.empty, registered_keepers = [], gate_threshold_permille = 100,
     alpha_min_x1000 = 50, alpha_max_x1000 = 700, trend_boost_x1000 = 250, gate_boost_x1000 = 250,
     freshness_blocks = 2, consensus_min_permille = 800, pool_address = Some pool,
     xw_owner_address = Some (caller c)\<rparr>"

definition xwap_upgrade :: "xwap \<Rightarrow> xwap" where
  "xwap_upgrade s = s\<lparr>update_count := update_count s\<rparr>"

section \<open>Numbers\<close>

definition to_u64 :: "nat \<Rightarrow> u64 option" where
  "to_u64 n = (if n < 2 ^ 64 then Some (of_nat n) else None)"

definition unwrap_or :: "'a option \<Rightarrow> 'a \<Rightarrow> 'a" where
  "unwrap_or v d = (case v of None \<Rightarrow> d | Some x \<Rightarrow> x)"

definition saturating_sub :: "u64 \<Rightarrow> u64 \<Rightarrow> u64" where
  "saturating_sub a b = (if b \<le> a then a - b else 0)"

text \<open>The relative difference in permille, an expression the source writes out five times.\<close>

definition rel_permille :: "nat \<Rightarrow> nat \<Rightarrow> nat" where
  "rel_permille x r = (if x > r then (x - r) * 1000 div r else (r - x) * 1000 div r)"

definition SCALE :: nat where "SCALE = 1000000000000000000"
definition ALPHA_SCALE :: u64 where "ALPHA_SCALE = 1000"
definition HISTORY_LEN :: u64 where "HISTORY_LEN = 10"
definition TREND_MIN_HISTORY :: u64 where "TREND_MIN_HISTORY = 8"
definition TREND_WINDOW :: u64 where "TREND_WINDOW = 8"
definition TREND_THRESHOLD :: u64 where "TREND_THRESHOLD = 7"
definition CONSENSUS_TOLERANCE_PERMILLE :: u64 where "CONSENSUS_TOLERANCE_PERMILLE = 50"

section \<open>Events (events.rs)\<close>

definition price_updated_event :: "nat \<Rightarrow> u64 \<Rightarrow> bool \<Rightarrow> u64 \<Rightarrow> xwap \<Rightarrow> xwap" where
  "price_updated_event p a g b = emit ''price_updated'' [ANat p, AU64 a, ABool g, AU64 b]"

definition gate_closed_event :: "nat \<Rightarrow> nat \<Rightarrow> u64 \<Rightarrow> xwap \<Rightarrow> xwap" where
  "gate_closed_event p m d = emit ''gate_closed'' [ANat p, ANat m, AU64 d]"

definition keeper_reported_event :: "address \<Rightarrow> nat \<Rightarrow> u64 \<Rightarrow> xwap \<Rightarrow> xwap" where
  "keeper_reported_event k p b = emit ''keeper_reported'' [AAddr k, ANat p, AU64 b]"

definition keeper_registry_updated_event :: "address \<Rightarrow> bool \<Rightarrow> xwap \<Rightarrow> xwap" where
  "keeper_registry_updated_event k r = emit ''keeper_registry_updated'' [AAddr k, ABool r]"

lemmas xwap_event_defs = price_updated_event_def gate_closed_event_def keeper_reported_event_def
  keeper_registry_updated_event_def emit_def

section \<open>Keeper reports (keepers.rs)\<close>

definition report_price :: "ctx \<Rightarrow> nat \<Rightarrow> xwap \<Rightarrow> xwap res" where
  "report_price c price s = not_payable c (
     require (caller c \<in> set (registered_keepers s)) ''caller is not a registered keeper'' (
     require (0 < price) ''price cannot be zero'' (
     let block = block_nonce c;
         report = \<lparr>kr_price = price, kr_block = block\<rparr>
     in Inr (keeper_reported_event (caller c) price block
          (s\<lparr>keeper_report_of := (keeper_report_of s)(caller c \<mapsto> report)\<rparr>)))))"

text \<open>The loop that collects the prices of the reports that are not too old.\<close>

definition is_fresh :: "u64 \<Rightarrow> u64 \<Rightarrow> keeper_price_report \<Rightarrow> bool" where
  "is_fresh now max_age r \<longleftrightarrow> saturating_sub now (kr_block r) \<le> max_age"

fun fresh_prices :: "u64 \<Rightarrow> u64 \<Rightarrow> (address \<rightharpoonup> keeper_price_report) \<Rightarrow> address list \<Rightarrow> nat list" where
  "fresh_prices now max_age reports [] = []"
| "fresh_prices now max_age reports (k # ks) = (case reports k of
     None \<Rightarrow> fresh_prices now max_age reports ks
   | Some r \<Rightarrow> if is_fresh now max_age r then kr_price r # fresh_prices now max_age reports ks
                else fresh_prices now max_age reports ks)"

text \<open>
  The in-place insertion sort: \<open>sift\<close> is the inner while loop, which moves the element at
  position \<open>j\<close> towards the front while its left neighbour is larger.
\<close>

fun sift :: "nat \<Rightarrow> nat list \<Rightarrow> nat list" where
  "sift 0 ps = ps"
| "sift (Suc j) ps = (let p_prev = ps ! j; p_cur = ps ! Suc j in
     if p_prev > p_cur then sift j (ps[j := p_cur, Suc j := p_prev]) else ps)"

definition insertion_sort :: "nat list \<Rightarrow> nat list" where
  "insertion_sort ps = foldl (\<lambda>ps i. sift i ps) ps [1..<length ps]"

definition median_sorted :: "nat list \<Rightarrow> nat" where
  "median_sorted ps = (let n = length ps; mid = n div 2 in
     if n mod 2 = 1 then ps ! mid else (ps ! (mid - 1) + ps ! mid) div 2)"

definition get_median_off_chain :: "u64 \<Rightarrow> xwap \<Rightarrow> nat" where
  "get_median_off_chain now s =
     (let prices = fresh_prices now (freshness_blocks s) (keeper_report_of s) (registered_keepers s)
      in if length prices = 0 then 0 else median_sorted (insertion_sort prices))"

fun count_agreeing ::
  "u64 \<Rightarrow> u64 \<Rightarrow> nat \<Rightarrow> (address \<rightharpoonup> keeper_price_report) \<Rightarrow> address list \<Rightarrow> u64 \<Rightarrow> u64" where
  "count_agreeing now max_age median reports [] n = n"
| "count_agreeing now max_age median reports (k # ks) n = (case reports k of
     None \<Rightarrow> count_agreeing now max_age median reports ks n
   | Some r \<Rightarrow>
       if saturating_sub now (kr_block r) > max_age then count_agreeing now max_age median reports ks n
       else let div_u64 = unwrap_or (to_u64 (rel_permille (kr_price r) median)) (- 1) in
         count_agreeing now max_age median reports ks
           (if div_u64 \<le> CONSENSUS_TOLERANCE_PERMILLE then n + 1 else n))"

definition check_consensus :: "u64 \<Rightarrow> xwap \<Rightarrow> bool" where
  "check_consensus now s =
     (let median = get_median_off_chain now s; total = length (registered_keepers s) in
      if median = 0 then False
      else if total = 0 then False
      else
        let agreeing = count_agreeing now (freshness_blocks s) median (keeper_report_of s)
                         (registered_keepers s) 0;
            agreeing_permille = agreeing * 1000 div of_nat total
        in agreeing_permille \<ge> consensus_min_permille s)"

section \<open>The oracle (oracle.rs)\<close>

definition check_gate_internal :: "u64 \<Rightarrow> nat \<Rightarrow> xwap \<Rightarrow> bool \<times> u64" where
  "check_gate_internal now spot s = (let median = get_median_off_chain now s in
     if median = 0 then (False, - 1)
     else let divergence = unwrap_or (to_u64 (rel_permille spot median)) (- 1)
          in (divergence < gate_threshold_permille s, divergence))"

definition update_ewma_reserves :: "nat \<Rightarrow> nat \<Rightarrow> u64 \<Rightarrow> xwap \<Rightarrow> xwap" where
  "update_ewma_reserves ra rb a s =
     (let one_minus = unat (ALPHA_SCALE - a);
          new_a = (if ewma_reserve_a s = 0 then ra
                   else (unat a * ra + one_minus * ewma_reserve_a s) div unat ALPHA_SCALE);
          new_b = (if ewma_reserve_b s = 0 then rb
                   else (unat a * rb + one_minus * ewma_reserve_b s) div unat ALPHA_SCALE)
      in s\<lparr>ewma_reserve_a := new_a, ewma_reserve_b := new_b\<rparr>)"

text \<open>One step of the loop of \<open>detect_trend\<close>, and the loop over the window.\<close>

definition trend_step :: "xwap \<Rightarrow> nat \<Rightarrow> u64 \<times> u64 \<Rightarrow> u64 \<times> u64" where
  "trend_step s i ud = (let current_idx = price_history_idx s;
       idx_a = (current_idx + HISTORY_LEN - of_nat i - 1) mod HISTORY_LEN;
       idx_b = (current_idx + HISTORY_LEN - of_nat i - 2) mod HISTORY_LEN;
       pa = price_history s idx_a;
       pb = price_history s idx_b
     in if pa > pb then (fst ud + 1, snd ud)
        else if pa < pb then (fst ud, snd ud + 1) else ud)"

definition detect_trend :: "xwap \<Rightarrow> bool" where
  "detect_trend s = (if update_count s < TREND_MIN_HISTORY then False
     else let ud = foldl (\<lambda>ud i. trend_step s i ud) (0, 0) [0..<unat TREND_WINDOW]
          in fst ud \<ge> TREND_THRESHOLD \<or> snd ud \<ge> TREND_THRESHOLD)"

definition compute_alpha :: "bool \<Rightarrow> xwap \<Rightarrow> u64" where
  "compute_alpha gate s =
     (let alpha_min = alpha_min_x1000 s; alpha_max = alpha_max_x1000 s in
      if update_count s < 5 then alpha_min
      else if prev_xwap_price s = 0 then alpha_min
      else
        let vol_u64 = unwrap_or (to_u64 (rel_permille (xwap_price s) (prev_xwap_price s)))
                        (alpha_max * 1000 div 3);
            vol_alpha = min (vol_u64 * 3) alpha_max;
            alpha = max vol_alpha alpha_min;
            alpha = (if detect_trend s then min (alpha + trend_boost_x1000 s) alpha_max else alpha)
        in if gate then min (alpha + gate_boost_x1000 s) alpha_max else alpha)"

definition update_price :: "ctx \<Rightarrow> nat \<Rightarrow> nat \<Rightarrow> xwap \<Rightarrow> xwap res" where
  "update_price c raw_a raw_b s = not_payable c (
     require (0 < raw_a) ''reserve_a cannot be zero'' (
     require (0 < raw_b) ''reserve_b cannot be zero'' (
     let spot_price = raw_b * SCALE div raw_a;
         (gate, divergence) = check_gate_internal (block_nonce c) spot_price s;
         alpha = compute_alpha gate s;
         s = update_ewma_reserves (raw_a * SCALE) (raw_b * SCALE) alpha s
     in require (0 < ewma_reserve_a s) ''ewma_reserve_a is zero after update'' (
     let new_xwap = ewma_reserve_b s * SCALE div ewma_reserve_a s;
         idx = price_history_idx s;
         s = s\<lparr>price_history := (price_history s)(idx := new_xwap),
               price_history_idx := (idx + 1) mod HISTORY_LEN,
               update_count := update_count s + 1\<rparr>;
         s = s\<lparr>prev_xwap_price := xwap_price s, xwap_price := new_xwap, alpha_x1000 := alpha\<rparr>;
         s = price_updated_event new_xwap alpha gate (block_nonce c) s
     in Inr (if \<not> gate
             then gate_closed_event spot_price (get_median_off_chain (block_nonce c) s) divergence s
             else s)))))"

fun check_freshness_list ::
  "u64 \<Rightarrow> u64 \<Rightarrow> (address \<rightharpoonup> keeper_price_report) \<Rightarrow> address list \<Rightarrow> bool" where
  "check_freshness_list now max_age reports [] = False"
| "check_freshness_list now max_age reports (k # ks) = (case reports k of
     None \<Rightarrow> check_freshness_list now max_age reports ks
   | Some r \<Rightarrow> if saturating_sub now (kr_block r) \<le> max_age then True
                else check_freshness_list now max_age reports ks)"

definition check_freshness_internal :: "u64 \<Rightarrow> u64 \<Rightarrow> xwap \<Rightarrow> bool" where
  "check_freshness_internal now max_age s =
     check_freshness_list now max_age (keeper_report_of s) (registered_keepers s)"

definition compute_signals :: "u64 \<Rightarrow> xwap \<Rightarrow> xwap_signals" where
  "compute_signals now s =
     (let x = xwap_price s;
          gate = fst (check_gate_internal now x s);
          cons = check_consensus now s;
          freshness = check_freshness_internal now (freshness_blocks s) s;
          prev = prev_xwap_price s;
          stability = (if prev = 0 \<or> x = 0 then 0
                       else unwrap_or (to_u64 (rel_permille x prev)) 999)
      in \<lparr>gate_open = gate, consensus_ok = cons, freshness_ok = freshness,
          stability_permille = stability, safe = gate \<and> cons \<and> freshness\<rparr>)"

definition check_gate_view :: "u64 \<Rightarrow> xwap \<Rightarrow> bool" where
  "check_gate_view now s = fst (check_gate_internal now (xwap_price s) s)"

section \<open>Configuration (config.rs)\<close>

definition require_owner :: "ctx \<Rightarrow> xwap \<Rightarrow> 'a res \<Rightarrow> 'a res" where
  "require_owner c s k = bind_res (get_slot (xw_owner_address s)) (\<lambda>owner.
     require (caller c = owner) ''only owner'' k)"

definition set_gate_threshold :: "ctx \<Rightarrow> u64 \<Rightarrow> xwap \<Rightarrow> xwap res" where
  "set_gate_threshold c v s = not_payable c (require_owner c s (
     require (0 < v \<and> v < 1000) ''threshold out of range'' (Inr (s\<lparr>gate_threshold_permille := v\<rparr>))))"

definition set_alpha_bounds :: "ctx \<Rightarrow> u64 \<Rightarrow> u64 \<Rightarrow> xwap \<Rightarrow> xwap res" where
  "set_alpha_bounds c lo hi s = not_payable c (require_owner c s (
     require (lo < hi) ''min must be < max'' (
     require (hi \<le> 1000) ''max alpha cannot exceed 1.0'' (
     Inr (s\<lparr>alpha_min_x1000 := lo, alpha_max_x1000 := hi\<rparr>)))))"

definition set_trend_boost :: "ctx \<Rightarrow> u64 \<Rightarrow> xwap \<Rightarrow> xwap res" where
  "set_trend_boost c v s = not_payable c (require_owner c s (
     require (v \<le> 500) ''boost too high'' (Inr (s\<lparr>trend_boost_x1000 := v\<rparr>))))"

definition set_gate_boost :: "ctx \<Rightarrow> u64 \<Rightarrow> xwap \<Rightarrow> xwap res" where
  "set_gate_boost c v s = not_payable c (require_owner c s (
     require (v \<le> 500) ''boost too high'' (Inr (s\<lparr>gate_boost_x1000 := v\<rparr>))))"

definition set_freshness_blocks :: "ctx \<Rightarrow> u64 \<Rightarrow> xwap \<Rightarrow> xwap res" where
  "set_freshness_blocks c v s = not_payable c (require_owner c s (
     require (0 < v \<and> v \<le> 20) ''freshness out of range'' (Inr (s\<lparr>freshness_blocks := v\<rparr>))))"

definition set_consensus_min :: "ctx \<Rightarrow> u64 \<Rightarrow> xwap \<Rightarrow> xwap res" where
  "set_consensus_min c v s = not_payable c (require_owner c s (
     require (500 \<le> v \<and> v \<le> 1000) ''consensus out of range'' (Inr (s\<lparr>consensus_min_permille := v\<rparr>))))"

definition xw_register_keeper :: "ctx \<Rightarrow> address \<Rightarrow> xwap \<Rightarrow> xwap res" where
  "xw_register_keeper c k s = not_payable c (require_owner c s (
     Inr (keeper_registry_updated_event k True
       (s\<lparr>registered_keepers := us_insert k (registered_keepers s)\<rparr>))))"

definition xw_remove_keeper :: "ctx \<Rightarrow> address \<Rightarrow> xwap \<Rightarrow> xwap res" where
  "xw_remove_keeper c k s = not_payable c (require_owner c s (
     Inr (keeper_registry_updated_event k False
       (s\<lparr>registered_keepers := us_swap_remove k (registered_keepers s)\<rparr>))))"

definition set_pool_address :: "ctx \<Rightarrow> address \<Rightarrow> xwap \<Rightarrow> xwap res" where
  "set_pool_address c a s = not_payable c (require_owner c s (Inr (s\<lparr>pool_address := Some a\<rparr>)))"

section \<open>Views (views.rs)\<close>

definition get_xwap_price :: "xwap \<Rightarrow> nat" where
  "get_xwap_price s = xwap_price s"

definition get_xwap_price_integer :: "xwap \<Rightarrow> u64" where
  "get_xwap_price_integer s = unwrap_or (to_u64 (xwap_price s div SCALE)) 0"

definition get_alpha_view :: "xwap \<Rightarrow> u64" where
  "get_alpha_view s = alpha_x1000 s"

definition get_signals :: "u64 \<Rightarrow> xwap \<Rightarrow> xwap_signals" where
  "get_signals now s = compute_signals now s"

definition is_safe_to_execute :: "u64 \<Rightarrow> xwap \<Rightarrow> bool" where
  "is_safe_to_execute now s = safe (compute_signals now s)"

definition is_gate_open :: "u64 \<Rightarrow> xwap \<Rightarrow> bool" where
  "is_gate_open now s = check_gate_view now s"

definition xw_get_keeper_count :: "xwap \<Rightarrow> nat" where
  "xw_get_keeper_count s = length (registered_keepers s)"

definition get_median_off_chain_view :: "u64 \<Rightarrow> xwap \<Rightarrow> nat" where
  "get_median_off_chain_view now s = get_median_off_chain now s"

definition get_gate_threshold_view :: "xwap \<Rightarrow> u64" where
  "get_gate_threshold_view s = gate_threshold_permille s"

definition get_alpha_bounds :: "xwap \<Rightarrow> u64 \<times> u64" where
  "get_alpha_bounds s = (alpha_min_x1000 s, alpha_max_x1000 s)"

section \<open>Calls\<close>

datatype xwap_call =
    UpdatePrice nat nat
  | ReportPrice nat
  | SetGateThreshold u64
  | SetAlphaBounds u64 u64
  | SetTrendBoost u64
  | SetGateBoost u64
  | SetFreshnessBlocks u64
  | SetConsensusMin u64
  | XwRegisterKeeper address
  | XwRemoveKeeper address
  | SetPoolAddress address
  | XwUpgrade

primrec xwap_exec :: "ctx \<Rightarrow> xwap_call \<Rightarrow> xwap \<Rightarrow> xwap res" where
  "xwap_exec c (UpdatePrice a b) s = update_price c a b s"
| "xwap_exec c (ReportPrice p) s = report_price c p s"
| "xwap_exec c (SetGateThreshold v) s = set_gate_threshold c v s"
| "xwap_exec c (SetAlphaBounds lo hi) s = set_alpha_bounds c lo hi s"
| "xwap_exec c (SetTrendBoost v) s = set_trend_boost c v s"
| "xwap_exec c (SetGateBoost v) s = set_gate_boost c v s"
| "xwap_exec c (SetFreshnessBlocks v) s = set_freshness_blocks c v s"
| "xwap_exec c (SetConsensusMin v) s = set_consensus_min c v s"
| "xwap_exec c (XwRegisterKeeper k) s = xw_register_keeper c k s"
| "xwap_exec c (XwRemoveKeeper k) s = xw_remove_keeper c k s"
| "xwap_exec c (SetPoolAddress a) s = set_pool_address c a s"
| "xwap_exec c XwUpgrade s = only_owner c (Inr (xwap_upgrade s))"

inductive xwap_step :: "xwap \<Rightarrow> ctx \<times> xwap_call \<Rightarrow> xwap \<Rightarrow> bool" where
  xwap_call: "xwap_exec c l s = Inr t \<Longrightarrow> xwap_step s (c, l) t"

inductive_simps xwap_step_simps: "xwap_step s (c, l) t"

end
