(* ===== verification/Xwap_Properties.thy ===== *)
theory Xwap_Properties
  imports Xwap
begin

text \<open>
  Correctness of the XWAP oracle: the in-place insertion sort against the library's sort, the
  median against a majority of the reports, the adaptive average against the bounds the owner
  set, and the fail-safe reading of the market signals.
\<close>

section \<open>The insertion sort and the median\<close>

lemma insort_snoc_less: "y < x \<Longrightarrow> insort y (xs @ [x]) = insort y xs @ [x]" for x :: nat
  by (induction xs) auto

lemma insort_snoc_ge: "sorted (xs @ [x]) \<Longrightarrow> x \<le> y \<Longrightarrow> insort y (xs @ [x]) = xs @ [x, y]" for x :: nat
proof -
  assume a: "sorted (xs @ [x])" "x \<le> y"
  have "sorted (xs @ [x, y])" using a by (auto simp: sorted_append)
  then have "sort (xs @ [x, y]) = xs @ [x, y]" by (rule sorted_sort_id)
  moreover have "mset (insort y (xs @ [x])) = mset (xs @ [x, y])" by simp
  moreover have "sorted (insort y (xs @ [x]))" using a(1) by (simp add: sorted_insort)
  ultimately show ?thesis by (metis properties_for_sort)
qed

lemma sift_insort:
  "sorted xs \<Longrightarrow> sift (length xs) (xs @ y # zs) = insort y xs @ zs"
proof (induction xs arbitrary: zs rule: rev_induct)
  case Nil
  then show ?case by simp
next
  case (snoc x xs)
  have at: "(xs @ x # y # zs) ! length xs = x" "(xs @ x # y # zs) ! Suc (length xs) = y"
    by (simp_all add: nth_append)
  have sw: "(xs @ y # y # zs)[Suc (length xs) := x] = xs @ y # x # zs"
    by (simp add: list_update_append)
  show ?case
  proof (cases "y < x")
    case True
    have "sorted xs" using snoc.prems by (simp add: sorted_append)
    then show ?thesis using True snoc.IH [of "x # zs"] by (simp add: at sw Let_def insort_snoc_less)
  next
    case False
    then show ?thesis using snoc.prems by (simp add: at Let_def insort_snoc_ge)
  qed
qed

lemma insertion_sort_upto:
  "1 \<le> k \<Longrightarrow> k \<le> length ps \<Longrightarrow> foldl (\<lambda>ps i. sift i ps) ps [1..<k] = sort (take k ps) @ drop k ps"
proof (induction k rule: nat_induct_at_least)
  case base
  then show ?case by (cases ps) auto
next
  case (Suc k)
  then have k: "k < length ps" by simp
  have "sift (length (sort (take k ps))) (sort (take k ps) @ ps ! k # drop (Suc k) ps) =
      insort (ps ! k) (sort (take k ps)) @ drop (Suc k) ps"
    by (rule sift_insort) simp
  moreover have "sort (take (Suc k) ps) = insort (ps ! k) (sort (take k ps))"
    by (rule properties_for_sort) (simp_all add: take_Suc_conv_app_nth k sorted_insort)
  ultimately show ?case using Suc k by (simp add: Cons_nth_drop_Suc)
qed

lemma insertion_sort_sort: "insertion_sort ps = sort ps"
proof (cases "ps = []")
  case True
  then show ?thesis by (simp add: insertion_sort_def)
next
  case False
  then show ?thesis using insertion_sort_upto [of "length ps" ps]
    by (simp add: insertion_sort_def Suc_leI)
qed

lemma sorted_nth_ge:
  assumes "sorted xs" and "i < length xs" and "length (filter (\<lambda>x. x < lo) xs) \<le> i"
  shows "(lo::nat) \<le> xs ! i"
proof (rule ccontr)
  assume "\<not> lo \<le> xs ! i"
  then have "filter (\<lambda>x. x < lo) (take (Suc i) xs) = take (Suc i) xs"
    using assms(1,2) by (auto simp: filter_id_conv in_set_conv_nth sorted_iff_nth_mono)
      (meson less_Suc_eq_le order.strict_trans1 not_le sorted_nth_mono)
  then have "Suc i \<le> length (filter (\<lambda>x. x < lo) (take (Suc i) xs @ drop (Suc i) xs))"
    using assms(2) by (simp only: filter_append length_append) simp
  with assms(3) show False by simp
qed

lemma sorted_nth_le:
  assumes "sorted xs" and "i < length xs" and "length (filter (\<lambda>x. hi < x) xs) < length xs - i"
  shows "xs ! i \<le> (hi::nat)"
proof (rule ccontr)
  assume "\<not> xs ! i \<le> hi"
  then have "hi < xs ! (i + j)" if "i + j < length xs" for j
    using sorted_nth_mono [OF assms(1), of i "i + j"] that by simp
  then have "\<forall>x\<in>set (drop i xs). hi < x"
    using assms(2) by (auto simp: in_set_conv_nth less_diff_conv add.commute)
  then have "filter (\<lambda>x. hi < x) (drop i xs) = drop i xs" by simp
  then have "length xs - i \<le> length (filter (\<lambda>x. hi < x) (take i xs @ drop i xs))"
    by (simp only: filter_append length_append) simp
  with assms(3) show False by simp
qed

definition within :: "nat \<Rightarrow> nat \<Rightarrow> nat list \<Rightarrow> nat" where
  "within lo hi ps = length (filter (\<lambda>x. lo \<le> x \<and> x \<le> hi) ps)"

lemma filter_mset_length: "mset xs = mset ys \<Longrightarrow> length (filter P xs) = length (filter P ys)"
  by (metis mset_filter size_mset)

lemma outside_below: "length (filter (\<lambda>x. x < lo) ps) + within lo hi ps \<le> length ps" for lo :: nat
  by (induction ps) (auto simp: within_def)

lemma outside_above: "length (filter (\<lambda>x. hi < x) ps) + within lo hi ps \<le> length ps" for lo :: nat
  by (induction ps) (auto simp: within_def)

lemma median_majority:
  assumes "length ps < 2 * within lo hi ps"
  shows "lo \<le> median_sorted (sort ps) \<and> median_sorted (sort ps) \<le> hi"
proof -
  define qs where "qs = sort ps"
  have q: "sorted qs" "length qs = length ps" by (simp_all add: qs_def)
  have n: "length ps \<noteq> 0" using assms outside_below [of lo ps hi] by auto
  have lt: "length (filter (\<lambda>x. x < lo) qs) = length (filter (\<lambda>x. x < lo) ps)"
    and gt: "length (filter (\<lambda>x. hi < x) qs) = length (filter (\<lambda>x. hi < x) ps)"
    by (auto intro: filter_mset_length simp: qs_def)
  have lo: "lo \<le> qs ! i" if "length ps - within lo hi ps \<le> i" "i < length ps" for i
    using that outside_below [of lo ps hi] by (intro sorted_nth_ge) (simp_all add: q lt)
  have hi: "qs ! i \<le> hi" if "i < within lo hi ps" "i < length ps" for i
    using that outside_above [of hi ps lo] by (intro sorted_nth_le) (simp_all add: q gt)
  show ?thesis
  proof (cases "length ps mod 2 = 1")
    case True
    then have "length ps - within lo hi ps \<le> length ps div 2" "length ps div 2 < within lo hi ps"
      using assms by presburger+
    with lo hi n True show ?thesis by (simp add: median_sorted_def q flip: qs_def)
  next
    case False
    then have e: "2 * (length ps div 2) = length ps" by presburger
    let ?m = "length ps div 2"
    have m: "?m < length ps" "?m - 1 < length ps" "length ps - within lo hi ps \<le> ?m - 1"
      "?m < within lo hi ps" using assms n e by linarith+
    have "lo \<le> qs ! (?m - 1)" "lo \<le> qs ! ?m" "qs ! (?m - 1) \<le> hi" "qs ! ?m \<le> hi"
      using m by (auto intro!: lo hi)
    then have "lo \<le> (qs ! (?m - 1) + qs ! ?m) div 2" "(qs ! (?m - 1) + qs ! ?m) div 2 \<le> hi"
      by linarith+
    with False show ?thesis by (simp add: median_sorted_def q Let_def flip: qs_def)
  qed
qed

section \<open>Reports\<close>

lemma fresh_prices_alt:
  "fresh_prices now d m ks = map (\<lambda>k. kr_price (the (m k)))
     (filter (\<lambda>k. \<exists>r. m k = Some r \<and> is_fresh now d r) ks)"
  by (induction ks) (auto split: option.splits)

lemma fresh_prices_Nil_iff:
  "fresh_prices now d m ks = [] \<longleftrightarrow> (\<forall>k\<in>set ks. \<forall>r. m k = Some r \<longrightarrow> \<not> is_fresh now d r)"
  by (auto simp: fresh_prices_alt filter_empty_conv)

lemma check_freshness_list_iff:
  "check_freshness_list now d m ks \<longleftrightarrow> fresh_prices now d m ks \<noteq> []"
  by (induction ks) (auto simp: is_fresh_def split: option.splits)

lemma to_u64_less: "unwrap_or (to_u64 x) (- 1) < w \<longleftrightarrow> x < unat w"
proof (cases "x < 2 ^ 64")
  case True
  then show ?thesis
    by (simp add: to_u64_def unwrap_or_def word_less_nat_alt unsigned_of_nat take_bit_nat_eq_self)
next
  case False
  have "unat w < 2 ^ 64" by (rule order.strict_trans2 [OF unsigned_less]) simp
  moreover have "\<not> (- 1 :: u64) < w" by (simp add: not_less word_order.extremum)
  ultimately show ?thesis using False by (auto simp: to_u64_def unwrap_or_def)
qed

lemma to_u64_tolerance: "unwrap_or (to_u64 x) (- 1) \<le> CONSENSUS_TOLERANCE_PERMILLE \<longleftrightarrow> x \<le> 50"
proof -
  have "w \<le> CONSENSUS_TOLERANCE_PERMILLE \<longleftrightarrow> w < 51" for w :: u64
    by (simp add: CONSENSUS_TOLERANCE_PERMILLE_def word_le_nat_alt word_less_nat_alt)
      arith
  then show ?thesis by (simp add: to_u64_less) arith
qed

definition agrees :: "u64 \<Rightarrow> u64 \<Rightarrow> nat \<Rightarrow> (address \<rightharpoonup> keeper_price_report) \<Rightarrow> address \<Rightarrow> bool" where
  "agrees now d median m k \<longleftrightarrow>
     (case m k of None \<Rightarrow> False | Some r \<Rightarrow> is_fresh now d r \<and> rel_permille (kr_price r) median \<le> 50)"

lemma count_agreeing_eq:
  "count_agreeing now d median m ks n = n + of_nat (length (filter (agrees now d median m) ks))"
  by (induction ks arbitrary: n)
    (auto simp: agrees_def is_fresh_def not_le to_u64_tolerance Let_def split: option.splits)

lemma rel_permille_less:
  assumes "rel_permille x r < t" and "0 < r"
  shows "x * 1000 < r * (1000 + t)" and "r * 1000 < x * 1000 + t * r"
  using assms by (auto simp: rel_permille_def div_less_iff_less_mult algebra_simps split: if_splits)

lemma permille_u64:
  assumes "n < 2 ^ 32" and "k \<le> n" and "n \<noteq> 0"
  shows "unat (of_nat k * 1000 div of_nat n :: u64) = k * 1000 div n"
proof -
  have "unat (of_nat k * 1000 :: u64) = k * 1000" "unat (of_nat n :: u64) = n"
    using assms by (simp_all add: unat_word_ariths unsigned_of_nat take_bit_nat_eq_self)
  then show ?thesis by (simp add: unat_div)
qed

section \<open>Invariant\<close>

definition xwap_inv :: "xwap \<Rightarrow> bool" where
  "xwap_inv s \<longleftrightarrow> alpha_min_x1000 s < alpha_max_x1000 s \<and> alpha_max_x1000 s \<le> 1000 \<and>
     trend_boost_x1000 s \<le> 500 \<and> gate_boost_x1000 s \<le> 500 \<and>
     0 < gate_threshold_permille s \<and> gate_threshold_permille s < 1000 \<and>
     0 < freshness_blocks s \<and> freshness_blocks s \<le> 20 \<and>
     500 \<le> consensus_min_permille s \<and> consensus_min_permille s \<le> 1000 \<and>
     distinct (registered_keepers s) \<and>
     (\<forall>k r. keeper_report_of s k = Some r \<longrightarrow> 0 < kr_price r) \<and>
     price_history_idx s < 10"

lemma xwap_init_inv: "xwap_inv (xwap_init c pool)"
  by (simp add: xwap_inv_def xwap_init_def)

lemma require_owner_eq_Inr [res_simps]:
  "require_owner c s k = Inr x \<longleftrightarrow> xw_owner_address s = Some (caller c) \<and> k = Inr x"
  by (auto simp: require_owner_def res_simps)

lemma u64_mod_10: "(w :: u64) mod 10 < 10"
  by (simp add: word_less_nat_alt unat_mod)

text \<open>
  The state after an update, given the alpha and the events: the body of \<open>update_price\<close>
  without its guards.
\<close>

definition priced :: "nat \<Rightarrow> nat \<Rightarrow> u64 \<Rightarrow> effect list \<Rightarrow> xwap \<Rightarrow> xwap" where
  "priced a b alpha es s = (let u = update_ewma_reserves (a * SCALE) (b * SCALE) alpha s;
       p = ewma_reserve_b u * SCALE div ewma_reserve_a u
     in u\<lparr>price_history := (price_history s)(price_history_idx s := p),
          price_history_idx := (price_history_idx s + 1) mod 10, update_count := update_count s + 1,
          prev_xwap_price := xwap_price s, xwap_price := p, alpha_x1000 := alpha,
          outbox := outbox s @ es\<rparr>)"

lemma update_price_priced:
  assumes "egld_value c = 0" and "esdt_transfers c = []" and "0 < a" and "0 < b"
    and "check_gate_internal (block_nonce c) (b * SCALE div a) s = (gate, d)"
    and "0 < ewma_reserve_a (update_ewma_reserves (a * SCALE) (b * SCALE) (compute_alpha gate s) s)"
  shows "\<exists>es. update_price c a b s = Inr (priced a b (compute_alpha gate s) es s)"
proof -
  define u where "u = update_ewma_reserves (a * SCALE) (b * SCALE) (compute_alpha gate s) s"
  have ud: "gate = g \<Longrightarrow> update_ewma_reserves (a * SCALE) (b * SCALE) (compute_alpha g s) s = u" for g
    by (simp add: u_def)
  have u: "price_history u = price_history s" "price_history_idx u = price_history_idx s"
    "update_count u = update_count s" "xwap_price u = xwap_price s" "outbox u = outbox s"
    by (simp_all add: u_def update_ewma_reserves_def Let_def)
  have "0 < ewma_reserve_a u" using assms(6) by (simp add: u_def)
  with assms(1-5) show ?thesis
    by (cases gate) (simp add: update_price_def not_payable_def Let_def xwap_event_defs
        HISTORY_LEN_def priced_def ud u, rule exI, rule refl)+
qed

lemma update_price_Inr:
  assumes "update_price c a b s = Inr t"
  obtains gate es where "0 < a" "0 < b" "t = priced a b (compute_alpha gate s) es s"
proof -
  obtain gate d where g: "check_gate_internal (block_nonce c) (b * SCALE div a) s = (gate, d)"
    by (cases "check_gate_internal (block_nonce c) (b * SCALE div a) s")
  have pre: "egld_value c = 0" "esdt_transfers c = []" "0 < a" "0 < b"
    "0 < ewma_reserve_a (update_ewma_reserves (a * SCALE) (b * SCALE) (compute_alpha gate s) s)"
    using assms unfolding update_price_def by (simp_all only: res_simps Let_def g prod.case)
  then obtain es where "update_price c a b s = Inr (priced a b (compute_alpha gate s) es s)"
    using update_price_priced [OF _ _ _ _ g] by blast
  with assms have "t = priced a b (compute_alpha gate s) es s" by simp
  with pre(3,4) show ?thesis by (rule that)
qed

lemma priced_inv: "xwap_inv s \<Longrightarrow> xwap_inv (priced a b alpha es s)"
  using u64_mod_10 [of "price_history_idx s + 1"]
  by (simp add: xwap_inv_def priced_def Let_def update_ewma_reserves_def)

lemma update_price_inv:
  assumes "update_price c a b s = Inr t" and "xwap_inv s"
  shows "xwap_inv t"
  using assms(1) by (rule update_price_Inr) (simp add: priced_inv assms(2))

lemma xwap_step_inv:
  assumes "xwap_step s l t" and "xwap_inv s"
  shows "xwap_inv t"
proof -
  obtain c k where l: "l = (c, k)" by (cases l)
  have x: "xwap_exec c k s = Inr t" using assms(1) by (simp add: l xwap_step_simps)
  show ?thesis
    by (cases k; insert x assms(2); auto dest: update_price_inv
        simp: report_price_def set_gate_threshold_def set_alpha_bounds_def set_trend_boost_def
        set_gate_boost_def set_freshness_blocks_def set_consensus_min_def xw_register_keeper_def
        xw_remove_keeper_def set_pool_address_def xwap_upgrade_def res_simps Let_def xwap_event_defs
        xwap_inv_def us.invar_ins us.invar_del split: if_splits)
qed

interpretation xwap_config: invariant_system xwap_step "\<lambda>_. True" xwap_inv
  by unfold_locales (rule xwap_step_inv)

lemma xwap_reachable_inv: "run xwap_step (xwap_init c pool) ls s \<Longrightarrow> xwap_inv s"
  using xwap_config.run_inv [OF _ _ xwap_init_inv] by (simp add: list_all_iff)

section \<open>The adaptive average\<close>

lemma boost_bounds:
  assumes "lo \<le> a" and "a \<le> hi" and "hi \<le> 1000" and "b \<le> (500 :: u64)"
  shows "lo \<le> min (a + b) hi"
proof -
  have "unat a \<le> 1000" "unat b \<le> 500" using assms by (simp_all add: word_le_nat_alt)
  then have "unat (a + b) = unat a + unat b" by (simp add: unat_word_ariths)
  then show ?thesis using assms by (simp add: min_def word_le_nat_alt)
qed

lemma compute_alpha_bounds:
  assumes "xwap_inv s"
  shows "alpha_min_x1000 s \<le> compute_alpha gate s" and "compute_alpha gate s \<le> alpha_max_x1000 s"
proof -
  have inv: "alpha_min_x1000 s < alpha_max_x1000 s" "alpha_max_x1000 s \<le> 1000"
    "trend_boost_x1000 s \<le> 500" "gate_boost_x1000 s \<le> 500"
    using assms by (simp_all add: xwap_inv_def)
  define v where "v = max (min (unwrap_or (to_u64 (rel_permille (xwap_price s) (prev_xwap_price s)))
    (alpha_max_x1000 s * 1000 div 3) * 3) (alpha_max_x1000 s)) (alpha_min_x1000 s)"
  have v: "alpha_min_x1000 s \<le> v" "v \<le> alpha_max_x1000 s" using inv(1) by (simp_all add: v_def)
  define w where "w = (if detect_trend s then min (v + trend_boost_x1000 s) (alpha_max_x1000 s) else v)"
  have w: "alpha_min_x1000 s \<le> w" "w \<le> alpha_max_x1000 s"
    using v boost_bounds [OF v inv(2,3)] by (simp_all add: w_def)
  have a: "compute_alpha gate s = (if update_count s < 5 \<or> prev_xwap_price s = 0 then alpha_min_x1000 s
      else if gate then min (w + gate_boost_x1000 s) (alpha_max_x1000 s) else w)"
    by (simp add: compute_alpha_def Let_def v_def w_def)
  show "alpha_min_x1000 s \<le> compute_alpha gate s" "compute_alpha gate s \<le> alpha_max_x1000 s"
    using w inv(1) boost_bounds [OF w inv(2,4)] by (auto simp: a)
qed

text \<open>
  A value that moves from \<open>old\<close> towards \<open>target\<close> by at most \<open>k\<close> thousandths of the
  distance, up to rounding down; an average that is still zero is seeded with the target.
\<close>

definition moves_towards :: "nat \<Rightarrow> nat \<Rightarrow> nat \<Rightarrow> nat \<Rightarrow> bool" where
  "moves_towards k old target new \<longleftrightarrow>
     (if old = 0 then new = target
      else if old \<le> target
        then old \<le> new \<and> new \<le> target \<and> (new - old) * 1000 \<le> k * (target - old)
      else target \<le> new \<and> new \<le> old \<and> (old - new) * 1000 \<le> k * (old - target) + 999)"

lemma ewma_up:
  fixes x k old d :: nat
  assumes "x \<le> k" and "k \<le> 1000"
  shows "(x * (old + d) + (1000 - x) * old) div 1000 = old + x * d div 1000"
    and "x * d div 1000 \<le> d" and "x * d div 1000 * 1000 \<le> k * d"
proof -
  have "x * (old + d) + (1000 - x) * old = (x + (1000 - x)) * old + x * d"
    by (simp only: distrib_left distrib_right)
  also have "\<dots> = old * 1000 + x * d" using assms by simp
  finally show "(x * (old + d) + (1000 - x) * old) div 1000 = old + x * d div 1000" by simp
  have "x * d \<le> d * 1000" using assms by (simp add: mult.commute)
  then show "x * d div 1000 \<le> d" using div_le_mono [of "x * d" "d * 1000" 1000] by simp
  have "x * d div 1000 * 1000 \<le> x * d" by simp
  also have "\<dots> \<le> k * d" using assms by simp
  finally show "x * d div 1000 * 1000 \<le> k * d" .
qed

lemma ewma_moves:
  assumes "x \<le> k" and "k \<le> 1000"
  shows "moves_towards k old target
     (if old = 0 then target else (x * target + (1000 - x) * old) div 1000)"
proof (cases "old \<le> target")
  case True
  then obtain d where d: "target = old + d" using le_Suc_ex by blast
  show ?thesis
    using ewma_up(1) [OF assms, of old d] ewma_up(2,3) [OF assms, of d] by (simp add: moves_towards_def d)
next
  case False
  then obtain d where d: "old = target + d" by (metis le_Suc_ex nat_le_linear)
  have x: "1000 - x \<le> 1000" by simp
  have sw: "(x * target + (1000 - x) * (target + d)) div 1000 = target + (1000 - x) * d div 1000"
    using ewma_up(1) [OF x le_refl, of target d] assms by (simp add: add.commute)
  have "((1000 - x) * d) + x * d = d * 1000" using assms by (simp flip: distrib_right)
  moreover have "(1000 - x) * d < (1000 - x) * d div 1000 * 1000 + 1000"
    using div_mult_mod_eq [of "(1000 - x) * d" 1000] by (metis add_strict_left_mono mod_less_divisor zero_less_numeral)
  ultimately have "(d - (1000 - x) * d div 1000) * 1000 \<le> x * d + 999" by (simp add: diff_mult_distrib)
  also have "\<dots> \<le> k * d + 999" using assms by simp
  finally show ?thesis
    using False ewma_up(2) [OF x le_refl, of d] by (simp add: moves_towards_def d sw)
qed

lemma moves_towards_pos: "moves_towards k old target new \<Longrightarrow> 0 < target \<Longrightarrow> 0 < new"
  by (auto simp: moves_towards_def split: if_splits)

lemma update_ewma_moves:
  assumes "xwap_inv s"
  shows "moves_towards (unat (alpha_max_x1000 s)) (ewma_reserve_a s) ra
      (ewma_reserve_a (update_ewma_reserves ra rb (compute_alpha gate s) s))"
    and "moves_towards (unat (alpha_max_x1000 s)) (ewma_reserve_b s) rb
      (ewma_reserve_b (update_ewma_reserves ra rb (compute_alpha gate s) s))"
proof -
  have le: "compute_alpha gate s \<le> alpha_max_x1000 s" "alpha_max_x1000 s \<le> 1000"
    using assms compute_alpha_bounds [OF assms] by (simp_all add: xwap_inv_def)
  then have u: "unat (compute_alpha gate s) \<le> unat (alpha_max_x1000 s)" "unat (alpha_max_x1000 s) \<le> 1000"
    by (simp_all add: word_le_nat_alt)
  have "unat (1000 - compute_alpha gate s) = 1000 - unat (compute_alpha gate s)"
    using le by (simp add: unat_sub)
  then show "moves_towards (unat (alpha_max_x1000 s)) (ewma_reserve_a s) ra
      (ewma_reserve_a (update_ewma_reserves ra rb (compute_alpha gate s) s))"
    "moves_towards (unat (alpha_max_x1000 s)) (ewma_reserve_b s) rb
      (ewma_reserve_b (update_ewma_reserves ra rb (compute_alpha gate s) s))"
    using ewma_moves [OF u, of "ewma_reserve_a s" ra] ewma_moves [OF u, of "ewma_reserve_b s" rb]
    by (simp_all add: update_ewma_reserves_def Let_def ALPHA_SCALE_def split: if_splits)
qed

section \<open>Properties\<close>

text \<open>The contract with one registered keeper that reported a price of two in block nine.\<close>

definition xwap_ctx :: "address \<Rightarrow> u64 \<Rightarrow> ctx" where
  "xwap_ctx a block = \<lparr>caller = a, owner_address = 100, sc_address = 3, egld_value = 0,
     esdt_transfers = [], block_timestamp = 0, block_round = 0, block_nonce = block, gas_left = 0,
     random_seed = [], egld_beside_tokens = True\<rparr>"

definition reported_xwap :: xwap where
  "reported_xwap = (xwap_init (xwap_ctx 100 0) 7)\<lparr>registered_keepers := [50],
     keeper_report_of := [50 \<mapsto> \<lparr>kr_price = 2 * SCALE, kr_block = 9\<rparr>],
     outbox := [Event ''keeper_registry_updated'' [AAddr 50, ABool True],
                Event ''keeper_reported'' [AAddr 50, ANat (2 * SCALE), AU64 9]]\<rparr>"

lemma reported_xwap_run:
  "run xwap_step (xwap_init (xwap_ctx 100 0) 7)
     [(xwap_ctx 100 8, XwRegisterKeeper 50), (xwap_ctx 50 9, ReportPrice (2 * SCALE))] reported_xwap"
proof -
  define u where "u = (xwap_init (xwap_ctx 100 0) 7)\<lparr>registered_keepers := [50],
    outbox := [Event ''keeper_registry_updated'' [AAddr 50, ABool True]]\<rparr>"
  have "xw_register_keeper (xwap_ctx 100 8) 50 (xwap_init (xwap_ctx 100 0) 7) = Inr u"
    by (simp add: xw_register_keeper_def not_payable_def require_owner_def xwap_event_defs u_def
        xwap_init_def xwap_ctx_def us_insert_def)
  moreover have "report_price (xwap_ctx 50 9) (2 * SCALE) u = Inr reported_xwap"
    by (simp add: report_price_def not_payable_def xwap_event_defs u_def reported_xwap_def
        xwap_init_def xwap_ctx_def Let_def SCALE_def)
  ultimately show ?thesis by (auto intro!: run.intros xwap_step.intros)
qed

text \<open>
  C20. The median. After every history of calls the off-chain median is zero exactly when no
  registered keeper has a fresh report; otherwise it is the median of the fresh prices in
  ascending order, and whenever a strict majority of the fresh reports lie in an interval so
  does the median, whatever the others report.
\<close>

theorem median_is_robust:
  assumes "run xwap_step (xwap_init c pool) ls s"
    and "ps = fresh_prices now (freshness_blocks s) (keeper_report_of s) (registered_keepers s)"
  shows "(get_median_off_chain now s = 0 \<longleftrightarrow> ps = []) \<and>
     (ps \<noteq> [] \<longrightarrow> get_median_off_chain now s = median_sorted (sort ps)) \<and>
     (length ps < 2 * within lo hi ps \<longrightarrow>
        lo \<le> get_median_off_chain now s \<and> get_median_off_chain now s \<le> hi)"
proof -
  have m: "get_median_off_chain now s = (if ps = [] then 0 else median_sorted (sort ps))"
    by (simp add: get_median_off_chain_def Let_def insertion_sort_sort assms(2))
  have "\<forall>p\<in>set ps. 0 < p"
    using xwap_reachable_inv [OF assms(1)] by (auto simp: assms(2) fresh_prices_alt xwap_inv_def)
  then have "filter (\<lambda>x. 1 \<le> x \<and> x \<le> Max (set ps)) ps = ps" by (auto simp: filter_id_conv Suc_le_eq)
  then have "within 1 (Max (set ps)) ps = length ps" by (simp add: within_def)
  then have "ps \<noteq> [] \<Longrightarrow> 0 < median_sorted (sort ps)"
    using median_majority [of ps 1 "Max (set ps)"] by fastforce
  then show ?thesis using m median_majority [of ps lo hi] by (auto simp: within_def)
qed

theorem median_is_robust_witness:
  "get_median_off_chain 10 reported_xwap = median_sorted (sort [2 * SCALE]) \<and>
   SCALE \<le> get_median_off_chain 10 reported_xwap \<and> get_median_off_chain 10 reported_xwap \<le> 3 * SCALE"
proof -
  have "[2 * SCALE] = fresh_prices 10 (freshness_blocks reported_xwap) (keeper_report_of reported_xwap)
      (registered_keepers reported_xwap)"
    by (simp add: reported_xwap_def xwap_init_def is_fresh_def saturating_sub_def)
  from median_is_robust [OF reported_xwap_run this, of SCALE "3 * SCALE"] show ?thesis
    by (simp add: within_def SCALE_def)
qed

text \<open>
  C21. One update of the price. After every history of calls, an update with positive reserves
  succeeds; the weight it uses lies between the configured bounds. The first update, whoever
  makes it, sets the two averages to its own reserves, and they are positive from then on. Every
  later update moves each average towards the new reserve without overshooting, by at most the
  configured maximum share of the distance, where a downward move may be longer by less than one
  unit of the scaled amount because the new average is rounded down: one update with manipulated
  reserves cannot move an average that is set any further.
\<close>

theorem update_price_bounded:
  assumes "run xwap_step (xwap_init c0 pool) ls s"
    and "0 < a" and "0 < b" and "egld_value c = 0" and "esdt_transfers c = []"
  shows "\<exists>t. update_price c a b s = Inr t \<and>
     alpha_min_x1000 s \<le> alpha_x1000 t \<and> alpha_x1000 t \<le> alpha_max_x1000 s \<and>
     moves_towards (unat (alpha_max_x1000 s)) (ewma_reserve_a s) (a * SCALE) (ewma_reserve_a t) \<and>
     moves_towards (unat (alpha_max_x1000 s)) (ewma_reserve_b s) (b * SCALE) (ewma_reserve_b t) \<and>
     0 < ewma_reserve_a t \<and> 0 < ewma_reserve_b t \<and> alpha_max_x1000 t = alpha_max_x1000 s \<and>
     xwap_price t = ewma_reserve_b t * SCALE div ewma_reserve_a t \<and> prev_xwap_price t = xwap_price s"
proof -
  have inv: "xwap_inv s" using assms(1) by (rule xwap_reachable_inv)
  obtain gate d where g: "check_gate_internal (block_nonce c) (b * SCALE div a) s = (gate, d)"
    by (cases "check_gate_internal (block_nonce c) (b * SCALE div a) s")
  have pos: "0 < ewma_reserve_a (update_ewma_reserves (a * SCALE) (b * SCALE) (compute_alpha gate s) s)"
    using assms(2) by (intro moves_towards_pos [OF update_ewma_moves(1) [OF inv]]) (simp add: SCALE_def)
  have pos_b: "0 < ewma_reserve_b (update_ewma_reserves (a * SCALE) (b * SCALE) (compute_alpha gate s) s)"
    using assms(3) by (intro moves_towards_pos [OF update_ewma_moves(2) [OF inv]]) (simp add: SCALE_def)
  have keep: "alpha_max_x1000 (update_ewma_reserves (a * SCALE) (b * SCALE) (compute_alpha gate s) s) = alpha_max_x1000 s"
    by (simp add: update_ewma_reserves_def Let_def)
  obtain es where "update_price c a b s = Inr (priced a b (compute_alpha gate s) es s)"
    using update_price_priced [OF assms(4,5,2,3) g pos] ..
  then show ?thesis
    using update_ewma_moves(1) [OF inv, of "a * SCALE" "b * SCALE" gate]
      update_ewma_moves(2) [OF inv, of "b * SCALE" "a * SCALE" gate] compute_alpha_bounds [OF inv] pos pos_b keep
    by (simp add: priced_def Let_def)
qed

text \<open>
  Two updates: the second, with ten times the reserve of the first, moves the average by at most
  seven tenths of the distance.
\<close>

theorem update_price_bounded_witness:
  "\<exists>t u. update_price (xwap_ctx 9 10) 5 10 reported_xwap = Inr t \<and> ewma_reserve_a t = 5 * SCALE \<and>
     update_price (xwap_ctx 9 11) 50 10 t = Inr u \<and> 5 * SCALE \<le> ewma_reserve_a u \<and>
     (ewma_reserve_a u - 5 * SCALE) * 1000 \<le> 700 * (45 * SCALE)"
proof -
  have free: "egld_value (xwap_ctx a n) = 0" "esdt_transfers (xwap_ctx a n) = []" for a n
    by (simp_all add: xwap_ctx_def)
  obtain t where t: "update_price (xwap_ctx 9 10) 5 10 reported_xwap = Inr t"
    "ewma_reserve_a t = 5 * SCALE" "alpha_max_x1000 t = 700"
    using update_price_bounded [OF reported_xwap_run _ _ free, of 5 10 9 10]
    by (auto simp: moves_towards_def reported_xwap_def xwap_init_def)
  have "run xwap_step (xwap_init (xwap_ctx 100 0) 7) ([(xwap_ctx 100 8, XwRegisterKeeper 50),
      (xwap_ctx 50 9, ReportPrice (2 * SCALE))] @ [(xwap_ctx 9 10, UpdatePrice 5 10)]) t"
    by (rule run_append [OF reported_xwap_run]) (auto intro!: run.intros xwap_step.intros simp: t(1))
  from update_price_bounded [OF this _ _ free, of 50 10 9 11] obtain u where
    u: "update_price (xwap_ctx 9 11) 50 10 t = Inr u" "moves_towards 700 (5 * SCALE) (50 * SCALE) (ewma_reserve_a u)"
    by (auto simp: t(2,3))
  have "5 * SCALE \<le> ewma_reserve_a u \<and> (ewma_reserve_a u - 5 * SCALE) * 1000 \<le> 700 * (45 * SCALE)"
    using u(2) by (simp add: moves_towards_def SCALE_def)
  with t u show ?thesis by blast
qed

text \<open>
  The market signal fails safe. After every history of calls, with no fresh report the
  oracle never says that the market is safe; when it says so, the configured share of all
  registered keepers have a fresh report within five percent of the median, the price is
  within the gate threshold of the median, and hence within the threshold of every interval
  that holds a strict majority of the fresh reports.
\<close>

theorem safe_market_agrees:
  assumes "run xwap_step (xwap_init c pool) ls s" and "length (registered_keepers s) < 2 ^ 32"
    and "ps = fresh_prices now (freshness_blocks s) (keeper_report_of s) (registered_keepers s)"
    and "m = get_median_off_chain now s" and "thr = unat (gate_threshold_permille s)"
  shows "(ps = [] \<longrightarrow> \<not> is_safe_to_execute now s) \<and>
     (is_safe_to_execute now s \<longrightarrow>
        0 < m \<and> xwap_price s * 1000 < m * (1000 + thr) \<and> m * (1000 - thr) < xwap_price s * 1000 \<and>
        unat (consensus_min_permille s) * length (registered_keepers s) \<le>
          1000 * length (filter (agrees now (freshness_blocks s) m (keeper_report_of s)) (registered_keepers s)) \<and>
        (length ps < 2 * within lo hi ps \<longrightarrow>
           lo * (1000 - thr) \<le> xwap_price s * 1000 \<and> xwap_price s * 1000 < hi * (1000 + thr)))"
proof -
  have m: "get_median_off_chain now s = (if ps = [] then 0 else median_sorted (sort ps))"
    by (simp add: get_median_off_chain_def Let_def insertion_sort_sort assms(3))
  have bounds: "lo \<le> m \<and> m \<le> hi" if "length ps < 2 * within lo hi ps"
    using that median_majority [of ps lo hi] m by (auto simp: within_def assms(4))
  have safe: "0 < m \<and> xwap_price s * 1000 < m * (1000 + thr) \<and> m * (1000 - thr) < xwap_price s * 1000 \<and>
      unat (consensus_min_permille s) * length (registered_keepers s) \<le>
        1000 * length (filter (agrees now (freshness_blocks s) m (keeper_report_of s)) (registered_keepers s))"
    if sf: "is_safe_to_execute now s"
  proof -
    have thr: "thr \<le> 1000"
      using xwap_reachable_inv [OF assms(1)] by (simp add: xwap_inv_def word_less_nat_alt assms(5))
    let ?n = "length (registered_keepers s)"
    let ?g = "length (filter (agrees now (freshness_blocks s) m (keeper_report_of s)) (registered_keepers s))"
    have gate: "fst (check_gate_internal now (xwap_price s) s)" and cons: "check_consensus now s"
      using sf by (simp_all add: is_safe_to_execute_def compute_signals_def Let_def)
    have m0: "0 < m" and rel: "rel_permille (xwap_price s) m < thr"
      using gate by (auto simp: check_gate_internal_def Let_def to_u64_less assms(4,5) split: if_splits)
    have n0: "?n \<noteq> 0" and "consensus_min_permille s \<le> of_nat ?g * 1000 div of_nat ?n"
      using cons by (auto simp: check_consensus_def Let_def count_agreeing_eq assms(4) split: if_splits)
    then have "unat (consensus_min_permille s) \<le> ?g * 1000 div ?n"
      using permille_u64 [OF assms(2) _ n0, of ?g] by (simp add: word_le_nat_alt)
    then have "unat (consensus_min_permille s) * ?n \<le> 1000 * ?g"
      using n0 by (simp add: less_eq_div_iff_mult_less_eq mult.commute)
    moreover have "m * (1000 - thr) < xwap_price s * 1000"
    proof -
      have "m * thr \<le> m * 1000" using thr by simp
      with rel_permille_less(2) [OF rel m0] show ?thesis
        unfolding diff_mult_distrib2 mult.commute [of thr m] by linarith
    qed
    ultimately show ?thesis using m0 rel_permille_less [OF rel m0] by simp
  qed
  have major: "lo * (1000 - thr) \<le> m * (1000 - thr) \<and> m * (1000 + thr) \<le> hi * (1000 + thr)"
    if "length ps < 2 * within lo hi ps" using bounds [OF that] by (intro conjI mult_le_mono1) simp_all
  have "\<not> is_safe_to_execute now s" if "ps = []" using safe that m by (auto simp: assms(4))
  moreover have "lo * (1000 - thr) \<le> xwap_price s * 1000 \<and> xwap_price s * 1000 < hi * (1000 + thr)"
    if "is_safe_to_execute now s" "length ps < 2 * within lo hi ps"
    using safe [OF that(1)] major [OF that(2)] by linarith
  ultimately show ?thesis using safe by blast
qed

text \<open>The same contract after somebody fed reserves with a spot price of two.\<close>

definition safe_xwap :: "effect list \<Rightarrow> xwap" where
  "safe_xwap es = priced 5 10 50 es reported_xwap"

lemma reported_xwap_median [simp]: "get_median_off_chain now reported_xwap =
   (if saturating_sub now 9 \<le> 2 then 2 * SCALE else 0)"
  by (simp add: get_median_off_chain_def reported_xwap_def xwap_init_def is_fresh_def
      insertion_sort_def median_sorted_def Let_def)

lemma safe_xwap_run:
  "\<exists>es. run xwap_step (xwap_init (xwap_ctx 100 0) 7)
     [(xwap_ctx 100 8, XwRegisterKeeper 50), (xwap_ctx 50 9, ReportPrice (2 * SCALE)),
      (xwap_ctx 9 10, UpdatePrice 5 10)] (safe_xwap es)"
proof -
  have gate: "check_gate_internal (block_nonce (xwap_ctx 9 10)) (10 * SCALE div 5) reported_xwap = (True, 0)"
    by (simp add: check_gate_internal_def Let_def saturating_sub_def rel_permille_def to_u64_def
        unwrap_or_def xwap_ctx_def SCALE_def) (simp add: reported_xwap_def xwap_init_def)
  have alpha: "compute_alpha True reported_xwap = 50"
    by (simp add: compute_alpha_def Let_def reported_xwap_def xwap_init_def)
  have pos: "0 < ewma_reserve_a (update_ewma_reserves (5 * SCALE) (10 * SCALE)
      (compute_alpha True reported_xwap) reported_xwap)"
    by (simp add: update_ewma_reserves_def Let_def reported_xwap_def xwap_init_def SCALE_def)
  have "\<exists>es. update_price (xwap_ctx 9 10) 5 10 reported_xwap = Inr (safe_xwap es)"
    using update_price_priced [OF _ _ _ _ gate pos] by (simp add: alpha safe_xwap_def xwap_ctx_def)
  then obtain es where "update_price (xwap_ctx 9 10) 5 10 reported_xwap = Inr (safe_xwap es)" ..
  then have "run xwap_step reported_xwap [(xwap_ctx 9 10, UpdatePrice 5 10)] (safe_xwap es)"
    by (auto intro!: run.intros xwap_step.intros)
  from run_append [OF reported_xwap_run this] show ?thesis unfolding append.simps by (rule exI)
qed

lemma safe_xwap_fields:
  "registered_keepers (safe_xwap es) = [50]" "freshness_blocks (safe_xwap es) = 2"
  "keeper_report_of (safe_xwap es) = [50 \<mapsto> \<lparr>kr_price = 2 * SCALE, kr_block = 9\<rparr>]"
  "gate_threshold_permille (safe_xwap es) = 100" "consensus_min_permille (safe_xwap es) = 800"
  "xwap_price (safe_xwap es) = 2 * SCALE"
  by (simp_all add: safe_xwap_def priced_def Let_def update_ewma_reserves_def reported_xwap_def
      xwap_init_def SCALE_def)

lemma safe_xwap_safe: "is_safe_to_execute 11 (safe_xwap es)"
  by (simp add: is_safe_to_execute_def compute_signals_def Let_def check_gate_internal_def
      check_consensus_def check_freshness_internal_def get_median_off_chain_def insertion_sort_def
      median_sorted_def is_fresh_def saturating_sub_def rel_permille_def to_u64_def unwrap_or_def
      CONSENSUS_TOLERANCE_PERMILLE_def SCALE_def safe_xwap_fields)

theorem safe_market_agrees_witness:
  "\<exists>s. is_safe_to_execute 11 s \<and> \<not> is_safe_to_execute 12 s \<and> SCALE * 900 \<le> xwap_price s * 1000"
proof -
  obtain es where r: "run xwap_step (xwap_init (xwap_ctx 100 0) 7)
     [(xwap_ctx 100 8, XwRegisterKeeper 50), (xwap_ctx 50 9, ReportPrice (2 * SCALE)),
      (xwap_ctx 9 10, UpdatePrice 5 10)] (safe_xwap es)" using safe_xwap_run ..
  have n: "length (registered_keepers (safe_xwap es)) < 2 ^ 32" by (simp add: safe_xwap_fields)
  have "fresh_prices 12 2 [50 \<mapsto> \<lparr>kr_price = 2 * SCALE, kr_block = 9\<rparr>] [50] = []"
    "fresh_prices 11 2 [50 \<mapsto> \<lparr>kr_price = 2 * SCALE, kr_block = 9\<rparr>] [50] = [2 * SCALE]"
    by (simp_all add: is_fresh_def saturating_sub_def)
  then have "\<not> is_safe_to_execute 12 (safe_xwap es)" "SCALE * 900 \<le> xwap_price (safe_xwap es) * 1000"
    using safe_xwap_safe [of es] safe_market_agrees [OF r n refl refl refl, of 12]
      safe_market_agrees [OF r n refl refl refl, of 11 SCALE "3 * SCALE"]
    by (simp_all add: safe_xwap_fields within_def SCALE_def)
  with safe_xwap_safe show ?thesis by blast
qed

end
