(* ===== verification/Async.thy ===== *)
theory Async
  imports Runtime
begin

text \<open>
  Asynchronous calls with a callback (\<open>register_promise\<close>). A registered call is an entry of
  the state of the contract: where it goes, what it carries, and the callback with its captured
  arguments. Its value leaves the contract at once. The network delivers the results in any
  order, as steps of their own; a call that fails brings its value back, a call that succeeds
  brings back whatever the callee sends.
\<close>

record 'cb promise =
  pr_to :: address
  pr_endpoint :: bytes
  pr_args :: "arg list"
  pr_egld :: nat
  pr_esdt :: "esdt_payment list"
  pr_gas :: u64
  pr_callback :: 'cb

record async_result =
  ar_ok :: bool
  ar_egld :: nat
  ar_esdt :: "esdt_payment list"

definition failed :: async_result where
  "failed = \<lparr>ar_ok = False, ar_egld = 0, ar_esdt = []\<rparr>"

definition succeeded :: "nat \<Rightarrow> async_result" where
  "succeeded x = \<lparr>ar_ok = True, ar_egld = x, ar_esdt = []\<rparr>"

definition egld_back :: "'cb promise \<Rightarrow> async_result \<Rightarrow> nat" where
  "egld_back p r = (if ar_ok r then ar_egld r else pr_egld p)"

definition esdt_back :: "'cb promise \<Rightarrow> async_result \<Rightarrow> esdt_payment list" where
  "esdt_back p r = (if ar_ok r then ar_esdt r else pr_esdt p)"

definition receive_back :: "'cb promise \<Rightarrow> async_result \<Rightarrow> 'a account_scheme \<Rightarrow> 'a account_scheme" where
  "receive_back p r s = s\<lparr>egld_balance := egld_balance s + egld_back p r,
     esdt_balance := credit_esdt (esdt_back p r) (esdt_balance s)\<rparr>"

definition drop_nth :: "nat \<Rightarrow> 'a list \<Rightarrow> 'a list" where
  "drop_nth i xs = take i xs @ drop (Suc i) xs"

lemma drop_nth_last [simp]: "drop_nth (length xs) (xs @ [x]) = xs"
  by (simp add: drop_nth_def)

lemma set_drop_nth: "set (drop_nth i xs) \<subseteq> set xs"
  by (auto simp: drop_nth_def dest: in_set_takeD in_set_dropD)

lemma sum_list_drop_nth:
  fixes f :: "'a \<Rightarrow> nat"
  assumes "i < length xs"
  shows "sum_list (map f xs) = f (xs ! i) + sum_list (map f (drop_nth i xs))"
proof -
  have "xs = take i xs @ xs ! i # drop (Suc i) xs" using assms by (rule id_take_nth_drop)
  then have "map f xs = map f (take i xs) @ f (xs ! i) # map f (drop (Suc i) xs)"
    by (metis list.simps(9) map_append)
  then show ?thesis by (simp add: drop_nth_def)
qed

lemma receive_back_sel [simp]:
  "egld_balance (receive_back p r s) = egld_balance s + egld_back p r"
  "esdt_balance (receive_back p r s) = credit_esdt (esdt_back p r) (esdt_balance s)"
  "outbox (receive_back p r s) = outbox s"
  by (simp_all add: receive_back_def)

lemma receive_back_paused [simp]: "paused (receive_back p r s) = paused s"
  by (simp add: receive_back_def)

section \<open>Histories\<close>

text \<open>A property that holds at the end of a run and not at its start was turned on by some call.\<close>

lemma run_turn:
  "run step s ls t \<Longrightarrow> \<not> P s \<Longrightarrow> P t \<Longrightarrow>
     \<exists>as l bs u v. ls = as @ l # bs \<and> run step s as u \<and> \<not> P u \<and> step u l v \<and> P v \<and> run step v bs t"
proof (induction rule: run.induct)
  case (run_cons s l t ls u)
  show ?case
  proof (cases "P t")
    case True
    with run_cons show ?thesis by (metis append_Nil run_nil)
  next
    case False
    with run_cons obtain as l' bs u' v where "ls = as @ l' # bs" "run step t as u'" "\<not> P u'" "step u' l' v"
      "P v" "run step v bs u" by blast
    with run_cons(1) show ?thesis by (metis append_Cons run.run_cons)
  qed
qed simp

text \<open>A transaction with the given caller and payments, at day 2 of the clock.\<close>

definition call_ctx :: "address \<Rightarrow> nat \<Rightarrow> esdt_payment list \<Rightarrow> ctx" where
  "call_ctx a x ps = \<lparr>caller = a, owner_address = 1, sc_address = 9, egld_value = x, esdt_transfers = ps,
     block_timestamp = 172900, block_round = 0, block_nonce = 0, gas_left = 20000000, random_seed = [], egld_beside_tokens = True\<rparr>"

lemma call_ctx_sel [simp]:
  "caller (call_ctx a x ps) = a" "owner_address (call_ctx a x ps) = 1" "sc_address (call_ctx a x ps) = 9"
  "egld_value (call_ctx a x ps) = x" "esdt_transfers (call_ctx a x ps) = ps"
  "block_timestamp (call_ctx a x ps) = 172900" "gas_left (call_ctx a x ps) = 20000000"
  by (simp_all add: call_ctx_def)

text \<open>A history given as a list of calls can be executed; its outcome is a run of the contract.\<close>

fun run_calls :: "('c \<Rightarrow> 'l \<Rightarrow> 's \<Rightarrow> 's res) \<Rightarrow> 's \<Rightarrow> ('c \<times> 'l) list \<Rightarrow> 's res" where
  "run_calls exe s [] = Inr s"
| "run_calls exe s ((c, l) # ls) = bind_res (exe c l s) (\<lambda>t. run_calls exe t ls)"

lemma run_calls_append: "run_calls exe s (as @ bs) = bind_res (run_calls exe s as) (\<lambda>t. run_calls exe t bs)"
  by (induction exe s as rule: run_calls.induct) (auto simp: bind_res_assoc)

lemma run_callsD:
  assumes "\<And>c l s t. exe c l s = Inr t \<Longrightarrow> step s (c, l) t" and "run_calls exe s ls = Inr t"
  shows "run step s ls t"
  using assms(2)
  by (induction exe\<equiv>exe s ls rule: run_calls.induct) (auto simp: res_simps intro: run.intros assms(1))

end
