(* ===== verification/Vault.thy ===== *)
theory Vault
  imports Async
begin

text \<open>
  The vault (contracts/vault/src/lib.rs): users deposit EGLD that the vault delegates to a
  staking provider; a withdrawal starts the unbonding, and the user collects the amount when the
  provider has paid it out. The Scheduler triggers the strategies, which spend what the vault
  holds beyond the pending withdrawals. Every call to another contract is a promise.
\<close>

section \<open>State\<close>

datatype vault_callback =
    DepositCallback address nat
  | WithdrawCallback address nat
  | NoCallback
  | CompoundCallback
  | ClaimCallback
  | SwapCallback
  | EmergencySwapCallback
  | MintCallback

record vault = pausable +
  user_balance :: "address \<Rightarrow> nat"
  total_deposited :: nat
  total_compounded :: nat
  compound_count :: u64
  pending_withdrawals :: "address \<Rightarrow> nat"
  total_pending_withdrawals :: nat
  delegation_contract :: address
  scheduler_address :: address
  dex_pair_contract :: "address option"
  swap_amount_per_execution :: nat
  max_slippage_bps :: u64
  nft_contract :: "address option"
  mint_price :: nat
  mint_endpoint_name :: bytes
  v_promises :: "vault_callback promise list"

definition vault_init :: "address \<Rightarrow> address \<Rightarrow> vault" where
  "vault_init delegation scheduler = \<lparr>egld_balance = 0, esdt_balance = (\<lambda>_ _. 0), outbox = [],
     paused = False, user_balance = (\<lambda>_. 0), total_deposited = 0, total_compounded = 0,
     compound_count = 0, pending_withdrawals = (\<lambda>_. 0), total_pending_withdrawals = 0,
     delegation_contract = delegation, scheduler_address = scheduler, dex_pair_contract = None,
     swap_amount_per_execution = 0, max_slippage_bps = 300, nft_contract = None, mint_price = 0,
     mint_endpoint_name = [], v_promises = []\<rparr>"

definition vault_upgrade :: "vault \<Rightarrow> vault" where
  "vault_upgrade s = s"

section \<open>Events\<close>

definition deposit_event :: "address \<Rightarrow> nat \<Rightarrow> vault \<Rightarrow> vault" where
  "deposit_event a x = emit ''deposit'' [AAddr a, ANat x]"

definition withdraw_event :: "address \<Rightarrow> nat \<Rightarrow> vault \<Rightarrow> vault" where
  "withdraw_event a x = emit ''withdraw'' [AAddr a, ANat x]"

definition compound_event :: "u64 \<Rightarrow> vault \<Rightarrow> vault" where
  "compound_event t = emit ''compound'' [AU64 t]"

definition claim_event :: "u64 \<Rightarrow> vault \<Rightarrow> vault" where
  "claim_event t = emit ''claim'' [AU64 t]"

definition swap_event :: "u64 \<Rightarrow> vault \<Rightarrow> vault" where
  "swap_event t = emit ''swap'' [AU64 t]"

definition emergency_swap_event :: "u64 \<Rightarrow> vault \<Rightarrow> vault" where
  "emergency_swap_event t = emit ''emergencySwap'' [AU64 t]"

definition mint_event :: "u64 \<Rightarrow> vault \<Rightarrow> vault" where
  "mint_event t = emit ''mint'' [AU64 t]"

lemmas vault_event_defs = deposit_event_def withdraw_event_def compound_event_def claim_event_def
  swap_event_def emergency_swap_event_def mint_event_def emit_def

section \<open>Deposits and withdrawals\<close>

definition v_register ::
  "address \<Rightarrow> bytes \<Rightarrow> arg list \<Rightarrow> nat \<Rightarrow> u64 \<Rightarrow> vault_callback \<Rightarrow> vault \<Rightarrow> vault res" where
  "v_register to f as x g cb s = vm_require (x \<le> egld_balance s) ''insufficient funds''
     (Inr (s\<lparr>egld_balance := egld_balance s - x,
             v_promises := v_promises s @ [\<lparr>pr_to = to, pr_endpoint = f, pr_args = as, pr_egld = x,
               pr_esdt = [], pr_gas = g, pr_callback = cb\<rparr>]\<rparr>))"

definition deposit :: "ctx \<Rightarrow> vault \<Rightarrow> vault res" where
  "deposit c s = payable_egld c (
     let s = receive c s in
     require_not_paused s (
     let payment = egld_value c in
     require (0 < payment) ''Deposit must be greater than zero'' (
     let current = user_balance s (caller c);
         s = s\<lparr>user_balance := (user_balance s)(caller c := current + payment),
               total_deposited := total_deposited s + payment\<rparr>;
         s = deposit_event (caller c) payment s
     in v_register (delegation_contract s) ''delegate'' [] payment 12000000
          (DepositCallback (caller c) payment) s)))"

definition deposit_callback :: "address \<Rightarrow> nat \<Rightarrow> bool \<Rightarrow> vault \<Rightarrow> vault res" where
  "deposit_callback who deposit_amount result_ok s = (if result_ok then Inr s else
     let current_balance = user_balance s who;
         s = s\<lparr>user_balance := (user_balance s)(who :=
               (if deposit_amount \<le> current_balance then current_balance - deposit_amount else 0))\<rparr>;
         total = total_deposited s;
         s = (if deposit_amount \<le> total then s\<lparr>total_deposited := total - deposit_amount\<rparr> else s)
     in direct_egld who deposit_amount s)"

definition withdraw :: "ctx \<Rightarrow> nat \<Rightarrow> vault \<Rightarrow> vault res" where
  "withdraw c amnt s = not_payable c (
     require (0 < amnt) ''Withdraw amount must be greater than zero'' (
     let balance = user_balance s (caller c) in
     require (amnt \<le> balance) ''Insufficient balance'' (
     let s = s\<lparr>user_balance := (user_balance s)(caller c := balance - amnt)\<rparr>;
         total = total_deposited s;
         s = (if amnt \<le> total then s\<lparr>total_deposited := total - amnt\<rparr> else s);
         s = withdraw_event (caller c) amnt s;
         s = s\<lparr>pending_withdrawals := (pending_withdrawals s)
                 (caller c := pending_withdrawals s (caller c) + amnt),
               total_pending_withdrawals := total_pending_withdrawals s + amnt\<rparr>
     in v_register (delegation_contract s) ''unDelegate'' [ANat amnt] 0 12000000
          (WithdrawCallback (caller c) amnt) s)))"

text \<open>The decrement of the liabilities that two endpoints share, clamped at zero.\<close>

definition less_pending :: "nat \<Rightarrow> vault \<Rightarrow> vault" where
  "less_pending x s = (let total_pending = total_pending_withdrawals s in
     s\<lparr>total_pending_withdrawals := (if x \<le> total_pending then total_pending - x else 0)\<rparr>)"

definition withdraw_callback :: "address \<Rightarrow> nat \<Rightarrow> bool \<Rightarrow> vault \<Rightarrow> vault res" where
  "withdraw_callback who amnt result_ok s = (if result_ok then Inr s else
     let s = s\<lparr>user_balance := (user_balance s)(who := user_balance s who + amnt),
               total_deposited := total_deposited s + amnt\<rparr>;
         pending = pending_withdrawals s who
     in Inr (if amnt \<le> pending
        then less_pending amnt (s\<lparr>pending_withdrawals := (pending_withdrawals s)(who := pending - amnt)\<rparr>)
        else s))"

definition claim_unbonded :: "ctx \<Rightarrow> vault \<Rightarrow> vault res" where
  "claim_unbonded c s = not_payable c (
     v_register (delegation_contract s) ''claimUnbonded'' [] 0 15000000 NoCallback s)"

definition withdraw_unbonded :: "ctx \<Rightarrow> vault \<Rightarrow> vault res" where
  "withdraw_unbonded c s = not_payable c (
     let amount_due = pending_withdrawals s (caller c) in
     require (0 < amount_due) ''No pending withdrawals'' (
     let sc_balance = egld_balance s in
     require (amount_due \<le> sc_balance) ''Unbonded funds not yet available from provider'' (
     let s = less_pending amount_due
               (s\<lparr>pending_withdrawals := (pending_withdrawals s)(caller c := 0)\<rparr>)
     in direct_egld (caller c) amount_due s)))"

section \<open>Strategies\<close>

definition v_require_scheduler_caller :: "ctx \<Rightarrow> vault \<Rightarrow> 'a res \<Rightarrow> 'a res" where
  "v_require_scheduler_caller c s k =
     require (caller c = scheduler_address s) ''Caller not authorized'' k"

definition compound :: "ctx \<Rightarrow> vault \<Rightarrow> vault res" where
  "compound c s = not_payable c (require_not_paused s (v_require_scheduler_caller c s (
     v_register (delegation_contract s) ''reDelegateRewards'' [] 0 12000000 CompoundCallback s)))"

definition compound_callback :: "ctx \<Rightarrow> bool \<Rightarrow> vault \<Rightarrow> vault res" where
  "compound_callback c result_ok s = (if result_ok
     then Inr (compound_event (block_timestamp c) (s\<lparr>compound_count := compound_count s + 1\<rparr>))
     else Inr s)"

definition v_claim_rewards :: "ctx \<Rightarrow> vault \<Rightarrow> vault res" where
  "v_claim_rewards c s = not_payable c (require_not_paused s (v_require_scheduler_caller c s (
     v_register (delegation_contract s) ''claimRewards'' [] 0 12000000 ClaimCallback s)))"

definition claim_callback :: "ctx \<Rightarrow> bool \<Rightarrow> vault \<Rightarrow> vault res" where
  "claim_callback c result_ok s =
     Inr (if result_ok then claim_event (block_timestamp c) s else s)"

text \<open>What the vault holds beyond the pending withdrawals, written out at each use in the source.\<close>

definition safe_liquid :: "vault \<Rightarrow> nat" where
  "safe_liquid s = (if egld_balance s > total_pending_withdrawals s
     then egld_balance s - total_pending_withdrawals s else 0)"

definition min_amount_out :: "nat \<Rightarrow> u64 \<Rightarrow> nat" where
  "min_amount_out x slippage_bps = x * unat (10000 - slippage_bps) div 10000"

definition swap :: "ctx \<Rightarrow> vault \<Rightarrow> vault res" where
  "swap c s = not_payable c (require_not_paused s (v_require_scheduler_caller c s (
     require (dex_pair_contract s \<noteq> None) ''Swap not configured - set DEX pair contract first'' (
     require (max_slippage_bps s \<noteq> 0)
       ''Slippage protection not configured - set max_slippage_bps first'' (
     bind_res (get_slot (dex_pair_contract s)) (\<lambda>dex_addr.
     let swap_amount_config = swap_amount_per_execution s;
         swap_amount = (if 0 < swap_amount_config \<and> swap_amount_config < safe_liquid s
                        then swap_amount_config else safe_liquid s)
     in if 0 < swap_amount
        then v_register dex_addr ''swapTokensFixedInput''
               [ANat (min_amount_out swap_amount (max_slippage_bps s))] swap_amount 20000000
               SwapCallback s
        else Inr s))))))"

definition swap_callback :: "ctx \<Rightarrow> bool \<Rightarrow> vault \<Rightarrow> vault res" where
  "swap_callback c result_ok s = Inr (if result_ok then swap_event (block_timestamp c) s else s)"

definition emergency_swap :: "ctx \<Rightarrow> vault \<Rightarrow> vault res" where
  "emergency_swap c s = not_payable c (require_not_paused s (v_require_scheduler_caller c s (
     require (dex_pair_contract s \<noteq> None) ''Swap not configured - set DEX pair contract first'' (
     require (max_slippage_bps s \<noteq> 0)
       ''Slippage protection not configured - set max_slippage_bps first'' (
     bind_res (get_slot (dex_pair_contract s)) (\<lambda>dex_addr.
     let swap_amount = swap_amount_per_execution s;
         amnt = (if 0 < swap_amount \<and> swap_amount < safe_liquid s
                 then swap_amount else safe_liquid s)
     in if 0 < amnt
        then v_register dex_addr ''swapTokensFixedInput''
               [ANat (min_amount_out amnt (max_slippage_bps s))] amnt 20000000
               EmergencySwapCallback s
        else Inr s))))))"

definition emergency_swap_callback :: "ctx \<Rightarrow> bool \<Rightarrow> vault \<Rightarrow> vault res" where
  "emergency_swap_callback c result_ok s =
     Inr (if result_ok then emergency_swap_event (block_timestamp c) s else s)"

definition mint :: "ctx \<Rightarrow> vault \<Rightarrow> vault res" where
  "mint c s = not_payable c (require_not_paused s (v_require_scheduler_caller c s (
     require (nft_contract s \<noteq> None) ''Mint not configured - set NFT contract first'' (
     bind_res (get_slot (nft_contract s)) (\<lambda>nft_addr.
     require (mint_price s \<le> safe_liquid s)
       ''V-23: Insufficient safe liquid funds for minting'' (
     v_register nft_addr (mint_endpoint_name s) [AU64 1] (mint_price s) 15000000 MintCallback s))))))"

definition mint_callback :: "ctx \<Rightarrow> bool \<Rightarrow> vault \<Rightarrow> vault res" where
  "mint_callback c result_ok s = Inr (if result_ok then mint_event (block_timestamp c) s else s)"

section \<open>Administration\<close>

definition v_owner_set :: "ctx \<Rightarrow> vault \<Rightarrow> vault res" where
  "v_owner_set c t = not_payable c (only_owner c (Inr t))"

definition set_scheduler_address :: "ctx \<Rightarrow> address \<Rightarrow> vault \<Rightarrow> vault res" where
  "set_scheduler_address c a s = v_owner_set c (s\<lparr>scheduler_address := a\<rparr>)"

definition set_delegation_contract :: "ctx \<Rightarrow> address \<Rightarrow> vault \<Rightarrow> vault res" where
  "set_delegation_contract c a s = v_owner_set c (s\<lparr>delegation_contract := a\<rparr>)"

definition rescue_yield :: "ctx \<Rightarrow> nat \<Rightarrow> vault \<Rightarrow> vault res" where
  "rescue_yield c amnt s = not_payable c (only_owner c (
     require (amnt \<le> safe_liquid s) ''Amount exceeds safe liquid (protocol-owned) balance'' (
     direct_egld (caller c) amnt s)))"

definition set_dex_pair_contract :: "ctx \<Rightarrow> address \<Rightarrow> vault \<Rightarrow> vault res" where
  "set_dex_pair_contract c a s = v_owner_set c (s\<lparr>dex_pair_contract := Some a\<rparr>)"

definition set_swap_amount :: "ctx \<Rightarrow> nat \<Rightarrow> vault \<Rightarrow> vault res" where
  "set_swap_amount c x s = v_owner_set c (s\<lparr>swap_amount_per_execution := x\<rparr>)"

definition set_nft_contract :: "ctx \<Rightarrow> address \<Rightarrow> vault \<Rightarrow> vault res" where
  "set_nft_contract c a s = v_owner_set c (s\<lparr>nft_contract := Some a\<rparr>)"

definition set_mint_price :: "ctx \<Rightarrow> nat \<Rightarrow> vault \<Rightarrow> vault res" where
  "set_mint_price c x s = v_owner_set c (s\<lparr>mint_price := x\<rparr>)"

definition set_mint_endpoint :: "ctx \<Rightarrow> bytes \<Rightarrow> vault \<Rightarrow> vault res" where
  "set_mint_endpoint c f s = v_owner_set c (s\<lparr>mint_endpoint_name := f\<rparr>)"

definition set_max_slippage_bps :: "ctx \<Rightarrow> u64 \<Rightarrow> vault \<Rightarrow> vault res" where
  "set_max_slippage_bps c bps s = not_payable c (only_owner c (
     require (bps \<le> 5000) ''Max slippage cannot exceed 50%'' (
     Inr (s\<lparr>max_slippage_bps := bps\<rparr>))))"

section \<open>Views\<close>

definition get_user_balance :: "address \<Rightarrow> vault \<Rightarrow> nat" where
  "get_user_balance user s = user_balance s user"

definition get_total_deposited :: "vault \<Rightarrow> nat" where
  "get_total_deposited s = total_deposited s"

definition get_compound_count :: "vault \<Rightarrow> u64" where
  "get_compound_count s = compound_count s"

definition get_total_compounded :: "vault \<Rightarrow> nat" where
  "get_total_compounded s = total_compounded s"

section \<open>Delivery of results\<close>

text \<open>
  The result of the \<open>i\<close>-th registered call arrives: the entry is removed, the EGLD that comes
  back is credited, and the callback runs with the arguments captured at registration.
\<close>

fun v_callback :: "ctx \<Rightarrow> bool \<Rightarrow> vault_callback \<Rightarrow> vault \<Rightarrow> vault res" where
  "v_callback c ok (DepositCallback a x) s = deposit_callback a x ok s"
| "v_callback c ok (WithdrawCallback a x) s = withdraw_callback a x ok s"
| "v_callback c ok NoCallback s = Inr s"
| "v_callback c ok CompoundCallback s = compound_callback c ok s"
| "v_callback c ok ClaimCallback s = claim_callback c ok s"
| "v_callback c ok SwapCallback s = swap_callback c ok s"
| "v_callback c ok EmergencySwapCallback s = emergency_swap_callback c ok s"
| "v_callback c ok MintCallback s = mint_callback c ok s"

definition v_deliver :: "ctx \<Rightarrow> nat \<Rightarrow> async_result \<Rightarrow> vault \<Rightarrow> vault res" where
  "v_deliver c i r s = vm_require (i < length (v_promises s)) ''no such promise'' (
     let p = v_promises s ! i
     in v_callback c (ar_ok r) (pr_callback p)
          (receive_back p r (s\<lparr>v_promises := drop_nth i (v_promises s)\<rparr>)))"

section \<open>Calls\<close>

datatype vault_call =
    Deposit
  | Withdraw nat
  | ClaimUnbonded
  | WithdrawUnbonded
  | Compound
  | VClaimRewards
  | Swap
  | EmergencySwap
  | Mint
  | RescueYield nat
  | SetSchedulerAddress address
  | SetDelegationContract address
  | SetDexPairContract address
  | SetSwapAmount nat
  | SetNftContract address
  | SetMintPrice nat
  | SetMintEndpoint bytes
  | SetMaxSlippageBps u64
  | VPause
  | VUnpause
  | VUpgrade
  | VDeliver nat async_result

fun vault_exec :: "ctx \<Rightarrow> vault_call \<Rightarrow> vault \<Rightarrow> vault res" where
  "vault_exec c Deposit s = deposit c s"
| "vault_exec c (Withdraw x) s = withdraw c x s"
| "vault_exec c ClaimUnbonded s = claim_unbonded c s"
| "vault_exec c WithdrawUnbonded s = withdraw_unbonded c s"
| "vault_exec c Compound s = compound c s"
| "vault_exec c VClaimRewards s = v_claim_rewards c s"
| "vault_exec c Swap s = swap c s"
| "vault_exec c EmergencySwap s = emergency_swap c s"
| "vault_exec c Mint s = mint c s"
| "vault_exec c (RescueYield x) s = rescue_yield c x s"
| "vault_exec c (SetSchedulerAddress a) s = set_scheduler_address c a s"
| "vault_exec c (SetDelegationContract a) s = set_delegation_contract c a s"
| "vault_exec c (SetDexPairContract a) s = set_dex_pair_contract c a s"
| "vault_exec c (SetSwapAmount x) s = set_swap_amount c x s"
| "vault_exec c (SetNftContract a) s = set_nft_contract c a s"
| "vault_exec c (SetMintPrice x) s = set_mint_price c x s"
| "vault_exec c (SetMintEndpoint f) s = set_mint_endpoint c f s"
| "vault_exec c (SetMaxSlippageBps b) s = set_max_slippage_bps c b s"
| "vault_exec c VPause s = pause c s"
| "vault_exec c VUnpause s = unpause c s"
| "vault_exec c VUpgrade s = only_owner c (Inr (vault_upgrade s))"
| "vault_exec c (VDeliver i r) s = v_deliver c i r s"

inductive vault_step :: "vault \<Rightarrow> ctx \<times> vault_call \<Rightarrow> vault \<Rightarrow> bool" where
  vault_call: "vault_exec c l s = Inr t \<Longrightarrow> vault_step s (c, l) t"

inductive_simps vault_step_simps: "vault_step s (c, l) t"

end
