(* ===== verification/Vault_Properties.thy ===== *)
theory Vault_Properties
  imports Vault
begin

text \<open>
  The vault keeps its books and its reserve: the recorded liabilities are the sum of the pending
  withdrawals, no strategy and no owner can spend what covers them, and the amounts handed to
  the exchange are bounded. The last section shows a limit of the refund of failed deposits.
\<close>

section \<open>The books of the vault\<close>

text \<open>
  A registered deposit carries the EGLD it will refund, and the recorded liabilities are the
  sum over all users.
\<close>

fun carries :: "vault_callback \<Rightarrow> nat \<Rightarrow> bool" where
  "carries (DepositCallback a x) v \<longleftrightarrow> v = x"
| "carries _ v \<longleftrightarrow> True"

definition vault_inv :: "vault \<Rightarrow> bool" where
  "vault_inv s \<longleftrightarrow> fin_supp (pending_withdrawals s) \<and>
     total_pending_withdrawals s = fsum (pending_withdrawals s) \<and> unat (max_slippage_bps s) \<le> 5000 \<and>
     (\<forall>p\<in>set (v_promises s). carries (pr_callback p) (pr_egld p))"

definition covered :: "vault \<Rightarrow> bool" where
  "covered s \<longleftrightarrow> total_pending_withdrawals s \<le> egld_balance s"

fun starts_withdrawal :: "vault_call \<Rightarrow> bool" where
  "starts_withdrawal (Withdraw x) = True"
| "starts_withdrawal _ = False"

lemma v_register_eq_Inr [res_simps]:
  "v_register to f as x g cb s = Inr t \<longleftrightarrow> x \<le> egld_balance s \<and>
     t = s\<lparr>egld_balance := egld_balance s - x,
           v_promises := v_promises s @ [\<lparr>pr_to = to, pr_endpoint = f, pr_args = as, pr_egld = x,
             pr_esdt = [], pr_gas = g, pr_callback = cb\<rparr>]\<rparr>"
  by (auto simp: v_register_def vm_require_def)

lemma v_require_scheduler_caller_eq_Inr [res_simps]:
  "v_require_scheduler_caller c s k = Inr x \<longleftrightarrow> caller c = scheduler_address s \<and> k = Inr x"
  by (simp add: v_require_scheduler_caller_def res_simps)

lemma v_owner_set_eq_Inr [res_simps]:
  "v_owner_set c u = Inr t \<longleftrightarrow> egld_value c = 0 \<and> esdt_transfers c = [] \<and>
     caller c = owner_address c \<and> t = u"
  by (auto simp: v_owner_set_def res_simps)

lemmas vault_strategy_defs = compound_def v_claim_rewards_def swap_def emergency_swap_def mint_def
  rescue_yield_def claim_unbonded_def

lemmas vault_setter_defs = set_scheduler_address_def set_delegation_contract_def
  set_dex_pair_contract_def set_swap_amount_def set_nft_contract_def set_mint_price_def
  set_mint_endpoint_def set_max_slippage_bps_def pause_def unpause_def vault_upgrade_def

section \<open>Operations that respect the reserve\<close>

text \<open>
  The contract shared by everything that spends EGLD outside the withdrawals: the books of the
  users stay as they are, and either nothing is spent or what is left covers the liabilities.
\<close>

locale reserve_op =
  fixes op :: "ctx \<Rightarrow> vault \<Rightarrow> vault res"
  assumes keeps_users: "op c s = Inr t \<Longrightarrow> pending_withdrawals t = pending_withdrawals s \<and>
      total_pending_withdrawals t = total_pending_withdrawals s \<and> user_balance t = user_balance s \<and>
      max_slippage_bps t = max_slippage_bps s"
    and spends: "op c s = Inr t \<Longrightarrow> egld_balance t = egld_balance s \<or>
      egld_balance t \<le> egld_balance s \<and> total_pending_withdrawals s \<le> egld_balance t"
    and registers: "op c s = Inr t \<Longrightarrow> v_promises t = v_promises s \<or>
      (\<exists>p. v_promises t = v_promises s @ [p] \<and> carries (pr_callback p) (pr_egld p))"
begin

lemma op_inv: "op c s = Inr t \<Longrightarrow> vault_inv s \<Longrightarrow> vault_inv t"
  using keeps_users [of c s t] registers [of c s t] by (auto simp: vault_inv_def)

lemma op_covered: "op c s = Inr t \<Longrightarrow> covered s \<Longrightarrow> covered t"
  using keeps_users [of c s t] spends [of c s t] by (auto simp: covered_def)

end

lemma swap_amount_safe:
  "(if 0 < x \<and> x < safe_liquid s then x else safe_liquid s) \<le> safe_liquid s"
  by simp

lemma safe_liquid_spend:
  "x \<le> safe_liquid s \<Longrightarrow> 0 < x \<Longrightarrow> total_pending_withdrawals s \<le> egld_balance s - x \<and> x \<le> egld_balance s"
  by (auto simp: safe_liquid_def split: if_splits)

lemmas reserve_simps = res_simps Let_def

interpretation compound: reserve_op compound
  by unfold_locales (auto simp: compound_def reserve_simps)

interpretation claim_rewards: reserve_op v_claim_rewards
  by unfold_locales (auto simp: v_claim_rewards_def reserve_simps)

interpretation claim_unbonded: reserve_op claim_unbonded
  by unfold_locales (auto simp: claim_unbonded_def reserve_simps)

interpretation swap: reserve_op swap
  by unfold_locales (auto simp: swap_def reserve_simps safe_liquid_def split: if_splits)

interpretation emergency_swap: reserve_op emergency_swap
  by unfold_locales (auto simp: emergency_swap_def reserve_simps safe_liquid_def split: if_splits)

interpretation mint: reserve_op mint
  by unfold_locales (auto simp: mint_def reserve_simps safe_liquid_def split: if_splits)

interpretation rescue_yield: reserve_op "\<lambda>c. rescue_yield c x" for x
  by unfold_locales (auto simp: rescue_yield_def reserve_simps safe_liquid_def split: if_splits)

section \<open>Deposits, withdrawals and results\<close>

lemma deposit_keeps:
  assumes "deposit c s = Inr t"
  shows "vault_inv s \<Longrightarrow> vault_inv t" and "covered s \<Longrightarrow> covered t"
  using assms by (auto simp: deposit_def reserve_simps vault_inv_def covered_def receive_def
      vault_event_defs)

lemma withdraw_inv:
  assumes "withdraw c x s = Inr t" and "vault_inv s"
  shows "vault_inv t"
proof -
  have "pending_withdrawals t = (pending_withdrawals s)(caller c := pending_withdrawals s (caller c) + x)"
    "total_pending_withdrawals t = total_pending_withdrawals s + x"
    "max_slippage_bps t = max_slippage_bps s"
    "\<exists>p. v_promises t = v_promises s @ [p] \<and> carries (pr_callback p) (pr_egld p)"
    using assms(1) by (auto simp: withdraw_def reserve_simps vault_event_defs)
  then show ?thesis
    using assms(2) fsum_update [of "pending_withdrawals s" "caller c" "pending_withdrawals s (caller c) + x"]
    by (auto simp: vault_inv_def)
qed

text \<open>Taking an amount off the pending withdrawals of one user.\<close>

lemma less_pending_keeps:
  assumes "vault_inv s" and "x \<le> pending_withdrawals s a"
    and "t = less_pending x (s\<lparr>pending_withdrawals := (pending_withdrawals s)(a := pending_withdrawals s a - x)\<rparr>)"
  shows "vault_inv t" and "total_pending_withdrawals t + x = total_pending_withdrawals s"
proof -
  have f: "fin_supp (pending_withdrawals s)" "total_pending_withdrawals s = fsum (pending_withdrawals s)"
    using assms(1) by (auto simp: vault_inv_def)
  have "x \<le> total_pending_withdrawals s" using fsum_ge [OF f(1), of a] assms(2) f(2) by simp
  then show total: "total_pending_withdrawals t + x = total_pending_withdrawals s"
    by (simp add: assms(3) less_pending_def Let_def)
  have "fsum ((pending_withdrawals s)(a := pending_withdrawals s a - x)) + x = fsum (pending_withdrawals s)"
    using fsum_update [OF f(1), of a "pending_withdrawals s a - x"] assms(2) by simp
  then show "vault_inv t"
    using assms(1) total f by (auto simp: vault_inv_def assms(3) less_pending_def Let_def)
qed

lemma withdraw_unbonded_eq:
  "withdraw_unbonded c s = Inr t \<longleftrightarrow> egld_value c = 0 \<and> esdt_transfers c = [] \<and>
     0 < pending_withdrawals s (caller c) \<and> pending_withdrawals s (caller c) \<le> egld_balance s \<and>
     t = (less_pending (pending_withdrawals s (caller c))
           (s\<lparr>pending_withdrawals := (pending_withdrawals s)(caller c := 0)\<rparr>))
         \<lparr>egld_balance := egld_balance s - pending_withdrawals s (caller c),
          outbox := outbox s @ [SendEgld (caller c) (pending_withdrawals s (caller c))]\<rparr>"
  by (auto simp: withdraw_unbonded_def reserve_simps less_pending_def)

lemma withdraw_unbonded_keeps:
  assumes "withdraw_unbonded c s = Inr t" and "vault_inv s"
  shows "vault_inv t" and "covered s \<Longrightarrow> covered t"
proof -
  define x where "x = pending_withdrawals s (caller c)"
  define u where "u = less_pending x (s\<lparr>pending_withdrawals := (pending_withdrawals s)(caller c := 0)\<rparr>)"
  have t: "t = u\<lparr>egld_balance := egld_balance s - x, outbox := outbox s @ [SendEgld (caller c) x]\<rparr>"
    using assms(1) by (simp add: withdraw_unbonded_eq u_def x_def)
  have u: "vault_inv u" "total_pending_withdrawals u + x = total_pending_withdrawals s"
    using less_pending_keeps [OF assms(2), of x "caller c" u] by (simp_all add: u_def x_def)
  then show "vault_inv t" by (simp add: t vault_inv_def)
  show "covered s \<Longrightarrow> covered t" using u(2) by (simp add: t covered_def)
qed

lemma deposit_callback_keeps:
  assumes "deposit_callback a x ok s = Inr t"
  shows "vault_inv s \<Longrightarrow> vault_inv t" and "egld_balance t + (if ok then 0 else x) = egld_balance s"
    and "total_pending_withdrawals t = total_pending_withdrawals s"
  using assms by (auto simp: deposit_callback_def reserve_simps vault_inv_def split: if_splits)

lemma withdraw_callback_keeps:
  assumes "withdraw_callback a x ok s = Inr t" and "vault_inv s"
  shows "vault_inv t" and "total_pending_withdrawals t \<le> total_pending_withdrawals s"
    and "egld_balance t = egld_balance s"
proof -
  define s' where "s' = s\<lparr>user_balance := (user_balance s)(a := user_balance s a + x),
               total_deposited := total_deposited s + x\<rparr>"
  have "vault_inv s'" using assms(2) by (simp add: s'_def vault_inv_def)
  note less = less_pending_keeps [OF this, of x a, OF _ refl]
  have "t = s \<or> t = s' \<or> x \<le> pending_withdrawals s' a \<and>
     t = less_pending x (s'\<lparr>pending_withdrawals := (pending_withdrawals s')(a := pending_withdrawals s' a - x)\<rparr>)"
    using assms(1) by (auto simp: withdraw_callback_def Let_def s'_def split: if_splits)
  then show "vault_inv t" "total_pending_withdrawals t \<le> total_pending_withdrawals s"
    "egld_balance t = egld_balance s"
    using assms(2) \<open>vault_inv s'\<close> less by (auto simp: s'_def less_pending_def Let_def)
qed

lemma v_callback_keeps:
  assumes "v_callback c ok cb s = Inr t" and "vault_inv s"
  shows "vault_inv t" and "total_pending_withdrawals t \<le> total_pending_withdrawals s"
    and "egld_balance t + (case cb of DepositCallback a x \<Rightarrow> if ok then 0 else x | _ \<Rightarrow> 0) = egld_balance s"
proof -
  have "vault_inv t \<and> total_pending_withdrawals t \<le> total_pending_withdrawals s \<and>
    egld_balance t + (case cb of DepositCallback a x \<Rightarrow> if ok then 0 else x | _ \<Rightarrow> 0) = egld_balance s"
  proof (cases cb)
    case (DepositCallback a x)
    then have "deposit_callback a x ok s = Inr t" using assms(1) by simp
    from deposit_callback_keeps [OF this] show ?thesis using assms(2) by (simp add: DepositCallback)
  next
    case (WithdrawCallback a x)
    then have "withdraw_callback a x ok s = Inr t" using assms(1) by simp
    from withdraw_callback_keeps [OF this assms(2)] show ?thesis by (simp add: WithdrawCallback)
  qed (use assms in \<open>auto simp: compound_callback_def claim_callback_def swap_callback_def
      emergency_swap_callback_def mint_callback_def vault_event_defs vault_inv_def split: if_splits\<close>)
  then show "vault_inv t" "total_pending_withdrawals t \<le> total_pending_withdrawals s"
    "egld_balance t + (case cb of DepositCallback a x \<Rightarrow> if ok then 0 else x | _ \<Rightarrow> 0) = egld_balance s"
    by simp_all
qed

lemma v_deliver_keeps:
  assumes "v_deliver c i r s = Inr t" and "vault_inv s"
  shows "vault_inv t" and "covered s \<Longrightarrow> covered t"
proof -
  define p where "p = v_promises s ! i"
  define u where "u = receive_back p r (s\<lparr>v_promises := drop_nth i (v_promises s)\<rparr>)"
  have i: "i < length (v_promises s)" and cb: "v_callback c (ar_ok r) (pr_callback p) u = Inr t"
    using assms(1) by (auto simp: v_deliver_def res_simps Let_def p_def u_def)
  have u: "vault_inv u" using assms(2) set_drop_nth [of i "v_promises s"]
    by (auto simp: u_def vault_inv_def receive_back_def)
  show "vault_inv t" using v_callback_keeps(1) [OF cb u] .
  have "carries (pr_callback p) (pr_egld p)" using assms(2) i by (simp add: vault_inv_def p_def)
  then have "egld_balance s \<le> egld_balance t"
    using v_callback_keeps(3) [OF cb u]
    by (cases "pr_callback p") (auto simp: u_def egld_back_def split: if_splits)
  then show "covered s \<Longrightarrow> covered t"
    using v_callback_keeps(2) [OF cb u] by (simp add: covered_def u_def receive_back_def)
qed

lemma vault_setters_keep:
  assumes "vault_exec c l s = Inr t"
    and "\<not> (l = Deposit \<or> starts_withdrawal l \<or> l = WithdrawUnbonded \<or> l = ClaimUnbonded \<or> l = Compound \<or>
      l = VClaimRewards \<or> l = Swap \<or> l = EmergencySwap \<or> l = Mint \<or> (\<exists>x. l = RescueYield x) \<or>
      (\<exists>i r. l = VDeliver i r))"
  shows "vault_inv s \<Longrightarrow> vault_inv t" and "covered s \<Longrightarrow> covered t"
  using assms by (cases l; auto simp: vault_setter_defs res_simps vault_inv_def covered_def
      word_le_nat_alt)+

lemma vault_exec_inv: "vault_exec c l s = Inr t \<Longrightarrow> vault_inv s \<Longrightarrow> vault_inv t"
  using deposit_keeps withdraw_inv withdraw_unbonded_keeps v_deliver_keeps compound.op_inv
    claim_rewards.op_inv claim_unbonded.op_inv swap.op_inv emergency_swap.op_inv mint.op_inv
    rescue_yield.op_inv vault_setters_keep [of c l s t]
  by (cases l) auto

lemma vault_exec_covered:
  "vault_exec c l s = Inr t \<Longrightarrow> vault_inv s \<Longrightarrow> \<not> starts_withdrawal l \<Longrightarrow> covered s \<Longrightarrow> covered t"
  using deposit_keeps withdraw_unbonded_keeps v_deliver_keeps compound.op_covered
    claim_rewards.op_covered claim_unbonded.op_covered swap.op_covered emergency_swap.op_covered
    mint.op_covered rescue_yield.op_covered vault_setters_keep [of c l s t]
  by (cases l) auto

interpretation vault_books: invariant_system vault_step "\<lambda>_. True" vault_inv
  by unfold_locales (auto simp: vault_step.simps intro: vault_exec_inv)

interpretation vault_reserve: invariant_system vault_step "\<lambda>l. \<not> starts_withdrawal (snd l)"
  "\<lambda>s. vault_inv s \<and> covered s"
  by unfold_locales (auto simp: vault_step.simps intro: vault_exec_inv vault_exec_covered)

lemma vault_init_inv: "vault_inv (vault_init d a)"
  by (simp add: vault_inv_def vault_init_def)

lemma vault_reachable: "run vault_step (vault_init d a) ls s \<Longrightarrow> vault_inv s"
  using vault_books.run_inv [OF _ _ vault_init_inv] by (simp add: list_all_iff)

section \<open>Properties\<close>

text \<open>
  C23. The reserve of the withdrawals is protected. In every reachable state of the vault the
  recorded liabilities are the sum of the pending withdrawals of all users. Once the EGLD of
  the vault covers them, it covers them after any further calls and results that start no new
  withdrawal, strategies and \<open>rescueYield\<close> included, and then every user with a
  pending withdrawal can collect it: the call succeeds and pays exactly the pending amount.
  Receivers are taken to accept payments.
\<close>

theorem vault_reserve_protected:
  assumes "run vault_step (vault_init d a) ls s"
  shows "total_pending_withdrawals s = fsum (pending_withdrawals s) \<and>
    (total_pending_withdrawals s \<le> egld_balance s \<longrightarrow>
      (\<forall>ks t. run vault_step s ks t \<and> list_all (\<lambda>l. \<not> starts_withdrawal (snd l)) ks \<longrightarrow>
        total_pending_withdrawals t \<le> egld_balance t \<and>
        (\<forall>c :: ctx. egld_value c = 0 \<and> esdt_transfers c = [] \<and> 0 < pending_withdrawals t (caller c) \<longrightarrow>
          (\<exists>u. withdraw_unbonded c t = Inr u \<and>
             pending_withdrawals u = (pending_withdrawals t)(caller c := 0) \<and>
             egld_balance u + pending_withdrawals t (caller c) = egld_balance t \<and>
             outbox u = outbox t @ [SendEgld (caller c) (pending_withdrawals t (caller c))]))))"
proof (intro conjI impI allI; (elim conjE)?)
  show "total_pending_withdrawals s = fsum (pending_withdrawals s)"
    using vault_reachable [OF assms] by (simp add: vault_inv_def)
next
  fix ks t
  assume cov: "total_pending_withdrawals s \<le> egld_balance s" and r: "run vault_step s ks t"
    "list_all (\<lambda>l. \<not> starts_withdrawal (snd l)) ks"
  have "vault_inv t \<and> covered t"
    using vault_reserve.run_inv [OF r] vault_reachable [OF assms] cov by (simp add: covered_def)
  then have f: "total_pending_withdrawals t = fsum (pending_withdrawals t)"
    "total_pending_withdrawals t \<le> egld_balance t" "fin_supp (pending_withdrawals t)"
    by (auto simp: vault_inv_def covered_def)
  show "total_pending_withdrawals t \<le> egld_balance t" by (rule f(2))
  fix c :: ctx assume c: "egld_value c = 0" "esdt_transfers c = []" "0 < pending_withdrawals t (caller c)"
  have "pending_withdrawals t (caller c) \<le> egld_balance t"
    using fsum_ge [of "pending_withdrawals t" "caller c"] f by simp
  then show "\<exists>u. withdraw_unbonded c t = Inr u \<and> pending_withdrawals u = (pending_withdrawals t)(caller c := 0) \<and>
      egld_balance u + pending_withdrawals t (caller c) = egld_balance t \<and>
      outbox u = outbox t @ [SendEgld (caller c) (pending_withdrawals t (caller c))]"
    using c f by (auto simp: withdraw_unbonded_eq less_pending_def Let_def)
qed

text \<open>A user deposits 10, withdraws 4, and the provider pays 4 out.\<close>

definition demo_vault_calls :: "(ctx \<times> vault_call) list" where
  "demo_vault_calls = [(call_ctx 7 10 [], Deposit), (call_ctx 7 0 [], VDeliver 0 (succeeded 0)),
     (call_ctx 7 0 [], Withdraw 4), (call_ctx 7 0 [], VDeliver 0 (succeeded 0)), (call_ctx 7 0 [], ClaimUnbonded),
     (call_ctx 7 0 [], VDeliver 0 (succeeded 4))]"

lemmas vault_run = run_callsD [of vault_exec vault_step, OF vault_step.intros]

lemmas vault_eval_simps = payable_egld_def not_payable_def only_owner_def receive_def
  require_not_paused_def Let_def vault_event_defs v_register_def v_deliver_def drop_nth_def
  receive_back_def egld_back_def esdt_back_def direct_egld_def succeeded_def failed_def
  deposit_def deposit_callback_def withdraw_def withdraw_callback_def claim_unbonded_def
  withdraw_unbonded_def less_pending_def v_require_scheduler_caller_def

lemma demo_vault:
  "\<exists>s. run vault_step (vault_init 5 6) demo_vault_calls s \<and> total_pending_withdrawals s = 4 \<and>
     egld_balance s = 4 \<and> pending_withdrawals s 7 = 4"
proof -
  have "\<exists>s. run_calls vault_exec (vault_init 5 6) demo_vault_calls = Inr s \<and>
     total_pending_withdrawals s = 4 \<and> egld_balance s = 4 \<and> pending_withdrawals s 7 = 4"
    by (simp add: demo_vault_calls_def vault_eval_simps vault_init_def)
  then show ?thesis using vault_run by blast
qed

lemma demo_rescue:
  "egld_balance s = 4 \<Longrightarrow> \<exists>t. rescue_yield (call_ctx 1 0 []) 0 s = Inr t \<and> pending_withdrawals t = pending_withdrawals s"
  by (simp add: rescue_yield_def not_payable_def only_owner_def direct_egld_def)

theorem vault_reserve_protected_witness:
  "\<exists>t u. withdraw_unbonded (call_ctx 7 0 []) t = Inr u \<and> outbox u = outbox t @ [SendEgld 7 4]"
proof -
  obtain s where s: "run vault_step (vault_init 5 6) demo_vault_calls s" "total_pending_withdrawals s = 4"
    "egld_balance s = 4" "pending_withdrawals s 7 = 4" using demo_vault by blast
  obtain t where t: "rescue_yield (call_ctx 1 0 []) 0 s = Inr t" "pending_withdrawals t = pending_withdrawals s"
    using demo_rescue [OF s(3)] by blast
  have "run vault_step s [(call_ctx 1 0 [], RescueYield 0)] t"
    using t(1) by (auto intro!: run.intros vault_step.intros)
  moreover have "list_all (\<lambda>l. \<not> starts_withdrawal (snd l)) [(call_ctx 1 0 [], RescueYield 0)]" by simp
  moreover have "egld_value (call_ctx 7 0 []) = 0 \<and> esdt_transfers (call_ctx 7 0 []) = [] \<and>
      0 < pending_withdrawals t (caller (call_ctx 7 0 []))" using s(4) t(2) by simp
  ultimately obtain u where "withdraw_unbonded (call_ctx 7 0 []) t = Inr u"
    "outbox u = outbox t @ [SendEgld (caller (call_ctx 7 0 [])) (pending_withdrawals t (caller (call_ctx 7 0 [])))]"
    using vault_reserve_protected [OF s(1)] s(2,3) by (metis order_refl)
  then show ?thesis using s(4) t(2) by auto
qed

text \<open>The output demanded of the exchange, for a slippage the setter allows.\<close>

lemma min_amount_out_bounds:
  assumes "unat b \<le> 5000"
  shows "min_amount_out x b = x * (10000 - unat b) div 10000" and "x div 2 \<le> min_amount_out x b"
    and "min_amount_out x b \<le> x"
proof -
  have "unat (10000 - b) = 10000 - unat b"
    using assms by (subst unat_sub) (simp_all add: word_le_nat_alt)
  then show eq: "min_amount_out x b = x * (10000 - unat b) div 10000" by (simp add: min_amount_out_def)
  have "x * 5000 div 10000 \<le> x * (10000 - unat b) div 10000"
    using assms by (intro div_le_mono mult_le_mono2) simp
  then show "x div 2 \<le> min_amount_out x b" by (simp add: eq)
  have "x * (10000 - unat b) div 10000 \<le> x * 10000 div 10000" by (intro div_le_mono mult_le_mono2) simp
  then show "min_amount_out x b \<le> x" by (simp add: eq)
qed

text \<open>
  What a swap may spend. In every reachable state, a swap or stop-loss swap that succeeds was
  called by the Scheduler while the vault was not paused, and it either sends nothing or one
  promise to the configured pair: its value is positive, covered by what the vault holds beyond
  the pending withdrawals, at most the configured amount when one is set, and the demanded output
  is computed without wrap-around and lies between one half and the whole of the input.
\<close>

theorem vault_swap_bounds:
  assumes "run vault_step (vault_init d a) ls s" and "swap c s = Inr t \<or> emergency_swap c s = Inr t"
  shows "caller c = scheduler_address s \<and> \<not> paused s \<and> (t = s \<or>
    (\<exists>p x m. v_promises t = v_promises s @ [p] \<and> Some (pr_to p) = dex_pair_contract s \<and> pr_egld p = x \<and>
       pr_args p = [ANat m] \<and> 0 < x \<and> egld_balance t + x = egld_balance s \<and>
       total_pending_withdrawals s \<le> egld_balance t \<and>
       (0 < swap_amount_per_execution s \<longrightarrow> x \<le> swap_amount_per_execution s) \<and>
       m = x * (10000 - unat (max_slippage_bps s)) div 10000 \<and> x div 2 \<le> m \<and> m \<le> x))"
proof -
  have "vault_inv s" by (rule vault_reachable [OF assms(1)])
  then have "unat (max_slippage_bps s) \<le> 5000" by (simp add: vault_inv_def)
  note m = min_amount_out_bounds [OF this]
  show ?thesis
  proof (cases "t = s")
    case True
    then show ?thesis using assms(2) by (auto simp: swap_def emergency_swap_def reserve_simps)
  next
    case False
    define x where "x = (if 0 < swap_amount_per_execution s \<and> swap_amount_per_execution s < safe_liquid s
      then swap_amount_per_execution s else safe_liquid s)"
    obtain p where p: "v_promises t = v_promises s @ [p]" "Some (pr_to p) = dex_pair_contract s" "pr_egld p = x"
        "pr_args p = [ANat (min_amount_out x (max_slippage_bps s))]" "0 < x" "x \<le> egld_balance s"
        "egld_balance t = egld_balance s - x" and g: "caller c = scheduler_address s" "\<not> paused s"
      using assms(2) False
      by (fastforce simp: swap_def emergency_swap_def reserve_simps x_def split: if_splits)
    have "x \<le> safe_liquid s" by (simp add: x_def)
    then have "total_pending_withdrawals s \<le> egld_balance s - x" using safe_liquid_spend p(5) by blast
    moreover have "0 < swap_amount_per_execution s \<longrightarrow> x \<le> swap_amount_per_execution s"
      by (simp add: x_def)
    ultimately show ?thesis using p g m [of x] by (auto intro!: exI [of _ p])
  qed
qed

text \<open>A vault with a pair and a stake of rewards swaps 100 of its 150, keeping 20 in reserve.\<close>

definition demo_swap_calls :: "(ctx \<times> vault_call) list" where
  "demo_swap_calls = [(call_ctx 7 30 [], Deposit), (call_ctx 7 0 [], VDeliver 0 (succeeded 0)),
     (call_ctx 7 0 [], Withdraw 20), (call_ctx 6 0 [], VClaimRewards), (call_ctx 6 0 [], VDeliver 1 (succeeded 150)),
     (call_ctx 1 0 [], SetDexPairContract 8), (call_ctx 1 0 [], SetSwapAmount 100)]"

theorem vault_swap_bounds_witness:
  "\<exists>s t p. swap (call_ctx 6 0 []) s = Inr t \<and> v_promises t = v_promises s @ [p] \<and> pr_egld p = 100 \<and>
     pr_args p = [ANat 97]"
proof -
  have "\<exists>s t. run_calls vault_exec (vault_init 5 6) demo_swap_calls = Inr s \<and>
      swap (call_ctx 6 0 []) s = Inr t \<and> egld_balance t = 50 \<and> egld_balance s = 150 \<and> max_slippage_bps s = 300"
    by (simp add: demo_swap_calls_def vault_eval_simps vault_init_def v_claim_rewards_def claim_callback_def
        set_dex_pair_contract_def set_swap_amount_def v_owner_set_def swap_def safe_liquid_def)
  then obtain s t where s: "run vault_step (vault_init 5 6) demo_swap_calls s" "swap (call_ctx 6 0 []) s = Inr t"
    "egld_balance t = 50" "egld_balance s = 150" "max_slippage_bps s = 300" using vault_run by blast
  from vault_swap_bounds [OF s(1), of "call_ctx 6 0 []" t] s(2-5) show ?thesis
    by (intro exI [of _ s] exI [of _ t]) auto
qed

text \<open>
  A failed deposit can be paid twice. Let a user without balance and without pending
  withdrawal deposit \<open>x\<close> at any vault that is not paused and holds at least \<open>x\<close> EGLD, and
  withdraw the amount while the delegation is under way. When the delegation then fails, its
  callback refunds \<open>x\<close> although the user's balance is already empty, and the pending withdrawal
  stays. With the unDelegate served from the stake of others, the user collects \<open>x\<close> again: two
  payments for one deposit, and the vault is short of \<open>x\<close>.
\<close>

theorem failed_deposit_paid_twice:
  assumes "\<not> paused s" and "user_balance s a = 0" and "pending_withdrawals s a = 0" and "0 < x"
    and "x \<le> egld_balance s" and "n = length (v_promises s)"
  shows "\<exists>t. run vault_step s [(call_ctx a x [], Deposit), (call_ctx a 0 [], Withdraw x),
       (call_ctx a 0 [], VDeliver n failed), (call_ctx a 0 [], VDeliver n (succeeded 0)),
       (call_ctx a 0 [], WithdrawUnbonded)] t \<and>
     egld_sent_to a (outbox t) = egld_sent_to a (outbox s) + 2 * x \<and>
     egld_balance t + x = egld_balance s \<and> user_balance t = user_balance s \<and>
     pending_withdrawals t = pending_withdrawals s"
proof -
  have "\<exists>t. run_calls vault_exec s [(call_ctx a x [], Deposit), (call_ctx a 0 [], Withdraw x),
       (call_ctx a 0 [], VDeliver n failed), (call_ctx a 0 [], VDeliver n (succeeded 0)),
       (call_ctx a 0 [], WithdrawUnbonded)] = Inr t \<and>
     egld_sent_to a (outbox t) = egld_sent_to a (outbox s) + 2 * x \<and>
     egld_balance t + x = egld_balance s \<and> user_balance t = user_balance s \<and>
     pending_withdrawals t = pending_withdrawals s"
    using assms by (simp add: vault_eval_simps nth_append fun_upd_idem)
  then show ?thesis using vault_run by blast
qed

theorem failed_deposit_paid_twice_witness:
  "\<exists>(s :: vault) (t :: vault). user_balance s 7 = 30 \<and> egld_balance s = 20 \<and> egld_balance t = 10 \<and>
     user_balance t 7 = 30 \<and> egld_sent_to 4 (outbox t) = 20 \<and> user_balance t 4 = 0"
proof -
  define s where "s = (vault_init 5 6)\<lparr>egld_balance := 20, user_balance := (\<lambda>_. 0)(7 := 30),
    total_deposited := 30\<rparr>"
  have s: "\<not> paused s" "user_balance s 4 = 0" "pending_withdrawals s 4 = 0" "egld_balance s = 20"
    "outbox s = []" "user_balance s 7 = 30" by (simp_all add: s_def vault_init_def)
  have "0 < (10 :: nat)" "(10 :: nat) \<le> egld_balance s" by (simp_all add: s(4))
  from failed_deposit_paid_twice [OF s(1-3) this refl] obtain t :: vault where
    "egld_sent_to 4 (outbox t) = egld_sent_to 4 (outbox s) + 2 * 10" "egld_balance t + 10 = egld_balance s"
    "user_balance t = user_balance s" by blast
  then show ?thesis using s by (intro exI [of _ s] exI [of _ t]) simp
qed

text \<open>
  A deposit that fails at once leaves no trace. When the delegation of a deposit fails before
  any other call of the same user, the refund restores the balances, the total and the EGLD of
  the vault exactly, in every state, and the user gets the whole payment back.
\<close>

theorem failed_deposit_restores:
  assumes "deposit c s = Inr u" and "n = length (v_promises s)"
  shows "\<exists>t. v_deliver c' n failed u = Inr t \<and> user_balance t = user_balance s \<and>
     total_deposited t = total_deposited s \<and> pending_withdrawals t = pending_withdrawals s \<and>
     egld_balance t = egld_balance s \<and> v_promises t = v_promises s \<and>
     outbox t = outbox s @ [Event ''deposit'' [AAddr (caller c), ANat (egld_value c)],
       SendEgld (caller c) (egld_value c)]"
  using assms by (auto simp: deposit_def reserve_simps vault_eval_simps nth_append)

theorem failed_deposit_restores_witness:
  "\<exists>u t. deposit (call_ctx 7 10 []) (vault_init 5 6) = Inr u \<and> v_deliver (call_ctx 7 0 []) 0 failed u = Inr t \<and>
     user_balance t 7 = 0 \<and> egld_balance t = 0"
proof -
  have "\<exists>u. deposit (call_ctx 7 10 []) (vault_init 5 6) = Inr u"
    by (simp add: vault_eval_simps vault_init_def)
  then obtain u where u: "deposit (call_ctx 7 10 []) (vault_init 5 6) = Inr u" by blast
  from failed_deposit_restores [OF u refl, of "call_ctx 7 0 []"] u show ?thesis
    by (auto simp: vault_init_def)
qed

end
