(* ===== verification/Zk_Verifier.thy ===== *)
theory Zk_Verifier
  imports Async
begin

text \<open>
  The verifier of historical proofs (contracts/zk-verifier/src/lib.rs): a prover submits a
  commitment for a task, and anybody who knows its opening marks the proof as verified. SHA-256
  is a parameter.
\<close>

section \<open>State\<close>

record proof_data =
  z_commitment :: hash32
  z_block_nonce :: u64
  z_claimed_value :: nat
  z_prover :: address
  z_submitted_at :: u64
  z_verified :: bool

record zk_verifier = account +
  z_proofs :: "u64 \<rightharpoonup> proof_data"
  z_scheduler_addr :: address
  z_version :: u32

definition zk_init :: "address \<Rightarrow> zk_verifier res" where
  "zk_init scheduler = require (scheduler \<noteq> 0) ''Scheduler address cannot be zero'' (
     Inr \<lparr>egld_balance = 0, esdt_balance = (\<lambda>_ _. 0), outbox = [], z_proofs = Map.empty,
       z_scheduler_addr = scheduler, z_version = 1\<rparr>)"

definition zk_upgrade :: "zk_verifier \<Rightarrow> zk_verifier" where
  "zk_upgrade s = s\<lparr>z_version := z_version s + 1\<rparr>"

definition proof_submitted_event :: "u64 \<Rightarrow> address \<Rightarrow> u64 \<Rightarrow> zk_verifier \<Rightarrow> zk_verifier" where
  "proof_submitted_event i a b = emit ''proof_submitted'' [AU64 i, AAddr a, AU64 b]"

definition proof_verified_event :: "u64 \<Rightarrow> bool \<Rightarrow> zk_verifier \<Rightarrow> zk_verifier" where
  "proof_verified_event i v = emit ''proof_verified'' [AU64 i, ABool v]"

lemmas zk_event_defs = proof_submitted_event_def proof_verified_event_def emit_def

section \<open>Endpoints\<close>

definition zk_submit_proof :: "ctx \<Rightarrow> u64 \<Rightarrow> hash32 \<Rightarrow> u64 \<Rightarrow> nat \<Rightarrow> zk_verifier \<Rightarrow> zk_verifier res" where
  "zk_submit_proof c task_id commitment nonce claimed_value s = not_payable c (
     require (case z_proofs s task_id of None \<Rightarrow> True | Some existing \<Rightarrow> \<not> z_verified existing)
       ''Proof already verified - cannot overwrite'' (
     let now = block_timestamp c;
         data = \<lparr>z_commitment = commitment, z_block_nonce = nonce, z_claimed_value = claimed_value,
                 z_prover = caller c, z_submitted_at = now, z_verified = False\<rparr>
     in Inr (proof_submitted_event task_id (caller c) nonce
          (s\<lparr>z_proofs := (z_proofs s)(task_id \<mapsto> data)\<rparr>))))"

definition opening_bytes :: "u64 \<Rightarrow> nat \<Rightarrow> bytes \<Rightarrow> bytes" where
  "opening_bytes nonce claimed_value salt = u64_be nonce @ to_bytes_be claimed_value @ salt"

definition zk_verify_proof ::
  "(bytes \<Rightarrow> hash32) \<Rightarrow> ctx \<Rightarrow> u64 \<Rightarrow> bytes \<Rightarrow> zk_verifier \<Rightarrow> zk_verifier res" where
  "zk_verify_proof sha c task_id salt s = not_payable c (
     require (z_proofs s task_id \<noteq> None) ''No proof submitted'' (
     bind_res (get_slot (z_proofs s task_id)) (\<lambda>data.
     require (\<not> z_verified data) ''Already verified'' (
     let hash_input = opening_bytes (z_block_nonce data) (z_claimed_value data) salt;
         computed_hash = sha hash_input
     in require (computed_hash = z_commitment data) ''ZK verification failed: commitment mismatch'' (
     let data = data\<lparr>z_verified := True\<rparr>
     in Inr (proof_verified_event task_id True
          (s\<lparr>z_proofs := (z_proofs s)(task_id \<mapsto> data)\<rparr>)))))))"

definition is_proof_valid :: "u64 \<Rightarrow> zk_verifier \<Rightarrow> bool" where
  "is_proof_valid task_id s = (case z_proofs s task_id of None \<Rightarrow> False | Some data \<Rightarrow> z_verified data)"

definition get_proof :: "u64 \<Rightarrow> zk_verifier \<Rightarrow> proof_data res" where
  "get_proof task_id s = require (z_proofs s task_id \<noteq> None) ''No proof found'' (
     get_slot (z_proofs s task_id))"

section \<open>Calls\<close>

datatype zk_call =
    ZkSubmit u64 hash32 u64 nat
  | ZkVerify u64 bytes
  | ZkUpgrade

fun zk_exec :: "(bytes \<Rightarrow> hash32) \<Rightarrow> ctx \<Rightarrow> zk_call \<Rightarrow> zk_verifier \<Rightarrow> zk_verifier res" where
  "zk_exec sha c (ZkSubmit i cm b v) s = zk_submit_proof c i cm b v s"
| "zk_exec sha c (ZkVerify i salt) s = zk_verify_proof sha c i salt s"
| "zk_exec sha c ZkUpgrade s = only_owner c (Inr (zk_upgrade s))"

inductive zk_step :: "(bytes \<Rightarrow> hash32) \<Rightarrow> zk_verifier \<Rightarrow> ctx \<times> zk_call \<Rightarrow> zk_verifier \<Rightarrow> bool" for sha where
  zk_call: "zk_exec sha c l s = Inr t \<Longrightarrow> zk_step sha s (c, l) t"

text \<open>
  The contract as another contract reaches it: an endpoint is selected by its name, and a name
  that the contract does not export is an error of the virtual machine, as are arguments that
  do not fit. \<open>enc\<close> encodes the answers of the views.
\<close>

datatype answer = BoolAnswer bool | ProofAnswer proof_data

definition zk_dispatch ::
  "(bytes \<Rightarrow> hash32) \<Rightarrow> (answer \<Rightarrow> bytes) \<Rightarrow> ctx \<Rightarrow> bytes \<Rightarrow> arg list \<Rightarrow> zk_verifier \<Rightarrow>
     (bytes list \<times> zk_verifier) res" where
  "zk_dispatch sha enc c f as s =
     (if f = ''submitProof'' then (case as of
        [AU64 i, AHash cm, AU64 b, ANat v] \<Rightarrow> bind_res (zk_submit_proof c i cm b v s) (\<lambda>s. Inr ([], s))
      | _ \<Rightarrow> Inl (VmError ''wrong number of arguments''))
      else if f = ''verifyProof'' then (case as of
        [AU64 i, ABytes salt] \<Rightarrow> bind_res (zk_verify_proof sha c i salt s) (\<lambda>s. Inr ([], s))
      | _ \<Rightarrow> Inl (VmError ''wrong number of arguments''))
      else if f = ''isProofValid'' then (case as of
        [AU64 i] \<Rightarrow> Inr ([enc (BoolAnswer (is_proof_valid i s))], s)
      | _ \<Rightarrow> Inl (VmError ''wrong number of arguments''))
      else if f = ''getProof'' then (case as of
        [AU64 i] \<Rightarrow> bind_res (get_proof i s) (\<lambda>p. Inr ([enc (ProofAnswer p)], s))
      | _ \<Rightarrow> Inl (VmError ''wrong number of arguments''))
      else Inl (VmError ''invalid function (not found)''))"

section \<open>Properties\<close>

definition zk_inv :: "(bytes \<Rightarrow> hash32) \<Rightarrow> zk_verifier \<Rightarrow> bool" where
  "zk_inv sha s \<longleftrightarrow> (\<forall>i data. z_proofs s i = Some data \<longrightarrow> z_verified data \<longrightarrow>
     (\<exists>salt. sha (opening_bytes (z_block_nonce data) (z_claimed_value data) salt) = z_commitment data))"

lemma zk_exec_inv: "zk_exec sha c l s = Inr t \<Longrightarrow> zk_inv sha s \<Longrightarrow> zk_inv sha t"
  by (cases l;
    auto simp: zk_inv_def zk_submit_proof_def zk_verify_proof_def zk_upgrade_def res_simps
      zk_event_defs Let_def split: if_splits; blast)

lemma zk_exec_keeps_verified:
  "zk_exec sha c l s = Inr t \<Longrightarrow> z_proofs s i = Some data \<Longrightarrow> z_verified data \<Longrightarrow> z_proofs t i = Some data"
  by (cases l)
    (auto simp: zk_submit_proof_def zk_verify_proof_def zk_upgrade_def res_simps zk_event_defs Let_def
      split: option.splits)

interpretation zk_openings: invariant_system "zk_step sha" "\<lambda>_. True" "zk_inv sha" for sha
  by unfold_locales (auto simp: zk_step.simps intro: zk_exec_inv)

interpretation zk_final: invariant_system "zk_step sha" "\<lambda>_. True"
  "\<lambda>s. z_proofs s i = Some data \<and> z_verified data" for sha i data
  by unfold_locales (auto simp: zk_step.simps intro: zk_exec_keeps_verified)

text \<open>
  C25. A verified proof is opened and final. In every reachable state of the verifier, a proof
  that \<open>isProofValid\<close> accepts has an opening: block nonce, claimed value and some salt hash to
  the stored commitment. No later call of anybody changes that proof or makes it invalid.
\<close>

theorem zk_verified_final:
  assumes "zk_init a = Inr s0" and "run (zk_step sha) s0 ls s" and "is_proof_valid i s"
    and "run (zk_step sha) s ks t"
  shows "\<exists>data. get_proof i s = Inr data \<and> get_proof i t = Inr data \<and> is_proof_valid i t \<and>
     (\<exists>salt. sha (opening_bytes (z_block_nonce data) (z_claimed_value data) salt) = z_commitment data)"
proof -
  obtain data where d: "z_proofs s i = Some data \<and> z_verified data"
    using assms(3) by (auto simp: is_proof_valid_def split: option.splits)
  have "zk_inv sha s0" using assms(1) by (auto simp: zk_init_def res_simps zk_inv_def)
  then have "zk_inv sha s" using zk_openings.run_inv [OF assms(2)] by (simp add: list_all_iff)
  moreover have "z_proofs t i = Some data \<and> z_verified data"
    using zk_final.run_inv [OF assms(4)] d by (simp add: list_all_iff)
  ultimately show ?thesis using d by (auto simp: get_proof_def is_proof_valid_def zk_inv_def)
qed

lemmas zk_run = run_callsD [of "zk_exec sha" "zk_step sha" for sha, OF zk_step.intros]

text \<open>
  The verifier vouches for nothing but the prover's own word. Whoever calls, whatever block
  and value are claimed, and whatever the hash function is: in every state in which the task has
  no verified proof yet, a caller can submit a commitment to that claim and have it verified in
  the next call. The header of the contract promises a check against known block hashes and of
  the prover's registration.
\<close>

theorem zk_any_claim_verifies:
  assumes "\<not> is_proof_valid i s"
  shows "\<exists>t data. run (zk_step sha) s [(call_ctx a 0 [], ZkSubmit i (sha (opening_bytes b v salt)) b v),
       (call_ctx a 0 [], ZkVerify i salt)] t \<and> is_proof_valid i t \<and> get_proof i t = Inr data \<and>
       z_claimed_value data = v \<and> z_block_nonce data = b \<and> z_prover data = a"
proof -
  have "\<exists>t data. run_calls (zk_exec sha) s [(call_ctx a 0 [], ZkSubmit i (sha (opening_bytes b v salt)) b v),
       (call_ctx a 0 [], ZkVerify i salt)] = Inr t \<and> is_proof_valid i t \<and> get_proof i t = Inr data \<and>
       z_claimed_value data = v \<and> z_block_nonce data = b \<and> z_prover data = a"
    using assms by (cases "z_proofs s i") (simp_all add: zk_submit_proof_def zk_verify_proof_def
        not_payable_def Let_def zk_event_defs is_proof_valid_def get_proof_def)
  then show ?thesis using zk_run by blast
qed

definition toy_sha :: "bytes \<Rightarrow> hash32" where
  "toy_sha bs = of_nat (from_bytes_be bs)"

lemma demo_zk_init: "zk_init 3 = Inr \<lparr>egld_balance = 0, esdt_balance = (\<lambda>_ _. 0), outbox = [],
    z_proofs = Map.empty, z_scheduler_addr = 3, z_version = 1\<rparr>"
  by (simp add: zk_init_def)

definition demo_zk_calls :: "(ctx \<times> zk_call) list" where
  "demo_zk_calls = [(call_ctx 4 0 [], ZkSubmit 5 (toy_sha (opening_bytes 1 999 [])) 1 999), (call_ctx 4 0 [], ZkVerify 5 [])]"

theorem zk_any_claim_verifies_witness:
  "\<exists>s t. zk_init 3 = Inr s \<and> \<not> is_proof_valid 5 s \<and> run (zk_step toy_sha) s demo_zk_calls t \<and>
     is_proof_valid 5 t"
proof -
  obtain s where s: "zk_init 3 = Inr s" "z_proofs s = Map.empty" by (simp add: demo_zk_init)
  then have n: "\<not> is_proof_valid 5 s" by (simp add: is_proof_valid_def)
  from zk_any_claim_verifies [OF n, of toy_sha 4 1 999 "[]", folded demo_zk_calls_def] s(1) n
  show ?thesis by blast
qed

lemma demo_zk_verified:
  "\<exists>s t. zk_init 3 = Inr s \<and> is_proof_valid 5 t \<and> run (zk_step toy_sha) s demo_zk_calls t"
proof -
  have "\<exists>s t. zk_init 3 = Inr s \<and> is_proof_valid 5 t \<and> run_calls (zk_exec toy_sha) s demo_zk_calls = Inr t"
    by (simp add: demo_zk_calls_def demo_zk_init zk_submit_proof_def zk_verify_proof_def not_payable_def
        Let_def zk_event_defs is_proof_valid_def)
  then show ?thesis using zk_run by blast
qed

theorem zk_verified_final_witness: "\<exists>t data. get_proof 5 t = Inr data \<and> is_proof_valid 5 t"
proof -
  from demo_zk_verified obtain s t where
    "zk_init 3 = Inr s" "is_proof_valid 5 t" "run (zk_step toy_sha) s demo_zk_calls t" by blast
  from zk_verified_final [OF this(1,3,2) run_nil] show ?thesis by blast
qed

end
