(* ===== verification/Hft_Vault.thy ===== *)
theory Hft_Vault
  imports Async
begin

text \<open>
  The arbitrage vault (contracts/xcron-hft-vault/src/xcron_hft_vault.rs). The pools it trades
  with are contracts outside the repository: a pool call takes the state of the vault after the
  payment has left, may do anything with it (it may even call the vault again), and returns the
  transfers it sent back together with the state afterwards.
\<close>

section \<open>State and administration\<close>

record hft_vault = account +
  hv_is_paused :: bool
  authorized_bot :: address

type_synonym pool = "bytes \<Rightarrow> arg list \<Rightarrow> esdt_payment \<Rightarrow> hft_vault \<Rightarrow> (esdt_payment list \<times> hft_vault) res"

definition hv_init :: "address \<Rightarrow> hft_vault" where
  "hv_init bot_address = \<lparr>egld_balance = 0, esdt_balance = (\<lambda>_ _. 0), outbox = [], hv_is_paused = False,
     authorized_bot = bot_address\<rparr>"

definition hv_upgrade :: "hft_vault \<Rightarrow> hft_vault" where
  "hv_upgrade s = s"

definition hv_pause :: "ctx \<Rightarrow> hft_vault \<Rightarrow> hft_vault res" where
  "hv_pause c s = not_payable c (only_owner c (Inr (s\<lparr>hv_is_paused := True\<rparr>)))"

definition hv_unpause :: "ctx \<Rightarrow> hft_vault \<Rightarrow> hft_vault res" where
  "hv_unpause c s = not_payable c (only_owner c (Inr (s\<lparr>hv_is_paused := False\<rparr>)))"

definition set_authorized_bot :: "ctx \<Rightarrow> address \<Rightarrow> hft_vault \<Rightarrow> hft_vault res" where
  "set_authorized_bot c a s = not_payable c (only_owner c (Inr (s\<lparr>authorized_bot := a\<rparr>)))"

definition hv_deposit :: "ctx \<Rightarrow> hft_vault \<Rightarrow> hft_vault res" where
  "hv_deposit c s = Inr (receive c s)"

definition hv_withdraw :: "ctx \<Rightarrow> token \<Rightarrow> nat \<Rightarrow> hft_vault \<Rightarrow> hft_vault res" where
  "hv_withdraw c tk x s = not_payable c (only_owner c (direct_esdt (caller c) tk 0 x s))"

definition hv_withdraw_all :: "ctx \<Rightarrow> token \<Rightarrow> hft_vault \<Rightarrow> hft_vault res" where
  "hv_withdraw_all c tk s = not_payable c (only_owner c (
     let balance = esdt_balance s tk 0 in
     require (0 < balance) ''No balance to withdraw'' (
     direct_esdt (caller c) tk 0 balance s)))"

definition hv_get_balance :: "token \<Rightarrow> hft_vault \<Rightarrow> nat" where
  "hv_get_balance tk s = esdt_balance s tk 0"

section \<open>The arbitrage\<close>

definition pool_call :: "pool \<Rightarrow> bytes \<Rightarrow> arg list \<Rightarrow> esdt_payment \<Rightarrow> hft_vault \<Rightarrow>
    (esdt_payment list \<times> hft_vault) res" where
  "pool_call pl f as p s =
     vm_require (amount p \<le> esdt_balance s (token_identifier p) (token_nonce p)) ''insufficient funds''
       (pl f as p (s\<lparr>esdt_balance :=
          debit (token_identifier p) (token_nonce p) (amount p) (esdt_balance s)\<rparr>))"

text \<open>The loop over the transfers that came back, which stops at the first of the wanted token.\<close>

fun find_payment :: "token \<Rightarrow> esdt_payment list \<Rightarrow> esdt_payment option" where
  "find_payment tk [] = None"
| "find_payment tk (p # ps) = (if token_identifier p = tk then Some p else find_payment tk ps)"

definition execute_flash_arbitrage ::
  "(address \<Rightarrow> pool) \<Rightarrow> ctx \<Rightarrow> token \<Rightarrow> nat \<Rightarrow> address \<Rightarrow> token \<Rightarrow> address \<Rightarrow> nat \<Rightarrow> nat \<Rightarrow> bytes \<Rightarrow>
     hft_vault \<Rightarrow> hft_vault res" where
  "execute_flash_arbitrage pools c token_in amount_in pool_a token_mid pool_b min_mid_amount
       min_final_amount endpoint_b s = not_payable c (
     require (\<not> hv_is_paused s) ''Vault pausado por el Owner'' (
     require (caller c = authorized_bot s \<or> caller c = owner_address c) ''Caller no autorizado'' (
     let balance_start = esdt_balance s token_in 0 in
     require (amount_in \<le> balance_start) ''Liquidez insuficiente en Vault'' (
     bind_res (pool_call (pools pool_a) ''swapTokensFixedInput''
         [ABytes token_mid, ANat min_mid_amount]
         \<lparr>token_identifier = token_in, token_nonce = 0, amount = amount_in\<rparr> s) (\<lambda>(mid_payments, s).
     require (mid_payments \<noteq> []) ''Pool A no devolvio tokens'' (
     case find_payment token_mid mid_payments of
       None \<Rightarrow> Inl (UserError ''Pool A no devolvio el token_mid'')
     | Some mid \<Rightarrow>
       require (amount mid \<noteq> 0) ''Zero value back-transfer recibida (Dust exploit detedted)'' (
       bind_res (pool_call (pools pool_b) endpoint_b [ABytes token_in, ANat min_final_amount] mid s)
         (\<lambda>(final_payments, s).
       require (final_payments \<noteq> []) ''Pool B no devolvio tokens'' (
       let balance_end = esdt_balance s token_in 0 in
       require (balance_start < balance_end) ''ABORT: Operacion no rentable. Capital protegido.'' (
       bind_res (big_sub balance_start amount_in) (\<lambda>rest.
       let expected_min_end = rest + min_final_amount in
       require (expected_min_end \<le> balance_end)
         ''ABORT: Ganancia neta por debajo del umbral economico minimo.'' (Inr s))))))))))))"

section \<open>Properties\<close>

text \<open>
  Documented behaviour of a contract that is called with a payment: it cannot take anything from
  the caller beyond the payment, and the transfers it reports are credited.
\<close>

definition pool_credits :: "pool \<Rightarrow> bool" where
  "pool_credits pl \<longleftrightarrow> (\<forall>f as p s back t. pl f as p s = Inr (back, t) \<longrightarrow>
     t = s\<lparr>esdt_balance := credit_esdt back (esdt_balance s)\<rparr>)"

lemma find_payment_in: "find_payment tk ps = Some p \<Longrightarrow> p \<in> set ps \<and> token_identifier p = tk"
  by (induction ps) (auto split: if_splits)

lemma pool_call_credits:
  assumes "pool_call pl f as p s = Inr (back, t)" and "pool_credits pl"
  shows "t = s\<lparr>esdt_balance := credit_esdt back
      (debit (token_identifier p) (token_nonce p) (amount p) (esdt_balance s))\<rparr>"
proof -
  have "pl f as p (s\<lparr>esdt_balance := debit (token_identifier p) (token_nonce p) (amount p) (esdt_balance s)\<rparr>)
      = Inr (back, t)" using assms(1) by (simp add: pool_call_def res_simps)
  from assms(2) [unfolded pool_credits_def, rule_format, OF this] show ?thesis by simp
qed

lemma arbitrage_Inr:
  assumes "execute_flash_arbitrage pools c tin x pa tmid pb mmid mfin fb s = Inr t"
  obtains back1 s1 mid back2 where "\<not> hv_is_paused s" "caller c = authorized_bot s \<or> caller c = owner_address c"
    "x \<le> esdt_balance s tin 0"
    "pool_call (pools pa) ''swapTokensFixedInput'' [ABytes tmid, ANat mmid]
       \<lparr>token_identifier = tin, token_nonce = 0, amount = x\<rparr> s = Inr (back1, s1)"
    "find_payment tmid back1 = Some mid"
    "pool_call (pools pb) fb [ABytes tin, ANat mfin] mid s1 = Inr (back2, t)"
    "esdt_balance s tin 0 < esdt_balance t tin 0"
    "esdt_balance s tin 0 - x + mfin \<le> esdt_balance t tin 0"
  using assms
  by (auto simp: execute_flash_arbitrage_def Let_def res_simps split: option.splits)

text \<open>
  C26. The arbitrage never loses. For arbitrary pools, which may call the vault again, a flash
  arbitrage that succeeds was started by the bot or the owner while the vault was not paused; the
  vault ends with strictly more of the traded token than before and with at least the demanded
  minimum beyond what was not put in. When the pools take no more than their payments, no balance
  of any other token and nonce is smaller than before.
\<close>

theorem flash_arbitrage_never_loses:
  assumes "execute_flash_arbitrage pools c tin x pa tmid pb mmid mfin fb s = Inr t"
  shows "\<not> hv_is_paused s \<and> (caller c = authorized_bot s \<or> caller c = owner_address c) \<and>
     esdt_balance s tin 0 < esdt_balance t tin 0 \<and>
     esdt_balance s tin 0 + mfin \<le> esdt_balance t tin 0 + x \<and>
     (pool_credits (pools pa) \<and> pool_credits (pools pb) \<longrightarrow>
        (\<forall>tk n. esdt_balance s tk n \<le> esdt_balance t tk n) \<and> egld_balance t = egld_balance s)"
  using assms
proof (cases rule: arbitrage_Inr)
  case (1 back1 s1 mid back2)
  let ?b = "debit tin 0 x (esdt_balance s)"
  have "(\<forall>tk n. esdt_balance s tk n \<le> esdt_balance t tk n) \<and> egld_balance t = egld_balance s"
    if p: "pool_credits (pools pa)" "pool_credits (pools pb)"
  proof (intro conjI allI)
    have s1: "s1 = s\<lparr>esdt_balance := credit_esdt back1 ?b\<rparr>"
      using pool_call_credits [OF 1(4) p(1)] by simp
    have t: "t = s1\<lparr>esdt_balance := credit_esdt back2 (debit tmid (token_nonce mid) (amount mid) (esdt_balance s1))\<rparr>"
      using pool_call_credits [OF 1(6) p(2)] find_payment_in [OF 1(5)] by simp
    then show "egld_balance t = egld_balance s" by (simp add: s1)
    fix tk n
    have "?b tk n \<le> debit tmid (token_nonce mid) (amount mid) (esdt_balance s1) tk n"
      using paid_in_member [of mid back1] find_payment_in [OF 1(5)]
      by (auto simp: debit_apply s1 credit_esdt_apply)
    also have "\<dots> \<le> esdt_balance t tk n" unfolding t by (simp add: credit_esdt_apply)
    finally have "?b tk n \<le> esdt_balance t tk n" .
    then show "esdt_balance s tk n \<le> esdt_balance t tk n"
      using 1(7) by (cases "tk = tin \<and> n = 0") (auto simp: debit_apply split: if_splits)
  qed
  then show ?thesis using 1 by auto
qed

text \<open>Two pools at different prices: 100 of the base token buy 210 of the other, which buy 105.\<close>

definition demo_pools :: "address \<Rightarrow> pool" where
  "demo_pools a f as p s = (let back = (if a = 1
       then [\<lparr>token_identifier = ''MID'', token_nonce = 0, amount = amount p * 21 div 10\<rparr>]
       else [\<lparr>token_identifier = ''BASE'', token_nonce = 0, amount = amount p div 2\<rparr>])
     in Inr (back, s\<lparr>esdt_balance := credit_esdt back (esdt_balance s)\<rparr>))"

theorem flash_arbitrage_never_loses_witness:
  "\<exists>s t. execute_flash_arbitrage demo_pools (call_ctx 5 0 []) ''BASE'' 100 1 ''MID'' 2 200 104 ''swap'' s = Inr t \<and>
     esdt_balance s ''BASE'' 0 = 100 \<and> 104 \<le> esdt_balance t ''BASE'' 0 \<and>
     (\<forall>tk n. esdt_balance s tk n \<le> esdt_balance t tk n)"
proof -
  define s where "s = (hv_init 5)\<lparr>esdt_balance := (\<lambda>_ _. 0)(''BASE'' := (\<lambda>_. 0)(0 := 100))\<rparr>"
  have "\<exists>t. execute_flash_arbitrage demo_pools (call_ctx 5 0 []) ''BASE'' 100 1 ''MID'' 2 200 104 ''swap'' s = Inr t"
    by (simp add: execute_flash_arbitrage_def not_payable_def  s_def hv_init_def pool_call_def
        demo_pools_def debit_def big_sub_def)
  then obtain t where t: "execute_flash_arbitrage demo_pools (call_ctx 5 0 []) ''BASE'' 100 1 ''MID'' 2 200 104 ''swap'' s = Inr t"
    by blast
  have "pool_credits (demo_pools a)" for a by (auto simp: pool_credits_def demo_pools_def Let_def)
  moreover have "esdt_balance s ''BASE'' 0 = 100" by (simp add: s_def)
  ultimately show ?thesis using flash_arbitrage_never_loses [OF t] t
    by (intro exI [of _ s] exI [of _ t]) simp
qed

end
