(* ===== verification/Agent_Types.thy ===== *)
theory Agent_Types
  imports Async
begin

text \<open>
  What the agent contracts share (contracts/xcron-agent-shield/common/src): the data types of
  structs.rs, and the bidirectional mapper behind the agent registry. Contracts read each other's
  storage (cross_contract.rs); here the state of the other contract is an argument.
\<close>

section \<open>Data (structs.rs)\<close>

datatype job_status = JobNew | JobPending | JobVerified | JobValidationRequested | JobRejected

record job_data =
  j_status :: job_status
  j_proof :: bytes
  j_employer :: address
  j_creation_timestamp :: u64
  j_agent_nonce :: u64

record validation_request_data =
  vr_validator_address :: address
  vr_agent_nonce :: u64
  vr_job_id :: bytes
  vr_response :: u8
  vr_response_hash :: bytes
  vr_tag :: bytes
  vr_last_update :: u64

record metadata_entry =
  me_key :: bytes
  me_value :: bytes

record agent_details =
  ad_name :: bytes
  ad_public_key :: bytes

record service_config_input =
  sc_service_id :: u32
  sc_price :: nat
  sc_token :: token
  sc_nonce :: u64

section \<open>The bidirectional mapper\<close>

text \<open>
  A \<open>BiDiMapper\<close> keeps ids and values in two maps. Its \<open>insert\<close> is code of the framework
  and a parameter here; what its documentation says is the interface: a pair is stored when
  both its id and its value are new, and otherwise nothing changes.
\<close>

record bidi =
  value_of :: "u64 \<rightharpoonup> address"
  id_of :: "address \<rightharpoonup> u64"

type_synonym bidi_insert = "u64 \<Rightarrow> address \<Rightarrow> bidi \<Rightarrow> bidi"

definition bidi_empty :: bidi where
  "bidi_empty = \<lparr>value_of = Map.empty, id_of = Map.empty\<rparr>"

definition bidi_get_id :: "address \<Rightarrow> bidi \<Rightarrow> u64" where
  "bidi_get_id a m = (case id_of m a of None \<Rightarrow> 0 | Some i \<Rightarrow> i)"

definition bidi_documented :: "bidi_insert \<Rightarrow> bool" where
  "bidi_documented ins \<longleftrightarrow> (\<forall>i a m.
     ins i a m = (if i \<in> dom (value_of m) \<or> a \<in> dom (id_of m) then m
                  else m\<lparr>value_of := (value_of m)(i \<mapsto> a), id_of := (id_of m)(a \<mapsto> i)\<rparr>))"

definition bidi_inv :: "bidi \<Rightarrow> bool" where
  "bidi_inv m \<longleftrightarrow> (\<forall>i a. value_of m i = Some a \<longleftrightarrow> id_of m a = Some i)"

definition bidi_store :: bidi_insert where
  "bidi_store i a m = (if i \<in> dom (value_of m) \<or> a \<in> dom (id_of m) then m
     else m\<lparr>value_of := (value_of m)(i \<mapsto> a), id_of := (id_of m)(a \<mapsto> i)\<rparr>)"

locale bidi_mapper =
  fixes ins :: bidi_insert
  assumes documented: "bidi_documented ins"
begin

lemma insert_taken: "value_of m i = Some b \<Longrightarrow> ins i a m = m"
  using documented by (auto simp: bidi_documented_def)

lemma insert_fresh:
  "value_of m i = None \<Longrightarrow> id_of m a = None \<Longrightarrow>
     value_of (ins i a m) = (value_of m)(i \<mapsto> a) \<and> id_of (ins i a m) = (id_of m)(a \<mapsto> i)"
  using documented by (auto simp: bidi_documented_def dom_def)

lemma insert_inv: "bidi_inv m \<Longrightarrow> bidi_inv (ins i a m)"
proof -
  assume inv: "bidi_inv m"
  have "ins i a m = m \<or> value_of m i = None \<and> id_of m a = None"
    using documented by (auto simp: bidi_documented_def dom_def)
  then show ?thesis
  proof
    assume f: "value_of m i = None \<and> id_of m a = None"
    have "value_of m j \<noteq> Some a" "id_of m b \<noteq> Some i" for j b
      using inv f unfolding bidi_inv_def by (metis option.distinct(1))+
    then show ?thesis using inv insert_fresh [of m i a] f by (auto simp: bidi_inv_def)
  qed (use inv in simp)
qed

end

lemma bidi_store_documented: "bidi_documented bidi_store"
  by (simp add: bidi_documented_def bidi_store_def)

interpretation bidi_store: bidi_mapper bidi_store
  by unfold_locales (rule bidi_store_documented)

lemma bidi_inv_empty [simp]: "bidi_inv bidi_empty"
  by (simp add: bidi_inv_def bidi_empty_def)

section \<open>Payments\<close>

text \<open>
  \<open>call_value().single_esdt()\<close>, and \<open>single_optional()\<close>, which also accepts EGLD, as a payment
  of the token \<open>EGLD-000000\<close>.
\<close>

definition single_esdt :: "ctx \<Rightarrow> esdt_payment res" where
  "single_esdt c = (case esdt_transfers c of [p] \<Rightarrow> Inr p
     | _ \<Rightarrow> Inl (VmError ''incorrect number of ESDT transfers''))"

definition EGLD_TOKEN :: token where "EGLD_TOKEN = ''EGLD-000000''"

definition single_optional :: "ctx \<Rightarrow> esdt_payment option res" where
  "single_optional c = (case esdt_transfers c of
     [] \<Rightarrow> Inr (if 0 < egld_value c
       then Some \<lparr>token_identifier = EGLD_TOKEN, token_nonce = 0, amount = egld_value c\<rparr> else None)
   | [p] \<Rightarrow> if egld_value c = 0 then Inr (Some p)
       else Inl (VmError ''incorrect number of transfers'')
   | _ \<Rightarrow> Inl (VmError ''incorrect number of transfers''))"

definition single_payment :: "ctx \<Rightarrow> esdt_payment res" where
  "single_payment c = bind_res (single_optional c) (\<lambda>p'. case p' of
     None \<Rightarrow> Inl (VmError ''incorrect number of transfers'') | Some p \<Rightarrow> Inr p)"

text \<open>A transfer of a payment in whichever currency it is.\<close>

definition transfer_payment :: "address \<Rightarrow> esdt_payment \<Rightarrow> 'a account_scheme \<Rightarrow> 'a account_scheme res" where
  "transfer_payment to p s = (if token_identifier p = EGLD_TOKEN then direct_egld to (amount p) s
     else direct_esdt to (token_identifier p) (token_nonce p) (amount p) s)"

lemma single_esdt_eq_Inr [res_simps]: "single_esdt c = Inr p \<longleftrightarrow> esdt_transfers c = [p]"
  by (auto simp: single_esdt_def split: list.splits)

lemma single_optional_eq_Inr [res_simps]:
  "single_optional c = Inr x \<longleftrightarrow>
     esdt_transfers c = [] \<and> egld_value c = 0 \<and> x = None \<or>
     esdt_transfers c = [] \<and> 0 < egld_value c \<and>
       x = Some \<lparr>token_identifier = EGLD_TOKEN, token_nonce = 0, amount = egld_value c\<rparr> \<or>
     (\<exists>p. esdt_transfers c = [p] \<and> egld_value c = 0 \<and> x = Some p)"
  by (auto simp: single_optional_def split: list.splits)

lemma single_payment_eq_Inr [res_simps]: "single_payment c = Inr p \<longleftrightarrow> single_optional c = Inr (Some p)"
proof (cases "single_optional c")
  case (Inr x)
  then show ?thesis by (cases x) (auto simp: single_payment_def)
qed (simp add: single_payment_def)

end
