(* ===== verification/Agent_Shield.thy ===== *)
theory Agent_Shield
  imports Agent_Types
begin

text \<open>
  The shield of an agent (contracts/xcron-agent-shield/escrow/src): a treasury from which an
  authorised agent makes calls within a daily limit per token. A call is a promise; when it
  fails, its callback gives the amount back to the quota of that day. The syntax check of token
  identifiers is code of the framework and a parameter.
\<close>

section \<open>State (storage.rs, lib.rs)\<close>

datatype escrow_status = EscrowActive | EscrowReleased | EscrowRefunded

record escrow_data =
  es_employer :: address
  es_receiver :: address
  es_token_id :: token
  es_token_nonce :: u64
  es_amount :: nat
  es_poa_hash :: bytes
  es_deadline :: u64
  es_status :: escrow_status

record agent_callback =
  cb_token_id :: token
  cb_current_day :: u64
  cb_amount :: nat

record shield = account +
  escrow_data_of :: "bytes \<rightharpoonup> escrow_data"
  sh_validation_contract_address :: address
  sh_identity_contract_address :: address
  authorized_agent :: address
  sh_is_paused :: bool
  shield_daily_limit :: "token \<Rightarrow> nat"
  daily_spent :: "token \<Rightarrow> u64 \<Rightarrow> nat"
  sh_promises :: "agent_callback promise list"

definition shield_init :: "address \<Rightarrow> address \<Rightarrow> address \<Rightarrow> shield" where
  "shield_init va ia agent = \<lparr>egld_balance = 0, esdt_balance = (\<lambda>_ _. 0), outbox = [],
     escrow_data_of = Map.empty, sh_validation_contract_address = va, sh_identity_contract_address = ia,
     authorized_agent = agent, sh_is_paused = False, shield_daily_limit = (\<lambda>_. 0),
     daily_spent = (\<lambda>_ _. 0), sh_promises = []\<rparr>"

definition shield_upgrade :: "shield \<Rightarrow> shield" where
  "shield_upgrade s = s"

section \<open>Endpoints (lib.rs)\<close>

definition set_shield_limit :: "ctx \<Rightarrow> token \<Rightarrow> nat \<Rightarrow> shield \<Rightarrow> shield res" where
  "set_shield_limit c tk max_daily_amount s = not_payable c (only_owner c (
     Inr (s\<lparr>shield_daily_limit := (shield_daily_limit s)(tk := max_daily_amount)\<rparr>)))"

definition pause_shield :: "ctx \<Rightarrow> shield \<Rightarrow> shield res" where
  "pause_shield c s = not_payable c (only_owner c (Inr (s\<lparr>sh_is_paused := True\<rparr>)))"

definition unpause_shield :: "ctx \<Rightarrow> shield \<Rightarrow> shield res" where
  "unpause_shield c s = not_payable c (only_owner c (Inr (s\<lparr>sh_is_paused := False\<rparr>)))"

definition fund_treasury :: "ctx \<Rightarrow> shield \<Rightarrow> shield res" where
  "fund_treasury c s = Inr (receive c s)"

definition prohibited_functions :: "bytes list" where
  "prohibited_functions = [''ESDTTransfer'', ''ESDTNFTTransfer'', ''MultiESDTNFTTransfer'', ''approve'',
     ''setLocalRoles'']"

text \<open>Seconds, also when the clock delivers milliseconds.\<close>

definition current_day_of :: "u64 \<Rightarrow> u64" where
  "current_day_of raw_time = (let safe_time = (if raw_time > 100000000000 then raw_time div 1000 else raw_time)
     in safe_time div 86400)"

definition sh_register ::
  "address \<Rightarrow> bytes \<Rightarrow> arg list \<Rightarrow> esdt_payment list \<Rightarrow> u64 \<Rightarrow> agent_callback \<Rightarrow> shield \<Rightarrow> shield" where
  "sh_register to f as ps g cb s = s\<lparr>sh_promises := sh_promises s @ [\<lparr>pr_to = to, pr_endpoint = f,
     pr_args = as, pr_egld = 0, pr_esdt = ps, pr_gas = g, pr_callback = cb\<rparr>]\<rparr>"

definition agent_propose_execution ::
  "(token \<Rightarrow> bool) \<Rightarrow> ctx \<Rightarrow> address \<Rightarrow> token \<Rightarrow> nat \<Rightarrow> bytes \<Rightarrow> bytes list \<Rightarrow> shield \<Rightarrow> shield res" where
  "agent_propose_execution valid_id c target_contract token_id amnt func_name args s = not_payable c (
     require (\<not> sh_is_paused s) ''Shield is Paused (Breaker Active)'' (
     require (valid_id token_id) ''Invalid Token Format'' (
     require (caller c = authorized_agent s) ''Only AI Agent can propose'' (
     require (func_name \<notin> set prohibited_functions)
       ''Agent Shield: Raw token transfers and approvals are strictly prohibited'' (
     require (shield_daily_limit s token_id \<noteq> 0) ''Token not authorized in Security Vault'' (
     let limit = shield_daily_limit s token_id;
         current_day = current_day_of (block_timestamp c);
         spent_today = daily_spent s token_id current_day + amnt
     in if spent_today > limit
        then (let s = s\<lparr>sh_is_paused := True\<rparr> in
              Inl (UserError ''Threshold exceeded: Spend exceeds daily shield limits! VAULT FROZEN.''))
        else
     let s = s\<lparr>daily_spent := (daily_spent s)(token_id :=
               (daily_spent s token_id)(current_day := spent_today))\<rparr>
     in require (target_contract \<noteq> sc_address c) ''Agent cannot reference the Shield directly'' (
     let gas_for_call = (if gas_left c > 15000000 then gas_left c - 10000000 else gas_left c);
         cb = \<lparr>cb_token_id = token_id, cb_current_day = current_day, cb_amount = amnt\<rparr>
     in if 0 < amnt
        then vm_require (amnt \<le> esdt_balance s token_id 0) ''insufficient funds'' (
               Inr (sh_register target_contract func_name (map ABytes args)
                 [\<lparr>token_identifier = token_id, token_nonce = 0, amount = amnt\<rparr>] gas_for_call cb
                 (s\<lparr>esdt_balance := debit token_id 0 amnt (esdt_balance s)\<rparr>)))
        else Inr (sh_register target_contract func_name (map ABytes args) [] gas_for_call cb s))))))))"

definition agent_execution_callback :: "agent_callback \<Rightarrow> bool \<Rightarrow> shield \<Rightarrow> shield" where
  "agent_execution_callback cb result_ok s = (if result_ok then s else
     let spent_today = daily_spent s (cb_token_id cb) (cb_current_day cb)
     in if cb_amount cb \<le> spent_today
        then s\<lparr>daily_spent := (daily_spent s)(cb_token_id cb :=
               (daily_spent s (cb_token_id cb))(cb_current_day cb := spent_today - cb_amount cb))\<rparr>
        else s)"

definition emergency_withdraw :: "ctx \<Rightarrow> token \<Rightarrow> nat \<Rightarrow> shield \<Rightarrow> shield res" where
  "emergency_withdraw c tk x s = not_payable c (only_owner c (direct_esdt (caller c) tk 0 x s))"

definition sh_deliver :: "nat \<Rightarrow> async_result \<Rightarrow> shield \<Rightarrow> shield res" where
  "sh_deliver i r s = vm_require (i < length (sh_promises s)) ''no such promise'' (
     let p = sh_promises s ! i
     in Inr (agent_execution_callback (pr_callback p) (ar_ok r)
          (receive_back p r (s\<lparr>sh_promises := drop_nth i (sh_promises s)\<rparr>))))"

section \<open>Calls\<close>

datatype shield_call =
    SetShieldLimit token nat
  | PauseShield
  | UnpauseShield
  | FundTreasury
  | AgentProposeExecution address token nat bytes "bytes list"
  | EmergencyWithdraw token nat
  | ShDeliver nat async_result

fun shield_exec :: "(token \<Rightarrow> bool) \<Rightarrow> ctx \<Rightarrow> shield_call \<Rightarrow> shield \<Rightarrow> shield res" where
  "shield_exec vid c (SetShieldLimit tk x) s = set_shield_limit c tk x s"
| "shield_exec vid c PauseShield s = pause_shield c s"
| "shield_exec vid c UnpauseShield s = unpause_shield c s"
| "shield_exec vid c FundTreasury s = fund_treasury c s"
| "shield_exec vid c (AgentProposeExecution a tk x f as) s = agent_propose_execution vid c a tk x f as s"
| "shield_exec vid c (EmergencyWithdraw tk x) s = emergency_withdraw c tk x s"
| "shield_exec vid c (ShDeliver i r) s = sh_deliver i r s"

text \<open>
  A step also keeps the list of the calls that were settled: every registered call of the agent,
  with the tokens it carries and the callback it came with, whose success has been reported.
\<close>

definition settles :: "shield_call \<Rightarrow> shield \<Rightarrow> agent_callback promise list" where
  "settles l s = (case l of ShDeliver i r \<Rightarrow> if ar_ok r then [sh_promises s ! i] else []
     | _ \<Rightarrow> [])"

inductive shield_step ::
  "(token \<Rightarrow> bool) \<Rightarrow> shield \<times> agent_callback promise list \<Rightarrow> ctx \<times> shield_call \<Rightarrow> shield \<times> agent_callback promise list \<Rightarrow> bool"
  for vid where
  shield_call: "shield_exec vid c l s = Inr t \<Longrightarrow> shield_step vid (s, h) (c, l) (t, h @ settles l s)"

inductive_simps shield_step_simps: "shield_step vid (s, h) (c, l) (t, h')"

section \<open>The daily limit\<close>

text \<open>What a call carries of a token, for the day its callback names.\<close>

definition carried :: "token \<Rightarrow> 'c promise \<Rightarrow> nat" where
  "carried tk p = sum_list (map amount (filter (\<lambda>x. token_identifier x = tk) (pr_esdt p)))"

definition carried_on :: "token \<Rightarrow> u64 \<Rightarrow> agent_callback promise \<Rightarrow> nat" where
  "carried_on tk d p = (if cb_current_day (pr_callback p) = d then carried tk p else 0)"

definition in_flight :: "shield \<Rightarrow> token \<Rightarrow> u64 \<Rightarrow> nat" where
  "in_flight s tk d = sum_list (map (carried_on tk d) (sh_promises s))"

definition settled :: "agent_callback promise list \<Rightarrow> token \<Rightarrow> u64 \<Rightarrow> nat" where
  "settled h tk d = sum_list (map (carried_on tk d) h)"

text \<open>The callback of a call knows what the call carries.\<close>

definition honest_callback :: "agent_callback promise \<Rightarrow> bool" where
  "honest_callback p \<longleftrightarrow> (\<forall>tk. carried tk p = (if cb_token_id (pr_callback p) = tk then cb_amount (pr_callback p) else 0))"

definition quota_inv :: "token \<Rightarrow> nat \<Rightarrow> shield \<times> agent_callback promise list \<Rightarrow> bool" where
  "quota_inv tk L = (\<lambda>(s, h). shield_daily_limit s tk \<le> L \<and> list_all honest_callback (sh_promises s) \<and>
     (\<forall>d. daily_spent s tk d = in_flight s tk d + settled h tk d) \<and>
     (\<forall>d. in_flight s tk d + settled h tk d \<le> L))"

definition limit_at_most :: "token \<Rightarrow> nat \<Rightarrow> ctx \<times> shield_call \<Rightarrow> bool" where
  "limit_at_most tk L l \<longleftrightarrow> (case snd l of SetShieldLimit tk' x \<Rightarrow> tk' = tk \<longrightarrow> x \<le> L | _ \<Rightarrow> True)"

lemma propose_Inr:
  assumes "agent_propose_execution vid c a tk x f as s = Inr t"
  shows "\<not> sh_is_paused s" "caller c = authorized_agent s"
    "daily_spent s tk (current_day_of (block_timestamp c)) + x \<le> shield_daily_limit s tk"
    "daily_spent t = (daily_spent s)(tk := (daily_spent s tk)(current_day_of (block_timestamp c) :=
       daily_spent s tk (current_day_of (block_timestamp c)) + x))"
    "shield_daily_limit t = shield_daily_limit s" "sh_is_paused t = sh_is_paused s"
    "\<exists>p. sh_promises t = sh_promises s @ [p] \<and> honest_callback p \<and> pr_callback p = \<lparr>cb_token_id = tk,
       cb_current_day = current_day_of (block_timestamp c), cb_amount = x\<rparr>"
  using assms
  by (auto simp: agent_propose_execution_def Let_def res_simps sh_register_def honest_callback_def carried_def
      split: if_splits)

lemma propose_quota:
  assumes "agent_propose_execution vid c a tk' x f as s = Inr t" and "quota_inv tk L (s, h)"
  shows "quota_inv tk L (t, h)"
proof -
  note p = propose_Inr [OF assms(1)]
  then have "in_flight t tk d = in_flight s tk d +
      (if tk' = tk \<and> current_day_of (block_timestamp c) = d then x else 0)" for d
    by (auto simp: in_flight_def carried_on_def honest_callback_def)
  then show ?thesis using p(3-5,7) assms(2) by (auto simp: quota_inv_def intro: order_trans)
qed

lemma deliver_quota:
  assumes "sh_deliver i r s = Inr t" and "quota_inv tk L (s, h)"
  shows "quota_inv tk L (t, h @ settles (ShDeliver i r) s)"
proof -
  define p where "p = sh_promises s ! i"
  define cb where "cb = pr_callback p"
  have i: "i < length (sh_promises s)" using assms(1) by (simp add: sh_deliver_def res_simps)
  have fl: "in_flight s tk d = carried_on tk d p + in_flight t tk d" for d
    using sum_list_drop_nth [OF i] assms(1)
    by (auto simp: in_flight_def p_def sh_deliver_def res_simps Let_def agent_execution_callback_def receive_back_def)
  have q: "shield_daily_limit s tk \<le> L"
    "daily_spent s tk d = in_flight s tk d + settled h tk d" "in_flight s tk d + settled h tk d \<le> L" for d
    using assms(2) by (simp_all add: quota_inv_def)
  have "sh_promises t = drop_nth i (sh_promises s)"
    using assms(1) by (auto simp: sh_deliver_def res_simps Let_def agent_execution_callback_def receive_back_def)
  then have honest: "honest_callback p" "list_all honest_callback (sh_promises t)"
    using assms(2) i
    by (auto simp: quota_inv_def list_all_iff p_def drop_nth_def dest: in_set_takeD in_set_dropD)
  have on: "carried_on tk d p = (if cb_token_id cb = tk \<and> cb_current_day cb = d then cb_amount cb else 0)" for d
    using honest(1) by (simp add: carried_on_def honest_callback_def cb_def)
  have lim: "shield_daily_limit t = shield_daily_limit s"
    using assms(1) by (auto simp: sh_deliver_def res_simps Let_def agent_execution_callback_def receive_back_def)
  have spent: "daily_spent t tk d = daily_spent s tk d - (if ar_ok r then 0 else carried_on tk d p)" for d
  proof -
    define u where "u = receive_back (sh_promises s ! i) r (s\<lparr>sh_promises := drop_nth i (sh_promises s)\<rparr>)"
    have t: "t = agent_execution_callback cb (ar_ok r) u"
      using assms(1) by (simp add: sh_deliver_def res_simps Let_def cb_def p_def u_def)
    have u: "daily_spent u = daily_spent s" by (simp add: u_def receive_back_def)
    have "cb_amount cb \<le> daily_spent s tk (cb_current_day cb)" if "cb_token_id cb = tk"
      using q(2) [of "cb_current_day cb"] fl [of "cb_current_day cb"] that by (simp add: on)
    then show ?thesis
      by (auto simp: t agent_execution_callback_def Let_def u on)
  qed
  have "settled (h @ settles (ShDeliver i r) s) tk d = settled h tk d + (if ar_ok r then carried_on tk d p else 0)" for d
    by (simp add: settled_def settles_def p_def)
  then have sum: "in_flight t tk d + settled (h @ settles (ShDeliver i r) s) tk d + (if ar_ok r then 0 else carried_on tk d p) =
      in_flight s tk d + settled h tk d" for d using fl [of d] by simp
  have "daily_spent t tk d = in_flight t tk d + settled (h @ settles (ShDeliver i r) s) tk d" for d
    using spent [of d] sum [of d] q(2) [of d] by (simp split: if_splits)
  moreover have "in_flight t tk d + settled (h @ settles (ShDeliver i r) s) tk d \<le> L" for d
    using sum [of d] q(3) [of d] by linarith
  ultimately show ?thesis using q(1) lim honest(2) by (simp add: quota_inv_def)
qed

lemma shield_exec_quota:
  assumes "shield_exec vid c l s = Inr t" and "limit_at_most tk L (c, l)" and "quota_inv tk L (s, h)"
  shows "quota_inv tk L (t, h @ settles l s)"
proof (cases l)
  case (AgentProposeExecution a tk' x f as)
  with assms show ?thesis by (auto simp: settles_def intro: propose_quota)
next
  case (ShDeliver i r)
  with assms show ?thesis by (auto intro: deliver_quota)
qed (use assms in \<open>auto simp: settles_def set_shield_limit_def pause_shield_def unpause_shield_def
    fund_treasury_def emergency_withdraw_def res_simps quota_inv_def in_flight_def receive_def limit_at_most_def\<close>)

interpretation quota: invariant_system "shield_step vid" "limit_at_most tk L" "quota_inv tk L" for vid tk L
  by unfold_locales (auto simp: shield_step.simps intro: shield_exec_quota)

text \<open>
  C28. The agent never spends more than the limit of a day. Take any history of the shield, with
  proposals, results in any order, deposits, withdrawals and changes of the limits, in which the
  owner never sets the limit of a token above \<open>L\<close>. Then for every day, the tokens attached to the
  agent's calls of that day, counting the calls under way and those that succeeded, are of that
  token at most \<open>L\<close>; calls that failed do not count, and the recorded figure is exact.
\<close>

theorem shield_daily_limit_holds:
  assumes "run (shield_step vid) (shield_init va ia agent, []) ls (s, h)" and "list_all (limit_at_most tk L) ls"
  shows "in_flight s tk d + settled h tk d \<le> L \<and> daily_spent s tk d = in_flight s tk d + settled h tk d"
proof -
  have "quota_inv tk L (shield_init va ia agent, [])"
    by (simp add: quota_inv_def shield_init_def in_flight_def settled_def)
  from quota.run_inv [OF assms this] show ?thesis by (simp add: quota_inv_def)
qed

lemma shield_exec_unpaused:
  assumes "shield_exec vid c l s = Inr t" and "l \<noteq> PauseShield" and "\<not> sh_is_paused s"
  shows "\<not> sh_is_paused t"
proof (cases l)
  case (AgentProposeExecution a tk' x f as)
  with assms show ?thesis by (auto dest: propose_Inr(6))
qed (use assms in \<open>auto simp: set_shield_limit_def unpause_shield_def fund_treasury_def emergency_withdraw_def
    sh_deliver_def agent_execution_callback_def receive_back_def Let_def res_simps receive_def split: if_splits\<close>)

interpretation running: invariant_system "shield_step vid" "\<lambda>l. snd l \<noteq> PauseShield"
  "\<lambda>x. \<not> sh_is_paused (fst x)" for vid
  by unfold_locales (auto simp: shield_step.simps dest: shield_exec_unpaused)

text \<open>
  The automatic freeze never happens. A proposal above the limit sets the pause flag and then
  panics, which rolls the flag back: whatever the agent proposes, and however often, a shield that
  is not paused is not paused after any history in which the owner does not pause it.
\<close>

theorem shield_never_freezes:
  assumes "run (shield_step vid) (s, h) ls (t, h')" and "\<not> sh_is_paused s"
    and "list_all (\<lambda>l. snd l \<noteq> PauseShield) ls"
  shows "\<not> sh_is_paused t \<and>
    (shield_daily_limit t tk < daily_spent t tk (current_day_of (block_timestamp c)) + x \<longrightarrow>
       (\<exists>msg. agent_propose_execution vid c a tk x f as t = Inl msg))"
proof -
  have "\<not> sh_is_paused t" using running.run_inv [OF assms(1,3)] assms(2) by simp
  moreover have "\<exists>msg. agent_propose_execution vid c a tk x f as t = Inl msg"
    if "shield_daily_limit t tk < daily_spent t tk (current_day_of (block_timestamp c)) + x"
    using that propose_Inr(3) [of vid c a tk x f as t]
    by (cases "agent_propose_execution vid c a tk x f as t") auto
  ultimately show ?thesis by blast
qed

section \<open>A concrete day\<close>

definition demo_shield_calls :: "(ctx \<times> shield_call) list" where
  "demo_shield_calls = [(call_ctx 1 0 [], SetShieldLimit ''USDC'' 100),
     (call_ctx 1 0 [\<lparr>token_identifier = ''USDC'', token_nonce = 0, amount = 500\<rparr>], FundTreasury),
     (call_ctx 5 0 [], AgentProposeExecution 8 ''USDC'' 60 ''swap'' []),
     (call_ctx 5 0 [], AgentProposeExecution 8 ''USDC'' 30 ''swap'' []),
     (call_ctx 5 0 [], ShDeliver 0 (succeeded 0)), (call_ctx 5 0 [], ShDeliver 0 failed),
     (call_ctx 5 0 [], AgentProposeExecution 8 ''USDC'' 40 ''swap'' [])]"

definition shield_do ::
  "(token \<Rightarrow> bool) \<Rightarrow> ctx \<Rightarrow> shield_call \<Rightarrow> shield \<times> agent_callback promise list \<Rightarrow> (shield \<times> agent_callback promise list) res" where
  "shield_do vid c l = (\<lambda>(s, h). bind_res (shield_exec vid c l s) (\<lambda>t. Inr (t, h @ settles l s)))"

lemma shield_run: "run_calls (shield_do vid) x ls = Inr y \<Longrightarrow> run (shield_step vid) x ls y"
  by (rule run_callsD [of "shield_do vid"]) (auto simp: shield_do_def res_simps intro: shield_step.intros)

lemma demo_shield:
  "\<exists>s h. run (shield_step (\<lambda>_. True)) (shield_init 2 3 5, []) demo_shield_calls (s, h) \<and>
     daily_spent s ''USDC'' 2 = 100 \<and> shield_daily_limit s ''USDC'' = 100"
proof -
  have "\<exists>s h. run_calls (shield_do (\<lambda>_. True)) (shield_init 2 3 5, []) demo_shield_calls = Inr (s, h) \<and>
     daily_spent s ''USDC'' 2 = 100 \<and> shield_daily_limit s ''USDC'' = 100"
    by (simp add: demo_shield_calls_def shield_do_def shield_init_def set_shield_limit_def not_payable_def
        only_owner_def fund_treasury_def receive_def agent_propose_execution_def prohibited_functions_def
        current_day_of_def Let_def sh_register_def debit_def sh_deliver_def drop_nth_def receive_back_def
        egld_back_def esdt_back_def succeeded_def failed_def agent_execution_callback_def)
  then show ?thesis using shield_run by blast
qed

theorem shield_daily_limit_holds_witness:
  "\<exists>s h. daily_spent s ''USDC'' 2 = 100 \<and> in_flight s ''USDC'' 2 + settled h ''USDC'' 2 = 100"
proof -
  obtain s h where s: "run (shield_step (\<lambda>_. True)) (shield_init 2 3 5, []) demo_shield_calls (s, h)"
    "daily_spent s ''USDC'' 2 = 100" using demo_shield by blast
  have "list_all (limit_at_most ''USDC'' 100) demo_shield_calls"
    by (simp add: demo_shield_calls_def limit_at_most_def)
  from shield_daily_limit_holds [OF s(1) this, of 2] s(2) show ?thesis by auto
qed

theorem shield_never_freezes_witness:
  "\<exists>s. \<not> sh_is_paused s \<and> (\<exists>msg. agent_propose_execution (\<lambda>_. True) (call_ctx 5 0 []) 8 ''USDC'' 1 ''swap'' [] s = Inl msg)"
proof -
  obtain s h where s: "run (shield_step (\<lambda>_. True)) (shield_init 2 3 5, []) demo_shield_calls (s, h)"
    "daily_spent s ''USDC'' 2 = 100" "shield_daily_limit s ''USDC'' = 100" using demo_shield by blast
  have "\<not> sh_is_paused (shield_init 2 3 5)" "list_all (\<lambda>l. snd l \<noteq> PauseShield) demo_shield_calls"
    by (simp_all add: shield_init_def demo_shield_calls_def)
  from shield_never_freezes [OF s(1) this, of "''USDC''" "call_ctx 5 0 []" 1 8 "''swap''" "[]"] s(2,3)
  show ?thesis by (auto simp: current_day_of_def)
qed

end
