(* ===== verification/Identity_Registry.thy ===== *)
theory Identity_Registry
  imports Agent_Types
begin

text \<open>
  The registry of agents (contracts/xcron-agent-shield/identity-registry/src): an agent is an NFT
  minted by the contract, with an owner recorded in a bidirectional mapper, its details, metadata
  and the prices of its services. The insertion of the mapper and the issuing of the collection,
  which is code of the framework, are parameters.
\<close>

section \<open>State (storage.rs)\<close>

record nft_data =
  nd_name :: bytes
  nd_hash :: bytes
  nd_attributes :: "agent_details option"
  nd_uri :: bytes

record identity = account +
  agent_token_id :: "token option"
  agents :: bidi
  agent_details_of :: "u64 \<rightharpoonup> agent_details"
  agent_metadata :: "u64 \<Rightarrow> bytes \<rightharpoonup> bytes"
  agent_service_config :: "u64 \<Rightarrow> u32 \<rightharpoonup> esdt_payment"
  nft_last_nonce :: u64
  nft_data_of :: "u64 \<rightharpoonup> nft_data"

record identity_env =
  bidi_ins :: bidi_insert
  issue_and_set_all_roles :: "nat \<Rightarrow> bytes \<Rightarrow> bytes \<Rightarrow> identity \<Rightarrow> identity res"

definition identity_init :: identity where
  "identity_init = \<lparr>egld_balance = 0, esdt_balance = (\<lambda>_ _. 0), outbox = [], agent_token_id = None,
     agents = bidi_empty, agent_details_of = Map.empty, agent_metadata = (\<lambda>_. Map.empty),
     agent_service_config = (\<lambda>_. Map.empty), nft_last_nonce = 0, nft_data_of = Map.empty\<rparr>"

definition identity_upgrade :: "identity \<Rightarrow> identity" where
  "identity_upgrade s = s"

section \<open>Events (events.rs)\<close>

definition agent_registered_event :: "address \<Rightarrow> u64 \<Rightarrow> bytes \<Rightarrow> bytes \<Rightarrow> identity \<Rightarrow> identity" where
  "agent_registered_event a n name uri = emit ''agentRegistered'' [AAddr a, AU64 n, ABytes name, ABytes uri]"

definition agent_updated_event :: "u64 \<Rightarrow> identity \<Rightarrow> identity" where
  "agent_updated_event n = emit ''agentUpdated'' [AU64 n]"

definition metadata_updated_event :: "u64 \<Rightarrow> identity \<Rightarrow> identity" where
  "metadata_updated_event n = emit ''metadataUpdated'' [AU64 n]"

definition service_configs_updated_event :: "u64 \<Rightarrow> identity \<Rightarrow> identity" where
  "service_configs_updated_event n = emit ''serviceConfigsUpdated'' [AU64 n]"

lemmas identity_event_defs = agent_registered_event_def agent_updated_event_def
  metadata_updated_event_def service_configs_updated_event_def emit_def

section \<open>Helpers (utils.rs)\<close>

definition require_agent_owner :: "ctx \<Rightarrow> u64 \<Rightarrow> identity \<Rightarrow> address res" where
  "require_agent_owner c nonce s = bind_res (get_slot (value_of (agents s) nonce)) (\<lambda>own.
     require (caller c = own) ''Only the agent owner can perform this action'' (Inr (caller c)))"

fun sync_metadata :: "u64 \<Rightarrow> metadata_entry list \<Rightarrow> identity \<Rightarrow> identity" where
  "sync_metadata nonce [] s = s"
| "sync_metadata nonce (entry # es) s = sync_metadata nonce es
     (s\<lparr>agent_metadata := (agent_metadata s)(nonce :=
          (agent_metadata s nonce)(me_key entry \<mapsto> me_value entry))\<rparr>)"

fun sync_service_configs :: "u64 \<Rightarrow> service_config_input list \<Rightarrow> identity \<Rightarrow> identity res" where
  "sync_service_configs nonce [] s = Inr s"
| "sync_service_configs nonce (config # cs) s =
     vm_require (sc_price config \<noteq> 0) ''expected non-zero amount'' (
     let payment = \<lparr>token_identifier = sc_token config, token_nonce = sc_nonce config,
                    amount = sc_price config\<rparr>
     in sync_service_configs nonce cs
          (s\<lparr>agent_service_config := (agent_service_config s)(nonce :=
               (agent_service_config s nonce)(sc_service_id config \<mapsto> payment))\<rparr>))"

section \<open>Endpoints (lib.rs)\<close>

definition issue_token :: "identity_env \<Rightarrow> ctx \<Rightarrow> bytes \<Rightarrow> bytes \<Rightarrow> identity \<Rightarrow> identity res" where
  "issue_token e c token_display_name token_ticker s = payable_egld c (only_owner c (
     let s = receive c s in
     require (agent_token_id s = None) ''Token already issued'' (
     issue_and_set_all_roles e (egld_value c) token_display_name token_ticker s)))"

text \<open>The built-in \<open>ESDTNFTCreate\<close>: the next nonce of the collection, one unit to the contract.\<close>

definition esdt_nft_create :: "token \<Rightarrow> nft_data \<Rightarrow> identity \<Rightarrow> u64 \<times> identity" where
  "esdt_nft_create tk d s = (let nonce = nft_last_nonce s + 1 in
     (nonce, s\<lparr>nft_last_nonce := nonce, nft_data_of := (nft_data_of s)(nonce \<mapsto> d),
        esdt_balance := credit_esdt [\<lparr>token_identifier = tk, token_nonce = nonce, amount = 1\<rparr>]
          (esdt_balance s)\<rparr>))"

definition register_agent ::
  "identity_env \<Rightarrow> ctx \<Rightarrow> bytes \<Rightarrow> bytes \<Rightarrow> bytes \<Rightarrow> metadata_entry list \<Rightarrow> service_config_input list \<Rightarrow>
     identity \<Rightarrow> identity res" where
  "register_agent e c name uri public_key metadata services s = not_payable c (
     require (agent_token_id s \<noteq> None) ''Token not issued'' (
     bind_res (get_slot (agent_token_id s)) (\<lambda>token_id.
     require (id_of (agents s) (caller c) = None) ''Agent already registered for this address'' (
     let details = \<lparr>ad_name = name, ad_public_key = public_key\<rparr>;
         (nonce, s) = esdt_nft_create token_id
           \<lparr>nd_name = name, nd_hash = [], nd_attributes = Some details, nd_uri = uri\<rparr> s;
         s = s\<lparr>agents := bidi_ins e nonce (caller c) (agents s),
               agent_details_of := (agent_details_of s)(nonce \<mapsto> details)\<rparr>;
         s = sync_metadata nonce metadata s
     in bind_res (sync_service_configs nonce services s) (\<lambda>s.
     direct_esdt (caller c) token_id nonce 1 (agent_registered_event (caller c) nonce name uri s))))))"

definition update_agent ::
  "identity_env \<Rightarrow> ctx \<Rightarrow> bytes \<Rightarrow> bytes \<Rightarrow> bytes \<Rightarrow> metadata_entry list option \<Rightarrow>
     service_config_input list option \<Rightarrow> identity \<Rightarrow> identity res" where
  "update_agent e c new_name new_uri new_public_key metadata services s = (let s = receive c s in
     require (agent_token_id s \<noteq> None) ''Token not issued'' (
     bind_res (single_esdt c) (\<lambda>payment.
     bind_res (get_slot (agent_token_id s)) (\<lambda>token_id.
     require (token_identifier payment = token_id) ''Invalid NFT sent'' (
     let nonce = token_nonce payment in
     bind_res (get_slot (value_of (agents s) nonce)) (\<lambda>own.
     require (caller c = own) ''Only the agent owner can perform this action'' (
     let s = s\<lparr>nft_data_of := (nft_data_of s)(nonce \<mapsto>
               \<lparr>nd_name = new_name, nd_hash = new_public_key, nd_attributes = None, nd_uri = new_uri\<rparr>)\<rparr>;
         s = (case metadata of None \<Rightarrow> s | Some m \<Rightarrow> sync_metadata nonce m s)
     in bind_res (case services of None \<Rightarrow> Inr s | Some cs \<Rightarrow> sync_service_configs nonce cs s) (\<lambda>s.
     bind_res (direct_esdt (caller c) token_id nonce 1 s) (\<lambda>s.
     Inr (agent_updated_event nonce s))))))))))"

definition sync_ownership :: "identity_env \<Rightarrow> ctx \<Rightarrow> identity \<Rightarrow> identity res" where
  "sync_ownership e c s = (let s = receive c s in
     require (agent_token_id s \<noteq> None) ''Token not issued'' (
     bind_res (single_esdt c) (\<lambda>payment.
     bind_res (get_slot (agent_token_id s)) (\<lambda>token_id.
     require (token_identifier payment = token_id) ''Invalid NFT sent'' (
     let nonce = token_nonce payment;
         s = s\<lparr>agents := bidi_ins e nonce (caller c) (agents s)\<rparr>
     in bind_res (direct_esdt (caller c) token_id nonce 1 s) (\<lambda>s.
     Inr (agent_updated_event nonce s)))))))"

definition set_metadata :: "ctx \<Rightarrow> u64 \<Rightarrow> metadata_entry list \<Rightarrow> identity \<Rightarrow> identity res" where
  "set_metadata c nonce entries s = not_payable c (
     require (agent_token_id s \<noteq> None) ''Token not issued'' (
     bind_res (require_agent_owner c nonce s) (\<lambda>_.
     Inr (metadata_updated_event nonce (sync_metadata nonce entries s)))))"

definition set_service_configs :: "ctx \<Rightarrow> u64 \<Rightarrow> service_config_input list \<Rightarrow> identity \<Rightarrow> identity res" where
  "set_service_configs c nonce configs s = not_payable c (
     require (agent_token_id s \<noteq> None) ''Token not issued'' (
     bind_res (require_agent_owner c nonce s) (\<lambda>_.
     bind_res (sync_service_configs nonce configs s) (\<lambda>s.
     Inr (service_configs_updated_event nonce s)))))"

fun remove_keys :: "'k list \<Rightarrow> ('k \<rightharpoonup> 'v) \<Rightarrow> 'k \<rightharpoonup> 'v" where
  "remove_keys [] m = m"
| "remove_keys (k # ks) m = remove_keys ks (m(k := None))"

definition remove_metadata :: "ctx \<Rightarrow> u64 \<Rightarrow> bytes list \<Rightarrow> identity \<Rightarrow> identity res" where
  "remove_metadata c nonce keys s = not_payable c (
     require (agent_token_id s \<noteq> None) ''Token not issued'' (
     bind_res (require_agent_owner c nonce s) (\<lambda>_.
     Inr (metadata_updated_event nonce (s\<lparr>agent_metadata :=
       (agent_metadata s)(nonce := remove_keys keys (agent_metadata s nonce))\<rparr>)))))"

definition remove_service_configs :: "ctx \<Rightarrow> u64 \<Rightarrow> u32 list \<Rightarrow> identity \<Rightarrow> identity res" where
  "remove_service_configs c nonce service_ids s = not_payable c (
     require (agent_token_id s \<noteq> None) ''Token not issued'' (
     bind_res (require_agent_owner c nonce s) (\<lambda>_.
     Inr (service_configs_updated_event nonce (s\<lparr>agent_service_config :=
       (agent_service_config s)(nonce := remove_keys service_ids (agent_service_config s nonce))\<rparr>)))))"

section \<open>Views (views.rs)\<close>

definition get_agent :: "u64 \<Rightarrow> identity \<Rightarrow> agent_details res" where
  "get_agent nonce s = require (value_of (agents s) nonce \<noteq> None) ''Agent not found'' (
     get_slot (agent_details_of s nonce))"

definition get_agent_owner :: "u64 \<Rightarrow> identity \<Rightarrow> address res" where
  "get_agent_owner nonce s = require (value_of (agents s) nonce \<noteq> None) ''Agent not found'' (
     get_slot (value_of (agents s) nonce))"

definition get_metadata :: "u64 \<Rightarrow> bytes \<Rightarrow> identity \<Rightarrow> bytes option" where
  "get_metadata nonce key s = agent_metadata s nonce key"

definition get_agent_service_config :: "u64 \<Rightarrow> u32 \<Rightarrow> identity \<Rightarrow> esdt_payment option" where
  "get_agent_service_config nonce service_id s = agent_service_config s nonce service_id"

section \<open>Calls\<close>

datatype identity_call =
    RegisterAgent bytes bytes bytes "metadata_entry list" "service_config_input list"
  | UpdateAgent bytes bytes bytes "metadata_entry list option" "service_config_input list option"
  | SyncOwnership
  | SetMetadata u64 "metadata_entry list"
  | SetServiceConfigs u64 "service_config_input list"
  | RemoveMetadata u64 "bytes list"
  | RemoveServiceConfigs u64 "u32 list"

fun identity_exec :: "identity_env \<Rightarrow> ctx \<Rightarrow> identity_call \<Rightarrow> identity \<Rightarrow> identity res" where
  "identity_exec e c (RegisterAgent n u k m sv) s = register_agent e c n u k m sv s"
| "identity_exec e c (UpdateAgent n u k m sv) s = update_agent e c n u k m sv s"
| "identity_exec e c SyncOwnership s = sync_ownership e c s"
| "identity_exec e c (SetMetadata n es) s = set_metadata c n es s"
| "identity_exec e c (SetServiceConfigs n cs) s = set_service_configs c n cs s"
| "identity_exec e c (RemoveMetadata n ks) s = remove_metadata c n ks s"
| "identity_exec e c (RemoveServiceConfigs n is) s = remove_service_configs c n is s"

inductive identity_step :: "identity_env \<Rightarrow> identity \<Rightarrow> ctx \<times> identity_call \<Rightarrow> identity \<Rightarrow> bool" for e where
  identity_call: "identity_exec e c l s = Inr t \<Longrightarrow> identity_step e s (c, l) t"

end
