(* ===== verification/Identity_Properties.thy ===== *)
theory Identity_Properties
  imports Identity_Registry
begin

text \<open>
  The agent registry keeps a one-to-one relation between agents and owners; ownership never
  changes once recorded, whatever \<open>sync_ownership\<close> is documented to do, and an update of an agent
  does not reach the key that other contracts read.
\<close>

section \<open>Frames\<close>

lemma sync_metadata_sel [simp]:
  "agents (sync_metadata n es s) = agents s" "agent_token_id (sync_metadata n es s) = agent_token_id s"
  "agent_details_of (sync_metadata n es s) = agent_details_of s"
  "esdt_balance (sync_metadata n es s) = esdt_balance s" "outbox (sync_metadata n es s) = outbox s"
  by (induction n es s rule: sync_metadata.induct) simp_all

lemma sync_service_configs_Inr:
  "sync_service_configs n cs s = Inr t \<Longrightarrow> agents t = agents s \<and> agent_token_id t = agent_token_id s \<and>
     agent_details_of t = agent_details_of s \<and> esdt_balance t = esdt_balance s \<and> outbox t = outbox s"
  by (induction n cs s rule: sync_service_configs.induct) (auto simp: res_simps Let_def)

lemma require_agent_owner_Inr [res_simps]:
  "require_agent_owner c n s = Inr a \<longleftrightarrow> value_of (agents s) n = Some (caller c) \<and> a = caller c"
  by (auto simp: require_agent_owner_def res_simps)

lemma register_agent_Inr:
  assumes "register_agent e c name uri key md sv s = Inr t"
  shows "id_of (agents s) (caller c) = None"
    "agents t = bidi_ins e (nft_last_nonce s + 1) (caller c) (agents s)"
    "agent_details_of t = (agent_details_of s)(nft_last_nonce s + 1 \<mapsto> \<lparr>ad_name = name, ad_public_key = key\<rparr>)"
    "agent_token_id t = agent_token_id s"
  using assms
  by (auto simp: register_agent_def esdt_nft_create_def Let_def res_simps identity_event_defs
      dest!: sync_service_configs_Inr)

lemma update_agent_Inr:
  assumes "update_agent e c name uri key md sv s = Inr t"
  obtains p where "esdt_transfers c = [p]" "agent_token_id s = Some (token_identifier p)"
    "value_of (agents s) (token_nonce p) = Some (caller c)" "agents t = agents s"
    "agent_details_of t = agent_details_of s" "agent_token_id t = agent_token_id s"
  using assms
  by (auto simp: update_agent_def Let_def res_simps identity_event_defs receive_def
      dest!: sync_service_configs_Inr split: option.splits)

lemma sync_ownership_Inr:
  assumes "sync_ownership e c s = Inr t"
  obtains p where "esdt_transfers c = [p]" "agent_token_id s = Some (token_identifier p)"
    "agents t = bidi_ins e (token_nonce p) (caller c) (agents s)"
    "agent_details_of t = agent_details_of s" "agent_token_id t = agent_token_id s"
  using assms
  by (auto simp: sync_ownership_def Let_def res_simps identity_event_defs receive_def)

lemma identity_setters_Inr:
  assumes "set_metadata c n es s = Inr t \<or> set_service_configs c n cs s = Inr t \<or>
    remove_metadata c n ks s = Inr t \<or> remove_service_configs c n is s = Inr t"
  shows "value_of (agents s) n = Some (caller c) \<and> agents t = agents s \<and>
    agent_details_of t = agent_details_of s \<and> agent_token_id t = agent_token_id s"
  using assms
  by (auto simp: set_metadata_def set_service_configs_def remove_metadata_def remove_service_configs_def
      res_simps identity_event_defs dest!: sync_service_configs_Inr)

lemma identity_exec_token:
  assumes "identity_exec e c l s = Inr t"
  shows "agent_token_id t = agent_token_id s"
proof (cases l)
  case (UpdateAgent n u k m sv)
  with assms show ?thesis by (auto elim!: update_agent_Inr)
next
  case SyncOwnership
  with assms show ?thesis by (auto elim!: sync_ownership_Inr)
qed (use assms identity_setters_Inr in \<open>fastforce dest: register_agent_Inr(4)\<close>)+

lemma identity_run_token: "run (identity_step e) s ls t \<Longrightarrow> agent_token_id t = agent_token_id s"
  by (induction rule: run.induct) (auto simp: identity_step.simps dest: identity_exec_token)

section \<open>Owners\<close>

locale documented_identity = bidi_mapper "bidi_ins e" for e :: identity_env
begin

lemma exec_inv:
  assumes "identity_exec e c l s = Inr t" and "bidi_inv (agents s)"
  shows "bidi_inv (agents t)"
proof (cases l)
  case (UpdateAgent n u k m sv)
  with assms show ?thesis by (auto elim!: update_agent_Inr)
next
  case SyncOwnership
  with assms show ?thesis by (auto elim!: sync_ownership_Inr intro: insert_inv)
qed (use assms identity_setters_Inr in \<open>fastforce dest: register_agent_Inr(2) intro: insert_inv\<close>)+

lemma exec_keeps_owner:
  assumes "identity_exec e c l s = Inr t" and "value_of (agents s) n = Some a"
  shows "value_of (agents t) n = Some a"
proof -
  have ins: "value_of (bidi_ins e i b (agents s)) n = Some a" for i b
    using documented assms(2) by (auto simp: bidi_documented_def)
  show ?thesis
  proof (cases l)
    case (UpdateAgent n u k m sv)
    with assms show ?thesis by (auto elim!: update_agent_Inr)
  next
    case SyncOwnership
    with assms ins show ?thesis by (auto elim!: sync_ownership_Inr)
  qed (use assms ins identity_setters_Inr in \<open>fastforce dest: register_agent_Inr(2)\<close>)+
qed

lemma run_keeps_owner:
  "run (identity_step e) s ls t \<Longrightarrow> value_of (agents s) n = Some a \<Longrightarrow> value_of (agents t) n = Some a"
  by (induction rule: run.induct) (auto simp: identity_step.simps dest: exec_keeps_owner)

lemma run_bijective: "run (identity_step e) s ls t \<Longrightarrow> bidi_inv (agents s) \<Longrightarrow> bidi_inv (agents t)"
  by (induction rule: run.induct) (auto simp: identity_step.simps dest: exec_inv)

end

lemma documented_identityI: "bidi_documented (bidi_ins e) \<Longrightarrow> documented_identity e"
  by unfold_locales

definition store_env :: identity_env where
  "store_env = \<lparr>bidi_ins = bidi_store, issue_and_set_all_roles = (\<lambda>x name tick s. Inr s)\<rparr>"

interpretation store_identity: documented_identity store_env
  by unfold_locales (simp add: store_env_def bidi_store_documented)

text \<open>
  Ownership of an agent never changes. With the documented mapper, agents and owners are in
  a one-to-one relation after every history, and an agent that has an owner keeps it through all
  later calls, a \<open>sync_ownership\<close> of the holder of the sold NFT included. Anybody else is refused
  by every endpoint that changes the agent, while the recorded owner can still change its
  metadata. The comment on \<open>sync_ownership\<close> says that it updates the registry to the new holder.
\<close>

theorem agent_ownership_never_synced:
  assumes "bidi_documented (bidi_ins e)" and "s0 = identity_init\<lparr>agent_token_id := Some tk\<rparr>"
    and "run (identity_step e) s0 ls s" and "get_agent_owner n s = Inr own"
    and "run (identity_step e) s ks t" and "caller c \<noteq> own"
    and "caller d = own" and "egld_value d = 0" and "esdt_transfers d = []"
  shows "get_agent_owner n t = Inr own \<and> (\<forall>m. value_of (agents t) m = Some own \<longrightarrow> m = n) \<and>
    (\<forall>u. set_metadata c n es t \<noteq> Inr u \<and> set_service_configs c n cs t \<noteq> Inr u \<and>
       remove_metadata c n ms t \<noteq> Inr u \<and> remove_service_configs c n is t \<noteq> Inr u) \<and>
    (\<forall>p u. esdt_transfers c = [p] \<and> token_nonce p = n \<longrightarrow> update_agent e c nm uri key md sv t \<noteq> Inr u) \<and>
    (\<exists>u. set_metadata d n es t = Inr u)"
proof -
  note doc = documented_identityI [OF assms(1)]
  have "value_of (agents s) n = Some own" using assms(4) by (auto simp: get_agent_owner_def res_simps)
  then have own: "value_of (agents t) n = Some own"
    by (rule documented_identity.run_keeps_owner [OF doc assms(5)])
  have all: "run (identity_step e) s0 (ls @ ks) t" using assms(3,5) by (rule run_append)
  have inv: "bidi_inv (agents t)"
    by (rule documented_identity.run_bijective [OF doc all]) (simp add: assms(2) identity_init_def)
  have tok: "agent_token_id t \<noteq> None" using identity_run_token [OF all] by (simp add: assms(2))
  have "value_of (agents t) m = Some own \<longrightarrow> m = n" for m
    using inv own unfolding bidi_inv_def by (metis option.inject)
  moreover have "set_metadata c n es t \<noteq> Inr u \<and> set_service_configs c n cs t \<noteq> Inr u \<and>
       remove_metadata c n ms t \<noteq> Inr u \<and> remove_service_configs c n is t \<noteq> Inr u" for u
    using identity_setters_Inr [of c n es t u cs ms "is"] own assms(6) by auto
  moreover have "update_agent e c nm uri key md sv t \<noteq> Inr u" if "esdt_transfers c = [p] \<and> token_nonce p = n" for p u
    using that own assms(6) by (auto elim!: update_agent_Inr)
  moreover have "\<exists>u. set_metadata d n es t = Inr u"
    using own tok assms(7-9) by (auto simp: set_metadata_def not_payable_def require_agent_owner_def)
  moreover have "get_agent_owner n t = Inr own" using own by (simp add: get_agent_owner_def)
  ultimately show ?thesis by blast
qed

text \<open>Address 7 registers an agent and sells its NFT to address 8, which asks for the ownership.\<close>

definition demo_nft :: esdt_payment where
  "demo_nft = \<lparr>token_identifier = ''AGENT'', token_nonce = 1, amount = 1\<rparr>"

definition demo_registered :: "(ctx \<times> identity_call) list" where
  "demo_registered = [(call_ctx 7 0 [], RegisterAgent ''bot'' ''uri'' (bytes32 20) [] [])]"

definition demo_sold :: "(ctx \<times> identity_call) list" where
  "demo_sold = [(call_ctx 8 0 [demo_nft], SyncOwnership)]"

lemmas identity_run = run_callsD [of "identity_exec e" "identity_step e" for e, OF identity_step.intros]

lemmas identity_eval_simps = not_payable_def register_agent_def esdt_nft_create_def Let_def store_env_def
  bidi_store_def bidi_empty_def identity_event_defs direct_esdt_def sync_ownership_def receive_def
  single_esdt_def demo_nft_def get_agent_owner_def

lemma demo_identity:
  "\<exists>s t. run (identity_step store_env) (identity_init\<lparr>agent_token_id := Some ''AGENT''\<rparr>) demo_registered s \<and>
     get_agent_owner 1 s = Inr 7 \<and> run (identity_step store_env) s demo_sold t \<and>
     agent_details_of t 1 = Some \<lparr>ad_name = ''bot'', ad_public_key = bytes32 20\<rparr>"
proof -
  have "\<exists>s t. run_calls (identity_exec store_env) (identity_init\<lparr>agent_token_id := Some ''AGENT''\<rparr>)
      demo_registered = Inr s \<and> get_agent_owner 1 s = Inr 7 \<and>
      run_calls (identity_exec store_env) s demo_sold = Inr t \<and>
      agent_details_of t 1 = Some \<lparr>ad_name = ''bot'', ad_public_key = bytes32 20\<rparr>"
    by (simp add: demo_registered_def demo_sold_def identity_init_def identity_eval_simps)
  then show ?thesis using identity_run by blast
qed

theorem agent_ownership_never_synced_witness:
  "\<exists>t. get_agent_owner 1 t = Inr 7 \<and> (\<exists>u. set_metadata (call_ctx 7 0 []) 1 [] t = Inr u) \<and>
     (\<forall>u. set_metadata (call_ctx 8 0 []) 1 [] t \<noteq> Inr u)"
proof -
  obtain s t where s: "run (identity_step store_env) (identity_init\<lparr>agent_token_id := Some ''AGENT''\<rparr>) demo_registered s"
    "get_agent_owner 1 s = Inr 7" "run (identity_step store_env) s demo_sold t" using demo_identity by blast
  have "bidi_documented (bidi_ins store_env)" by (simp add: store_env_def bidi_store_documented)
  from agent_ownership_never_synced [OF this refl s, of "call_ctx 8 0 []" "call_ctx 7 0 []" "[]" "[]" "[]" "[]"]
  show ?thesis by auto
qed

end
