(* ===== verification/Validation_Registry.thy ===== *)
theory Validation_Registry
  imports Identity_Registry
begin

text \<open>
  The registry of jobs and their validation (contracts/xcron-agent-shield/validation-registry/src).
  An employer opens a job for an agent, the agent submits a proof and asks a whitelisted validator
  for a verdict, and the verdict sets the status of the job. The agent registry is read through
  its storage: \<open>ids a\<close> is the state of the contract at address \<open>a\<close>. Time in milliseconds is an
  argument of the two endpoints that read it. The unused argument \<open>_response_uri\<close> is left out.
\<close>

section \<open>State (storage.rs)\<close>

record validation = account +
  job_data_of :: "bytes \<rightharpoonup> job_data"
  identity_registry_address :: address
  validation_request_of :: "bytes \<rightharpoonup> validation_request_data"
  agent_validations :: "u64 \<Rightarrow> bytes list"
  whitelisted_validators :: "address list"

definition validation_init :: "address \<Rightarrow> validation" where
  "validation_init a = \<lparr>egld_balance = 0, esdt_balance = (\<lambda>_ _. 0), outbox = [],
     job_data_of = Map.empty, identity_registry_address = a, validation_request_of = Map.empty,
     agent_validations = (\<lambda>_. []), whitelisted_validators = []\<rparr>"

definition validation_upgrade :: "validation \<Rightarrow> validation" where
  "validation_upgrade s = s"

definition THREE_DAYS :: u64 where "THREE_DAYS = 3 * 24 * 60 * 60 * 1000"

section \<open>Events (events.rs)\<close>

definition validation_request_event :: "address \<Rightarrow> u64 \<Rightarrow> bytes \<Rightarrow> bytes \<Rightarrow> validation \<Rightarrow> validation" where
  "validation_request_event validator agent_nonce request_hash request_uri =
     emit ''validationRequest'' [AAddr validator, AU64 agent_nonce, ABytes request_hash, ABytes request_uri]"

definition validation_response_event ::
  "address \<Rightarrow> u64 \<Rightarrow> bytes \<Rightarrow> validation_request_data \<Rightarrow> validation \<Rightarrow> validation" where
  "validation_response_event validator agent_nonce request_hash data =
     emit ''validationResponse'' [AAddr validator, AU64 agent_nonce, ABytes request_hash,
       AAddr (vr_validator_address data), AU64 (vr_agent_nonce data), ABytes (vr_job_id data),
       ANat (unat (vr_response data)), ABytes (vr_response_hash data), ABytes (vr_tag data),
       AU64 (vr_last_update data)]"

lemmas validation_event_defs = validation_request_event_def validation_response_event_def emit_def

section \<open>Endpoints (lib.rs)\<close>

text \<open>The check of the service fee: it must be paid, and goes to the owner of the agent.\<close>

definition pay_service :: "ctx \<Rightarrow> address \<Rightarrow> esdt_payment \<Rightarrow> validation \<Rightarrow> validation res" where
  "pay_service c agent_owner service_payment s = bind_res (single_optional c) (\<lambda>pay'. case pay' of
     Some pay \<Rightarrow>
       require (token_identifier pay = token_identifier service_payment \<and>
           token_nonce pay = token_nonce service_payment) ''Invalid payment token'' (
       require (amount service_payment \<le> amount pay) ''Insufficient payment'' (
       if 0 < amount pay then transfer_payment agent_owner pay s else Inr s))
   | None \<Rightarrow> require (amount service_payment = 0) ''Insufficient payment'' (Inr s))"

definition init_job ::
  "(address \<Rightarrow> identity) \<Rightarrow> ctx \<Rightarrow> u64 \<Rightarrow> bytes \<Rightarrow> u64 \<Rightarrow> u32 option \<Rightarrow> validation \<Rightarrow> validation res" where
  "init_job ids c now_ms job_id agent_nonce service_id s = (let s = receive c s in
     require (job_data_of s job_id = None) ''Job already initialized'' (
     let s = s\<lparr>job_data_of := (job_data_of s)(job_id \<mapsto>
           \<lparr>j_status = JobNew, j_proof = [], j_employer = caller c, j_creation_timestamp = now_ms,
            j_agent_nonce = agent_nonce\<rparr>)\<rparr>
     in case service_id of
          None \<Rightarrow> Inr s
        | Some sid \<Rightarrow>
            let idr = ids (identity_registry_address s) in
            bind_res (get_slot (value_of (agents idr) agent_nonce)) (\<lambda>agent_owner.
            case agent_service_config idr agent_nonce sid of
              None \<Rightarrow> Inr s
            | Some service_payment \<Rightarrow> pay_service c agent_owner service_payment s)))"

definition submit_proof ::
  "(address \<Rightarrow> identity) \<Rightarrow> ctx \<Rightarrow> bytes \<Rightarrow> bytes \<Rightarrow> validation \<Rightarrow> validation res" where
  "submit_proof ids c job_id prf s = not_payable c (
     require (job_data_of s job_id \<noteq> None) ''Job not found'' (
     bind_res (get_slot (job_data_of s job_id)) (\<lambda>job.
     let idr = ids (identity_registry_address s) in
     bind_res (get_slot (agent_details_of idr (j_agent_nonce job))) (\<lambda>agent_details.
     bind_res (if bytes32 (caller c) = ad_public_key agent_details then Inr True
               else bind_res (get_slot (value_of (agents idr) (j_agent_nonce job)))
                      (\<lambda>agent_owner. Inr (caller c = agent_owner))) (\<lambda>is_authorized.
     require is_authorized ''Only the agent owner can perform this action'' (
     require (j_status job = JobNew \<or> j_status job = JobPending)
       ''Job status invalid for proof submission'' (
     Inr (s\<lparr>job_data_of := (job_data_of s)(job_id \<mapsto> job\<lparr>j_proof := prf, j_status := JobPending\<rparr>)\<rparr>))))))))"

definition submit_proof_with_nft ::
  "(address \<Rightarrow> identity) \<Rightarrow> ctx \<Rightarrow> bytes \<Rightarrow> bytes \<Rightarrow> validation \<Rightarrow> validation res" where
  "submit_proof_with_nft ids c job_id prf s = (let s = receive c s in
     require (job_data_of s job_id \<noteq> None) ''Job not found'' (
     bind_res (single_esdt c) (\<lambda>payment.
     bind_res (get_slot (job_data_of s job_id)) (\<lambda>job.
     require (j_status job = JobNew \<or> j_status job = JobPending)
       ''Job status invalid for proof submission'' (
     bind_res (get_slot (agent_token_id (ids (identity_registry_address s)))) (\<lambda>expected_token_id.
     require (token_identifier payment = expected_token_id)
       ''Invalid agent NFT: wrong token ID or nonce'' (
     require (token_nonce payment = j_agent_nonce job)
       ''Invalid agent NFT: wrong token ID or nonce'' (
     let s = s\<lparr>job_data_of := (job_data_of s)(job_id \<mapsto> job\<lparr>j_proof := prf, j_status := JobPending\<rparr>)\<rparr>
     in direct_esdt (caller c) (token_identifier payment) (token_nonce payment) (amount payment) s))))))))"

definition validation_request ::
  "(address \<Rightarrow> identity) \<Rightarrow> ctx \<Rightarrow> bytes \<Rightarrow> address \<Rightarrow> bytes \<Rightarrow> bytes \<Rightarrow> validation \<Rightarrow> validation res" where
  "validation_request ids c job_id validator_address request_uri request_hash s = not_payable c (
     require (job_data_of s job_id \<noteq> None) ''Job not found'' (
     bind_res (get_slot (job_data_of s job_id)) (\<lambda>job.
     bind_res (get_slot (value_of (agents (ids (identity_registry_address s))) (j_agent_nonce job)))
       (\<lambda>agent_owner.
     require (caller c = agent_owner) ''Only the agent owner can perform this action'' (
     require (validator_address \<in> set (whitelisted_validators s)) ''Unauthorized Validator Node'' (
     let request_data = \<lparr>vr_validator_address = validator_address,
           vr_agent_nonce = j_agent_nonce job, vr_job_id = job_id, vr_response = 0,
           vr_response_hash = [], vr_tag = [], vr_last_update = 0\<rparr>;
         s = s\<lparr>validation_request_of := (validation_request_of s)(request_hash \<mapsto> request_data),
               agent_validations := (agent_validations s)(j_agent_nonce job :=
                 us_insert request_hash (agent_validations s (j_agent_nonce job))),
               job_data_of := (job_data_of s)(job_id \<mapsto> job\<lparr>j_status := JobValidationRequested\<rparr>)\<rparr>
     in Inr (validation_request_event validator_address (j_agent_nonce job) request_uri request_hash s)))))))"

definition validation_response ::
  "ctx \<Rightarrow> bytes \<Rightarrow> u8 \<Rightarrow> bytes \<Rightarrow> bytes \<Rightarrow> validation \<Rightarrow> validation res" where
  "validation_response c request_hash response response_hash tag s = not_payable c (
     require (validation_request_of s request_hash \<noteq> None) ''Validation request not found'' (
     bind_res (get_slot (validation_request_of s request_hash)) (\<lambda>data.
     require (caller c = vr_validator_address data) ''Only the designated validator can respond'' (
     let updated_data = data\<lparr>vr_response := response, vr_response_hash := response_hash,
           vr_tag := tag, vr_last_update := block_timestamp c\<rparr>;
         s = s\<lparr>validation_request_of := (validation_request_of s)(request_hash \<mapsto> updated_data)\<rparr>;
         s = (case job_data_of s (vr_job_id updated_data) of
                None \<Rightarrow> s
              | Some job \<Rightarrow> s\<lparr>job_data_of := (job_data_of s)(vr_job_id updated_data \<mapsto>
                  job\<lparr>j_status := (if 70 \<le> vr_response updated_data then JobVerified else JobRejected)\<rparr>)\<rparr>)
     in Inr (validation_response_event (caller c) (vr_agent_nonce updated_data) request_hash
          updated_data s)))))"

fun clean_jobs :: "u64 \<Rightarrow> bytes list \<Rightarrow> (bytes \<rightharpoonup> job_data) \<Rightarrow> bytes \<rightharpoonup> job_data" where
  "clean_jobs current_time [] m = m"
| "clean_jobs current_time (j # js) m = (case m j of
     None \<Rightarrow> clean_jobs current_time js m
   | Some job \<Rightarrow> if current_time > j_creation_timestamp job + THREE_DAYS
       then clean_jobs current_time js (m(j := None)) else clean_jobs current_time js m)"

definition clean_old_jobs :: "ctx \<Rightarrow> u64 \<Rightarrow> bytes list \<Rightarrow> validation \<Rightarrow> validation res" where
  "clean_old_jobs c now_ms job_ids s = not_payable c (
     Inr (s\<lparr>job_data_of := clean_jobs now_ms job_ids (job_data_of s)\<rparr>))"

section \<open>Configuration and views (config.rs, views.rs)\<close>

definition set_identity_registry_address :: "ctx \<Rightarrow> address \<Rightarrow> validation \<Rightarrow> validation res" where
  "set_identity_registry_address c a s =
     not_payable c (only_owner c (Inr (s\<lparr>identity_registry_address := a\<rparr>)))"

definition add_whitelisted_validator :: "ctx \<Rightarrow> address \<Rightarrow> validation \<Rightarrow> validation res" where
  "add_whitelisted_validator c a s = not_payable c (only_owner c (
     Inr (s\<lparr>whitelisted_validators := us_insert a (whitelisted_validators s)\<rparr>)))"

definition remove_whitelisted_validator :: "ctx \<Rightarrow> address \<Rightarrow> validation \<Rightarrow> validation res" where
  "remove_whitelisted_validator c a s = not_payable c (only_owner c (
     Inr (s\<lparr>whitelisted_validators := us_swap_remove a (whitelisted_validators s)\<rparr>)))"

definition is_job_verified :: "bytes \<Rightarrow> validation \<Rightarrow> bool" where
  "is_job_verified job_id s = (case job_data_of s job_id of None \<Rightarrow> False
     | Some job \<Rightarrow> j_status job = JobVerified)"

definition get_job_data :: "bytes \<Rightarrow> validation \<Rightarrow> job_data option" where
  "get_job_data job_id s = job_data_of s job_id"

definition get_validation_status :: "bytes \<Rightarrow> validation \<Rightarrow> validation_request_data option" where
  "get_validation_status request_hash s = validation_request_of s request_hash"

fun push_hashes :: "bytes list \<Rightarrow> bytes list \<Rightarrow> bytes list" where
  "push_hashes [] result = result"
| "push_hashes (h # hs) result = push_hashes hs (result @ [h])"

definition get_agent_validations :: "u64 \<Rightarrow> validation \<Rightarrow> bytes list" where
  "get_agent_validations agent_nonce s = push_hashes (agent_validations s agent_nonce) []"

section \<open>Calls\<close>

datatype validation_call =
    InitJob u64 bytes u64 "u32 option"
  | SubmitProof bytes bytes
  | SubmitProofWithNft bytes bytes
  | ValidationRequest bytes address bytes bytes
  | ValidationResponse bytes u8 bytes bytes
  | CleanOldJobs u64 "bytes list"
  | SetIdentityRegistryAddress address
  | AddWhitelistedValidator address
  | RemoveWhitelistedValidator address

fun validation_exec ::
  "(address \<Rightarrow> identity) \<Rightarrow> ctx \<Rightarrow> validation_call \<Rightarrow> validation \<Rightarrow> validation res" where
  "validation_exec ids c (InitJob now j n sid) s = init_job ids c now j n sid s"
| "validation_exec ids c (SubmitProof j prf) s = submit_proof ids c j prf s"
| "validation_exec ids c (SubmitProofWithNft j prf) s = submit_proof_with_nft ids c j prf s"
| "validation_exec ids c (ValidationRequest j v u h) s = validation_request ids c j v u h s"
| "validation_exec ids c (ValidationResponse h r rh tg) s = validation_response c h r rh tg s"
| "validation_exec ids c (CleanOldJobs now js) s = clean_old_jobs c now js s"
| "validation_exec ids c (SetIdentityRegistryAddress a) s = set_identity_registry_address c a s"
| "validation_exec ids c (AddWhitelistedValidator a) s = add_whitelisted_validator c a s"
| "validation_exec ids c (RemoveWhitelistedValidator a) s = remove_whitelisted_validator c a s"

text \<open>
  The agent registry may change between two calls, so each call sees its own state of it.
\<close>

inductive validation_step ::
  "validation \<Rightarrow> ((address \<Rightarrow> identity) \<times> ctx) \<times> validation_call \<Rightarrow> validation \<Rightarrow> bool" where
  validation_call: "validation_exec ids c l s = Inr t \<Longrightarrow> validation_step s ((ids, c), l) t"

end
