(* ===== verification/Validation_Properties.thy ===== *)
theory Validation_Properties
  imports Validation_Registry Identity_Properties
begin

text \<open>
  The status of a job follows the verdicts of its validators, and payments that are not
  forwarded stay in the contract for good.
\<close>

section \<open>Verdicts\<close>

lemma clean_jobs_apply:
  "clean_jobs now js m j = (if j \<in> set js \<and> (\<exists>job. m j = Some job \<and> now > j_creation_timestamp job + THREE_DAYS)
     then None else m j)"
  by (induction js arbitrary: m) (auto split: option.splits)

lemma pay_service_cases:
  assumes "pay_service c own sp s = Inr t"
  shows "\<exists>p. single_optional c = Inr p \<and>
    (t = s \<or> (\<exists>pay. p = Some pay \<and> transfer_payment own pay s = Inr t))"
  using assms by (cases "single_optional c"; cases "projr (single_optional c)")
    (auto simp: pay_service_def require_def split: if_splits)

lemma pay_service_Inr:
  assumes "pay_service c own sp s = Inr t"
  shows "job_data_of t = job_data_of s \<and> validation_request_of t = validation_request_of s \<and>
    whitelisted_validators t = whitelisted_validators s"
  using pay_service_cases [OF assms]
  by (auto simp: transfer_payment_def direct_egld_eq_Inr direct_esdt_eq_Inr split: if_splits)

lemma init_job_Inr:
  assumes "init_job ids c now j n sid s = Inr t"
  shows "job_data_of s j = None" "validation_request_of t = validation_request_of s"
    "job_data_of t = (job_data_of s)(j \<mapsto> \<lparr>j_status = JobNew, j_proof = [], j_employer = caller c,
       j_creation_timestamp = now, j_agent_nonce = n\<rparr>)"
    "whitelisted_validators t = whitelisted_validators s"
  using assms
  by (auto simp: init_job_def Let_def res_simps receive_def dest!: pay_service_Inr split: option.splits)

lemmas validation_defs = submit_proof_def submit_proof_with_nft_def validation_request_def
  validation_response_def clean_old_jobs_def set_identity_registry_address_def
  add_whitelisted_validator_def remove_whitelisted_validator_def

lemma is_job_verified_iff:
  "is_job_verified j s \<longleftrightarrow> (\<exists>job. job_data_of s j = Some job \<and> j_status job = JobVerified)"
  by (auto simp: is_job_verified_def split: option.splits)

text \<open>The only call that verifies a job is a response of at least 70 to a request for that job.\<close>

lemma verdict_step:
  assumes "validation_exec ids c l s = Inr t" and "\<not> is_job_verified j s" and "is_job_verified j t"
  shows "\<exists>h r rh tg data. l = ValidationResponse h r rh tg \<and> 70 \<le> r \<and>
    validation_request_of s h = Some data \<and> vr_job_id data = j \<and> vr_validator_address data = caller c"
proof (cases l)
  case (InitJob now j' n sid)
  with assms show ?thesis by (auto simp: is_job_verified_iff init_job_Inr split: if_splits)
next
  case (ValidationResponse h r rh tg)
  with assms show ?thesis
    by (auto simp: is_job_verified_iff validation_response_def res_simps Let_def validation_event_defs
        split: if_splits option.splits)
qed (use assms in \<open>auto simp: is_job_verified_iff validation_defs res_simps Let_def validation_event_defs
    receive_def clean_jobs_apply split: if_splits\<close>)

definition requested :: "bytes \<Rightarrow> bytes \<Rightarrow> address \<Rightarrow> validation \<Rightarrow> bool" where
  "requested h j v s \<longleftrightarrow> (\<exists>data. validation_request_of s h = Some data \<and> vr_job_id data = j \<and>
     vr_validator_address data = v)"

lemma request_step:
  assumes "validation_exec ids c l s = Inr t" and "\<not> requested h j v s" and "requested h j v t"
  shows "v \<in> set (whitelisted_validators s)"
proof (cases l)
  case (InitJob now j' n sid)
  with assms show ?thesis by (auto simp: requested_def init_job_Inr)
next
  case (ValidationResponse h' r rh tg)
  with assms show ?thesis
    by (auto simp: requested_def validation_response_def res_simps Let_def validation_event_defs
        split: if_splits option.splits)
qed (use assms in \<open>auto simp: requested_def validation_defs res_simps Let_def validation_event_defs
    receive_def split: if_splits\<close>)

text \<open>
  C29. A job is verified only by its validator. If a job is verified after some history of the
  validation registry, the history contains a response of at least 70 to a request for exactly
  that job, sent by the validator named in the request, and that validator was on the whitelist
  at an earlier point of the history. The bound 70 is the code's (lib.rs, validation_response):
  a lower response rejects the job. The specification document and two scenario tests still
  describe an earlier rule under which any response verifies.
\<close>

theorem job_verified_by_validator:
  assumes "run validation_step (validation_init a) ls t" and "is_job_verified j t"
  shows "\<exists>as ids c h r rh tg bs u data. ls = as @ ((ids, c), ValidationResponse h r rh tg) # bs \<and>
    run validation_step (validation_init a) as u \<and> 70 \<le> r \<and>
    validation_request_of u h = Some data \<and> vr_job_id data = j \<and> vr_validator_address data = caller c \<and>
    (\<exists>as1 as2 w. as = as1 @ as2 \<and> run validation_step (validation_init a) as1 w \<and>
       caller c \<in> set (whitelisted_validators w))"
proof -
  have init: "\<not> is_job_verified j (validation_init a)" "\<not> requested h j v (validation_init a)" for h v
    by (simp_all add: is_job_verified_def requested_def validation_init_def)
  from run_turn [of _ _ _ _ "is_job_verified j", OF assms(1) init(1) assms(2)]
  obtain as l bs u v where turn: "ls = as @ l # bs" "run validation_step (validation_init a) as u"
    "\<not> is_job_verified j u" "validation_step u l v" "is_job_verified j v" by blast
  obtain ids c l' where l: "l = ((ids, c), l')" by (metis prod.exhaust)
  then have "validation_exec ids c l' u = Inr v" using turn(4) by (auto simp: validation_step.simps)
  from verdict_step [OF this turn(3,5)] obtain h r rh tg data where
    r: "l' = ValidationResponse h r rh tg" "70 \<le> r" "validation_request_of u h = Some data"
    "vr_job_id data = j" "vr_validator_address data = caller c" by blast
  then have "requested h j (caller c) u" by (simp add: requested_def)
  from run_turn [of _ _ _ _ "requested h j (caller c)", OF turn(2) init(2) this]
  obtain as1 l1 as2 w w' where req: "as = as1 @ l1 # as2" "run validation_step (validation_init a) as1 w"
    "\<not> requested h j (caller c) w" "validation_step w l1 w'" "requested h j (caller c) w'" by blast
  obtain ids1 c1 l1' where "l1 = ((ids1, c1), l1')" by (metis prod.exhaust)
  then have "validation_exec ids1 c1 l1' w = Inr w'" using req(4) by (auto simp: validation_step.simps)
  from request_step [OF this req(3,5)] have "caller c \<in> set (whitelisted_validators w)" .
  then show ?thesis using turn(1,2) l r req(1,2) by blast
qed

section \<open>A concrete job\<close>

definition demo_ids :: "address \<Rightarrow> identity" where
  "demo_ids a = identity_init\<lparr>agent_token_id := Some ''AGENT'', agents := bidi_store 1 7 bidi_empty,
     agent_details_of := [1 \<mapsto> \<lparr>ad_name = ''bot'', ad_public_key = bytes32 20\<rparr>]\<rparr>"

definition demo_job_calls :: "(((address \<Rightarrow> identity) \<times> ctx) \<times> validation_call) list" where
  "demo_job_calls = [((demo_ids, call_ctx 1 0 []), AddWhitelistedValidator 30),
     ((demo_ids, call_ctx 40 0 []), InitJob 5000 ''job'' 1 None),
     ((demo_ids, call_ctx 20 0 []), SubmitProof ''job'' ''proof''),
     ((demo_ids, call_ctx 7 0 []), ValidationRequest ''job'' 30 ''uri'' ''hash''),
     ((demo_ids, call_ctx 30 0 []), ValidationResponse ''hash'' 90 [] [])]"

definition validation_do :: "(address \<Rightarrow> identity) \<times> ctx \<Rightarrow> validation_call \<Rightarrow> validation \<Rightarrow> validation res" where
  "validation_do = (\<lambda>(ids, c). validation_exec ids c)"

lemma validation_run: "run_calls validation_do s ls = Inr t \<Longrightarrow> run validation_step s ls t"
  by (rule run_callsD [of validation_do]) (auto simp: validation_do_def intro: validation_step.intros)

lemmas validation_eval_simps = validation_do_def Let_def not_payable_def only_owner_def
  validation_event_defs demo_ids_def bidi_store_def bidi_empty_def identity_init_def us_insert_def

lemma demo_job:
  "\<exists>t. run validation_step (validation_init 2) demo_job_calls t \<and> is_job_verified ''job'' t"
proof -
  have "\<exists>t. run_calls validation_do (validation_init 2) demo_job_calls = Inr t \<and> is_job_verified ''job'' t"
    by (simp add: demo_job_calls_def validation_eval_simps init_job_def validation_defs is_job_verified_def
        validation_init_def)
  then show ?thesis using validation_run by blast
qed

theorem job_verified_by_validator_witness:
  "\<exists>t. is_job_verified ''job'' t \<and> (\<exists>as ids c h r rh tg bs.
     demo_job_calls = as @ ((ids, c), ValidationResponse h r rh tg) # bs \<and> 70 \<le> r)"
proof -
  obtain t where t: "run validation_step (validation_init 2) demo_job_calls t" "is_job_verified ''job'' t"
    using demo_job by blast
  from job_verified_by_validator [OF t] t(2) show ?thesis by (elim exE conjE) blast
qed

section \<open>Payments\<close>

text \<open>EGLD comes with a call as its value, never as a token transfer under its reserved name.\<close>

definition plain_call :: "((address \<Rightarrow> identity) \<times> ctx) \<times> validation_call \<Rightarrow> bool" where
  "plain_call l \<longleftrightarrow> (\<forall>p\<in>set (esdt_transfers (snd (fst l))). token_identifier p \<noteq> EGLD_TOKEN)"

definition holds_more :: "validation \<Rightarrow> validation \<Rightarrow> bool" where
  "holds_more s t \<longleftrightarrow> egld_balance s \<le> egld_balance t \<and> (\<forall>tk n. esdt_balance s tk n \<le> esdt_balance t tk n)"

lemma holds_more_refl [simp]: "egld_balance t = egld_balance s \<Longrightarrow> esdt_balance t = esdt_balance s \<Longrightarrow> holds_more s t"
  by (simp add: holds_more_def)

lemma holds_more_trans: "holds_more s t \<Longrightarrow> holds_more t u \<Longrightarrow> holds_more s u"
  unfolding holds_more_def by (meson order_trans)

lemma holds_more_received:
  "egld_balance t = egld_balance s + egld_value c \<Longrightarrow>
     esdt_balance t = credit_esdt (esdt_transfers c) (esdt_balance s) \<Longrightarrow> holds_more s t"
  by (simp add: holds_more_def credit_esdt_apply)

lemma forward_keeps:
  assumes "single_optional c = Inr (Some p)" and "plain_call ((ids, c), l)"
    and "transfer_payment to p u = Inr t" and "egld_balance u = egld_balance s + egld_value c"
    and "esdt_balance u = credit_esdt (esdt_transfers c) (esdt_balance s)"
  shows "holds_more s t"
  using assms
  by (auto simp: single_optional_eq_Inr transfer_payment_def plain_call_def direct_egld_eq_Inr
      direct_esdt_eq_Inr holds_more_def credit_esdt_apply debit_apply)

lemma init_job_holds:
  assumes "init_job ids c now j n sid s = Inr t" and "plain_call ((ids, c), l)"
  shows "holds_more s t"
proof -
  define u where "u = (receive c s)\<lparr>job_data_of := (job_data_of s)(j \<mapsto> \<lparr>j_status = JobNew, j_proof = [],
    j_employer = caller c, j_creation_timestamp = now, j_agent_nonce = n\<rparr>)\<rparr>"
  have u: "egld_balance u = egld_balance s + egld_value c"
    "esdt_balance u = credit_esdt (esdt_transfers c) (esdt_balance s)" by (simp_all add: u_def receive_def)
  have "t = u \<or> (\<exists>own sp. pay_service c own sp u = Inr t)"
    using assms(1) by (auto simp: init_job_def Let_def res_simps u_def receive_def split: option.splits)
  then show ?thesis
  proof
    assume "t = u"
    then show ?thesis using u(1,2) holds_more_received by blast
  next
    assume "\<exists>own sp. pay_service c own sp u = Inr t"
    then obtain own sp where "pay_service c own sp u = Inr t" by blast
    from pay_service_cases [OF this] obtain p where "single_optional c = Inr p"
      "t = u \<or> (\<exists>pay. p = Some pay \<and> transfer_payment own pay u = Inr t)" by blast
    then show ?thesis using u(1,2) holds_more_received forward_keeps [OF _ assms(2)] by blast
  qed
qed

lemma validation_exec_holds:
  assumes "validation_exec ids c l s = Inr t" and "plain_call ((ids, c), l)"
  shows "holds_more s t"
proof (cases l)
  case (InitJob now j n sid)
  with assms show ?thesis by (auto dest: init_job_holds)
next
  case (SubmitProofWithNft j q)
  with assms show ?thesis
    by (auto simp: submit_proof_with_nft_def res_simps Let_def receive_def holds_more_def debit_apply)
next
  case (ValidationResponse h r rh tg)
  with assms show ?thesis
    by (auto simp: validation_response_def res_simps Let_def validation_event_defs split: option.splits)
qed (use assms in \<open>auto simp: validation_defs res_simps Let_def validation_event_defs\<close>)

lemma validation_run_holds:
  "run validation_step s ls t \<Longrightarrow> list_all plain_call ls \<Longrightarrow> holds_more s t"
  by (induction rule: run.induct)
    (auto simp: validation_step.simps dest: validation_exec_holds intro: holds_more_trans)

text \<open>
  A payment without a service is lost. \<open>init_job\<close> accepts any payment; when no service is
  named, all of it stays in the contract, and no later call by anybody, the owner included, ever
  takes anything out: after every further history the contract holds at least what it held before
  the job plus the whole payment, in EGLD and in every token.
\<close>

theorem unserviced_payment_stuck:
  assumes "init_job ids c now j n None s = Inr u" and "run validation_step u ls t"
    and "list_all plain_call ls"
  shows "egld_balance s + egld_value c \<le> egld_balance t \<and>
    (\<forall>tk k. esdt_balance s tk k + paid_in (esdt_transfers c) tk k \<le> esdt_balance t tk k)"
proof -
  have "egld_balance u = egld_balance s + egld_value c"
    "esdt_balance u = credit_esdt (esdt_transfers c) (esdt_balance s)"
    using assms(1) by (auto simp: init_job_def Let_def res_simps receive_def)
  then show ?thesis
    using validation_run_holds [OF assms(2,3)] by (simp add: holds_more_def credit_esdt_apply)
qed

definition demo_gift :: esdt_payment where
  "demo_gift = \<lparr>token_identifier = ''USDC'', token_nonce = 0, amount = 50\<rparr>"

theorem unserviced_payment_stuck_witness:
  "\<exists>u t. init_job demo_ids (call_ctx 40 0 [demo_gift]) 5000 ''job2'' 1 None (validation_init 2) = Inr u \<and>
     run validation_step u [((demo_ids, call_ctx 1 0 []), AddWhitelistedValidator 30)] t \<and>
     50 \<le> esdt_balance t ''USDC'' 0"
proof -
  define u where "u = projr (init_job demo_ids (call_ctx 40 0 [demo_gift]) 5000 ''job2'' 1 None (validation_init 2))"
  have u: "init_job demo_ids (call_ctx 40 0 [demo_gift]) 5000 ''job2'' 1 None (validation_init 2) = Inr u"
    by (simp add: u_def init_job_def validation_init_def receive_def)
  define t where "t = u\<lparr>whitelisted_validators := us_insert 30 (whitelisted_validators u)\<rparr>"
  have t: "run validation_step u [((demo_ids, call_ctx 1 0 []), AddWhitelistedValidator 30)] t"
    by (auto simp: add_whitelisted_validator_def not_payable_def only_owner_def t_def
        intro!: run.intros validation_step.intros)
  have "list_all plain_call [((demo_ids, call_ctx 1 0 []), AddWhitelistedValidator 30)]"
    by (simp add: plain_call_def)
  from unserviced_payment_stuck [OF u t this] have "50 \<le> esdt_balance t ''USDC'' 0"
    by (auto simp: demo_gift_def validation_init_def dest!: spec [of _ "''USDC''"] spec [of _ 0])
  with u t show ?thesis by (intro exI [of _ u] exI [of _ t] conjI)
qed

end
