(* ===== verification/Reputation_Registry.thy ===== *)
theory Reputation_Registry
  imports Validation_Registry
begin

text \<open>
  The reputation of agents (contracts/xcron-agent-shield/reputation-registry/src): employers rate
  jobs, which moves a cumulative average kept on chain; anybody else may leave raw signals; and a
  view values an agent from its earnings and its average. Jobs and agents are read from the
  storage of the other two registries: \<open>vals a\<close> and \<open>ids a\<close> are the contracts at address \<open>a\<close>.
\<close>

section \<open>State (storage.rs, structs.rs)\<close>

type_synonym i64 = "64 word"

record feedback_data =
  fd_value :: i64
  fd_value_decimals :: u8
  fd_tag1 :: bytes
  fd_tag2 :: bytes
  fd_is_revoked :: bool

record reputation = account +
  reputation_score :: "u64 \<Rightarrow> nat"
  total_jobs :: "u64 \<Rightarrow> u64"
  rr_validation_contract_address :: address
  rr_identity_contract_address :: address
  has_given_feedback :: "bytes \<Rightarrow> bool"
  agent_response :: "bytes \<Rightarrow> bytes"
  feedback_data_of :: "u64 \<Rightarrow> address \<Rightarrow> u64 \<rightharpoonup> feedback_data"
  last_feedback_index :: "u64 \<Rightarrow> address \<Rightarrow> u64"
  feedback_clients :: "u64 \<Rightarrow> address list"

definition reputation_init :: "address \<Rightarrow> address \<Rightarrow> reputation" where
  "reputation_init va ia = \<lparr>egld_balance = 0, esdt_balance = (\<lambda>_ _. 0), outbox = [],
     reputation_score = (\<lambda>_. 0), total_jobs = (\<lambda>_. 0), rr_validation_contract_address = va,
     rr_identity_contract_address = ia, has_given_feedback = (\<lambda>_. False), agent_response = (\<lambda>_. []),
     feedback_data_of = (\<lambda>_ _. Map.empty), last_feedback_index = (\<lambda>_ _. 0), feedback_clients = (\<lambda>_. [])\<rparr>"

definition reputation_upgrade :: "reputation \<Rightarrow> reputation" where
  "reputation_upgrade s = s"

section \<open>Events (events.rs)\<close>

definition reputation_updated_event :: "u64 \<Rightarrow> nat \<Rightarrow> reputation \<Rightarrow> reputation" where
  "reputation_updated_event n v = emit ''reputationUpdated'' [AU64 n, ANat v]"

record new_feedback_event_data =
  ne_feedback_index :: u64
  ne_value :: i64
  ne_value_decimals :: u8
  ne_tag1 :: bytes
  ne_tag2 :: bytes
  ne_endpoint :: bytes
  ne_feedback_uri :: bytes
  ne_feedback_hash :: bytes

definition new_feedback_event ::
  "u64 \<Rightarrow> address \<Rightarrow> new_feedback_event_data \<Rightarrow> reputation \<Rightarrow> reputation" where
  "new_feedback_event n a d = emit ''newFeedback'' [AU64 n, AAddr a, AU64 (ne_feedback_index d),
     AU64 (ne_value d), ANat (unat (ne_value_decimals d)), ABytes (ne_tag1 d), ABytes (ne_tag2 d),
     ABytes (ne_endpoint d), ABytes (ne_feedback_uri d), ABytes (ne_feedback_hash d)]"

definition feedback_revoked_event :: "u64 \<Rightarrow> address \<Rightarrow> u64 \<Rightarrow> reputation \<Rightarrow> reputation" where
  "feedback_revoked_event n a i = emit ''feedbackRevoked'' [AU64 n, AAddr a, AU64 i]"

lemmas reputation_event_defs = reputation_updated_event_def new_feedback_event_def
  feedback_revoked_event_def emit_def

section \<open>Scores (utils.rs)\<close>

definition calculate_new_score :: "u64 \<Rightarrow> nat \<Rightarrow> reputation \<Rightarrow> (nat \<times> reputation) res" where
  "calculate_new_score agent_nonce rating s = (
     let n = total_jobs s agent_nonce + 1;
         s = s\<lparr>total_jobs := (total_jobs s)(agent_nonce := n)\<rparr>;
         current_score = reputation_score s agent_nonce;
         total_big = unat n
     in bind_res (big_sub total_big 1) (\<lambda>prev_total.
     let weighted_score = current_score * prev_total
     in Inr ((weighted_score + rating) div total_big, s)))"

section \<open>Endpoints (lib.rs)\<close>

definition give_feedback_simple ::
  "(address \<Rightarrow> validation) \<Rightarrow> ctx \<Rightarrow> bytes \<Rightarrow> u64 \<Rightarrow> nat \<Rightarrow> reputation \<Rightarrow> reputation res" where
  "give_feedback_simple vals c job_id agent_nonce rating s = not_payable c (
     let validation_addr = rr_validation_contract_address s;
         job_mapper = job_data_of (vals validation_addr) job_id
     in require (job_mapper \<noteq> None) ''Job not found'' (
     bind_res (get_slot job_mapper) (\<lambda>job.
     require (caller c = j_employer job) ''Only the employer can provide feedback'' (
     require (\<not> has_given_feedback s job_id) ''Feedback already provided for this job'' (
     bind_res (calculate_new_score agent_nonce rating s) (\<lambda>(new_score, s).
     let s = s\<lparr>reputation_score := (reputation_score s)(agent_nonce := new_score),
               has_given_feedback := (has_given_feedback s)(job_id := True)\<rparr>
     in Inr (reputation_updated_event agent_nonce new_score s)))))))"

definition give_feedback ::
  "(address \<Rightarrow> identity) \<Rightarrow> ctx \<Rightarrow> u64 \<Rightarrow> i64 \<Rightarrow> u8 \<Rightarrow> bytes \<Rightarrow> bytes \<Rightarrow> bytes \<Rightarrow> bytes \<Rightarrow> bytes \<Rightarrow>
     reputation \<Rightarrow> reputation res" where
  "give_feedback ids c agent_nonce v value_decimals tag1 tag2 endpoint feedback_uri feedback_hash s =
     not_payable c (
     let identity_addr = rr_identity_contract_address s;
         opt_owner_nonce = bidi_get_id (caller c) (agents (ids identity_addr))
     in require (opt_owner_nonce \<noteq> 0 \<longrightarrow> opt_owner_nonce \<noteq> agent_nonce)
          ''Agent owner cannot give feedback to own agent'' (
     require (value_decimals \<le> 18) ''Value decimals must be 0-18'' (
     let new_index = last_feedback_index s agent_nonce (caller c) + 1;
         data = \<lparr>fd_value = v, fd_value_decimals = value_decimals, fd_tag1 = tag1, fd_tag2 = tag2,
                 fd_is_revoked = False\<rparr>;
         s = s\<lparr>last_feedback_index := (last_feedback_index s)(agent_nonce :=
                 (last_feedback_index s agent_nonce)(caller c := new_index)),
               feedback_clients := (feedback_clients s)(agent_nonce :=
                 us_insert (caller c) (feedback_clients s agent_nonce)),
               feedback_data_of := (feedback_data_of s)(agent_nonce :=
                 (feedback_data_of s agent_nonce)(caller c :=
                   (feedback_data_of s agent_nonce (caller c))(new_index \<mapsto> data)))\<rparr>;
         event_data = \<lparr>ne_feedback_index = new_index, ne_value = v, ne_value_decimals = value_decimals,
           ne_tag1 = tag1, ne_tag2 = tag2, ne_endpoint = endpoint, ne_feedback_uri = feedback_uri,
           ne_feedback_hash = feedback_hash\<rparr>
     in Inr (new_feedback_event agent_nonce (caller c) event_data s))))"

definition revoke_feedback :: "ctx \<Rightarrow> u64 \<Rightarrow> u64 \<Rightarrow> reputation \<Rightarrow> reputation res" where
  "revoke_feedback c agent_nonce feedback_index s = not_payable c (
     let mapper = feedback_data_of s agent_nonce (caller c) feedback_index in
     require (mapper \<noteq> None) ''Feedback not found'' (
     bind_res (get_slot mapper) (\<lambda>data.
     require (\<not> fd_is_revoked data) ''Feedback already revoked'' (
     let s = s\<lparr>feedback_data_of := (feedback_data_of s)(agent_nonce :=
                 (feedback_data_of s agent_nonce)(caller c :=
                   (feedback_data_of s agent_nonce (caller c))(feedback_index \<mapsto>
                     data\<lparr>fd_is_revoked := True\<rparr>)))\<rparr>
     in Inr (feedback_revoked_event agent_nonce (caller c) feedback_index s)))))"

definition read_feedback :: "u64 \<Rightarrow> address \<Rightarrow> u64 \<Rightarrow> reputation \<Rightarrow> feedback_data res" where
  "read_feedback agent_nonce client feedback_index s = (
     let mapper = feedback_data_of s agent_nonce client feedback_index in
     require (mapper \<noteq> None) ''Feedback not found'' (get_slot mapper))"

definition append_response ::
  "(address \<Rightarrow> validation) \<Rightarrow> ctx \<Rightarrow> bytes \<Rightarrow> bytes \<Rightarrow> reputation \<Rightarrow> reputation res" where
  "append_response vals c job_id response_uri s = not_payable c (
     require (job_data_of (vals (rr_validation_contract_address s)) job_id \<noteq> None) ''Job not found'' (
     Inr (s\<lparr>agent_response := (agent_response s)(job_id := response_uri)\<rparr>)))"

definition evaluate_agent_fair_value :: "u64 \<Rightarrow> nat \<Rightarrow> u32 \<Rightarrow> reputation \<Rightarrow> nat res" where
  "evaluate_agent_fair_value agent_nonce net_monthly_earnings expected_apr_basis_points s =
     require (0 < expected_apr_basis_points) ''Invalid Expected APR'' (
     let annual_earnings = net_monthly_earnings * 12;
         base_value = annual_earnings * 10000 div unat expected_apr_basis_points;
         rep_score = reputation_score s agent_nonce;
         adjusted_score = (if rep_score = 0 then 80 else rep_score)
     in Inr (base_value * adjusted_score div 100))"

section \<open>Configuration (config.rs)\<close>

definition set_identity_contract_address :: "ctx \<Rightarrow> address \<Rightarrow> reputation \<Rightarrow> reputation res" where
  "set_identity_contract_address c a s =
     not_payable c (only_owner c (Inr (s\<lparr>rr_identity_contract_address := a\<rparr>)))"

definition set_validation_contract_address :: "ctx \<Rightarrow> address \<Rightarrow> reputation \<Rightarrow> reputation res" where
  "set_validation_contract_address c a s =
     not_payable c (only_owner c (Inr (s\<lparr>rr_validation_contract_address := a\<rparr>)))"

section \<open>Calls\<close>

record registries =
  vals_at :: "address \<Rightarrow> validation"
  ids_at :: "address \<Rightarrow> identity"

datatype reputation_call =
    GiveFeedbackSimple bytes u64 nat
  | GiveFeedback u64 i64 u8 bytes bytes bytes bytes bytes
  | RevokeFeedback u64 u64
  | AppendResponse bytes bytes
  | SetIdentityContractAddress address
  | SetValidationContractAddress address

fun reputation_exec :: "registries \<times> ctx \<Rightarrow> reputation_call \<Rightarrow> reputation \<Rightarrow> reputation res" where
  "reputation_exec (g, c) (GiveFeedbackSimple j n r) s = give_feedback_simple (vals_at g) c j n r s"
| "reputation_exec (g, c) (GiveFeedback n v d t1 t2 ep uri fh) s =
     give_feedback (ids_at g) c n v d t1 t2 ep uri fh s"
| "reputation_exec (g, c) (RevokeFeedback n i) s = revoke_feedback c n i s"
| "reputation_exec (g, c) (AppendResponse j uri) s = append_response (vals_at g) c j uri s"
| "reputation_exec (g, c) (SetIdentityContractAddress a) s = set_identity_contract_address c a s"
| "reputation_exec (g, c) (SetValidationContractAddress a) s = set_validation_contract_address c a s"

inductive reputation_step ::
  "reputation \<Rightarrow> (registries \<times> ctx) \<times> reputation_call \<Rightarrow> reputation \<Rightarrow> bool" where
  reputation_call: "reputation_exec gc l s = Inr t \<Longrightarrow> reputation_step s (gc, l) t"

section \<open>Properties\<close>

text \<open>The cumulative average lies between the old average and the new rating.\<close>

lemma average_bounds:
  fixes old r k :: nat
  shows "min old r \<le> (old * k + r) div Suc k" and "(old * k + r) div Suc k \<le> max old r"
proof -
  have "min old r * Suc k \<le> old * k + r" by (simp add: min_def distrib_left add_mono mult_le_mono)
  then have "min old r * Suc k div Suc k \<le> (old * k + r) div Suc k" by (rule div_le_mono)
  then show "min old r \<le> (old * k + r) div Suc k" by (simp only: nonzero_mult_div_cancel_right nat.distinct simp_thms)
  have "old * k + r \<le> max old r * Suc k" by (simp add: max_def distrib_left add_mono mult_le_mono)
  then have "(old * k + r) div Suc k \<le> max old r * Suc k div Suc k" by (rule div_le_mono)
  then show "(old * k + r) div Suc k \<le> max old r" by (simp only: nonzero_mult_div_cancel_right nat.distinct simp_thms)
qed

lemma unat_suc_cases:
  fixes w :: u64
  shows "unat (w + 1) = 0 \<or> unat (w + 1) = Suc (unat w)"
proof -
  have "unat w < 2 ^ 64" by (rule order.strict_trans2 [OF unsigned_less]) simp
  then show ?thesis by (auto simp: unat_word_ariths mod_Suc)
qed

lemma calculate_new_score_Inr:
  assumes "calculate_new_score n r s = Inr (v, t)"
  shows "v = (reputation_score s n * unat (total_jobs s n) + r) div Suc (unat (total_jobs s n)) \<and>
    t = s\<lparr>total_jobs := (total_jobs s)(n := total_jobs s n + 1)\<rparr> \<and>
    unat (total_jobs s n + 1) = Suc (unat (total_jobs s n))"
  using assms unat_suc_cases [of "total_jobs s n"]
  by (auto simp: calculate_new_score_def Let_def res_simps)

lemma give_feedback_simple_Inr:
  assumes "give_feedback_simple vals c j n r s = Inr t"
  obtains job where "job_data_of (vals (rr_validation_contract_address s)) j = Some job"
    "caller c = j_employer job" "\<not> has_given_feedback s j"
    "reputation_score t = (reputation_score s)(n :=
       (reputation_score s n * unat (total_jobs s n) + r) div Suc (unat (total_jobs s n)))"
    "total_jobs t = (total_jobs s)(n := total_jobs s n + 1)"
    "has_given_feedback t = (has_given_feedback s)(j := True)"
  using assms
  by (auto simp: give_feedback_simple_def Let_def res_simps reputation_event_defs
      dest!: calculate_new_score_Inr)

lemma feedback_flag_stays:
  assumes "reputation_exec gc l s = Inr t" and "has_given_feedback s j"
  shows "has_given_feedback t j"
proof (cases gc)
  case (Pair g c)
  show ?thesis
  proof (cases l)
    case (GiveFeedbackSimple j' n r)
    with assms Pair show ?thesis by (auto elim!: give_feedback_simple_Inr)
  qed (use assms Pair in \<open>auto simp: give_feedback_def revoke_feedback_def append_response_def
      set_identity_contract_address_def set_validation_contract_address_def res_simps Let_def
      reputation_event_defs\<close>)
qed

interpretation rated: invariant_system reputation_step "\<lambda>_. True" "\<lambda>s. has_given_feedback s j" for j
  by unfold_locales (auto simp: reputation_step.simps intro: feedback_flag_stays)

text \<open>
  One rating per job, and a rating moves the average towards itself. A successful
  \<open>giveFeedbackSimple\<close> comes from the employer of an existing job that was not rated before; the
  new score of the agent lies between the old score and the rating, and equals the rating for
  the first job; no other score changes; and after any further history nobody can rate that job
  again, whatever the other registries hold by then.
\<close>

theorem feedback_once_and_bounded:
  assumes "give_feedback_simple vals c j n r s = Inr t"
  shows "(\<exists>job. job_data_of (vals (rr_validation_contract_address s)) j = Some job \<and> caller c = j_employer job) \<and>
    \<not> has_given_feedback s j \<and> min (reputation_score s n) r \<le> reputation_score t n \<and>
    reputation_score t n \<le> max (reputation_score s n) r \<and>
    (total_jobs s n = 0 \<longrightarrow> reputation_score t n = r) \<and>
    (\<forall>m. m \<noteq> n \<longrightarrow> reputation_score t m = reputation_score s m) \<and>
    (\<forall>ls u vals' c' n' r' v. run reputation_step t ls u \<longrightarrow> give_feedback_simple vals' c' j n' r' u \<noteq> Inr v)"
  using assms
proof (cases rule: give_feedback_simple_Inr)
  case (1 job)
  have "give_feedback_simple vals' c' j n' r' u \<noteq> Inr v" if "run reputation_step t ls u" for ls u vals' c' n' r' v
  proof -
    have "has_given_feedback u j" using rated.run_inv [OF that] 1(6) by (simp add: list_all_iff)
    then show ?thesis by (auto elim!: give_feedback_simple_Inr)
  qed
  then show ?thesis using 1 average_bounds by auto
qed

definition demo_vals :: "address \<Rightarrow> validation" where
  "demo_vals a = (validation_init 2)\<lparr>job_data_of := [''job'' \<mapsto> \<lparr>j_status = JobNew, j_proof = [],
     j_employer = 40, j_creation_timestamp = 0, j_agent_nonce = 1\<rparr>]\<rparr>"

theorem feedback_once_and_bounded_witness:
  "\<exists>t. give_feedback_simple demo_vals (call_ctx 40 0 []) ''job'' 1 90 (reputation_init 3 2) = Inr t \<and>
     reputation_score t 1 = 90 \<and> (\<forall>v. give_feedback_simple demo_vals (call_ctx 40 0 []) ''job'' 1 10 t \<noteq> Inr v)"
proof -
  have "\<exists>t. give_feedback_simple demo_vals (call_ctx 40 0 []) ''job'' 1 90 (reputation_init 3 2) = Inr t"
    by (simp add: give_feedback_simple_def not_payable_def demo_vals_def reputation_init_def
        calculate_new_score_def Let_def big_sub_def)
  then obtain t where t: "give_feedback_simple demo_vals (call_ctx 40 0 []) ''job'' 1 90 (reputation_init 3 2) = Inr t"
    by blast
  have "total_jobs (reputation_init 3 2) 1 = 0" by (simp add: reputation_init_def)
  then have "reputation_score t 1 = 90" using feedback_once_and_bounded [OF t] by blast
  moreover have "give_feedback_simple demo_vals (call_ctx 40 0 []) ''job'' 1 10 t \<noteq> Inr v" for v
    using feedback_once_and_bounded [OF t] run_nil by metis
  ultimately show ?thesis using t by blast
qed

end
