(* ===== verification/Agent_Marketplace.thy ===== *)
theory Agent_Marketplace
  imports Agent_Types
begin

text \<open>
  The market for agent NFTs
  (contracts/xcron-agent-shield/xcron-agent-marketplace/src/xcron_agent_marketplace.rs). The price
  of an agent is what the reputation registry answers when the agent is bought; the registry is
  an argument, queried at the stored address.
\<close>

section \<open>State and endpoints\<close>

type_synonym valuation = "address \<Rightarrow> u64 \<Rightarrow> nat \<Rightarrow> u32 \<Rightarrow> nat res"

record market = account +
  reputation_registry_address :: address
  treasury_address :: address
  agent_nft_token_id :: token
  listings :: "u64 \<rightharpoonup> address"
  listing_earnings :: "u64 \<Rightarrow> nat"
  listing_apr :: "u64 \<Rightarrow> u32"

definition market_init :: "address \<Rightarrow> address \<Rightarrow> token \<Rightarrow> market" where
  "market_init rep tre tk = \<lparr>egld_balance = 0, esdt_balance = (\<lambda>_ _. 0), outbox = [],
     reputation_registry_address = rep, treasury_address = tre, agent_nft_token_id = tk,
     listings = Map.empty, listing_earnings = (\<lambda>_. 0), listing_apr = (\<lambda>_. 0)\<rparr>"

definition market_upgrade :: "market \<Rightarrow> market" where
  "market_upgrade s = s"

definition list_agent :: "ctx \<Rightarrow> nat \<Rightarrow> u32 \<Rightarrow> market \<Rightarrow> market res" where
  "list_agent c net_monthly_earnings expected_apr_basis_points s = (let s = receive c s in
     bind_res (single_payment c) (\<lambda>payment.
     require (token_identifier payment = agent_nft_token_id s) ''Invalid Agent NFT Token ID'' (
     require (amount payment = 1) ''Must list exactly 1 Agent NFT'' (
     require (0 < expected_apr_basis_points) ''Invalid Expected APR'' (
     let nonce = token_nonce payment
     in Inr (s\<lparr>listings := (listings s)(nonce \<mapsto> caller c),
               listing_earnings := (listing_earnings s)(nonce := net_monthly_earnings),
               listing_apr := (listing_apr s)(nonce := expected_apr_basis_points)\<rparr>))))))"

text \<open>The three mappers of a listing are cleared together at the end of a sale or a cancellation.\<close>

definition clear_listing :: "u64 \<Rightarrow> market \<Rightarrow> market" where
  "clear_listing nonce s = s\<lparr>listings := (listings s)(nonce := None),
     listing_earnings := (listing_earnings s)(nonce := 0), listing_apr := (listing_apr s)(nonce := 0)\<rparr>"

definition send_agent :: "address \<Rightarrow> u64 \<Rightarrow> market \<Rightarrow> market res" where
  "send_agent to nonce s = transfer_payment to
     \<lparr>token_identifier = agent_nft_token_id s, token_nonce = nonce, amount = 1\<rparr> s"

definition cancel_listing :: "ctx \<Rightarrow> u64 \<Rightarrow> market \<Rightarrow> market res" where
  "cancel_listing c agent_nonce s = not_payable c (
     require (listings s agent_nonce \<noteq> None) ''Agent not listed'' (
     bind_res (get_slot (listings s agent_nonce)) (\<lambda>seller.
     require (caller c = seller) ''Only seller can cancel listing'' (
     bind_res (send_agent seller agent_nonce s) (\<lambda>s.
     Inr (clear_listing agent_nonce s))))))"

definition buy_agent :: "valuation \<Rightarrow> ctx \<Rightarrow> u64 \<Rightarrow> market \<Rightarrow> market res" where
  "buy_agent evaluate c agent_nonce s = payable_egld c (let s = receive c s in
     require (listings s agent_nonce \<noteq> None) ''Agent not listed'' (
     bind_res (get_slot (listings s agent_nonce)) (\<lambda>seller.
     bind_res (evaluate (reputation_registry_address s) agent_nonce (listing_earnings s agent_nonce)
       (listing_apr s agent_nonce)) (\<lambda>fair_value.
     let payment_amount = egld_value c in
     require (payment_amount = fair_value) ''Payment must perfectly match AVS Fair Value'' (
     let five_percent = fair_value * 5 div 100 in
     bind_res (big_sub fair_value five_percent) (\<lambda>ninety_five_percent.
     bind_res (send_agent (caller c) agent_nonce s) (\<lambda>s.
     bind_res (if 0 < ninety_five_percent then direct_egld seller ninety_five_percent s else Inr s) (\<lambda>s.
     bind_res (if 0 < five_percent then direct_egld (treasury_address s) five_percent s else Inr s) (\<lambda>s.
     Inr (clear_listing agent_nonce s))))))))))"

section \<open>Calls\<close>

datatype market_call =
    ListAgent nat u32
  | CancelListing u64
  | BuyAgent u64

fun market_exec :: "valuation \<times> ctx \<Rightarrow> market_call \<Rightarrow> market \<Rightarrow> market res" where
  "market_exec (ev, c) (ListAgent e a) s = list_agent c e a s"
| "market_exec (ev, c) (CancelListing n) s = cancel_listing c n s"
| "market_exec (ev, c) (BuyAgent n) s = buy_agent ev c n s"

inductive market_step :: "market \<Rightarrow> (valuation \<times> ctx) \<times> market_call \<Rightarrow> market \<Rightarrow> bool" where
  market_call: "market_exec vc l s = Inr t \<Longrightarrow> market_step s (vc, l) t"

section \<open>Custody\<close>

text \<open>The token of the agents is not EGLD, and every listed agent is in the custody of the market.\<close>

definition market_inv :: "market \<Rightarrow> bool" where
  "market_inv s \<longleftrightarrow> agent_nft_token_id s \<noteq> EGLD_TOKEN \<and>
     (\<forall>n. listings s n \<noteq> None \<longrightarrow> 1 \<le> esdt_balance s (agent_nft_token_id s) n)"

definition sale :: "address \<Rightarrow> address \<Rightarrow> nat \<Rightarrow> u64 \<Rightarrow> market \<Rightarrow> market" where
  "sale buyer seller v n s = clear_listing n (s\<lparr>egld_balance := egld_balance s - v,
     esdt_balance := debit (agent_nft_token_id s) n 1 (esdt_balance s),
     outbox := outbox s @ SendEsdt buyer (agent_nft_token_id s) n 1 # send_pos seller (v - v * 5 div 100) @
       send_pos (treasury_address s) (v * 5 div 100)\<rparr>)"

lemma five_percent_le: "v * 5 div 100 \<le> (v :: nat)"
  by simp

lemma send_agent_Inr:
  "agent_nft_token_id s \<noteq> EGLD_TOKEN \<Longrightarrow> send_agent to n s = Inr t \<longleftrightarrow>
     1 \<le> esdt_balance s (agent_nft_token_id s) n \<and>
     t = s\<lparr>esdt_balance := debit (agent_nft_token_id s) n 1 (esdt_balance s),
           outbox := outbox s @ [SendEsdt to (agent_nft_token_id s) n 1]\<rparr>"
  by (simp add: send_agent_def transfer_payment_def direct_esdt_eq_Inr)

lemma buy_agent_Inr:
  assumes "agent_nft_token_id s \<noteq> EGLD_TOKEN"
  shows "buy_agent ev c n s = Inr t \<longleftrightarrow> esdt_transfers c = [] \<and> (\<exists>seller. listings s n = Some seller \<and>
    ev (reputation_registry_address s) n (listing_earnings s n) (listing_apr s n) = Inr (egld_value c) \<and>
    1 \<le> esdt_balance s (agent_nft_token_id s) n \<and>
    t = (sale (caller c) seller (egld_value c) n (receive c s)))"
  using assms five_percent_le [of "egld_value c"]
  by (auto simp: buy_agent_def res_simps Let_def send_agent_Inr sale_def receive_def clear_listing_def)

lemma market_exec_inv:
  assumes "market_exec vc l s = Inr t" and "market_inv s"
  shows "market_inv t"
proof (cases vc)
  case (Pair ev c)
  have tk: "agent_nft_token_id s \<noteq> EGLD_TOKEN" using assms(2) by (simp add: market_inv_def)
  show ?thesis
  proof (cases l)
    case (ListAgent e a)
    with assms Pair tk show ?thesis
      by (auto simp: list_agent_def Let_def res_simps market_inv_def receive_def credit_esdt_apply)
  next
    case (CancelListing n)
    with assms Pair show ?thesis
      by (auto simp: cancel_listing_def Let_def res_simps market_inv_def send_agent_Inr clear_listing_def
          debit_apply)
  next
    case (BuyAgent n)
    with assms Pair show ?thesis
      by (auto simp: buy_agent_Inr tk market_inv_def sale_def clear_listing_def debit_apply receive_def
          split: if_splits)
  qed
qed

interpretation custody: invariant_system market_step "\<lambda>_. True" market_inv
  by unfold_locales (auto simp: market_step.simps intro: market_exec_inv)

lemma market_reachable:
  assumes "run market_step (market_init rep tre tk) ls s" and "tk \<noteq> EGLD_TOKEN"
  shows "market_inv s"
proof -
  have "market_inv (market_init rep tre tk)" using assms(2) by (simp add: market_inv_def market_init_def)
  then show ?thesis using custody.run_inv [OF assms(1)] by (simp add: list_all_iff)
qed

lemma buy_agent_iff:
  assumes "market_inv s" and "listings s n = Some seller" and "esdt_transfers c = []"
    and "ev (reputation_registry_address s) n (listing_earnings s n) (listing_apr s n) = Inr v"
  shows "(\<exists>t. buy_agent ev c n s = Inr t) \<longleftrightarrow> egld_value c = v"
  using assms by (auto simp: buy_agent_Inr market_inv_def)

text \<open>
  C30. A sale is exact and cannot be blocked. After any history of a market whose agent token
  is not EGLD, a listed agent can be bought by anybody who pays exactly the value the
  reputation registry answers, and by no other payment. The buyer gets the NFT, the seller the
  value less 5 percent rounded down, the treasury those 5 percent; the two parts add up to the
  payment, the EGLD of the market is unchanged, and the listing is gone. Receivers are taken
  to accept payments.
\<close>

theorem agent_sale_exact:
  assumes "run market_step (market_init rep tre tk) ls s" and "tk \<noteq> EGLD_TOKEN"
    and "listings s n = Some seller" and "esdt_transfers c = []"
    and "ev (reputation_registry_address s) n (listing_earnings s n) (listing_apr s n) = Inr v"
  shows "((\<exists>t. buy_agent ev c n s = Inr t) \<longleftrightarrow> egld_value c = v) \<and>
    (\<forall>t. buy_agent ev c n s = Inr t \<longrightarrow> egld_balance t = egld_balance s \<and> listings t = (listings s)(n := None) \<and>
       outbox t = outbox s @ SendEsdt (caller c) (agent_nft_token_id s) n 1 #
         send_pos seller (v - v * 5 div 100) @ send_pos (treasury_address s) (v * 5 div 100) \<and>
       (v - v * 5 div 100) + v * 5 div 100 = v)"
proof -
  have inv: "market_inv s" using assms(1,2) by (rule market_reachable)
  then have tk: "agent_nft_token_id s \<noteq> EGLD_TOKEN" "1 \<le> esdt_balance s (agent_nft_token_id s) n"
    using assms(3) by (auto simp: market_inv_def)
  show ?thesis
    using assms(3-5) tk five_percent_le [of v] buy_agent_iff [where ev = ev, OF inv assms(3-5)]
    by (auto simp: buy_agent_Inr sale_def clear_listing_def receive_def)
qed

definition flat_value :: valuation where
  "flat_value a n e p = Inr (e * 2)"

definition demo_listing :: "((valuation \<times> ctx) \<times> market_call) list" where
  "demo_listing = [((flat_value, call_ctx 7 0 [\<lparr>token_identifier = ''AGENT'', token_nonce = 1, amount = 1\<rparr>]),
     ListAgent 50 1500)]"

lemmas market_run = run_callsD [of market_exec market_step, OF market_step.intros]

lemma demo_listed:
  "\<exists>s. run market_step (market_init 3 4 ''AGENT'') demo_listing s \<and> listings s 1 = Some 7 \<and>
     listing_earnings s 1 = 50 \<and> listing_apr s 1 = 1500 \<and> reputation_registry_address s = 3"
proof -
  have "\<exists>s. run_calls market_exec (market_init 3 4 ''AGENT'') demo_listing = Inr s \<and> listings s 1 = Some 7 \<and>
     listing_earnings s 1 = 50 \<and> listing_apr s 1 = 1500 \<and> reputation_registry_address s = 3"
    by (simp add: demo_listing_def list_agent_def market_init_def receive_def single_payment_def
        single_optional_def)
  then show ?thesis using market_run by blast
qed

theorem agent_sale_exact_witness:
  "\<exists>s t. listings s 1 = Some 7 \<and> buy_agent flat_value (call_ctx 8 100 []) 1 s = Inr t \<and> listings t 1 = None"
proof -
  obtain s where s: "run market_step (market_init 3 4 ''AGENT'') demo_listing s" "listings s 1 = Some 7"
    "listing_earnings s 1 = 50" using demo_listed by blast
  have "''AGENT'' \<noteq> EGLD_TOKEN" by (simp add: EGLD_TOKEN_def)
  moreover have "flat_value (reputation_registry_address s) 1 (listing_earnings s 1) (listing_apr s 1) = Inr 100"
    by (simp add: flat_value_def s(3))
  ultimately have *: "((\<exists>t. buy_agent flat_value (call_ctx 8 100 []) 1 s = Inr t) \<longleftrightarrow> egld_value (call_ctx 8 100 []) = 100) \<and>
      (\<forall>t. buy_agent flat_value (call_ctx 8 100 []) 1 s = Inr t \<longrightarrow> listings t = (listings s)(1 := None))"
    using agent_sale_exact [OF s(1) _ s(2) call_ctx_sel(5)] by blast
  then obtain t where "buy_agent flat_value (call_ctx 8 100 []) 1 s = Inr t" by (auto simp del: not_None_eq)
  then show ?thesis using s(2) * by auto
qed

end
