(* ===== verification/Agent_Composition.thy ===== *)
theory Agent_Composition
  imports Identity_Properties Validation_Properties Reputation_Registry Agent_Marketplace
begin

text \<open>
  The agent contracts together: the market asks the reputation registry, which reads the jobs of
  the validation registry, which reads the agents of the identity registry.
\<close>

section \<open>The price of an agent\<close>

text \<open>
  The market's call of \<open>evaluateAgentFairValue\<close> through its proxy, answered by the reputation
  registry deployed at the stored address.
\<close>

definition registry_value :: "(address \<Rightarrow> reputation) \<Rightarrow> valuation" where
  "registry_value reps a agent_nonce earnings apr = evaluate_agent_fair_value agent_nonce earnings apr (reps a)"

lemma registry_value_scored:
  "0 < p \<Longrightarrow> reputation_score (reps a) n = y \<Longrightarrow> 0 < y \<Longrightarrow>
     registry_value reps a n e p = Inr (e * 12 * 10000 div unat p * y div 100)"
  by (simp add: registry_value_def evaluate_agent_fair_value_def)

text \<open>Any score that the average can reach at all is reached by one rating.\<close>

lemma rating_reaches:
  assumes "score * k \<le> y * Suc k"
  shows "(score * k + (y * Suc k - score * k)) div Suc k = (y :: nat)"
  using assms by (simp only: le_add_diff_inverse nonzero_mult_div_cancel_right nat.distinct simp_thms)

lemma init_free_job:
  assumes "job_data_of v j = None" and "egld_value c = 0" and "esdt_transfers c = []"
  shows "\<exists>v'. init_job ids c now j n None v = Inr v' \<and> (\<exists>job. job_data_of v' j = Some job \<and> j_employer job = caller c)"
  using assms by (simp add: init_job_def)

lemma give_feedback_simple_ok:
  assumes "job_data_of (vals (rr_validation_contract_address r)) j = Some job" and "j_employer job = caller c"
    and "\<not> has_given_feedback r j" and "egld_value c = 0" and "esdt_transfers c = []"
    and "unat (total_jobs r n) = k" and "Suc k < 2 ^ 64"
  shows "\<exists>r'. give_feedback_simple vals c j n x r = Inr r' \<and>
    reputation_score r' n = (reputation_score r n * k + x) div Suc k"
proof -
  have "unat (total_jobs r n + 1) = Suc k"
    using assms(6,7) by (simp add: unat_word_ariths)
  then show ?thesis
    using assms by (simp add: give_feedback_simple_def not_payable_def calculate_new_score_def Let_def
        big_sub_def reputation_event_defs)
qed

text \<open>
  Anybody sets the price of any agent. Let an agent be listed on the market, at any state of
  the registries. An arbitrary caller who pays nothing opens a job under an unused name, for
  whatever agent, and rates the listed agent with it: there is a rating after which the price is
  the one of score \<open>y\<close>, for every positive \<open>y\<close> that the average can reach (for an agent without
  ratings: for every positive \<open>y\<close>). The market then sells at exactly that price. The job was never
  worked on, and belongs to another agent.
\<close>

theorem agent_price_manipulated:
  assumes "run market_step (market_init ra tre tk) ls m" and "tk \<noteq> EGLD_TOKEN"
    and "listings m n = Some seller" and "0 < listing_apr m n"
    and "a = reputation_registry_address m" and "reps a = r" and "vals (rr_validation_contract_address r) = v"
    and "egld_value c = 0" and "esdt_transfers c = []" and "job_data_of v j = None" and "\<not> has_given_feedback r j"
    and "unat (total_jobs r n) = k" and "Suc k < 2 ^ 64" and "0 < y" and "reputation_score r n * k \<le> y * Suc k"
  shows "\<exists>rating v' r'. init_job ids c now j n' None v = Inr v' \<and>
     give_feedback_simple (vals(rr_validation_contract_address r := v')) c j n rating r = Inr r' \<and>
     (\<forall>b. esdt_transfers b = [] \<longrightarrow>
        ((\<exists>t. buy_agent (registry_value (reps(a := r'))) b n m = Inr t) \<longleftrightarrow>
           egld_value b = listing_earnings m n * 12 * 10000 div unat (listing_apr m n) * y div 100))"
proof -
  obtain v' job where v': "init_job ids c now j n' None v = Inr v'" "job_data_of v' j = Some job"
    "j_employer job = caller c" using init_free_job [OF assms(10,8,9)] by blast
  define rating where "rating = y * Suc k - reputation_score r n * k"
  let ?vals = "vals(rr_validation_contract_address r := v')"
  have "job_data_of (?vals (rr_validation_contract_address r)) j = Some job" using v'(2) by simp
  from give_feedback_simple_ok [where vals = ?vals and r = r and x = rating, OF this v'(3) assms(11,8,9,12,13)]
  obtain r' where r': "give_feedback_simple ?vals c j n rating r = Inr r'" "reputation_score r' n = y"
    using rating_reaches [OF assms(15)] by (auto simp: rating_def)
  let ?price = "listing_earnings m n * 12 * 10000 div unat (listing_apr m n) * y div 100"
  have "registry_value (reps(a := r')) (reputation_registry_address m) n (listing_earnings m n) (listing_apr m n) = Inr ?price"
    using registry_value_scored [OF assms(4)] r'(2) assms(5,14) by simp
  note buy = buy_agent_iff [where ev = "registry_value (reps(a := r'))", OF market_reachable [OF assms(1,2)] assms(3) _ this]
  then show ?thesis using v'(1) r'(1) by (intro exI [of _ rating] exI [of _ v'] exI [of _ r']) blast
qed

text \<open>An agent without ratings, worth 3200 at the default score of 80, is bought for 40.\<close>

definition demo_reps :: "address \<Rightarrow> reputation" where
  "demo_reps a = reputation_init 3 2"

definition empty_vals :: "address \<Rightarrow> validation" where
  "empty_vals a = validation_init 2"

theorem agent_price_manipulated_witness:
  "\<exists>m rating v' r'. listings m 1 = Some 7 \<and> registry_value demo_reps 3 1 50 1500 = Inr 3200 \<and>
     init_job demo_ids (call_ctx 66 0 []) 0 ''x'' 5 None (validation_init 2) = Inr v' \<and>
     give_feedback_simple (empty_vals(3 := v')) (call_ctx 66 0 []) ''x'' 1 rating (reputation_init 3 2) = Inr r' \<and>
     (\<exists>t. buy_agent (registry_value (demo_reps(3 := r'))) (call_ctx 8 40 []) 1 m = Inr t)"
proof -
  obtain m where m: "run market_step (market_init 3 4 ''AGENT'') demo_listing m" "listings m 1 = Some 7"
    "listing_earnings m 1 = 50" "listing_apr m 1 = 1500" "reputation_registry_address m = 3"
    using demo_listed by blast
  have tk: "''AGENT'' \<noteq> EGLD_TOKEN" by (simp add: EGLD_TOKEN_def)
  have h: "0 < listing_apr m 1" "(3 :: address) = reputation_registry_address m"
    "demo_reps 3 = reputation_init 3 2" "empty_vals (rr_validation_contract_address (reputation_init 3 2)) = validation_init 2"
    "job_data_of (validation_init 2) ''x'' = None" "\<not> has_given_feedback (reputation_init 3 2) ''x''"
    "unat (total_jobs (reputation_init 3 2) 1) = 0" "Suc 0 < 2 ^ 64" "0 < (1 :: nat)"
    "reputation_score (reputation_init 3 2) 1 * 0 \<le> 1 * Suc 0"
    using m by (simp_all add: demo_reps_def empty_vals_def validation_init_def reputation_init_def)
  have rv: "rr_validation_contract_address (reputation_init 3 2) = 3" by (simp add: reputation_init_def)
  from agent_price_manipulated [where reps = demo_reps and vals = empty_vals and c = "call_ctx 66 0 []" and
      ids = demo_ids and now = 0 and n' = 5, OF m(1) tk m(2) h(1-4) call_ctx_sel(4,5) h(5-10), unfolded rv]
  obtain rating v' r' where *: "init_job demo_ids (call_ctx 66 0 []) 0 ''x'' 5 None (validation_init 2) = Inr v'"
    "give_feedback_simple (empty_vals(3 := v')) (call_ctx 66 0 []) ''x'' 1 rating (reputation_init 3 2) = Inr r'"
    "\<forall>b. esdt_transfers b = [] \<longrightarrow> ((\<exists>t. buy_agent (registry_value (demo_reps(3 := r'))) b 1 m = Inr t) \<longleftrightarrow>
       egld_value b = listing_earnings m 1 * 12 * 10000 div unat (listing_apr m 1) * 1 div 100)" by blast
  from *(3) [rule_format, of "call_ctx 8 40 []"] have "\<exists>t. buy_agent (registry_value (demo_reps(3 := r'))) (call_ctx 8 40 []) 1 m = Inr t"
    by (simp add: m)
  moreover have "registry_value demo_reps 3 1 50 1500 = Inr 3200"
    by (simp add: registry_value_def evaluate_agent_fair_value_def demo_reps_def reputation_init_def)
  ultimately show ?thesis using m(2) *(1,2) by blast
qed

section \<open>The key of an agent\<close>

text \<open>
  A rotated key is ignored. After the owner of an agent has updated it with a new public key,
  the details that the validation registry reads are the old ones: for an open job of that agent,
  the holder of the old key can still submit proofs, and the holder of the new key cannot.
\<close>

theorem rotated_key_ignored:
  assumes "update_agent e c name uri (bytes32 new) md sv s = Inr t" and "esdt_transfers c = [p]"
    and "agent_details_of s (token_nonce p) = Some d" and "ad_public_key d = bytes32 old"
    and "new \<noteq> old" and "new \<noteq> caller c"
    and "ids (identity_registry_address v) = t" and "job_data_of v j = Some job"
    and "j_agent_nonce job = token_nonce p" and "j_status job = JobNew \<or> j_status job = JobPending"
    and "caller co = old" and "egld_value co = 0" and "esdt_transfers co = []" and "caller cn = new"
  shows "(\<exists>v'. submit_proof ids co j q v = Inr v' \<and> (\<exists>job'. job_data_of v' j = Some job' \<and> j_proof job' = q)) \<and>
    (\<forall>v'. submit_proof ids cn j q v \<noteq> Inr v')"
  using assms(1)
proof (cases rule: update_agent_Inr)
  case (1 p')
  then have p: "p' = p" using assms(2) by simp
  have t: "agent_details_of t (token_nonce p) = Some d" "value_of (agents t) (token_nonce p) = Some (caller c)"
    using 1 p assms(3) by simp_all
  have "\<exists>v'. submit_proof ids co j q v = Inr v' \<and> (\<exists>job'. job_data_of v' j = Some job' \<and> j_proof job' = q)"
    using t assms(4,7-13) by (simp add: submit_proof_def not_payable_def Let_def)
  moreover have "submit_proof ids cn j q v \<noteq> Inr v'" for v'
    using t assms(4-9,14) by (auto simp: submit_proof_def res_simps Let_def)
  ultimately show ?thesis by blast
qed

definition demo_agent :: identity where
  "demo_agent = (demo_ids 2)\<lparr>esdt_balance := (\<lambda>_ _. 0)\<rparr>"

theorem rotated_key_ignored_witness:
  "\<exists>t v'. update_agent store_env (call_ctx 7 0 [demo_nft]) ''bot'' ''uri'' (bytes32 21) None None demo_agent = Inr t \<and>
     submit_proof (\<lambda>_. t) (call_ctx 20 0 []) ''job'' ''proof'' (demo_vals 3) = Inr v' \<and>
     (\<forall>v'. submit_proof (\<lambda>_. t) (call_ctx 21 0 []) ''job'' ''proof'' (demo_vals 3) \<noteq> Inr v')"
proof -
  have "\<exists>t. update_agent store_env (call_ctx 7 0 [demo_nft]) ''bot'' ''uri'' (bytes32 21) None None demo_agent = Inr t"
    by (simp add: update_agent_def receive_def single_esdt_def demo_nft_def demo_agent_def demo_ids_def
        identity_init_def bidi_store_def bidi_empty_def direct_esdt_def identity_event_defs)
  then obtain t where t: "update_agent store_env (call_ctx 7 0 [demo_nft]) ''bot'' ''uri'' (bytes32 21) None None demo_agent = Inr t"
    by blast
  have h: "agent_details_of demo_agent (token_nonce demo_nft) = Some \<lparr>ad_name = ''bot'', ad_public_key = bytes32 20\<rparr>"
    "job_data_of (demo_vals 3) ''job'' = Some \<lparr>j_status = JobNew, j_proof = [],
     j_employer = 40, j_creation_timestamp = 0, j_agent_nonce = 1\<rparr>" "token_nonce demo_nft = 1"
    by (simp_all add: demo_agent_def demo_ids_def demo_nft_def demo_vals_def)
  show ?thesis
    using rotated_key_ignored [OF t call_ctx_sel(5) h(1), of 20 "\<lambda>_. t" "demo_vals 3" "''job''" _ "call_ctx 20 0 []" "call_ctx 21 0 []" "''proof''"]
      t h(2,3) by fastforce
qed

end
