(* ===== verification/Agent_Calls.thy ===== *)
theory Agent_Calls
  imports Reputation_Registry Agent_Shield
begin

text \<open>
  What the three registries and the shield look like from outside: a call is the name of an
  endpoint and a list of encoded arguments, and the contract decodes the arguments one after the
  other, in the order and with the types of the signature of the endpoint
  (contracts/xcron-agent-shield/*/src). Encoding and decoding of single values is code of the
  framework and a parameter, \<open>codec\<close>; what is relied on is that decoding undoes encoding.
  \<open>mx_codec\<close> is an instance.
\<close>

section \<open>Encoded values\<close>

record codec =
  enc_u8 :: "u8 \<Rightarrow> bytes"
  dec_u8 :: "bytes \<Rightarrow> u8 option"
  enc_u32 :: "u32 \<Rightarrow> bytes"
  dec_u32 :: "bytes \<Rightarrow> u32 option"
  enc_u64 :: "u64 \<Rightarrow> bytes"
  dec_u64 :: "bytes \<Rightarrow> u64 option"
  enc_i64 :: "i64 \<Rightarrow> bytes"
  dec_i64 :: "bytes \<Rightarrow> i64 option"
  enc_nat :: "nat \<Rightarrow> bytes"
  dec_nat :: "bytes \<Rightarrow> nat option"
  enc_address :: "address \<Rightarrow> bytes"
  dec_address :: "bytes \<Rightarrow> address option"
  enc_metadata :: "metadata_entry \<Rightarrow> bytes"
  dec_metadata :: "bytes \<Rightarrow> metadata_entry option"
  enc_service :: "service_config_input \<Rightarrow> bytes"
  dec_service :: "bytes \<Rightarrow> service_config_input option"

text \<open>
  The fields of a structure carry their length in four bytes, so that a buffer inside one is
  shorter than \<open>2 ^ 32\<close> bytes.
\<close>

definition short_bytes :: "bytes \<Rightarrow> bool" where
  "short_bytes b \<longleftrightarrow> length b < 2 ^ 32"

definition metadata_ok :: "metadata_entry \<Rightarrow> bool" where
  "metadata_ok m \<longleftrightarrow> short_bytes (me_key m) \<and> short_bytes (me_value m)"

definition service_ok :: "service_config_input \<Rightarrow> bool" where
  "service_ok v \<longleftrightarrow> short_bytes (to_bytes_be (sc_price v)) \<and> short_bytes (sc_token v)"

definition codec_documented :: "codec \<Rightarrow> bool" where
  "codec_documented cd \<longleftrightarrow>
     (\<forall>x. dec_u8 cd (enc_u8 cd x) = Some x) \<and> (\<forall>x. dec_u32 cd (enc_u32 cd x) = Some x) \<and>
     (\<forall>x. dec_u64 cd (enc_u64 cd x) = Some x) \<and> (\<forall>x. dec_i64 cd (enc_i64 cd x) = Some x) \<and>
     (\<forall>x. dec_nat cd (enc_nat cd x) = Some x) \<and> (\<forall>x. dec_address cd (enc_address cd x) = Some x) \<and>
     (\<forall>m. metadata_ok m \<longrightarrow> dec_metadata cd (enc_metadata cd m) = Some m) \<and>
     (\<forall>v. service_ok v \<longrightarrow> dec_service cd (enc_service cd v) = Some v)"

text \<open>
  A number that takes more than eight bytes is refused, and a structure that holds a name or an
  offer takes more than eight bytes: neither can be read as the length of a list.
\<close>

definition entries_are_no_counts :: "codec \<Rightarrow> bool" where
  "entries_are_no_counts cd \<longleftrightarrow>
     (\<forall>m. metadata_ok m \<longrightarrow> me_key m \<noteq> [] \<longrightarrow> dec_u32 cd (enc_metadata cd m) = None) \<and>
     (\<forall>v. service_ok v \<longrightarrow> dec_u32 cd (enc_service cd v) = None)"

lemma codec_simps:
  assumes "codec_documented cd"
  shows "dec_u8 cd (enc_u8 cd x) = Some x" and "dec_u32 cd (enc_u32 cd y) = Some y"
    and "dec_u64 cd (enc_u64 cd z) = Some z" and "dec_i64 cd (enc_i64 cd i) = Some i"
    and "dec_nat cd (enc_nat cd n) = Some n" and "dec_address cd (enc_address cd a) = Some a"
    and "metadata_ok m \<Longrightarrow> dec_metadata cd (enc_metadata cd m) = Some m"
    and "service_ok v \<Longrightarrow> dec_service cd (enc_service cd v) = Some v"
  using assms by (auto simp: codec_documented_def)

section \<open>Reading arguments\<close>

text \<open>
  A parameter takes the next argument; \<open>OptionalValue\<close> takes what is left when something is
  left; \<open>MultiValueEncoded\<close> takes everything that is left; \<open>MultiValueEncodedCounted\<close> takes a
  length and that many arguments. When the parameters have taken theirs, no argument may be left.
\<close>

definition arg_of :: "(bytes \<Rightarrow> 'a option) \<Rightarrow> bytes list \<Rightarrow> ('a \<Rightarrow> bytes list \<Rightarrow> 'b res) \<Rightarrow> 'b res" where
  "arg_of dec as k = (case as of
     [] \<Rightarrow> Inl (VmError ''too few arguments'')
   | a # as \<Rightarrow> (case dec a of None \<Rightarrow> Inl (VmError ''argument decode error'') | Some x \<Rightarrow> k x as))"

definition optional_arg ::
  "(bytes list \<Rightarrow> ('a \<Rightarrow> bytes list \<Rightarrow> 'b res) \<Rightarrow> 'b res) \<Rightarrow> bytes list \<Rightarrow>
     ('a option \<Rightarrow> bytes list \<Rightarrow> 'b res) \<Rightarrow> 'b res" where
  "optional_arg read as k = (if as = [] then k None [] else read as (\<lambda>x. k (Some x)))"

fun args_of ::
  "nat \<Rightarrow> (bytes \<Rightarrow> 'a option) \<Rightarrow> bytes list \<Rightarrow> ('a list \<Rightarrow> bytes list \<Rightarrow> 'b res) \<Rightarrow> 'b res" where
  "args_of 0 dec as k = k [] as"
| "args_of (Suc n) dec as k = arg_of dec as (\<lambda>x as. args_of n dec as (\<lambda>xs. k (x # xs)))"

definition multi_args ::
  "(bytes \<Rightarrow> 'a option) \<Rightarrow> bytes list \<Rightarrow> ('a list \<Rightarrow> bytes list \<Rightarrow> 'b res) \<Rightarrow> 'b res" where
  "multi_args dec as k = args_of (length as) dec as k"

definition counted_args ::
  "codec \<Rightarrow> (bytes \<Rightarrow> 'a option) \<Rightarrow> bytes list \<Rightarrow> ('a list \<Rightarrow> bytes list \<Rightarrow> 'b res) \<Rightarrow> 'b res" where
  "counted_args cd dec as k = arg_of (dec_u32 cd) as (\<lambda>n as. args_of (unat n) dec as k)"

definition no_more :: "bytes list \<Rightarrow> 'a \<Rightarrow> 'a res" where
  "no_more as x = vm_require (as = []) ''too many arguments'' (Inr x)"

lemma arg_of_Nil [simp]: "arg_of dec [] k = Inl (VmError ''too few arguments'')"
  by (simp add: arg_of_def)

lemma arg_of_Some [simp]: "dec a = Some x \<Longrightarrow> arg_of dec (a # as) k = k x as"
  by (simp add: arg_of_def)

lemma arg_of_None [simp]: "dec a = None \<Longrightarrow> arg_of dec (a # as) k = Inl (VmError ''argument decode error'')"
  by (simp add: arg_of_def)

lemma optional_arg_Nil [simp]: "optional_arg read [] k = k None []"
  by (simp add: optional_arg_def)

lemma optional_arg_Cons [simp]: "optional_arg read (a # as) k = read (a # as) (\<lambda>x. k (Some x))"
  by (simp add: optional_arg_def)

lemma args_of_encoded:
  assumes "\<And>x. x \<in> set xs \<Longrightarrow> dec (enc x) = Some x"
  shows "args_of (length xs) dec (map enc xs @ as) k = k xs as"
  using assms by (induction xs arbitrary: k) auto

lemma multi_args_encoded:
  assumes "\<And>x. x \<in> set xs \<Longrightarrow> dec (enc x) = Some x"
  shows "multi_args dec (map enc xs) k = k xs []"
  using args_of_encoded [OF assms, where as = "[]"] by (simp add: multi_args_def)

lemma multi_args_bytes [simp]: "multi_args Some as k = k as []"
  using multi_args_encoded [where dec = Some and enc = "\<lambda>x. x" and xs = as] by simp

text \<open>The encoding that a counted list asks for: its length first.\<close>

definition counted_list :: "codec \<Rightarrow> ('a \<Rightarrow> bytes) \<Rightarrow> 'a list \<Rightarrow> bytes list" where
  "counted_list cd enc xs = enc_u32 cd (of_nat (length xs)) # map enc xs"

lemma counted_args_encoded:
  assumes "codec_documented cd" and "length xs < 2 ^ 32" and "\<And>x. x \<in> set xs \<Longrightarrow> dec (enc x) = Some x"
  shows "counted_args cd dec (counted_list cd enc xs @ as) k = k xs as"
proof -
  have "unat (of_nat (length xs) :: u32) = length xs"
    using assms(2) by (simp add: unat_of_nat take_bit_nat_eq_self)
  then show ?thesis
    using args_of_encoded [OF assms(3)] by (simp add: counted_args_def counted_list_def codec_simps [OF assms(1)])
qed

lemma no_more_Nil [simp]: "no_more [] x = Inr x"
  by (simp add: no_more_def)

lemma no_more_Cons [simp]: "no_more (a # as) x = Inl (VmError ''too many arguments'')"
  by (simp add: no_more_def)

section \<open>The identity registry from outside\<close>

datatype identity_msg =
    IssueToken bytes bytes
  | IdCall identity_call
  | GetAgentTokenId
  | GetAgentId
  | GetAgentDetails u64
  | GetAgentMetadata u64
  | GetAgentService u64
  | GetAgent u64
  | GetAgentOwner u64
  | GetMetadata u64 bytes
  | GetAgentServiceConfig u64 u32

definition identity_endpoint :: "codec \<Rightarrow> bytes \<Rightarrow> bytes list \<Rightarrow> identity_msg res" where
  "identity_endpoint cd f as =
     (if f = ''issue_token'' then
        arg_of Some as (\<lambda>token_display_name as. arg_of Some as (\<lambda>token_ticker as.
        no_more as (IssueToken token_display_name token_ticker)))
      else if f = ''register_agent'' then
        arg_of Some as (\<lambda>name as. arg_of Some as (\<lambda>uri as. arg_of Some as (\<lambda>public_key as.
        counted_args cd (dec_metadata cd) as (\<lambda>metadata as.
        counted_args cd (dec_service cd) as (\<lambda>services as.
        no_more as (IdCall (RegisterAgent name uri public_key metadata services)))))))
      else if f = ''update_agent'' then
        arg_of Some as (\<lambda>new_name as. arg_of Some as (\<lambda>new_uri as. arg_of Some as (\<lambda>new_public_key as.
        optional_arg (counted_args cd (dec_metadata cd)) as (\<lambda>metadata as.
        optional_arg (counted_args cd (dec_service cd)) as (\<lambda>services as.
        no_more as (IdCall (UpdateAgent new_name new_uri new_public_key metadata services)))))))
      else if f = ''sync_ownership'' then no_more as (IdCall SyncOwnership)
      else if f = ''set_metadata'' then
        arg_of (dec_u64 cd) as (\<lambda>nonce as. counted_args cd (dec_metadata cd) as (\<lambda>entries as.
        no_more as (IdCall (SetMetadata nonce entries))))
      else if f = ''set_service_configs'' then
        arg_of (dec_u64 cd) as (\<lambda>nonce as. counted_args cd (dec_service cd) as (\<lambda>configs as.
        no_more as (IdCall (SetServiceConfigs nonce configs))))
      else if f = ''remove_metadata'' then
        arg_of (dec_u64 cd) as (\<lambda>nonce as. multi_args Some as (\<lambda>keys as.
        no_more as (IdCall (RemoveMetadata nonce keys))))
      else if f = ''remove_service_configs'' then
        arg_of (dec_u64 cd) as (\<lambda>nonce as. multi_args (dec_u32 cd) as (\<lambda>service_ids as.
        no_more as (IdCall (RemoveServiceConfigs nonce service_ids))))
      else if f = ''get_agent_token_id'' then no_more as GetAgentTokenId
      else if f = ''get_agent_id'' then no_more as GetAgentId
      else if f = ''get_agent_details'' then
        arg_of (dec_u64 cd) as (\<lambda>nonce as. no_more as (GetAgentDetails nonce))
      else if f = ''get_agent_metadata'' then
        arg_of (dec_u64 cd) as (\<lambda>nonce as. no_more as (GetAgentMetadata nonce))
      else if f = ''get_agent_service'' then
        arg_of (dec_u64 cd) as (\<lambda>nonce as. no_more as (GetAgentService nonce))
      else if f = ''get_agent'' then arg_of (dec_u64 cd) as (\<lambda>nonce as. no_more as (GetAgent nonce))
      else if f = ''get_agent_owner'' then
        arg_of (dec_u64 cd) as (\<lambda>nonce as. no_more as (GetAgentOwner nonce))
      else if f = ''get_metadata'' then
        arg_of (dec_u64 cd) as (\<lambda>nonce as. arg_of Some as (\<lambda>key as. no_more as (GetMetadata nonce key)))
      else if f = ''get_agent_service_config'' then
        arg_of (dec_u64 cd) as (\<lambda>nonce as. arg_of (dec_u32 cd) as (\<lambda>service_id as.
        no_more as (GetAgentServiceConfig nonce service_id)))
      else Inl (VmError ''invalid function (not found)''))"

text \<open>What a decoded message does and what it answers.\<close>

datatype identity_reply =
    NoIdReply
  | TokenReply "token option"
  | AgentsReply bidi
  | DetailsReply agent_details
  | MetadataReply "bytes \<rightharpoonup> bytes"
  | ServicesReply "u32 \<rightharpoonup> esdt_payment"
  | OwnerReply address
  | EntryReply "bytes option"
  | OfferReply "esdt_payment option"

fun identity_serve ::
  "identity_env \<Rightarrow> ctx \<Rightarrow> identity_msg \<Rightarrow> identity \<Rightarrow> (identity_reply \<times> identity) res" where
  "identity_serve e c (IssueToken n t) s = bind_res (issue_token e c n t s) (\<lambda>s. Inr (NoIdReply, s))"
| "identity_serve e c (IdCall l) s = bind_res (identity_exec e c l s) (\<lambda>s. Inr (NoIdReply, s))"
| "identity_serve e c GetAgentTokenId s = not_payable c (Inr (TokenReply (agent_token_id s), s))"
| "identity_serve e c GetAgentId s = not_payable c (Inr (AgentsReply (agents s), s))"
| "identity_serve e c (GetAgentDetails n) s = not_payable c (
     bind_res (get_slot (agent_details_of s n)) (\<lambda>d. Inr (DetailsReply d, s)))"
| "identity_serve e c (GetAgentMetadata n) s = not_payable c (Inr (MetadataReply (agent_metadata s n), s))"
| "identity_serve e c (GetAgentService n) s = not_payable c (Inr (ServicesReply (agent_service_config s n), s))"
| "identity_serve e c (GetAgent n) s = not_payable c (
     bind_res (get_agent n s) (\<lambda>d. Inr (DetailsReply d, s)))"
| "identity_serve e c (GetAgentOwner n) s = not_payable c (
     bind_res (get_agent_owner n s) (\<lambda>a. Inr (OwnerReply a, s)))"
| "identity_serve e c (GetMetadata n k) s = not_payable c (Inr (EntryReply (get_metadata n k s), s))"
| "identity_serve e c (GetAgentServiceConfig n i) s = not_payable c (
     Inr (OfferReply (get_agent_service_config n i s), s))"

section \<open>The validation registry from outside\<close>

text \<open>
  Two endpoints read the clock in milliseconds, and the response carries an URI that the contract
  does not keep, so that these three messages are not the calls of the model but what travels.
\<close>

datatype validation_msg =
    VInitJob bytes u64 "u32 option"
  | VRespond bytes u8 bytes bytes bytes
  | VCleanOldJobs "bytes list"
  | VaCall validation_call
  | IsJobVerified bytes
  | GetJobData bytes
  | GetValidationStatus bytes
  | GetAgentValidations u64

definition validation_endpoint :: "codec \<Rightarrow> bytes \<Rightarrow> bytes list \<Rightarrow> validation_msg res" where
  "validation_endpoint cd f as =
     (if f = ''init_job'' then
        arg_of Some as (\<lambda>job_id as. arg_of (dec_u64 cd) as (\<lambda>agent_nonce as.
        optional_arg (arg_of (dec_u32 cd)) as (\<lambda>service_id as.
        no_more as (VInitJob job_id agent_nonce service_id))))
      else if f = ''submit_proof'' then
        arg_of Some as (\<lambda>job_id as. arg_of Some as (\<lambda>pr as. no_more as (VaCall (SubmitProof job_id pr))))
      else if f = ''submit_proof_with_nft'' then
        arg_of Some as (\<lambda>job_id as. arg_of Some as (\<lambda>pr as.
        no_more as (VaCall (SubmitProofWithNft job_id pr))))
      else if f = ''validation_request'' then
        arg_of Some as (\<lambda>job_id as. arg_of (dec_address cd) as (\<lambda>validator_address as.
        arg_of Some as (\<lambda>request_uri as. arg_of Some as (\<lambda>request_hash as.
        no_more as (VaCall (ValidationRequest job_id validator_address request_uri request_hash))))))
      else if f = ''validation_response'' then
        arg_of Some as (\<lambda>request_hash as. arg_of (dec_u8 cd) as (\<lambda>response as.
        arg_of Some as (\<lambda>response_uri as. arg_of Some as (\<lambda>response_hash as. arg_of Some as (\<lambda>tag as.
        no_more as (VRespond request_hash response response_uri response_hash tag))))))
      else if f = ''clean_old_jobs'' then
        multi_args Some as (\<lambda>job_ids as. no_more as (VCleanOldJobs job_ids))
      else if f = ''set_identity_registry_address'' then
        arg_of (dec_address cd) as (\<lambda>a as. no_more as (VaCall (SetIdentityRegistryAddress a)))
      else if f = ''addWhitelistedValidator'' then
        arg_of (dec_address cd) as (\<lambda>a as. no_more as (VaCall (AddWhitelistedValidator a)))
      else if f = ''removeWhitelistedValidator'' then
        arg_of (dec_address cd) as (\<lambda>a as. no_more as (VaCall (RemoveWhitelistedValidator a)))
      else if f = ''is_job_verified'' then arg_of Some as (\<lambda>job_id as. no_more as (IsJobVerified job_id))
      else if f = ''get_job_data'' then arg_of Some as (\<lambda>job_id as. no_more as (GetJobData job_id))
      else if f = ''get_validation_status'' then
        arg_of Some as (\<lambda>request_hash as. no_more as (GetValidationStatus request_hash))
      else if f = ''get_agent_validations'' then
        arg_of (dec_u64 cd) as (\<lambda>agent_nonce as. no_more as (GetAgentValidations agent_nonce))
      else Inl (VmError ''invalid function (not found)''))"

definition validation_constructor :: "codec \<Rightarrow> bytes list \<Rightarrow> validation res" where
  "validation_constructor cd as = arg_of (dec_address cd) as (\<lambda>identity_registry as.
     no_more as (validation_init identity_registry))"

datatype validation_reply =
    NoVaReply
  | VerifiedReply bool
  | JobReply "job_data option"
  | StatusReply "validation_request_data option"
  | HashesReply "bytes list"

fun validation_serve ::
  "(address \<Rightarrow> identity) \<Rightarrow> u64 \<times> ctx \<Rightarrow> validation_msg \<Rightarrow> validation \<Rightarrow> (validation_reply \<times> validation) res" where
  "validation_serve ids (now, c) (VInitJob j n sid) s =
     bind_res (init_job ids c now j n sid s) (\<lambda>s. Inr (NoVaReply, s))"
| "validation_serve ids (now, c) (VRespond h r uri rh tg) s =
     bind_res (validation_response c h r rh tg s) (\<lambda>s. Inr (NoVaReply, s))"
| "validation_serve ids (now, c) (VCleanOldJobs js) s =
     bind_res (clean_old_jobs c now js s) (\<lambda>s. Inr (NoVaReply, s))"
| "validation_serve ids (now, c) (VaCall l) s = bind_res (validation_exec ids c l s) (\<lambda>s. Inr (NoVaReply, s))"
| "validation_serve ids (now, c) (IsJobVerified j) s = not_payable c (Inr (VerifiedReply (is_job_verified j s), s))"
| "validation_serve ids (now, c) (GetJobData j) s = not_payable c (Inr (JobReply (get_job_data j s), s))"
| "validation_serve ids (now, c) (GetValidationStatus h) s = not_payable c (
     Inr (StatusReply (get_validation_status h s), s))"
| "validation_serve ids (now, c) (GetAgentValidations n) s = not_payable c (
     Inr (HashesReply (get_agent_validations n s), s))"

section \<open>The reputation registry from outside\<close>

datatype reputation_msg =
    RpCall reputation_call
  | ReadFeedback u64 address u64
  | EvaluateAgentFairValue u64 nat u32
  | GetReputationScore u64
  | GetTotalJobs u64
  | GetRpValidationAddress
  | GetRpIdentityAddress
  | HasGivenFeedback bytes
  | GetAgentResponse bytes
  | GetLastIndex u64 address
  | GetClients u64

definition reputation_endpoint :: "codec \<Rightarrow> bytes \<Rightarrow> bytes list \<Rightarrow> reputation_msg res" where
  "reputation_endpoint cd f as =
     (if f = ''giveFeedbackSimple'' then
        arg_of Some as (\<lambda>job_id as. arg_of (dec_u64 cd) as (\<lambda>agent_nonce as.
        arg_of (dec_nat cd) as (\<lambda>rating as. no_more as (RpCall (GiveFeedbackSimple job_id agent_nonce rating)))))
      else if f = ''giveFeedback'' then
        arg_of (dec_u64 cd) as (\<lambda>agent_nonce as. arg_of (dec_i64 cd) as (\<lambda>v as.
        arg_of (dec_u8 cd) as (\<lambda>value_decimals as. arg_of Some as (\<lambda>tag1 as. arg_of Some as (\<lambda>tag2 as.
        arg_of Some as (\<lambda>ep as. arg_of Some as (\<lambda>feedback_uri as. arg_of Some as (\<lambda>feedback_hash as.
        no_more as (RpCall (GiveFeedback agent_nonce v value_decimals tag1 tag2 ep feedback_uri
          feedback_hash))))))))))
      else if f = ''revokeFeedback'' then
        arg_of (dec_u64 cd) as (\<lambda>agent_nonce as. arg_of (dec_u64 cd) as (\<lambda>feedback_index as.
        no_more as (RpCall (RevokeFeedback agent_nonce feedback_index))))
      else if f = ''append_response'' then
        arg_of Some as (\<lambda>job_id as. arg_of Some as (\<lambda>response_uri as.
        no_more as (RpCall (AppendResponse job_id response_uri))))
      else if f = ''set_identity_contract_address'' then
        arg_of (dec_address cd) as (\<lambda>a as. no_more as (RpCall (SetIdentityContractAddress a)))
      else if f = ''set_validation_contract_address'' then
        arg_of (dec_address cd) as (\<lambda>a as. no_more as (RpCall (SetValidationContractAddress a)))
      else if f = ''readFeedback'' then
        arg_of (dec_u64 cd) as (\<lambda>agent_nonce as. arg_of (dec_address cd) as (\<lambda>client as.
        arg_of (dec_u64 cd) as (\<lambda>feedback_index as. no_more as (ReadFeedback agent_nonce client feedback_index))))
      else if f = ''evaluateAgentFairValue'' then
        arg_of (dec_u64 cd) as (\<lambda>agent_nonce as. arg_of (dec_nat cd) as (\<lambda>earnings as.
        arg_of (dec_u32 cd) as (\<lambda>apr as. no_more as (EvaluateAgentFairValue agent_nonce earnings apr))))
      else if f = ''get_reputation_score'' then
        arg_of (dec_u64 cd) as (\<lambda>agent_nonce as. no_more as (GetReputationScore agent_nonce))
      else if f = ''get_total_jobs'' then
        arg_of (dec_u64 cd) as (\<lambda>agent_nonce as. no_more as (GetTotalJobs agent_nonce))
      else if f = ''get_validation_contract_address'' then no_more as GetRpValidationAddress
      else if f = ''get_identity_contract_address'' then no_more as GetRpIdentityAddress
      else if f = ''has_given_feedback'' then arg_of Some as (\<lambda>job_id as. no_more as (HasGivenFeedback job_id))
      else if f = ''get_agent_response'' then arg_of Some as (\<lambda>job_id as. no_more as (GetAgentResponse job_id))
      else if f = ''getLastIndex'' then
        arg_of (dec_u64 cd) as (\<lambda>agent_nonce as. arg_of (dec_address cd) as (\<lambda>client as.
        no_more as (GetLastIndex agent_nonce client)))
      else if f = ''getClients'' then arg_of (dec_u64 cd) as (\<lambda>agent_nonce as. no_more as (GetClients agent_nonce))
      else Inl (VmError ''invalid function (not found)''))"

definition reputation_constructor :: "codec \<Rightarrow> bytes list \<Rightarrow> reputation res" where
  "reputation_constructor cd as = arg_of (dec_address cd) as (\<lambda>validation_contract as.
     arg_of (dec_address cd) as (\<lambda>identity_contract as.
     no_more as (reputation_init validation_contract identity_contract)))"

datatype reputation_reply =
    NoRpReply
  | FeedbackReply feedback_data
  | NumberReply nat
  | CountReply u64
  | AddressReply address
  | FlagReply bool
  | TextReply bytes
  | ClientsReply "address list"

fun reputation_serve ::
  "registries \<times> ctx \<Rightarrow> reputation_msg \<Rightarrow> reputation \<Rightarrow> (reputation_reply \<times> reputation) res" where
  "reputation_serve gc (RpCall l) s = bind_res (reputation_exec gc l s) (\<lambda>s. Inr (NoRpReply, s))"
| "reputation_serve gc (ReadFeedback n a i) s = not_payable (snd gc) (
     bind_res (read_feedback n a i s) (\<lambda>d. Inr (FeedbackReply d, s)))"
| "reputation_serve gc (EvaluateAgentFairValue n x p) s = not_payable (snd gc) (
     bind_res (evaluate_agent_fair_value n x p s) (\<lambda>v. Inr (NumberReply v, s)))"
| "reputation_serve gc (GetReputationScore n) s = not_payable (snd gc) (Inr (NumberReply (reputation_score s n), s))"
| "reputation_serve gc (GetTotalJobs n) s = not_payable (snd gc) (Inr (CountReply (total_jobs s n), s))"
| "reputation_serve gc GetRpValidationAddress s = not_payable (snd gc) (
     Inr (AddressReply (rr_validation_contract_address s), s))"
| "reputation_serve gc GetRpIdentityAddress s = not_payable (snd gc) (
     Inr (AddressReply (rr_identity_contract_address s), s))"
| "reputation_serve gc (HasGivenFeedback j) s = not_payable (snd gc) (Inr (FlagReply (has_given_feedback s j), s))"
| "reputation_serve gc (GetAgentResponse j) s = not_payable (snd gc) (Inr (TextReply (agent_response s j), s))"
| "reputation_serve gc (GetLastIndex n a) s = not_payable (snd gc) (Inr (CountReply (last_feedback_index s n a), s))"
| "reputation_serve gc (GetClients n) s = not_payable (snd gc) (Inr (ClientsReply (feedback_clients s n), s))"

section \<open>The shield from outside\<close>

datatype shield_msg =
    ShCall shield_call
  | GetAuthorizedAgent
  | IsPaused
  | GetShieldDailyLimit token
  | GetDailySpent token u64
  | GetEscrow bytes
  | GetShValidationAddress
  | GetShIdentityAddress

definition shield_endpoint :: "codec \<Rightarrow> bytes \<Rightarrow> bytes list \<Rightarrow> shield_msg res" where
  "shield_endpoint cd f as =
     (if f = ''setShieldLimit'' then
        arg_of Some as (\<lambda>tk as. arg_of (dec_nat cd) as (\<lambda>x as. no_more as (ShCall (SetShieldLimit tk x))))
      else if f = ''pauseShield'' then no_more as (ShCall PauseShield)
      else if f = ''unpauseShield'' then no_more as (ShCall UnpauseShield)
      else if f = ''fundTreasury'' then no_more as (ShCall FundTreasury)
      else if f = ''agentProposeExecution'' then
        arg_of (dec_address cd) as (\<lambda>target_contract as. arg_of Some as (\<lambda>tk as.
        arg_of (dec_nat cd) as (\<lambda>x as. arg_of Some as (\<lambda>func_name as. multi_args Some as (\<lambda>ps as.
        no_more as (ShCall (AgentProposeExecution target_contract tk x func_name ps)))))))
      else if f = ''emergencyWithdraw'' then
        arg_of Some as (\<lambda>tk as. arg_of (dec_nat cd) as (\<lambda>x as. no_more as (ShCall (EmergencyWithdraw tk x))))
      else if f = ''getAuthorizedAgent'' then no_more as GetAuthorizedAgent
      else if f = ''isPaused'' then no_more as IsPaused
      else if f = ''getShieldDailyLimit'' then arg_of Some as (\<lambda>tk as. no_more as (GetShieldDailyLimit tk))
      else if f = ''getDailySpent'' then
        arg_of Some as (\<lambda>tk as. arg_of (dec_u64 cd) as (\<lambda>day as. no_more as (GetDailySpent tk day)))
      else if f = ''get_escrow'' then arg_of Some as (\<lambda>job_id as. no_more as (GetEscrow job_id))
      else if f = ''get_validation_contract_address'' then no_more as GetShValidationAddress
      else if f = ''get_identity_contract_address'' then no_more as GetShIdentityAddress
      else Inl (VmError ''invalid function (not found)''))"

definition shield_constructor :: "codec \<Rightarrow> bytes list \<Rightarrow> shield res" where
  "shield_constructor cd as = arg_of (dec_address cd) as (\<lambda>validation_contract as.
     arg_of (dec_address cd) as (\<lambda>identity_contract as. arg_of (dec_address cd) as (\<lambda>agent_role as.
     no_more as (shield_init validation_contract identity_contract agent_role))))"

end
