(* ===== verification/Agent_Codec.thy ===== *)
theory Agent_Codec
  imports Agent_Calls
begin

text \<open>
  A codec with the documented behaviour, at the level of bytes: a number is its shortest
  big-endian form (signed numbers go as their bit pattern here), an address its 32 bytes, and the fields of a
  structure follow each other, buffers behind four bytes of length and integers at full width. It
  shows that the hypotheses about the codec can be met, the refusal of structures as lengths
  included.
\<close>

definition mx_enc_word :: "'a::len word \<Rightarrow> bytes" where
  "mx_enc_word w = to_bytes_be (unat w)"

definition mx_dec_word :: "bytes \<Rightarrow> 'a::len word option" where
  "mx_dec_word b = (if length b \<le> 8 \<and> from_bytes_be b < 2 ^ LENGTH('a)
     then Some (word_of_nat (from_bytes_be b)) else None)"

definition mx_dec_address :: "bytes \<Rightarrow> address option" where
  "mx_dec_address b = (if length b = 32 then Some (word_of_nat (from_bytes_be b)) else None)"

definition mx_nested :: "bytes \<Rightarrow> bytes" where
  "mx_nested b = be_bytes 4 (length b) @ b"

definition mx_take :: "nat \<Rightarrow> bytes \<Rightarrow> (bytes \<times> bytes) option" where
  "mx_take n b = (if length b < n then None else Some (take n b, drop n b))"

definition mx_take_nested :: "bytes \<Rightarrow> (bytes \<times> bytes) option" where
  "mx_take_nested b = Option.bind (mx_take 4 b) (\<lambda>(n, r). mx_take (from_bytes_be n) r)"

definition mx_enc_metadata :: "metadata_entry \<Rightarrow> bytes" where
  "mx_enc_metadata m = mx_nested (me_key m) @ mx_nested (me_value m)"

definition mx_dec_metadata :: "bytes \<Rightarrow> metadata_entry option" where
  "mx_dec_metadata b = Option.bind (mx_take_nested b) (\<lambda>(k, b). Option.bind (mx_take_nested b) (\<lambda>(v, b).
     if b = [] then Some \<lparr>me_key = k, me_value = v\<rparr> else None))"

definition mx_enc_service :: "service_config_input \<Rightarrow> bytes" where
  "mx_enc_service v = be_bytes 4 (unat (sc_service_id v)) @ mx_nested (to_bytes_be (sc_price v)) @
     mx_nested (sc_token v) @ be_bytes 8 (unat (sc_nonce v))"

definition mx_dec_service :: "bytes \<Rightarrow> service_config_input option" where
  "mx_dec_service b = Option.bind (mx_take 4 b) (\<lambda>(i, b). Option.bind (mx_take_nested b) (\<lambda>(p, b).
     Option.bind (mx_take_nested b) (\<lambda>(t, b). Option.bind (mx_take 8 b) (\<lambda>(n, b).
     if b = [] then Some \<lparr>sc_service_id = word_of_nat (from_bytes_be i), sc_price = from_bytes_be p,
       sc_token = t, sc_nonce = word_of_nat (from_bytes_be n)\<rparr> else None))))"

definition mx_codec :: codec where
  "mx_codec = \<lparr>enc_u8 = mx_enc_word, dec_u8 = mx_dec_word, enc_u32 = mx_enc_word, dec_u32 = mx_dec_word,
     enc_u64 = mx_enc_word, dec_u64 = mx_dec_word, enc_i64 = mx_enc_word, dec_i64 = mx_dec_word,
     enc_nat = to_bytes_be, dec_nat = (\<lambda>b. Some (from_bytes_be b)), enc_address = bytes32,
     dec_address = mx_dec_address, enc_metadata = mx_enc_metadata, dec_metadata = mx_dec_metadata,
     enc_service = mx_enc_service, dec_service = mx_dec_service\<rparr>"

section \<open>Decoding undoes encoding\<close>

lemma length_to_bytes_be: "x < 256 ^ n \<Longrightarrow> length (to_bytes_be x) \<le> n"
proof (induction n arbitrary: x)
  case 0
  then show ?case by (simp add: to_bytes_be.simps [of 0])
next
  case (Suc n)
  then have "x div 256 < 256 ^ n" by (simp add: less_mult_imp_div_less mult.commute)
  then show ?case using Suc.IH [of "x div 256"] by (simp add: to_bytes_be.simps [of x])
qed

lemma mx_word:
  assumes "LENGTH('a) \<le> 64"
  shows "mx_dec_word (mx_enc_word (w :: 'a::len word)) = Some w"
proof -
  have "unat w < 2 ^ LENGTH('a)" by (rule unsigned_less)
  moreover have "(2::nat) ^ LENGTH('a) \<le> 256 ^ 8"
    using power_increasing [OF assms, of "2::nat"] by simp
  ultimately have "length (to_bytes_be (unat w)) \<le> 8"
    by (intro length_to_bytes_be) (rule order.strict_trans2)
  then show ?thesis by (simp add: mx_dec_word_def mx_enc_word_def from_bytes_be_to_bytes_be)
qed

lemma word_be_bytes:
  assumes "8 * n = LENGTH('a)"
  shows "word_of_nat (from_bytes_be (be_bytes n (unat (w :: 'a::len word)))) = w"
proof -
  have "(256::nat) ^ n = 2 ^ LENGTH('a)" by (simp flip: assms add: power_mult)
  then have "unat w < 256 ^ n" using unsigned_less [of w] by simp
  then show ?thesis by (simp add: from_bytes_be_be_bytes)
qed

lemma mx_take_append [simp]: "length a = n \<Longrightarrow> mx_take n (a @ b) = Some (a, b)"
  by (simp add: mx_take_def)

lemma mx_take_all [simp]: "length a = n \<Longrightarrow> mx_take n a = Some (a, [])"
  by (simp add: mx_take_def)

lemma mx_take_nested_append [simp]:
  assumes "short_bytes a"
  shows "mx_take_nested (mx_nested a @ b) = Some (a, b)"
  using assms by (simp add: mx_take_nested_def mx_nested_def from_bytes_be_be_bytes short_bytes_def)

lemma mx_metadata: "metadata_ok m \<Longrightarrow> mx_dec_metadata (mx_enc_metadata m) = Some m"
  using mx_take_nested_append [of "me_value m" "[]"]
  by (simp add: mx_dec_metadata_def mx_enc_metadata_def metadata_ok_def)

lemma mx_service: "service_ok v \<Longrightarrow> mx_dec_service (mx_enc_service v) = Some v"
  by (simp add: mx_dec_service_def mx_enc_service_def service_ok_def from_bytes_be_to_bytes_be
    word_be_bytes)

lemma mx_codec_documented: "codec_documented mx_codec"
  by (auto simp: codec_documented_def mx_codec_def mx_word mx_metadata mx_service
    from_bytes_be_to_bytes_be mx_dec_address_def bytes32_def word_be_bytes)

lemma mx_entries_are_no_counts: "entries_are_no_counts mx_codec"
  by (auto simp: entries_are_no_counts_def mx_codec_def mx_dec_word_def mx_enc_metadata_def
    mx_enc_service_def mx_nested_def)

end
