(* ===== verification/Agent_Proxies.thy ===== *)
theory Agent_Proxies
  imports Agent_Codec
begin

text \<open>
  The proxies through which other programs call the contracts of the agent shield
  (contracts/xcron-agent-shield/proxies/src; the interactor of each registry has the same file
  again). A method of a proxy fixes the name of an endpoint, the encoding of its arguments and
  whether a payment may be attached. What the calls do when they arrive is in Proxy_Properties.
\<close>

section \<open>Calls\<close>

record proxy_call =
  pc_function :: bytes
  pc_args :: "bytes list"
  pc_not_payable :: bool

definition not_payable_call :: "bytes \<Rightarrow> bytes list \<Rightarrow> proxy_call" where
  "not_payable_call f as = \<lparr>pc_function = f, pc_args = as, pc_not_payable = True\<rparr>"

definition open_call :: "bytes \<Rightarrow> bytes list \<Rightarrow> proxy_call" where
  "open_call f as = \<lparr>pc_function = f, pc_args = as, pc_not_payable = False\<rparr>"

text \<open>An optional argument is sent when it is there; a list goes element by element.\<close>

definition optional_encoded :: "('a \<Rightarrow> bytes list) \<Rightarrow> 'a option \<Rightarrow> bytes list" where
  "optional_encoded enc x = (case x of None \<Rightarrow> [] | Some y \<Rightarrow> enc y)"

section \<open>Identity registry (identity\_registry\_proxy.rs)\<close>

definition idp_init :: proxy_call where
  "idp_init = not_payable_call ''init'' []"

definition idp_upgrade :: proxy_call where
  "idp_upgrade = not_payable_call ''upgrade'' []"

definition idp_issue_token :: "bytes \<Rightarrow> bytes \<Rightarrow> proxy_call" where
  "idp_issue_token token_display_name token_ticker =
     open_call ''issue_token'' [token_display_name, token_ticker]"

definition idp_register_agent ::
  "codec \<Rightarrow> bytes \<Rightarrow> bytes \<Rightarrow> bytes \<Rightarrow> metadata_entry list
     \<Rightarrow> service_config_input list \<Rightarrow> proxy_call" where
  "idp_register_agent cd name uri public_key metadata services =
     not_payable_call ''register_agent'' ([name, uri, public_key] @ map (enc_metadata cd) metadata @
       map (enc_service cd) services)"

definition idp_update_agent ::
  "codec \<Rightarrow> bytes \<Rightarrow> bytes \<Rightarrow> bytes \<Rightarrow> metadata_entry list
     option \<Rightarrow> service_config_input list option \<Rightarrow> proxy_call" where
  "idp_update_agent cd new_name new_uri new_public_key metadata services =
     open_call ''update_agent'' ([new_name, new_uri, new_public_key] @
       optional_encoded (map (enc_metadata cd)) metadata @ optional_encoded (map (enc_service cd)) services)"

definition idp_set_metadata ::
  "codec \<Rightarrow> u64 \<Rightarrow> metadata_entry list \<Rightarrow> proxy_call" where
  "idp_set_metadata cd nonce entries =
     not_payable_call ''set_metadata'' ([enc_u64 cd nonce] @ map (enc_metadata cd) entries)"

definition idp_set_service_configs_endpoint ::
  "codec \<Rightarrow> u64 \<Rightarrow> service_config_input list \<Rightarrow> proxy_call" where
  "idp_set_service_configs_endpoint cd nonce configs =
     not_payable_call ''set_service_configs'' ([enc_u64 cd nonce] @ map (enc_service cd) configs)"

definition idp_remove_metadata ::
  "codec \<Rightarrow> u64 \<Rightarrow> bytes list \<Rightarrow> proxy_call" where
  "idp_remove_metadata cd nonce keys = not_payable_call ''remove_metadata'' ([enc_u64 cd nonce] @ keys)"

definition idp_remove_service_configs ::
  "codec \<Rightarrow> u64 \<Rightarrow> u32 list \<Rightarrow> proxy_call" where
  "idp_remove_service_configs cd nonce service_ids =
     not_payable_call ''remove_service_configs'' ([enc_u64 cd nonce] @ map (enc_u32 cd) service_ids)"

definition idp_agent_token_id :: proxy_call where
  "idp_agent_token_id = not_payable_call ''get_agent_token_id'' []"

definition idp_agents :: proxy_call where
  "idp_agents = not_payable_call ''get_agent_id'' []"

definition idp_agent_details :: "codec \<Rightarrow> u64 \<Rightarrow> proxy_call" where
  "idp_agent_details cd nonce = not_payable_call ''get_agent_details'' [enc_u64 cd nonce]"

definition idp_agent_metadata :: "codec \<Rightarrow> u64 \<Rightarrow> proxy_call" where
  "idp_agent_metadata cd nonce = not_payable_call ''get_agent_metadata'' [enc_u64 cd nonce]"

definition idp_agent_service_config :: "codec \<Rightarrow> u64 \<Rightarrow> proxy_call" where
  "idp_agent_service_config cd nonce = not_payable_call ''get_agent_service'' [enc_u64 cd nonce]"

definition idp_get_agent :: "codec \<Rightarrow> u64 \<Rightarrow> proxy_call" where
  "idp_get_agent cd nonce = not_payable_call ''get_agent'' [enc_u64 cd nonce]"

definition idp_get_agent_owner :: "codec \<Rightarrow> u64 \<Rightarrow> proxy_call" where
  "idp_get_agent_owner cd nonce = not_payable_call ''get_agent_owner'' [enc_u64 cd nonce]"

definition idp_get_metadata ::
  "codec \<Rightarrow> u64 \<Rightarrow> bytes \<Rightarrow> proxy_call" where
  "idp_get_metadata cd nonce key = not_payable_call ''get_metadata'' [enc_u64 cd nonce, key]"

definition idp_get_agent_service_config ::
  "codec \<Rightarrow> u64 \<Rightarrow> u32 \<Rightarrow> proxy_call" where
  "idp_get_agent_service_config cd nonce service_id =
     not_payable_call ''get_agent_service_config'' [enc_u64 cd nonce, enc_u32 cd service_id]"

section \<open>Validation registry (validation\_registry\_proxy.rs)\<close>

definition vap_init :: "codec \<Rightarrow> address \<Rightarrow> proxy_call" where
  "vap_init cd identity_registry =
     not_payable_call ''init'' [enc_address cd identity_registry]"

definition vap_upgrade :: proxy_call where
  "vap_upgrade = not_payable_call ''upgrade'' []"

definition vap_init_job ::
  "codec \<Rightarrow> bytes \<Rightarrow> u64 \<Rightarrow> u32 option \<Rightarrow> proxy_call" where
  "vap_init_job cd job_id nonce service_id =
     open_call ''init_job'' ([job_id, enc_u64 cd nonce] @ optional_encoded (\<lambda>x. [enc_u32 cd x])
       service_id)"

definition vap_submit_proof :: "bytes \<Rightarrow> bytes \<Rightarrow> proxy_call" where
  "vap_submit_proof job_id pr = not_payable_call ''submit_proof'' [job_id, pr]"

definition vap_submit_proof_with_nft :: "bytes \<Rightarrow> bytes \<Rightarrow> proxy_call" where
  "vap_submit_proof_with_nft job_id pr = open_call ''submit_proof_with_nft'' [job_id, pr]"

definition vap_validation_request ::
  "codec \<Rightarrow> bytes \<Rightarrow> address \<Rightarrow> bytes \<Rightarrow> bytes
     \<Rightarrow> proxy_call" where
  "vap_validation_request cd job_id validator_address request_uri request_hash =
     not_payable_call ''validation_request'' [job_id, enc_address cd validator_address, request_uri,
       request_hash]"

definition vap_validation_response ::
  "codec \<Rightarrow> bytes \<Rightarrow> u8 \<Rightarrow> bytes \<Rightarrow> bytes \<Rightarrow>
     bytes \<Rightarrow> proxy_call" where
  "vap_validation_response cd request_hash response response_uri response_hash tag =
     not_payable_call ''validation_response'' [request_hash, enc_u8 cd response, response_uri,
       response_hash, tag]"

definition vap_clean_old_jobs :: "bytes list \<Rightarrow> proxy_call" where
  "vap_clean_old_jobs job_ids = not_payable_call ''clean_old_jobs'' job_ids"

definition vap_is_job_verified :: "bytes \<Rightarrow> proxy_call" where
  "vap_is_job_verified job_id = not_payable_call ''is_job_verified'' [job_id]"

definition vap_get_job_data :: "bytes \<Rightarrow> proxy_call" where
  "vap_get_job_data job_id = not_payable_call ''get_job_data'' [job_id]"

definition vap_get_validation_status :: "bytes \<Rightarrow> proxy_call" where
  "vap_get_validation_status request_hash = not_payable_call ''get_validation_status'' [request_hash]"

definition vap_get_agent_validations :: "codec \<Rightarrow> u64 \<Rightarrow> proxy_call" where
  "vap_get_agent_validations cd nonce = not_payable_call ''get_agent_validations'' [enc_u64 cd nonce]"

definition vap_set_identity_registry_address ::
  "codec \<Rightarrow> address \<Rightarrow> proxy_call" where
  "vap_set_identity_registry_address cd address =
     not_payable_call ''set_identity_registry_address'' [enc_address cd address]"

section \<open>Reputation registry (reputation\_registry\_proxy.rs)\<close>

definition rpp_init ::
  "codec \<Rightarrow> address \<Rightarrow> address \<Rightarrow> proxy_call" where
  "rpp_init cd validation_contract identity_contract =
     not_payable_call ''init'' [enc_address cd validation_contract, enc_address cd identity_contract]"

definition rpp_upgrade :: proxy_call where
  "rpp_upgrade = not_payable_call ''upgrade'' []"

definition rpp_give_feedback_simple ::
  "codec \<Rightarrow> bytes \<Rightarrow> u64 \<Rightarrow> nat \<Rightarrow> proxy_call" where
  "rpp_give_feedback_simple cd job_id nonce rating =
     not_payable_call ''giveFeedbackSimple'' [job_id, enc_u64 cd nonce, enc_nat cd rating]"

definition rpp_give_feedback ::
  "codec \<Rightarrow> u64 \<Rightarrow> i64 \<Rightarrow> u8 \<Rightarrow> bytes \<Rightarrow> bytes
     \<Rightarrow> bytes \<Rightarrow> bytes \<Rightarrow> bytes \<Rightarrow> proxy_call" where
  "rpp_give_feedback cd nonce v value_decimals tag1 tag2 ep feedback_uri feedback_hash =
     not_payable_call ''giveFeedback'' [enc_u64 cd nonce, enc_i64 cd v, enc_u8 cd value_decimals, tag1,
       tag2, ep, feedback_uri, feedback_hash]"

definition rpp_revoke_feedback ::
  "codec \<Rightarrow> u64 \<Rightarrow> u64 \<Rightarrow> proxy_call" where
  "rpp_revoke_feedback cd nonce feedback_index =
     not_payable_call ''revokeFeedback'' [enc_u64 cd nonce, enc_u64 cd feedback_index]"

definition rpp_read_feedback ::
  "codec \<Rightarrow> u64 \<Rightarrow> address \<Rightarrow> u64 \<Rightarrow> proxy_call" where
  "rpp_read_feedback cd nonce client feedback_index =
     not_payable_call ''readFeedback'' [enc_u64 cd nonce, enc_address cd client, enc_u64 cd feedback_index]"

definition rpp_append_response :: "bytes \<Rightarrow> bytes \<Rightarrow> proxy_call" where
  "rpp_append_response job_id response_uri =
     not_payable_call ''append_response'' [job_id, response_uri]"

definition rpp_reputation_score :: "codec \<Rightarrow> u64 \<Rightarrow> proxy_call" where
  "rpp_reputation_score cd nonce = not_payable_call ''get_reputation_score'' [enc_u64 cd nonce]"

definition rpp_total_jobs :: "codec \<Rightarrow> u64 \<Rightarrow> proxy_call" where
  "rpp_total_jobs cd nonce = not_payable_call ''get_total_jobs'' [enc_u64 cd nonce]"

definition rpp_validation_contract_address :: proxy_call where
  "rpp_validation_contract_address = not_payable_call ''get_validation_contract_address'' []"

definition rpp_identity_contract_address :: proxy_call where
  "rpp_identity_contract_address = not_payable_call ''get_identity_contract_address'' []"

definition rpp_has_given_feedback :: "bytes \<Rightarrow> proxy_call" where
  "rpp_has_given_feedback job_id = not_payable_call ''has_given_feedback'' [job_id]"

definition rpp_agent_response :: "bytes \<Rightarrow> proxy_call" where
  "rpp_agent_response job_id = not_payable_call ''get_agent_response'' [job_id]"

definition rpp_last_feedback_index ::
  "codec \<Rightarrow> u64 \<Rightarrow> address \<Rightarrow> proxy_call" where
  "rpp_last_feedback_index cd nonce client =
     not_payable_call ''getLastIndex'' [enc_u64 cd nonce, enc_address cd client]"

definition rpp_feedback_clients :: "codec \<Rightarrow> u64 \<Rightarrow> proxy_call" where
  "rpp_feedback_clients cd nonce = not_payable_call ''getClients'' [enc_u64 cd nonce]"

definition rpp_set_identity_contract_address ::
  "codec \<Rightarrow> address \<Rightarrow> proxy_call" where
  "rpp_set_identity_contract_address cd address =
     not_payable_call ''set_identity_contract_address'' [enc_address cd address]"

definition rpp_set_validation_contract_address ::
  "codec \<Rightarrow> address \<Rightarrow> proxy_call" where
  "rpp_set_validation_contract_address cd address =
     not_payable_call ''set_validation_contract_address'' [enc_address cd address]"

section \<open>Escrow (escrow\_proxy.rs)\<close>

definition esp_init ::
  "codec \<Rightarrow> address \<Rightarrow> address \<Rightarrow> proxy_call" where
  "esp_init cd validation_contract identity_contract =
     not_payable_call ''init'' [enc_address cd validation_contract, enc_address cd identity_contract]"

definition esp_upgrade :: proxy_call where
  "esp_upgrade = not_payable_call ''upgrade'' []"

definition esp_deposit ::
  "codec \<Rightarrow> bytes \<Rightarrow> address \<Rightarrow> bytes \<Rightarrow> u64 \<Rightarrow>
     proxy_call" where
  "esp_deposit cd job_id receiver poa_hash deadline =
     open_call ''deposit'' [job_id, enc_address cd receiver, poa_hash, enc_u64 cd deadline]"

definition esp_release :: "bytes \<Rightarrow> proxy_call" where
  "esp_release job_id = not_payable_call ''release'' [job_id]"

definition esp_refund :: "bytes \<Rightarrow> proxy_call" where
  "esp_refund job_id = not_payable_call ''refund'' [job_id]"

definition esp_get_escrow :: "bytes \<Rightarrow> proxy_call" where
  "esp_get_escrow job_id = not_payable_call ''get_escrow'' [job_id]"

definition esp_get_validation_contract_address :: proxy_call where
  "esp_get_validation_contract_address = not_payable_call ''get_validation_contract_address'' []"

definition esp_get_identity_contract_address :: proxy_call where
  "esp_get_identity_contract_address = not_payable_call ''get_identity_contract_address'' []"

end
