(* ===== verification/Proxy_Properties.thy ===== *)
theory Proxy_Properties
  imports Agent_Proxies Validation_Properties
begin

text \<open>
  Calls through the proxies (Agent_Proxies) on the contracts that receive them (Agent_Calls).
  What the methods of the three registries send is what the registries decode, message by message
  and for whole histories of calls, except where a list with a length in front is expected, which
  the identity proxy does not send; and the proxy of the escrow names endpoints that its contract
  does not have.
\<close>

section \<open>Which method sends which message\<close>

text \<open>A message that no method sends has no entry.\<close>

fun identity_proxy :: "codec \<Rightarrow> identity_msg \<Rightarrow> proxy_call option" where
  "identity_proxy cd (IssueToken n t) = Some (idp_issue_token n t)"
| "identity_proxy cd (IdCall (RegisterAgent n u k md sv)) = Some (idp_register_agent cd n u k md sv)"
| "identity_proxy cd (IdCall (UpdateAgent n u k md sv)) = Some (idp_update_agent cd n u k md sv)"
| "identity_proxy cd (IdCall SyncOwnership) = None"
| "identity_proxy cd (IdCall (SetMetadata n es)) = Some (idp_set_metadata cd n es)"
| "identity_proxy cd (IdCall (SetServiceConfigs n vs)) = Some (idp_set_service_configs_endpoint cd n vs)"
| "identity_proxy cd (IdCall (RemoveMetadata n ks)) = Some (idp_remove_metadata cd n ks)"
| "identity_proxy cd (IdCall (RemoveServiceConfigs n is)) = Some (idp_remove_service_configs cd n is)"
| "identity_proxy cd GetAgentTokenId = Some idp_agent_token_id"
| "identity_proxy cd GetAgentId = Some idp_agents"
| "identity_proxy cd (GetAgentDetails n) = Some (idp_agent_details cd n)"
| "identity_proxy cd (GetAgentMetadata n) = Some (idp_agent_metadata cd n)"
| "identity_proxy cd (GetAgentService n) = Some (idp_agent_service_config cd n)"
| "identity_proxy cd (GetAgent n) = Some (idp_get_agent cd n)"
| "identity_proxy cd (GetAgentOwner n) = Some (idp_get_agent_owner cd n)"
| "identity_proxy cd (GetMetadata n k) = Some (idp_get_metadata cd n k)"
| "identity_proxy cd (GetAgentServiceConfig n i) = Some (idp_get_agent_service_config cd n i)"

fun validation_proxy :: "codec \<Rightarrow> validation_msg \<Rightarrow> proxy_call option" where
  "validation_proxy cd (VInitJob j n sid) = Some (vap_init_job cd j n sid)"
| "validation_proxy cd (VRespond h r uri rh tg) = Some (vap_validation_response cd h r uri rh tg)"
| "validation_proxy cd (VCleanOldJobs js) = Some (vap_clean_old_jobs js)"
| "validation_proxy cd (VaCall (SubmitProof j p)) = Some (vap_submit_proof j p)"
| "validation_proxy cd (VaCall (SubmitProofWithNft j p)) = Some (vap_submit_proof_with_nft j p)"
| "validation_proxy cd (VaCall (ValidationRequest j a u h)) = Some (vap_validation_request cd j a u h)"
| "validation_proxy cd (VaCall (SetIdentityRegistryAddress a)) = Some (vap_set_identity_registry_address cd a)"
| "validation_proxy cd (VaCall _) = None"
| "validation_proxy cd (IsJobVerified j) = Some (vap_is_job_verified j)"
| "validation_proxy cd (GetJobData j) = Some (vap_get_job_data j)"
| "validation_proxy cd (GetValidationStatus h) = Some (vap_get_validation_status h)"
| "validation_proxy cd (GetAgentValidations n) = Some (vap_get_agent_validations cd n)"

fun reputation_proxy :: "codec \<Rightarrow> reputation_msg \<Rightarrow> proxy_call option" where
  "reputation_proxy cd (RpCall (GiveFeedbackSimple j n r)) = Some (rpp_give_feedback_simple cd j n r)"
| "reputation_proxy cd (RpCall (GiveFeedback n v d t1 t2 ep u h)) = Some (rpp_give_feedback cd n v d t1 t2 ep u h)"
| "reputation_proxy cd (RpCall (RevokeFeedback n i)) = Some (rpp_revoke_feedback cd n i)"
| "reputation_proxy cd (RpCall (AppendResponse j u)) = Some (rpp_append_response j u)"
| "reputation_proxy cd (RpCall (SetIdentityContractAddress a)) = Some (rpp_set_identity_contract_address cd a)"
| "reputation_proxy cd (RpCall (SetValidationContractAddress a)) = Some (rpp_set_validation_contract_address cd a)"
| "reputation_proxy cd (ReadFeedback n a i) = Some (rpp_read_feedback cd n a i)"
| "reputation_proxy cd (EvaluateAgentFairValue n x p) = None"
| "reputation_proxy cd (GetReputationScore n) = Some (rpp_reputation_score cd n)"
| "reputation_proxy cd (GetTotalJobs n) = Some (rpp_total_jobs cd n)"
| "reputation_proxy cd GetRpValidationAddress = Some rpp_validation_contract_address"
| "reputation_proxy cd GetRpIdentityAddress = Some rpp_identity_contract_address"
| "reputation_proxy cd (HasGivenFeedback j) = Some (rpp_has_given_feedback j)"
| "reputation_proxy cd (GetAgentResponse j) = Some (rpp_agent_response j)"
| "reputation_proxy cd (GetLastIndex n a) = Some (rpp_last_feedback_index cd n a)"
| "reputation_proxy cd (GetClients n) = Some (rpp_feedback_clients cd n)"

lemmas idp_defs = idp_issue_token_def idp_register_agent_def idp_update_agent_def idp_set_metadata_def
  idp_set_service_configs_endpoint_def idp_remove_metadata_def idp_remove_service_configs_def
  idp_agent_token_id_def idp_agents_def idp_agent_details_def idp_agent_metadata_def
  idp_agent_service_config_def idp_get_agent_def idp_get_agent_owner_def idp_get_metadata_def
  idp_get_agent_service_config_def

lemmas vap_defs = vap_init_job_def vap_validation_response_def vap_clean_old_jobs_def vap_submit_proof_def
  vap_submit_proof_with_nft_def vap_validation_request_def vap_set_identity_registry_address_def
  vap_is_job_verified_def vap_get_job_data_def vap_get_validation_status_def vap_get_agent_validations_def

lemmas rpp_defs = rpp_give_feedback_simple_def rpp_give_feedback_def rpp_revoke_feedback_def
  rpp_append_response_def rpp_set_identity_contract_address_def rpp_set_validation_contract_address_def
  rpp_read_feedback_def rpp_reputation_score_def rpp_total_jobs_def rpp_validation_contract_address_def
  rpp_identity_contract_address_def rpp_has_given_feedback_def rpp_agent_response_def
  rpp_last_feedback_index_def rpp_feedback_clients_def

section \<open>Single calls\<close>

text \<open>
  The identity registry expects the length of a list of entries or offers in front of it. The
  messages that carry no such list:
\<close>

fun uncounted :: "identity_msg \<Rightarrow> bool" where
  "uncounted (IdCall (RegisterAgent n u k md sv)) = False"
| "uncounted (IdCall (UpdateAgent n u k md sv)) \<longleftrightarrow> md = None \<and> sv = None"
| "uncounted (IdCall (SetMetadata n es)) = False"
| "uncounted (IdCall (SetServiceConfigs n vs)) = False"
| "uncounted m = True"

text \<open>A call with the name and the arguments of a method, read by a table of endpoints.\<close>

definition reads :: "(bytes \<Rightarrow> bytes list \<Rightarrow> 'm res) \<Rightarrow> proxy_call option \<Rightarrow> 'm \<Rightarrow> bool" where
  "reads endpoint_of p m \<longleftrightarrow> (case p of None \<Rightarrow> True | Some p \<Rightarrow> endpoint_of (pc_function p) (pc_args p) = Inr m)"

lemma reads_simps [simp]:
  "reads ep None m"
  "reads ep (Some (not_payable_call f as)) m \<longleftrightarrow> ep f as = Inr m"
  "reads ep (Some (open_call f as)) m \<longleftrightarrow> ep f as = Inr m"
  by (simp_all add: reads_def not_payable_call_def open_call_def)

lemma optional_encoded_simps [simp]:
  "optional_encoded enc None = []" "optional_encoded enc (Some x) = enc x"
  by (simp_all add: optional_encoded_def)

lemma identity_reads:
  "codec_documented cd \<Longrightarrow> uncounted m \<Longrightarrow> reads (identity_endpoint cd) (identity_proxy cd m) m"
  by (induction cd m rule: identity_proxy.induct)
    (simp_all add: idp_defs identity_endpoint_def codec_simps multi_args_encoded)

lemma validation_reads:
  "codec_documented cd \<Longrightarrow> reads (validation_endpoint cd) (validation_proxy cd m) m"
proof (induction cd m rule: validation_proxy.induct)
  case (1 cd j n sid)
  then show ?case by (cases sid) (simp_all add: vap_defs validation_endpoint_def codec_simps)
qed (simp_all add: vap_defs validation_endpoint_def codec_simps)

lemma reputation_reads:
  "codec_documented cd \<Longrightarrow> reads (reputation_endpoint cd) (reputation_proxy cd m) m"
  by (induction cd m rule: reputation_proxy.induct)
    (simp_all add: rpp_defs reputation_endpoint_def codec_simps)

text \<open>Deployment: the arguments of \<open>init\<close>.\<close>

lemma constructors_read:
  assumes "codec_documented cd"
  shows "validation_constructor cd (pc_args (vap_init cd i)) = Inr (validation_init i)"
    and "reputation_constructor cd (pc_args (rpp_init cd v i)) = Inr (reputation_init v i)"
  using assms by (simp_all add: validation_constructor_def reputation_constructor_def vap_init_def
    rpp_init_def not_payable_call_def codec_simps)

text \<open>
  A list with its length in front is read whole; a list without it is not read at all, for its
  first element, or the end of the arguments, stands where the length is expected.
\<close>

definition entries_ok :: "metadata_entry list \<Rightarrow> bool" where
  "entries_ok md \<longleftrightarrow> length md < 2 ^ 32 \<and> (\<forall>m\<in>set md. metadata_ok m \<and> me_key m \<noteq> [])"

definition offers_ok :: "service_config_input list \<Rightarrow> bool" where
  "offers_ok sv \<longleftrightarrow> length sv < 2 ^ 32 \<and> (\<forall>v\<in>set sv. service_ok v)"

lemma register_counted:
  assumes "codec_documented cd" and "entries_ok md" and "offers_ok sv"
  shows "identity_endpoint cd ''register_agent''
      ([n, u, k] @ counted_list cd (enc_metadata cd) md @ counted_list cd (enc_service cd) sv)
    = Inr (IdCall (RegisterAgent n u k md sv))"
proof -
  have offers: "counted_args cd (dec_service cd) (counted_list cd (enc_service cd) sv) f = f sv []"
    for f :: "service_config_input list \<Rightarrow> bytes list \<Rightarrow> identity_msg res"
    using counted_args_encoded [OF assms(1), where as = "[]" and xs = sv and enc = "enc_service cd"
        and dec = "dec_service cd"] assms(1,3)
    by (simp add: codec_simps offers_ok_def)
  show ?thesis
    using assms by (simp add: identity_endpoint_def counted_args_encoded codec_simps entries_ok_def offers)
qed

text \<open>What the registry makes of a call of its proxy.\<close>

definition identity_decodes :: "codec \<Rightarrow> proxy_call \<Rightarrow> identity_msg res" where
  "identity_decodes cd p = identity_endpoint cd (pc_function p) (pc_args p)"

lemma identity_decodes_simps [simp]:
  "identity_decodes cd (not_payable_call f as) = identity_endpoint cd f as"
  "identity_decodes cd (open_call f as) = identity_endpoint cd f as"
  by (simp_all add: identity_decodes_def not_payable_call_def open_call_def)

lemma uncounted_refused:
  assumes "entries_are_no_counts cd"
  shows "entries_ok md \<Longrightarrow> offers_ok sv \<Longrightarrow>
      \<exists>e. counted_args cd dec (map (enc_metadata cd) md @ map (enc_service cd) sv) f = Inl (VmError e)"
    and "entries_ok md \<Longrightarrow> \<exists>e. counted_args cd dec (map (enc_metadata cd) md) f = Inl (VmError e)"
    and "offers_ok sv \<Longrightarrow> \<exists>e. counted_args cd dec (map (enc_service cd) sv) f = Inl (VmError e)"
  using assms by (cases md; cases sv;
    simp add: counted_args_def entries_are_no_counts_def entries_ok_def offers_ok_def)+

section \<open>The proxy of the escrow\<close>

text \<open>
  The contract behind it is the shield now: its constructor takes a third address, and deposits,
  releases and refunds are gone. What is left are three views.
\<close>

lemma escrow_proxy_out_of_date:
  assumes "codec_documented cd"
  shows "shield_constructor cd (pc_args (esp_init cd v i)) = Inl (VmError ''too few arguments'')"
    and "p \<in> {esp_deposit cd j a h d, esp_release j, esp_refund j} \<Longrightarrow>
      shield_endpoint cd (pc_function p) (pc_args p) = Inl (VmError ''invalid function (not found)'')"
    and "reads (shield_endpoint cd) (Some (esp_get_escrow j)) (GetEscrow j)"
    and "reads (shield_endpoint cd) (Some esp_get_validation_contract_address) GetShValidationAddress"
    and "reads (shield_endpoint cd) (Some esp_get_identity_contract_address) GetShIdentityAddress"
proof -
  assume "p \<in> {esp_deposit cd j a h d, esp_release j, esp_refund j}"
  then have "pc_function p \<in> {''deposit'', ''release'', ''refund''}"
    by (auto simp: esp_deposit_def esp_release_def esp_refund_def open_call_def not_payable_call_def)
  then show "shield_endpoint cd (pc_function p) (pc_args p) = Inl (VmError ''invalid function (not found)'')"
    by (auto simp: shield_endpoint_def)
qed (use assms in \<open>simp_all add: shield_constructor_def esp_init_def not_payable_call_def codec_simps
    esp_get_escrow_def esp_get_validation_contract_address_def esp_get_identity_contract_address_def
    shield_endpoint_def reads_def\<close>)

section \<open>Payments\<close>

text \<open>
  A method marked \<open>NotPayable\<close> belongs to an endpoint that refuses payments. \<open>unpaid\<close> is a
  call without any.
\<close>

definition unpaid :: "ctx \<Rightarrow> bool" where
  "unpaid c \<longleftrightarrow> egld_value c = 0 \<and> esdt_transfers c = []"

definition refusal :: sc_error where
  "refusal = VmError ''function does not accept payment''"

lemma not_payable_paid [simp]: "\<not> unpaid c \<Longrightarrow> not_payable c k = Inl refusal"
  by (auto simp: not_payable_def unpaid_def refusal_def vm_require_def)

text \<open>\<open>guards p r\<close>: when the method \<open>p\<close> is marked, the result \<open>r\<close> is the refusal.\<close>

definition guards :: "proxy_call option \<Rightarrow> 'a res \<Rightarrow> bool" where
  "guards p r \<longleftrightarrow> (case p of None \<Rightarrow> True | Some p \<Rightarrow> pc_not_payable p \<longrightarrow> r = Inl refusal)"

lemma guards_simps [simp]:
  "guards None r" "guards (Some (open_call f as)) r"
  "guards (Some (not_payable_call f as)) r \<longleftrightarrow> r = Inl refusal"
  by (simp_all add: guards_def open_call_def not_payable_call_def)

lemma identity_guards:
  "\<not> unpaid c \<Longrightarrow> guards (identity_proxy cd m) (identity_serve e c m s)"
  by (induction cd m rule: identity_proxy.induct)
    (simp_all add: idp_defs register_agent_def set_metadata_def set_service_configs_def
      remove_metadata_def remove_service_configs_def)

lemma validation_guards:
  "\<not> unpaid c \<Longrightarrow> guards (validation_proxy cd m) (validation_serve ids (now, c) m s)"
  by (induction cd m rule: validation_proxy.induct)
    (simp_all add: vap_defs submit_proof_def validation_request_def validation_response_def
      clean_old_jobs_def set_identity_registry_address_def)

lemma reputation_guards:
  "\<not> unpaid c \<Longrightarrow> guards (reputation_proxy cd m) (reputation_serve (g, c) m s)"
  by (induction cd m rule: reputation_proxy.induct)
    (simp_all add: rpp_defs give_feedback_simple_def give_feedback_def revoke_feedback_def
      append_response_def set_identity_contract_address_def set_validation_contract_address_def)

section \<open>Histories\<close>

text \<open>
  A contract receives calls one after the other, each with its own transaction and its own state
  of the other contracts; one that fails leaves the state as it was and answers with its error.
\<close>

fun call_history ::
  "('c \<Rightarrow> 'x \<Rightarrow> 's \<Rightarrow> ('r \<times> 's) res) \<Rightarrow> ('c \<times> 'x) list \<Rightarrow> 's \<Rightarrow> 'r res list \<times> 's" where
  "call_history f [] s = ([], s)"
| "call_history f ((c, x) # xs) s = (case f c x s of
     Inl e \<Rightarrow> map_prod (Cons (Inl e)) id (call_history f xs s)
   | Inr (r, s) \<Rightarrow> map_prod (Cons (Inr r)) id (call_history f xs s))"

definition receive_call ::
  "(bytes \<Rightarrow> bytes list \<Rightarrow> 'm res) \<Rightarrow> ('c \<Rightarrow> 'm \<Rightarrow> 's \<Rightarrow> ('r \<times> 's) res) \<Rightarrow> 'c \<Rightarrow> proxy_call \<Rightarrow> 's \<Rightarrow>
     ('r \<times> 's) res" where
  "receive_call endpoint_of serve c p s =
     bind_res (endpoint_of (pc_function p) (pc_args p)) (\<lambda>m. serve c m s)"

text \<open>\<open>ps\<close> are the calls that the proxy makes of the messages \<open>ms\<close>.\<close>

definition proxied ::
  "('m \<Rightarrow> proxy_call option) \<Rightarrow> ('m \<Rightarrow> bool) \<Rightarrow> ('c \<times> 'm) list \<Rightarrow> ('c \<times> proxy_call) list \<Rightarrow> bool" where
  "proxied proxy sound ms ps \<longleftrightarrow>
     list_all2 (\<lambda>(c, m) (d, p). d = c \<and> sound m \<and> proxy m = Some p) ms ps"

text \<open>
  A faithful proxy: a history of its calls is the history of the messages, and a payment along
  with a method that takes none is refused.
\<close>

definition faithful ::
  "(bytes \<Rightarrow> bytes list \<Rightarrow> 'm res) \<Rightarrow> ('c \<Rightarrow> 'm \<Rightarrow> 's \<Rightarrow> ('r \<times> 's) res) \<Rightarrow> ('m \<Rightarrow> proxy_call option) \<Rightarrow>
     ('m \<Rightarrow> bool) \<Rightarrow> ('c \<Rightarrow> bool) \<Rightarrow> bool" where
  "faithful endpoint_of serve proxy sound paid \<longleftrightarrow>
     (\<forall>ms ps s. proxied proxy sound ms ps \<longrightarrow> call_history (receive_call endpoint_of serve) ps s = call_history serve ms s) \<and>
     (\<forall>c m p s. sound m \<longrightarrow> proxy m = Some p \<longrightarrow> pc_not_payable p \<longrightarrow> paid c \<longrightarrow>
        receive_call endpoint_of serve c p s = Inl refusal)"

text \<open>
  What a proxy promises its callers: the messages it can express arrive as they were meant, and
  a method that takes no payment belongs to an endpoint that takes none.
\<close>

locale contract_proxy =
  fixes endpoint_of :: "bytes \<Rightarrow> bytes list \<Rightarrow> 'm res"
    and serve :: "'c \<Rightarrow> 'm \<Rightarrow> 's \<Rightarrow> ('r \<times> 's) res"
    and proxy :: "'m \<Rightarrow> proxy_call option"
    and sound :: "'m \<Rightarrow> bool"
    and paid :: "'c \<Rightarrow> bool"
  assumes arrives: "sound m \<Longrightarrow> reads endpoint_of (proxy m) m"
    and refuses: "paid c \<Longrightarrow> guards (proxy m) (serve c m s)"
begin

lemma received: "sound m \<Longrightarrow> proxy m = Some p \<Longrightarrow> receive_call endpoint_of serve c p s = serve c m s"
  using arrives [of m] by (simp add: reads_def receive_call_def)

lemma refused_payment:
  assumes "sound m" and "proxy m = Some p" and "pc_not_payable p" and "paid c"
  shows "receive_call endpoint_of serve c p s = Inl refusal"
  using received [OF assms(1,2)] refuses [OF assms(4), of m s] assms(2,3) by (simp add: guards_def)

lemma history_received:
  assumes "proxied proxy sound ms ps"
  shows "call_history (receive_call endpoint_of serve) ps s = call_history serve ms s"
  using assms unfolding proxied_def
proof (induction arbitrary: s rule: list_all2_induct)
  case Nil
  then show ?case by simp
next
  case (Cons x xs y ys)
  obtain c m p where "x = (c, m)" "y = (c, p)" "sound m" "proxy m = Some p"
    using Cons.hyps(1) by (auto split: prod.splits)
  then show ?case using received [of m p c s] Cons.IH by (simp split: sum.split prod.split)
qed

lemma is_faithful: "faithful endpoint_of serve proxy sound paid"
  by (simp add: faithful_def history_received refused_payment)

end

text \<open>With a documented codec the three registries and their proxies are such pairs.\<close>

locale agent_codec =
  fixes cd :: codec
  assumes documented: "codec_documented cd"

sublocale agent_codec \<subseteq> idr: contract_proxy "identity_endpoint cd"
  "\<lambda>(e, c). identity_serve e c" "identity_proxy cd" uncounted "\<lambda>(e, c). \<not> unpaid c"
  by unfold_locales (auto simp: identity_reads [OF documented] identity_guards)

sublocale agent_codec \<subseteq> var: contract_proxy "validation_endpoint cd"
  "\<lambda>(ids, c). validation_serve ids c" "validation_proxy cd" "\<lambda>_. True" "\<lambda>(ids, now, c). \<not> unpaid c"
  by unfold_locales (auto simp: validation_reads [OF documented] validation_guards)

sublocale agent_codec \<subseteq> rpr: contract_proxy "reputation_endpoint cd"
  reputation_serve "reputation_proxy cd" "\<lambda>_. True" "\<lambda>(g, c). \<not> unpaid c"
  by unfold_locales (auto simp: reputation_reads [OF documented] reputation_guards)

context agent_codec begin

lemmas registries_faithful = idr.is_faithful var.is_faithful rpr.is_faithful

end

interpretation mx: agent_codec mx_codec
  by unfold_locales (rule mx_codec_documented)

section \<open>Properties\<close>

text \<open>
  C31. Calls through the proxies do what the operations do. With a codec that decodes what it
  encodes, any history of calls made with the proxies of the identity, the validation and the
  reputation registry gives the same answers and errors, and leaves the same state, as the
  operations of the model called in that order with those values; for the identity registry this
  is so for the calls that carry no list of entries or offers. A payment sent along with a method
  that the proxies mark as taking none is refused by all three.
\<close>

theorem proxied_histories:
  assumes "codec_documented cd"
  shows "faithful (identity_endpoint cd) (\<lambda>(e, c). identity_serve e c) (identity_proxy cd) uncounted
      (\<lambda>(e, c). \<not> unpaid c) \<and>
    faithful (validation_endpoint cd) (\<lambda>(ids, c). validation_serve ids c) (validation_proxy cd) (\<lambda>_. True)
      (\<lambda>(ids, now, c). \<not> unpaid c) \<and>
    faithful (reputation_endpoint cd) reputation_serve (reputation_proxy cd) (\<lambda>_. True)
      (\<lambda>(g, c). \<not> unpaid c)"
  using agent_codec.registries_faithful [OF agent_codec.intro [OF assms]] by blast

text \<open>A job is created and read through the proxy; a proof for a job that does not exist is refused.\<close>

definition demo_proxied :: "(((address \<Rightarrow> identity) \<times> u64 \<times> ctx) \<times> proxy_call) list" where
  "demo_proxied = [((demo_ids, 5000, call_ctx 40 0 []), vap_init_job mx_codec ''job'' 1 None),
     ((demo_ids, 5000, call_ctx 41 0 []), vap_submit_proof ''other'' ''proof''),
     ((demo_ids, 5000, call_ctx 41 0 []), vap_get_job_data ''job'')]"

definition demo_meant :: "(((address \<Rightarrow> identity) \<times> u64 \<times> ctx) \<times> validation_msg) list" where
  "demo_meant = [((demo_ids, 5000, call_ctx 40 0 []), VInitJob ''job'' 1 None),
     ((demo_ids, 5000, call_ctx 41 0 []), VaCall (SubmitProof ''other'' ''proof'')),
     ((demo_ids, 5000, call_ctx 41 0 []), GetJobData ''job'')]"

theorem proxied_histories_witness:
  "codec_documented mx_codec \<and>
   fst (call_history (receive_call (validation_endpoint mx_codec) (\<lambda>(ids, c). validation_serve ids c)) demo_proxied
     (validation_init 2)) = [Inr NoVaReply, Inl (UserError ''Job not found''),
       Inr (JobReply (Some \<lparr>j_status = JobNew, j_proof = [], j_employer = 40,
         j_creation_timestamp = 5000, j_agent_nonce = 1\<rparr>))]"
proof -
  have "proxied (validation_proxy mx_codec) (\<lambda>_. True) demo_meant demo_proxied"
    by (simp add: proxied_def demo_meant_def demo_proxied_def)
  then have "call_history (receive_call (validation_endpoint mx_codec) (\<lambda>(ids, c). validation_serve ids c)) demo_proxied
      (validation_init 2) = call_history (\<lambda>(ids, c). validation_serve ids c) demo_meant (validation_init 2)"
    using proxied_histories [OF mx_codec_documented] unfolding faithful_def by blast
  then show ?thesis
    by (simp add: mx_codec_documented demo_meant_def init_job_def submit_proof_def get_job_data_def
        validation_init_def not_payable_def Let_def receive_def)
qed

text \<open>
  C32. The identity proxy cannot carry a list. The endpoints \<open>register_agent\<close>, \<open>set_metadata\<close> and
  \<open>set_service_configs\<close> declare their lists as \<open>MultiValueEncodedCounted\<close>, the proxy as
  \<open>MultiValueEncoded\<close>: every call of the three through the proxy, with empty lists too, is an
  error of the argument decoding, whoever sends it and whatever the state. So is an update of an
  agent with a list that is not empty, and with empty ones it arrives as if they had been left out.
  The same registration with the lengths in front, as the tests of the repository build it by hand,
  is decoded to the call that was meant. Entries are assumed to have a key, since eight zero bytes
  are a length.
\<close>

theorem counted_lists_refused:
  assumes "codec_documented cd" and "entries_are_no_counts cd" and "entries_ok md" and "offers_ok sv"
  shows "(\<exists>e. identity_decodes cd (idp_register_agent cd n u k md sv) = Inl (VmError e)) \<and>
    (\<exists>e. identity_decodes cd (idp_set_metadata cd i md) = Inl (VmError e)) \<and>
    (\<exists>e. identity_decodes cd (idp_set_service_configs_endpoint cd i sv) = Inl (VmError e)) \<and>
    (if md = [] \<and> sv = []
     then identity_decodes cd (idp_update_agent cd n u k (Some md) (Some sv))
        = Inr (IdCall (UpdateAgent n u k None None))
     else \<exists>e. identity_decodes cd (idp_update_agent cd n u k (Some md) (Some sv)) = Inl (VmError e)) \<and>
    identity_endpoint cd ''register_agent''
        ([n, u, k] @ counted_list cd (enc_metadata cd) md @ counted_list cd (enc_service cd) sv)
      = Inr (IdCall (RegisterAgent n u k md sv))"
proof (intro conjI)
  note refused = uncounted_refused [OF assms(2)]
  show "\<exists>e. identity_decodes cd (idp_register_agent cd n u k md sv) = Inl (VmError e)"
    using refused(1) [OF assms(3,4)] by (simp add: idp_register_agent_def identity_endpoint_def)
  show "\<exists>e. identity_decodes cd (idp_set_metadata cd i md) = Inl (VmError e)"
    using refused(2) [OF assms(3)]
    by (simp add: idp_set_metadata_def identity_endpoint_def codec_simps [OF assms(1)])
  show "\<exists>e. identity_decodes cd (idp_set_service_configs_endpoint cd i sv) = Inl (VmError e)"
    using refused(3) [OF assms(4)]
    by (simp add: idp_set_service_configs_endpoint_def identity_endpoint_def codec_simps [OF assms(1)])
  show "if md = [] \<and> sv = []
     then identity_decodes cd (idp_update_agent cd n u k (Some md) (Some sv))
        = Inr (IdCall (UpdateAgent n u k None None))
     else \<exists>e. identity_decodes cd (idp_update_agent cd n u k (Some md) (Some sv)) = Inl (VmError e)"
    using refused(1) [OF assms(3,4)]
    by (auto simp: idp_update_agent_def identity_endpoint_def optional_arg_def)
qed (rule register_counted [OF assms(1,3,4)])

text \<open>Two entries and an offer, in bytes.\<close>

definition demo_entries :: "metadata_entry list" where
  "demo_entries = [\<lparr>me_key = ''model'', me_value = ''m1''\<rparr>, \<lparr>me_key = ''lang'', me_value = []\<rparr>]"

definition demo_offers :: "service_config_input list" where
  "demo_offers = [\<lparr>sc_service_id = 1, sc_price = 5, sc_token = ''USDC'', sc_nonce = 0\<rparr>]"

lemma demo_lists_ok: "entries_ok demo_entries" "offers_ok demo_offers"
proof -
  have "to_bytes_be 5 = [char_of (5::nat)]" by code_simp
  then show "offers_ok demo_offers" by (simp add: offers_ok_def demo_offers_def service_ok_def short_bytes_def)
qed (simp add: entries_ok_def demo_entries_def metadata_ok_def short_bytes_def)

theorem counted_lists_refused_witness:
  "(\<exists>e. identity_decodes mx_codec (idp_register_agent mx_codec ''bot'' ''uri'' ''key'' demo_entries demo_offers)
      = Inl (VmError e)) \<and>
   identity_endpoint mx_codec ''register_agent'' ([''bot'', ''uri'', ''key''] @
      counted_list mx_codec (enc_metadata mx_codec) demo_entries @ counted_list mx_codec (enc_service mx_codec) demo_offers)
      = Inr (IdCall (RegisterAgent ''bot'' ''uri'' ''key'' demo_entries demo_offers))"
  using counted_lists_refused [OF mx_codec_documented mx_entries_are_no_counts demo_lists_ok,
      of "''bot''" "''uri''" "''key''"] by blast

end
