(* ===== verification/Agent_Interactors.thy ===== *)
theory Agent_Interactors
  imports Proxy_Properties
begin

text \<open>
  The command line tools of the three registries
  (contracts/xcron-agent-shield/*/interactor/src). One run reads the configuration and the state
  file, executes the command it is given, and writes the state file again when the state goes out
  of scope, also when the command panics. The state is the address of the contract that was
  deployed last; a deployment sets it and every other command sends to it. The gateway, the TOML
  format, the wallet and the code of the contract are parameters; printing is left out.
\<close>

section \<open>State (interact.rs)\<close>

type_synonym 'a panics = "string + 'a"

record interact_state =
  known_contract :: "address option"

definition set_address :: "address \<Rightarrow> interact_state \<Rightarrow> interact_state" where
  "set_address a st = st\<lparr>known_contract := Some a\<rparr>"

definition current_address :: "interact_state \<Rightarrow> address panics" where
  "current_address st = (case known_contract st of
     None \<Rightarrow> Inl ''no known contract, deploy first'' | Some a \<Rightarrow> Inr a)"

text \<open>The file, when there is one, and the TOML library with its two directions.\<close>

record toml =
  to_toml :: "interact_state \<Rightarrow> bytes"
  from_toml :: "bytes \<Rightarrow> interact_state panics"

definition toml_documented :: "toml \<Rightarrow> bool" where
  "toml_documented tm \<longleftrightarrow> (\<forall>st. from_toml tm (to_toml tm st) = Inr st)"

definition load_state :: "toml \<Rightarrow> bytes option \<Rightarrow> interact_state panics" where
  "load_state tm file = (case file of
     Some content \<Rightarrow> from_toml tm content | None \<Rightarrow> Inr \<lparr>known_contract = None\<rparr>)"

definition drop_state :: "toml \<Rightarrow> interact_state \<Rightarrow> bytes option" where
  "drop_state tm st = Some (to_toml tm st)"

section \<open>Transactions\<close>

record interact =
  wallet_address :: address
  contract_code :: bytes
  it_state :: interact_state

text \<open>
  A deployment (sender, gas, call of \<open>init\<close>, code), an upgrade (sender, receiver, gas, call, code,
  and whether the contract stays upgradeable), a transaction (sender, receiver, gas, call, EGLD,
  tokens) and a query (receiver, call).
\<close>

datatype outgoing =
    Deploy address u64 proxy_call bytes
  | Upgrade address address u64 proxy_call bytes bool
  | Transact address address u64 proxy_call nat "esdt_payment list"
  | Query address proxy_call

definition upgrade_tx :: "interact \<Rightarrow> proxy_call \<Rightarrow> outgoing panics" where
  "upgrade_tx it p = (case current_address (it_state it) of
     Inl e \<Rightarrow> Inl e
   | Inr to \<Rightarrow> Inr (Upgrade (wallet_address it) to 30000000 p (contract_code it) True))"

definition transact :: "interact \<Rightarrow> proxy_call \<Rightarrow> nat \<Rightarrow> esdt_payment list \<Rightarrow> outgoing panics" where
  "transact it p x ts = (case current_address (it_state it) of
     Inl e \<Rightarrow> Inl e
   | Inr to \<Rightarrow> Inr (Transact (wallet_address it) to 30000000 p x ts))"

definition query :: "interact \<Rightarrow> proxy_call \<Rightarrow> outgoing panics" where
  "query it p = (case current_address (it_state it) of Inl e \<Rightarrow> Inl e | Inr to \<Rightarrow> Inr (Query to p))"

section \<open>Commands of the identity registry\<close>

definition ini_deploy :: "interact \<Rightarrow> outgoing panics" where
  "ini_deploy it = Inr (Deploy (wallet_address it) 30000000 idp_init (contract_code it))"

definition ini_upgrade :: "interact \<Rightarrow> outgoing panics" where
  "ini_upgrade it = upgrade_tx it idp_upgrade"

definition ini_issue_token :: "interact \<Rightarrow> outgoing panics" where
  "ini_issue_token it = (let egld_amount = 0; token_display_name = ''''; token_ticker = ''''
     in transact it (idp_issue_token token_display_name token_ticker) egld_amount [])"

definition ini_register_agent :: "codec \<Rightarrow> interact \<Rightarrow> outgoing panics" where
  "ini_register_agent cd it = (let name = ''''; uri = ''''; public_key = ''''; metadata = [];
       services = []
     in transact it (idp_register_agent cd name uri public_key metadata services) 0 [])"

definition ini_update_agent :: "codec \<Rightarrow> interact \<Rightarrow> outgoing panics" where
  "ini_update_agent cd it = (let tk = ''''; tk_nonce = 0; token_amount = 0; new_name = '''';
       new_uri = ''''; new_public_key = ''''; metadata = Some []; services = Some []
     in transact it (idp_update_agent cd new_name new_uri new_public_key metadata services) 0
       [\<lparr>token_identifier = tk, token_nonce = tk_nonce, amount = token_amount\<rparr>])"

definition ini_set_metadata :: "codec \<Rightarrow> interact \<Rightarrow> outgoing panics" where
  "ini_set_metadata cd it = (let nonce = 0; entries = []
     in transact it (idp_set_metadata cd nonce entries) 0 [])"

definition ini_set_service_configs_endpoint :: "codec \<Rightarrow> interact \<Rightarrow> outgoing panics" where
  "ini_set_service_configs_endpoint cd it = (let nonce = 0; configs = []
     in transact it (idp_set_service_configs_endpoint cd nonce configs) 0 [])"

definition ini_remove_metadata :: "codec \<Rightarrow> interact \<Rightarrow> outgoing panics" where
  "ini_remove_metadata cd it = (let nonce = 0; keys = ['''']
     in transact it (idp_remove_metadata cd nonce keys) 0 [])"

definition ini_remove_service_configs :: "codec \<Rightarrow> interact \<Rightarrow> outgoing panics" where
  "ini_remove_service_configs cd it = (let nonce = 0; service_ids = [0]
     in transact it (idp_remove_service_configs cd nonce service_ids) 0 [])"

definition ini_agent_token_id :: "interact \<Rightarrow> outgoing panics" where
  "ini_agent_token_id it = query it idp_agent_token_id"

definition ini_agents :: "interact \<Rightarrow> outgoing panics" where
  "ini_agents it = query it idp_agents"

definition ini_agent_details :: "codec \<Rightarrow> interact \<Rightarrow> outgoing panics" where
  "ini_agent_details cd it = (let nonce = 0
     in query it (idp_agent_details cd nonce))"

definition ini_agent_metadata :: "codec \<Rightarrow> interact \<Rightarrow> outgoing panics" where
  "ini_agent_metadata cd it = (let nonce = 0
     in query it (idp_agent_metadata cd nonce))"

definition ini_agent_service_config :: "codec \<Rightarrow> interact \<Rightarrow> outgoing panics" where
  "ini_agent_service_config cd it = (let nonce = 0
     in query it (idp_agent_service_config cd nonce))"

definition ini_get_agent :: "codec \<Rightarrow> interact \<Rightarrow> outgoing panics" where
  "ini_get_agent cd it = (let nonce = 0
     in query it (idp_get_agent cd nonce))"

definition ini_get_agent_owner :: "codec \<Rightarrow> interact \<Rightarrow> outgoing panics" where
  "ini_get_agent_owner cd it = (let nonce = 0
     in query it (idp_get_agent_owner cd nonce))"

definition ini_get_metadata :: "codec \<Rightarrow> interact \<Rightarrow> outgoing panics" where
  "ini_get_metadata cd it = (let nonce = 0; key = ''''
     in query it (idp_get_metadata cd nonce key))"

definition ini_get_agent_service_config :: "codec \<Rightarrow> interact \<Rightarrow> outgoing panics" where
  "ini_get_agent_service_config cd it = (let nonce = 0; service_id = 0
     in query it (idp_get_agent_service_config cd nonce service_id))"

definition identity_command :: "codec \<Rightarrow> interact \<Rightarrow> string \<Rightarrow> outgoing panics" where
  "identity_command cd it cmd =
     (if cmd = ''deploy'' then ini_deploy it
      else if cmd = ''upgrade'' then ini_upgrade it
      else if cmd = ''issue_token'' then ini_issue_token it
      else if cmd = ''register_agent'' then ini_register_agent cd it
      else if cmd = ''update_agent'' then ini_update_agent cd it
      else if cmd = ''set_metadata'' then ini_set_metadata cd it
      else if cmd = ''set_service_configs'' then ini_set_service_configs_endpoint cd it
      else if cmd = ''remove_metadata'' then ini_remove_metadata cd it
      else if cmd = ''remove_service_configs'' then ini_remove_service_configs cd it
      else if cmd = ''get_agent_token_id'' then ini_agent_token_id it
      else if cmd = ''get_agent_id'' then ini_agents it
      else if cmd = ''get_agent_details'' then ini_agent_details cd it
      else if cmd = ''get_agent_metadata'' then ini_agent_metadata cd it
      else if cmd = ''get_agent_service'' then ini_agent_service_config cd it
      else if cmd = ''get_agent'' then ini_get_agent cd it
      else if cmd = ''get_agent_owner'' then ini_get_agent_owner cd it
      else if cmd = ''get_metadata'' then ini_get_metadata cd it
      else if cmd = ''get_agent_service_config'' then ini_get_agent_service_config cd it
      else Inl (''unknown command: '' @ cmd))"

section \<open>Commands of the validation registry\<close>

definition inv_deploy :: "codec \<Rightarrow> interact \<Rightarrow> outgoing panics" where
  "inv_deploy cd it = (let identity_registry = 0
     in Inr (Deploy (wallet_address it) 30000000 (vap_init cd identity_registry) (contract_code it)))"

definition inv_upgrade :: "interact \<Rightarrow> outgoing panics" where
  "inv_upgrade it = upgrade_tx it vap_upgrade"

definition inv_init_job :: "codec \<Rightarrow> interact \<Rightarrow> outgoing panics" where
  "inv_init_job cd it = (let tk = ''''; tk_nonce = 0; token_amount = 0; job_id = ''''; nonce = 0;
       service_id = Some 0
     in transact it (vap_init_job cd job_id nonce service_id) 0 [\<lparr>token_identifier = tk,
       token_nonce = tk_nonce, amount = token_amount\<rparr>])"

definition inv_submit_proof :: "interact \<Rightarrow> outgoing panics" where
  "inv_submit_proof it = (let job_id = ''''; pr = ''''
     in transact it (vap_submit_proof job_id pr) 0 [])"

definition inv_validation_request :: "codec \<Rightarrow> interact \<Rightarrow> outgoing panics" where
  "inv_validation_request cd it = (let job_id = ''''; validator_address = 0; request_uri = '''';
       request_hash = ''''
     in transact it (vap_validation_request cd job_id validator_address request_uri request_hash) 0 [])"

definition inv_validation_response :: "codec \<Rightarrow> interact \<Rightarrow> outgoing panics" where
  "inv_validation_response cd it = (let request_hash = ''''; response_val = 0; response_uri = '''';
       response_hash = ''''; tag = ''''
     in transact it (vap_validation_response cd request_hash response_val response_uri response_hash
       tag) 0 [])"

definition inv_clean_old_jobs :: "interact \<Rightarrow> outgoing panics" where
  "inv_clean_old_jobs it = (let job_ids = ['''']
     in transact it (vap_clean_old_jobs job_ids) 0 [])"

definition inv_is_job_verified :: "interact \<Rightarrow> outgoing panics" where
  "inv_is_job_verified it = (let job_id = ''''
     in query it (vap_is_job_verified job_id))"

definition inv_get_job_data :: "interact \<Rightarrow> outgoing panics" where
  "inv_get_job_data it = (let job_id = ''''
     in query it (vap_get_job_data job_id))"

definition inv_set_identity_registry_address :: "codec \<Rightarrow> interact \<Rightarrow> outgoing panics" where
  "inv_set_identity_registry_address cd it = (let address = 0
     in transact it (vap_set_identity_registry_address cd address) 0 [])"

definition validation_command :: "codec \<Rightarrow> interact \<Rightarrow> string \<Rightarrow> outgoing panics" where
  "validation_command cd it cmd =
     (if cmd = ''deploy'' then inv_deploy cd it
      else if cmd = ''upgrade'' then inv_upgrade it
      else if cmd = ''init_job'' then inv_init_job cd it
      else if cmd = ''submit_proof'' then inv_submit_proof it
      else if cmd = ''validation_request'' then inv_validation_request cd it
      else if cmd = ''validation_response'' then inv_validation_response cd it
      else if cmd = ''clean_old_jobs'' then inv_clean_old_jobs it
      else if cmd = ''is_job_verified'' then inv_is_job_verified it
      else if cmd = ''get_job_data'' then inv_get_job_data it
      else if cmd = ''set_identity_registry_address'' then inv_set_identity_registry_address cd it
      else Inl (''unknown command: '' @ cmd))"

section \<open>Commands of the reputation registry\<close>

definition inr_deploy :: "codec \<Rightarrow> interact \<Rightarrow> outgoing panics" where
  "inr_deploy cd it = (let validation_contract = 0; identity_contract = 0
     in Inr (Deploy (wallet_address it) 30000000 (rpp_init cd validation_contract identity_contract)
       (contract_code it)))"

definition inr_upgrade :: "interact \<Rightarrow> outgoing panics" where
  "inr_upgrade it = upgrade_tx it rpp_upgrade"

definition inr_give_feedback_simple :: "codec \<Rightarrow> interact \<Rightarrow> outgoing panics" where
  "inr_give_feedback_simple cd it = (let job_id = ''''; nonce = 0; rating = 0
     in transact it (rpp_give_feedback_simple cd job_id nonce rating) 0 [])"

definition inr_give_feedback :: "codec \<Rightarrow> interact \<Rightarrow> outgoing panics" where
  "inr_give_feedback cd it = (let nonce = 0; v = 0; value_decimals = 0; tag1 = ''''; tag2 = '''';
       ep = ''''; feedback_uri = ''''; feedback_hash = ''''
     in transact it (rpp_give_feedback cd nonce v value_decimals tag1 tag2 ep feedback_uri
       feedback_hash) 0 [])"

definition inr_revoke_feedback :: "codec \<Rightarrow> interact \<Rightarrow> outgoing panics" where
  "inr_revoke_feedback cd it = (let nonce = 0; feedback_index = 0
     in transact it (rpp_revoke_feedback cd nonce feedback_index) 0 [])"

definition inr_append_response :: "interact \<Rightarrow> outgoing panics" where
  "inr_append_response it = (let job_id = ''''; response_uri = ''''
     in transact it (rpp_append_response job_id response_uri) 0 [])"

definition inr_reputation_score :: "codec \<Rightarrow> interact \<Rightarrow> outgoing panics" where
  "inr_reputation_score cd it = (let nonce = 0
     in query it (rpp_reputation_score cd nonce))"

definition inr_total_jobs :: "codec \<Rightarrow> interact \<Rightarrow> outgoing panics" where
  "inr_total_jobs cd it = (let nonce = 0
     in query it (rpp_total_jobs cd nonce))"

definition inr_validation_contract_address :: "interact \<Rightarrow> outgoing panics" where
  "inr_validation_contract_address it = query it rpp_validation_contract_address"

definition inr_identity_contract_address :: "interact \<Rightarrow> outgoing panics" where
  "inr_identity_contract_address it = query it rpp_identity_contract_address"

definition inr_has_given_feedback :: "interact \<Rightarrow> outgoing panics" where
  "inr_has_given_feedback it = (let job_id = ''''
     in query it (rpp_has_given_feedback job_id))"

definition inr_read_feedback :: "codec \<Rightarrow> interact \<Rightarrow> outgoing panics" where
  "inr_read_feedback cd it = (let nonce = 0; client = 0; feedback_index = 0
     in query it (rpp_read_feedback cd nonce client feedback_index))"

definition inr_agent_response :: "interact \<Rightarrow> outgoing panics" where
  "inr_agent_response it = (let job_id = ''''
     in query it (rpp_agent_response job_id))"

definition inr_set_identity_contract_address :: "codec \<Rightarrow> interact \<Rightarrow> outgoing panics" where
  "inr_set_identity_contract_address cd it = (let address = 0
     in transact it (rpp_set_identity_contract_address cd address) 0 [])"

definition inr_set_validation_contract_address :: "codec \<Rightarrow> interact \<Rightarrow> outgoing panics" where
  "inr_set_validation_contract_address cd it = (let address = 0
     in transact it (rpp_set_validation_contract_address cd address) 0 [])"

definition reputation_command :: "codec \<Rightarrow> interact \<Rightarrow> string \<Rightarrow> outgoing panics" where
  "reputation_command cd it cmd =
     (if cmd = ''deploy'' then inr_deploy cd it
      else if cmd = ''upgrade'' then inr_upgrade it
      else if cmd = ''giveFeedbackSimple'' then inr_give_feedback_simple cd it
      else if cmd = ''giveFeedback'' then inr_give_feedback cd it
      else if cmd = ''revokeFeedback'' then inr_revoke_feedback cd it
      else if cmd = ''append_response'' then inr_append_response it
      else if cmd = ''get_reputation_score'' then inr_reputation_score cd it
      else if cmd = ''get_total_jobs'' then inr_total_jobs cd it
      else if cmd = ''get_validation_contract_address'' then inr_validation_contract_address it
      else if cmd = ''get_identity_contract_address'' then inr_identity_contract_address it
      else if cmd = ''has_given_feedback'' then inr_has_given_feedback it
      else if cmd = ''readFeedback'' then inr_read_feedback cd it
      else if cmd = ''get_agent_response'' then inr_agent_response it
      else if cmd = ''set_identity_contract_address'' then inr_set_identity_contract_address cd it
      else if cmd = ''set_validation_contract_address'' then inr_set_validation_contract_address cd it
      else Inl (''unknown command: '' @ cmd))"

section \<open>Configuration (config.rs)\<close>

datatype chain_type = RealChain | Simulator

record config =
  cf_gateway_uri :: string
  cf_chain_type :: chain_type

definition chain_simulator_config :: config where
  "chain_simulator_config = \<lparr>cf_gateway_uri = ''http://localhost:8085'', cf_chain_type = Simulator\<rparr>"

definition use_chain_simulator :: "config \<Rightarrow> bool" where
  "use_chain_simulator cf = (case cf_chain_type cf of RealChain \<Rightarrow> False | Simulator \<Rightarrow> True)"

section \<open>One run\<close>

text \<open>
  The surroundings of a run: the configuration or the panic of reading it, connecting to its
  gateway, and the answer of the gateway to a deployment (the new address) and to anything else.
\<close>

record cli_env =
  read_config :: "config panics"
  connect :: "string \<Rightarrow> bool \<Rightarrow> unit panics"
  alice :: address
  built_code :: bytes
  run_deploy :: "outgoing \<Rightarrow> address panics"
  run_other :: "outgoing \<Rightarrow> unit panics"

definition new_interact :: "toml \<Rightarrow> cli_env \<Rightarrow> config \<Rightarrow> bytes option \<Rightarrow> interact panics" where
  "new_interact tm e cf file = (case connect e (cf_gateway_uri cf) (use_chain_simulator cf) of
     Inl p \<Rightarrow> Inl p
   | Inr _ \<Rightarrow> (case load_state tm file of
       Inl p \<Rightarrow> Inl p
     | Inr st \<Rightarrow> Inr \<lparr>wallet_address = alice e, contract_code = built_code e, it_state = st\<rparr>))"

fun is_deploy :: "outgoing \<Rightarrow> bool" where
  "is_deploy (Deploy a g p code) = True"
| "is_deploy out = False"

text \<open>What a run sent, with the address it learned, how it ended, and the file it left.\<close>

record cli_result =
  sent :: "(outgoing \<times> address option) list"
  ended :: "unit panics"
  left_file :: "bytes option"

definition finish :: "toml \<Rightarrow> cli_env \<Rightarrow> interact_state \<Rightarrow> outgoing \<Rightarrow> cli_result" where
  "finish tm e st out =
     (if is_deploy out
      then (case run_deploy e out of
          Inl p \<Rightarrow> \<lparr>sent = [(out, None)], ended = Inl p, left_file = drop_state tm st\<rparr>
        | Inr a \<Rightarrow> \<lparr>sent = [(out, Some a)], ended = Inr (), left_file = drop_state tm (set_address a st)\<rparr>)
      else \<lparr>sent = [(out, None)], ended = run_other e out, left_file = drop_state tm st\<rparr>)"

definition cli_run ::
  "toml \<Rightarrow> (interact \<Rightarrow> string \<Rightarrow> outgoing panics) \<Rightarrow> cli_env \<Rightarrow> string list \<Rightarrow> bytes option \<Rightarrow> cli_result" where
  "cli_run tm command e args file = (case args of
     _ # cmd # _ \<Rightarrow> (case read_config e of
       Inl p \<Rightarrow> \<lparr>sent = [], ended = Inl p, left_file = file\<rparr>
     | Inr cf \<Rightarrow> (case new_interact tm e cf file of
         Inl p \<Rightarrow> \<lparr>sent = [], ended = Inl p, left_file = file\<rparr>
       | Inr it \<Rightarrow> (case command it cmd of
           Inl p \<Rightarrow> \<lparr>sent = [], ended = Inl p, left_file = drop_state tm (it_state it)\<rparr>
         | Inr out \<Rightarrow> finish tm e (it_state it) out)))
   | _ \<Rightarrow> \<lparr>sent = [], ended = Inl ''at least one argument required'', left_file = file\<rparr>)"

text \<open>Runs one after the other, over the same file.\<close>

fun cli_session ::
  "toml \<Rightarrow> (interact \<Rightarrow> string \<Rightarrow> outgoing panics) \<Rightarrow> (cli_env \<times> string list) list \<Rightarrow> bytes option \<Rightarrow>
     (outgoing \<times> address option) list \<times> bytes option" where
  "cli_session tm command [] file = ([], file)"
| "cli_session tm command ((e, args) # runs) file =
     (let r = cli_run tm command e args file
      in map_prod (append (sent r)) id (cli_session tm command runs (left_file r)))"

section \<open>Where the commands go\<close>

text \<open>The receiver of what is sent; a deployment has none. The call inside, when it is one.\<close>

fun target :: "outgoing \<Rightarrow> address option" where
  "target (Deploy a g p code) = None"
| "target (Upgrade a to g p code b) = Some to"
| "target (Transact a to g p x ts) = Some to"
| "target (Query to p) = Some to"

fun inner_call :: "outgoing \<Rightarrow> proxy_call option" where
  "inner_call (Transact a to g p x ts) = Some p"
| "inner_call (Query to p) = Some p"
| "inner_call out = None"

text \<open>
  \<open>aimed k evs\<close>: with \<open>k\<close> as the contract known at first, everything in \<open>evs\<close> goes to the
  contract deployed last before it. \<open>latest k evs\<close> is the one deployed last of all.
\<close>

fun aimed :: "address option \<Rightarrow> (outgoing \<times> address option) list \<Rightarrow> bool" where
  "aimed k [] = True"
| "aimed k ((out, new) # evs) \<longleftrightarrow> (is_deploy out \<or> k \<noteq> None \<and> target out = k \<and> new = None) \<and>
     aimed (if new = None then k else new) evs"

fun latest :: "address option \<Rightarrow> (outgoing \<times> address option) list \<Rightarrow> address option" where
  "latest k [] = k"
| "latest k ((out, new) # evs) = latest (if new = None then k else new) evs"

lemma aimed_append: "aimed k (as @ bs) \<longleftrightarrow> aimed k as \<and> aimed (latest k as) bs"
  by (induction k as rule: aimed.induct) auto

lemma latest_append: "latest k (as @ bs) = latest (latest k as) bs"
  by (induction k as rule: latest.induct) auto

text \<open>A run sends nothing, or what its command makes of the state it loaded.\<close>

lemma cli_run_cases:
  assumes "load_state tm old = Inr st" and "r = cli_run tm command e args old"
  obtains (nothing) "sent r = []" and "left_file r \<in> {old, drop_state tm st}"
    | (sending) it cmd out where "it_state it = st" and "command it cmd = Inr out" and "r = finish tm e st out"
proof -
  have "sent r = [] \<and> left_file r \<in> {old, drop_state tm st} \<or>
    (\<exists>it cmd out. it_state it = st \<and> command it cmd = Inr out \<and> r = finish tm e st out)"
    using assms(1) unfolding assms(2) cli_run_def new_interact_def
    by (simp split: list.split sum.split) (metis interact.select_convs(3))
  then show ?thesis using that by blast
qed

lemma load_drop: "toml_documented tm \<Longrightarrow> load_state tm (drop_state tm st) = Inr st"
  by (simp add: load_state_def drop_state_def toml_documented_def)

text \<open>
  The contract between a command table and the run around it: a command either deploys or sends
  to the contract of the state, and it needs one for that.
\<close>

locale command_table =
  fixes command :: "interact \<Rightarrow> string \<Rightarrow> outgoing panics"
  assumes aims: "command it cmd = Inr out \<Longrightarrow>
    is_deploy out \<or> (\<exists>a. known_contract (it_state it) = Some a \<and> target out = Some a)"
begin

lemma finish_aimed:
  assumes "toml_documented tm" and "is_deploy out \<or> (\<exists>a. known_contract st = Some a \<and> target out = Some a)"
    and "r = finish tm e st out"
  shows "aimed (known_contract st) (sent r) \<and>
    load_state tm (left_file r) = Inr \<lparr>known_contract = latest (known_contract st) (sent r)\<rparr>"
  using assms(2) unfolding assms(3)
  by (cases "is_deploy out") (auto simp: finish_def load_drop [OF assms(1)] set_address_def split: sum.split)

lemma run_aimed:
  assumes "toml_documented tm" and "load_state tm old = Inr st" and "r = cli_run tm command e args old"
  shows "aimed (known_contract st) (sent r) \<and>
    load_state tm (left_file r) = Inr \<lparr>known_contract = latest (known_contract st) (sent r)\<rparr>"
  using assms(2,3)
proof (cases rule: cli_run_cases)
  case nothing
  then show ?thesis using load_drop [OF assms(1)] assms(2) by auto
next
  case (sending it cmd out)
  then show ?thesis using finish_aimed [OF assms(1) aims [OF sending(2)]] by simp
qed

lemma session_aimed:
  assumes "toml_documented tm"
  shows "load_state tm old = Inr st \<Longrightarrow> cli_session tm command runs old = (evs, new) \<Longrightarrow>
    aimed (known_contract st) evs \<and> load_state tm new = Inr \<lparr>known_contract = latest (known_contract st) evs\<rparr>"
proof (induction runs arbitrary: old st evs)
  case Nil
  then show ?case by auto
next
  case (Cons x runs)
  obtain e args where x: "x = (e, args)" by (cases x)
  define r where "r = cli_run tm command e args old"
  obtain evs2 where rest: "cli_session tm command runs (left_file r) = (evs2, new)" and
    evs: "evs = sent r @ evs2"
    using Cons.prems(2) by (cases "cli_session tm command runs (left_file r)") (auto simp: x Let_def r_def)
  from run_aimed [OF assms Cons.prems(1) r_def] Cons.IH [OF _ rest] show ?case
    by (auto simp: evs aimed_append latest_append)
qed

end

lemmas ini_defs = ini_deploy_def ini_upgrade_def ini_issue_token_def ini_register_agent_def
  ini_update_agent_def ini_set_metadata_def ini_set_service_configs_endpoint_def ini_remove_metadata_def
  ini_remove_service_configs_def ini_agent_token_id_def ini_agents_def ini_agent_details_def
  ini_agent_metadata_def ini_agent_service_config_def ini_get_agent_def ini_get_agent_owner_def
  ini_get_metadata_def ini_get_agent_service_config_def

lemmas inv_defs = inv_deploy_def inv_upgrade_def inv_init_job_def inv_submit_proof_def
  inv_validation_request_def inv_validation_response_def inv_clean_old_jobs_def inv_is_job_verified_def
  inv_get_job_data_def inv_set_identity_registry_address_def

lemmas inr_defs = inr_deploy_def inr_upgrade_def inr_give_feedback_simple_def inr_give_feedback_def
  inr_revoke_feedback_def inr_append_response_def inr_reputation_score_def inr_total_jobs_def
  inr_validation_contract_address_def inr_identity_contract_address_def inr_has_given_feedback_def
  inr_read_feedback_def inr_agent_response_def inr_set_identity_contract_address_def
  inr_set_validation_contract_address_def

text \<open>\<open>to_known it r\<close>: the result \<open>r\<close> of a command that needs the contract of the state.\<close>

definition to_known :: "interact \<Rightarrow> outgoing panics \<Rightarrow> bool" where
  "to_known it r \<longleftrightarrow> (\<forall>out. r = Inr out \<longrightarrow>
     is_deploy out \<or> (\<exists>a. known_contract (it_state it) = Some a \<and> target out = Some a))"

lemma to_known_simps [simp]:
  "to_known it (Inl e)" "to_known it (Inr (Deploy a g p code))" "to_known it (upgrade_tx it p)"
  "to_known it (transact it p x ts)" "to_known it (query it p)"
  by (auto simp: to_known_def upgrade_tx_def transact_def query_def current_address_def split: option.splits)

lemma commands_to_known:
  "to_known it (identity_command cd it cmd)" "to_known it (validation_command cd it cmd)"
  "to_known it (reputation_command cd it cmd)"
  by (simp_all add: identity_command_def validation_command_def reputation_command_def ini_defs inv_defs
    inr_defs Let_def)

interpretation ini: command_table "identity_command cd" for cd
  using commands_to_known(1) by unfold_locales (auto simp: to_known_def)

interpretation inv: command_table "validation_command cd" for cd
  using commands_to_known(2) by unfold_locales (auto simp: to_known_def)

interpretation inr: command_table "reputation_command cd" for cd
  using commands_to_known(3) by unfold_locales (auto simp: to_known_def)

section \<open>What the contracts make of the commands\<close>

text \<open>
  \<open>inner_ok good r\<close>: when the result \<open>r\<close> of a command is a transaction or a query, the call
  inside satisfies \<open>good\<close>.
\<close>

definition inner_ok :: "(proxy_call \<Rightarrow> bool) \<Rightarrow> outgoing panics \<Rightarrow> bool" where
  "inner_ok good r \<longleftrightarrow> (\<forall>out p. r = Inr out \<longrightarrow> inner_call out = Some p \<longrightarrow> good p)"

lemma inner_ok_simps [simp]:
  "inner_ok good (Inl e)" "inner_ok good (Inr (Deploy a g p code))" "inner_ok good (upgrade_tx it p)"
  "good p \<Longrightarrow> inner_ok good (transact it p x ts)" "good p \<Longrightarrow> inner_ok good (query it p)"
  by (auto simp: inner_ok_def upgrade_tx_def transact_def query_def split: sum.splits)

definition decoded :: "(bytes \<Rightarrow> bytes list \<Rightarrow> 'm res) \<Rightarrow> proxy_call \<Rightarrow> bool" where
  "decoded ep p \<longleftrightarrow> (\<exists>m. ep (pc_function p) (pc_args p) = Inr m)"

lemma decoded_simps [simp]:
  "decoded ep (not_payable_call f as) \<longleftrightarrow> (\<exists>m. ep f as = Inr m)"
  "decoded ep (open_call f as) \<longleftrightarrow> (\<exists>m. ep f as = Inr m)"
  by (simp_all add: decoded_def not_payable_call_def open_call_def)

lemma inner_ok_if: "(c \<Longrightarrow> inner_ok good a) \<Longrightarrow> (\<not> c \<Longrightarrow> inner_ok good b) \<Longrightarrow> inner_ok good (if c then a else b)"
  by simp

lemma validation_commands_decoded:
  "codec_documented cd \<Longrightarrow> inner_ok (decoded (validation_endpoint cd)) (validation_command cd it cmd)"
  unfolding validation_command_def
  by (intro inner_ok_if) (simp_all add: inv_defs vap_defs validation_endpoint_def codec_simps)

lemma reputation_commands_decoded:
  "codec_documented cd \<Longrightarrow> inner_ok (decoded (reputation_endpoint cd)) (reputation_command cd it cmd)"
  unfolding reputation_command_def
  by (intro inner_ok_if) (simp_all add: inr_defs rpp_defs reputation_endpoint_def codec_simps)

text \<open>Three commands of the identity registry send a list without its length.\<close>

definition listing_commands :: "string list" where
  "listing_commands = [''register_agent'', ''set_metadata'', ''set_service_configs'']"

lemma identity_commands_decoded:
  "codec_documented cd \<Longrightarrow>
     inner_ok (\<lambda>p. decoded (identity_endpoint cd) p \<longleftrightarrow> cmd \<notin> set listing_commands) (identity_command cd it cmd)"
  unfolding identity_command_def
  by (intro inner_ok_if) (simp_all add: ini_defs idp_defs identity_endpoint_def codec_simps listing_commands_def
    counted_args_def multi_args_def)

section \<open>Properties\<close>

text \<open>
  C33. The tools follow the deployment. Take any sequence of runs of one of the three tools that
  starts without a state file, with any arguments and any answers of the gateway, panics in
  between included. Everything a run sends other than a deployment goes to the contract that the
  last successful deployment before it created, nothing but deployments is sent before there is
  one, and the file left behind holds exactly the address of the last one.
\<close>

theorem interactors_follow_deployment:
  assumes "toml_documented tm"
    and "command \<in> {identity_command cd, validation_command cd, reputation_command cd}"
    and "cli_session tm command runs None = (evs, new)"
  shows "aimed None evs \<and> load_state tm new = Inr \<lparr>known_contract = latest None evs\<rparr>"
proof -
  have fresh: "load_state tm None = Inr \<lparr>known_contract = None\<rparr>" by (simp add: load_state_def)
  have "command_table command"
    using assms(2) ini.command_table_axioms inv.command_table_axioms inr.command_table_axioms by auto
  from command_table.session_aimed [OF this assms(1) fresh assms(3)] show ?thesis by simp
qed

text \<open>
  A job asked for too early, a deployment that fails, one that succeeds, and the job again.
\<close>

definition demo_toml :: toml where
  "demo_toml = \<lparr>to_toml = (\<lambda>st. case known_contract st of None \<Rightarrow> [] | Some a \<Rightarrow> bytes32 a),
     from_toml = (\<lambda>b. if b = [] then Inr \<lparr>known_contract = None\<rparr>
       else Inr \<lparr>known_contract = mx_dec_address b\<rparr>)\<rparr>"

lemma demo_toml_documented: "toml_documented demo_toml"
proof -
  have "from_toml demo_toml (to_toml demo_toml st) = Inr st" for st
  proof (cases "known_contract st")
    case None
    then show ?thesis by (cases st) (simp add: demo_toml_def)
  next
    case (Some a)
    have "bytes32 a \<noteq> []" by (metis length_bytes32 list.size(3) zero_neq_numeral)
    with Some show ?thesis
      by (cases st) (simp add: demo_toml_def mx_dec_address_def bytes32_def word_be_bytes)
  qed
  then show ?thesis by (simp add: toml_documented_def)
qed

definition demo_cli :: "address panics \<Rightarrow> cli_env" where
  "demo_cli answer = \<lparr>read_config = Inr chain_simulator_config, connect = (\<lambda>_ _. Inr ()), alice = 7,
     built_code = ''wasm'', run_deploy = (\<lambda>_. answer), run_other = (\<lambda>_. Inr ())\<rparr>"

definition demo_runs :: "(cli_env \<times> string list) list" where
  "demo_runs = [(demo_cli (Inr 500), [''tool'', ''init_job'']), (demo_cli (Inl ''out of gas''), [''tool'', ''deploy'']),
     (demo_cli (Inr 500), [''tool'', ''deploy'']), (demo_cli (Inr 600), [''tool'', ''init_job''])]"

definition demo_sent :: "(outgoing \<times> address option) list" where
  "demo_sent = [(Deploy 7 30000000 (vap_init mx_codec 0) ''wasm'', None),
     (Deploy 7 30000000 (vap_init mx_codec 0) ''wasm'', Some 500),
     (Transact 7 500 30000000 (vap_init_job mx_codec [] 0 (Some 0)) 0
       [\<lparr>token_identifier = [], token_nonce = 0, amount = 0\<rparr>], None)]"

lemma demo_cli_session: "fst (cli_session demo_toml (validation_command mx_codec) demo_runs None) = demo_sent"
  using load_drop [OF demo_toml_documented]
  by (simp add: demo_runs_def demo_cli_def cli_run_def new_interact_def finish_def validation_command_def
    inv_deploy_def inv_init_job_def transact_def current_address_def set_address_def demo_sent_def Let_def
    load_state_def [of _ None])

theorem interactors_follow_deployment_witness:
  "aimed None demo_sent \<and>
   load_state demo_toml (snd (cli_session demo_toml (validation_command mx_codec) demo_runs None))
     = Inr \<lparr>known_contract = Some 500\<rparr>"
  using interactors_follow_deployment [OF demo_toml_documented, of "validation_command mx_codec" mx_codec
      demo_runs demo_sent, OF _ prod_eqI] demo_cli_session
  by (simp add: demo_sent_def)

end
