(* ===== verification/Commit_Reveal.thy ===== *)
theory Commit_Reveal
  imports Scheduler_State
begin

text \<open>
  The archived commit-reveal module of the Scheduler (contracts/scheduler/src/commit\_reveal.rs).
  The contract does not include it any more, and three things it uses are gone from the
  repository: the storage of tasks by number, that of commits, and the timestamp helper. A task
  is therefore the two fields the module reads and writes, the storages are fields that extend
  the state of the Scheduler, and the timestamp is a function of the transaction.
\<close>

section \<open>State\<close>

record commit_info =
  ci_keeper :: address
  ci_commit_hash :: hash32
  ci_commit_timestamp :: u64
  ci_bond :: nat

record archived_task =
  at_status :: task_status
  at_assigned_keeper :: "address option"

record commit_reveal = sched +
  cr_tasks :: "u64 \<rightharpoonup> archived_task"
  cr_commits :: "u64 \<rightharpoonup> commit_info"

section \<open>Endpoints\<close>

definition commit_task ::
  "(ctx \<Rightarrow> u64) \<Rightarrow> ctx \<Rightarrow> u64 \<Rightarrow> hash32 \<Rightarrow> commit_reveal \<Rightarrow> commit_reveal res" where
  "commit_task clock c task_id commit_hash s0 = payable_egld c (let s = receive c s0 in
     require_not_paused s (
     let keeper = caller c in
     bind_res (require_registered_keeper keeper (sched.truncate s)) (\<lambda>_.
     bind_res (get_slot (cr_tasks s task_id)) (\<lambda>t.
     require (at_status t = Pending) ''Task not Pending'' (
     let bond = egld_value c in
     require (commit_bond s \<le> bond) ''Bond below minimum'' (
     let info = \<lparr>ci_keeper = keeper, ci_commit_hash = commit_hash, ci_commit_timestamp = clock c, ci_bond = bond\<rparr>
     in Inr (s\<lparr>cr_commits := (cr_commits s)(task_id \<mapsto> info),
          cr_tasks := (cr_tasks s)(task_id \<mapsto> t\<lparr>at_status := Committed, at_assigned_keeper := Some keeper\<rparr>)\<rparr>)))))))"

definition commitment :: "(bytes \<Rightarrow> hash32) \<Rightarrow> u64 \<Rightarrow> bytes \<Rightarrow> hash32" where
  "commitment keccak task_id salt = keccak (u64_be task_id @ salt)"

definition reveal_task ::
  "(bytes \<Rightarrow> hash32) \<Rightarrow> (ctx \<Rightarrow> u64) \<Rightarrow> ctx \<Rightarrow> u64 \<Rightarrow> bytes \<Rightarrow> commit_reveal \<Rightarrow> commit_reveal res" where
  "reveal_task keccak clock c task_id salt s = not_payable c (require_not_paused s (
     let keeper = caller c in
     bind_res (get_slot (cr_tasks s task_id)) (\<lambda>t.
     require (at_status t = Committed) ''Task not Committed'' (
     bind_res (get_slot (cr_commits s task_id)) (\<lambda>info.
     require (ci_keeper info = keeper) ''Not the committing keeper'' (
     require (clock c \<le> ci_commit_timestamp info + reveal_window s) ''Reveal window expired -- bond slashed'' (
     require (commitment keccak task_id salt = ci_commit_hash info) ''Hash mismatch -- invalid salt'' (
     bind_res (direct_egld keeper (ci_bond info) s) (\<lambda>s.
     Inr (s\<lparr>cr_tasks := (cr_tasks s)(task_id \<mapsto> t\<lparr>at_status := Pending\<rparr>),
            cr_commits := (cr_commits s)(task_id := None)\<rparr>))))))))))"

definition slash_expired_commit ::
  "(ctx \<Rightarrow> u64) \<Rightarrow> ctx \<Rightarrow> u64 \<Rightarrow> commit_reveal \<Rightarrow> commit_reveal res" where
  "slash_expired_commit clock c task_id s = not_payable c (
     bind_res (get_slot (cr_tasks s task_id)) (\<lambda>t.
     require (at_status t = Committed) ''Task not in Committed state'' (
     bind_res (get_slot (cr_commits s task_id)) (\<lambda>info.
     require (ci_commit_timestamp info + reveal_window s < clock c) ''Reveal window not expired yet'' (
     bind_res (get_slot (rewards_addr s)) (\<lambda>rewards.
     bind_res (direct_egld rewards (ci_bond info) s) (\<lambda>s.
     Inr (s\<lparr>cr_tasks := (cr_tasks s)(task_id \<mapsto> t\<lparr>at_status := Pending, at_assigned_keeper := None\<rparr>),
            cr_commits := (cr_commits s)(task_id := None)\<rparr>))))))))"

section \<open>Inversion\<close>

lemma commit_task_Inr:
  "commit_task clock c i h s = Inr t \<longleftrightarrow> esdt_transfers c = [] \<and> \<not> paused s \<and>
     caller c \<in> set (whitelisted_keepers s) \<and> commit_bond s \<le> egld_value c \<and>
     (\<exists>k. cr_tasks s i = Some k \<and> at_status k = Pending \<and>
        t = (receive c s)\<lparr>cr_commits := (cr_commits s)(i \<mapsto>
              \<lparr>ci_keeper = caller c, ci_commit_hash = h, ci_commit_timestamp = clock c, ci_bond = egld_value c\<rparr>),
            cr_tasks := (cr_tasks s)(i \<mapsto> k\<lparr>at_status := Committed, at_assigned_keeper := Some (caller c)\<rparr>)\<rparr>)"
  by (auto simp: commit_task_def res_simps sched_simps sched.defs Let_def receive_def)

lemma reveal_task_Inr:
  "reveal_task H clock c i salt s = Inr t \<longleftrightarrow> egld_value c = 0 \<and> esdt_transfers c = [] \<and> \<not> paused s \<and>
     (\<exists>k info. cr_tasks s i = Some k \<and> at_status k = Committed \<and> cr_commits s i = Some info \<and>
        ci_keeper info = caller c \<and> clock c \<le> ci_commit_timestamp info + reveal_window s \<and>
        commitment H i salt = ci_commit_hash info \<and> ci_bond info \<le> egld_balance s \<and>
        t = s\<lparr>egld_balance := egld_balance s - ci_bond info,
            outbox := outbox s @ [SendEgld (caller c) (ci_bond info)],
            cr_tasks := (cr_tasks s)(i \<mapsto> k\<lparr>at_status := Pending\<rparr>), cr_commits := (cr_commits s)(i := None)\<rparr>)"
  by (auto simp: reveal_task_def res_simps Let_def)

lemma slash_expired_commit_Inr:
  "slash_expired_commit clock c i s = Inr t \<longleftrightarrow> egld_value c = 0 \<and> esdt_transfers c = [] \<and>
     (\<exists>k info to. cr_tasks s i = Some k \<and> at_status k = Committed \<and> cr_commits s i = Some info \<and>
        ci_commit_timestamp info + reveal_window s < clock c \<and> rewards_addr s = Some to \<and>
        ci_bond info \<le> egld_balance s \<and>
        t = s\<lparr>egld_balance := egld_balance s - ci_bond info, outbox := outbox s @ [SendEgld to (ci_bond info)],
            cr_tasks := (cr_tasks s)(i \<mapsto> k\<lparr>at_status := Pending, at_assigned_keeper := None\<rparr>),
            cr_commits := (cr_commits s)(i := None)\<rparr>)"
  by (auto simp: slash_expired_commit_def res_simps Let_def)

section \<open>The bonds\<close>

datatype commit_call = CommitTask u64 hash32 | RevealTask u64 bytes | SlashExpiredCommit u64

inductive commit_step ::
  "(bytes \<Rightarrow> hash32) \<Rightarrow> (ctx \<Rightarrow> u64) \<Rightarrow> commit_reveal \<Rightarrow> ctx \<times> commit_call \<Rightarrow> commit_reveal \<Rightarrow> bool"
  for H clock where
  "commit_task clock c i h s = Inr t \<Longrightarrow> commit_step H clock s (c, CommitTask i h) t"
| "reveal_task H clock c i salt s = Inr t \<Longrightarrow> commit_step H clock s (c, RevealTask i salt) t"
| "slash_expired_commit clock c i s = Inr t \<Longrightarrow> commit_step H clock s (c, SlashExpiredCommit i) t"

inductive_cases commit_stepE [elim!]:
  "commit_step H clock s (c, CommitTask i h) t" "commit_step H clock s (c, RevealTask i salt) t"
  "commit_step H clock s (c, SlashExpiredCommit i) t"

definition bonds :: "commit_reveal \<Rightarrow> u64 \<Rightarrow> nat" where
  "bonds s i = (case cr_commits s i of None \<Rightarrow> 0 | Some info \<Rightarrow> ci_bond info)"

lemma bonds_update [simp]:
  "bonds (s\<lparr>cr_commits := (cr_commits s)(i := x)\<rparr>) =
     (bonds s)(i := (case x of None \<Rightarrow> 0 | Some info \<Rightarrow> ci_bond info))"
  by (auto simp: bonds_def fun_eq_iff)

lemma bonds_frame [simp]:
  "bonds (s\<lparr>cr_tasks := ts\<rparr>) = bonds s" "bonds (s\<lparr>egld_balance := b\<rparr>) = bonds s"
  "bonds (s\<lparr>outbox := os\<rparr>) = bonds s" "bonds (s\<lparr>esdt_balance := e\<rparr>) = bonds s"
  by (simp_all add: bonds_def fun_eq_iff)

text \<open>Open commits are those of committed tasks, and beside a given amount the contract holds their bonds.\<close>

definition commits_inv :: "nat \<Rightarrow> commit_reveal \<Rightarrow> bool" where
  "commits_inv base s \<longleftrightarrow> fin_supp (bonds s) \<and> egld_balance s = base + fsum (bonds s) \<and>
     (\<forall>i. cr_commits s i \<noteq> None \<longleftrightarrow> (\<exists>k. cr_tasks s i = Some k \<and> at_status k = Committed))"

lemma commits_inv_open:
  assumes "commits_inv base s" and "cr_tasks s i = Some k" and "at_status k = Pending" and "esdt_transfers c = []"
    and "t = (receive c s)\<lparr>cr_commits := (cr_commits s)(i \<mapsto> info), cr_tasks := (cr_tasks s)(i \<mapsto> k')\<rparr>"
    and "ci_bond info = egld_value c" and "at_status k' = Committed"
  shows "commits_inv base t"
proof -
  have none: "cr_commits s i = None"
    using assms(1-3) unfolding commits_inv_def by (metis option.inject task_status.distinct(1))
  then have "fsum ((bonds s)(i := egld_value c)) = fsum (bonds s) + egld_value c"
    using fsum_update [of "bonds s" i "egld_value c"] assms(1) by (simp add: bonds_def commits_inv_def)
  moreover have "bonds t = (bonds s)(i := egld_value c)"
    using assms(5,6) by (auto simp: bonds_def fun_eq_iff receive_def)
  ultimately show ?thesis using assms by (auto simp: commits_inv_def receive_def)
qed

lemma commits_inv_close:
  assumes "commits_inv base s" and "cr_commits s i = Some info"
    and "t = s\<lparr>egld_balance := egld_balance s - ci_bond info, outbox := os,
          cr_tasks := (cr_tasks s)(i \<mapsto> k'), cr_commits := (cr_commits s)(i := None)\<rparr>"
    and "at_status k' = Pending"
  shows "commits_inv base t"
proof -
  have b: "bonds s i = ci_bond info" using assms(2) by (simp add: bonds_def)
  moreover have "bonds t = (bonds s)(i := 0)" using assms(3) by (auto simp: bonds_def fun_eq_iff)
  moreover have "fsum (bonds s) = ci_bond info + fsum ((bonds s)(i := 0))"
    using fsum_remove [of "bonds s" i] b assms(1) by (simp add: commits_inv_def)
  ultimately show ?thesis using assms by (auto simp: commits_inv_def)
qed

interpretation commits: invariant_system "commit_step H clock" "\<lambda>_. True" "commits_inv base" for H clock base
proof
  fix s l t assume "commit_step H clock s l t" and I: "commits_inv base s"
  then show "commits_inv base t"
  proof (cases rule: commit_step.cases)
    case (1 c i h)
    then show ?thesis unfolding commit_task_Inr using commits_inv_open [OF I] by fastforce
  next
    case (2 c i salt)
    then show ?thesis unfolding reveal_task_Inr using commits_inv_close [OF I] by fastforce
  next
    case (3 c i)
    then show ?thesis unfolding slash_expired_commit_Inr using commits_inv_close [OF I] by fastforce
  qed
qed

text \<open>
  Bonds are held and returned exactly. After any history of the module from a state without
  commits the contract holds, beside what it held before, exactly the bonds of the open
  commits, so a reveal or a slash that passes its checks can always pay.
\<close>

theorem bonds_held_exactly:
  assumes "cr_commits s = Map.empty" and "\<And>i k. cr_tasks s i = Some k \<Longrightarrow> at_status k \<noteq> Committed"
    and "run (commit_step H clock) s ls t"
  shows "egld_balance t = egld_balance s + fsum (bonds t)"
proof -
  have "bonds s = (\<lambda>_. 0)" using assms(1) by (auto simp: bonds_def)
  then have "commits_inv (egld_balance s) s" using assms(1,2) by (auto simp: commits_inv_def)
  then have "commits_inv (egld_balance s) t" using commits.run_inv [OF assms(3)] by (simp add: list_all_iff)
  then show ?thesis by (simp add: commits_inv_def)
qed

text \<open>
  Reveal and slash exclude each other: of an open commit whose window does not pass the end of
  the 64-bit clock, at any time either the keeper with the right salt can have the bond back or
  anybody can send it to the rewards contract, and never both.
\<close>

theorem reveal_or_slash:
  assumes "commits_inv base s" and "cr_commits s i = Some info" and "\<not> paused s" and "rewards_addr s = Some to"
    and "unat (ci_commit_timestamp info) + unat (reveal_window s) < 2 ^ 64"
    and "egld_value c = 0" and "esdt_transfers c = []" and "caller c = ci_keeper info"
    and "commitment H i salt = ci_commit_hash info"
  shows "(\<exists>t. reveal_task H clock c i salt s = Inr t) \<longleftrightarrow>
      unat (clock c) \<le> unat (ci_commit_timestamp info) + unat (reveal_window s)"
    and "(\<exists>t. slash_expired_commit clock c i s = Inr t) \<longleftrightarrow>
      unat (ci_commit_timestamp info) + unat (reveal_window s) < unat (clock c)"
proof -
  have "bonds s i = ci_bond info" using assms(2) by (simp add: bonds_def)
  then have funds: "ci_bond info \<le> egld_balance s"
    using fsum_ge [of "bonds s" i] assms(1) by (simp add: commits_inv_def)
  obtain k where k: "cr_tasks s i = Some k" "at_status k = Committed"
    using assms(1,2) by (auto simp: commits_inv_def)
  have "unat (ci_commit_timestamp info + reveal_window s) = unat (ci_commit_timestamp info) + unat (reveal_window s)"
    using assms(5) by (subst unat_add_lem [THEN iffD1]) simp_all
  then show "(\<exists>t. reveal_task H clock c i salt s = Inr t) \<longleftrightarrow>
      unat (clock c) \<le> unat (ci_commit_timestamp info) + unat (reveal_window s)"
    and "(\<exists>t. slash_expired_commit clock c i s = Inr t) \<longleftrightarrow>
      unat (ci_commit_timestamp info) + unat (reveal_window s) < unat (clock c)"
    using assms(2-4,6-9) funds k
    by (auto simp: reveal_task_Inr slash_expired_commit_Inr word_le_nat_alt word_less_nat_alt)
qed

text \<open>
  What a commitment is worth. Two salts that open the same commitment are the same, or they are
  a collision. But a reveal only puts the task back to pending: right afterwards every other
  registered keeper who posts the bond can commit to it, so the keeper who revealed has no
  claim on the execution.
\<close>

lemma commitment_binding:
  "commitment H i salt = commitment H i salt' \<Longrightarrow> salt = salt' \<or>
     (u64_be i @ salt \<noteq> u64_be i @ salt' \<and> H (u64_be i @ salt) = H (u64_be i @ salt'))"
  by (auto simp: commitment_def)

theorem reveal_gives_no_claim:
  assumes "reveal_task H clock c i salt s = Inr t" and "caller d \<in> set (whitelisted_keepers s)"
    and "commit_bond s \<le> egld_value d" and "esdt_transfers d = []"
  shows "\<exists>u. commit_task clock d i h t = Inr u"
  using assms by (auto simp: reveal_task_Inr commit_task_Inr)

end
