(* ===== verification/Linked_Scheduler.thy ===== *)
theory Linked_Scheduler
  imports Scheduler_Guards Intent_Properties Xwap_Properties
begin

text \<open>
  The Scheduler with the oracle and the state-compression contract of the repository behind its
  two queries: a synchronous call to the configured address runs the endpoint of that contract
  on its state, and the answer comes back through the boolean encoding of the framework.
\<close>

section \<open>The two links\<close>

text \<open>The framework's codec: a boolean decodes to itself.\<close>

definition bool_codec :: "(bool \<Rightarrow> bytes) \<Rightarrow> sched_env \<Rightarrow> bool" where
  "bool_codec enc e \<longleftrightarrow> (\<forall>b. decode_bool e (enc b) = Some b)"

definition xwap_at :: "address \<Rightarrow> u64 \<Rightarrow> xwap \<Rightarrow> (bool \<Rightarrow> bytes) \<Rightarrow> sched_env \<Rightarrow> bool" where
  "xwap_at a now w enc e \<longleftrightarrow>
     (\<forall>s. sync_call e a ''isSafeToExecute'' [] s = Inr ([enc (is_safe_to_execute now w)], s))"

definition xsc_at :: "address \<Rightarrow> xsc \<Rightarrow> (bool \<Rightarrow> bytes) \<Rightarrow> sched_env \<Rightarrow> bool" where
  "xsc_at a x enc e \<longleftrightarrow> (\<forall>h packed s. sync_call e a ''verifyProof'' [AHash h, ABytes packed] s =
     bind_res (verify_proof (sha256 e) (bytes32 h) packed x) (\<lambda>b. Inr ([enc b], s)))"

lemma first_bool_codec: "bool_codec enc e \<Longrightarrow> first_bool e [enc b] = b"
  by (simp add: bool_codec_def first_bool_def)

lemma market_asked:
  assumes "require_xwap_market_safe e s = Inr t" and "bool_codec enc e" and "xwap_at a now w enc e"
    and "xwap_address s = Some a" and "a \<noteq> 0"
  shows "is_safe_to_execute now w"
  using assms first_bool_codec [OF assms(2)]
  by (simp add: require_xwap_market_safe_def get_slot_def xwap_at_def res_simps)

section \<open>Market-gated execution\<close>

text \<open>
  C22. A task that asks for a safe market runs only in one. Let the oracle of the Scheduler be
  the contract of the repository, after any history of its own. When a task with that flag is
  executed by executeQuantumTask, with fewer than 2 to the 32 registered keepers and queried
  contracts that do not re-enter the Scheduler, keepers have reported lately; the configured
  share of all registered keepers agree within five percent with the median; the price is
  within the gate threshold of the median; and if a strict majority of the fresh reports lie
  in an interval, the price is within the threshold of that interval, whatever the others
  report.
\<close>

theorem market_gated_execution:
  assumes "execute_quantum_task e c tp sec s = Inr t" and "sync_pure e" and "t_require_xwap_safe tp"
    and "xwap_address s = Some a" and "a \<noteq> 0" and "bool_codec enc e" and "xwap_at a now w enc e"
    and "run xwap_step (xwap_init xc pool) ls w" and "length (registered_keepers w) < 2 ^ 32"
    and "ps = fresh_prices now (freshness_blocks w) (keeper_report_of w) (registered_keepers w)"
    and "m = get_median_off_chain now w" and "thr = unat (gate_threshold_permille w)"
  shows "ps \<noteq> [] \<and> 0 < m \<and> xwap_price w * 1000 < m * (1000 + thr) \<and> m * (1000 - thr) < xwap_price w * 1000 \<and>
     unat (consensus_min_permille w) * length (registered_keepers w) \<le>
       1000 * length (filter (agrees now (freshness_blocks w) m (keeper_report_of w)) (registered_keepers w)) \<and>
     (length ps < 2 * within lo hi ps \<longrightarrow>
        lo * (1000 - thr) \<le> xwap_price w * 1000 \<and> xwap_price w * 1000 < hi * (1000 + thr))"
proof -
  have "is_safe_to_execute now w"
    using assms(1)
  proof (cases rule: execute_quantum_task_Inr)
    case (1 h st)
    let ?s = "if t_confidential tp
      then s\<lparr>assigned_enclave_keeper := (assigned_enclave_keeper s)(h \<mapsto> caller c)\<rparr> else s"
    from 1(11) obtain s1 s2 where r: "require_task_ripe_quantum e c tp ?s = Inr s1"
      and x: "(if t_require_xwap_safe tp then require_xwap_market_safe e s1 else Inr s1) = Inr s2"
      by (rule dispatch_task_execution_Inr)
    have "xwap_address s1 = Some a" using ripe_pure [OF assms(2) r] assms(4) by simp
    then show ?thesis using x assms(3,5) market_asked [OF _ assms(6,7)] by simp
  qed
  with safe_market_agrees [OF assms(8-12), of lo hi] show ?thesis by blast
qed

text \<open>The small deployment with the oracle after one report and one update of the price.\<close>

definition flag :: "bool \<Rightarrow> bytes" where
  "flag b = (if b then ''1'' else ''0'')"

definition gated_env :: "xwap \<Rightarrow> sched_env" where
  "gated_env w = demo_env\<lparr>decode_bool := (\<lambda>r. Some (r = ''1'')),
     sync_call := (\<lambda>a f as s. Inr ([flag (is_safe_to_execute 11 w)], s))\<rparr>"

definition gated_task :: task where
  "gated_task = demo_task\<lparr>t_require_xwap_safe := True\<rparr>"

lemma gated_env_links:
  "sync_pure (gated_env w)" "bool_codec flag (gated_env w)" "xwap_at 88 11 w flag (gated_env w)"
  by (simp_all add: sync_pure_def bool_codec_def xwap_at_def gated_env_def flag_def)

lemma gated_execute:
  assumes "is_safe_to_execute 11 w"
  shows "\<exists>t. execute_quantum_task (gated_env w) (demo_ctx 50 0) gated_task None
     (demo_scheduled\<lparr>xwap_address := Some 88\<rparr>) = Inr t"
  using assms
  by (simp add: eval_defs demo_defs gated_env_def gated_task_def flag_def first_bool_def demo_scheduled_def
      require_xwap_market_safe_def)

theorem market_gated_execution_witness:
  "\<exists>w t. execute_quantum_task (gated_env w) (demo_ctx 50 0) gated_task None
       (demo_scheduled\<lparr>xwap_address := Some 88\<rparr>) = Inr t \<and>
     0 < get_median_off_chain 11 w \<and> SCALE * 900 \<le> xwap_price w * 1000"
proof -
  obtain es where r: "run xwap_step (xwap_init (xwap_ctx 100 0) 7)
     [(xwap_ctx 100 8, XwRegisterKeeper 50), (xwap_ctx 50 9, ReportPrice (2 * SCALE)),
      (xwap_ctx 9 10, UpdatePrice 5 10)] (safe_xwap es)" using safe_xwap_run ..
  obtain t where t: "execute_quantum_task (gated_env (safe_xwap es)) (demo_ctx 50 0) gated_task None
     (demo_scheduled\<lparr>xwap_address := Some 88\<rparr>) = Inr t" using gated_execute [OF safe_xwap_safe] by blast
  have n: "length (registered_keepers (safe_xwap es)) < 2 ^ 32" by (simp add: safe_xwap_fields)
  have g: "t_require_xwap_safe gated_task" "xwap_address (demo_scheduled\<lparr>xwap_address := Some 88\<rparr>) = Some 88"
    "(88 :: address) \<noteq> 0" by (simp_all add: gated_task_def)
  have "fresh_prices 11 2 [50 \<mapsto> \<lparr>kr_price = 2 * SCALE, kr_block = 9\<rparr>] [50] = [2 * SCALE]"
    by (simp add: is_fresh_def saturating_sub_def)
  then have "0 < get_median_off_chain 11 (safe_xwap es)" "SCALE * 900 \<le> xwap_price (safe_xwap es) * 1000"
    using market_gated_execution [OF t gated_env_links(1) g gated_env_links(2,3) r n refl refl refl,
        of SCALE "3 * SCALE"]
    by (simp_all add: safe_xwap_fields within_def SCALE_def)
  with t show ?thesis by blast
qed

section \<open>Compressed tasks\<close>

text \<open>
  A compressed task comes from the published tree. Let the state-compression contract hold the
  root of a tree whose leaf data do not start with the byte 0x01. When a compressed task is
  executed, the hash of its payload is the hash of a subtree at the depth of the proof, or the
  texts hashed for proof and tree contain an explicit collision of the hash function.
\<close>

theorem compressed_task_in_tree:
  assumes "execute_compressed_task e c tp packed s = Inr t" and "xsc_address s = Some a"
    and "bool_codec enc e" and "xsc_at a x enc e" and "xsc_merkle_root x = bytes32 (mroot (sha256 e) T)"
    and "\<forall>d \<in> leaf_data T. take 1 d \<noteq> [char_of (1::nat)]" and "h = sha256 e (encode_task e tp)"
  shows "\<exists>prf. length packed = 32 * length prf \<and>
     ((\<exists>S \<in> subtrees_at (length prf) T. mroot (sha256 e) S = h) \<or>
      (\<exists>u \<in> hashed_texts (sha256 e) T. \<exists>v \<in> proof_texts (sha256 e) h prf. u \<noteq> v \<and> sha256 e u = sha256 e v))"
  using assms(1)
proof (cases rule: execute_compressed_task_Inr)
  case (1 h' a' raw s1)
  then have q: "sync_call e a ''verifyProof'' [AHash h, ABytes packed] s = Inr (raw, s1)"
    using assms(2,7) by simp
  then obtain b where v: "verify_proof (sha256 e) (bytes32 h) packed x = Inr b" "raw = [enc b]"
    using assms(4) by (auto simp: xsc_at_def res_simps)
  have ok: "b" using 1(10) v(2) first_bool_codec [OF assms(3)] by simp
  obtain n where n: "length packed = 32 * n" "n \<le> 32" "\<not> xsc_is_paused x"
    using v(1) by (auto simp: verify_proof_def res_simps xsc_require_not_paused_def elim!: dvdE simp flip: dvd_eq_mod_eq_0)
  have "merkle_chain (sha256 e) h (siblings n packed) = mroot (sha256 e) T"
    using xsc_verifies [OF n(3) _ n(1,2), of "bytes32 h" "sha256 e"] v(1) ok assms(5) by simp
  from merkle_sound_aux [OF this assms(6)] show ?thesis
    using n(1) by (intro exI [of _ "siblings n packed"]) simp
qed

end
