(* ===== verification/Scheduled_Registry.thy ===== *)
theory Scheduled_Registry
  imports Scheduler_Properties Staked_Registry
begin

text \<open>
  The Scheduler and the keeper registry together. The Scheduler reports the outcome of a task
  with a call to \<open>recordExecution\<close> that it does not wait for and that it makes in a callback.
  Whether the network runs such a call is not decided by the code: comments in the Scheduler say
  that from a callback it does not. \<open>deliver_report\<close> is what the registry does if the call is run,
  with the Scheduler as its caller. What the registry decides about a keeper is not read by the
  Scheduler, which has a whitelist of its own.
\<close>

section \<open>Delivery of a report\<close>

definition is_report :: "address \<Rightarrow> effect \<Rightarrow> bool" where
  "is_report r msg = (case msg of
     TransferExecute to f [AAddr k, ABool b] x g \<Rightarrow> to = r \<and> f = ''recordExecution''
   | _ \<Rightarrow> False)"

definition deliver_report :: "address \<Rightarrow> ctx \<Rightarrow> effect \<Rightarrow> kreg \<Rightarrow> kreg res" where
  "deliver_report scheduler c msg w = (case msg of
     TransferExecute to f [AAddr keeper, ABool success] x g \<Rightarrow>
       if f = ''recordExecution'' then
         record_execution (c\<lparr>caller := scheduler, egld_value := x, esdt_transfers := []\<rparr>) keeper success w
       else Inl (VmError ''invalid function (not found)'')
   | _ \<Rightarrow> Inl (VmError ''invalid function (not found)''))"

text \<open>The messages an operation added to the outbox.\<close>

definition new_messages :: "'a account_scheme \<Rightarrow> 'b account_scheme \<Rightarrow> effect list" where
  "new_messages s t = drop (length (outbox s)) (outbox t)"

lemma reports_of_settlement:
  "filter (is_report r) (send_pos a x @ keeper_report k b s @ [Event n as]) = 
     (if keeper_registry_addr s = Some r
      then [TransferExecute r ''recordExecution'' [AAddr k, ABool b] 0 5000000] else [])"
  by (auto simp: send_pos_def keeper_report_def is_report_def split: option.splits)

section \<open>The registry takes every report\<close>

text \<open>
  A registry with an authorised reporter and a staking provider takes the failure of any
  registered keeper, as long as it can pay the slash where it has to pay it at once.
\<close>

lemma record_failure_total:
  assumes "keepers g k = Some info" and "staking_provider_addr g = Some p" and "treasury_addr g \<noteq> None"
    and "p = 0 \<longrightarrow> k_stake info \<le> egld_balance g"
    and "caller c \<in> set (authorized_callers g)" and "egld_value c = 0" and "esdt_transfers c = []"
  shows "\<exists>g'. record_execution c k False g = Inr g'"
proof -
  define n where "n = k_consecutive_failures info + 1"
  define x where "x = slash_of (k_stake info) (strike_bps n)"
  have "x \<le> k_stake info" by (simp add: x_def slash_of_le)
  then have "\<exists>u. collect_slash k x tr p g = Inr u" for tr
    using assms(4) by (auto simp: collect_slash_def direct_egld_def vm_require_def)
  moreover obtain tr where tr: "treasury_addr g = Some tr" using assms(3) by blast
  ultimately obtain u where "collect_slash k x tr p g = Inr u" by blast
  with tr show ?thesis
    using assms(1,2,5-7)
    by (simp add: record_execution_def record_failure_def require_authorized_caller_def not_payable_def
        get_slot_def Let_def n_def x_def)
qed

lemma report_of_failure:
  "deliver_report sc c (TransferExecute r ''recordExecution'' [AAddr k, ABool b] 0 gas) g =
     record_execution (c\<lparr>caller := sc, egld_value := 0, esdt_transfers := []\<rparr>) k b g"
  by (simp add: deliver_report_def)

lemma failed_callback:
  assumes "sched_inv s" and "i < length (promises s)" and "p = promises s ! i"
  obtains t st where "deliver_callback i False s = Inr t"
    "quantum_tasks s (ep_task_hash p) = Some st" "quantum_tasks t = (quantum_tasks s)(ep_task_hash p := None)"
    "new_messages s t = send_pos (q_owner st) (q_deposit st - bps_of (q_deposit st) (protocol_fee_bps s)) @
       keeper_report (ep_keeper p) False s @
       [Event ''taskExecutedQuantum'' [AHash (ep_task_hash p), AAddr (ep_keeper p), ABool False]]"
    "whitelisted_keepers t = whitelisted_keepers s" "keeper_registry_addr t = keeper_registry_addr s"
proof -
  define s1 where "s1 = s\<lparr>promises := take i (promises s) @ drop (Suc i) (promises s)\<rparr>"
  have inv1: "sched_inv s1" unfolding s1_def by (rule undelivered_inv [OF assms(1)])
  have "p \<in> set (promises s)" using assms(2,3) by simp
  then obtain st where st: "quantum_tasks s (ep_task_hash p) = Some st"
    using tasks_invD(6) assms(1) by (auto simp: sched_inv_def)
  then have st1: "quantum_tasks s1 (ep_task_hash p) = Some st" by (simp add: s1_def)
  from finalize_total(2) [OF inv1 st1] obtain t where
    t: "finalize_failed_execution (ep_task_hash p) (ep_target_contract p) (ep_keeper p) (q_deposit st) (q_owner st) s1 = Inr t"
    by blast
  then have d: "deliver_callback i False s = Inr t"
    using assms(2,3) st1 by (simp add: deliver_callback_def execution_callback_def s1_def [symmetric] Let_def)
  from t show ?thesis
  proof (cases rule: finalize_failed_Inr)
    case (1 fee failures)
    then show ?thesis
      by (intro that [OF d st]) (simp_all add: s1_def new_messages_def keeper_report_def)
  qed
qed

section \<open>A failed task costs its keeper\<close>

definition strike_of :: "keeper_info \<Rightarrow> nat" where
  "strike_of info = bps_of (k_stake info) (if k_consecutive_failures info = 0 then 500
     else if k_consecutive_failures info = 1 then 1500 else 2000)"


text \<open>A registry where keeper 50 has staked 1000, with a provider, which knows the Scheduler 200.\<close>

definition linked_registry :: kreg where
  "linked_registry = demo_registry\<lparr>egld_balance := 1000, keepers := [50 \<mapsto> demo_keeper 50],
     active_keeper_set := [50], outbox := [Event ''keeperRegistered'' [AAddr 50]],
     staking_provider_addr := Some 0, authorized_callers := [200]\<rparr>"

lemma linked_registry_run:
  "run (staked_step 55 demo_provider) (demo_registry, 0) [(kctx 50 1000 50000, RegistryCall RegisterKeeper),
     (kctx 100 0 50000, RegistryCall (SetStakingProvider 0)),
     (kctx 100 0 50000, RegistryCall (AddAuthorizedCaller 200))] (linked_registry, 0)"
proof -
  let ?s1 = "demo_registry\<lparr>egld_balance := 1000, keepers := [50 \<mapsto> demo_keeper 50],
     active_keeper_set := [50], outbox := [Event ''keeperRegistered'' [AAddr 50]]\<rparr>"
  have "register_keeper (kctx 50 1000 50000) demo_registry = Inr ?s1"
    and "set_staking_provider (kctx 100 0 50000) 0 ?s1 = Inr (?s1\<lparr>staking_provider_addr := Some 0\<rparr>)"
    and "add_authorized_caller (kctx 100 0 50000) 200 (?s1\<lparr>staking_provider_addr := Some 0\<rparr>) = Inr linked_registry"
    by (simp_all add: keval_defs kdemo_defs kr_owner_set_def set_staking_provider_def
        add_authorized_caller_def linked_registry_def)
  then show ?thesis by (auto intro!: run.intros staked_step.intros)
qed


end
