(* ===== verification/Task_Ledger.thy ===== *)
theory Task_Ledger
  imports Runtime
begin

text \<open>
  What the Scheduler promises about the money of a task, as an abstract machine. A ledger
  holds one entry per live task (its owner, its deposit and whether it is running) and the
  protocol fees. A deposit is opened once, and closes in one of two ways: cancelled while it
  waits or settled while it runs, and whatever way it closes, its deposit is split exactly.
  The theory also holds the notion of simulation with which a contract is shown to implement
  such a machine.
\<close>

section \<open>Functional simulation\<close>

text \<open>
  A run observed through an event map: every call contributes the event that the map assigns
  to it in the state it was made in.
\<close>

inductive observed ::
  "('s \<Rightarrow> 'l \<Rightarrow> 's \<Rightarrow> bool) \<Rightarrow> ('s \<Rightarrow> 'l \<Rightarrow> 'ev) \<Rightarrow> 's \<Rightarrow> 'l list \<Rightarrow> 'ev list \<Rightarrow> 's \<Rightarrow> bool"
  for step obs where
  observed_nil: "observed step obs s [] [] s"
| observed_cons: "step s l t \<Longrightarrow> observed step obs t ls evs u \<Longrightarrow>
    observed step obs s (l # ls) (obs s l # evs) u"

lemma observed_run: "observed step obs s ls evs t \<Longrightarrow> run step s ls t"
  by (induction rule: observed.induct) (auto intro: run.intros)

lemma run_observed: "run step s ls t \<Longrightarrow> \<exists>evs. observed step obs s ls evs t"
  by (induction rule: run.induct) (auto intro: observed.intros)

lemma observed_length: "observed step obs s ls evs t \<Longrightarrow> length evs = length ls"
  by (induction rule: observed.induct) auto

text \<open>
  Every admissible call of the implementation, made in a state that satisfies the invariant,
  is the step of the specification its event names. Then every history of the implementation
  is a history of the specification, and what the specification guarantees of its histories
  the implementation guarantees of the events of its own.
\<close>

locale simulation = invariant_system step ok I
  for step :: "'s \<Rightarrow> 'l \<Rightarrow> 's \<Rightarrow> bool" and ok :: "'l \<Rightarrow> bool" and I :: "'s \<Rightarrow> bool" +
  fixes astep :: "'a \<Rightarrow> 'ev \<Rightarrow> 'a \<Rightarrow> bool"
    and abst :: "'s \<Rightarrow> 'a"
    and obs :: "'s \<Rightarrow> 'l \<Rightarrow> 'ev"
  assumes step_simulated: "step s l t \<Longrightarrow> ok l \<Longrightarrow> I s \<Longrightarrow> astep (abst s) (obs s l) (abst t)"
begin

lemma run_simulated:
  "observed step obs s ls evs t \<Longrightarrow> list_all ok ls \<Longrightarrow> I s \<Longrightarrow> run astep (abst s) evs (abst t)"
proof (induction rule: observed.induct)
  case (observed_nil s)
  show ?case by (rule run.intros)
next
  case (observed_cons s l t ls evs u)
  have "astep (abst s) (obs s l) (abst t)" "run astep (abst t) evs (abst u)"
    using observed_cons step_simulated [of s l t] step_inv [of s l t] by simp_all
  then show ?case by (rule run_cons)
qed

lemma trace_transfer:
  assumes "\<And>evs b. run astep (abst s) evs b \<Longrightarrow> P evs b"
    and "observed step obs s ls evs t" and "list_all ok ls" and "I s"
  shows "P evs (abst t)"
  using assms(1) run_simulated [OF assms(2-4)] by blast

end

section \<open>The ledger\<close>

record entry =
  en_owner :: address
  en_deposit :: nat
  en_running :: bool

record ledger =
  live :: "hash32 \<rightharpoonup> entry"
  fees :: nat

datatype ledger_event =
    Opened hash32 address nat
  | Begun hash32
  | Settled hash32 address address nat nat nat
  | Withdrawn hash32 address nat nat
  | Flushed address nat
  | Silent

definition ledger_empty :: ledger where
  "ledger_empty = \<lparr>live = Map.empty, fees = 0\<rparr>"

inductive ledger_step :: "ledger \<Rightarrow> ledger_event \<Rightarrow> ledger \<Rightarrow> bool" where
  opened: "live L h = None \<Longrightarrow>
    ledger_step L (Opened h own d) (L\<lparr>live := (live L)(h \<mapsto> \<lparr>en_owner = own, en_deposit = d, en_running = False\<rparr>)\<rparr>)"
| begun: "live L h = Some en \<Longrightarrow> \<not> en_running en \<Longrightarrow>
    ledger_step L (Begun h) (L\<lparr>live := (live L)(h \<mapsto> en\<lparr>en_running := True\<rparr>)\<rparr>)"
| settled: "live L h = Some en \<Longrightarrow> en_running en \<Longrightarrow> en_owner en = own \<Longrightarrow>
    refund + reward + fee = en_deposit en \<Longrightarrow>
    ledger_step L (Settled h own keeper refund reward fee)
      (L\<lparr>live := (live L)(h := None), fees := fees L + fee\<rparr>)"
| withdrawn: "live L h = Some en \<Longrightarrow> \<not> en_running en \<Longrightarrow> en_owner en = own \<Longrightarrow>
    refund + fee = en_deposit en \<Longrightarrow>
    ledger_step L (Withdrawn h own refund fee) (L\<lparr>live := (live L)(h := None), fees := fees L + fee\<rparr>)"
| flushed: "ledger_step L (Flushed r (fees L)) (L\<lparr>fees := 0\<rparr>)"
| silent: "ledger_step L Silent L"

inductive_simps ledger_step_simps:
  "ledger_step L (Opened h own d) M" "ledger_step L (Begun h) M"
  "ledger_step L (Settled h own k refund reward fee) M"
  "ledger_step L (Withdrawn h own refund fee) M" "ledger_step L (Flushed r x) M"
  "ledger_step L Silent M"

section \<open>What the ledger guarantees\<close>

text \<open>
  What an event brings in under a task hash, what it pays out under it, the fee part of it,
  what it sends where, and what is held for a hash.
\<close>

fun brought_in :: "hash32 \<Rightarrow> ledger_event \<Rightarrow> nat" where
  "brought_in h (Opened h' own d) = (if h' = h then d else 0)"
| "brought_in h _ = 0"

fun closed_with :: "hash32 \<Rightarrow> ledger_event \<Rightarrow> nat" where
  "closed_with h (Settled h' own k refund reward fee) = (if h' = h then refund + reward + fee else 0)"
| "closed_with h (Withdrawn h' own refund fee) = (if h' = h then refund + fee else 0)"
| "closed_with h _ = 0"

fun charged_by :: "ledger_event \<Rightarrow> nat" where
  "charged_by (Settled h own k refund reward fee) = fee"
| "charged_by (Withdrawn h own refund fee) = fee"
| "charged_by _ = 0"

fun flushed_by :: "ledger_event \<Rightarrow> nat" where
  "flushed_by (Flushed r x) = x"
| "flushed_by _ = 0"

fun pays_to :: "address \<Rightarrow> ledger_event \<Rightarrow> nat" where
  "pays_to a (Settled h own k refund reward fee) =
     (if a = own then refund else 0) + (if a = k then reward else 0)"
| "pays_to a (Withdrawn h own refund fee) = (if a = own then refund else 0)"
| "pays_to a (Flushed r x) = (if a = r then x else 0)"
| "pays_to a _ = 0"

definition held :: "ledger \<Rightarrow> hash32 \<Rightarrow> nat" where
  "held L h = (case live L h of None \<Rightarrow> 0 | Some en \<Rightarrow> en_deposit en)"

fun opens :: "hash32 \<Rightarrow> ledger_event \<Rightarrow> bool" where
  "opens h (Opened h' own d) = (h' = h)"
| "opens h _ = False"

fun closes :: "hash32 \<Rightarrow> ledger_event \<Rightarrow> bool" where
  "closes h (Settled h' own k refund reward fee) = (h' = h)"
| "closes h (Withdrawn h' own refund fee) = (h' = h)"
| "closes h _ = False"

lemma step_balance:
  "ledger_step L ev M \<Longrightarrow> brought_in h ev + held L h = closed_with h ev + held M h"
  by (cases rule: ledger_step.cases) (auto simp: held_def)

lemma step_fees: "ledger_step L ev M \<Longrightarrow> charged_by ev + fees L = flushed_by ev + fees M"
  by (cases rule: ledger_step.cases) auto

lemma step_count:
  "ledger_step L ev M \<Longrightarrow> of_bool (opens h ev) + of_bool (h \<in> dom (live L)) =
     of_bool (closes h ev) + (of_bool (h \<in> dom (live M)) :: nat)"
  by (cases rule: ledger_step.cases) (auto split: if_splits)

text \<open>A quantity that every step balances is balanced over every history.\<close>

lemma run_balanced:
  fixes inflow outflow :: "'ev \<Rightarrow> nat" and stock :: "'a \<Rightarrow> nat"
  assumes "run astep a evs b"
    and "\<And>a ev b. astep a ev b \<Longrightarrow> inflow ev + stock a = outflow ev + stock b"
  shows "sum_list (map inflow evs) + stock a = sum_list (map outflow evs) + stock b"
  using assms(1)
proof (induction rule: run.induct)
  case (run_cons s l t ls u)
  then show ?case using assms(2) [OF run_cons.hyps(1)] by simp
qed simp

lemma sum_list_of_bool: "sum_list (map (\<lambda>x. of_bool (P x)) xs) = length (filter P xs)"
  by (induction xs) auto

lemma ledger_accounts:
  assumes "run ledger_step ledger_empty evs L"
  shows "(\<Sum>ev\<leftarrow>evs. brought_in h ev) = (\<Sum>ev\<leftarrow>evs. closed_with h ev) + held L h"
    and "(\<Sum>ev\<leftarrow>evs. charged_by ev) = (\<Sum>ev\<leftarrow>evs. flushed_by ev) + fees L"
    and "length (filter (opens h) evs) = length (filter (closes h) evs) + of_bool (h \<in> dom (live L))"
proof -
  have e: "held ledger_empty h = 0" "fees ledger_empty = 0" "live ledger_empty = Map.empty"
    by (simp_all add: held_def ledger_empty_def)
  show "(\<Sum>ev\<leftarrow>evs. brought_in h ev) = (\<Sum>ev\<leftarrow>evs. closed_with h ev) + held L h"
    using run_balanced [where inflow = "brought_in h" and stock = "\<lambda>L. held L h" and outflow = "closed_with h",
        OF assms step_balance] by (simp add: e)
  show "(\<Sum>ev\<leftarrow>evs. charged_by ev) = (\<Sum>ev\<leftarrow>evs. flushed_by ev) + fees L"
    using run_balanced [where inflow = "charged_by" and stock = "fees" and outflow = "flushed_by",
        OF assms step_fees] by (simp add: e)
  show "length (filter (opens h) evs) = length (filter (closes h) evs) + of_bool (h \<in> dom (live L))"
    using run_balanced [where inflow = "\<lambda>ev. of_bool (opens h ev)" and stock = "\<lambda>L. of_bool (h \<in> dom (live L))" and outflow = "\<lambda>ev. of_bool (closes h ev)",
        OF assms step_count] by (simp add: e sum_list_of_bool)
qed

end
