(* ===== verification/Scheduler_Refinement.thy ===== *)
theory Scheduler_Refinement
  imports Task_Ledger Scheduler_Properties
begin

text \<open>
  The Scheduler implements the task ledger: an abstraction function forgets everything but the
  entries of the stored tasks and the accrued fees, an event map names what a call does to
  them, and every call is simulated by the ledger step its event names. The payments in the
  outbox are those of the events.
\<close>

section \<open>Abstraction\<close>

definition entry_of :: "quantum_task_state \<Rightarrow> entry" where
  "entry_of st = \<lparr>en_owner = q_owner st, en_deposit = q_deposit st,
     en_running = (q_status st = Executing)\<rparr>"

definition ledger_of :: "sched \<Rightarrow> ledger" where
  "ledger_of s = \<lparr>live = map_option entry_of \<circ> quantum_tasks s, fees = accrued_protocol_fees s\<rparr>"

definition opened_deposit :: "ctx \<Rightarrow> nat option \<Rightarrow> sched \<Rightarrow> nat" where
  "opened_deposit c requested s = (if snd (resolve_caller c s)
     then (case requested of None \<Rightarrow> 0 | Some d \<Rightarrow> d) else egld_value c)"

definition settlement :: "sched \<Rightarrow> hash32 \<Rightarrow> address \<Rightarrow> bool \<Rightarrow> ledger_event" where
  "settlement s h keeper ok = (case quantum_tasks s h of
     None \<Rightarrow> Silent
   | Some st \<Rightarrow>
       (let fee = bps_of (q_deposit st) (protocol_fee_bps s);
            reward = (if ok then calculate_reward (q_deposit st) s else 0)
        in Settled h (q_owner st) keeper (q_deposit st - (reward + fee)) reward fee))"

primrec task_event :: "sched_env \<Rightarrow> sched \<Rightarrow> ctx \<Rightarrow> task_call \<Rightarrow> ledger_event" where
  "task_event e s c (ScheduleQuantumTask tp r) =
     Opened (sha256 e (encode_task e tp)) (fst (resolve_caller c s)) (opened_deposit c r s)"
| "task_event e s c (ScheduleSovereignTask pl r) =
     (let own = fst (resolve_caller c s); d = opened_deposit c r s
      in Opened (sovereign_task_hash e pl own d) own d)"
| "task_event e s c (CancelQuantumTask h) = (case quantum_tasks s h of
     None \<Rightarrow> Silent
   | Some st \<Rightarrow> (let fee = bps_of (q_deposit st) (protocol_fee_bps s)
                 in Withdrawn h (q_owner st) (q_deposit st - fee) fee))"
| "task_event e s c (ExecuteQuantumTask tp sec) = Begun (sha256 e (encode_task e tp))"
| "task_event e s c (ExecuteCompressedTask tp pf) = Silent"
| "task_event e s c (SettleXseTask h pf) = settlement s h (caller c) True"
| "task_event e s c (TriggerXseEnclave pl) = Silent"
| "task_event e s c (RescueStuckXseTask h) = (case quantum_tasks s h of
     None \<Rightarrow> Silent
   | Some st \<Rightarrow> Settled h (q_owner st) 0 (q_deposit st) 0 0)"
| "task_event e s c (ExecutionCallback i ok) = (if i < length (promises s)
     then settlement s (ep_task_hash (promises s ! i)) (ep_keeper (promises s ! i)) ok
     else Silent)"

fun event_of :: "sched_env \<Rightarrow> sched \<Rightarrow> ctx \<times> sched_call \<Rightarrow> ledger_event" where
  "event_of e s (c, Tasks l) = task_event e s c l"
| "event_of e s (c, Config FlushProtocolFees) =
     Flushed (case rewards_addr s of None \<Rightarrow> 0 | Some r \<Rightarrow> r) (accrued_protocol_fees s)"
| "event_of e s _ = Silent"

section \<open>One call\<close>

text \<open>What is shown of one call: the ledger step, and the payments.\<close>

definition follows :: "sched \<Rightarrow> ledger_event \<Rightarrow> sched \<Rightarrow> bool" where
  "follows s ev t \<longleftrightarrow> ledger_step (ledger_of s) ev (ledger_of t) \<and>
     (\<forall>a. egld_sent_to a (outbox t) = egld_sent_to a (outbox s) + pays_to a ev)"

lemma ledger_of_upd:
  "ledger_of t = (ledger_of s)\<lparr>live := (live (ledger_of s))(h := map_option entry_of x),
     fees := fees (ledger_of s) + fee\<rparr>"
  if "quantum_tasks t = (quantum_tasks s)(h := x)"
    "accrued_protocol_fees t = accrued_protocol_fees s + fee"
  using that by (auto simp: ledger_of_def fun_eq_iff)

lemma ledger_of_frame:
  "quantum_tasks t = quantum_tasks s \<Longrightarrow> accrued_protocol_fees t = accrued_protocol_fees s \<Longrightarrow>
     ledger_of t = ledger_of s"
  by (simp add: ledger_of_def)

lemma live_ledger_of [simp]:
  "live (ledger_of s) h = map_option entry_of (quantum_tasks s h)"
  "fees (ledger_of s) = accrued_protocol_fees s"
  by (simp_all add: ledger_of_def)

lemma entry_of_sel [simp]:
  "en_owner (entry_of st) = q_owner st" "en_deposit (entry_of st) = q_deposit st"
  "en_running (entry_of st) \<longleftrightarrow> q_status st = Executing"
  by (simp_all add: entry_of_def)

lemma follows_opened:
  assumes "quantum_tasks s h = None"
    and "quantum_tasks t = (quantum_tasks s)(h \<mapsto> \<lparr>q_owner = own, q_deposit = d, q_status = Pending,
           q_executing_at = 0\<rparr>)"
    and "accrued_protocol_fees t = accrued_protocol_fees s"
    and "\<And>a. egld_sent_to a (outbox t) = egld_sent_to a (outbox s)"
  shows "follows s (Opened h own d) t"
  using assms(1,4) ledger_of_upd [OF assms(2), of 0] assms(3)
  by (auto simp: follows_def ledger_step_simps entry_of_def)

lemma follows_settled:
  assumes "quantum_tasks s h = Some st" and "q_status st = Executing"
    and "quantum_tasks t = (quantum_tasks s)(h := None)"
    and "accrued_protocol_fees t = accrued_protocol_fees s + fee"
    and "refund + reward + fee = q_deposit st"
    and "\<And>a. egld_sent_to a (outbox t) = egld_sent_to a (outbox s) +
           ((if a = q_owner st then refund else 0) + (if a = k then reward else 0))"
  shows "follows s (Settled h (q_owner st) k refund reward fee) t"
  using assms(1,2,5,6) ledger_of_upd [OF assms(3,4)]
  by (auto simp: follows_def ledger_step_simps)

lemma follows_silent:
  assumes "quantum_tasks t = quantum_tasks s" and "accrued_protocol_fees t = accrued_protocol_fees s"
    and "\<And>a. egld_sent_to a (outbox t) = egld_sent_to a (outbox s)"
  shows "follows s Silent t"
  using assms(3) ledger_of_frame [OF assms(1,2)] by (auto simp: follows_def ledger_step_simps)

subsection \<open>Scheduling, cancelling, executing\<close>

lemma resolve_caller_receive [simp]: "resolve_caller c (receive c s) = resolve_caller c s"
  by (simp add: resolve_caller_def)

lemma task_deposit_opens:
  assumes "task_deposit c b req (receive c s) = Inr (d, s1)" and "resolve_caller c s = (own, b)"
  shows "d = opened_deposit c req s" "quantum_tasks s1 = quantum_tasks s"
    "accrued_protocol_fees s1 = accrued_protocol_fees s" "outbox s1 = outbox s"
  using assms(1)
  by (cases rule: task_deposit_Inr; simp add: opened_deposit_def assms(2))+

lemma schedule_quantum_follows:
  assumes "schedule_quantum_task e c tp req s = Inr (h, t)"
  shows "follows s (task_event e s c (ScheduleQuantumTask tp req)) t"
  using assms
proof (cases rule: schedule_quantum_task_Inr)
  case (1 own b d s1 s2)
  have rc: "resolve_caller c s = (own, b)" using 1(3) by simp
  note d = task_deposit_opens [OF 1(4) rc]
  have "follows s (Opened h own d) t"
    using 1(7,8) d(2-4)
    by (intro follows_opened) (auto simp: 1(9) sched_simps sched_event_defs store_pending_def)
  then show ?thesis using d(1) rc 1(6) by simp
qed

lemma schedule_sovereign_follows:
  assumes "schedule_sovereign_task e c pl req s = Inr (h, t)"
  shows "follows s (task_event e s c (ScheduleSovereignTask pl req)) t"
  using assms
proof (cases rule: schedule_sovereign_task_Inr)
  case (1 own b d s1)
  have rc: "resolve_caller c s = (own, b)" using 1(3) by simp
  note d = task_deposit_opens [OF 1(4) rc]
  have "follows s (Opened h own d) t"
    using 1(8) d(2-4)
    by (intro follows_opened) (auto simp: 1(9) sched_event_defs store_pending_def)
  then show ?thesis using d(1) rc 1(7) by (simp add: Let_def)
qed

lemma cancel_follows:
  assumes "cancel_quantum_task c h s = Inr t" and "unat (protocol_fee_bps s) \<le> 10000"
  shows "follows s (task_event e s c (CancelQuantumTask h)) t"
  using assms(1)
proof (cases rule: cancel_quantum_task_Inr)
  case (1 st fee refund)
  have le: "fee \<le> q_deposit st" using 1(8) assms(2) by (simp add: bps.cut_le)
  then have r: "refund = q_deposit st - fee" using 1(9) by auto
  have "ledger_of t = (ledger_of s)\<lparr>live := (live (ledger_of s))(h := None),
      fees := fees (ledger_of s) + fee\<rparr>"
    using ledger_of_upd [of t s h None fee] by (simp add: 1(11))
  then have "follows s (Withdrawn h (q_owner st) refund fee) t"
    using 1(4,7) le r by (auto simp: follows_def ledger_step_simps 1(11))
  then show ?thesis using 1(4,8) r by (simp add: Let_def)
qed

lemma execute_follows:
  assumes "execute_quantum_task e c tp sec s = Inr t" and "sync_pure e"
  shows "follows s (task_event e s c (ExecuteQuantumTask tp sec)) t"
  using assms(1)
proof (cases rule: execute_quantum_task_Inr)
  case (1 h st)
  let ?st = "st\<lparr>q_status := Executing, q_executing_at := block_timestamp c\<rparr>"
  have t: "t = dispatched e c h tp (caller c) st (if t_confidential tp
    then s\<lparr>assigned_enclave_keeper := (assigned_enclave_keeper s)(h \<mapsto> caller c)\<rparr> else s)"
    by (rule dispatch_pure [OF 1(11) assms(2)])
  have "ledger_of t = (ledger_of s)\<lparr>live := (live (ledger_of s))(h \<mapsto> entry_of ?st),
      fees := fees (ledger_of s) + 0\<rparr>"
    using ledger_of_upd [of t s h "Some ?st" 0]
    by (simp add: t dispatched_def Let_def sched_event_defs)
  moreover have "entry_of ?st = (entry_of st)\<lparr>en_running := True\<rparr>" by (simp add: entry_of_def)
  moreover have "egld_sent_to a (outbox t) = egld_sent_to a (outbox s)" for a
    by (simp add: t dispatched_def Let_def sched_event_defs)
  ultimately have "follows s (Begun h) t"
    using 1(6,7) by (auto simp: follows_def ledger_step_simps)
  then show ?thesis using 1(5) by simp
qed

subsection \<open>Settlement\<close>

lemma finalize_follows:
  assumes "quantum_tasks s h = Some st" and "q_status st = Executing"
    and "unat (protocol_fee_bps s) \<le> 10000"
    and "if ok then finalize_successful_execution h tg k (q_deposit st) (q_owner st) s = Inr t
         else finalize_failed_execution h tg k (q_deposit st) (q_owner st) s = Inr t"
  shows "follows s (settlement s h k ok) t"
proof (cases ok)
  case True
  then have "finalize_successful_execution h tg k (q_deposit st) (q_owner st) s = Inr t"
    using assms(4) by simp
  then show ?thesis
  proof (cases rule: finalize_successful_Inr)
    case (1 reward fee)
    have "reward + fee \<le> q_deposit st" using calculate_reward_le [OF assms(3)] 1(1,2) by simp
    then have "follows s (Settled h (q_owner st) k (q_deposit st - (reward + fee)) reward fee) t"
      by (intro follows_settled [OF assms(1,2)]) (auto simp: 1(4))
    then show ?thesis using True 1(1,2) assms(1) by (simp add: settlement_def Let_def)
  qed
next
  case False
  then have "finalize_failed_execution h tg k (q_deposit st) (q_owner st) s = Inr t"
    using assms(4) by simp
  then show ?thesis
  proof (cases rule: finalize_failed_Inr)
    case (1 fee failures)
    have "fee \<le> q_deposit st" using bps.cut_le [OF assms(3)] 1(1) by simp
    then have "follows s (Settled h (q_owner st) k (q_deposit st - (0 + fee)) 0 fee) t"
      by (intro follows_settled [OF assms(1,2)]) (auto simp: 1(4))
    then show ?thesis using False 1(1) assms(1) by (simp add: settlement_def Let_def)
  qed
qed

lemma settle_follows:
  assumes "settle_xse_task e c h pf s = Inr t" and "sync_pure e"
    and "unat (protocol_fee_bps s) \<le> 10000"
  shows "follows s (task_event e s c (SettleXseTask h pf)) t"
  using assms(1)
proof (cases rule: settle_xse_task_Inr)
  case (1 st zk s1)
  have "s1 = s" using 1(9) sync_pureD [OF assms(2)] by blast
  then show ?thesis
    using finalize_follows [OF 1(6,7) assms(3), of True 0 "caller c" t] 1(10) by simp
qed

lemma rescue_follows:
  assumes "rescue_stuck_xse_task c h s = Inr t"
  shows "follows s (task_event e s c (RescueStuckXseTask h)) t"
  using assms
proof (cases rule: rescue_stuck_xse_task_Inr)
  case (1 st k)
  have "follows s (Settled h (q_owner st) 0 (q_deposit st) 0 0) t"
    by (intro follows_settled [OF 1(4,5)]) (auto simp: 1(10))
  then show ?thesis using 1(4) by simp
qed

text \<open>
  A callback that could not settle would leave its task running with no call to answer for
  it. With the books in order this does not happen: there is always enough to pay out.
\<close>

lemma callback_follows:
  assumes "deliver_callback i ok s = Inr t" and "sched_inv s"
  shows "follows s (task_event e s c (ExecutionCallback i ok)) t"
proof -
  define p where "p = promises s ! i"
  define s1 where "s1 = s\<lparr>promises := take i (promises s) @ drop (Suc i) (promises s)\<rparr>"
  have i: "i < length (promises s)"
    using assms(1) by (simp add: deliver_callback_def res_simps)
  have ti: "tasks_inv s" using assms(2) by (simp add: sched_inv_def)
  have "p \<in> set (promises s)" using i by (simp add: p_def)
  then obtain st where st: "quantum_tasks s (ep_task_hash p) = Some st" "q_status st = Executing"
    using tasks_invD(6) [OF ti] by blast
  have one: "sched_inv s1" unfolding s1_def by (rule undelivered_inv [OF assms(2)])
  have st1: "quantum_tasks s1 (ep_task_hash p) = Some st" using st by (simp add: s1_def)
  have "execution_callback (ep_task_hash p) (ep_target_contract p) (ep_keeper p) ok s1 = Inr t"
    using assms(1) i st1 finalize_total [OF one st1, of "ep_target_contract p" "ep_keeper p"]
    by (auto simp: deliver_callback_def Let_def p_def [symmetric] s1_def [symmetric]
        execution_callback_def split: sum.splits)
  then have "follows s1 (settlement s1 (ep_task_hash p) (ep_keeper p) ok) t"
    using finalize_follows [OF st1 st(2), of ok "ep_target_contract p" "ep_keeper p" t]
      funds_invD(1) [of s1] one st1
    by (cases ok) (simp_all add: execution_callback_def sched_inv_def)
  moreover have "settlement s1 h k ok = settlement s h k ok" for h k
    by (simp add: settlement_def s1_def calculate_reward_def Let_def split: option.split)
  moreover have "follows s1 ev t = follows s ev t" for ev
    by (simp add: follows_def s1_def ledger_of_def)
  ultimately show ?thesis using i by (simp add: p_def)
qed

section \<open>Every call\<close>

lemma task_call_follows:
  assumes "exec_task_call e c l s = Inr t" and "no_compressed (Tasks l)" and "sched_inv s"
    and "sync_pure e"
  shows "follows s (task_event e s c l) t"
proof -
  have fee: "unat (protocol_fee_bps s) \<le> 10000"
    using assms(3) by (simp add: sched_inv_def funds_inv_def)
  show ?thesis
  proof (cases l)
    case (TriggerXseEnclave pl)
    have "follows s Silent t"
      by (rule follows_silent)
        (use assms(1) TriggerXseEnclave in
          \<open>auto simp: trigger_xse_enclave_def res_simps sched_event_defs\<close>)
    then show ?thesis using TriggerXseEnclave by simp
  qed (use assms fee in \<open>auto simp only: exec_task_call.simps drop_result_Inr no_compressed_def
      sched_call.case task_call.case
      intro: schedule_quantum_follows schedule_sovereign_follows cancel_follows execute_follows
        settle_follows rescue_follows callback_follows\<close>)
qed

text \<open>
  Clone keys and intents have money of their own, which the ledger does not speak about. The
  calls on it leave the ledger alone.
\<close>

lemma clone_call_ledger: "exec_clone_call c k s = Inr t \<Longrightarrow> ledger_of t = ledger_of s"
  by (cases k) (auto simp: authorize_clone_key_def fund_clone_key_def receive_def ledger_of_def
      res_simps Let_def clone_event_defs elim!: revoke_clone_key_Inr)

lemma intent_call_ledger: "exec_intent_call e c l s = Inr t \<Longrightarrow> ledger_of t = ledger_of s"
  by (cases l) (auto simp: ledger_of_def res_simps intent_event_defs
      elim!: create_intent_Inr cancel_intent_Inr solve_intent_Inr create_multi_intent_Inr
        cancel_multi_intent_Inr solve_multi_intent_Inr create_pre_cognitive_intent_Inr
        cancel_pre_cognitive_intent_Inr execute_pre_cognitive_leaf_Inr)

lemma config_call_follows:
  assumes "exec_config_call c l s = Inr t"
  shows "follows s (event_of e s (c, Config l)) t"
proof (cases "l = FlushProtocolFees")
  case True
  with assms have "flush_protocol_fees c s = Inr t" by simp
  then show ?thesis
    by (cases rule: flush_protocol_fees_Inr)
      (auto simp: True follows_def ledger_step_simps ledger_of_def)
next
  case False
  then have ev: "event_of e s (c, Config l) = Silent" by (cases l) auto
  show ?thesis
    unfolding ev
    by (rule follows_silent) (use assms False in \<open>cases l; auto simp: setter_defs sched_simps\<close>)+
qed

lemma admin_call_follows:
  assumes "exec_admin_call e c l s = Inr t"
  shows "follows s Silent t"
  by (rule follows_silent)
    (use assms in \<open>cases l; auto simp: setter_defs sched_simps res_simps scheduler_upgrade_def
        pause_def unpause_def register_keeper_shard_def Let_def\<close>)+

text \<open>The calls whose payments are the ledger's: all but those on clone keys and intents.\<close>

definition ledger_call :: "ctx \<times> sched_call \<Rightarrow> bool" where
  "ledger_call l \<longleftrightarrow> (case snd l of Keys _ \<Rightarrow> False | Intents _ \<Rightarrow> False | _ \<Rightarrow> True)"

lemma sched_step_follows:
  assumes "pure_step e s l t" and "ok_call l" and "sched_inv s"
  shows "ledger_step (ledger_of s) (event_of e s l) (ledger_of t)"
    and "ledger_call l \<Longrightarrow> egld_sent_to a (outbox t) = egld_sent_to a (outbox s) + pays_to a (event_of e s l)"
proof -
  obtain c k where l: "l = (c, k)" by (cases l)
  have ex: "sched_exec e c k s = Inr t" and pure: "sync_pure e"
    using assms(1) by (simp_all add: l pure_step_def sched_step_simps)
  have f: "follows s (event_of e s l) t" if "ledger_call l"
  proof (cases k)
    case (Tasks x)
    then show ?thesis
      using task_call_follows [OF _ _ assms(3) pure] ex assms(2) by (simp add: l ok_call_def)
  qed (use that ex in \<open>auto simp: l ledger_call_def intro: config_call_follows admin_call_follows\<close>)
  then show "ledger_call l \<Longrightarrow> egld_sent_to a (outbox t) = egld_sent_to a (outbox s) + pays_to a (event_of e s l)"
    by (simp add: follows_def)
  show "ledger_step (ledger_of s) (event_of e s l) (ledger_of t)"
  proof (cases "ledger_call l")
    case True
    then show ?thesis using f by (simp add: follows_def)
  next
    case False
    then show ?thesis
      using ex clone_call_ledger intent_call_ledger
      by (auto simp: l ledger_call_def ledger_step_simps split: sched_call.splits)
  qed
qed

interpretation task_ledger: simulation "pure_step e" ok_call sched_inv ledger_step ledger_of "event_of e"
  for e
  by unfold_locales (rule sched_step_follows(1))

lemma observed_payments:
  "observed (pure_step e) (event_of e) s ls evs t \<Longrightarrow> list_all ok_call ls \<Longrightarrow>
     list_all ledger_call ls \<Longrightarrow> sched_inv s \<Longrightarrow>
     egld_sent_to a (outbox t) = egld_sent_to a (outbox s) + (\<Sum>ev\<leftarrow>evs. pays_to a ev)"
proof (induction rule: observed.induct)
  case (observed_cons s l t ls evs u)
  then show ?case
    using sched_step_follows(2) [OF observed_cons.hyps(1), of a] books.step_inv [of e s l t] by simp
qed simp

section \<open>Histories\<close>

lemma init_ledger:
  assumes "scheduler_init r w m fee = Inr s"
  shows "ledger_of s = ledger_empty" "outbox s = []"
  using assms by (auto simp: scheduler_init_def res_simps sched_empty_def ledger_of_def
      ledger_empty_def fun_eq_iff)

lemma pure_step_eq: "sync_pure e \<Longrightarrow> pure_step e = sched_step e"
  by (simp add: pure_step_def fun_eq_iff)

text \<open>Evaluating a history, for concrete runs.\<close>

primrec history :: "sched_env \<Rightarrow> (ctx \<times> sched_call) list \<Rightarrow> sched \<Rightarrow> ledger_event list" where
  "history e [] s = []"
| "history e (l # ls) s = event_of e s l #
     (case sched_exec e (fst l) (snd l) s of Inl _ \<Rightarrow> [] | Inr t \<Rightarrow> history e ls t)"

lemma exec_all_observed:
  "exec_all e ls s = Inr t \<Longrightarrow> observed (sched_step e) (event_of e) s ls (history e ls s) t"
  by (induction ls arbitrary: s) (auto simp: res_simps intro!: observed.intros sched_step.intros)

lemma exec_all_append:
  "exec_all e (as @ bs) s = bind_res (exec_all e as s) (exec_all e bs)"
  by (induction as arbitrary: s) (auto simp: bind_res_def split: sum.splits)

lemma history_append:
  "exec_all e as s = Inr t \<Longrightarrow> history e (as @ bs) s = history e as s @ history e bs t"
  by (induction as arbitrary: s) (auto simp: res_simps)

text \<open>The small deployment once more: one task, scheduled, executed and settled.\<close>

abbreviation demo_start :: sched where
  "demo_start \<equiv> demo_state\<lparr>whitelisted_keepers := [], keeper_list := []\<rparr>"

definition demo_closing :: "(ctx \<times> sched_call) list" where
  "demo_closing = demo_calls @ [(demo_ctx 50 0, Tasks (ExecutionCallback 0 True))]"

definition demo_events :: "ledger_event list" where
  "demo_events = [Silent, Opened 0 9 1000, Begun 0, Settled 0 9 50 0 990 10]"

lemma demo_history: "history demo_env demo_calls demo_start = [Silent, Opened 0 9 1000, Begun 0]"
  by (simp add: demo_calls_def eval_defs demo_defs opened_deposit_def)

lemma demo_closing_event:
  "event_of demo_env demo_running (demo_ctx 50 0, Tasks (ExecutionCallback 0 True)) =
     Settled 0 9 50 0 990 10"
  by (simp add: settlement_def calculate_reward_def demo_running_def demo_scheduled_def demo_defs
      bps_of_def Let_def)

lemma demo_closed:
  "\<exists>t. observed (sched_step demo_env) (event_of demo_env) demo_start demo_closing demo_events t \<and>
     quantum_tasks t 0 = None"
proof -
  obtain t where t: "execution_callback 0 300 50 True (demo_running\<lparr>promises := []\<rparr>) = Inr t"
    "quantum_tasks t 0 = None"
    by (simp add: execution_callback_def finalize_successful_execution_def Let_def
      calculate_reward_def demo_running_def demo_scheduled_def demo_defs
      bps_of_def direct_egld_def forward_protocol_fee_def forward_keeper_result_def
      transfer_execute_def sched_event_defs constant_defs)
  have "deliver_callback 0 True demo_running = Inr t"
    using t(1) by (simp add: deliver_callback_def vm_require_def demo_running_def Let_def)
  then have last: "sched_exec demo_env (demo_ctx 50 0) (Tasks (ExecutionCallback 0 True)) demo_running = Inr t"
    by simp
  then have "exec_all demo_env demo_closing demo_start = Inr t"
    using demo_exec by (simp add: demo_closing_def exec_all_append)
  moreover have "history demo_env demo_closing demo_start = demo_events"
    using history_append [OF demo_exec] last demo_history demo_closing_event
    by (simp add: demo_closing_def demo_events_def)
  ultimately show ?thesis using t(2) exec_all_observed by metis
qed

lemma demo_closing_ok: "list_all ok_call demo_closing" "list_all ledger_call demo_closing"
  using demo_ok by (simp_all add: demo_closing_def ok_call_def no_compressed_def demo_ctx_def
      ledger_call_def demo_calls_def)

text \<open>
  C2. Every history of the Scheduler is a history of the task ledger: take any calls from
  deployment on (compressed tasks apart, fungible payments, queried contracts that do not
  re-enter), read off what each of them does to the stored tasks and the accrued fees, and the
  resulting events are a run of the ledger that ends in the abstraction of the Scheduler's
  state. A deposit is opened once, runs at most once, and is cancelled only while it waits and
  settled only while it runs.
\<close>

theorem scheduler_refines_ledger:
  assumes "scheduler_init r w m fee = Inr s" and "sync_pure e"
    and "observed (sched_step e) (event_of e) s ls evs t" and "list_all ok_call ls"
  shows "run ledger_step ledger_empty evs (ledger_of t)"
  using task_ledger.run_simulated [of e s ls evs t] assms scheduler_init_inv [OF assms(1)]
    init_ledger(1) [OF assms(1)] pure_step_eq [OF assms(2)] by simp

theorem scheduler_refines_ledger_witness:
  "\<exists>t. run ledger_step ledger_empty demo_events (ledger_of t) \<and> quantum_tasks t 0 = None"
  using scheduler_refines_ledger [OF demo_init demo_sync_pure _ demo_closing_ok(1)] demo_closed
  by blast

text \<open>
  C3. Every coin of a task is accounted for. After any such history, what was ever deposited
  under a task hash is what was paid out under it (refunds, rewards and fees together) plus
  what is still held for it; a hash was opened as often as it was closed, plus once if it is
  live; the fees charged were flushed or are still accrued; and if no clone key and no intent
  was touched, what each address received from the contract is exactly what the ledger's
  events pay it.
\<close>

theorem deposits_accounted_exactly:
  assumes "scheduler_init r w m fee = Inr s" and "sync_pure e"
    and "observed (sched_step e) (event_of e) s ls evs t" and "list_all ok_call ls"
  shows "(\<Sum>ev\<leftarrow>evs. brought_in h ev) = (\<Sum>ev\<leftarrow>evs. closed_with h ev) +
      (case quantum_tasks t h of None \<Rightarrow> 0 | Some st \<Rightarrow> q_deposit st) \<and>
    length (filter (opens h) evs) = length (filter (closes h) evs) +
      (if quantum_tasks t h = None then 0 else 1) \<and>
    (\<Sum>ev\<leftarrow>evs. charged_by ev) = (\<Sum>ev\<leftarrow>evs. flushed_by ev) + accrued_protocol_fees t \<and>
    (list_all ledger_call ls \<longrightarrow> egld_sent_to a (outbox t) = (\<Sum>ev\<leftarrow>evs. pays_to a ev))"
proof -
  have obs: "observed (pure_step e) (event_of e) s ls evs t"
    using assms(3) pure_step_eq [OF assms(2)] by simp
  have inv: "sched_inv s" by (rule scheduler_init_inv [OF assms(1)])
  have "run ledger_step ledger_empty evs (ledger_of t)"
    using task_ledger.run_simulated [OF obs assms(4) inv] init_ledger(1) [OF assms(1)] by simp
  note acc = ledger_accounts [OF this]
  have "held (ledger_of t) h = (case quantum_tasks t h of None \<Rightarrow> 0 | Some st \<Rightarrow> q_deposit st)"
    by (simp add: held_def split: option.splits)
  moreover have "(of_bool (h \<in> dom (live (ledger_of t))) :: nat) =
      (if quantum_tasks t h = None then 0 else 1)"
    by (auto simp: domIff)
  moreover have "list_all ledger_call ls \<longrightarrow> egld_sent_to a (outbox t) = (\<Sum>ev\<leftarrow>evs. pays_to a ev)"
    using observed_payments [OF obs assms(4) _ inv] init_ledger(2) [OF assms(1)] by simp
  ultimately show ?thesis using acc(1) [of h] acc(2) acc(3) [of h] by simp
qed

theorem deposits_accounted_exactly_witness:
  "\<exists>t :: sched. quantum_tasks t 0 = None \<and> egld_sent_to 50 (outbox t) = 990 \<and> accrued_protocol_fees t = 10 \<and>
     (\<Sum>ev\<leftarrow>demo_events. brought_in 0 ev) = 1000"
proof -
  obtain t where t: "observed (sched_step demo_env) (event_of demo_env) demo_start demo_closing demo_events t"
    "quantum_tasks t 0 = None" using demo_closed by blast
  show ?thesis
    using deposits_accounted_exactly [OF demo_init demo_sync_pure t(1) demo_closing_ok(1), of 0 50]
      demo_closing_ok(2) t(2)
    by (intro exI [of _ t]) (simp add: demo_events_def)
qed

end
