(* ===== verification/Scheduled_Vault.thy ===== *)
theory Scheduled_Vault
  imports Scheduler_Refinement Vault_Properties
begin

text \<open>
  The Scheduler and the vault together. The strategies of the vault (compound, claim, swap,
  emergency swap, mint) may only be started by the Scheduler, and the Scheduler calls a contract
  of the user's choice in two places: to deliver a task, and to query the oracle of a state-driven
  task, which is an ordinary call and may name the vault and a strategy. A joint system
  interleaves the calls to either contract, with the queries they make, and the deliveries, and
  simulates the task ledger as the Scheduler alone does.
\<close>

section \<open>The joint system\<close>

fun strategy :: "vault_call \<Rightarrow> bool" where
  "strategy Compound = True"
| "strategy VClaimRewards = True"
| "strategy Swap = True"
| "strategy EmergencySwap = True"
| "strategy Mint = True"
| "strategy _ = False"

text \<open>The endpoints of the strategies; they take no arguments.\<close>

definition strategy_at :: "bytes \<Rightarrow> vault_call option" where
  "strategy_at f = map_of [(''compound'', Compound), (''claimRewards'', VClaimRewards), (''swap'', Swap),
     (''emergencySwap'', EmergencySwap), (''mint'', Mint)] f"

datatype joint_call =
    AtScheduler ctx sched_call
  | AtVault ctx vault_call
  | Delivery nat ctx bool

definition is_callback :: "sched_call \<Rightarrow> bool" where
  "is_callback l \<longleftrightarrow> (\<exists>i ok. l = Tasks (ExecutionCallback i ok))"

text \<open>
  The contract and the endpoint that the execution of a task queries, and what the query does to
  the vault: a strategy that it names runs, with the Scheduler as the caller, or fails, and with it
  the whole execution; another endpoint of the vault may do what it does.
\<close>

definition oracle_of :: "task \<Rightarrow> (address \<times> bytes) option" where
  "oracle_of tp = (case t_trigger tp of StateDriven oracle query _ _ _ \<Rightarrow> Some (oracle, query) | _ \<Rightarrow> None)"

fun queried :: "sched_call \<Rightarrow> (address \<times> bytes) option" where
  "queried (Tasks (ExecuteQuantumTask tp sec)) = oracle_of tp"
| "queried (Tasks (ExecuteCompressedTask tp prf)) = oracle_of tp"
| "queried _ = None"

definition query_effect :: "address \<Rightarrow> address \<Rightarrow> sched_call \<Rightarrow> vault \<Rightarrow> vault \<Rightarrow> bool" where
  "query_effect sc va l v v' \<longleftrightarrow> (case queried l of
     None \<Rightarrow> v' = v
   | Some (a, f) \<Rightarrow>
       if a \<noteq> va then v' = v
       else (case strategy_at f of
          Some k \<Rightarrow> (\<exists>c. caller c = sc \<and> vault_exec c k v = Inr v')
        | None \<Rightarrow> v' = v \<or> (\<exists>c k. caller c = sc \<and> owner_address c \<noteq> sc \<and> \<not> strategy k \<and> vault_step v (c, k) v')))"

text \<open>
  A delivery runs the call a task registered, with the Scheduler as the caller, and hands its
  outcome to the callback. A strategy that fails leaves the vault as it was; a delivery to
  another contract, or to another endpoint of the vault, may succeed or fail.
\<close>

inductive joint_step ::
  "sched_env \<Rightarrow> address \<Rightarrow> address \<Rightarrow> sched \<times> vault \<Rightarrow> joint_call \<Rightarrow> sched \<times> vault \<Rightarrow> bool" for e sc va where
  at_scheduler: "sched_step e s (c, l) s' \<Longrightarrow> \<not> is_callback l \<Longrightarrow> query_effect sc va l v v' \<Longrightarrow>
    joint_step e sc va (s, v) (AtScheduler c l) (s', v')"
| at_vault: "vault_step v (c, l) v' \<Longrightarrow> caller c \<noteq> sc \<Longrightarrow> joint_step e sc va (s, v) (AtVault c l) (s, v')"
| runs: "i < length (promises s) \<Longrightarrow> ep_to (promises s ! i) = va \<Longrightarrow>
    strategy_at (ep_endpoint (promises s ! i)) = Some l \<Longrightarrow> ep_args (promises s ! i) = [] \<Longrightarrow> caller c = sc \<Longrightarrow>
    vault_exec c l v = Inr v' \<Longrightarrow> deliver_callback i True s = Inr s' \<Longrightarrow>
    joint_step e sc va (s, v) (Delivery i c True) (s', v')"
| fails: "i < length (promises s) \<Longrightarrow> ep_to (promises s ! i) = va \<Longrightarrow>
    strategy_at (ep_endpoint (promises s ! i)) = Some l \<Longrightarrow> caller c = sc \<Longrightarrow>
    ep_args (promises s ! i) \<noteq> [] \<or> vault_exec c l v = Inl err \<Longrightarrow> deliver_callback i False s = Inr s' \<Longrightarrow>
    joint_step e sc va (s, v) (Delivery i c False) (s', v)"
| elsewhere: "i < length (promises s) \<Longrightarrow> ep_to (promises s ! i) \<noteq> va \<or> strategy_at (ep_endpoint (promises s ! i)) = None \<Longrightarrow>
    v' = v \<or> (ok \<and> caller c = sc \<and> \<not> strategy l \<and> vault_step v (c, l) v') \<Longrightarrow>
    deliver_callback i ok s = Inr s' \<Longrightarrow> joint_step e sc va (s, v) (Delivery i c ok) (s', v')"

fun joint_event :: "sched_env \<Rightarrow> sched \<times> vault \<Rightarrow> joint_call \<Rightarrow> ledger_event" where
  "joint_event e (s, v) (AtScheduler c l) = event_of e s (c, l)"
| "joint_event e (s, v) (AtVault c l) = Silent"
| "joint_event e (s, v) (Delivery i c ok) = event_of e s (c, Tasks (ExecutionCallback i ok))"

text \<open>The task a step runs a strategy for, if it does: by its delivery or by the query of its oracle.\<close>

datatype strategy_start = ByDelivery hash32 | ByQuery hash32

fun strategy_run :: "sched_env \<Rightarrow> address \<Rightarrow> sched \<times> vault \<Rightarrow> joint_call \<Rightarrow> strategy_start option" where
  "strategy_run e va (s, v) (Delivery i c ok) =
     (if ok \<and> ep_to (promises s ! i) = va \<and> strategy_at (ep_endpoint (promises s ! i)) \<noteq> None
      then Some (ByDelivery (ep_task_hash (promises s ! i))) else None)"
| "strategy_run e va (s, v) (AtScheduler c (Tasks (ExecuteQuantumTask tp sec))) =
     (case oracle_of tp of
        None \<Rightarrow> None
      | Some (a, f) \<Rightarrow> if a = va \<and> strategy_at f \<noteq> None then Some (ByQuery (sha256 e (encode_task e tp))) else None)"
| "strategy_run e va _ _ = None"

text \<open>
  The admissible calls: those of the Scheduler's invariant, and the vault's owner does not
  replace the Scheduler.
\<close>

fun joint_ok :: "joint_call \<Rightarrow> bool" where
  "joint_ok (AtScheduler c l) = ok_call (c, l)"
| "joint_ok (AtVault c l) = (\<forall>a. l \<noteq> SetSchedulerAddress a)"
| "joint_ok (Delivery i c ok) = (esdt_transfers c = [] \<and> caller c \<noteq> owner_address c)"

definition joint_inv :: "sched_env \<Rightarrow> address \<Rightarrow> sched \<times> vault \<Rightarrow> bool" where
  "joint_inv e sc st \<longleftrightarrow> sync_pure e \<and> sched_inv (fst st) \<and> scheduler_address (snd st) = sc"

section \<open>The vault keeps its Scheduler\<close>

lemma vault_callback_scheduler:
  "v_callback c ok cb v = Inr w \<Longrightarrow> scheduler_address w = scheduler_address v"
  by (induction c ok cb v rule: v_callback.induct)
    (auto simp: deposit_callback_def withdraw_callback_def compound_callback_def claim_callback_def
      swap_callback_def emergency_swap_callback_def mint_callback_def vault_event_defs less_pending_def
      res_simps Let_def split: if_splits)

lemma vault_scheduler_kept:
  assumes "vault_exec c l v = Inr w" and "\<And>a. l = SetSchedulerAddress a \<Longrightarrow> caller c \<noteq> owner_address c"
  shows "scheduler_address w = scheduler_address v"
proof (cases l)
  case (VDeliver i r)
  then show ?thesis
    using assms(1) vault_callback_scheduler by (auto simp: v_deliver_def res_simps Let_def receive_back_def)
qed (use assms in \<open>auto simp: deposit_def withdraw_def claim_unbonded_def withdraw_unbonded_def
    vault_strategy_defs vault_setter_defs rescue_yield_def vault_event_defs less_pending_def receive_def
    vault_upgrade_def pause_def unpause_def res_simps Let_def split: if_splits\<close>)

section \<open>Simulation\<close>

lemma joint_step_sched:
  assumes "joint_step e sc va st j st'" and "sync_pure e"
  shows "case j of AtScheduler c l \<Rightarrow> pure_step e (fst st) (c, l) (fst st')
     | AtVault c l \<Rightarrow> fst st' = fst st
     | Delivery i c ok \<Rightarrow> pure_step e (fst st) (c, Tasks (ExecutionCallback i ok)) (fst st') \<and> i < length (promises (fst st))"
  using assms by (cases rule: joint_step.cases) (auto simp: pure_step_def sched_step_simps)

lemma delivery_ok: "joint_ok (Delivery i c ok) \<Longrightarrow> ok_call (c, Tasks (ExecutionCallback i ok))"
  by (simp add: ok_call_def no_compressed_def)

lemma strategy_at_strategy: "strategy_at f = Some k \<Longrightarrow> strategy k"
  by (auto simp: strategy_at_def split: if_splits)

lemma query_effect_cases:
  assumes "query_effect sc va l v w"
  obtains "w = v" | c k where "vault_exec c k v = Inr w" "caller c = sc" "strategy k \<or> owner_address c \<noteq> sc"
proof (cases "queried l")
  case None
  then show ?thesis using assms that(1) by (simp add: query_effect_def)
next
  case (Some q)
  obtain a f where q: "q = (a, f)" by (cases q)
  show ?thesis
  proof (cases "a = va")
    case True
    then show ?thesis
      using assms Some q that
      by (cases "strategy_at f") (auto simp: query_effect_def vault_step_simps dest: strategy_at_strategy)
  qed (use assms Some q that(1) in \<open>simp add: query_effect_def\<close>)
qed

lemma query_scheduler_kept: "query_effect sc va l v w \<Longrightarrow> scheduler_address w = scheduler_address v"
  by (erule query_effect_cases) (auto intro: vault_scheduler_kept)

lemma joint_step_scheduler_kept:
  assumes "joint_step e sc va st j st'" and "joint_ok j"
  shows "scheduler_address (snd st') = scheduler_address (snd st)"
  using assms
  by (cases rule: joint_step.cases)
    (auto simp: vault_step_simps intro: vault_scheduler_kept dest: query_scheduler_kept)

lemma joint_step_inv:
  assumes "joint_step e sc va st j st'" and "joint_ok j" and "joint_inv e sc st"
  shows "joint_inv e sc st'"
proof -
  have "sched_inv (fst st')"
    using joint_step_sched [OF assms(1)] assms(2,3) books.step_inv [of e] delivery_ok
    by (cases j) (auto simp: joint_inv_def)
  then show ?thesis
    using joint_step_scheduler_kept [OF assms(1,2)] assms(3) by (simp add: joint_inv_def)
qed

lemma joint_step_simulated:
  assumes "joint_step e sc va st j st'" and "joint_ok j" and "joint_inv e sc st"
  shows "ledger_step (ledger_of (fst st)) (joint_event e st j) (ledger_of (fst st'))"
proof -
  obtain s v where st: "st = (s, v)" by (cases st)
  show ?thesis
    using joint_step_sched [OF assms(1)] assms(2,3) sched_step_follows(1) [of e s _ "fst st'"] delivery_ok
    by (cases j) (auto simp: joint_inv_def st ledger_step_simps simp del: event_of.simps)
qed

interpretation joint: simulation "joint_step e sc va" joint_ok "joint_inv e sc" ledger_step
    "\<lambda>st. ledger_of (fst st)" "joint_event e" for e sc va
  by unfold_locales (auto intro: joint_step_inv joint_step_simulated)

section \<open>No strategy without a task\<close>

lemma strategy_needs_scheduler:
  "vault_exec c l v = Inr w \<Longrightarrow> strategy l \<Longrightarrow> caller c = scheduler_address v"
  by (cases l) (auto simp: vault_strategy_defs res_simps Let_def)

lemma strategy_run_closes:
  assumes "joint_step e sc va st j st'" and "joint_inv e sc st"
  shows "strategy_run e va st j = Some (ByDelivery h) \<Longrightarrow> closes h (joint_event e st j)"
    and "strategy_run e va st j = Some (ByQuery h) \<Longrightarrow> joint_event e st j = Begun h"
proof -
  obtain s v where st: "st = (s, v)" by (cases st)
  show "closes h (joint_event e st j)" if r: "strategy_run e va st j = Some (ByDelivery h)"
  proof -
    obtain i c ok where j: "j = Delivery i c ok" and h: "h = ep_task_hash (promises s ! i)"
      using r by (cases "(e, va, st, j)" rule: strategy_run.cases) (auto simp: st split: if_splits option.splits)
    have i: "i < length (promises s)"
      using joint_step_sched [OF assms(1)] assms(2) by (simp add: j st joint_inv_def)
    then obtain q where "quantum_tasks s h = Some q"
      using assms(2) tasks_invD(6) [of s "promises s ! i"] by (auto simp: joint_inv_def sched_inv_def st h)
    then show ?thesis using i by (simp add: st j settlement_def Let_def h)
  qed
  show "joint_event e st j = Begun h" if "strategy_run e va st j = Some (ByQuery h)"
    using that by (cases "(e, va, st, j)" rule: strategy_run.cases) (auto simp: st split: if_splits option.splits)
qed

text \<open>A task waits from its deposit until it is begun or withdrawn: under a hash no more tasks begin than are opened.\<close>

fun leaves_queue :: "hash32 \<Rightarrow> ledger_event \<Rightarrow> bool" where
  "leaves_queue h (Begun h') = (h' = h)"
| "leaves_queue h (Withdrawn h' own refund fee) = (h' = h)"
| "leaves_queue h _ = False"

definition waits :: "ledger \<Rightarrow> hash32 \<Rightarrow> bool" where
  "waits L h \<longleftrightarrow> (case live L h of None \<Rightarrow> False | Some en \<Rightarrow> \<not> en_running en)"

lemma step_waits:
  "ledger_step L ev M \<Longrightarrow> of_bool (opens h ev) + of_bool (waits L h) =
     of_bool (leaves_queue h ev) + (of_bool (waits M h) :: nat)"
  by (cases rule: ledger_step.cases) (auto simp: waits_def split: if_splits)

lemma begun_at_most_opened:
  assumes "run ledger_step ledger_empty evs L"
  shows "length (filter (\<lambda>ev. ev = Begun h) evs) \<le> length (filter (opens h) evs)"
proof -
  have "length (filter (leaves_queue h) evs) \<le> length (filter (opens h) evs)"
    using run_balanced [where inflow = "\<lambda>ev. of_bool (opens h ev)" and stock = "\<lambda>L. of_bool (waits L h)"
        and outflow = "\<lambda>ev. of_bool (leaves_queue h ev)", OF assms step_waits]
    by (simp add: sum_list_of_bool waits_def ledger_empty_def)
  moreover have "length (filter (\<lambda>ev. ev = Begun h) evs) \<le> length (filter (leaves_queue h) evs)"
    by (induction evs) auto
  ultimately show ?thesis by linarith
qed

text \<open>Both observations of a step at once: the strategy it runs, and its event.\<close>

abbreviation joint_obs :: "sched_env \<Rightarrow> address \<Rightarrow> sched \<times> vault \<Rightarrow> joint_call \<Rightarrow> strategy_start option \<times> ledger_event" where
  "joint_obs e va st j \<equiv> (strategy_run e va st j, joint_event e st j)"

lemma joint_observed:
  "observed (joint_step e sc va) (joint_obs e va) st js os st' \<Longrightarrow> list_all joint_ok js \<Longrightarrow> joint_inv e sc st \<Longrightarrow>
     observed (joint_step e sc va) (joint_event e) st js (map snd os) st' \<and>
     (\<forall>(r, ev) \<in> set os. \<forall>h. (r = Some (ByDelivery h) \<longrightarrow> closes h ev) \<and> (r = Some (ByQuery h) \<longrightarrow> ev = Begun h)) \<and>
     (\<forall>c l. AtVault c l \<in> set js \<longrightarrow> \<not> strategy l)"
proof (induction rule: observed.induct)
  case (observed_cons st j st1 js os st')
  have inv: "joint_inv e sc st1"
    using joint_step_inv [OF observed_cons.hyps(1)] observed_cons.prems by simp
  have "\<not> strategy l" if "j = AtVault c l" for c l
    using observed_cons.hyps(1) observed_cons.prems(2) unfolding that
    by (cases rule: joint_step.cases) (auto simp: vault_step_simps joint_inv_def dest: strategy_needs_scheduler)
  then show ?case
    using observed_cons.IH inv observed_cons.prems observed_cons.hyps(1)
      strategy_run_closes [OF observed_cons.hyps(1) observed_cons.prems(2)]
    by (auto intro: observed.intros)
qed (auto intro: observed.intros)

lemma filter_length_le: "(\<And>x. x \<in> set xs \<Longrightarrow> P x \<Longrightarrow> Q x) \<Longrightarrow> length (filter P xs) \<le> length (filter Q xs)"
  by (induction xs) auto

text \<open>
  C24. No strategy without a task. Take any history of the Scheduler and a vault that takes its
  orders from it, however the calls of the two, the deliveries and the answers interleave, in which
  no compressed task is executed, payments are in EGLD and fungible tokens, the contracts that the
  Scheduler queries do not re-enter it, and the vault's owner, who is not the Scheduler, does not
  name another one. Then every run of a strategy of the vault is the delivery of a task or the
  query of the oracle of a task that is being executed; under a task hash at most as many
  strategies run by delivery as deposits were made for it, and at most as many by query; and
  nobody else can start one.
\<close>

theorem strategies_are_paid_for:
  assumes "scheduler_init r w m fee = Inr s" and "sync_pure e" and "scheduler_address v = sc"
    and "observed (joint_step e sc va) (joint_obs e va) (s, v) js os st'" and "list_all joint_ok js"
  shows "length (filter (\<lambda>(run, ev). run = Some (ByDelivery h)) os) \<le> length (filter (opens h) (map snd os)) \<and>
     length (filter (\<lambda>(run, ev). run = Some (ByQuery h)) os) \<le> length (filter (opens h) (map snd os)) \<and>
     (\<forall>c l. AtVault c l \<in> set js \<longrightarrow> \<not> strategy l)"
proof -
  have inv: "joint_inv e sc (s, v)"
    using assms(2,3) scheduler_init_inv [OF assms(1)] by (simp add: joint_inv_def)
  note o = joint_observed [OF assms(4,5) inv]
  have led: "run ledger_step ledger_empty (map snd os) (ledger_of (fst st'))"
    using joint.run_simulated [OF conjunct1 [OF o] assms(5) inv] init_ledger(1) [OF assms(1)] by simp
  have "length (filter (closes h) (map snd os)) \<le> length (filter (opens h) (map snd os))"
    using ledger_accounts(3) [OF led, of h] by linarith
  moreover have "length (filter (\<lambda>(run, ev). run = Some (ByDelivery h)) os) \<le> length (filter (closes h \<circ> snd) os)"
    by (rule filter_length_le) (use conjunct1 [OF conjunct2 [OF o]] in auto)
  moreover have "length (filter (\<lambda>(run, ev). run = Some (ByQuery h)) os) \<le> length (filter ((\<lambda>ev. ev = Begun h) \<circ> snd) os)"
    by (rule filter_length_le) (use conjunct1 [OF conjunct2 [OF o]] in auto)
  moreover have "length (filter (\<lambda>ev. ev = Begun h) (map snd os)) \<le> length (filter (opens h) (map snd os))"
    by (rule begun_at_most_opened [OF led])
  ultimately show ?thesis using conjunct2 [OF conjunct2 [OF o]] by (simp add: filter_map)
qed

text \<open>
  A task that compounds the vault twice, once when its oracle, which is the vault, is queried and
  once when it is delivered, from its deposit to its delivery.
\<close>

definition compound_task :: task where
  "compound_task = demo_task\<lparr>t_target_endpoint := ''compound'', t_trigger := StateDriven 300 ''compound'' [] Gte 0\<rparr>"

definition compound_calls :: "(ctx \<times> sched_call) list" where
  "compound_calls = [(demo_ctx 100 0, Config (AddWhitelistedKeeper 50)),
     (demo_ctx 9 1000, Tasks (ScheduleQuantumTask compound_task None))]"

definition compound_running :: sched where
  "compound_running = demo_running\<lparr>promises := [\<lparr>ep_to = 300, ep_endpoint = ''compound'', ep_args = [],
     ep_gas = 5000000, ep_callback_gas = 20000000, ep_task_hash = 0, ep_target_contract = 300, ep_keeper = 50\<rparr>]\<rparr>"

definition compound_execution :: joint_call where
  "compound_execution = AtScheduler (demo_ctx 50 0) (Tasks (ExecuteQuantumTask compound_task None))"

definition compound_history :: "joint_call list" where
  "compound_history = map (\<lambda>(c, l). AtScheduler c l) compound_calls @
     [compound_execution, Delivery 0 (demo_ctx 200 0) True]"

definition compound_obs :: "(strategy_start option \<times> ledger_event) list" where
  "compound_obs = [(None, Silent), (None, Opened 0 9 1000), (Some (ByQuery 0), Begun 0),
     (Some (ByDelivery 0), Settled 0 9 50 0 990 10)]"

lemma compound_exec: "exec_all demo_env compound_calls demo_start = Inr demo_scheduled"
  by (simp add: compound_calls_def compound_task_def eval_defs demo_defs demo_scheduled_def)

lemma compound_executed:
  "execute_quantum_task demo_env (demo_ctx 50 0) compound_task None demo_scheduled = Inr compound_running"
  by (simp add: compound_task_def eval_defs demo_defs compound_running_def demo_running_def demo_scheduled_def)

lemma compound_events: "history demo_env compound_calls demo_start = [Silent, Opened 0 9 1000]"
  by (simp add: compound_calls_def compound_task_def eval_defs demo_defs opened_deposit_def)

lemma observed_append:
  "observed step obs s as es t \<Longrightarrow> observed step obs t bs fs u \<Longrightarrow> observed step obs s (as @ bs) (es @ fs) u"
  by (induction rule: observed.induct) (auto intro: observed.intros)

lemma exec_all_joint:
  "exec_all e ls s = Inr t \<Longrightarrow> list_all (\<lambda>l. \<not> is_callback (snd l) \<and> queried (snd l) = None \<and>
       (\<forall>tp sec. snd l \<noteq> Tasks (ExecuteQuantumTask tp sec))) ls \<Longrightarrow>
     observed (joint_step e sc va) (joint_obs e va) (s, v) (map (\<lambda>(c, l). AtScheduler c l) ls)
       (map (Pair None) (history e ls s)) (t, v)"
proof (induction ls arbitrary: s)
  case (Cons l ls)
  obtain c k where l: "l = (c, k)" by (cases l)
  obtain s1 where s1: "sched_exec e c k s = Inr s1" "exec_all e ls s1 = Inr t"
    using Cons.prems(1) by (auto simp: l res_simps)
  have step: "joint_step e sc va (s, v) (AtScheduler c k) (s1, v)"
    using s1(1) Cons.prems(2)
    by (auto simp: l query_effect_def intro!: joint_step.at_scheduler sched_step.intros)
  have none: "strategy_run e va (s, v) (AtScheduler c k) = None"
    using Cons.prems(2) by (cases "(e, va, (s, v), AtScheduler c k)" rule: strategy_run.cases) (auto simp: l)
  have "observed (joint_step e sc va) (joint_obs e va) (s1, v) (map (\<lambda>(c, l). AtScheduler c l) ls)
      (map (Pair None) (history e ls s1)) (t, v)"
    using Cons.prems(2) by (intro Cons.IH s1(2)) simp
  from observed_cons [where obs = "joint_obs e va", OF step this] show ?case by (simp add: l s1(1) none)
qed (auto intro: observed.intros)

lemma vault_compound:
  assumes "scheduler_address v = 200" and "\<not> paused v"
  shows "\<exists>w. vault_exec (demo_ctx 200 0) Compound v = Inr w \<and> scheduler_address w = 200 \<and> \<not> paused w"
  using assms
  by (simp add: compound_def not_payable_def require_not_paused_def v_require_scheduler_caller_def
      v_register_def demo_ctx_def vm_require_def)

lemma compound_observed:
  "\<exists>st. observed (joint_step demo_env 200 300) (joint_obs demo_env 300) (demo_start, vault_init 7 200)
     compound_history compound_obs st"
proof -
  let ?v = "vault_init 7 200"
  have "scheduler_address ?v = 200" "\<not> paused ?v" by (simp_all add: vault_init_def)
  then obtain v w where v: "vault_exec (demo_ctx 200 0) Compound ?v = Inr v"
    and w: "vault_exec (demo_ctx 200 0) Compound v = Inr w"
    using vault_compound by blast
  have "\<exists>t. execution_callback 0 300 50 True (compound_running\<lparr>promises := []\<rparr>) = Inr t"
    by (simp add: compound_running_def execution_callback_def finalize_successful_execution_def Let_def
      calculate_reward_def demo_running_def demo_scheduled_def demo_defs
      bps_of_def direct_egld_def forward_protocol_fee_def forward_keeper_result_def
      transfer_execute_def sched_event_defs constant_defs)
  then obtain t where t: "deliver_callback 0 True compound_running = Inr t"
    by (auto simp: deliver_callback_def vm_require_def compound_running_def Let_def)
  have "query_effect 200 300 (Tasks (ExecuteQuantumTask compound_task None)) ?v v"
    using v by (auto simp: query_effect_def oracle_of_def compound_task_def strategy_at_def demo_ctx_def
      intro!: exI [of _ "demo_ctx 200 0"])
  then have exec: "joint_step demo_env 200 300 (demo_scheduled, ?v) compound_execution (compound_running, v)"
    unfolding compound_execution_def
    by (intro joint_step.at_scheduler sched_step.intros) (simp_all add: compound_executed is_callback_def)
  have run: "joint_step demo_env 200 300 (compound_running, v) (Delivery 0 (demo_ctx 200 0) True) (t, w)"
    by (rule joint_step.runs [OF _ _ _ _ _ w t])
      (simp_all add: compound_running_def strategy_at_def demo_ctx_def)
  have obs: "joint_obs demo_env 300 (demo_scheduled, ?v) compound_execution = (Some (ByQuery 0), Begun 0)"
    "joint_obs demo_env 300 (compound_running, v) (Delivery 0 (demo_ctx 200 0) True) =
      (Some (ByDelivery 0), Settled 0 9 50 0 990 10)"
    by (simp_all add: compound_running_def strategy_at_def settlement_def calculate_reward_def demo_running_def
        demo_scheduled_def demo_defs bps_of_def Let_def compound_execution_def compound_task_def oracle_of_def)
  have two: "observed (joint_step demo_env 200 300) (joint_obs demo_env 300) (demo_scheduled, ?v)
      [compound_execution, Delivery 0 (demo_ctx 200 0) True]
      [(Some (ByQuery 0), Begun 0), (Some (ByDelivery 0), Settled 0 9 50 0 990 10)] (t, w)"
    using observed_cons [where step = "joint_step demo_env 200 300" and obs = "joint_obs demo_env 300", OF exec
      observed_cons [where step = "joint_step demo_env 200 300" and obs = "joint_obs demo_env 300", OF run observed_nil]]
    unfolding obs .
  have "list_all (\<lambda>l. \<not> is_callback (snd l) \<and> queried (snd l) = None \<and>
       (\<forall>tp sec. snd l \<noteq> Tasks (ExecuteQuantumTask tp sec))) compound_calls"
    by (simp add: compound_calls_def is_callback_def)
  from observed_append [OF exec_all_joint [OF compound_exec this] two] show ?thesis
    by (auto simp: compound_events compound_history_def compound_obs_def)
qed

theorem strategies_are_paid_for_witness:
  "\<exists>st. observed (joint_step demo_env 200 300) (joint_obs demo_env 300) (demo_start, vault_init 7 200)
       compound_history compound_obs st \<and>
     length (filter (\<lambda>(run, ev). run = Some (ByDelivery 0)) compound_obs) \<le> length (filter (opens 0) (map snd compound_obs)) \<and>
     length (filter (\<lambda>(run, ev). run = Some (ByQuery 0)) compound_obs) \<le> length (filter (opens 0) (map snd compound_obs))"
proof -
  obtain st where o: "observed (joint_step demo_env 200 300) (joint_obs demo_env 300) (demo_start, vault_init 7 200)
      compound_history compound_obs st" using compound_observed by blast
  have "list_all joint_ok compound_history"
    by (simp add: compound_history_def compound_execution_def compound_calls_def ok_call_def no_compressed_def demo_ctx_def)
  moreover have "scheduler_address (vault_init 7 200) = 200" by (simp add: vault_init_def)
  ultimately show ?thesis using strategies_are_paid_for [OF demo_init demo_sync_pure _ o] o by blast
qed

end
