(* ===== verification/Target_Contracts.thy ===== *)
theory Target_Contracts
  imports Vault_Properties
begin

text \<open>
  The small contracts the protocol is exercised with: ping, the target of the first tasks
  (contracts/ping), and the two stand-ins for a collection and an exchange that the vault pays
  (contracts/test-nft, contracts/test-dex). The last two share a contract of their own, a
  counter that must be paid, and with it what becomes of the money of a strategy.
\<close>

section \<open>Ping\<close>

record ping_contract = account +
  ping_count :: u64

definition ping_init :: ping_contract where
  "ping_init = \<lparr>egld_balance = 0, esdt_balance = (\<lambda>_ _. 0), outbox = [], ping_count = 0\<rparr>"

definition ping_upgrade :: "ping_contract \<Rightarrow> ping_contract" where
  "ping_upgrade s = s"

definition ping :: "ctx \<Rightarrow> ping_contract \<Rightarrow> ping_contract res" where
  "ping c s = not_payable c (Inr (s\<lparr>ping_count := ping_count s + 1\<rparr>))"

section \<open>The collection\<close>

record test_nft = account +
  mint_count :: u64
  total_paid :: nat

definition nft_init :: test_nft where
  "nft_init = \<lparr>egld_balance = 0, esdt_balance = (\<lambda>_ _. 0), outbox = [], mint_count = 0, total_paid = 0\<rparr>"

definition nft_upgrade :: "test_nft \<Rightarrow> test_nft" where
  "nft_upgrade s = s"

definition nft_mint :: "ctx \<Rightarrow> u64 \<Rightarrow> test_nft \<Rightarrow> test_nft res" where
  "nft_mint c cnt s0 = payable_egld c (let s = receive c s0; payment = egld_value c in
     require (0 < payment) ''No EGLD sent'' (
     Inr (s\<lparr>mint_count := mint_count s + 1, total_paid := total_paid s + payment\<rparr>)))"

section \<open>The exchange\<close>

record test_dex = account +
  swap_count :: u64
  total_swapped :: nat

definition dex_init :: test_dex where
  "dex_init = \<lparr>egld_balance = 0, esdt_balance = (\<lambda>_ _. 0), outbox = [], swap_count = 0, total_swapped = 0\<rparr>"

definition dex_upgrade :: "test_dex \<Rightarrow> test_dex" where
  "dex_upgrade s = s"

definition swap_tokens_fixed_input :: "ctx \<Rightarrow> nat \<Rightarrow> test_dex \<Rightarrow> test_dex res" where
  "swap_tokens_fixed_input c min_amount s0 = payable_egld c (let s = receive c s0; payment = egld_value c in
     require (0 < payment) ''No EGLD sent'' (
     Inr (s\<lparr>swap_count := swap_count s + 1, total_swapped := total_swapped s + payment\<rparr>)))"

section \<open>A counter that must be paid\<close>

text \<open>The result of a registered call that is run by the contract it goes to.\<close>

definition outcome :: "('s \<Rightarrow> 's res) \<Rightarrow> 's \<Rightarrow> async_result \<times> 's" where
  "outcome f s = (case f s of Inr t \<Rightarrow> (succeeded 0, t) | Inl _ \<Rightarrow> (failed, s))"

locale paid_counter =
  fixes op :: "ctx \<Rightarrow> 's \<Rightarrow> 's res"
    and calls :: "'s \<Rightarrow> u64"
    and paid :: "'s \<Rightarrow> nat"
    and holds :: "'s \<Rightarrow> nat"
  assumes pays: "op c s = Inr t \<Longrightarrow> 0 < egld_value c \<and> calls t = calls s + 1 \<and>
      paid t = paid s + egld_value c \<and> holds t = holds s + egld_value c"
    and accepts: "0 < egld_value c \<Longrightarrow> esdt_transfers c = [] \<Longrightarrow> \<exists>t. op c s = Inr t"
begin

lemma paid_run:
  assumes "run (\<lambda>s c t. op c s = Inr t) s cs t" and "paid s = holds s"
  shows "paid t = holds t \<and> calls t = calls s + of_nat (length cs) \<and>
     paid t = paid s + (\<Sum>c\<leftarrow>cs. egld_value c)"
  using assms
proof (induction rule: run.induct)
  case (run_cons s c t cs u)
  then show ?case using pays [of c s t] by (simp add: algebra_simps)
qed simp

text \<open>
  The value of a registered call either arrives or comes back: together the caller and the
  counter hold what they held before, with what was on its way.
\<close>

lemma value_arrives:
  assumes "outcome (op c) s = (r, t)" and "egld_value c = pr_egld p" and "esdt_transfers c = []"
  shows "egld_back p r + holds t = pr_egld p + holds s \<and> (ar_ok r \<longleftrightarrow> 0 < pr_egld p) \<and>
     calls t = calls s + of_bool (0 < pr_egld p)"
proof (cases "op c s")
  case (Inl e)
  then have "\<not> 0 < pr_egld p" using accepts [of c s] assms(2,3) by auto
  then show ?thesis using assms(1) Inl by (auto simp: outcome_def failed_def egld_back_def)
next
  case (Inr u)
  then show ?thesis
    using assms(1,2) pays [OF Inr] by (auto simp: outcome_def succeeded_def egld_back_def)
qed

end

interpretation nft: paid_counter "\<lambda>c. nft_mint c n" mint_count total_paid egld_balance for n
  by unfold_locales (auto simp: nft_mint_def payable_egld_def receive_def res_simps Let_def)

interpretation dex: paid_counter "\<lambda>c. swap_tokens_fixed_input c x" swap_count total_swapped egld_balance for x
  by unfold_locales (auto simp: swap_tokens_fixed_input_def payable_egld_def receive_def res_simps Let_def)

section \<open>The money of a strategy\<close>

lemma deliver_strategy_egld:
  assumes "v_deliver c i r v = Inr w" and "pr_callback (v_promises v ! i) \<in> {SwapCallback, EmergencySwapCallback, MintCallback}"
  shows "egld_balance w = egld_balance v + egld_back (v_promises v ! i) r"
  using assms
  by (auto simp: v_deliver_def res_simps Let_def swap_callback_def emergency_swap_callback_def
      mint_callback_def vault_event_defs split: if_splits)

text \<open>
  A swap or a mint of the vault neither makes nor loses money: when the call the vault has
  registered is run by the exchange or the collection, what vault and contract hold together
  afterwards is what they held before plus what was on its way, the contract counts the call
  if it was paid, and what the contract has recorded is what it holds.
\<close>

theorem strategy_money_arrives:
  assumes "pr_callback (v_promises v ! i) \<in> {SwapCallback, EmergencySwapCallback, MintCallback}"
    and "egld_value c = pr_egld (v_promises v ! i)" and "esdt_transfers c = []"
    and "total_swapped d = egld_balance d" and "total_paid n = egld_balance n"
  shows "\<lbrakk>outcome (swap_tokens_fixed_input c x) d = (r, d'); v_deliver c' i r v = Inr w\<rbrakk> \<Longrightarrow>
      egld_balance w + egld_balance d' = egld_balance v + egld_balance d + pr_egld (v_promises v ! i) \<and>
      total_swapped d' = egld_balance d'"
    and "\<lbrakk>outcome (nft_mint c k) n = (r, n'); v_deliver c' i r v = Inr w\<rbrakk> \<Longrightarrow>
      egld_balance w + egld_balance n' = egld_balance v + egld_balance n + pr_egld (v_promises v ! i) \<and>
      total_paid n' = egld_balance n'"
proof -
  assume o: "outcome (swap_tokens_fixed_input c x) d = (r, d')" and w: "v_deliver c' i r v = Inr w"
  have "total_swapped d' = egld_balance d'"
    using o assms(4) dex.pays [of c x d d'] by (auto simp: outcome_def split: sum.splits)
  then show "egld_balance w + egld_balance d' = egld_balance v + egld_balance d + pr_egld (v_promises v ! i) \<and>
      total_swapped d' = egld_balance d'"
    using dex.value_arrives [OF o assms(2,3)] deliver_strategy_egld [OF w assms(1)] by simp
next
  assume o: "outcome (nft_mint c k) n = (r, n')" and w: "v_deliver c' i r v = Inr w"
  have "total_paid n' = egld_balance n'"
    using o assms(5) nft.pays [of c k n n'] by (auto simp: outcome_def split: sum.splits)
  then show "egld_balance w + egld_balance n' = egld_balance v + egld_balance n + pr_egld (v_promises v ! i) \<and>
      total_paid n' = egld_balance n'"
    using nft.value_arrives [OF o assms(2,3)] deliver_strategy_egld [OF w assms(1)] by simp
qed

text \<open>A mint at price zero, which the vault allows, is always refused by the collection.\<close>

theorem free_mint_refused: "egld_value c = 0 \<Longrightarrow> outcome (nft_mint c k) n = (failed, n)"
  by (simp add: outcome_def nft_mint_def payable_egld_def require_def vm_require_def Let_def)

end
