(* ===== verification/Rust_Text.thy ===== *)
theory Rust_Text
  imports Prelude
begin

text \<open>
  What the off-chain programs use of Rust's standard library on text: decimal and hexadecimal
  formatting, \<open>str::parse::<u128>\<close>, \<open>str::split\<close> at a character and \<open>to_lowercase\<close>. A string
  is the list of its bytes.
\<close>

type_synonym u128 = "128 word"
type_synonym usize = "64 word"

section \<open>Decimal numbers\<close>

fun dec :: "nat \<Rightarrow> string" where
  "dec n = (if n < 10 then [char_of (48 + n)] else dec (n div 10) @ [char_of (48 + n mod 10)])"

declare dec.simps [simp del]

definition dec_value :: "char \<Rightarrow> nat option" where
  "dec_value c = (let k = of_char c :: nat in if 48 \<le> k \<and> k \<le> 57 then Some (k - 48) else None)"

text \<open>The loop of \<open>parse\<close>: an invalid digit and an overflow are errors.\<close>

fun parse_digits :: "nat \<Rightarrow> nat \<Rightarrow> string \<Rightarrow> nat option" where
  "parse_digits m acc [] = Some acc"
| "parse_digits m acc (c # cs) = (case dec_value c of
     None \<Rightarrow> None
   | Some d \<Rightarrow> if m < acc * 10 + d then None else parse_digits m (acc * 10 + d) cs)"

text \<open>An empty text is an error, and so is a sign alone; a leading plus is skipped.\<close>

definition parse_u128 :: "string \<Rightarrow> u128 option" where
  "parse_u128 s = (case s of
     [] \<Rightarrow> None
   | c # cs \<Rightarrow>
       map_option of_nat
         (if c = CHR ''+'' then (if cs = [] then None else parse_digits (2 ^ 128 - 1) 0 cs)
          else parse_digits (2 ^ 128 - 1) 0 s))"

abbreviation parse_or_zero :: "string \<Rightarrow> u128" where
  "parse_or_zero s \<equiv> case parse_u128 s of None \<Rightarrow> 0 | Some v \<Rightarrow> v"

lemma dec_value_digit [simp]: "d < 10 \<Longrightarrow> dec_value (char_of (48 + d)) = Some d"
  by (simp add: dec_value_def)

lemma dec_value_SomeD: "dec_value c = Some d \<Longrightarrow> c = char_of (48 + d) \<and> d < 10"
  by (auto simp: dec_value_def Let_def split: if_splits)

lemma dec_neq_Nil [simp]: "dec n \<noteq> []"
  by (simp add: dec.simps [of n])

lemma parse_digits_append:
  "parse_digits m acc (xs @ ys) =
     (case parse_digits m acc xs of None \<Rightarrow> None | Some a \<Rightarrow> parse_digits m a ys)"
  by (induction xs arbitrary: acc) (auto split: option.splits)

lemma parse_digits_dec: "n \<le> m \<Longrightarrow> parse_digits m 0 (dec n) = Some n"
proof (induction n rule: dec.induct)
  case (1 n)
  show ?case
  proof (cases "n < 10")
    case True
    with "1.prems" show ?thesis by (simp add: dec.simps [of n])
  next
    case False
    then have "parse_digits m 0 (dec (n div 10)) = Some (n div 10)"
      using "1" by (meson div_le_dividend le_trans)
    with False "1.prems" show ?thesis by (simp add: dec.simps [of n] parse_digits_append)
  qed
qed

lemma dec_digits: "c \<in> set (dec n) \<Longrightarrow> \<exists>d < 10. c = char_of (48 + d :: nat)"
proof (induction n rule: dec.induct)
  case (1 n)
  show ?case
  proof (cases "n < 10 \<or> c \<in> set (dec (n div 10))")
    case True
    with "1" show ?thesis by (cases "n < 10") (auto simp: dec.simps [of n])
  next
    case False
    with "1.prems" have "c = char_of (48 + n mod 10)" by (auto simp: dec.simps [of n])
    then show ?thesis by (intro exI [of _ "n mod 10"]) simp
  qed
qed

lemma digit_of_char: "c \<in> set (dec n) \<Longrightarrow> 48 \<le> (of_char c :: nat) \<and> of_char c < (58 :: nat)"
  using dec_digits by fastforce

lemma dec_no_plus [simp]: "CHR ''+'' \<notin> set (dec n)"
  using digit_of_char [of "CHR ''+''" n] by auto

lemma dec_no_quote [simp]: "CHR 0x22 \<notin> set (dec n)"
  using digit_of_char [of "CHR 0x22" n] by auto

lemma dec_no_comma [simp]: "CHR '','' \<notin> set (dec n)"
  using digit_of_char [of "CHR '',''" n] by auto

lemma dec_no_brace [simp]: "CHR ''}'' \<notin> set (dec n)"
  using digit_of_char [of "CHR ''}''" n] by auto

lemma dec_inject [simp]: "dec m = dec n \<longleftrightarrow> m = n"
proof
  assume "dec m = dec n"
  then have "parse_digits (max m n) 0 (dec m) = parse_digits (max m n) 0 (dec n)" by simp
  then show "m = n" by (simp add: parse_digits_dec)
qed simp

text \<open>What \<open>to_string\<close> prints, \<open>parse\<close> reads.\<close>

lemma parse_u128_dec: "n < 2 ^ 128 \<Longrightarrow> parse_u128 (dec n) = Some (of_nat n)"
proof -
  assume "n < 2 ^ 128"
  then have p: "parse_digits (2 ^ 128 - 1) 0 (dec n) = Some n" by (simp add: parse_digits_dec)
  obtain c cs where d: "dec n = c # cs" by (meson dec_neq_Nil neq_Nil_conv)
  then have "c \<noteq> CHR ''+''" using dec_no_plus [of n] by auto
  with p d show ?thesis by (simp add: parse_u128_def)
qed

section \<open>Hexadecimal numbers\<close>

definition hex_digit :: "nat \<Rightarrow> char" where
  "hex_digit d = (if d < 10 then char_of (48 + d) else char_of (87 + d))"

fun hex_min :: "nat \<Rightarrow> string" where
  "hex_min n = (if n < 16 then [hex_digit n] else hex_min (n div 16) @ [hex_digit (n mod 16)])"

declare hex_min.simps [simp del]

text \<open>\<open>{:0wx}\<close>: the shortest digits, padded with zeros to the width.\<close>

definition lower_hex :: "nat \<Rightarrow> nat \<Rightarrow> string" where
  "lower_hex w n = replicate (w - length (hex_min n)) (CHR ''0'') @ hex_min n"

text \<open>The digits at a fixed width, most significant first.\<close>

fun hex_fixed :: "nat \<Rightarrow> nat \<Rightarrow> string" where
  "hex_fixed 0 n = []"
| "hex_fixed (Suc w) n = hex_fixed w (n div 16) @ [hex_digit (n mod 16)]"

lemma length_hex_fixed [simp]: "length (hex_fixed w n) = w"
  by (induction w arbitrary: n) auto

lemma hex_digit_inject: "a < 16 \<Longrightarrow> b < 16 \<Longrightarrow> hex_digit a = hex_digit b \<longleftrightarrow> a = b"
  by (auto simp: hex_digit_def split: if_splits)

lemma hex_fixed_inject:
  "a < 16 ^ w \<Longrightarrow> b < 16 ^ w \<Longrightarrow> hex_fixed w a = hex_fixed w b \<longleftrightarrow> a = b"
proof (induction w arbitrary: a b)
  case (Suc w)
  have "a div 16 < 16 ^ w" "b div 16 < 16 ^ w" using Suc.prems by (simp_all add: less_mult_imp_div_less mult.commute)
  then have "hex_fixed (Suc w) a = hex_fixed (Suc w) b \<longleftrightarrow> a div 16 = b div 16 \<and> a mod 16 = b mod 16"
    using Suc.IH [of "a div 16" "b div 16"] by (simp add: hex_digit_inject)
  then show ?case by (metis div_mult_mod_eq)
qed simp

lemma hex_fixed_zero: "hex_fixed w 0 = replicate w (CHR ''0'')"
proof (induction w)
  case (Suc w)
  have "hex_digit 0 = CHR ''0''" by code_simp
  with Suc show ?case by (simp add: replicate_append_same)
qed simp

lemma hex_min_length_le: "n < 16 ^ w \<Longrightarrow> 0 < w \<Longrightarrow> length (hex_min n) \<le> w"
proof (induction w arbitrary: n)
  case (Suc w)
  show ?case
  proof (cases "n < 16")
    case True
    then show ?thesis by (simp add: hex_min.simps [of n])
  next
    case False
    with Suc.prems have "n div 16 < 16 ^ w" "0 < w"
      by (simp add: less_mult_imp_div_less mult.commute) (use False Suc.prems in \<open>cases w; simp\<close>)
    with Suc.IH [of "n div 16"] False show ?thesis by (simp add: hex_min.simps [of n])
  qed
qed simp

lemma lower_hex_fixed: "n < 16 ^ w \<Longrightarrow> 0 < w \<Longrightarrow> lower_hex w n = hex_fixed w n"
proof (induction w arbitrary: n)
  case (Suc w)
  show ?case
  proof (cases "n < 16")
    case True
    then show ?thesis
      by (simp add: lower_hex_def hex_min.simps [of n] hex_fixed_zero)
  next
    case False
    with Suc.prems have *: "n div 16 < 16 ^ w" "0 < w"
      by (simp add: less_mult_imp_div_less mult.commute) (use False Suc.prems in \<open>cases w; simp\<close>)
    then have "lower_hex w (n div 16) = hex_fixed w (n div 16)" using Suc.IH by blast
    with False show ?thesis by (simp add: lower_hex_def hex_min.simps [of n])
  qed
qed simp

lemma hex_fixed_pad: "n < 16 ^ w \<Longrightarrow> hex_fixed (k + w) n = replicate k (CHR ''0'') @ hex_fixed w n"
proof (induction w arbitrary: n)
  case 0
  then show ?case by (simp add: hex_fixed_zero)
next
  case (Suc w)
  then have "n div 16 < 16 ^ w" by (simp add: less_mult_imp_div_less mult.commute)
  with Suc.IH show ?case by simp
qed

lemma length_lower_hex [simp]: "n < 16 ^ w \<Longrightarrow> 0 < w \<Longrightarrow> length (lower_hex w n) = w"
  by (simp add: lower_hex_fixed)

section \<open>Joining\<close>

fun join :: "string \<Rightarrow> string list \<Rightarrow> string" where
  "join sep [] = []"
| "join sep [p] = p"
| "join sep (p # q # ps) = p @ sep @ join sep (q # ps)"

section \<open>Splitting and lower case\<close>

fun split_at :: "char \<Rightarrow> string \<Rightarrow> string list" where
  "split_at c [] = [[]]"
| "split_at c (x # xs) = (case split_at c xs of
     [] \<Rightarrow> []
   | p # ps \<Rightarrow> if x = c then [] # p # ps else (x # p) # ps)"

lemma split_at_neq_Nil [simp]: "split_at c s \<noteq> []"
  by (induction s) (auto split: list.splits)

lemma split_at_none: "c \<notin> set s \<Longrightarrow> split_at c s = [s]"
  by (induction s) auto

lemma split_at_append: "c \<notin> set s \<Longrightarrow> split_at c (s @ c # t) = s # split_at c t"
  by (induction s) (auto split: list.splits simp: neq_Nil_conv)

lemma split_at_single: "split_at c s = [a] \<longleftrightarrow> s = a \<and> c \<notin> set a"
proof
  show "split_at c s = [a] \<Longrightarrow> s = a \<and> c \<notin> set a"
    by (induction s arbitrary: a) (auto split: list.splits if_splits)
qed (auto simp: split_at_none)

lemma split_at_pair: "split_at c s = [a, b] \<longleftrightarrow> s = a @ c # b \<and> c \<notin> set a \<and> c \<notin> set b"
proof
  show "split_at c s = [a, b] \<Longrightarrow> s = a @ c # b \<and> c \<notin> set a \<and> c \<notin> set b"
    by (induction s arbitrary: a) (auto simp: split_at_single split: list.splits if_splits)
qed (auto simp: split_at_append split_at_none)

text \<open>
  Lower case of the letters A to Z. Rust also maps letters outside ASCII, none of which becomes
  a letter of the names the programs compare with.
\<close>

definition to_lower :: "string \<Rightarrow> string" where
  "to_lower s = map (\<lambda>c. let k = of_char c :: nat in if 65 \<le> k \<and> k \<le> 90 then char_of (k + 32) else c) s"

section \<open>Searching and trimming\<close>

definition contains_text :: "string \<Rightarrow> string \<Rightarrow> bool" where
  "contains_text s pat = list_ex (\<lambda>i. take (length pat) (drop i s) = pat) [0 ..< Suc (length s)]"

definition starts_with :: "string \<Rightarrow> string \<Rightarrow> bool" where
  "starts_with s pat = (take (length pat) s = pat)"

text \<open>White space in ASCII: tab, line feed, vertical tab, form feed, carriage return and space.\<close>

definition ascii_space :: "char \<Rightarrow> bool" where
  "ascii_space c \<longleftrightarrow> (let k = of_char c :: nat in k = 32 \<or> 9 \<le> k \<and> k \<le> 13)"

definition trim :: "string \<Rightarrow> string" where
  "trim s = rev (dropWhile ascii_space (rev (dropWhile ascii_space s)))"

definition trim_end_matches :: "char \<Rightarrow> string \<Rightarrow> string" where
  "trim_end_matches c s = rev (dropWhile (\<lambda>x. x = c) (rev s))"

section \<open>UTF-8\<close>

text \<open>The byte sequences \<open>String::from_utf8\<close> accepts.\<close>

definition in_range :: "nat \<Rightarrow> nat \<Rightarrow> char \<Rightarrow> bool" where
  "in_range a b c \<longleftrightarrow> a \<le> of_char c \<and> of_char c \<le> b"

abbreviation continuation :: "char \<Rightarrow> bool" where
  "continuation \<equiv> in_range 128 191"

fun utf8 :: "bytes \<Rightarrow> bool" where
  "utf8 [] = True"
| "utf8 (a # s) =
     (if in_range 0 127 a then utf8 s
      else if in_range 194 223 a then
        (case s of b # t \<Rightarrow> continuation b \<and> utf8 t | _ \<Rightarrow> False)
      else if in_range 224 239 a then
        (case s of b # c # t \<Rightarrow>
           continuation b \<and> continuation c \<and> (of_char a = (224 :: nat) \<longrightarrow> in_range 160 191 b) \<and>
           (of_char a = (237 :: nat) \<longrightarrow> in_range 128 159 b) \<and> utf8 t | _ \<Rightarrow> False)
      else if in_range 240 244 a then
        (case s of b # c # d # t \<Rightarrow>
           continuation b \<and> continuation c \<and> continuation d \<and>
           (of_char a = (240 :: nat) \<longrightarrow> in_range 144 191 b) \<and>
           (of_char a = (244 :: nat) \<longrightarrow> in_range 128 143 b) \<and> utf8 t | _ \<Rightarrow> False)
      else False)"

lemma utf8_ascii: "list_all (in_range 0 127) s \<Longrightarrow> utf8 s"
  by (induction s) auto

section \<open>Separators\<close>

text \<open>A text that ends at the first separator is determined.\<close>

lemma sep_unique:
  "c \<notin> set a \<Longrightarrow> c \<notin> set b \<Longrightarrow> a @ c # x = b @ c # y \<longleftrightarrow> a = b \<and> x = y"
proof (induction a arbitrary: b)
  case Nil
  then show ?case by (cases b) auto
next
  case (Cons d a)
  then show ?case by (cases b) auto
qed

text \<open>A decimal number that is not followed by a digit is determined.\<close>

definition no_digit :: "string \<Rightarrow> bool" where
  "no_digit s \<longleftrightarrow> (case s of [] \<Rightarrow> True | c # _ \<Rightarrow> dec_value c = None)"

lemma takeWhile_dec:
  "no_digit x \<Longrightarrow> takeWhile (\<lambda>c. dec_value c \<noteq> None) (dec n @ x) = dec n"
proof -
  assume "no_digit x"
  then have "takeWhile (\<lambda>c. dec_value c \<noteq> None) x = []"
    by (auto simp: no_digit_def split: list.splits)
  moreover have "dec_value c \<noteq> None" if "c \<in> set (dec n)" for c
    using dec_digits [OF that] by auto
  ultimately show ?thesis by (simp add: takeWhile_append2)
qed

lemma dec_unique:
  "no_digit x \<Longrightarrow> no_digit y \<Longrightarrow> dec m @ x = dec n @ y \<longleftrightarrow> m = n \<and> x = y"
  by (metis append_same_eq dec_inject same_append_eq takeWhile_dec)

end
