(* ===== verification/Keeper_Transactions.thy ===== *)
theory Keeper_Transactions
  imports Rust_Text
begin

text \<open>
  The transactions of the keeper program (xcron-keeper-rs/src/transaction.rs) and the two places
  of main.rs that build them for schedules and back-runs. Base64, hexadecimal encoding and
  Ed25519 come from libraries and are the fields of \<open>tx_lib\<close>; a wallet is its key and its address.
\<close>

section \<open>Libraries\<close>

record tx_lib =
  b64_encode :: "bytes \<Rightarrow> string"
  tx_hex_encode :: "bytes \<Rightarrow> string"
  ed_sign :: "hash32 \<Rightarrow> bytes \<Rightarrow> bytes"

record keeper_wallet =
  signing_key :: hash32
  bech32_address :: string

section \<open>Transactions\<close>

record transaction =
  tx_nonce :: u64
  tx_value :: string
  tx_receiver :: string
  tx_sender :: string
  tx_gas_price :: u64
  tx_gas_limit :: u64
  tx_data :: "string option"
  tx_chain_id :: string
  tx_version :: u32
  tx_options :: "u32 option"
  tx_relayer :: "string option"
  tx_signature :: "string option"
  tx_relayer_signature :: "string option"

definition transaction_new ::
  "tx_lib \<Rightarrow> u64 \<Rightarrow> string \<Rightarrow> string \<Rightarrow> string \<Rightarrow> u64 \<Rightarrow> u64 \<Rightarrow> bytes option \<Rightarrow> string \<Rightarrow> u32 \<Rightarrow> transaction" where
  "transaction_new L nonce v receiver sender gas_price gas_limit data chain_id version =
     \<lparr>tx_nonce = nonce, tx_value = v, tx_receiver = receiver, tx_sender = sender,
      tx_gas_price = gas_price, tx_gas_limit = gas_limit, tx_data = map_option (b64_encode L) data,
      tx_chain_id = chain_id, tx_version = version, tx_options = None, tx_relayer = None,
      tx_signature = None, tx_relayer_signature = None\<rparr>"

text \<open>\<open>"name":number\<close> and \<open>"name":"text"\<close>.\<close>

definition num_field :: "string \<Rightarrow> nat \<Rightarrow> string" where
  "num_field name n = CHR 0x22 # name @ CHR 0x22 # CHR '':'' # dec n"

definition text_field :: "string \<Rightarrow> string \<Rightarrow> string" where
  "text_field name v = CHR 0x22 # name @ CHR 0x22 # CHR '':'' # CHR 0x22 # v @ [CHR 0x22]"

definition serialize_for_signing :: "transaction \<Rightarrow> string" where
  "serialize_for_signing t =
     (let parts =
        [num_field ''nonce'' (unat (tx_nonce t)), text_field ''value'' (tx_value t),
         text_field ''receiver'' (tx_receiver t), text_field ''sender'' (tx_sender t),
         num_field ''gasPrice'' (unat (tx_gas_price t)), num_field ''gasLimit'' (unat (tx_gas_limit t))];
       parts = (case tx_data t of Some d \<Rightarrow> parts @ [text_field ''data'' d] | None \<Rightarrow> parts);
       parts = parts @ [text_field ''chainID'' (tx_chain_id t), num_field ''version'' (unat (tx_version t))];
       parts = (case tx_options t of Some p \<Rightarrow> parts @ [num_field ''options'' (unat p)] | None \<Rightarrow> parts);
       parts = (case tx_relayer t of Some r \<Rightarrow> parts @ [text_field ''relayer'' r] | None \<Rightarrow> parts)
      in ''{'' @ join '','' parts @ ''}'')"

definition serialize_for_relayer_signing :: "transaction \<Rightarrow> string" where
  "serialize_for_relayer_signing t = serialize_for_signing t"

definition sign :: "tx_lib \<Rightarrow> hash32 \<Rightarrow> transaction \<Rightarrow> transaction" where
  "sign L key t = (let payload = serialize_for_signing t in
     t\<lparr>tx_signature := Some (tx_hex_encode L (ed_sign L key payload))\<rparr>)"

text \<open>The JSON text is made by a library, a parameter.\<close>

definition to_relayed_data :: "tx_lib \<Rightarrow> (transaction \<Rightarrow> string) \<Rightarrow> transaction \<Rightarrow> string" where
  "to_relayed_data L json t = ''relayedTx@'' @ tx_hex_encode L (json t)"

definition to_relayed_v3 :: "tx_lib \<Rightarrow> string \<Rightarrow> hash32 \<Rightarrow> transaction \<Rightarrow> transaction" where
  "to_relayed_v3 L relayer_address relayer_key t =
     (let t = t\<lparr>tx_relayer := Some relayer_address\<rparr>;
          payload = serialize_for_relayer_signing t
      in t\<lparr>tx_relayer_signature := Some (tx_hex_encode L (ed_sign L relayer_key payload))\<rparr>)"

definition build_quantum_execution_tx ::
  "tx_lib \<Rightarrow> u64 \<Rightarrow> string \<Rightarrow> string \<Rightarrow> string \<Rightarrow> string option \<Rightarrow> string \<Rightarrow> transaction" where
  "build_quantum_execution_tx L nonce sender scheduler_address serialized_task_hex quantum_secret_hex chain_id =
     (let data = ''executeQuantumTask@'' @ serialized_task_hex;
          data = (case quantum_secret_hex of Some secret \<Rightarrow> data @ ''@01'' @ secret | None \<Rightarrow> data @ ''@00'')
      in transaction_new L nonce ''0'' scheduler_address sender 1000000000 30000000 (Some data) chain_id 1)"

section \<open>Serialised tasks\<close>

fun push_args :: "string \<Rightarrow> string list \<Rightarrow> string" where
  "push_args hex [] = hex"
| "push_args hex (arg # rest) = push_args (hex @ lower_hex 8 (length arg div 2) @ arg) rest"

definition serialize_quantum_task_hex ::
  "u64 \<Rightarrow> string \<Rightarrow> string \<Rightarrow> string \<Rightarrow> string list \<Rightarrow> u8 \<Rightarrow> string \<Rightarrow> u64 \<Rightarrow> string" where
  "serialize_quantum_task_hex task_id owner_hex target_contract_hex endpoint_hex args_hex
      trigger_type trigger_data_hex max_gas =
     (let hex = lower_hex 16 (unat task_id);
          hex = hex @ owner_hex;
          hex = hex @ target_contract_hex;
          hex = hex @ lower_hex 8 (length endpoint_hex div 2) @ endpoint_hex;
          hex = hex @ lower_hex 8 (length args_hex);
          hex = push_args hex args_hex;
          hex = hex @ lower_hex 2 (unat trigger_type) @ trigger_data_hex;
          hex = hex @ lower_hex 16 (unat max_gas)
      in hex @ ''00000000'' @ ''00'' @ ''00'' @ ''0000000000000000'' @ ''0000000000000000'' @ ''00'' @ ''00'' @
         ''0000000000000000'' @ ''00'' @ ''00'' @ ''00'')"

definition ping_target :: string where
  "ping_target = ''00000000000000000500ebaa4de200cf54fe97a0604c759cd8f6de251daeb90b''"

text \<open>The schedule the bot sends; \<open>now_secs\<close> is the clock in seconds.\<close>

definition generate_schedule_payload :: "tx_lib \<Rightarrow> u64 \<Rightarrow> bytes" where
  "generate_schedule_payload L now_secs =
     (let endpoint_hex = tx_hex_encode L ''ping'';
          trigger_time = now_secs + 30;
          trigger_hex = ''00'' @ lower_hex 16 (unat trigger_time);
          task_hex = serialize_quantum_task_hex 40000000
            ''0000000000000000000000000000000000000000000000000000000000000000'' ping_target endpoint_hex [] 0
            trigger_hex 30000000
      in ''scheduleQuantumTask@'' @ task_hex)"

text \<open>The back-run of a victim's swap: a fresh sender, and the keeper's wallet as relayer.\<close>

definition backrun_data :: bytes where
  "backrun_data = ''ESDTTransfer@555344432d633736663166@0f4240@73776170546f6b656e734669786564496e707574@5745474c442d626434643739@01''"

definition surgical_backrun_tx ::
  "tx_lib \<Rightarrow> keeper_wallet \<Rightarrow> keeper_wallet \<Rightarrow> string \<Rightarrow> u64 \<Rightarrow> string \<Rightarrow> transaction" where
  "surgical_backrun_tx L fake_sender wallet pair_address gas_price chain_id =
     (let t = transaction_new L 0 ''0'' pair_address (bech32_address fake_sender) gas_price 1500000
                (Some backrun_data) chain_id 1;
          t = sign L (signing_key fake_sender) t
      in to_relayed_v3 L (bech32_address wallet) (signing_key wallet) t)"

section \<open>The signed text\<close>

text \<open>The text written from left to right.\<close>

definition payload_tail :: "transaction \<Rightarrow> string" where
  "payload_tail t =
     (case tx_options t of Some p \<Rightarrow> CHR '','' # num_field ''options'' (unat p) | None \<Rightarrow> []) @
     (case tx_relayer t of Some r \<Rightarrow> CHR '','' # text_field ''relayer'' r | None \<Rightarrow> []) @ ''}''"

lemma serialize_eq:
  "serialize_for_signing t =
     CHR ''{'' # num_field ''nonce'' (unat (tx_nonce t)) @ CHR '','' # text_field ''value'' (tx_value t) @ CHR '','' #
     text_field ''receiver'' (tx_receiver t) @ CHR '','' # text_field ''sender'' (tx_sender t) @ CHR '','' #
     num_field ''gasPrice'' (unat (tx_gas_price t)) @ CHR '','' # num_field ''gasLimit'' (unat (tx_gas_limit t)) @ CHR '','' #
     (case tx_data t of Some d \<Rightarrow> text_field ''data'' d @ [CHR '',''] | None \<Rightarrow> []) @
     text_field ''chainID'' (tx_chain_id t) @ CHR '','' # num_field ''version'' (unat (tx_version t)) @ payload_tail t"
  by (cases "tx_data t"; cases "tx_options t"; cases "tx_relayer t")
    (simp_all add: serialize_for_signing_def payload_tail_def)

definition quote_free :: "transaction \<Rightarrow> bool" where
  "quote_free t \<longleftrightarrow> CHR 0x22 \<notin> set (tx_value t) \<and> CHR 0x22 \<notin> set (tx_receiver t) \<and>
     CHR 0x22 \<notin> set (tx_sender t) \<and> CHR 0x22 \<notin> set (tx_chain_id t) \<and>
     (\<forall>d. tx_data t = Some d \<longrightarrow> CHR 0x22 \<notin> set d) \<and> (\<forall>r. tx_relayer t = Some r \<longrightarrow> CHR 0x22 \<notin> set r)"

lemma no_digit_sep [simp]: "no_digit (CHR '','' # x)" "no_digit (CHR ''}'' # x)"
  by (simp_all add: no_digit_def dec_value_def)

lemma no_digit_tail [simp]: "no_digit (payload_tail t)"
  by (simp add: payload_tail_def split: option.splits)

lemma num_field_unique:
  "no_digit x \<Longrightarrow> no_digit y \<Longrightarrow> num_field name m @ x = num_field name n @ y \<longleftrightarrow> m = n \<and> x = y"
  by (simp add: num_field_def dec_unique)

lemma text_field_unique:
  "CHR 0x22 \<notin> set v \<Longrightarrow> CHR 0x22 \<notin> set w \<Longrightarrow>
   text_field name v @ x = text_field name w @ y \<longleftrightarrow> v = w \<and> x = y"
  by (simp add: text_field_def sep_unique)

lemma field_inject [simp]:
  "num_field name m = num_field name n \<longleftrightarrow> m = n" "text_field name v = text_field name w \<longleftrightarrow> v = w"
  by (simp_all add: num_field_def text_field_def)

lemma payload_tail_inject:
  assumes "quote_free t" and "quote_free u"
  shows "payload_tail t = payload_tail u \<longleftrightarrow> tx_options t = tx_options u \<and> tx_relayer t = tx_relayer u"
proof -
  have other: "num_field ''options'' m @ x \<noteq> text_field ''relayer'' w @ y"
    "text_field ''relayer'' w @ y \<noteq> num_field ''options'' m @ x" for m x w y
    by (simp_all add: num_field_def text_field_def)
  have rel: "tx_relayer t = Some a \<Longrightarrow> CHR 0x22 \<notin> set a" "tx_relayer u = Some a \<Longrightarrow> CHR 0x22 \<notin> set a" for a
    using assms by (simp_all add: quote_free_def)
  show ?thesis
    using rel other other [where x = "[]" and y = "[]"]
    by (cases "tx_options t"; cases "tx_options u"; cases "tx_relayer t"; cases "tx_relayer u")
      (simp_all add: payload_tail_def num_field_unique text_field_unique word_unat_eq_iff)
qed

lemma data_part_inject:
  assumes "\<forall>d. a = Some d \<longrightarrow> CHR 0x22 \<notin> set d" and "\<forall>d. b = Some d \<longrightarrow> CHR 0x22 \<notin> set d"
    and "CHR 0x22 \<notin> set c" and "CHR 0x22 \<notin> set c'"
  shows "(case a of Some d \<Rightarrow> text_field ''data'' d @ [CHR '',''] | None \<Rightarrow> []) @ text_field ''chainID'' c @ x =
      (case b of Some d \<Rightarrow> text_field ''data'' d @ [CHR '',''] | None \<Rightarrow> []) @ text_field ''chainID'' c' @ y \<longleftrightarrow>
    a = b \<and> c = c' \<and> x = y"
proof -
  have other: "text_field ''data'' v @ x \<noteq> text_field ''chainID'' w @ y"
    "text_field ''chainID'' w @ y \<noteq> text_field ''data'' v @ x" for v x w y
    by (simp_all add: text_field_def)
  show ?thesis using assms other by (cases a; cases b) (auto simp: text_field_unique)
qed

text \<open>
  C35. A signature covers the whole transaction. Two transactions whose texts contain no quotation
  mark and whose signing payloads agree have the same nonce, value, receiver, sender, gas price,
  gas limit, data, chain, version, options and relayer: they differ in their signatures at most.
\<close>

theorem signing_payload_binds:
  assumes "quote_free t" and "quote_free u" and "serialize_for_signing t = serialize_for_signing u"
  shows "t = u\<lparr>tx_signature := tx_signature t, tx_relayer_signature := tx_relayer_signature t\<rparr>"
proof -
  have "unat (tx_nonce t) = unat (tx_nonce u) \<and> tx_value t = tx_value u \<and> tx_receiver t = tx_receiver u \<and>
     tx_sender t = tx_sender u \<and> unat (tx_gas_price t) = unat (tx_gas_price u) \<and>
     unat (tx_gas_limit t) = unat (tx_gas_limit u) \<and> tx_data t = tx_data u \<and> tx_chain_id t = tx_chain_id u \<and>
     unat (tx_version t) = unat (tx_version u) \<and> payload_tail t = payload_tail u"
    using assms
    by (simp add: serialize_eq quote_free_def num_field_unique text_field_unique data_part_inject)
  moreover from this have "tx_options t = tx_options u \<and> tx_relayer t = tx_relayer u"
    using payload_tail_inject [OF assms(1,2)] by simp
  ultimately show ?thesis by (simp add: word_unat_eq_iff)
qed

theorem signing_payload_binds_witness:
  "\<exists>L t. quote_free t \<and> tx_signature (sign L 1 t) \<noteq> None \<and>
     t = (sign L 1 t)\<lparr>tx_signature := tx_signature t, tx_relayer_signature := tx_relayer_signature t\<rparr>"
proof -
  define L where "L = \<lparr>b64_encode = (\<lambda>b. b), tx_hex_encode = (\<lambda>b. b), ed_sign = (\<lambda>k m. m)\<rparr>"
  define t where "t = transaction_new L 7 ''5'' ''erd1r'' ''erd1s'' 1000000000 50000 (Some ''ping'') ''D'' 1"
  have q: "quote_free t" "quote_free (sign L 1 t)"
    by (simp_all add: quote_free_def t_def transaction_new_def sign_def L_def)
  have same: "serialize_for_signing t = serialize_for_signing (sign L 1 t)"
    by (simp add: serialize_for_signing_def sign_def Let_def)
  from signing_payload_binds [OF q this] have
    "t = (sign L 1 t)\<lparr>tx_signature := tx_signature t, tx_relayer_signature := tx_relayer_signature t\<rparr>" .
  moreover have "tx_signature (sign L 1 t) \<noteq> None" by (simp add: sign_def Let_def)
  ultimately show ?thesis using q(1) by blast
qed

section \<open>Relayed transactions\<close>

lemma serialize_ignores_signatures [simp]:
  "serialize_for_signing (t\<lparr>tx_signature := a\<rparr>) = serialize_for_signing t"
  "serialize_for_signing (t\<lparr>tx_relayer_signature := a\<rparr>) = serialize_for_signing t"
  "serialize_for_signing (t\<lparr>tx_signature := a, tx_relayer := r\<rparr>) = serialize_for_signing (t\<lparr>tx_relayer := r\<rparr>)"
  by (simp_all add: serialize_eq payload_tail_def)

lemma payload_needs_relayer:
  assumes "tx_relayer t = None"
  shows "serialize_for_signing (t\<lparr>tx_relayer := Some a\<rparr>) \<noteq> serialize_for_signing t"
proof
  assume "serialize_for_signing (t\<lparr>tx_relayer := Some a\<rparr>) = serialize_for_signing t"
  then have "length (payload_tail (t\<lparr>tx_relayer := Some a\<rparr>)) = length (payload_tail t)"
    by (simp add: serialize_eq)
  then show False using assms by (simp add: payload_tail_def text_field_def split: option.splits)
qed

text \<open>
  Both signatures of a relayed transaction must cover it. When the relayer is entered before
  the sender signs, as the sweeper does, both signatures of the relayed transaction are made over
  its own payload. The back-run of main.rs signs first and enters the relayer afterwards: the
  sender's signature is made over a text that is not the payload of the transaction that is sent,
  whatever the keys and the victim are.
\<close>

theorem relayed_signatures_cover:
  "(\<forall>t. let r = to_relayed_v3 L addr rk (sign L sk (t\<lparr>tx_relayer := Some addr\<rparr>)) in
      tx_signature r = Some (tx_hex_encode L (ed_sign L sk (serialize_for_signing r))) \<and>
      tx_relayer_signature r = Some (tx_hex_encode L (ed_sign L rk (serialize_for_signing r)))) \<and>
   (let b = surgical_backrun_tx L fake wallet pair price chain in
      \<exists>p. tx_signature b = Some (tx_hex_encode L (ed_sign L (signing_key fake) p)) \<and>
          p \<noteq> serialize_for_signing b)"
proof -
  have relayed: "serialize_for_signing (to_relayed_v3 L a k t) = serialize_for_signing (t\<lparr>tx_relayer := Some a\<rparr>)" for a k t
    by (simp add: to_relayed_v3_def Let_def)
  define t where "t = transaction_new L 0 ''0'' pair (bech32_address fake) price 1500000 (Some backrun_data) chain 1"
  define b where "b = surgical_backrun_tx L fake wallet pair price chain"
  have b: "b = to_relayed_v3 L (bech32_address wallet) (signing_key wallet) (sign L (signing_key fake) t)"
    by (simp add: b_def surgical_backrun_tx_def t_def Let_def)
  have "serialize_for_signing b = serialize_for_signing (t\<lparr>tx_relayer := Some (bech32_address wallet)\<rparr>)"
    unfolding b relayed by (simp add: sign_def Let_def)
  moreover have "tx_relayer t = None" by (simp add: t_def transaction_new_def)
  ultimately have "serialize_for_signing t \<noteq> serialize_for_signing b"
    using payload_needs_relayer by metis
  moreover have "tx_signature b = Some (tx_hex_encode L (ed_sign L (signing_key fake) (serialize_for_signing t)))"
    unfolding b by (simp add: to_relayed_v3_def sign_def Let_def)
  ultimately have "\<exists>p. tx_signature b = Some (tx_hex_encode L (ed_sign L (signing_key fake) p)) \<and>
      p \<noteq> serialize_for_signing b" by blast
  moreover have "let r = to_relayed_v3 L addr rk (sign L sk (t\<lparr>tx_relayer := Some addr\<rparr>)) in
      tx_signature r = Some (tx_hex_encode L (ed_sign L sk (serialize_for_signing r))) \<and>
      tx_relayer_signature r = Some (tx_hex_encode L (ed_sign L rk (serialize_for_signing r)))" for t
    by (simp add: to_relayed_v3_def sign_def Let_def serialize_for_relayer_signing_def)
  ultimately show ?thesis by (simp add: b_def)
qed

section \<open>Serialised tasks are unambiguous\<close>

lemma push_args_append: "push_args hex as = hex @ push_args [] as"
  by (induction as arbitrary: hex) (metis append_Nil2 push_args.simps(1), metis append.assoc append_Nil push_args.simps(2))

definition task_tail :: string where
  "task_tail = ''00000000'' @ ''00'' @ ''00'' @ ''0000000000000000'' @ ''0000000000000000'' @ ''00'' @ ''00'' @
     ''0000000000000000'' @ ''00'' @ ''00'' @ ''00''"

lemma task_hex_eq:
  "serialize_quantum_task_hex i ow tc ep as ty td g =
     lower_hex 16 (unat i) @ ow @ tc @ lower_hex 8 (length ep div 2) @ ep @ lower_hex 8 (length as) @
     push_args [] as @ lower_hex 2 (unat ty) @ td @ lower_hex 16 (unat g) @ task_tail"
  by (simp add: serialize_quantum_task_hex_def Let_def task_tail_def
      push_args_append [of "lower_hex 16 (unat i) @ ow @ tc @ lower_hex 8 (length ep div 2) @ ep @ lower_hex 8 (length as)"])

lemma unat_hex_bounds:
  "unat (w :: u64) < 16 ^ 16" "unat (v :: u8) < 16 ^ 2"
  by (rule order.strict_trans2 [OF unsigned_less]; simp)+

lemma lower_hex_eq: "a < 16 ^ w \<Longrightarrow> b < 16 ^ w \<Longrightarrow> 0 < w \<Longrightarrow> lower_hex w a = lower_hex w b \<longleftrightarrow> a = b"
  by (simp add: lower_hex_fixed hex_fixed_inject)

definition hex_arg :: "string \<Rightarrow> bool" where
  "hex_arg a \<longleftrightarrow> even (length a) \<and> length a div 2 < 16 ^ 8"

lemma sized_unique:
  assumes "hex_arg a" and "hex_arg b"
  shows "lower_hex 8 (length a div 2) @ a @ x = lower_hex 8 (length b div 2) @ b @ y \<longleftrightarrow> a = b \<and> x = y"
proof
  assume eq: "lower_hex 8 (length a div 2) @ a @ x = lower_hex 8 (length b div 2) @ b @ y"
  have "length (lower_hex 8 (length a div 2)) = length (lower_hex 8 (length b div 2))"
    using assms by (simp add: hex_arg_def)
  with eq have "lower_hex 8 (length a div 2) = lower_hex 8 (length b div 2)" "a @ x = b @ y" by simp_all
  then have "length a div 2 = length b div 2" using assms by (simp add: lower_hex_eq hex_arg_def)
  then have "length a = length b" using assms by (metis hex_arg_def dvd_mult_div_cancel)
  with \<open>a @ x = b @ y\<close> show "a = b \<and> x = y" by simp
qed simp

lemma push_args_unique:
  assumes "length as = length bs" and "list_all hex_arg as" and "list_all hex_arg bs"
  shows "push_args [] as @ x = push_args [] bs @ y \<longleftrightarrow> as = bs \<and> x = y"
  using assms
proof (induction as bs rule: list_induct2)
  case (Cons a as b bs)
  then show ?case
    by (simp add: push_args_append [of "lower_hex 8 (length a div 2) @ a"]
        push_args_append [of "lower_hex 8 (length b div 2) @ b"] sized_unique)
qed simp

text \<open>
  Serialised tasks are unambiguous. Two tasks with addresses of 64 digits, an endpoint and
  arguments of whole bytes, and the same serialisation have the same identifier, owner, target,
  endpoint, arguments, trigger type, trigger data and gas.
\<close>

theorem task_hex_injective:
  assumes "length ow = 64" "length ow' = 64" "length tc = 64" "length tc' = 64" "hex_arg ep" "hex_arg ep'"
    and "list_all hex_arg as" "list_all hex_arg as'" "length as < 16 ^ 8" "length as' < 16 ^ 8"
    and eq: "serialize_quantum_task_hex i ow tc ep as ty td g = serialize_quantum_task_hex i' ow' tc' ep' as' ty' td' g'"
  shows "i = i' \<and> ow = ow' \<and> tc = tc' \<and> ep = ep' \<and> as = as' \<and> ty = ty' \<and> td = td' \<and> g = g'"
proof -
  have "lower_hex 16 (unat i) = lower_hex 16 (unat i')" "ow = ow'" "tc = tc'"
    and rest: "lower_hex 8 (length ep div 2) @ ep @ lower_hex 8 (length as) @ push_args [] as @
       lower_hex 2 (unat ty) @ td @ lower_hex 16 (unat g) @ task_tail =
     lower_hex 8 (length ep' div 2) @ ep' @ lower_hex 8 (length as') @ push_args [] as' @
       lower_hex 2 (unat ty') @ td' @ lower_hex 16 (unat g') @ task_tail"
    using eq assms(1-4) unat_hex_bounds by (simp_all add: task_hex_eq)
  moreover from rest have ep: "ep = ep'" and rest: "lower_hex 8 (length as) @ push_args [] as @
       lower_hex 2 (unat ty) @ td @ lower_hex 16 (unat g) @ task_tail =
     lower_hex 8 (length as') @ push_args [] as' @ lower_hex 2 (unat ty') @ td' @ lower_hex 16 (unat g') @ task_tail"
    using sized_unique [OF assms(5,6)] by simp_all
  moreover from rest have "lower_hex 8 (length as) = lower_hex 8 (length as')"
    and rest: "push_args [] as @ lower_hex 2 (unat ty) @ td @ lower_hex 16 (unat g) @ task_tail =
     push_args [] as' @ lower_hex 2 (unat ty') @ td' @ lower_hex 16 (unat g') @ task_tail"
    using assms(9,10) by simp_all
  moreover from this have "length as = length as'" using assms(9,10) by (simp add: lower_hex_eq)
  with rest have "as = as'" and rest: "lower_hex 2 (unat ty) @ td @ lower_hex 16 (unat g) @ task_tail =
     lower_hex 2 (unat ty') @ td' @ lower_hex 16 (unat g') @ task_tail"
    using push_args_unique assms(7,8) by blast+
  moreover from rest have "lower_hex 2 (unat ty) = lower_hex 2 (unat ty')" "td = td'"
    "lower_hex 16 (unat g) = lower_hex 16 (unat g')"
    using unat_hex_bounds by (simp_all add: append_eq_append_conv)
  ultimately show ?thesis using unat_hex_bounds by (simp add: lower_hex_eq word_unat_eq_iff)
qed

theorem task_hex_injective_witness:
  "serialize_quantum_task_hex 1 (replicate 64 (CHR ''0'')) ping_target ''70696e67'' [''01''] 0 [] 5 \<noteq>
   serialize_quantum_task_hex 1 (replicate 64 (CHR ''0'')) ping_target ''70696e67'' [''0001''] 0 [] 5"
  using task_hex_injective [of "replicate 64 (CHR ''0'')" "replicate 64 (CHR ''0'')" ping_target ping_target
      "''70696e67''" "''70696e67''" "[''01'']" "[''0001'']" 1 0 "[]" 5 1 0 "[]" 5]
  by (auto simp: ping_target_def hex_arg_def)

section \<open>The schedule of the bot\<close>

lemma hex_time_shift: "''00'' @ lower_hex 16 (unat (w :: u64)) = lower_hex 16 (unat w div 256) @
    hex_fixed 2 (unat w)"
proof -
  have bound: "unat w < 16 ^ 16" by (rule unat_hex_bounds)
  then have "unat w div 256 < 16 ^ 14" by (simp add: less_mult_imp_div_less)
  from hex_fixed_pad [OF this, of 2] have "hex_fixed 16 (unat w div 256) = ''00'' @ hex_fixed 14 (unat w div 256)"
    by (simp add: numeral_2_eq_2)
  moreover have "hex_fixed 16 (unat w) = hex_fixed 14 (unat w div 256) @ hex_fixed 2 (unat w)"
  proof -
    have "hex_fixed 16 (unat w) = hex_fixed (Suc (Suc 14)) (unat w)" by simp
    also have "\<dots> = hex_fixed 14 (unat w div 16 div 16) @ hex_fixed (Suc (Suc 0)) (unat w)"
      by (simp only: hex_fixed.simps append.assoc append_Nil)
    finally show ?thesis by (simp add: div_mult2_eq [symmetric] numeral_2_eq_2 flip: numeral_2_eq_2)
  qed
  moreover have "unat w div 256 < 16 ^ 16" using bound by linarith
  ultimately show ?thesis using bound by (simp add: lower_hex_fixed)
qed

text \<open>
  The schedule the bot sends carries the wrong time. \<open>serialize_quantum_task_hex\<close> writes the type
  byte of the trigger itself, but the bot passes trigger data that starts with the type byte once
  more: the eight bytes after the type byte, where the contract reads the time, hold the time
  divided by 256, and everything after the trigger is one byte late.
\<close>

theorem schedule_time_shifted:
  "\<exists>post. generate_schedule_payload L now =
     ''scheduleQuantumTask@'' @ lower_hex 16 40000000 @
     ''0000000000000000000000000000000000000000000000000000000000000000'' @ ping_target @
     lower_hex 8 (length (tx_hex_encode L ''ping'') div 2) @ tx_hex_encode L ''ping'' @ lower_hex 8 0 @
     lower_hex 2 0 @ lower_hex 16 (unat (now + 30) div 256) @ post"
proof -
  have "''00'' @ lower_hex 16 (unat (now + 30)) @ z =
      lower_hex 16 (unat (now + 30) div 256) @ hex_fixed 2 (unat (now + 30)) @ z" for z
    using hex_time_shift [of "now + 30"] by (metis append.assoc)
  then show ?thesis
    by (simp only: generate_schedule_payload_def Let_def task_hex_eq push_args.simps append_Nil append.assoc
        list.size unsigned_0 unsigned_numeral) auto
qed

end
