(* ===== verification/Keeper_Network.thy ===== *)
theory Keeper_Network
  imports Keeper_Transactions
begin

text \<open>
  The keeper's view of the network (xcron-keeper-rs/src/network.rs) and the dispatcher of
  transactions (dispatcher.rs): the choice of a node, the agreement on a nonce, the hedged
  broadcast and the wait for finality. What a node answers is an argument; the answers to a
  broadcast are listed in the order in which they arrive.
\<close>

section \<open>Nodes\<close>

record network =
  base_urls :: "string list"
  current_index :: usize

definition network_new :: "string \<Rightarrow> network" where
  "network_new primary_url =
     \<lparr>base_urls = filter (\<lambda>s. s \<noteq> []) (map (\<lambda>s. trim_end_matches (CHR ''/'') (trim s)) (split_at (CHR '','') primary_url)),
      current_index = 0\<rparr>"

definition shard_snippets :: "u8 \<Rightarrow> string list" where
  "shard_snippets shard =
     (if shard = 0 then [''5.189'', ''178.156''] else if shard = 1 then [''86.48''] else [''127.0''])"

definition matching_urls :: "network \<Rightarrow> u8 \<Rightarrow> string list" where
  "matching_urls nw shard =
     concat (map (\<lambda>url. map (\<lambda>_. url) (filter (contains_text url) (shard_snippets shard))) (base_urls nw))"

text \<open>Without nodes the remainder by zero is a panic, the value None.\<close>

definition get_url_for_shard :: "u8 \<Rightarrow> network \<Rightarrow> (string \<times> network) option" where
  "get_url_for_shard shard nw =
     (if length (base_urls nw) = 1 then Some (base_urls nw ! 0, nw)
      else
        let idx = unat (current_index nw);
            urls = matching_urls nw shard;
            nw' = nw\<lparr>current_index := current_index nw + 1\<rparr>
        in if urls = [] then
             (if base_urls nw = [] then None else Some (base_urls nw ! (idx mod length (base_urls nw)), nw'))
           else Some (urls ! (idx mod length urls), nw'))"

section \<open>The nonce\<close>

text \<open>The answer of one node: the request failed, a status that is not 200, or the parsed body.\<close>

datatype nonce_reply = NonceFailed string | NonceStatus nat | NonceBody "u64 option" "string option"

definition fetch_nonce_single_node :: "nonce_reply \<Rightarrow> string + u64" where
  "fetch_nonce_single_node reply = (case reply of
     NonceFailed e \<Rightarrow> Inl e
   | NonceStatus code \<Rightarrow> Inl (''Failed to fetch nonce. Status: '' @ dec code)
   | NonceBody (Some nonce) err \<Rightarrow> Inr nonce
   | NonceBody None err \<Rightarrow> Inl (''API Error: '' @ (case err of None \<Rightarrow> [] | Some m \<Rightarrow> m)))"

definition pinged :: "network \<Rightarrow> string list" where
  "pinged nw = map (\<lambda>i. base_urls nw ! (unat (current_index nw + of_nat i) mod length (base_urls nw)))
     [0 ..< min (length (base_urls nw)) 3]"

fun collect_nonces :: "(string \<Rightarrow> nonce_reply) \<Rightarrow> string list \<Rightarrow> u64 list" where
  "collect_nonces ask [] = []"
| "collect_nonces ask (url # rest) =
     (case fetch_nonce_single_node (ask url) of
        Inr nonce \<Rightarrow> nonce # collect_nonces ask rest
      | Inl _ \<Rightarrow> collect_nonces ask rest)"

definition nonce_consensus :: "u64 list \<Rightarrow> string + u64" where
  "nonce_consensus ns =
     (if 2 \<le> length ns then
        (if ns ! 0 = ns ! 1 then Inr (ns ! 0)
         else if length ns = 3 \<and> ns ! 0 = ns ! 2 then Inr (ns ! 0)
         else if length ns = 3 \<and> ns ! 1 = ns ! 2 then Inr (ns ! 1)
         else Inl ''Eclipse Attack or Severe Network Desync Detected. Nonce consensus failed.'')
      else if length ns = 1 then Inr (ns ! 0)
      else Inl ''All RPC nodes failed to provide a nonce.'')"

definition fetch_nonce :: "(string \<Rightarrow> nonce_reply) \<Rightarrow> network \<Rightarrow> (string + u64) option" where
  "fetch_nonce ask nw =
     (if min (length (base_urls nw)) 3 \<le> 1 then
        (if base_urls nw = [] then None else Some (fetch_nonce_single_node (ask (base_urls nw ! 0))))
      else Some (nonce_consensus (collect_nonces ask (pinged nw))))"

section \<open>Broadcast\<close>

text \<open>A reply to a transaction: the request failed, or a status with its body and what it parses to.\<close>

record send_tx_response =
  rs_data :: "string option"
  rs_code :: "string option"

datatype send_reply = SendFailed string | SendReply nat string "send_tx_response option"

definition broadcast_node :: "send_reply \<Rightarrow> string + string" where
  "broadcast_node reply = (case reply of
     SendFailed e \<Rightarrow> Inl e
   | SendReply status body parsed \<Rightarrow>
       if status = 201 \<or> status = 200 then
         (case parsed of
            Some r \<Rightarrow>
              (case (rs_code r = Some ''successful'', rs_data r) of
                 (True, Some h) \<Rightarrow> Inr h
               | _ \<Rightarrow> Inl body)
          | None \<Rightarrow> Inl body)
       else if contains_text body ''different shard ID'' then Inl ''different shard ID''
       else Inl body)"

text \<open>
  The first success wins; when all fail, the last error is reported. Without any node the
  library panics, the value None.
\<close>

fun select_ok :: "(string + 'a) list \<Rightarrow> (string + 'a) option" where
  "select_ok [] = None"
| "select_ok [r] = Some r"
| "select_ok (r # rs) = (case r of Inr h \<Rightarrow> Some (Inr h) | Inl _ \<Rightarrow> select_ok rs)"

definition broadcast_tx :: "send_reply list \<Rightarrow> (string + string) option" where
  "broadcast_tx replies = (case select_ok (map broadcast_node replies) of
     None \<Rightarrow> None
   | Some (Inr h) \<Rightarrow> Some (Inr h)
   | Some (Inl e) \<Rightarrow> Some (Inl (''Hedged Broadcast Failed on all nodes. Last Error: '' @ e)))"

section \<open>Dispatch\<close>

record execution_task =
  et_task_id :: string
  et_payload_bytes :: bytes
  et_receiver :: string
  et_value :: string
  et_gas_limit :: u64

record dispatch_receipt =
  dr_status :: string
  dr_tx_hash_or_id :: string
  dr_gas_used :: "u64 option"
  dr_timestamp :: u64

text \<open>The wait for finality: at most five polls, which may fail.\<close>

fun await_finality :: "nat \<Rightarrow> (string + string) list \<Rightarrow> string + bool" where
  "await_finality 0 polls = Inr False"
| "await_finality (Suc n) [] = Inr False"
| "await_finality (Suc n) (p # polls) =
     (case p of
        Inl _ \<Rightarrow> await_finality n polls
      | Inr status \<Rightarrow>
          if status = ''success'' then Inr True
          else if status \<in> {''invalid'', ''dropped'', ''fail''}
          then Inl (''Hyperblock rejected the transaction: '' @ status)
          else await_finality n polls)"

definition dispatch_tx :: "tx_lib \<Rightarrow> string \<Rightarrow> execution_task \<Rightarrow> keeper_wallet \<Rightarrow> u64 \<Rightarrow> transaction" where
  "dispatch_tx L chain_id t wallet nonce =
     sign L (signing_key wallet)
       (transaction_new L nonce (et_value t) (et_receiver t) (bech32_address wallet) 1000000000 (et_gas_limit t)
          (Some (et_payload_bytes t)) chain_id 1)"

definition dispatch ::
  "tx_lib \<Rightarrow> string \<Rightarrow> (transaction \<Rightarrow> send_reply list) \<Rightarrow> (string \<Rightarrow> (string + string) list) \<Rightarrow> u64
    \<Rightarrow> execution_task \<Rightarrow> keeper_wallet \<Rightarrow> u64 \<Rightarrow> (string + dispatch_receipt) option" where
  "dispatch L chain_id send poll now t wallet nonce =
     (case broadcast_tx (send (dispatch_tx L chain_id t wallet nonce)) of
        None \<Rightarrow> None
      | Some (Inl e) \<Rightarrow> Some (Inl e)
      | Some (Inr tx_hash) \<Rightarrow>
          (case await_finality 5 (poll tx_hash) of
             Inl e \<Rightarrow> Some (Inl e)
           | Inr is_finalized \<Rightarrow>
               if \<not> is_finalized
               then Some (Inl ''Transaction broadcasted but Supernova finality could not be verified in time. Queued for retry.'')
               else Some (Inr \<lparr>dr_status = ''success'', dr_tx_hash_or_id = tx_hash,
                         dr_gas_used = Some (et_gas_limit t), dr_timestamp = now\<rparr>)))"

section \<open>Agreement on a nonce\<close>

lemma length_collect: "length (collect_nonces ask urls) \<le> length urls"
  by (induction urls) (auto split: sum.splits)

lemma collect_from: "n \<in> set (collect_nonces ask urls) \<Longrightarrow> \<exists>u \<in> set urls. fetch_nonce_single_node (ask u) = Inr n"
  by (induction urls) (auto split: sum.splits)

lemma upto_three_cases:
  assumes "length ns \<le> 3"
  obtains "ns = []" | a where "ns = [a]" | a b where "ns = [a, b]" | a b c where "ns = [a, b, c]"
  using assms by (cases ns; cases "tl ns"; cases "tl (tl ns)"; cases "tl (tl (tl ns))") auto

lemma consensus_iff:
  assumes "length ns \<le> 3"
  shows "nonce_consensus ns = Inr v \<longleftrightarrow> 2 \<le> count_list ns v \<or> ns = [v]"
  using assms by (cases rule: upto_three_cases [OF assms]) (auto simp: nonce_consensus_def)

text \<open>The nodes that are asked are different entries of the list.\<close>

lemma pinged_positions:
  assumes "3 \<le> length (base_urls nw)" and "unat (current_index nw) + 3 < 2 ^ 64"
  shows "\<exists>i j k. pinged nw = [base_urls nw ! i, base_urls nw ! j, base_urls nw ! k] \<and> i \<noteq> j \<and> i \<noteq> k \<and> j \<noteq> k \<and>
     i < length (base_urls nw) \<and> j < length (base_urls nw) \<and> k < length (base_urls nw)"
proof -
  define n where "n = length (base_urls nw)"
  define c where "c = unat (current_index nw)"
  have at: "unat (current_index nw + of_nat i) = c + i" if "i < 3" for i
  proof -
    have "unat (of_nat i :: usize) = i" using that by (simp add: unsigned_of_nat take_bit_nat_eq_self)
    then show ?thesis using assms(2) that by (subst unat_add_lem [THEN iffD1]) (simp_all add: c_def)
  qed
  have "[0 ..< min n 3] = [0, 1, 2]" using assms(1) by (simp add: n_def min_def upt_rec numeral_3_eq_3)
  then have p: "pinged nw = [base_urls nw ! (c mod n), base_urls nw ! ((c + 1) mod n), base_urls nw ! ((c + 2) mod n)]"
    using at [of 0] at [of 1] at [of 2] by (simp add: pinged_def flip: n_def)
  have "3 \<le> n" using assms(1) by (simp add: n_def)
  have "(c + a) mod n \<noteq> (c + b) mod n" if "a < b" "b < 3" for a b
  proof
    assume "(c + a) mod n = (c + b) mod n"
    then have "n dvd (c + b) - (c + a)" using that mod_eq_dvd_iff_nat [of "c + a" "c + b" n] by simp
    then have "n dvd b - a" by simp
    then show False using that \<open>3 \<le> n\<close> by (auto dest: dvd_imp_le)
  qed
  from this [of 0 1] this [of 0 2] this [of 1 2] show ?thesis
    using p \<open>3 \<le> n\<close> by (intro exI [of _ "c mod n"] exI [of _ "(c + 1) mod n"] exI [of _ "(c + 2) mod n"])
      (auto simp flip: n_def)
qed

lemma collect_eq:
  "map Inr (collect_nonces ask urls) = filter (\<lambda>r. \<not> isl r) (map (\<lambda>u. fetch_nonce_single_node (ask u)) urls)"
  by (induction urls) (auto split: sum.splits)

lemma count_filter_Inr: "count_list (filter (\<lambda>r. \<not> isl r) rs) (Inr v) = count_list rs (Inr v)"
  by (induction rs) auto

lemma count_map_Inr: "count_list (map Inr ns) (Inr v) = count_list ns v"
  by (induction ns) auto

text \<open>
  The nonce is decided by a majority of three nodes. With at least three nodes, the keeper
  asks three different entries of its list and accepts a nonce exactly when two of them report
  it, or when only one of the three answers at all: one node that lies is always outvoted while
  two honest ones answer, and is believed once the other two are silent.
\<close>

theorem nonce_by_majority:
  assumes "3 \<le> length (base_urls nw)" and "unat (current_index nw) + 3 < 2 ^ 64"
  shows "\<exists>i j k. i \<noteq> j \<and> i \<noteq> k \<and> j \<noteq> k \<and>
     i < length (base_urls nw) \<and> j < length (base_urls nw) \<and> k < length (base_urls nw) \<and>
     (\<forall>ask. let answers = map (\<lambda>p. fetch_nonce_single_node (ask (base_urls nw ! p))) [i, j, k] in
        \<forall>v. fetch_nonce ask nw = Some (Inr v) \<longleftrightarrow>
          2 \<le> count_list answers (Inr v) \<or> filter (\<lambda>r. \<not> isl r) answers = [Inr v])"
proof -
  obtain i j k where p: "pinged nw = [base_urls nw ! i, base_urls nw ! j, base_urls nw ! k]"
    and d: "i \<noteq> j" "i \<noteq> k" "j \<noteq> k" "i < length (base_urls nw)" "j < length (base_urls nw)" "k < length (base_urls nw)"
    using pinged_positions [OF assms] by blast
  have "fetch_nonce ask nw = Some (Inr v) \<longleftrightarrow>
      2 \<le> count_list answers (Inr v) \<or> filter (\<lambda>r. \<not> isl r) answers = [Inr v]"
    if "answers = map (\<lambda>p. fetch_nonce_single_node (ask (base_urls nw ! p))) [i, j, k]" for ask answers v
  proof -
    define ns where "ns = collect_nonces ask (pinged nw)"
    have ns: "map Inr ns = filter (\<lambda>r. \<not> isl r) answers" unfolding ns_def collect_eq p that by simp
    have "length ns \<le> 3" using length_collect [of ask "pinged nw"] by (simp add: ns_def p)
    moreover have "count_list ns v = count_list answers (Inr v)"
      by (metis count_map_Inr count_filter_Inr ns)
    moreover have "ns = [v] \<longleftrightarrow> filter (\<lambda>r. \<not> isl r) answers = [Inr v]"
      unfolding ns [symmetric] by auto
    moreover have "fetch_nonce ask nw = Some (nonce_consensus ns)"
      using assms(1) by (simp add: fetch_nonce_def ns_def min_def)
    ultimately show ?thesis by (simp add: consensus_iff)
  qed
  then show ?thesis using d unfolding Let_def by blast
qed

definition demo_network :: network where
  "demo_network = network_new ''http://a/, http://b,http://c''"

lemma demo_network_urls: "base_urls demo_network = [''http://a'', ''http://b'', ''http://c''] \<and> current_index demo_network = 0"
  by code_simp

theorem nonce_by_majority_witness:
  "\<exists>i j k. i < 3 \<and> j < 3 \<and> k < 3 \<and> i \<noteq> j \<and> i \<noteq> k \<and> j \<noteq> (k :: nat) \<and>
     fetch_nonce (\<lambda>u. NonceBody (Some 7) None) demo_network = Some (Inr 7)"
proof -
  have "3 \<le> length (base_urls demo_network)" "unat (current_index demo_network) + 3 < 2 ^ 64"
    using demo_network_urls by simp_all
  from nonce_by_majority [OF this] obtain i j k where ijk: "i \<noteq> j" "i \<noteq> k" "j \<noteq> k"
    "i < length (base_urls demo_network)" "j < length (base_urls demo_network)" "k < length (base_urls demo_network)"
    "\<forall>ask. let answers = map (\<lambda>p. fetch_nonce_single_node (ask (base_urls demo_network ! p))) [i, j, k] in
        \<forall>v. fetch_nonce ask demo_network = Some (Inr v) \<longleftrightarrow>
          2 \<le> count_list answers (Inr v) \<or> filter (\<lambda>r. \<not> isl r) answers = [Inr v]" by blast
  have "fetch_nonce (\<lambda>u. NonceBody (Some 7) None) demo_network = Some (Inr 7)"
    using ijk(7) [rule_format, of "\<lambda>u. NonceBody (Some 7) None"] by (simp add: fetch_nonce_single_node_def Let_def)
  then show ?thesis using ijk(1-6) demo_network_urls by (intro exI [of _ i] exI [of _ j] exI [of _ k]) simp
qed

section \<open>Receipts\<close>

lemma select_ok_Inr: "select_ok rs = Some (Inr h) \<Longrightarrow> Inr h \<in> set rs"
  by (induction rs rule: select_ok.induct) (auto split: sum.splits)

lemma select_ok_any: "Inr h \<in> set rs \<Longrightarrow> \<exists>h'. select_ok rs = Some (Inr h')"
  by (induction rs rule: select_ok.induct) (auto split: sum.splits)

definition rejection :: "string \<Rightarrow> bool" where
  "rejection status \<longleftrightarrow> status \<in> {''invalid'', ''dropped'', ''fail''}"

lemma await_success:
  "await_finality n polls = Inr True \<longleftrightarrow>
     (\<exists>i < min n (length polls). polls ! i = Inr ''success'' \<and> (\<forall>j < i. \<forall>s. polls ! j = Inr s \<longrightarrow> \<not> rejection s))"
proof (induction n polls rule: await_finality.induct)
  case (3 n p polls)
  have split: "(\<exists>i < min (Suc n) (length (p # polls)). P i) \<longleftrightarrow> P 0 \<or> (\<exists>i < min n (length polls). P (Suc i))" for P
    by (auto simp: less_Suc_eq_0_disj min_def split: if_splits)
  have all: "(\<forall>j < Suc i. Q j) \<longleftrightarrow> Q 0 \<and> (\<forall>j < i. Q (Suc j))" for i Q
    by (auto simp: less_Suc_eq_0_disj)
  show ?case
  proof (cases p)
    case (Inl e)
    with "3" show ?thesis unfolding split by (simp add: all)
  next
    case (Inr st)
    with "3" show ?thesis unfolding split by (auto simp: all rejection_def)
  qed
qed auto

text \<open>
  A receipt of the dispatcher is earned: some node accepted the signed transaction under the hash
  of the receipt, and one of the first five polls reported success with no rejection before it.
\<close>

theorem receipt_means_final:
  "dispatch L chain_id send poll now t wallet nonce = Some (Inr r) \<Longrightarrow>
   (\<exists>reply \<in> set (send (dispatch_tx L chain_id t wallet nonce)). broadcast_node reply = Inr (dr_tx_hash_or_id r)) \<and>
   (\<exists>i < min 5 (length (poll (dr_tx_hash_or_id r))). poll (dr_tx_hash_or_id r) ! i = Inr ''success'' \<and>
      (\<forall>j < i. \<forall>s. poll (dr_tx_hash_or_id r) ! j = Inr s \<longrightarrow> \<not> rejection s))"
  unfolding await_success [symmetric]
  by (fastforce simp: dispatch_def broadcast_tx_def dest!: select_ok_Inr split: option.splits sum.splits if_splits)

end
