(* ===== verification/Keeper_Dispatch.thy ===== *)
theory Keeper_Dispatch
  imports Keeper_Network
begin

text \<open>
  The rest of the keeper's network layer (network.rs: the status of a transaction, a batch of
  transactions), the dispatcher that hands tasks to agents outside the chain (dispatcher.rs)
  and the quantum shield (quantum\_shield.rs: checking a post-quantum signature, mixing
  entropy). Answers of nodes, random bytes and clock readings are arguments; the ciphers and
  signatures are fields of a record of library functions.
\<close>

section \<open>The status of a transaction\<close>

text \<open>The request, its body or the parsing failed; a status that is not 200; the parsed status.\<close>

datatype status_reply = StatusFailed string | StatusHttp nat | StatusBody "string option"

definition fetch_tx_status :: "(string \<Rightarrow> status_reply) \<Rightarrow> network \<Rightarrow> string \<Rightarrow> (string + string) option" where
  "fetch_tx_status ask nw tx_hash =
     (if base_urls nw = [] then None
      else let base_url = base_urls nw ! (unat (current_index nw) mod length (base_urls nw));
               url = base_url @ ''/transaction/'' @ tx_hash @ ''/status''
      in Some (case ask url of
           StatusFailed e \<Rightarrow> Inl e
         | StatusHttp code \<Rightarrow> Inl ''Failed to fetch tx status''
         | StatusBody (Some status) \<Rightarrow> Inr status
         | StatusBody None \<Rightarrow> Inl ''Status not found in response''))"

section \<open>A batch of transactions\<close>

text \<open>The hashes of a batch come as a table; its size is the number of different keys.\<close>

record send_many_response =
  sm_data :: "(string \<times> string) list option"
  sm_code :: "string option"

datatype send_many_reply = ManyFailed string | ManyReply nat string "send_many_response option"

definition broadcast_batch_node :: "send_many_reply \<Rightarrow> string + nat" where
  "broadcast_batch_node reply = (case reply of
     ManyFailed e \<Rightarrow> Inl e
   | ManyReply status body parsed \<Rightarrow>
       if status = 201 \<or> status = 200 then
         (case parsed of
            Some r \<Rightarrow>
              (case (sm_code r = Some ''successful'', sm_data r) of
                 (True, Some hashes) \<Rightarrow> Inr (card (set (map fst hashes)))
               | _ \<Rightarrow> Inl body)
          | None \<Rightarrow> Inl body)
       else if contains_text body ''different shard ID'' then Inl ''different shard ID''
       else Inl body)"

definition broadcast_tx_batch :: "transaction list \<Rightarrow> send_many_reply list \<Rightarrow> (string + nat) option" where
  "broadcast_tx_batch txs replies =
     (if txs = [] then Some (Inr 0)
      else case select_ok (map broadcast_batch_node replies) of
        None \<Rightarrow> None
      | Some (Inr n) \<Rightarrow> Some (Inr n)
      | Some (Inl e) \<Rightarrow> Some (Inl (''Hedged Batch Broadcast Failed. Last Error: '' @ e)))"

definition mvx_health_check :: "(string \<Rightarrow> nonce_reply) \<Rightarrow> network \<Rightarrow> bool option" where
  "mvx_health_check ask nw = map_option (\<lambda>r. \<not> isl r) (fetch_nonce ask nw)"

section \<open>Agents\<close>

record agent_lib =
  aead_encrypt :: "bytes \<Rightarrow> bytes \<Rightarrow> bytes \<Rightarrow> bytes \<Rightarrow> bytes"
  from_hex :: "string \<Rightarrow> bytes option"

record ai_dispatcher =
  secure_endpoint :: string
  cipher_key :: bytes

text \<open>
  The shared secret: from the environment, else from a file. Every \<open>expect\<close> that fails is a
  panic, here the left value with the message.
\<close>

definition ai_new :: "agent_lib \<Rightarrow> string option \<Rightarrow> string option \<Rightarrow> string \<Rightarrow> string + ai_dispatcher" where
  "ai_new A env_secret secret_file endpoint =
     (case (case env_secret of Some s \<Rightarrow> Some s | None \<Rightarrow> map_option trim secret_file) of
        None \<Rightarrow> Inl ''FATAL: XSE_SHARED_SECRET env var not set and .secrets/xse_shared_secret.hex not found. Cannot start without encryption key.''
      | Some shared_secret_hex \<Rightarrow>
          (case from_hex A shared_secret_hex of
             None \<Rightarrow> Inl ''FATAL: XSE_SHARED_SECRET must be a valid 64-character hex string (32 bytes)''
           | Some secret_bytes \<Rightarrow>
               if length secret_bytes \<noteq> 32
               then Inl ''FATAL: XSE_SHARED_SECRET must be exactly 32 bytes (64 hex chars)''
               else Inr \<lparr>secure_endpoint = endpoint, cipher_key = secret_bytes\<rparr>))"

text \<open>The nonce is twelve random bytes.\<close>

definition apply_quantum_shield :: "agent_lib \<Rightarrow> tx_lib \<Rightarrow> ai_dispatcher \<Rightarrow> bytes \<Rightarrow> bytes \<Rightarrow> bytes \<Rightarrow> string" where
  "apply_quantum_shield A L d nonce data aad =
     (let ciphertext = aead_encrypt A (cipher_key d) nonce aad data;
          out = nonce @ ciphertext
      in ''Q-SEALED-'' @ b64_encode L out)"

record agent_request =
  ar_idempotency_key :: string
  ar_agent_task_id :: string
  ar_executor_id :: string
  ar_encrypted_payload :: string
  ar_executor_signature :: string
  ar_timestamp :: u64

definition request_aad :: "string \<Rightarrow> string \<Rightarrow> u64 \<Rightarrow> string" where
  "request_aad task_id idempotency_key timestamp =
     task_id @ ''_'' @ idempotency_key @ ''_'' @ dec (unat timestamp)"

definition request_text :: "string \<Rightarrow> string \<Rightarrow> string \<Rightarrow> u64 \<Rightarrow> string" where
  "request_text idempotency_key task_id secure_payload timestamp =
     idempotency_key @ '':'' @ task_id @ '':'' @ secure_payload @ '':'' @ dec (unat timestamp)"

text \<open>
  The request is built and reported, and not sent. The slice in the report panics on a shorter
  payload, the value None.
\<close>

definition ai_dispatch ::
  "agent_lib \<Rightarrow> tx_lib \<Rightarrow> ai_dispatcher \<Rightarrow> bytes \<Rightarrow> string \<Rightarrow> u64 \<Rightarrow> execution_task \<Rightarrow> keeper_wallet
    \<Rightarrow> (agent_request \<times> (string + dispatch_receipt)) option" where
  "ai_dispatch A L d nonce uuid now t wallet =
     (let timestamp = now;
          idempotency_key = uuid;
          aad = request_aad (et_task_id t) idempotency_key timestamp;
          secure_payload = apply_quantum_shield A L d nonce (et_payload_bytes t) aad;
          payload_to_sign = request_text idempotency_key (et_task_id t) secure_payload timestamp;
          signature_hex = tx_hex_encode L (ed_sign L (signing_key wallet) payload_to_sign);
          request_body = \<lparr>ar_idempotency_key = idempotency_key, ar_agent_task_id = et_task_id t,
            ar_executor_id = bech32_address wallet, ar_encrypted_payload = secure_payload,
            ar_executor_signature = signature_hex, ar_timestamp = timestamp\<rparr>;
          tx_id = ''ai_req_'' @ idempotency_key
      in if length secure_payload < 40 then None
         else Some (request_body, Inr \<lparr>dr_status = ''success'', dr_tx_hash_or_id = tx_id,
           dr_gas_used = None, dr_timestamp = timestamp\<rparr>))"

section \<open>Post-quantum signatures\<close>

record pq_lib =
  pq_public_key :: "bytes \<Rightarrow> bytes option"
  pq_signature :: "bytes \<Rightarrow> bytes option"
  pq_verify :: "bytes \<Rightarrow> bytes \<Rightarrow> bytes \<Rightarrow> bool"

definition verify_post_quantum_intent :: "pq_lib \<Rightarrow> bytes \<Rightarrow> bytes \<Rightarrow> bytes \<Rightarrow> string + bool" where
  "verify_post_quantum_intent Q public_key payload signature_bytes =
     (if public_key = [] \<or> signature_bytes = [] then Inl ''PQ Public Key or Signature Payload Malformed''
      else case pq_public_key Q public_key of
        None \<Rightarrow> Inl ''Invalid Dilithium2 Public Key Format''
      | Some pk \<Rightarrow>
          (case pq_signature Q signature_bytes of
             None \<Rightarrow> Inl ''Invalid Dilithium2 Signature Format''
           | Some sig \<Rightarrow>
               if pq_verify Q sig payload pk then Inr True
               else Inl ''FATAL: Quantum Authorization Failed. FIPS-204 Signature Verification Invalid.''))"

section \<open>Entropy\<close>

text \<open>The clock readings in nanoseconds: the one before the loop, and one per iteration.\<close>

fun jitter_deltas :: "u128 \<Rightarrow> u128 list \<Rightarrow> bytes" where
  "jitter_deltas prev [] = []"
| "jitter_deltas prev (now # readings) =
     char_of (unat (now - prev) mod 256) # jitter_deltas now readings"

definition collect_cpu_jitter :: "u128 \<Rightarrow> u128 list \<Rightarrow> bytes" where
  "collect_cpu_jitter start readings = jitter_deltas start (take 256 readings)"

datatype gateway_reply = GatewayFailed | GatewayStatus nat | GatewayBody "string option"

text \<open>
  The gateways are asked in turn until one gives a hash that decodes. The first ten characters
  of the hash are logged; a shorter hash is a panic, the value None.
\<close>

fun fetch_consensus_block_hash ::
  "agent_lib \<Rightarrow> (string \<Rightarrow> gateway_reply) \<Rightarrow> string list \<Rightarrow> bytes option option" where
  "fetch_consensus_block_hash A ask [] = Some None"
| "fetch_consensus_block_hash A ask (gateway # rest) =
     (case ask (trim_end_matches (CHR ''/'') gateway @ ''/network/status/0'') of
        GatewayBody (Some hash) \<Rightarrow>
          (case from_hex A hash of
             Some bs \<Rightarrow> if length hash < 10 then None else Some (Some bs)
           | None \<Rightarrow> fetch_consensus_block_hash A ask rest)
      | _ \<Rightarrow> fetch_consensus_block_hash A ask rest)"

definition mix_entropy :: "(bytes \<Rightarrow> hash32) \<Rightarrow> bytes \<Rightarrow> u128 \<Rightarrow> bytes option \<Rightarrow> bytes \<Rightarrow> hash32" where
  "mix_entropy sha jitter time_nanos block_hash os_entropy =
     (let input = jitter;
          input = input @ be_bytes 16 (unat time_nanos);
          input = (case block_hash of Some h \<Rightarrow> input @ h | None \<Rightarrow> input);
          input = input @ os_entropy
      in sha input)"

definition fetch_true_quantum_entropy ::
  "(bytes \<Rightarrow> hash32) \<Rightarrow> agent_lib \<Rightarrow> (string \<Rightarrow> gateway_reply) \<Rightarrow> string list
    \<Rightarrow> u128 \<Rightarrow> u128 list \<Rightarrow> u128 \<Rightarrow> bytes \<Rightarrow> hash32 option" where
  "fetch_true_quantum_entropy sha A ask gateways start readings time_nanos os_entropy =
     (let jitter = collect_cpu_jitter start readings
      in case fetch_consensus_block_hash A ask gateways of
           None \<Rightarrow> None
         | Some block_hash \<Rightarrow> Some (mix_entropy sha jitter time_nanos block_hash os_entropy))"

definition generate_quantum_commit_sync ::
  "(bytes \<Rightarrow> hash32) \<Rightarrow> u128 \<Rightarrow> u128 list \<Rightarrow> u128 \<Rightarrow> bytes \<Rightarrow> hash32" where
  "generate_quantum_commit_sync sha start readings time_nanos os_entropy =
     mix_entropy sha (collect_cpu_jitter start readings) time_nanos None os_entropy"

section \<open>What an agent request binds\<close>

lemma dec_no_colon [simp]: "CHR '':'' \<notin> set (dec n)"
  using digit_of_char [of "CHR '':''" n] by auto

lemma dec_no_underscore [simp]: "CHR ''_'' \<notin> set (dec n)"
  using digit_of_char [of "CHR ''_''" n] by auto

lemma sep_unique_last:
  assumes "c \<notin> set a" and "c \<notin> set b"
  shows "x @ c # a = y @ c # b \<longleftrightarrow> x = y \<and> a = b"
proof -
  have "x @ c # a = y @ c # b \<longleftrightarrow> rev a @ c # rev x = rev b @ c # rev y"
    by (metis append.assoc append_Cons append_Nil rev.simps(2) rev_append rev_rev_ident)
  then show ?thesis using assms sep_unique [of c "rev a" "rev b"] by auto
qed

text \<open>The text an agent request is signed over, read off the request.\<close>

definition signed_text :: "agent_request \<Rightarrow> string" where
  "signed_text r = request_text (ar_idempotency_key r) (ar_agent_task_id r) (ar_encrypted_payload r) (ar_timestamp r)"

definition colon_free :: "tx_lib \<Rightarrow> bool" where
  "colon_free L \<longleftrightarrow> (\<forall>bs. CHR '':'' \<notin> set (b64_encode L bs))"

lemma request_text_inject:
  assumes "CHR '':'' \<notin> set k" "CHR '':'' \<notin> set k'" "CHR '':'' \<notin> set p" "CHR '':'' \<notin> set p'"
  shows "request_text k i p ts = request_text k' i' p' ts' \<longleftrightarrow> k = k' \<and> i = i' \<and> p = p' \<and> ts = ts'"
proof -
  have "request_text k i p ts = request_text k' i' p' ts' \<longleftrightarrow> k = k' \<and>
      (i @ CHR '':'' # p) @ CHR '':'' # dec (unat ts) = (i' @ CHR '':'' # p') @ CHR '':'' # dec (unat ts')"
    using sep_unique [OF assms(1,2)] by (simp add: request_text_def)
  also have "\<dots> \<longleftrightarrow> k = k' \<and> i @ CHR '':'' # p = i' @ CHR '':'' # p' \<and> ts = ts'"
    by (simp only: sep_unique_last [OF dec_no_colon dec_no_colon] dec_inject word_unat_eq_iff [symmetric])
  also have "\<dots> \<longleftrightarrow> k = k' \<and> i = i' \<and> p = p' \<and> ts = ts'"
    using sep_unique_last [OF assms(3,4)] by auto
  finally show ?thesis .
qed

lemma request_aad_inject:
  assumes "CHR ''_'' \<notin> set k" "CHR ''_'' \<notin> set k'"
  shows "request_aad i k ts = request_aad i' k' ts' \<longleftrightarrow> i = i' \<and> k = k' \<and> ts = ts'"
proof -
  have "request_aad i k ts = request_aad i' k' ts' \<longleftrightarrow>
      (i @ CHR ''_'' # k) @ CHR ''_'' # dec (unat ts) = (i' @ CHR ''_'' # k') @ CHR ''_'' # dec (unat ts')"
    by (simp add: request_aad_def)
  also have "\<dots> \<longleftrightarrow> i @ CHR ''_'' # k = i' @ CHR ''_'' # k' \<and> ts = ts'"
    by (simp only: sep_unique_last [OF dec_no_underscore dec_no_underscore] dec_inject word_unat_eq_iff [symmetric])
  also have "\<dots> \<longleftrightarrow> i = i' \<and> k = k' \<and> ts = ts'" using sep_unique_last [OF assms] by auto
  finally show ?thesis .
qed

lemma shield_colon_free: "colon_free L \<Longrightarrow> CHR '':'' \<notin> set (apply_quantum_shield A L d n bs aad)"
  by (simp add: colon_free_def apply_quantum_shield_def Let_def)

text \<open>
  The signature of an agent request covers all of it but the name of the executor: two
  requests of the dispatcher that are signed over the same text have the same key, the same
  task, the same sealed payload and the same time, whatever the task identifiers contain. The
  text the cipher authenticates likewise fixes task, key and time. (Base64 has no colon; the
  key is a UUID, which has neither colon nor underscore.)
\<close>

theorem agent_request_binds:
  assumes "ai_dispatch A L d n u ts t w = Some (r, x)"
    and "ai_dispatch A L d' n' u' ts' t' w' = Some (r', x')"
    and "colon_free L" and "CHR '':'' \<notin> set u" "CHR '':'' \<notin> set u'" "CHR ''_'' \<notin> set u" "CHR ''_'' \<notin> set u'"
  shows "(signed_text r = signed_text r' \<longleftrightarrow>
       u = u' \<and> et_task_id t = et_task_id t' \<and> ts = ts' \<and> ar_encrypted_payload r = ar_encrypted_payload r') \<and>
     (request_aad (et_task_id t) u ts = request_aad (et_task_id t') u' ts' \<longleftrightarrow>
       et_task_id t = et_task_id t' \<and> u = u' \<and> ts = ts') \<and>
     ar_executor_signature r = tx_hex_encode L (ed_sign L (signing_key w) (signed_text r))"
proof -
  have r: "ar_idempotency_key r = u" "ar_agent_task_id r = et_task_id t" "ar_timestamp r = ts"
    "ar_encrypted_payload r = apply_quantum_shield A L d n (et_payload_bytes t) (request_aad (et_task_id t) u ts)"
    "ar_executor_signature r = tx_hex_encode L (ed_sign L (signing_key w) (signed_text r))"
    using assms(1) by (auto simp: ai_dispatch_def Let_def signed_text_def split: if_splits)
  have r': "ar_idempotency_key r' = u'" "ar_agent_task_id r' = et_task_id t'" "ar_timestamp r' = ts'"
    "ar_encrypted_payload r' = apply_quantum_shield A L d' n' (et_payload_bytes t') (request_aad (et_task_id t') u' ts')"
    using assms(2) by (auto simp: ai_dispatch_def Let_def split: if_splits)
  have "CHR '':'' \<notin> set (ar_encrypted_payload r)" "CHR '':'' \<notin> set (ar_encrypted_payload r')"
    using shield_colon_free [OF assms(3)] by (simp_all add: r(4) r'(4))
  from request_text_inject [OF assms(4,5) this] request_aad_inject [OF assms(6,7)]
  show ?thesis unfolding signed_text_def r(1-3) r'(1-3) r(5) by auto
qed

section \<open>What an agent receipt is worth\<close>

text \<open>
  A receipt of the agent dispatcher says nothing about the agent: with a cipher that adds its
  sixteen-byte tag and an encoding that does not shrink, every dispatch ends in a receipt that
  reports success, the report's slice never panics, and no answer of the endpoint is an input.
\<close>

theorem agent_dispatch_always_succeeds:
  assumes "\<And>k n a m. length (aead_encrypt A k n a m) = length m + 16"
    and "\<And>bs. 4 * ((length bs + 2) div 3) \<le> length (b64_encode L bs)" and "length n = 12"
  shows "\<exists>r. ai_dispatch A L d n u ts t w = Some (r, Inr \<lparr>dr_status = ''success'',
     dr_tx_hash_or_id = ''ai_req_'' @ u, dr_gas_used = None, dr_timestamp = ts\<rparr>)"
proof -
  let ?p = "apply_quantum_shield A L d n (et_payload_bytes t) (request_aad (et_task_id t) u ts)"
  let ?out = "n @ aead_encrypt A (cipher_key d) n (request_aad (et_task_id t) u ts) (et_payload_bytes t)"
  have "28 \<le> length ?out" using assms(1,3) by simp
  then have "40 \<le> 4 * ((length ?out + 2) div 3)" by simp
  then have "40 \<le> length (b64_encode L ?out)" using assms(2) [of ?out] by linarith
  then have "40 \<le> length ?p" by (simp add: apply_quantum_shield_def Let_def)
  then show ?thesis by (simp add: ai_dispatch_def Let_def)
qed

section \<open>The quantum shield\<close>

text \<open>A post-quantum check answers yes or an error, and yes only for a signature that verifies.\<close>

theorem pq_intent_verified:
  "verify_post_quantum_intent Q pk m sg = Inr b \<longleftrightarrow> b \<and> pk \<noteq> [] \<and> sg \<noteq> [] \<and>
     (\<exists>k s. pq_public_key Q pk = Some k \<and> pq_signature Q sg = Some s \<and> pq_verify Q s m k)"
  by (auto simp: verify_post_quantum_intent_def split: option.splits)

lemma length_jitter: "length (jitter_deltas p rs) = length rs"
  by (induction p rs rule: jitter_deltas.induct) auto

text \<open>
  Whatever the gateways answer, a seed that is produced is the hash of an input that ends with
  the operating system's entropy, after 256 bytes of jitter and sixteen of time.
\<close>

theorem entropy_ends_with_os:
  assumes "fetch_true_quantum_entropy sha A ask gws start readings time os = Some seed"
    and "256 \<le> length readings"
  shows "\<exists>pre. seed = sha (pre @ os) \<and> 272 \<le> length pre"
proof -
  obtain bh where "seed = mix_entropy sha (collect_cpu_jitter start readings) time bh os"
    using assms(1) by (auto simp: fetch_true_quantum_entropy_def Let_def split: option.splits)
  then have "seed = sha ((collect_cpu_jitter start readings @ be_bytes 16 (unat time) @
      (case bh of Some h \<Rightarrow> h | None \<Rightarrow> [])) @ os)"
    by (simp add: mix_entropy_def Let_def split: option.splits)
  moreover have "length (collect_cpu_jitter start readings) = 256"
    using assms(2) by (simp add: collect_cpu_jitter_def length_jitter)
  ultimately show ?thesis
    by (intro exI [of _ "collect_cpu_jitter start readings @ be_bytes 16 (unat time) @
      (case bh of Some h \<Rightarrow> h | None \<Rightarrow> [])"]) simp
qed

text \<open>
  A gateway can stop the keeper: the first one asked that answers with a short hash in
  hexadecimal makes the logging of its first ten characters panic.
\<close>

theorem short_block_hash_panics:
  assumes "ask (trim_end_matches (CHR ''/'') g @ ''/network/status/0'') = GatewayBody (Some h)"
    and "from_hex A h = Some bs" and "length h < 10"
  shows "fetch_true_quantum_entropy sha A ask (g # gws) start readings time os = None"
  using assms by (simp add: fetch_true_quantum_entropy_def)

end
