(* ===== verification/Keeper_Wallets.thy ===== *)
theory Keeper_Wallets
  imports Keeper_Transactions
begin

text \<open>
  The wallets of the keeper program (xcron-keeper-rs/src/wallet.rs). The regular expression, JSON,
  Base64, hexadecimal decoding, Bech32 and Ed25519 are library functions, the fields of
  \<open>wallet_lib\<close>; reading files and wiping memory are left out, random bytes are an argument.
\<close>

record wallet_lib =
  pem_body :: "string \<Rightarrow> string option"
  b64_decode :: "string \<Rightarrow> bytes option"
  hex_decode :: "string \<Rightarrow> bytes option"
  bech32_encode :: "bytes \<Rightarrow> string option"
  bech32_decode :: "string \<Rightarrow> bytes option"
  hex_of :: "bytes \<Rightarrow> string"
  ed_public_of :: "hash32 \<Rightarrow> hash32"

definition word32 :: "bytes \<Rightarrow> hash32" where
  "word32 bs = of_nat (from_bytes_be bs)"

datatype wallet_error = NoPemContent | BadBase64 | BadUtf8 | BadHex | BadKeyLength | BadBech32 | BadSeedLength string

section \<open>Loading\<close>

text \<open>The key bytes in a PEM body: raw bytes when 32 or 64 of them, and otherwise hexadecimal text.\<close>

definition pem_key_bytes :: "wallet_lib \<Rightarrow> bytes \<Rightarrow> wallet_error + bytes" where
  "pem_key_bytes W decoded =
     (if length decoded = 64 \<or> length decoded = 32 then Inr decoded
      else if \<not> utf8 decoded then Inl BadUtf8
      else case hex_decode W (trim decoded) of None \<Rightarrow> Inl BadHex | Some bs \<Rightarrow> Inr bs)"

definition load_pem :: "wallet_lib \<Rightarrow> string \<Rightarrow> wallet_error + keeper_wallet" where
  "load_pem W pem_content = (case pem_body W pem_content of
     None \<Rightarrow> Inl NoPemContent
   | Some body \<Rightarrow>
     (case b64_decode W (filter (\<lambda>c. c \<noteq> CHR 0x0A) body) of
        None \<Rightarrow> Inl BadBase64
      | Some decoded \<Rightarrow>
        (case pem_key_bytes W decoded of
           Inl e \<Rightarrow> Inl e
         | Inr key_bytes \<Rightarrow>
           if length key_bytes \<noteq> 64 \<and> length key_bytes \<noteq> 32 then Inl BadKeyLength
           else
             let seed = word32 (take 32 key_bytes) in
             (case bech32_encode W (bytes32 (ed_public_of W seed)) of
                None \<Rightarrow> Inl BadBech32
              | Some addr \<Rightarrow> Inr \<lparr>signing_key = seed, bech32_address = addr\<rparr>))))"

text \<open>An entry of the JSON file: its address, \<open>privateKey\<close> and \<open>secretHex\<close>, where they are strings.\<close>

record hydra_entry =
  he_address :: "string option"
  he_private_key :: "string option"
  he_secret_hex :: "string option"

abbreviation or_empty :: "string option \<Rightarrow> string" where
  "or_empty x \<equiv> case x of None \<Rightarrow> [] | Some s \<Rightarrow> s"

definition hydra_wallet :: "wallet_lib \<Rightarrow> hydra_entry \<Rightarrow> wallet_error + keeper_wallet" where
  "hydra_wallet W e =
     (let address = or_empty (he_address e);
          hex_key = (case he_private_key e of Some k \<Rightarrow> k | None \<Rightarrow> or_empty (he_secret_hex e));
          seed_hex = (if 64 \<le> length hex_key then take 64 hex_key else hex_key)
      in case hex_decode W seed_hex of
        None \<Rightarrow> Inl BadHex
      | Some seed_bytes \<Rightarrow>
          if length seed_bytes \<noteq> 32 then Inl (BadSeedLength address)
          else Inr \<lparr>signing_key = word32 seed_bytes, bech32_address = address\<rparr>)"

fun load_hydra_json :: "wallet_lib \<Rightarrow> keeper_wallet list \<Rightarrow> hydra_entry list \<Rightarrow> wallet_error + keeper_wallet list" where
  "load_hydra_json W keepers [] = Inr keepers"
| "load_hydra_json W keepers (e # rest) = (case hydra_wallet W e of
     Inl err \<Rightarrow> Inl err
   | Inr w \<Rightarrow> load_hydra_json W (keepers @ [w]) rest)"

section \<open>Addresses\<close>

text \<open>The remainder by zero is a panic, the value None.\<close>

definition get_shard :: "wallet_lib \<Rightarrow> string \<Rightarrow> u8 \<Rightarrow> u8 option" where
  "get_shard W bech32_addr num_shards = (case bech32_decode W bech32_addr of
     Some bs \<Rightarrow>
       if bs \<noteq> [] then (if num_shards = 0 then None else Some (of_char (last bs) mod num_shards))
       else Some 0
   | None \<Rightarrow> Some 0)"

definition generate_random_address :: "wallet_lib \<Rightarrow> bytes \<Rightarrow> string" where
  "generate_random_address W bs = (case bech32_encode W bs of
     Some a \<Rightarrow> a
   | None \<Rightarrow> ''erd1qqqqqqqqqqqqqpgqjq6g52c9dxy7vtckspndqxhqmm0mmken7k8sahvvd5'')"

text \<open>
  The loop draws addresses until one is in another shard; it may run forever, which is the value
  None, as is a panic.
\<close>

partial_function (option) generate_cross_shard_address ::
  "wallet_lib \<Rightarrow> (nat \<Rightarrow> bytes) \<Rightarrow> nat \<Rightarrow> u8 \<Rightarrow> u8 \<Rightarrow> string option" where
  "generate_cross_shard_address W draws k sender_shard num_shards =
     (let addr = generate_random_address W (draws k) in
      case get_shard W addr num_shards of
        None \<Rightarrow> None
      | Some target_shard \<Rightarrow>
          if target_shard \<noteq> sender_shard then Some addr
          else generate_cross_shard_address W draws (Suc k) sender_shard num_shards)"

definition bech32_to_hex :: "wallet_lib \<Rightarrow> string \<Rightarrow> string" where
  "bech32_to_hex W bech32_addr = (case bech32_decode W bech32_addr of
     Some bs \<Rightarrow> if bs \<noteq> [] then hex_of W bs
       else ''0000000000000000000000000000000000000000000000000000000000000000''
   | None \<Rightarrow> ''0000000000000000000000000000000000000000000000000000000000000000'')"

section \<open>What is loaded\<close>

text \<open>
  A wallet from a PEM file is consistent: its key is the first 32 bytes of the file's key, and
  its address is the encoding of the public key that belongs to it.
\<close>

theorem pem_wallet_consistent:
  assumes "load_pem W content = Inr w"
  shows "bech32_encode W (bytes32 (ed_public_of W (signing_key w))) = Some (bech32_address w) \<and>
    (\<exists>key_bytes. (length key_bytes = 64 \<or> length key_bytes = 32) \<and> signing_key w = word32 (take 32 key_bytes))"
  using assms by (auto simp: load_pem_def Let_def split: option.splits sum.splits if_splits)

lemma load_hydra_json_eq:
  "load_hydra_json W ks es = Inr ws \<longleftrightarrow> (\<exists>vs. ws = ks @ vs \<and> list_all2 (\<lambda>e w. hydra_wallet W e = Inr w) es vs)"
proof (induction es arbitrary: ks)
  case (Cons e es)
  then show ?case by (cases "hydra_wallet W e") (auto simp: list_all2_Cons1)
qed auto

text \<open>
  A wallet from a JSON file is not checked: any address whatever is accepted beside a key of 32
  bytes, so the wallet may sign for an account that is not its own.
\<close>

theorem hydra_address_unchecked:
  assumes "hex_decode W key_hex = Some seed" and "length seed = 32" and "length key_hex = 64"
  shows "load_hydra_json W [] [\<lparr>he_address = Some a, he_private_key = Some key_hex, he_secret_hex = None\<rparr>] =
     Inr [\<lparr>signing_key = word32 seed, bech32_address = a\<rparr>]"
  using assms by (simp add: hydra_wallet_def)

section \<open>The search for another shard\<close>

definition elsewhere :: "wallet_lib \<Rightarrow> u8 \<Rightarrow> u8 \<Rightarrow> string \<Rightarrow> bool" where
  "elsewhere W s n a \<longleftrightarrow> (\<exists>t. get_shard W a n = Some t \<and> t \<noteq> s)"

lemma get_shard_total: "n \<noteq> 0 \<Longrightarrow> \<exists>t. get_shard W a n = Some t"
  by (simp add: get_shard_def split: option.splits)

lemma cross_shard_returns:
  "n \<noteq> 0 \<Longrightarrow> elsewhere W s n (generate_random_address W (draws (k + d))) \<Longrightarrow>
   \<exists>a. generate_cross_shard_address W draws k s n = Some a"
proof (induction d arbitrary: k)
  case 0
  then show ?case by (subst generate_cross_shard_address.simps) (auto simp: elsewhere_def Let_def)
next
  case (Suc d)
  have "\<exists>a. generate_cross_shard_address W draws (Suc k) s n = Some a"
    using Suc.IH [of "Suc k"] Suc.prems by simp
  moreover obtain t where "get_shard W (generate_random_address W (draws k)) n = Some t"
    using get_shard_total Suc.prems(1) by blast
  ultimately show ?case by (subst generate_cross_shard_address.simps) (simp add: Let_def)
qed

lemma cross_shard_sound:
  "generate_cross_shard_address W draws k s n = Some a \<Longrightarrow>
   elsewhere W s n a \<and> (\<exists>d. a = generate_random_address W (draws (k + d)))"
proof (rule generate_cross_shard_address.raw_induct
    [where P = "\<lambda>W draws k s n a. elsewhere W s n a \<and> (\<exists>d. a = generate_random_address W (draws (k + d)))"])
  fix f W draws k s n a
  assume ih: "\<And>W draws k s n a. f W draws k s n = Some a \<Longrightarrow>
      elsewhere W s n a \<and> (\<exists>d. a = generate_random_address W (draws (k + d)))"
    and call: "(let addr = generate_random_address W (draws k) in
      case get_shard W addr n of None \<Rightarrow> None
      | Some target_shard \<Rightarrow> if target_shard \<noteq> s then Some addr else f W draws (Suc k) s n) = Some a"
  define addr where "addr = generate_random_address W (draws k)"
  obtain t where t: "get_shard W addr n = Some t"
    using call by (cases "get_shard W addr n") (simp_all add: addr_def Let_def)
  show "elsewhere W s n a \<and> (\<exists>d. a = generate_random_address W (draws (k + d)))"
  proof (cases "t = s")
    case False
    then have "a = addr" using call t by (simp add: addr_def Let_def)
    then show ?thesis using t False by (auto simp: elsewhere_def addr_def intro!: exI [of _ 0])
  next
    case True
    then have "f W draws (Suc k) s n = Some a" using call t by (simp add: addr_def Let_def)
    from ih [OF this] obtain d where "elsewhere W s n a" "a = generate_random_address W (draws (Suc k + d))" by blast
    then show ?thesis by (intro conjI exI [of _ "Suc d"]) simp_all
  qed
qed

text \<open>
  The search for an address in another shard ends exactly when the random source offers one:
  with at least one shard it returns if and only if some draw from here on lies in another
  shard, and what it returns is such a draw. With a single shard it never returns.
\<close>

theorem cross_shard_search:
  assumes "n \<noteq> 0"
  shows "((\<exists>a. generate_cross_shard_address W draws k s n = Some a) \<longleftrightarrow>
     (\<exists>d. elsewhere W s n (generate_random_address W (draws (k + d))))) \<and>
   (\<forall>a. generate_cross_shard_address W draws k s n = Some a \<longrightarrow>
      elsewhere W s n a \<and> (\<exists>d. a = generate_random_address W (draws (k + d)))) \<and>
   generate_cross_shard_address W draws k 0 1 = None"
proof -
  have "get_shard W a 1 = Some 0" for a by (simp add: get_shard_def split: option.splits)
  then have "\<not> elsewhere W 0 1 a" for a by (simp add: elsewhere_def)
  then have "generate_cross_shard_address W draws k 0 1 = None"
    using cross_shard_sound [of W draws k 0 1] by (metis not_None_eq)
  then show ?thesis using cross_shard_sound cross_shard_returns [OF assms] by metis
qed

definition demo_wallet_lib :: wallet_lib where
  "demo_wallet_lib = \<lparr>pem_body = Some, b64_decode = Some, hex_decode = Some, bech32_encode = Some,
     bech32_decode = Some, hex_of = (\<lambda>b. b), ed_public_of = (\<lambda>k. k)\<rparr>"

theorem cross_shard_search_witness:
  "\<exists>a. generate_cross_shard_address demo_wallet_lib (\<lambda>_. ''a'') 0 0 3 = Some a \<and> elsewhere demo_wallet_lib 0 3 a"
proof -
  have "elsewhere demo_wallet_lib 0 3 (generate_random_address demo_wallet_lib ''a'')"
    by (simp add: elsewhere_def get_shard_def generate_random_address_def demo_wallet_lib_def)
  then show ?thesis
    using cross_shard_search [of 3 demo_wallet_lib "\<lambda>_. ''a''" 0 0] by auto
qed

end
