(* ===== verification/Keeper_Snipers.thy ===== *)
theory Keeper_Snipers
  imports Rust_Text
begin

text \<open>
  The mempool observers of the keeper program (xcron-keeper-rs/src/mempool\_sniper.rs and
  ws\_sniper.rs): the three rolling sets that keep a transaction from being reported twice, and
  the filters. Base64 and the parser of big numbers are library functions and arguments; polling
  and the channels to the executors are left out. A set of hashes is the list of its elements,
  newest first.
\<close>

section \<open>Rolling memory\<close>

record seen_hashes =
  seen0 :: "string list"
  seen1 :: "string list"
  seen2 :: "string list"

definition no_hashes :: seen_hashes where
  "no_hashes = \<lparr>seen0 = [], seen1 = [], seen2 = []\<rparr>"

text \<open>Whether the hash is new, and the sets afterwards; the first set is rotated when it grows beyond \<open>cap\<close>.\<close>

definition observe :: "nat \<Rightarrow> string \<Rightarrow> seen_hashes \<Rightarrow> bool \<times> seen_hashes" where
  "observe cap hash m =
     (if hash = [] then (False, m)
      else if hash \<notin> set (seen0 m) \<and> hash \<notin> set (seen1 m) \<and> hash \<notin> set (seen2 m) then
        (let m = m\<lparr>seen0 := hash # seen0 m\<rparr> in
         (True, if cap < length (seen0 m) then \<lparr>seen0 = [], seen1 = seen0 m, seen2 = seen1 m\<rparr> else m))
      else (False, m))"

definition mempool_cap :: nat where "mempool_cap = 10000"
definition ws_cap :: nat where "ws_cap = 20000"

text \<open>The hashes a stream of observations reports, in order.\<close>

fun reported :: "nat \<Rightarrow> string list \<Rightarrow> seen_hashes \<Rightarrow> string list" where
  "reported cap [] m = []"
| "reported cap (h # hs) m = (case observe cap h m of
     (True, m') \<Rightarrow> h # reported cap hs m'
   | (False, m') \<Rightarrow> reported cap hs m')"

fun memory_after :: "nat \<Rightarrow> string list \<Rightarrow> seen_hashes \<Rightarrow> seen_hashes" where
  "memory_after cap [] m = m"
| "memory_after cap (h # hs) m = memory_after cap hs (snd (observe cap h m))"

section \<open>Filters\<close>

record mempool_transaction =
  mt_hash :: string
  mt_sender :: string
  mt_receiver :: string
  mt_data :: string
  mt_gas_price :: u64

record victim_detected =
  vd_victim_hash :: string
  vd_gas_price :: u64
  vd_pair_address :: string

definition SWAP_FIXED_INPUT_HEX :: string where
  "SWAP_FIXED_INPUT_HEX = ''73776170546f6b656e734669786564496e707574''"

definition analyze_target ::
  "(string \<Rightarrow> bytes option) \<Rightarrow> (string \<Rightarrow> nat option) \<Rightarrow> mempool_transaction \<Rightarrow> string \<Rightarrow> victim_detected option" where
  "analyze_target b64_decode parse_hex t target_dex =
     (if mt_receiver t \<noteq> target_dex then None
      else if mt_data t = [] then None
      else case b64_decode (mt_data t) of
        None \<Rightarrow> None
      | Some decoded \<Rightarrow>
          if \<not> utf8 decoded then None
          else if \<not> (starts_with decoded ''ESDTTransfer@'' \<and> contains_text decoded SWAP_FIXED_INPUT_HEX) then None
          else
            let parts = split_at (CHR ''@'') decoded in
            if length parts < 3 then None
            else
              let amount_hex = parts ! 2 in
              if 64 < length amount_hex then None
              else case parse_hex amount_hex of
                None \<Rightarrow> None
              | Some amount_wei \<Rightarrow>
                  if 5000000000000000000 \<le> amount_wei
                  then Some \<lparr>vd_victim_hash = mt_hash t, vd_gas_price = mt_gas_price t, vd_pair_address = target_dex\<rparr>
                  else None)"

record arbitrage_opportunity =
  ao_victim_hash :: string
  ao_gas_price :: u64
  ao_target_dex :: string
  ao_amount_in_hex :: string

definition is_swap :: "string \<Rightarrow> bool" where
  "is_swap decoded \<longleftrightarrow> contains_text decoded SWAP_FIXED_INPUT_HEX \<or>
     contains_text decoded ''73776170546f6b656e7346697865644f7574707574'' \<or> contains_text decoded ''swapTokensFixedInput''"

definition is_xcron_intent :: "string \<Rightarrow> bool" where
  "is_xcron_intent decoded \<longleftrightarrow> contains_text decoded ''6372656174654d756c7469496e707574'' \<or>
     contains_text decoded ''createMultiIntent'' \<or> contains_text decoded ''createIntent''"

definition ws_opportunity :: "string \<Rightarrow> string \<Rightarrow> u64 \<Rightarrow> string \<Rightarrow> arbitrage_opportunity option" where
  "ws_opportunity hash receiver gas_price decoded =
     (if is_swap decoded \<or> is_xcron_intent decoded then
        (if gas_price < 1000000000 then None
         else
           let amount_info = (if is_xcron_intent decoded then ''XCRON_INTENT'' else ''omni_swap'');
               parts = split_at (CHR ''@'') decoded;
               amount_info = (if 3 \<le> length parts then ''payload_raw='' @ decoded else amount_info)
           in Some \<lparr>ao_victim_hash = hash, ao_gas_price = gas_price, ao_target_dex = receiver,
                    ao_amount_in_hex = amount_info\<rparr>)
      else None)"

section \<open>No transaction is reported twice within the memory\<close>

text \<open>
  The sets hold the most recent reports, without gaps: all of them, or at least two full
  sets of them.
\<close>

definition remembered :: "seen_hashes \<Rightarrow> string list" where
  "remembered m = seen0 m @ seen1 m @ seen2 m"

definition memory_inv :: "nat \<Rightarrow> seen_hashes \<Rightarrow> string list \<Rightarrow> bool" where
  "memory_inv cap m past \<longleftrightarrow> remembered m = take (length (remembered m)) (rev past) \<and>
     length (seen0 m) \<le> cap \<and> length (seen1 m) \<le> Suc cap \<and> length (seen2 m) \<le> Suc cap \<and>
     (length (remembered m) = length past \<or> length (seen1 m) = Suc cap \<and> length (seen2 m) = Suc cap) \<and>
     (seen2 m \<noteq> [] \<longrightarrow> length (seen1 m) = Suc cap) \<and> length (remembered m) \<le> length past"

lemma memory_inv_init: "memory_inv cap no_hashes []"
  by (simp add: memory_inv_def remembered_def no_hashes_def)

lemma observe_new:
  "observe cap h m = (True, m') \<Longrightarrow> h \<noteq> [] \<and> h \<notin> set (remembered m) \<and>
     m' = (if cap < Suc (length (seen0 m)) then \<lparr>seen0 = [], seen1 = h # seen0 m, seen2 = seen1 m\<rparr>
           else m\<lparr>seen0 := h # seen0 m\<rparr>)"
  by (auto simp: observe_def remembered_def Let_def split: if_splits)

lemma observe_old: "observe cap h m = (False, m') \<Longrightarrow> m' = m"
  by (auto simp: observe_def Let_def split: if_splits)

lemma memory_inv_step:
  assumes "memory_inv cap m past" and "observe cap h m = (True, m')"
  shows "memory_inv cap m' (past @ [h])"
proof (cases "cap < Suc (length (seen0 m))")
  case False
  with observe_new [OF assms(2)] have m': "m' = m\<lparr>seen0 := h # seen0 m\<rparr>" by simp
  then have "remembered m' = h # remembered m" by (simp add: remembered_def)
  with assms(1) m' False show ?thesis by (auto simp: memory_inv_def)
next
  case True
  with observe_new [OF assms(2)] have m': "m' = \<lparr>seen0 = [], seen1 = h # seen0 m, seen2 = seen1 m\<rparr>" by simp
  have full: "length (seen0 m) = cap" using True assms(1) by (simp add: memory_inv_def)
  have rec: "remembered m' = h # seen0 m @ seen1 m" by (simp add: remembered_def m')
  have "seen0 m @ seen1 m = take (length (seen0 m @ seen1 m)) (remembered m)" by (simp add: remembered_def)
  also have "\<dots> = take (length (seen0 m @ seen1 m)) (rev past)"
  proof -
    have "remembered m = take (length (remembered m)) (rev past)" using assms(1) by (simp add: memory_inv_def)
    moreover have "length (seen0 m @ seen1 m) \<le> length (remembered m)" by (simp add: remembered_def)
    ultimately show ?thesis by (metis take_take min.absorb1)
  qed
  finally have pre: "seen0 m @ seen1 m = take (length (seen0 m @ seen1 m)) (rev past)" .
  have "length (seen1 m) = Suc cap \<or> length (remembered m) = length past \<and> seen2 m = []"
    using assms(1) by (auto simp: memory_inv_def)
  then show ?thesis using assms(1) rec pre full m' by (auto simp: memory_inv_def remembered_def)
qed

definition spaced :: "nat \<Rightarrow> string list \<Rightarrow> bool" where
  "spaced gap xs \<longleftrightarrow> (\<forall>j < length xs. \<forall>i < j. xs ! i = xs ! j \<longrightarrow> gap < j - i)"

lemma spaced_snoc:
  assumes "spaced gap xs" and "\<And>i. i < length xs \<Longrightarrow> xs ! i = h \<Longrightarrow> gap < length xs - i"
  shows "spaced gap (xs @ [h])"
  using assms by (auto simp: spaced_def nth_append less_Suc_eq)

lemma spaced_report:
  assumes "memory_inv cap m past" and "spaced (2 * Suc cap) past" and "observe cap h m = (True, m')"
  shows "spaced (2 * Suc cap) (past @ [h])"
proof (rule spaced_snoc [OF assms(2)])
  fix i
  assume i: "i < length past" "past ! i = h"
  define r where "r = length (remembered m)"
  have pos: "rev past ! (length past - Suc i) = h" using i by (simp add: rev_nth)
  have "\<not> length past - Suc i < r"
  proof
    assume "length past - Suc i < r"
    then have "take r (rev past) ! (length past - Suc i) = h" "length past - Suc i < length (take r (rev past))"
      using pos i(1) by simp_all
    then have "h \<in> set (remembered m)" using assms(1) by (metis memory_inv_def nth_mem r_def)
    then show False using observe_new [OF assms(3)] by simp
  qed
  moreover have "r = length past \<or> 2 * Suc cap \<le> r"
    using assms(1) by (auto simp: memory_inv_def r_def remembered_def)
  ultimately show "2 * Suc cap < length past - i" using i(1) by linarith
qed

lemma reported_spaced:
  "memory_inv cap m past \<Longrightarrow> spaced (2 * Suc cap) past \<Longrightarrow> spaced (2 * Suc cap) (past @ reported cap hs m)"
proof (induction hs arbitrary: m past)
  case (Cons h hs)
  obtain b m' where o: "observe cap h m = (b, m')" by fastforce
  show ?case
  proof (cases b)
    case True
    then have new: "observe cap h m = (True, m')" using o by simp
    from Cons.IH [OF memory_inv_step [OF Cons.prems(1) new] spaced_report [OF Cons.prems new]]
    show ?thesis by (simp add: new)
  next
    case False
    with o have "m' = m" using observe_old by (metis (full_types))
    with False o Cons show ?thesis by simp
  qed
qed simp

lemma memory_inv_run: "memory_inv cap m past \<Longrightarrow> \<exists>past'. memory_inv cap (memory_after cap hs m) past'"
proof (induction hs arbitrary: m past)
  case (Cons h hs)
  obtain b m' where o: "observe cap h m = (b, m')" by fastforce
  have "\<exists>p. memory_inv cap m' p"
  proof (cases b)
    case True
    then show ?thesis using memory_inv_step [OF Cons.prems] o by (metis (full_types))
  next
    case False
    then show ?thesis using observe_old Cons.prems o by (metis (full_types))
  qed
  with Cons.IH show ?case by (auto simp: o)
qed auto

text \<open>
  The rolling memory of the observers is bounded and leaves no gap. Whatever stream of hashes
  arrives, at most \<open>3 cap + 2\<close> of them are kept, and between two reports of the same hash there
  are at least \<open>2 (cap + 1)\<close> reports of others: 20002 for the mempool observer and 40002 for the
  observer of all shards.
\<close>

theorem no_early_repeat:
  "length (remembered (memory_after cap hs no_hashes)) \<le> 3 * cap + 2 \<and>
   (\<forall>j < length (reported cap hs no_hashes). \<forall>i < j.
      reported cap hs no_hashes ! i = reported cap hs no_hashes ! j \<longrightarrow> 2 * (cap + 1) < j - i)"
proof -
  have "spaced (2 * Suc cap) ([] @ reported cap hs no_hashes)"
    using memory_inv_init by (rule reported_spaced) (simp add: spaced_def)
  moreover obtain p where "memory_inv cap (memory_after cap hs no_hashes) p"
    using memory_inv_run memory_inv_init by blast
  then have "length (remembered (memory_after cap hs no_hashes)) \<le> 3 * cap + 2"
    by (simp add: memory_inv_def remembered_def)
  ultimately show ?thesis by (simp add: spaced_def)
qed

text \<open>With sets of two, a hash is reported again after six others, and not earlier.\<close>

definition demo_stream :: "string list" where
  "demo_stream = [''a'', ''a'', ''b'', ''c'', ''a'', ''d'', ''e'', ''f'', ''a'', ''g'', ''h'', ''i'', ''c'']"

theorem no_early_repeat_witness:
  "reported 2 demo_stream no_hashes = [''a'', ''b'', ''c'', ''d'', ''e'', ''f'', ''g'', ''h'', ''i'', ''c''] \<and>
   reported 2 demo_stream no_hashes ! 2 = reported 2 demo_stream no_hashes ! 9 \<and> 2 * (2 + 1) < 9 - (2 :: nat)"
proof -
  have r: "reported 2 demo_stream no_hashes = [''a'', ''b'', ''c'', ''d'', ''e'', ''f'', ''g'', ''h'', ''i'', ''c'']"
    by code_simp
  have same: "reported 2 demo_stream no_hashes ! 2 = reported 2 demo_stream no_hashes ! 9"
    unfolding r by simp
  have "9 < length (reported 2 demo_stream no_hashes)" unfolding r by simp
  with no_early_repeat [of 2 demo_stream] same have "2 * (2 + 1) < 9 - (2 :: nat)" by fastforce
  with r same show ?thesis by blast
qed

section \<open>Filters\<close>

text \<open>A victim is reported only for a swap at the target of at least five whole tokens.\<close>

theorem victim_is_large_swap:
  assumes "analyze_target b64_decode parse_hex t target_dex = Some v"
  shows "mt_receiver t = target_dex \<and> vd_victim_hash v = mt_hash t \<and> vd_gas_price v = mt_gas_price t \<and>
    (\<exists>decoded n. b64_decode (mt_data t) = Some decoded \<and> starts_with decoded ''ESDTTransfer@'' \<and>
       contains_text decoded SWAP_FIXED_INPUT_HEX \<and> 3 \<le> length (split_at (CHR ''@'') decoded) \<and>
       length (split_at (CHR ''@'') decoded ! 2) \<le> 64 \<and>
       parse_hex (split_at (CHR ''@'') decoded ! 2) = Some n \<and> 5000000000000000000 \<le> n)"
  using assms by (auto simp: analyze_target_def Let_def not_less split: if_splits option.splits)

text \<open>
  The observer of all shards misses intents that arrive in hexadecimal: the text it looks for
  spells \<open>createMultiInput\<close>, not \<open>createMultiIntent\<close>, so the call of that endpoint inside a token
  transfer is not recognised.
\<close>

fun hex_text :: "string \<Rightarrow> string" where
  "hex_text [] = []"
| "hex_text (c # cs) = hex_fixed 2 (of_char c) @ hex_text cs"

theorem hex_intent_missed:
  "\<not> is_xcron_intent (''ESDTTransfer@01@'' @ hex_text ''createMultiIntent'') \<and>
   hex_text ''createMultiInput'' = ''6372656174654d756c7469496e707574''"
  by code_simp

end
