(* ===== verification/Keeper_Bot.thy ===== *)
theory Keeper_Bot
  imports Keeper_Dispatch Keeper_Wallets Keeper_Snipers
begin

text \<open>
  The keeper program itself (xcron-keeper-rs/src/main.rs): its options, the wallets it loads,
  the pacing of its workers, the request each mode sends, and the loop of one worker with its
  nonce. The clock, random draws, the channels of the observers and the answers of the nodes
  are the inputs of an iteration; printing, sleeping and the two listening sockets are left out.
\<close>

section \<open>Options\<close>

datatype execution_mode =
    PreWarm | Snipe | Stress | MultiKeeper | Fuzz | IntraShard | FundHydra | WrapEgld | DexSwap
  | CrossShard | RelayedCrossShard | RelayedDex | XcronSwarm | Zeta | Theta | Epsilon | Delta
  | XcronBoundary | StateDesync | EieOverflow | NonceDesyncV2 | BlsDesync | OrphanFlooding
  | SurgicalBackrun | TpsDemo | ArbitrageHft | PcitDemo | EventKeeper | E2EBenchmark | XseSim

record cli =
  cli_mode :: execution_mode
  broadcasters :: usize
  snipe_interval_sec :: u64
  snipe_window_ms :: u64
  tps :: u32
  target_contract :: string
  block_period_ms :: u64
  cli_wallets :: usize
  mixed_profile :: bool
  cli_gateway :: string
  cli_chain_id :: string
  wallets_file :: "string option"
  target_shard :: "u8 option"
  dex_pair :: string

section \<open>Wallets\<close>

definition wallet_path :: "(string \<Rightarrow> bool) \<Rightarrow> cli \<Rightarrow> string" where
  "wallet_path exists cl = (case wallets_file cl of
     Some path \<Rightarrow> path
   | None \<Rightarrow>
       if exists ''./.secrets/hydra-keys.json'' then ''./.secrets/hydra-keys.json''
       else if exists ''../.secrets/hydra-keys.json'' then ''../.secrets/hydra-keys.json''
       else if exists ''./.secrets/wallet.pem'' then ''./.secrets/wallet.pem''
       else ''../.secrets/wallet.pem'')"

definition ends_with :: "string \<Rightarrow> string \<Rightarrow> bool" where
  "ends_with s pat = starts_with (rev s) (rev pat)"

fun keep_shard :: "wallet_lib \<Rightarrow> u8 option \<Rightarrow> keeper_wallet list \<Rightarrow> keeper_wallet list option" where
  "keep_shard W sh [] = Some []"
| "keep_shard W sh (w # rest) =
     (case sh of
        None \<Rightarrow> map_option (Cons w) (keep_shard W sh rest)
      | Some shard \<Rightarrow>
          (case get_shard W (bech32_address w) 3 of
             None \<Rightarrow> None
           | Some s \<Rightarrow> if s \<noteq> shard then keep_shard W sh rest else map_option (Cons w) (keep_shard W sh rest)))"

datatype load_error = PemUnreadable string | HydraUnreadable wallet_error | NoWallets

text \<open>
  Which parser runs depends on the name. The text of a PEM file and the entries of a JSON file
  are given per path; the outer None is a panic.
\<close>

definition load_wallets ::
  "wallet_lib \<Rightarrow> (string \<Rightarrow> string) \<Rightarrow> (string \<Rightarrow> hydra_entry list) \<Rightarrow> cli \<Rightarrow> string
    \<Rightarrow> (load_error + keeper_wallet list) option" where
  "load_wallets W pem_text entries cl path =
     (case (if ends_with path ''.pem'' then
          (case load_pem W (pem_text path) of
             Inr w \<Rightarrow> Some (Inr [w])
           | Inl _ \<Rightarrow> Some (Inl (PemUnreadable path)))
        else
          (case load_hydra_json W [] (entries path) of
             Inr loaded \<Rightarrow> map_option Inr (keep_shard W (target_shard cl) loaded)
           | Inl e \<Rightarrow> Some (Inl (HydraUnreadable e)))) of
        None \<Rightarrow> None
      | Some (Inl e) \<Rightarrow> Some (Inl e)
      | Some (Inr wallets) \<Rightarrow>
          if wallets = [] then Some (Inl NoWallets)
          else
            let wallets = (if 0 < cli_wallets cl \<and> unat (cli_wallets cl) < length wallets
                           then take (unat (cli_wallets cl)) wallets else wallets);
                wallets = (if cli_mode cl = ArbitrageHft \<or> cli_mode cl = EventKeeper then take 1 wallets else wallets)
            in Some (Inr wallets))"

definition initial_nonces :: "(string \<Rightarrow> string + u64) \<Rightarrow> keeper_wallet list \<Rightarrow> u64 list" where
  "initial_nonces fetch wallets =
     map (\<lambda>w. case fetch (bech32_address w) of Inr n \<Rightarrow> n | Inl _ \<Rightarrow> 0) wallets"

text \<open>The funds of the mode \<open>FundHydra\<close> come from a PEM file, named by the environment or by default.\<close>

definition funding_wallet_path :: "(string \<Rightarrow> bool) \<Rightarrow> string option \<Rightarrow> string" where
  "funding_wallet_path exists env = (case env of
     Some path \<Rightarrow> path
   | None \<Rightarrow> if exists ''./.secrets/wallet.pem'' then ''./.secrets/wallet.pem'' else ''../.secrets/wallet.pem'')"

text \<open>One transfer per wallet from the parent, at consecutive nonces.\<close>

fun fund_hydra :: "tx_lib \<Rightarrow> string \<Rightarrow> keeper_wallet \<Rightarrow> u64 \<Rightarrow> keeper_wallet list \<Rightarrow> transaction list" where
  "fund_hydra L chain parent parent_nonce [] = []"
| "fund_hydra L chain parent parent_nonce (w # rest) =
     sign L (signing_key parent)
       (transaction_new L parent_nonce ''200000000000000000'' (bech32_address w) (bech32_address parent)
          1000000000 50000 None chain 1) #
     fund_hydra L chain parent (parent_nonce + 1) rest"

definition metrics_response :: "u64 \<Rightarrow> u64 \<Rightarrow> string" where
  "metrics_response sent errs =
     ''HTTP/1.1 200 OK'' @ [CHR 0x0D, CHR 0x0A] @ ''Content-Type: application/json'' @ [CHR 0x0D, CHR 0x0A] @
     ''Access-Control-Allow-Origin: *'' @ [CHR 0x0D, CHR 0x0A, CHR 0x0D, CHR 0x0A] @
     ''{'' @ [CHR 0x22] @ ''sent'' @ [CHR 0x22] @ '': '' @ dec (unat sent) @ '', '' @
     [CHR 0x22] @ ''errors'' @ [CHR 0x22] @ '': '' @ dec (unat errs) @ ''}''"

section \<open>Pacing\<close>

text \<open>A rate of zero divides by zero, which is a panic: None. The product wraps.\<close>

definition pace_delay_micros :: "u64 \<Rightarrow> u32 \<Rightarrow> u64 option" where
  "pace_delay_micros num_wallets rate =
     (if rate = 0 then None else Some ((1000000 * num_wallets) div ucast rate))"

datatype snipe_plan = SleepMs u64 | CloseWindow "u64 option" | Fire

text \<open>
  Silence until the interval has passed, a window of fire, and a new interval, which only the
  first worker draws. The jitter is a number of seconds from -180 to 180.
\<close>

definition snipe_pacing :: "u64 \<Rightarrow> u64 \<Rightarrow> u64 \<Rightarrow> u64 \<Rightarrow> nat \<Rightarrow> int \<Rightarrow> snipe_plan" where
  "snipe_pacing elapsed_ms current_interval snipe_window base_interval i jitter_secs =
     (let sleep_ms = current_interval * 1000 in
      if elapsed_ms < sleep_ms then SleepMs (sleep_ms - elapsed_ms)
      else if sleep_ms + snipe_window < elapsed_ms
      then CloseWindow (if i = 0 then Some (of_int (max (sint (base_interval + of_int jitter_secs)) 60)) else None)
      else Fire)"

text \<open>
  What an iteration does before it builds a request: go on at once, sleep for a number of
  microseconds and go on, or follow the plan of the snipe mode. None is a panic.
\<close>

datatype pace = GoOn | SleepMicros u64 | SnipePlan snipe_plan

definition mode_pace :: "execution_mode \<Rightarrow> u64 \<Rightarrow> u32 \<Rightarrow> snipe_plan \<Rightarrow> pace option" where
  "mode_pace md num_active_wallets rate sp = (case md of
     TpsDemo \<Rightarrow> Some GoOn
   | Snipe \<Rightarrow> Some (SnipePlan sp)
   | SurgicalBackrun \<Rightarrow> Some GoOn
   | ArbitrageHft \<Rightarrow> Some GoOn
   | _ \<Rightarrow> map_option SleepMicros (pace_delay_micros num_active_wallets rate))"

section \<open>Requests\<close>

text \<open>A request: the payload, the gas, the receiver and the value.\<close>

type_synonym request = "bytes option \<times> u64 \<times> string \<times> string"

text \<open>No request this time, no return at all, or a request.\<close>

datatype plan = PlanSkip | PlanStuck | PlanSend request

abbreviation zero_owner :: string where
  "zero_owner \<equiv> ''0000000000000000000000000000000000000000000000000000000000000000''"

definition scheduler_sc :: string where
  "scheduler_sc = ''erd1qqqqqqqqqqqqqpgqazq2ztyyfjxgejwp0fv3xltp9xhsw9yga9kqnufeat''"

definition stress_sc :: string where
  "stress_sc = ''erd1qqqqqqqqqqqqqpgqpng9zskcp3ng6pvk5gz6rx4asd2rcrvpa9kqw9aaxe''"

definition system_sc :: string where
  "system_sc = ''erd1qqqqqqqqqqqqqqqpqqqqqqqqqqqqqqqqqqqqqqqqqqqqp3lllllsn4e83q''"

definition xexchange_pair :: string where
  "xexchange_pair = ''erd1qqqqqqqqqqqqqpgqeel2kumf0r8ffyhth7pqdujjat9nx0862jpsg2pqaq''"

definition benchmark_sc :: string where
  "benchmark_sc = ''erd1qqqqqqqqqqqqqpgq48th0lv0ns2s699c7jqqw4fskuhsv9ha2x2qzmjxtr''"

definition swarm_target :: string where
  "swarm_target = ''000000000000000000010000000000000000000000000000000000000002ffff''"

definition dex_swap_data :: bytes where
  "dex_swap_data = ''ESDTTransfer@5745474c442d626434643739@01@73776170546f6b656e734669786564496e707574@555344432d633736663166@01''"

text \<open>The call that schedules a ping, which five of the modes build.\<close>

definition schedule_ping :: "tx_lib \<Rightarrow> u64 \<Rightarrow> string \<Rightarrow> u64 \<Rightarrow> bytes" where
  "schedule_ping L nonce target trigger_time =
     (let endpoint_hex = tx_hex_encode L ''ping'';
          trigger_hex = ''00'' @ lower_hex 16 (unat trigger_time);
          task_hex = serialize_quantum_task_hex nonce zero_owner target endpoint_hex [] 0 trigger_hex 30000000
      in ''scheduleQuantumTask@'' @ task_hex)"

definition generate_lightweight_payload :: "bytes option" where
  "generate_lightweight_payload = Some ''ping''"

definition generate_fuzzing_payload :: "u8 \<Rightarrow> bytes" where
  "generate_fuzzing_payload draw =
     (let variant = draw mod 4 in
      if variant = 0 then ''executeTask@FFFFFFFFFFFFFFFFFFFF''
      else if variant = 1
      then ''scheduleTask@0000000000000000000000000000000000000000000000000000000000000000@@@@@''
      else if variant = 2 then ''scheduleTask@'' @ concat (replicate 500 ''FF'')
      else [CHR 0x00, CHR 0x01, CHR 0x02, CHR 0x03, CHR 0xFF, CHR 0xFE, CHR 0xFD])"

definition swarm_request :: "tx_lib \<Rightarrow> nat \<Rightarrow> u64 \<Rightarrow> u64 \<Rightarrow> request" where
  "swarm_request L i nonce now =
     (if i mod 10 \<noteq> 0
      then (Some (schedule_ping L nonce swarm_target (now + 60)), 6000000, scheduler_sc, ''30000000000000000'')
      else (Some (''executeTask@'' @ lower_hex 16 (unat nonce)), 6000000, scheduler_sc, ''0''))"

datatype edge = Closing | Opening | Between u64

text \<open>Where in a block the clock is; a period of zero divides by zero, the value None.\<close>

definition block_edge :: "u64 \<Rightarrow> u64 \<Rightarrow> edge option" where
  "block_edge now_ms period =
     (if period = 0 then None
      else let position_in_block = now_ms mod period;
               in_close_window = (period - 20 \<le> position_in_block);
               in_open_window = (position_in_block < 20)
      in Some (if in_close_window then Closing
               else if in_open_window then Opening
               else let ms_until_close = (if position_in_block < period - 20
                                          then period - 20 - position_in_block else 0)
                    in Between (min ms_until_close 500)))"

definition boundary_request :: "tx_lib \<Rightarrow> u64 \<Rightarrow> u64 \<Rightarrow> u64 \<Rightarrow> u64 \<Rightarrow> plan" where
  "boundary_request L now_ms now period nonce = (case block_edge now_ms period of
     None \<Rightarrow> PlanStuck
   | Some Closing \<Rightarrow>
       PlanSend (Some (schedule_ping L nonce swarm_target (now + 10)), 6000000, scheduler_sc, ''30000000000000000'')
   | Some Opening \<Rightarrow>
       PlanSend (Some (''executeTask@b'' @ lower_hex 15 (unat (nonce - 1))), 6000000, scheduler_sc, ''0'')
   | Some (Between ms) \<Rightarrow> PlanSkip)"

definition repeat_text :: "nat \<Rightarrow> string \<Rightarrow> string" where
  "repeat_text n s = concat (replicate n s)"

definition upper_hex2 :: "nat \<Rightarrow> string" where
  "upper_hex2 n = map (\<lambda>c. let k = of_char c :: nat in if 97 \<le> k then char_of (k - 32) else c) (lower_hex 2 n)"

definition many_args :: "nat \<Rightarrow> bytes" where
  "many_args n = ''dummyRecursionTrigger'' @ concat (map (\<lambda>i. ''@'' @ upper_hex2 (i mod 255)) [0 ..< n])"

definition theta_request :: request where
  "theta_request = (Some (''nonExistentEndpoint@'' @ repeat_text (1000 - 20) ''FF''), 10000000, system_sc, ''0'')"

definition epsilon_request :: request where
  "epsilon_request = (Some (many_args 3000), 50000000, stress_sc, ''0'')"

definition delta_request :: request where
  "delta_request = (Some (''triggerEventLogSpam@'' @ repeat_text (500 - 20) ''EE''), 12000000, system_sc, ''0'')"

definition state_desync_request :: "tx_lib \<Rightarrow> u64 \<Rightarrow> u64 \<Rightarrow> request" where
  "state_desync_request L nonce now =
     (Some (schedule_ping L nonce ping_target (now + 5)), 80000000, scheduler_sc, ''0'')"

definition eie_overflow_request :: request where
  "eie_overflow_request = (Some (many_args 2500), 25000000, system_sc, ''0'')"

definition benchmark_request :: "u64 \<Rightarrow> request" where
  "benchmark_request nonce =
     (let step = unat nonce mod 4 in
      if step = 0
      then (Some ''createIntent@00@00@00@0000000000000000000000000000000000000000000000000000000000000000@00'',
            15000000, benchmark_sc, ''10000000000000000'')
      else if step = 1 then (Some ''swap@00'', 15000000, benchmark_sc, ''0'')
      else if step = 2 then (Some ''emergencySwap@00'', 15000000, benchmark_sc, ''0'')
      else (Some ''mint@00'', 15000000, benchmark_sc, ''0''))"

section \<open>Arbitrage\<close>

definition ashswap_pair :: string where
  "ashswap_pair = ''erd1qqqqqqqqqqqqqpgqj5zftf3ef3gqm3gklfcqtzyqrnpwvvu978ssqd0sds''"

definition mex_pair :: string where
  "mex_pair = ''erd1qqqqqqqqqqqqqpgq72k29kegrs95xpewqpxs3v0uksq0u8l2jpsgv4x5q8''"

definition arbitrage_vault :: string where
  "arbitrage_vault = ''erd1qqqqqqqqqqqqqpgqc2f09kuuew2y6p46kydfpgv4xk8x45zy069sr5qgrq''"

text \<open>The pool of the victim, to the middle token, the rescue pool and its endpoint.\<close>

definition pool_registry :: "string \<Rightarrow> (string \<times> string \<times> string) option" where
  "pool_registry = [xexchange_pair \<mapsto> (''USDC-c76f1f'', ashswap_pair, ''exchange''),
     ashswap_pair \<mapsto> (''USDC-c76f1f'', xexchange_pair, ''swapTokensFixedInput''),
     mex_pair \<mapsto> (''MEX-455c57'', mex_pair, ''swapTokensFixedInput'')]"

definition arbitrage_data :: "tx_lib \<Rightarrow> wallet_lib \<Rightarrow> string \<Rightarrow> string \<Rightarrow> string \<Rightarrow> string \<Rightarrow> bytes" where
  "arbitrage_data L W target_dex mid_token pool_b endpoint_b =
     join ''@'' [''executeFlashArbitrage'', tx_hex_encode L ''WEGLD-bd4d79'', ''6124fee993bc0000'',
       bech32_to_hex W target_dex, tx_hex_encode L mid_token, bech32_to_hex W pool_b, ''01'',
       ''616c0cce733e0000'', tx_hex_encode L endpoint_b]"

text \<open>
  The predicted profit is the constant 0.35 per cent, which is never below the bar of 0.28,
  so every routed opportunity is sent.
\<close>

definition arbitrage_request :: "tx_lib \<Rightarrow> wallet_lib \<Rightarrow> arbitrage_opportunity option \<Rightarrow> plan" where
  "arbitrage_request L W opp = (case opp of
     None \<Rightarrow> PlanSkip
   | Some op \<Rightarrow>
       (case pool_registry (ao_target_dex op) of
          None \<Rightarrow> PlanSkip
        | Some (mid_token, pool_b, endpoint_b) \<Rightarrow>
            PlanSend (Some (arbitrage_data L W (ao_target_dex op) mid_token pool_b endpoint_b),
                      20000000, arbitrage_vault, ''0'')))"

text \<open>The pools the observer is started with.\<close>

definition target_dexes :: "string list" where
  "target_dexes = [xexchange_pair, ashswap_pair, ''erd1qqqqqqqqqqqqqpgq0c3a2j7r0lyedq20m0w6wclswqnd7r080n4spw02u2'']"

section \<open>The request of a mode\<close>

text \<open>What one iteration of a worker reads from outside.\<close>

record tick =
  now_secs :: u64
  now_millis :: u64
  random_bytes :: bytes
  shard_draws :: "nat \<Rightarrow> bytes"
  random_index :: usize
  orphan_roll :: u8
  victim :: "victim_detected option"
  throwaway :: keeper_wallet
  opportunity :: "arbitrage_opportunity option"
  send :: "transaction \<Rightarrow> send_reply list"
  ask_nonce :: "string \<Rightarrow> nonce_reply"

text \<open>What stays the same over the life of a worker: its number, its wallet, and the options.\<close>

record bot =
  txs :: tx_lib
  wallets_lib :: wallet_lib
  tx_json :: "transaction \<Rightarrow> string"
  bot_network :: network
  bot_mode :: execution_mode
  worker_index :: nat
  bot_wallet :: keeper_wallet
  shared_addresses :: "string list"
  funding_targets :: "string list"
  chain_id :: string
  period_ms :: u64

definition elsewhere_address :: "bot \<Rightarrow> tick \<Rightarrow> string option" where
  "elsewhere_address B k = (case get_shard (wallets_lib B) (bech32_address (bot_wallet B)) 3 of
     None \<Rightarrow> None
   | Some sender_shard \<Rightarrow> generate_cross_shard_address (wallets_lib B) (shard_draws k) 0 sender_shard 3)"

definition relayed_request :: "bot \<Rightarrow> transaction \<Rightarrow> u64 \<Rightarrow> request" where
  "relayed_request B inner gas =
     (Some (to_relayed_data (txs B) (tx_json B) (sign (txs B) (signing_key (bot_wallet B)) inner)),
      gas, bech32_address (bot_wallet B), ''0'')"

definition inner_transfer :: "bot \<Rightarrow> u64 \<Rightarrow> string \<Rightarrow> transaction" where
  "inner_transfer B nonce receiver =
     transaction_new (txs B) nonce ''1'' receiver (bech32_address (bot_wallet B)) 1000000000 50000 None (chain_id B) 1"

text \<open>The demonstration of pre-cognitive intents sends the data of an execution it has just built.\<close>

definition pcit_request :: "bot \<Rightarrow> u64 \<Rightarrow> plan" where
  "pcit_request B nonce =
     (let serialized_task = serialize_quantum_task_hex 42 zero_owner ping_target
            (tx_hex_encode (txs B) ''swapTokensFixedInput'') [tx_hex_encode (txs B) ''USDC-c76f1f''] 0
            ''0000000000000000'' 30000000;
          t = build_quantum_execution_tx (txs B) nonce (bech32_address (bot_wallet B)) scheduler_sc
            serialized_task None (chain_id B)
      in case tx_data t of
           None \<Rightarrow> PlanSkip
         | Some d \<Rightarrow>
             (case b64_decode (wallets_lib B) d of
                None \<Rightarrow> PlanSkip
              | Some payload_bytes \<Rightarrow> PlanSend (Some payload_bytes, 30000000, scheduler_sc, ''0'')))"

text \<open>Indexing: out of range is a panic, here None.\<close>

definition element :: "'a list \<Rightarrow> nat \<Rightarrow> 'a option" where
  "element xs i = (if i < length xs then Some (xs ! i) else None)"

definition plan_for :: "string option \<Rightarrow> (string \<Rightarrow> request) \<Rightarrow> plan" where
  "plan_for addr f = (case addr of None \<Rightarrow> PlanStuck | Some a \<Rightarrow> PlanSend (f a))"

text \<open>
  The request of an iteration. The back-run mode sends its transaction itself and is treated
  with the worker.
\<close>

definition mode_request :: "bot \<Rightarrow> u64 \<Rightarrow> tick \<Rightarrow> plan" where
  "mode_request B nonce k =
     (let L = txs B; W = wallets_lib B; random_address = generate_random_address W (random_bytes k);
          me = bech32_address (bot_wallet B) in
      case bot_mode B of
        XseSim \<Rightarrow> PlanSend (None, 0, random_address, ''0'')
      | Stress \<Rightarrow> PlanSend (Some (generate_schedule_payload L (now_secs k)), 300000000, stress_sc, ''0'')
      | Fuzz \<Rightarrow> PlanSend (None, 50000, random_address, ''1'')
      | IntraShard \<Rightarrow> plan_for (element (shared_addresses B) (unat (random_index k) mod length (shared_addresses B)))
          (\<lambda>receiver. (None, 50000, receiver, ''1''))
      | WrapEgld \<Rightarrow> PlanSend (Some ''wrapEgld'', 5000000,
          ''erd1qqqqqqqqqqqqqqqpqqqqqqqqqqqqqqqqqqqqqqqqqqqqqqqzllls8a5w6u'', ''5000000000000000'')
      | DexSwap \<Rightarrow> PlanSend (Some dex_swap_data, 15000000, xexchange_pair, ''0'')
      | CrossShard \<Rightarrow> PlanSend (Some (schedule_ping L nonce ping_target (now_secs k + 10)), 6000000, scheduler_sc, ''0'')
      | RelayedCrossShard \<Rightarrow> plan_for (elsewhere_address B k)
          (\<lambda>receiver. relayed_request B (inner_transfer B nonce receiver) 12000000)
      | RelayedDex \<Rightarrow> PlanSend (relayed_request B
          (transaction_new L nonce ''0'' xexchange_pair me 1000000000 15000000 (Some dex_swap_data) (chain_id B) 1)
          30000000)
      | XcronSwarm \<Rightarrow> PlanSend (swarm_request L (worker_index B) nonce (now_secs k))
      | XcronBoundary \<Rightarrow> boundary_request L (now_millis k) (now_secs k) (period_ms B) nonce
      | FundHydra \<Rightarrow> plan_for (element (funding_targets B) (unat (nonce + of_nat (worker_index B)) mod 100))
          (\<lambda>target. (None, 50000, target, ''200000000000000000''))
      | Zeta \<Rightarrow> PlanSend (None, 50000, random_address, ''1'')
      | Theta \<Rightarrow> PlanSend theta_request
      | Epsilon \<Rightarrow> PlanSend epsilon_request
      | Delta \<Rightarrow> PlanSend delta_request
      | StateDesync \<Rightarrow> PlanSend (state_desync_request L nonce (now_secs k))
      | EieOverflow \<Rightarrow> PlanSend eie_overflow_request
      | NonceDesyncV2 \<Rightarrow> plan_for (elsewhere_address B k)
          (\<lambda>receiver. relayed_request B (inner_transfer B (nonce + 1) receiver) 15000000)
      | BlsDesync \<Rightarrow> plan_for (elsewhere_address B k) (\<lambda>receiver. (None, 50000, receiver, ''1000000000000000''))
      | OrphanFlooding \<Rightarrow> plan_for (elsewhere_address B k) (\<lambda>receiver. (None, 50000, receiver, ''1000000000000000''))
      | TpsDemo \<Rightarrow> PlanSend (Some ''XCronProtocol'', 100000, me, ''1'')
      | E2EBenchmark \<Rightarrow> PlanSend (benchmark_request nonce)
      | EventKeeper \<Rightarrow> PlanSend (None, 50000, me, ''0'')
      | PcitDemo \<Rightarrow> pcit_request B nonce
      | ArbitrageHft \<Rightarrow> arbitrage_request L W (opportunity k)
      | SurgicalBackrun \<Rightarrow> PlanSkip
      | _ \<Rightarrow> PlanSend (None, 50000, random_address, ''1''))"

section \<open>A worker\<close>

record worker =
  wk_nonce :: u64
  wk_sent :: u64
  wk_errors :: u64

text \<open>Two modes leave gaps on purpose.\<close>

definition sent_nonce :: "bot \<Rightarrow> tick \<Rightarrow> u64 \<Rightarrow> u64" where
  "sent_nonce B k nonce =
     (if bot_mode B = OrphanFlooding then nonce + 5 + of_nat (worker_index B mod 50)
      else if bot_mode B = Fuzz \<and> orphan_roll k mod 100 < 10 then nonce + 5
      else nonce)"

definition worker_tx :: "bot \<Rightarrow> tick \<Rightarrow> u64 \<Rightarrow> request \<Rightarrow> transaction" where
  "worker_tx B k nonce rq = (case rq of (payload, gas, receiver, v) \<Rightarrow>
     sign (txs B) (signing_key (bot_wallet B))
       ((transaction_new (txs B) nonce v receiver (bech32_address (bot_wallet B)) 1000000000 gas payload
          (chain_id B) 1)\<lparr>tx_nonce := sent_nonce B k nonce\<rparr>))"

text \<open>After a failed broadcast the nonce is fetched again; if that fails too, it is kept.\<close>

definition after_broadcast :: "bot \<Rightarrow> tick \<Rightarrow> transaction \<Rightarrow> worker \<Rightarrow> worker option" where
  "after_broadcast B k t w = (case broadcast_tx (send k t) of
     None \<Rightarrow> None
   | Some (Inr hash) \<Rightarrow> Some (w\<lparr>wk_nonce := wk_nonce w + 1, wk_sent := wk_sent w + 1\<rparr>)
   | Some (Inl e) \<Rightarrow>
       let w = w\<lparr>wk_errors := wk_errors w + 1\<rparr> in
       (case fetch_nonce (ask_nonce k) (bot_network B) of
          None \<Rightarrow> None
        | Some (Inr real_nonce) \<Rightarrow> Some (w\<lparr>wk_nonce := real_nonce\<rparr>)
        | Some (Inl _) \<Rightarrow> Some w))"

text \<open>
  One iteration: the transaction it broadcast, if any, and the worker afterwards. The modes
  \<open>XseSim\<close>, \<open>EventKeeper\<close> and \<open>FundHydra\<close> return from the program before a worker starts.
\<close>

definition worker_step :: "bot \<Rightarrow> tick \<Rightarrow> worker \<Rightarrow> (transaction option \<times> worker) option" where
  "worker_step B k w =
     (if bot_mode B = SurgicalBackrun then
        (case victim k of
           None \<Rightarrow> Some (None, w)
         | Some v \<Rightarrow>
             let t = surgical_backrun_tx (txs B) (throwaway k) (bot_wallet B) (vd_pair_address v) (vd_gas_price v) (chain_id B)
             in (case broadcast_tx (send k t) of
                   None \<Rightarrow> None
                 | Some (Inr _) \<Rightarrow> Some (Some t, w\<lparr>wk_sent := wk_sent w + 1\<rparr>)
                 | Some (Inl _) \<Rightarrow> Some (Some t, w)))
      else case mode_request B (wk_nonce w) k of
        PlanStuck \<Rightarrow> None
      | PlanSkip \<Rightarrow> Some (None, w)
      | PlanSend rq \<Rightarrow>
          let t = worker_tx B k (wk_nonce w) rq in
          if bot_mode B = BlsDesync then
            (case broadcast_tx (send k t) of
               None \<Rightarrow> None
             | Some _ \<Rightarrow> Some (Some t, w\<lparr>wk_sent := wk_sent w + 1\<rparr>))
          else map_option (Pair (Some t)) (after_broadcast B k t w))"

section \<open>Block edges\<close>

lemma unat_mod_less: "(p :: u64) \<noteq> 0 \<Longrightarrow> unat (n mod p) < unat p"
  by (simp add: unat_mod unat_gt_0)

text \<open>
  With a block period of at least forty milliseconds a worker fires in the last twenty and in
  the first twenty milliseconds of a block and nowhere else, and a pause in between is not
  empty, lasts at most half a second and never runs past the start of the closing window.
\<close>

theorem boundary_windows:
  assumes "40 \<le> period"
  shows "let pos = unat (now mod period) in
     (block_edge now period = Some Closing \<longleftrightarrow> unat period \<le> pos + 20) \<and>
     (block_edge now period = Some Opening \<longleftrightarrow> pos < 20) \<and>
     (\<forall>ms. block_edge now period = Some (Between ms) \<longrightarrow>
        0 < ms \<and> ms \<le> 500 \<and> pos + unat ms + 20 \<le> unat period)"
proof -
  define pos where "pos = now mod period"
  have p: "40 \<le> unat period" using assms by (simp add: word_le_nat_alt)
  then have nz: "period \<noteq> 0" by auto
  have sub: "unat (period - 20) = unat period - 20" using p by (simp add: unat_sub word_le_nat_alt)
  have close: "period - 20 \<le> pos \<longleftrightarrow> unat period \<le> unat pos + 20"
    using p sub by (auto simp: word_le_nat_alt)
  have open_window: "pos < 20 \<longleftrightarrow> unat pos < 20" by (simp add: word_less_nat_alt)
  have between: "0 < ms \<and> ms \<le> 500 \<and> unat pos + unat ms + 20 \<le> unat period"
    if "\<not> period - 20 \<le> pos" and "ms = min (period - 20 - pos) 500" for ms
  proof -
    have "unat (period - 20 - pos) = unat period - 20 - unat pos"
      using that(1) sub by (simp add: unat_sub)
    then show ?thesis
      using that close p by (auto simp: min_def word_le_nat_alt word_less_nat_alt)
  qed
  show ?thesis
    using nz between p close open_window
    by (auto simp: block_edge_def Let_def pos_def [symmetric] not_le)
qed

section \<open>Pacing\<close>

text \<open>
  The snipe mode fires only inside its window. With an interval and a window that fit the clock
  a worker fires exactly from the end of the silence until the window is over, a pause ends at
  the start of the window, and the interval that is drawn next is at least a minute.
\<close>

theorem snipe_window_exact:
  assumes "unat interval * 1000 + unat window < 2 ^ 64"
  shows "snipe_pacing elapsed interval window base i j = Fire \<longleftrightarrow>
      unat interval * 1000 \<le> unat elapsed \<and> unat elapsed \<le> unat interval * 1000 + unat window"
    and "snipe_pacing elapsed interval window base i j = SleepMs ms \<Longrightarrow>
      unat elapsed + unat ms = unat interval * 1000"
    and "snipe_pacing elapsed interval window base i j = CloseWindow (Some n) \<Longrightarrow>
      i = 0 \<and> 60 \<le> n"
proof -
  have sleep: "unat (interval * 1000) = unat interval * 1000"
    using assms by (subst unat_mult_lem [THEN iffD1]) simp_all
  have over: "unat (interval * 1000 + window) = unat interval * 1000 + unat window"
    using assms sleep by (subst unat_add_lem [THEN iffD1]) simp_all
  show "snipe_pacing elapsed interval window base i j = Fire \<longleftrightarrow>
      unat interval * 1000 \<le> unat elapsed \<and> unat elapsed \<le> unat interval * 1000 + unat window"
    by (auto simp: snipe_pacing_def Let_def word_less_nat_alt sleep over)
  show "unat elapsed + unat ms = unat interval * 1000"
    if "snipe_pacing elapsed interval window base i j = SleepMs ms"
  proof -
    from that have "elapsed < interval * 1000" "ms = interval * 1000 - elapsed"
      by (auto simp: snipe_pacing_def Let_def split: if_splits)
    then show ?thesis using unat_sub [of elapsed "interval * 1000"] by (simp add: sleep word_less_nat_alt word_le_nat_alt)
  qed
  show "i = 0 \<and> 60 \<le> n"
    if "snipe_pacing elapsed interval window base i j = CloseWindow (Some n)"
  proof -
    define x where "x = max (sint (base + of_int j)) 60"
    have n: "i = 0" "n = of_int x" using that by (auto simp: snipe_pacing_def Let_def x_def split: if_splits)
    have "sint (base + of_int j) < 2 ^ 63" using sint_less [of "base + of_int j"] by simp
    then have "60 \<le> x" "x < 2 ^ 64" by (auto simp: x_def)
    then have "uint n = x" using n(2) by (simp add: uint_word_of_int)
    then show ?thesis using n(1) \<open>60 \<le> x\<close> by (simp add: word_le_def)
  qed
qed

section \<open>The nonce of a worker\<close>

text \<open>
  A worker and the account it sends from. The network expects a nonce of the account and holds
  transactions with later ones until the gap is filled. A transaction with the expected nonce is
  taken in, and with it those held that follow without a gap; one with a later nonce is held; one
  with an earlier nonce is refused. What could be taken in may get lost, or be taken in while the
  answer gets lost; an answer of success is given only for a transaction that was taken in or is
  held; and a nonce that is fetched afterwards is the one then expected.
\<close>

type_synonym account_pool = "u64 \<times> u64 list"

fun absorb :: "nat \<Rightarrow> u64 \<Rightarrow> u64 list \<Rightarrow> account_pool" where
  "absorb 0 N H = (N, H)"
| "absorb (Suc k) N H = (if N \<in> set H then absorb k (N + 1) (removeAll N H) else (N, H))"

fun taken_in :: "u64 \<Rightarrow> account_pool \<Rightarrow> account_pool option" where
  "taken_in n (N, H) = (if n = N then Some (absorb (length H) (N + 1) H)
     else if N < n then Some (N, n # H) else None)"

text \<open>The modes that keep to the nonces of their account.\<close>

definition regular :: "bot \<Rightarrow> bool" where
  "regular B \<longleftrightarrow> bot_mode B \<notin> {Fuzz, OrphanFlooding, BlsDesync, SurgicalBackrun}"

definition answered :: "tick \<Rightarrow> transaction \<Rightarrow> bool" where
  "answered k t \<longleftrightarrow> (\<exists>h. broadcast_tx (send k t) = Some (Inr h))"

definition chain_reaction :: "bot \<Rightarrow> tick \<Rightarrow> transaction \<Rightarrow> account_pool \<Rightarrow> account_pool \<Rightarrow> bool" where
  "chain_reaction B k t a a' \<longleftrightarrow> (a' = a \<or> taken_in (tx_nonce t) a = Some a') \<and>
     (answered k t \<longrightarrow> taken_in (tx_nonce t) a = Some a') \<and>
     (\<forall>n. fetch_nonce (ask_nonce k) (bot_network B) = Some (Inr n) \<longrightarrow> n = fst a')"

inductive bot_step :: "bot \<Rightarrow> worker \<times> account_pool \<Rightarrow> tick \<Rightarrow> worker \<times> account_pool \<Rightarrow> bool" for B where
  sends: "worker_step B k w = Some (Some t, w') \<Longrightarrow> chain_reaction B k t a a' \<Longrightarrow>
    bot_step B (w, a) k (w', a')"
| idles: "worker_step B k w = Some (None, w') \<Longrightarrow> bot_step B (w, a) k (w', a)"

text \<open>
  An iteration in good conditions: what the network takes in or holds is answered, and the nonce
  can be fetched.
\<close>

inductive good_step :: "bot \<Rightarrow> worker \<times> account_pool \<Rightarrow> tick \<Rightarrow> worker \<times> account_pool \<Rightarrow> bool" for B where
  good: "worker_step B k w = Some (Some t, w') \<Longrightarrow> chain_reaction B k t a a' \<Longrightarrow>
    taken_in (tx_nonce t) a \<noteq> None \<longrightarrow> answered k t \<Longrightarrow>
    fetch_nonce (ask_nonce k) (bot_network B) = Some (Inr n) \<Longrightarrow> good_step B (w, a) k (w', a')"

inductive_cases good_stepE: "good_step B (w, a) k (w', a')"
inductive_cases bot_stepE: "bot_step B (w, a) k (w', a')"

lemma good_is_bot_step: "good_step B s k t \<Longrightarrow> bot_step B s k t"
  by (induction rule: good_step.induct) (rule bot_step.sends)

lemma worker_tx_nonce: "tx_nonce (worker_tx B k n rq) = sent_nonce B k n"
  by (simp add: worker_tx_def sign_def Let_def split: prod.splits)

lemma regular_step:
  assumes "worker_step B k w = Some (Some t, w')" and "regular B"
  shows "tx_nonce t = wk_nonce w \<and> after_broadcast B k t w = Some w'"
proof -
  obtain rq where "t = worker_tx B k (wk_nonce w) rq" "after_broadcast B k t w = Some w'"
    using assms by (auto simp: worker_step_def regular_def Let_def split: plan.splits if_splits option.splits)
  then show ?thesis using assms(2) by (auto simp: worker_tx_nonce sent_nonce_def regular_def)
qed

lemma after_broadcast_cases:
  assumes "after_broadcast B k t w = Some w'"
  obtains "answered k t" "wk_nonce w' = wk_nonce w + 1"
    | n where "\<not> answered k t" "fetch_nonce (ask_nonce k) (bot_network B) = Some (Inr n)" "wk_nonce w' = n"
    | e where "\<not> answered k t" "fetch_nonce (ask_nonce k) (bot_network B) = Some (Inl e)" "wk_nonce w' = wk_nonce w"
  using assms by (auto simp: after_broadcast_def answered_def Let_def split: option.splits sum.splits)

text \<open>A good iteration of a worker that is not ahead, with nothing held.\<close>

lemma good_step_sync:
  assumes "good_step B (w, N, []) k (w', a')" and "regular B" and "wk_nonce w \<le> N"
  shows "a' = (if wk_nonce w = N then N + 1 else N, [])" and "wk_nonce w' = fst a'"
proof -
  obtain t n where st: "worker_step B k w = Some (Some t, w')" "chain_reaction B k t (N, []) a'"
    "taken_in (tx_nonce t) (N, []) \<noteq> None \<longrightarrow> answered k t"
    "fetch_nonce (ask_nonce k) (bot_network B) = Some (Inr n)"
    using assms(1) by (rule good_stepE) auto
  have t: "tx_nonce t = wk_nonce w" "after_broadcast B k t w = Some w'"
    using regular_step [OF st(1) assms(2)] by auto
  show a': "a' = (if wk_nonce w = N then N + 1 else N, [])"
    using st(2,3) t(1) assms(3) by (auto simp: chain_reaction_def split: if_splits)
  show "wk_nonce w' = fst a'"
    using t(2)
  proof (cases rule: after_broadcast_cases)
    case 1
    then have "taken_in (wk_nonce w) (N, []) = Some a'" using st(2) t(1) by (simp add: chain_reaction_def)
    then show ?thesis using 1 assms(3) by (auto split: if_splits)
  qed (use st(2,4) in \<open>auto simp: chain_reaction_def\<close>)
qed

text \<open>A good iteration of a worker that is ahead: its transaction is held, and it goes on.\<close>

lemma good_step_ahead:
  assumes "good_step B (w, N, H) k (w', a')" and "regular B" and "N < wk_nonce w"
  shows "a' = (N, wk_nonce w # H) \<and> wk_nonce w' = wk_nonce w + 1"
proof -
  obtain t n where st: "worker_step B k w = Some (Some t, w')" "chain_reaction B k t (N, H) a'"
    "taken_in (tx_nonce t) (N, H) \<noteq> None \<longrightarrow> answered k t"
    using assms(1) by (rule good_stepE) auto
  have t: "tx_nonce t = wk_nonce w" "after_broadcast B k t w = Some w'"
    using regular_step [OF st(1) assms(2)] by auto
  have "answered k t" "a' = (N, wk_nonce w # H)"
    using st(2,3) t(1) assms(3) by (auto simp: chain_reaction_def dest: less_imp_neq split: if_splits)
  then show ?thesis using t(2) by (auto elim: after_broadcast_cases)
qed

lemma synced_run:
  "run (good_step B) s ks s' \<Longrightarrow> regular B \<Longrightarrow> snd s = (wk_nonce (fst s), []) \<Longrightarrow>
     snd s' = (wk_nonce (fst s'), []) \<and> fst (snd s') = fst (snd s) + of_nat (length ks)"
proof (induction rule: run.induct)
  case (run_cons s k t ks u)
  then have "good_step B (fst s, wk_nonce (fst s), []) k (fst t, snd t)" by (metis prod.collapse)
  from good_step_sync [OF this run_cons.prems(1)] run_cons show ?case
    by (auto simp: algebra_simps)
qed simp

lemma ahead_run:
  "run (good_step B) s ks s' \<Longrightarrow> regular B \<Longrightarrow> fst (snd s) < wk_nonce (fst s) \<Longrightarrow>
     unat (wk_nonce (fst s)) + length ks < 2 ^ 64 \<Longrightarrow>
     fst (snd s') = fst (snd s) \<and> unat (wk_nonce (fst s')) = unat (wk_nonce (fst s)) + length ks"
proof (induction rule: run.induct)
  case (run_cons s k t ks u)
  then have "good_step B (fst s, fst (snd s), snd (snd s)) k (fst t, snd t)" by simp
  from good_step_ahead [OF this run_cons.prems(1,2)]
  have t: "fst (snd t) = fst (snd s)" "wk_nonce (fst t) = wk_nonce (fst s) + 1" by simp_all
  have up: "unat (wk_nonce (fst t)) = unat (wk_nonce (fst s)) + 1"
    using run_cons.prems(3) unfolding t(2) by (subst unat_add_lem [THEN iffD1]) simp_all
  then have "fst (snd t) < wk_nonce (fst t)" using t(1) run_cons.prems(2) by (simp add: word_less_nat_alt)
  then show ?case using run_cons.IH run_cons.prems(1,3) t(1) up by simp
qed simp


text \<open>A worker that believes in nonce 5 while its account is at 7: one failure, then a success.\<close>

definition demo_bot :: bot where
  "demo_bot = \<lparr>txs = \<lparr>b64_encode = id, tx_hex_encode = id, ed_sign = (\<lambda>_ _. [])\<rparr>,
     wallets_lib = demo_wallet_lib, tx_json = (\<lambda>_. []),
     bot_network = \<lparr>base_urls = [''n''], current_index = 0\<rparr>, bot_mode = TpsDemo, worker_index = 0,
     bot_wallet = \<lparr>signing_key = 0, bech32_address = ''me''\<rparr>, shared_addresses = [''me''],
     funding_targets = [], chain_id = ''D'', period_ms = 6000\<rparr>"

definition demo_tick :: "bool \<Rightarrow> u64 \<Rightarrow> tick" where
  "demo_tick up nonce = \<lparr>now_secs = 0, now_millis = 0, random_bytes = [], shard_draws = (\<lambda>_. []),
     random_index = 0, orphan_roll = 0, victim = None, throwaway = \<lparr>signing_key = 0, bech32_address = []\<rparr>,
     opportunity = None,
     send = (\<lambda>t. [if up then SendReply 200 [] (Some \<lparr>rs_data = Some ''h'', rs_code = Some ''successful''\<rparr>)
                  else SendFailed ''timeout'']),
     ask_nonce = (\<lambda>_. NonceBody (Some nonce) None)\<rparr>"

lemmas demo_bot_defs = demo_bot_def demo_tick_def worker_step_def mode_request_def after_broadcast_def
  worker_tx_def sent_nonce_def broadcast_tx_def broadcast_node_def answered_def fetch_nonce_def
  fetch_nonce_single_node_def chain_reaction_def

lemma demo_bot_step:
  "n \<le> N \<Longrightarrow> up = (n = N) \<Longrightarrow> N' = (if up then N + 1 else N) \<Longrightarrow>
     good_step demo_bot (\<lparr>wk_nonce = n, wk_sent = a, wk_errors = b\<rparr>, N, []) (demo_tick up N')
       (\<lparr>wk_nonce = N', wk_sent = (if up then a + 1 else a), wk_errors = (if up then b else b + 1)\<rparr>, N', [])"
  by (rule good_step.good [where t = "worker_tx demo_bot (demo_tick up N') n (Some ''XCronProtocol'', 100000, ''me'', ''1'')"
        and n = N'])
    (auto simp: demo_bot_defs sign_def transaction_new_def Let_def split: if_splits)

lemma demo_bot_run:
  "run (good_step demo_bot) (\<lparr>wk_nonce = 5, wk_sent = 0, wk_errors = 0\<rparr>, 7, []) [demo_tick False 7, demo_tick True 8]
     (\<lparr>wk_nonce = 8, wk_sent = 1, wk_errors = 1\<rparr>, 8, [])"
  using demo_bot_step [of 5 7 False 7 0 0] demo_bot_step [of 7 7 True 8 0 1]
  by (intro run_cons [OF _ run_cons [OF _ run_nil]]) simp_all


text \<open>
  Even when answers get lost, a regular worker never sends a nonce from the future: every
  transaction carries at most the nonce its account expects, so nothing waits for a gap to be
  filled (as long as the account's nonce does not wrap).
\<close>

lemma bot_step_not_ahead:
  assumes "bot_step B (w, N, []) k (w', a')" and "regular B" and "wk_nonce w \<le> N" and "N \<noteq> - 1"
  shows "\<exists>N'. a' = (N', []) \<and> wk_nonce w' \<le> N' \<and> (N' = N \<or> N' = N + 1)"
  using assms(1)
proof (rule bot_stepE)
  fix t assume st: "worker_step B k w = Some (Some t, w')" "chain_reaction B k t (N, []) a'"
  have t: "tx_nonce t = wk_nonce w" "after_broadcast B k t w = Some w'"
    using regular_step [OF st(1) assms(2)] by auto
  have "1 + N \<noteq> 0" using assms(4) by (simp add: eq_neg_iff_add_eq_0 add.commute)
  then have up: "N \<le> N + 1" using unatSuc [of N] by (simp add: word_le_nat_alt add.commute)
  have a': "a' = (N, []) \<or> wk_nonce w = N \<and> a' = (N + 1, [])"
    using st(2) t(1) assms(3) by (auto simp: chain_reaction_def split: if_splits)
  show ?thesis
    using t(2)
  proof (cases rule: after_broadcast_cases)
    case 1
    then have "taken_in (wk_nonce w) (N, []) = Some a'" using st(2) t(1) by (simp add: chain_reaction_def)
    then show ?thesis using 1 assms(3) by (auto split: if_splits)
  qed (use st(2) a' assms(3) up in \<open>auto simp: chain_reaction_def\<close>)
next
  assume "worker_step B k w = Some (None, w')" "a' = (N, [])"
  moreover from this have "wk_nonce w' = wk_nonce w"
    by (auto simp: worker_step_def Let_def split: if_splits option.splits plan.splits sum.splits)
  ultimately show ?thesis using assms(3) by simp
qed

theorem worker_never_ahead:
  assumes "run (bot_step B) (w, N, []) ks (w', a')" and "regular B" and "wk_nonce w \<le> N"
    and "unat N + length ks < 2 ^ 64"
  shows "wk_nonce w' \<le> fst a' \<and> snd a' = []"
  using assms
proof (induction "(w, N, [] :: u64 list)" ks "(w', a')" arbitrary: w N rule: run.induct)
  case (run_cons k m ks)
  obtain v a where m: "m = (v, a)" by (cases m)
  have "unat N + 1 < 2 ^ 64" using run_cons.prems(3) by simp
  then have "N \<noteq> - 1" by (auto simp: unsigned_minus_1_eq_mask mask_eq_exp_minus_1)
  then obtain M where M: "a = (M, [])" "wk_nonce v \<le> M" "M = N \<or> M = N + 1"
    using bot_step_not_ahead run_cons.hyps(1) run_cons.prems(1,2) unfolding m by blast
  have "unat M \<le> unat N + 1"
    using M(3) by (auto simp: unat_word_ariths intro: order.trans [OF mod_less_eq_dividend])
  then show ?case using run_cons m M(1,2) by simp
qed auto

text \<open>
  The mode whose attack was disabled repeats itself: its nonce is never advanced, so on an account
  with nothing held it gets at most one transaction through, however long it runs.
\<close>

theorem bls_mode_stuck:
  assumes "run (bot_step B) (w, N, []) ks (w', N', H')" and "bot_mode B = BlsDesync"
  shows "wk_nonce w' = wk_nonce w \<and> (N' = N \<or> wk_nonce w = N \<and> N' = N + 1)"
proof -
  define P where "P n s \<longleftrightarrow> wk_nonce (fst s) = n \<and> (fst (snd s) = N \<and> (N = n \<longrightarrow> snd (snd s) = []) \<or>
    N = n \<and> fst (snd s) = N + 1)" for n and s :: "worker \<times> account_pool"
  have ne: "N + 1 \<noteq> N" by simp
  have step: "P n t" if "bot_step B s k t" and "P n s" for n s k t
    using that
  proof (induction rule: bot_step.induct)
    case (sends k w t w' a a')
    have t: "tx_nonce t = wk_nonce w" "wk_nonce w' = wk_nonce w"
      using sends(1) assms(2)
      by (auto simp: worker_step_def Let_def worker_tx_nonce sent_nonce_def split: plan.splits option.splits)
    obtain M H where a: "a = (M, H)" by (cases a)
    show ?case
      using sends(2,3) t ne by (auto simp: P_def a chain_reaction_def split: if_splits)
  next
    case (idles k w w' a)
    then show ?case
      using assms(2) by (auto simp: P_def worker_step_def Let_def split: plan.splits option.splits sum.splits)
  qed
  have "P n s \<Longrightarrow> P n s'" if "run (bot_step B) s ks s'" for n s ks s'
    using that by (induction rule: run.induct) (auto intro: step)
  from this [OF assms(1), of "wk_nonce w"] show ?thesis by (auto simp: P_def)
qed

text \<open>The funding of the wallets: one transfer each, in order, at consecutive nonces.\<close>

theorem fund_hydra_consecutive:
  "map tx_nonce (fund_hydra L chain p n ws) = map (\<lambda>i. n + of_nat i) [0 ..< length ws] \<and>
   map tx_receiver (fund_hydra L chain p n ws) = map bech32_address ws"
proof (induction ws arbitrary: n)
  case (Cons w ws)
  have "map (\<lambda>i. n + of_nat i) [0 ..< length (w # ws)] = n # map (\<lambda>i. n + 1 + of_nat i) [0 ..< length ws]"
    by (simp add: upt_conv_Cons map_Suc_upt [symmetric] algebra_simps del: upt_Suc)
  then show ?case using Cons [of "n + 1"] by (simp add: sign_def transaction_new_def Let_def del: upt_Suc)
qed simp

end
