(* ===== verification/Bot_Arbitrage.thy ===== *)
theory Bot_Arbitrage
  imports Keeper_Bot Hft_Vault
begin

text \<open>
  The keeper's arbitrage mode together with the vault contract it calls: the text the bot
  builds from an opportunity is read the way the virtual machine reads call data (a function
  name and hexadecimal arguments, separated by \<open>@\<close>) and run by the vault.
\<close>

section \<open>Call data\<close>

definition hex_value :: "char \<Rightarrow> nat option" where
  "hex_value c = (let k = of_char c :: nat in
     if 48 \<le> k \<and> k \<le> 57 then Some (k - 48)
     else if 97 \<le> k \<and> k \<le> 102 then Some (k - 87)
     else if 65 \<le> k \<and> k \<le> 70 then Some (k - 55) else None)"

fun unhex :: "string \<Rightarrow> bytes option" where
  "unhex [] = Some []"
| "unhex [c] = None"
| "unhex (a # b # rest) = (case (hex_value a, hex_value b, unhex rest) of
     (Some x, Some y, Some bs) \<Rightarrow> Some (char_of (16 * x + y) # bs)
   | _ \<Rightarrow> None)"

fun unhex_all :: "string list \<Rightarrow> bytes list option" where
  "unhex_all [] = Some []"
| "unhex_all (p # ps) = (case (unhex p, unhex_all ps) of (Some b, Some bs) \<Rightarrow> Some (b # bs) | _ \<Rightarrow> None)"

text \<open>The vault called with a data field: numbers and addresses are big-endian.\<close>

definition vault_entry :: "(address \<Rightarrow> pool) \<Rightarrow> ctx \<Rightarrow> bytes \<Rightarrow> hft_vault \<Rightarrow> hft_vault res" where
  "vault_entry pools c data s = (case split_at (CHR ''@'') data of
     f # parts \<Rightarrow>
       (case unhex_all parts of
          Some [tin, x, pa, tmid, pb, mmid, mfin, fb] \<Rightarrow>
            if f = ''executeFlashArbitrage''
            then execute_flash_arbitrage pools c tin (from_bytes_be x) (word32 pa) tmid (word32 pb)
                   (from_bytes_be mmid) (from_bytes_be mfin) fb s
            else Inl (UserError ''invalid function (not found)'')
        | _ \<Rightarrow> Inl (UserError ''wrong number of arguments''))
   | [] \<Rightarrow> Inl (UserError ''invalid function (not found)''))"

text \<open>What the hexadecimal libraries of the keeper promise.\<close>

definition hex_laws :: "tx_lib \<Rightarrow> wallet_lib \<Rightarrow> bool" where
  "hex_laws L W \<longleftrightarrow> (\<forall>bs. unhex (tx_hex_encode L bs) = Some bs) \<and> (\<forall>bs. unhex (hex_of W bs) = Some bs)"

section \<open>Reading back what the bot wrote\<close>

lemma unhex_no_at: "unhex p = Some bs \<Longrightarrow> CHR ''@'' \<notin> set p"
  by (induction p arbitrary: bs rule: unhex.induct)
    (auto simp: hex_value_def split: option.splits prod.splits if_splits)

lemma split_join:
  "ps \<noteq> [] \<Longrightarrow> \<forall>p \<in> set ps. c \<notin> set p \<Longrightarrow> split_at c (join [c] ps) = ps"
proof (induction ps rule: list_nonempty_induct)
  case (cons p ps)
  then show ?case by (cases ps) (auto simp: split_at_append)
qed (simp add: split_at_none)

lemma unhex_zeros: "unhex ''0000000000000000000000000000000000000000000000000000000000000000'' = Some (replicate 32 (char_of (0 :: nat)))"
  by code_simp

lemma unhex_bech32:
  assumes "hex_laws L W"
  shows "\<exists>bs. unhex (bech32_to_hex W a) = Some bs"
proof (cases "bech32_decode W a")
  case (Some bs)
  then show ?thesis using assms unhex_zeros by (cases "bs = []") (auto simp: bech32_to_hex_def hex_laws_def)
qed (use unhex_zeros in \<open>auto simp: bech32_to_hex_def\<close>)

lemma arbitrage_numbers:
  "\<exists>x. unhex ''6124fee993bc0000'' = Some x \<and> from_bytes_be x = 7000000000000000000"
  "\<exists>x. unhex ''616c0cce733e0000'' = Some x \<and> from_bytes_be x = 7020000000000000000"
  "\<exists>x. unhex ''01'' = Some x \<and> from_bytes_be x = 1"
  by (simp_all add: hex_value_def from_bytes_be_def)

lemma vault_entry_arbitrage:
  assumes "hex_laws L W"
  shows "\<exists>pa pb. vault_entry pools c (arbitrage_data L W dex mid pool_b fb) s =
     execute_flash_arbitrage pools c ''WEGLD-bd4d79'' 7000000000000000000 pa mid pb 1 7020000000000000000 fb s"
proof -
  obtain x where x: "unhex ''6124fee993bc0000'' = Some x" "from_bytes_be x = 7000000000000000000"
    using arbitrage_numbers(1) by blast
  obtain y where y: "unhex ''616c0cce733e0000'' = Some y" "from_bytes_be y = 7020000000000000000"
    using arbitrage_numbers(2) by blast
  obtain m where m: "unhex ''01'' = Some m" "from_bytes_be m = 1"
    using arbitrage_numbers(3) by blast
  obtain pa where pa: "unhex (bech32_to_hex W dex) = Some pa" using unhex_bech32 [OF assms] by blast
  obtain pb where pb: "unhex (bech32_to_hex W pool_b) = Some pb" using unhex_bech32 [OF assms] by blast
  have h: "unhex (tx_hex_encode L bs) = Some bs" for bs using assms by (simp add: hex_laws_def)
  let ?args = "[tx_hex_encode L ''WEGLD-bd4d79'', ''6124fee993bc0000'', bech32_to_hex W dex,
    tx_hex_encode L mid, bech32_to_hex W pool_b, ''01'', ''616c0cce733e0000'', tx_hex_encode L fb]"
  have "\<forall>p \<in> set ?args. CHR ''@'' \<notin> set p"
    using unhex_no_at [OF h] unhex_no_at [OF x(1)] unhex_no_at [OF y(1)] unhex_no_at [OF m(1)]
      unhex_no_at [OF pa] unhex_no_at [OF pb] by simp
  then have "split_at (CHR ''@'') (arbitrage_data L W dex mid pool_b fb) = ''executeFlashArbitrage'' # ?args"
    unfolding arbitrage_data_def by (intro split_join) auto
  moreover have "unhex_all ?args = Some [''WEGLD-bd4d79'', x, pa, mid, pb, m, y, fb]"
    by (simp only: unhex_all.simps h x(1) y(1) m(1) pa pb prod.case option.case)
  ultimately show ?thesis
    by (intro exI [of _ "word32 pa"] exI [of _ "word32 pb"]) (simp add: vault_entry_def x y m)
qed

text \<open>
  C27. The bot's arbitrage earns what it promises. Whatever opportunity the observers report,
  the transaction the bot sends goes to the vault, and if the vault runs it without error, for
  pools that may do anything, the vault ends with at least 0.02 WEGLD more than it had; it ran
  because the sender is the bot or the owner and the vault was not paused. An opportunity on a
  pool that is not in the registry sends nothing.
\<close>

theorem bot_arbitrage_profit:
  assumes "arbitrage_request L W opp = PlanSend (payload, gas, receiver, v)" and "hex_laws L W"
  shows "receiver = arbitrage_vault \<and> v = ''0'' \<and>
     (\<exists>o' data. opp = Some o' \<and> ao_target_dex o' \<in> dom pool_registry \<and> payload = Some data \<and>
        (\<forall>pools c s t. vault_entry pools c data s = Inr t \<longrightarrow>
           (caller c = authorized_bot s \<or> caller c = owner_address c) \<and> \<not> hv_is_paused s \<and>
           esdt_balance s ''WEGLD-bd4d79'' 0 + 20000000000000000 \<le> esdt_balance t ''WEGLD-bd4d79'' 0))"
proof -
  obtain o' mid pool_b fb where op: "opp = Some o'" "pool_registry (ao_target_dex o') = Some (mid, pool_b, fb)"
    "payload = Some (arbitrage_data L W (ao_target_dex o') mid pool_b fb)" "receiver = arbitrage_vault" "v = ''0''"
    using assms(1) by (auto simp: arbitrage_request_def split: option.splits)
  have "(caller c = authorized_bot s \<or> caller c = owner_address c) \<and> \<not> hv_is_paused s \<and>
      esdt_balance s ''WEGLD-bd4d79'' 0 + 20000000000000000 \<le> esdt_balance t ''WEGLD-bd4d79'' 0"
    if "vault_entry pools c (arbitrage_data L W (ao_target_dex o') mid pool_b fb) s = Inr t" for pools c s t
  proof -
    obtain pa pb where "vault_entry pools c (arbitrage_data L W (ao_target_dex o') mid pool_b fb) s =
      execute_flash_arbitrage pools c ''WEGLD-bd4d79'' 7000000000000000000 pa mid pb 1 7020000000000000000 fb s"
      using vault_entry_arbitrage [OF assms(2)] by blast
    with that have "execute_flash_arbitrage pools c ''WEGLD-bd4d79'' 7000000000000000000 pa mid pb 1
        7020000000000000000 fb s = Inr t" by (simp only:)
    then show ?thesis
    proof (cases rule: arbitrage_Inr)
      case 1
      have "esdt_balance s ''WEGLD-bd4d79'' 0 + 20000000000000000 \<le> esdt_balance t ''WEGLD-bd4d79'' 0"
        using 1(3,8) by linarith
      with 1(1,2) show ?thesis by blast
    qed
  qed
  then show ?thesis using op by auto
qed

text \<open>An opportunity on the MEX pool, with a pool that buys back for 0.03 WEGLD more than it took.\<close>

lemma hex_value_digit: "d < 16 \<Longrightarrow> hex_value (hex_digit d) = Some d"
  by (auto simp: hex_value_def hex_digit_def Let_def)

lemma unhex_hex_text: "unhex (hex_text bs) = Some bs"
proof (induction bs)
  case (Cons c bs)
  have "of_char c div 16 < (16 :: nat)" by (rule less_mult_imp_div_less) simp
  then have d: "hex_value (hex_digit (of_char c div 16)) = Some (of_char c div 16)"
    "hex_value (hex_digit (of_char c mod 16)) = Some (of_char c mod 16)" by (simp_all add: hex_value_digit)
  have "hex_fixed 2 (of_char c) = [hex_digit (of_char c div 16), hex_digit (of_char c mod 16)]"
    using \<open>of_char c div 16 < 16\<close> by (simp add: numeral_2_eq_2)
  then show ?case using Cons d by simp
qed simp

definition demo_txs :: tx_lib where
  "demo_txs = \<lparr>b64_encode = id, tx_hex_encode = hex_text, ed_sign = (\<lambda>_ _. [])\<rparr>"

definition demo_opp :: arbitrage_opportunity where
  "demo_opp = \<lparr>ao_victim_hash = ''h'', ao_gas_price = 1000000000, ao_target_dex = mex_pair, ao_amount_in_hex = []\<rparr>"

definition mex_pool :: "address \<Rightarrow> pool" where
  "mex_pool a f as p s = (let back = (if token_identifier p = ''MEX-455c57''
       then [\<lparr>token_identifier = ''WEGLD-bd4d79'', token_nonce = 0, amount = amount p + 30000000000000000\<rparr>]
       else [\<lparr>token_identifier = ''MEX-455c57'', token_nonce = 0, amount = amount p\<rparr>])
     in Inr (back, s\<lparr>esdt_balance := credit_esdt back (esdt_balance s)\<rparr>))"

definition demo_arb_vault :: hft_vault where
  "demo_arb_vault = (hv_init 5)\<lparr>esdt_balance := (\<lambda>_ _. 0)(''WEGLD-bd4d79'' := (\<lambda>_. 0)(0 := 9000000000000000000))\<rparr>"

lemma demo_mex_routed: "pool_registry mex_pair = Some (''MEX-455c57'', mex_pair, ''swapTokensFixedInput'')"
  by (simp add: pool_registry_def)

lemma demo_hex_laws: "hex_laws demo_txs (demo_wallet_lib\<lparr>hex_of := hex_text\<rparr>)"
  by (simp add: hex_laws_def demo_txs_def unhex_hex_text)

lemma demo_arbitrage_runs:
  "\<exists>t. vault_entry mex_pool (call_ctx 5 0 []) (arbitrage_data demo_txs (demo_wallet_lib\<lparr>hex_of := hex_text\<rparr>)
     mex_pair ''MEX-455c57'' mex_pair ''swapTokensFixedInput'') demo_arb_vault = Inr t"
proof -
  have "\<exists>t. execute_flash_arbitrage mex_pool (call_ctx 5 0 []) ''WEGLD-bd4d79'' 7000000000000000000 pa ''MEX-455c57''
      pb 1 7020000000000000000 ''swapTokensFixedInput'' demo_arb_vault = Inr t" for pa pb
    by (simp add: execute_flash_arbitrage_def not_payable_def demo_arb_vault_def hv_init_def pool_call_def
        mex_pool_def debit_def big_sub_def)
  then show ?thesis using vault_entry_arbitrage [OF demo_hex_laws] by metis
qed

theorem bot_arbitrage_profit_witness:
  "\<exists>data gas t. arbitrage_request demo_txs (demo_wallet_lib\<lparr>hex_of := hex_text\<rparr>) (Some demo_opp) =
       PlanSend (Some data, gas, arbitrage_vault, ''0'') \<and>
     vault_entry mex_pool (call_ctx 5 0 []) data demo_arb_vault = Inr t \<and>
     9020000000000000000 \<le> esdt_balance t ''WEGLD-bd4d79'' 0"
proof -
  let ?W = "demo_wallet_lib\<lparr>hex_of := hex_text\<rparr>"
  let ?data = "arbitrage_data demo_txs ?W mex_pair ''MEX-455c57'' mex_pair ''swapTokensFixedInput''"
  obtain t where t: "vault_entry mex_pool (call_ctx 5 0 []) ?data demo_arb_vault = Inr t"
    using demo_arbitrage_runs by blast
  have rq: "arbitrage_request demo_txs ?W (Some demo_opp) = PlanSend (Some ?data, 20000000, arbitrage_vault, ''0'')"
    by (simp add: arbitrage_request_def demo_opp_def demo_mex_routed)
  have "esdt_balance demo_arb_vault ''WEGLD-bd4d79'' 0 + 20000000000000000 \<le> esdt_balance t ''WEGLD-bd4d79'' 0"
    using bot_arbitrage_profit [OF rq demo_hex_laws] t by blast
  moreover have "esdt_balance demo_arb_vault ''WEGLD-bd4d79'' 0 = 9000000000000000000" by (simp add: demo_arb_vault_def)
  ultimately show ?thesis
    using rq t by (intro exI [of _ ?data] exI [of _ 20000000] exI [of _ t]) simp
qed

end
