(* ===== verification/Keeper_Funding.thy ===== *)
theory Keeper_Funding
  imports Keeper_Transactions
begin

text \<open>
  The drip funder of the keeper program (xcron-keeper-rs/src/drip_funder.rs): the daily cap, the
  activation of stealth addresses and the sweep of what is left on them. The answers of the
  gateway and the clock are arguments. The release build wraps around on overflow.
\<close>

section \<open>State\<close>

record drip_funder =
  activation_amount :: string
  min_threshold :: u128
  max_daily_drip_cap :: u128
  daily_accumulator :: u128
  last_reset_timestamp :: u64

text \<open>The threshold is given in wei, as the constructor computes it from its float argument.\<close>

definition drip_funder_new :: "string \<Rightarrow> u128 \<Rightarrow> drip_funder" where
  "drip_funder_new amount threshold = \<lparr>activation_amount = amount, min_threshold = threshold,
     max_daily_drip_cap = 10000000000000000000, daily_accumulator = 0, last_reset_timestamp = 0\<rparr>"

text \<open>Errors: the cap with the three numbers of the message, and what the gateway reports.\<close>

datatype drip_error = DailyLimitExceeded u128 u128 u128 | GatewayError string | NothingToSweep

section \<open>The daily cap\<close>

text \<open>A new window is kept also when the drip is then rejected.\<close>

definition roll_window :: "u64 \<Rightarrow> drip_funder \<Rightarrow> drip_funder" where
  "roll_window now f =
     (if last_reset_timestamp f = 0 \<or> last_reset_timestamp f + 86400 \<le> now
      then f\<lparr>daily_accumulator := 0, last_reset_timestamp := now\<rparr> else f)"

definition check_and_increment_drip :: "u64 \<Rightarrow> u128 \<Rightarrow> drip_funder \<Rightarrow> (drip_error + unit) \<times> drip_funder" where
  "check_and_increment_drip now amount f =
     (let f = roll_window now f in
      if max_daily_drip_cap f < daily_accumulator f + amount
      then (Inl (DailyLimitExceeded (max_daily_drip_cap f) (daily_accumulator f) amount), f)
      else (Inr (), f\<lparr>daily_accumulator := daily_accumulator f + amount\<rparr>))"

section \<open>Activation\<close>

text \<open>
  The answer for an account: the request failed, the account (its balance and nonce, when the
  body can be read), no such account, or another status.
\<close>

datatype account_reply = ApiDown | ApiOk "(string \<times> u64) option" | ApiNotFound | ApiOther

definition stealth_is_fresh :: "drip_funder \<Rightarrow> account_reply \<Rightarrow> bool" where
  "stealth_is_fresh f reply = (case reply of
     ApiOk (Some (bal, nonce)) \<Rightarrow> parse_or_zero bal < min_threshold f \<and> nonce = 0
   | ApiOk None \<Rightarrow> False
   | ApiNotFound \<Rightarrow> True
   | ApiOther \<Rightarrow> False
   | ApiDown \<Rightarrow> True)"

definition funding_tx :: "tx_lib \<Rightarrow> drip_funder \<Rightarrow> keeper_wallet \<Rightarrow> string \<Rightarrow> u64 \<Rightarrow> transaction" where
  "funding_tx L f wallet stealth nonce =
     sign L (signing_key wallet)
       (transaction_new L nonce (activation_amount f) stealth (bech32_address wallet) 1000000000 50000 None ''T'' 1)"

definition revert_drip :: "u128 \<Rightarrow> drip_funder \<Rightarrow> drip_funder" where
  "revert_drip amount f =
     (if amount \<le> daily_accumulator f then f\<lparr>daily_accumulator := daily_accumulator f - amount\<rparr> else f)"

text \<open>
  The result, the new state, and the transaction that was posted to the gateway, if any: it has
  been posted also when the gateway's answer is an error.
\<close>

definition ensure_stealth_activated ::
  "tx_lib \<Rightarrow> u64 \<Rightarrow> account_reply \<Rightarrow> (string + u64) \<Rightarrow> (string + string) \<Rightarrow> string \<Rightarrow> keeper_wallet \<Rightarrow> drip_funder
    \<Rightarrow> (drip_error + bool) \<times> drip_funder \<times> transaction option" where
  "ensure_stealth_activated L now account nonce_reply broadcast stealth wallet f =
     (if \<not> stealth_is_fresh f account then (Inr False, f, None)
      else
        let drip_amt = parse_or_zero (activation_amount f) in
        (case check_and_increment_drip now drip_amt f of
           (Inl e, f) \<Rightarrow> (Inl e, f, None)
         | (Inr _, f) \<Rightarrow>
             (case nonce_reply of
                Inl e \<Rightarrow> (Inl (GatewayError e), f, None)
              | Inr nonce \<Rightarrow>
                  let t = funding_tx L f wallet stealth nonce in
                  (case broadcast of
                     Inr tx_hash \<Rightarrow> (Inr True, f, Some t)
                   | Inl e \<Rightarrow> (Inl (GatewayError e), revert_drip drip_amt f, Some t)))))"

section \<open>Sweep\<close>

text \<open>The whole balance goes back, with the drip wallet as relayer.\<close>

definition sweep_tx :: "tx_lib \<Rightarrow> keeper_wallet \<Rightarrow> keeper_wallet \<Rightarrow> u128 \<Rightarrow> u64 \<Rightarrow> transaction" where
  "sweep_tx L stealth_wallet drip_wallet bal nonce =
     (let t = transaction_new L nonce (dec (unat bal)) (bech32_address drip_wallet)
                (bech32_address stealth_wallet) 1000000000 1000000 None ''T'' 2;
          t = t\<lparr>tx_relayer := Some (bech32_address drip_wallet)\<rparr>;
          t = sign L (signing_key stealth_wallet) t
      in to_relayed_v3 L (bech32_address drip_wallet) (signing_key drip_wallet) t)"

definition sweep_residual ::
  "tx_lib \<Rightarrow> keeper_wallet \<Rightarrow> keeper_wallet \<Rightarrow> (string + string) \<Rightarrow> (string + u64)
    \<Rightarrow> (transaction \<Rightarrow> string + string) \<Rightarrow> drip_error + string" where
  "sweep_residual L stealth_wallet drip_wallet balance_reply nonce_reply broadcast =
     (case balance_reply of
        Inl e \<Rightarrow> Inl (GatewayError e)
      | Inr body \<Rightarrow>
          let stealth_balance = parse_or_zero body in
          if stealth_balance = 0 then Inl NothingToSweep
          else case nonce_reply of
            Inl e \<Rightarrow> Inl (GatewayError e)
          | Inr nonce \<Rightarrow>
              (case broadcast (sweep_tx L stealth_wallet drip_wallet stealth_balance nonce) of
                 Inl e \<Rightarrow> Inl (GatewayError e)
               | Inr tx_hash \<Rightarrow> Inr tx_hash))"

section \<open>What one call does\<close>

abbreviation drip_amt :: "drip_funder \<Rightarrow> u128" where
  "drip_amt f \<equiv> parse_or_zero (activation_amount f)"

text \<open>The amount fits beside the cap in 128 bits, and the clock is far from the end of its range.\<close>

definition sane :: "drip_funder \<Rightarrow> bool" where
  "sane f \<longleftrightarrow> unat (max_daily_drip_cap f) + unat (drip_amt f) < 2 ^ 128 \<and>
     unat (last_reset_timestamp f) < 2 ^ 63 \<and> daily_accumulator f \<le> max_daily_drip_cap f"

definition window_open :: "u64 \<Rightarrow> drip_funder \<Rightarrow> bool" where
  "window_open now f \<longleftrightarrow> last_reset_timestamp f \<noteq> 0 \<and> unat now < unat (last_reset_timestamp f) + 86400"

lemma roll_window_open: "sane f \<Longrightarrow> roll_window now f =
   (if window_open now f then f else f\<lparr>daily_accumulator := 0, last_reset_timestamp := now\<rparr>)"
proof -
  assume "sane f"
  then have "unat (last_reset_timestamp f + 86400) = unat (last_reset_timestamp f) + 86400"
    by (subst unat_add_lem [THEN iffD1]) (simp_all add: sane_def)
  then show ?thesis by (simp add: roll_window_def window_open_def word_le_nat_alt not_less)
qed

lemma sum_no_wrap:
  "unat a + unat b < 2 ^ 128 \<Longrightarrow> unat (a + b :: u128) = unat a + unat b"
  by (subst unat_add_lem [THEN iffD1]) simp_all

lemma check_effect:
  assumes "check_and_increment_drip now amount f = (r, g)" and "daily_accumulator (roll_window now f) \<le> max_daily_drip_cap f"
    and "unat (max_daily_drip_cap f) + unat amount < 2 ^ 128"
  shows "(r = Inr () \<and> g = (roll_window now f)\<lparr>daily_accumulator := daily_accumulator (roll_window now f) + amount\<rparr> \<and>
      unat (daily_accumulator g) = unat (daily_accumulator (roll_window now f)) + unat amount \<and>
      daily_accumulator g \<le> max_daily_drip_cap f) \<or>
    (r \<noteq> Inr () \<and> g = roll_window now f)"
proof -
  have cap: "max_daily_drip_cap (roll_window now f) = max_daily_drip_cap f" by (simp add: roll_window_def)
  have "unat (daily_accumulator (roll_window now f) + amount) = unat (daily_accumulator (roll_window now f)) + unat amount"
    using assms(2,3) by (intro sum_no_wrap) (simp add: word_le_nat_alt)
  then show ?thesis
    using assms(1) cap by (auto simp: check_and_increment_drip_def Let_def split: if_splits)
qed

text \<open>What a call sent with the acknowledgement of the gateway.\<close>

definition acknowledged :: "drip_funder \<Rightarrow> drip_error + bool \<Rightarrow> nat" where
  "acknowledged f r = (if r = Inr True then unat (drip_amt f) else 0)"

text \<open>A call stays in the window, or opens a new one when the old one is over.\<close>

lemma call_effect:
  assumes "ensure_stealth_activated L now account nonce_reply broadcast stealth wallet f = (r, g, sent)"
    and "sane f" and "unat now < 2 ^ 63"
  shows "sane g \<and> max_daily_drip_cap g = max_daily_drip_cap f \<and> activation_amount g = activation_amount f \<and>
    (last_reset_timestamp g = last_reset_timestamp f \<and>
       unat (daily_accumulator f) + acknowledged f r \<le> unat (daily_accumulator g) \<or>
     \<not> window_open now f \<and> last_reset_timestamp g = now \<and> acknowledged f r \<le> unat (daily_accumulator g))"
proof (cases "stealth_is_fresh f account")
  case False
  with assms show ?thesis by (auto simp: ensure_stealth_activated_def acknowledged_def)
next
  case True
  define h where "h = roll_window now f"
  have h: "sane h" "max_daily_drip_cap h = max_daily_drip_cap f" "activation_amount h = activation_amount f"
    "last_reset_timestamp h = last_reset_timestamp f \<and> daily_accumulator h = daily_accumulator f \<or>
     \<not> window_open now f \<and> last_reset_timestamp h = now"
    using assms(2,3) by (auto simp: h_def roll_window_open sane_def)
  obtain c k where ck: "check_and_increment_drip now (drip_amt f) f = (c, k)" by fastforce
  from h(1,2) have "daily_accumulator (roll_window now f) \<le> max_daily_drip_cap f"
    "unat (max_daily_drip_cap f) + unat (drip_amt f) < 2 ^ 128"
    using assms(2) by (simp_all add: sane_def flip: h_def)
  from check_effect [OF ck this] consider
      (no) "c \<noteq> Inr ()" "k = h"
    | (yes) "c = Inr ()" "k = h\<lparr>daily_accumulator := daily_accumulator h + drip_amt f\<rparr>"
        "unat (daily_accumulator k) = unat (daily_accumulator h) + unat (drip_amt f)"
        "daily_accumulator k \<le> max_daily_drip_cap f"
    unfolding h_def by blast
  then show ?thesis
  proof cases
    case no
    then obtain e where "c = Inl e" by (cases c) auto
    with no True ck assms(1) have "g = h" "r \<noteq> Inr True" by (auto simp: ensure_stealth_activated_def Let_def)
    with h show ?thesis by (auto simp: acknowledged_def)
  next
    case yes
    have k: "sane k" using h(1-3) yes(2,4) by (simp add: sane_def)
    have undone: "revert_drip (drip_amt f) k = h"
      using yes(2,3) by (auto simp: revert_drip_def word_le_nat_alt)
    from yes(1) True ck assms(1) have "(g = k \<and> acknowledged f r \<le> unat (drip_amt f)) \<or> (g = h \<and> r \<noteq> Inr True)"
      by (auto simp: ensure_stealth_activated_def Let_def undone acknowledged_def split: sum.splits)
    then show ?thesis using h k yes(2,3) by (auto simp: acknowledged_def)
  qed
qed

section \<open>The cap over a day\<close>

text \<open>A sequence of calls, one after the other, and the total of what they sent with an acknowledgement.\<close>

type_synonym drip_call = "u64 \<times> account_reply \<times> (string + u64) \<times> (string + string) \<times> string"

fun drips_acknowledged :: "tx_lib \<Rightarrow> keeper_wallet \<Rightarrow> drip_call list \<Rightarrow> drip_funder \<Rightarrow> nat" where
  "drips_acknowledged L wallet [] f = 0"
| "drips_acknowledged L wallet ((now, account, nonce_reply, broadcast, stealth) # calls) f =
     (case ensure_stealth_activated L now account nonce_reply broadcast stealth wallet f of
        (r, g, sent) \<Rightarrow> acknowledged f r + drips_acknowledged L wallet calls g)"

lemma drips_within_window:
  assumes "sane f" and "\<forall>c \<in> set calls. window_open (fst c) f \<and> unat (fst c) < 2 ^ 63"
  shows "unat (daily_accumulator f) + drips_acknowledged L wallet calls f \<le> unat (max_daily_drip_cap f)"
  using assms
proof (induction calls arbitrary: f)
  case Nil
  then show ?case by (simp add: sane_def word_le_nat_alt)
next
  case (Cons c calls)
  obtain now account nr br st where c: "c = (now, account, nr, br, st)" by (cases c)
  obtain r g sent where g: "ensure_stealth_activated L now account nr br st wallet f = (r, g, sent)"
    by (cases "ensure_stealth_activated L now account nr br st wallet f")
  have eff: "sane g" "max_daily_drip_cap g = max_daily_drip_cap f" "last_reset_timestamp g = last_reset_timestamp f"
    "unat (daily_accumulator f) + acknowledged f r \<le> unat (daily_accumulator g)"
    using call_effect [OF g Cons.prems(1)] Cons.prems(2) c by auto
  have "unat (daily_accumulator g) + drips_acknowledged L wallet calls g \<le> unat (max_daily_drip_cap g)"
    using Cons.IH [OF eff(1)] Cons.prems(2) eff(3) by (simp add: window_open_def)
  with eff(2,4) show ?case by (simp add: c g)
qed


definition demo_funder :: drip_funder where
  "demo_funder = (drip_funder_new ''10'' 1)\<lparr>max_daily_drip_cap := 10, last_reset_timestamp := 100\<rparr>"

definition demo_drips :: "drip_call list" where
  "demo_drips = [(86499, ApiNotFound, Inr 0, Inr ''h1'', ''erd1a''), (86500, ApiNotFound, Inr 1, Inr ''h2'', ''erd1b'')]"

lemma demo_amount: "parse_u128 ''10'' = Some 10"
  by (simp add: parse_u128_def dec_value_def)


section \<open>Limits\<close>

text \<open>
  A drip that was approved but not sent keeps its share of the cap when the nonce cannot be
  fetched: only a failed broadcast gives it back.
\<close>

theorem nonce_failure_keeps_share:
  assumes "stealth_is_fresh f account" and "check_and_increment_drip now (drip_amt f) f = (Inr (), g)"
  shows "ensure_stealth_activated L now account (Inl e) broadcast stealth wallet f = (Inl (GatewayError e), g, None)"
  using assms by (simp add: ensure_stealth_activated_def Let_def)

text \<open>
  Errors of the gateway are not counted. A drip that is posted within the window and answered with
  an error leaves the funder as it was, so nothing bounds how often it is posted again, although
  the network may have taken each of them.
\<close>

theorem unacknowledged_drip_is_free:
  assumes "sane f" and "window_open now f" and "stealth_is_fresh f account"
    and "unat (daily_accumulator f) + unat (drip_amt f) \<le> unat (max_daily_drip_cap f)"
  shows "\<exists>t. ensure_stealth_activated L now account (Inr n) (Inl e) stealth wallet f =
     (Inl (GatewayError e), f, Some t)"
proof -
  have "unat (daily_accumulator f + drip_amt f) = unat (daily_accumulator f) + unat (drip_amt f)"
    using assms(1,4) by (intro sum_no_wrap) (simp add: sane_def)
  then show ?thesis
    using assms(2-4) roll_window_open [OF assms(1), of now]
    by (simp add: ensure_stealth_activated_def check_and_increment_drip_def revert_drip_def Let_def
      word_le_nat_alt word_less_nat_alt not_less)
qed

text \<open>
  Calls that overlap break the cap. The accumulator is not tied to its window, so a broadcast
  that fails after the window was rolled takes its amount from the new one: an old drip \<open>b\<close> is
  approved, the window ends, the new one is used up to the cap \<open>a\<close>, the old broadcast fails, and
  \<open>b\<close> is approved once more, all but the first within the new window.
\<close>

theorem late_revert_exceeds_cap:
  assumes "0 < unat b" and "unat b \<le> unat a" and "max_daily_drip_cap f = a" and "daily_accumulator f = 0"
    and "last_reset_timestamp f = 100" and "unat a + unat b < 2 ^ 128"
  shows "\<exists>f1 f2 f4. check_and_increment_drip 200 b f = (Inr (), f1) \<and>
     check_and_increment_drip 86500 a f1 = (Inr (), f2) \<and>
     check_and_increment_drip 86501 b (revert_drip b f2) = (Inr (), f4) \<and>
     last_reset_timestamp f2 = 86500 \<and> last_reset_timestamp f4 = 86500 \<and>
     unat (max_daily_drip_cap f) < unat a + unat b"
  using assms
  by (simp add: check_and_increment_drip_def roll_window_def revert_drip_def Let_def word_le_nat_alt word_less_nat_alt)

end
