(* ===== verification/Keeper_Sessions.thy ===== *)
theory Keeper_Sessions
  imports Keeper_Funding "HOL-Library.AList"
begin

text \<open>
  The privacy sessions of the keeper program (xcron-keeper-rs/src/session_db.rs): admission under
  a global and a personal limit, completion, failed sweeps and the retry queue, and the order in
  which the operations take the two locks. The hash map is an association list, whose order no
  operation depends on; the clock and the answers of the gateway are arguments. A pass over the
  retry queue keeps the lock of the queue but takes that of the sessions anew for each entry; it
  is modelled whole and, in the histories, also by its pieces, between which other tasks may act.
\<close>

section \<open>State\<close>

datatype session_status = Dripped | Swept | FailedSweep

record privacy_session =
  s_stealth_address :: string
  s_user_address :: string
  s_amount_dripped :: u128
  s_status :: session_status
  s_retry_count :: u32
  s_created_at :: u64

record session_manager =
  sessions :: "(string \<times> privacy_session) list"
  global_float_limit :: u128
  max_active_drips_per_user :: usize
  retry_queue :: "string list"
  max_retry_limit :: u32

definition session_manager_new :: "u128 \<Rightarrow> usize \<Rightarrow> session_manager" where
  "session_manager_new limit per_user = \<lparr>sessions = [], global_float_limit = limit,
     max_active_drips_per_user = per_user, retry_queue = [], max_retry_limit = 5\<rparr>"

section \<open>Operations\<close>

definition outstanding :: "privacy_session \<Rightarrow> bool" where
  "outstanding s \<longleftrightarrow> s_status s = Dripped \<or> s_status s = FailedSweep"

definition current_outstanding :: "session_manager \<Rightarrow> u128" where
  "current_outstanding m =
     sum_list (map s_amount_dripped (filter outstanding (map snd (sessions m))))"

definition active_user_sessions :: "session_manager \<Rightarrow> string \<Rightarrow> nat" where
  "active_user_sessions m user =
     length (filter (\<lambda>s. s_user_address s = user \<and> outstanding s) (map snd (sessions m)))"

datatype session_error = FloatLimitReached u128 u128 u128 | UserLimitReached nat | SessionNotFound string

definition authorize_session ::
  "u64 \<Rightarrow> string \<Rightarrow> string \<Rightarrow> u128 \<Rightarrow> session_manager \<Rightarrow> session_error + session_manager" where
  "authorize_session now user_address stealth_address drip_amount m =
     (if global_float_limit m < current_outstanding m + drip_amount
      then Inl (FloatLimitReached (global_float_limit m) (current_outstanding m) drip_amount)
      else if unat (max_active_drips_per_user m) \<le> active_user_sessions m user_address
      then Inl (UserLimitReached (active_user_sessions m user_address))
      else Inr (m\<lparr>sessions := AList.update stealth_address
        \<lparr>s_stealth_address = stealth_address, s_user_address = user_address, s_amount_dripped = drip_amount,
         s_status = Dripped, s_retry_count = 0, s_created_at = now\<rparr> (sessions m)\<rparr>))"

definition complete_session :: "string \<Rightarrow> session_manager \<Rightarrow> session_error + session_manager" where
  "complete_session stealth_address m = (case map_of (sessions m) stealth_address of
     Some s \<Rightarrow> Inr (m\<lparr>sessions := AList.update stealth_address (s\<lparr>s_status := Swept\<rparr>) (sessions m)\<rparr>)
   | None \<Rightarrow> Inl (SessionNotFound stealth_address))"

definition register_failed_sweep :: "string \<Rightarrow> session_manager \<Rightarrow> session_error + session_manager" where
  "register_failed_sweep stealth_address m = (case map_of (sessions m) stealth_address of
     Some s \<Rightarrow>
       let s = s\<lparr>s_status := FailedSweep, s_retry_count := s_retry_count s + 1\<rparr>;
           m = m\<lparr>sessions := AList.update stealth_address s (sessions m)\<rparr>
       in if s_retry_count s \<le> max_retry_limit m \<and> stealth_address \<notin> set (retry_queue m)
          then Inr (m\<lparr>retry_queue := retry_queue m @ [stealth_address]\<rparr>) else Inr m
   | None \<Rightarrow> Inl (SessionNotFound stealth_address))"

text \<open>The answers of the gateway for one address: balance, nonce and broadcast.\<close>

type_synonym gateway = "string \<Rightarrow> (string + string) \<times> (string + u64) \<times> (transaction \<Rightarrow> string + string)"

definition retry_sweep :: "tx_lib \<Rightarrow> gateway \<Rightarrow> keeper_wallet \<Rightarrow> keeper_wallet \<Rightarrow> drip_error + string" where
  "retry_sweep L net stealth_wallet drip_wallet =
     (case net (bech32_address stealth_wallet) of
        (bal, nonce, bc) \<Rightarrow> sweep_residual L stealth_wallet drip_wallet bal nonce bc)"

text \<open>The loop over the queue, with the addresses to be removed so far.\<close>

fun retry_loop ::
  "tx_lib \<Rightarrow> gateway \<Rightarrow> keeper_wallet \<Rightarrow> (string \<rightharpoonup> keeper_wallet) \<Rightarrow> string list \<Rightarrow> string list \<Rightarrow> session_manager
    \<Rightarrow> string list \<times> session_manager" where
  "retry_loop L net drip_wallet wallets [] swept m = (swept, m)"
| "retry_loop L net drip_wallet wallets (addr # rest) swept m =
     (case wallets addr of
        None \<Rightarrow> retry_loop L net drip_wallet wallets rest (swept @ [addr]) m
      | Some stealth_wallet \<Rightarrow>
          (case retry_sweep L net stealth_wallet drip_wallet of
             Inr tx_hash \<Rightarrow> retry_loop L net drip_wallet wallets rest (swept @ [addr]) m
           | Inl e \<Rightarrow>
               (case map_of (sessions m) addr of
                  None \<Rightarrow> retry_loop L net drip_wallet wallets rest swept m
                | Some s \<Rightarrow>
                    let s = s\<lparr>s_retry_count := s_retry_count s + 1\<rparr>;
                        m = m\<lparr>sessions := AList.update addr s (sessions m)\<rparr>
                    in retry_loop L net drip_wallet wallets rest
                         (if max_retry_limit m < s_retry_count s then swept @ [addr] else swept) m)))"

text \<open>Those removed are completed, unless their retries are used up.\<close>

fun complete_swept :: "string list \<Rightarrow> session_manager \<Rightarrow> session_manager" where
  "complete_swept [] m = m"
| "complete_swept (addr # rest) m =
     complete_swept rest
       (case map_of (sessions m) addr of
          Some s \<Rightarrow>
            if s_retry_count s \<le> max_retry_limit m
            then (case complete_session addr m of Inr m' \<Rightarrow> m' | Inl _ \<Rightarrow> m) else m
        | None \<Rightarrow> m)"

definition process_retry_queue ::
  "tx_lib \<Rightarrow> gateway \<Rightarrow> keeper_wallet \<Rightarrow> (string \<rightharpoonup> keeper_wallet) \<Rightarrow> session_manager \<Rightarrow> session_manager" where
  "process_retry_queue L net drip_wallet wallets m =
     (if retry_queue m = [] then m
      else case retry_loop L net drip_wallet wallets (retry_queue m) [] m of
        (swept, m) \<Rightarrow>
          complete_swept swept (m\<lparr>retry_queue := filter (\<lambda>addr. addr \<notin> set swept) (retry_queue m)\<rparr>))"

text \<open>
  The pieces of such a pass: what it does to the sessions while it holds their lock for one failed
  sweep, and what it does to the queue at the end. Between the pieces the sessions are unlocked.
\<close>

definition retry_failed :: "string \<Rightarrow> session_manager \<Rightarrow> session_manager" where
  "retry_failed addr m = (case map_of (sessions m) addr of
     None \<Rightarrow> m
   | Some s \<Rightarrow> m\<lparr>sessions := AList.update addr (s\<lparr>s_retry_count := s_retry_count s + 1\<rparr>) (sessions m)\<rparr>)"

definition queue_retain :: "string list \<Rightarrow> session_manager \<Rightarrow> session_manager" where
  "queue_retain swept m = m\<lparr>retry_queue := filter (\<lambda>addr. addr \<notin> set swept) (retry_queue m)\<rparr>"

definition active_session_count :: "session_manager \<Rightarrow> nat" where
  "active_session_count m = length (filter outstanding (map snd (sessions m)))"

section \<open>Totals\<close>

text \<open>A total over the sessions, and what an update does to it.\<close>

definition weight :: "(privacy_session \<Rightarrow> nat) \<Rightarrow> (string \<times> privacy_session) list \<Rightarrow> nat" where
  "weight w al = sum_list (map (w \<circ> snd) al)"

lemma weight_update:
  "weight w (AList.update k v al) + (case map_of al k of None \<Rightarrow> 0 | Some u \<Rightarrow> w u) = weight w al + w v"
  by (induction al) (auto simp: weight_def split: option.splits)

lemma weight_update_le: "weight w (AList.update k v al) \<le> weight w al + w v"
  using weight_update [of w k v al] by simp

lemma weight_update_same:
  "map_of al k = Some u \<Longrightarrow> w v \<le> w u \<Longrightarrow> weight w (AList.update k v al) \<le> weight w al"
  using weight_update [of w k v al] by simp

definition float_of :: "privacy_session \<Rightarrow> nat" where
  "float_of s = (if outstanding s then unat (s_amount_dripped s) else 0)"

definition active_for :: "string \<Rightarrow> privacy_session \<Rightarrow> nat" where
  "active_for user s = (if s_user_address s = user \<and> outstanding s then 1 else 0)"

lemma active_user_sessions_weight: "active_user_sessions m user = weight (active_for user) (sessions m)"
proof -
  have "length (filter (\<lambda>s. s_user_address s = user \<and> outstanding s) (map snd al)) = weight (active_for user) al" for al
    by (induction al) (auto simp: weight_def active_for_def)
  then show ?thesis by (simp add: active_user_sessions_def)
qed

lemma current_outstanding_weight: "current_outstanding m = of_nat (weight float_of (sessions m))"
proof -
  have "sum_list (map s_amount_dripped (filter outstanding (map snd al))) = of_nat (weight float_of al)" for al
    by (induction al) (auto simp: weight_def float_of_def)
  then show ?thesis by (simp add: current_outstanding_def)
qed

section \<open>Histories\<close>

text \<open>
  A history interleaves the operations of several tasks. A pass over the queue appears either
  undivided or as its pieces (\<open>RetryFailed\<close>, \<open>QueueRetain\<close> and \<open>Complete\<close>), among which the
  operations of other tasks may stand.
\<close>

datatype session_call = Authorize u64 string string u128 | Complete string | FailSweep string
  | ProcessQueue tx_lib gateway keeper_wallet "string \<rightharpoonup> keeper_wallet"
  | RetryFailed string | QueueRetain "string list"

inductive session_step :: "session_manager \<Rightarrow> session_call \<Rightarrow> session_manager \<Rightarrow> bool" where
  "authorize_session now user a amt m = Inr m' \<Longrightarrow> session_step m (Authorize now user a amt) m'"
| "complete_session a m = Inr m' \<Longrightarrow> session_step m (Complete a) m'"
| "register_failed_sweep a m = Inr m' \<Longrightarrow> session_step m (FailSweep a) m'"
| "process_retry_queue L net w ws m = m' \<Longrightarrow> session_step m (ProcessQueue L net w ws) m'"
| "session_step m (RetryFailed a) (retry_failed a m)"
| "session_step m (QueueRetain swept) (queue_retain swept m)"

inductive_cases session_stepE [elim!]:
  "session_step m (Authorize now user a amt) m'" "session_step m (Complete a) m'"
  "session_step m (FailSweep a) m'" "session_step m (ProcessQueue L net w ws) m'"
  "session_step m (RetryFailed a) m'" "session_step m (QueueRetain swept) m'"

text \<open>An undivided pass is the history of its pieces with nothing in between.\<close>

lemma retry_loop_pieces:
  "\<exists>as. run session_step m (map RetryFailed as) (snd (retry_loop L net w ws q swept m))"
proof (induction q arbitrary: swept m)
  case Nil
  show ?case by (rule exI [of _ "[]"]) (simp add: run.intros)
next
  case (Cons a q)
  have step: "session_step m (RetryFailed a) (retry_failed a m)" by (rule session_step.intros)
  have more: "\<exists>as. run session_step m (map RetryFailed as) (snd (retry_loop L net w ws q swept' (retry_failed a m)))"
    for swept'
  proof -
    obtain as where "run session_step (retry_failed a m) (map RetryFailed as)
        (snd (retry_loop L net w ws q swept' (retry_failed a m)))" using Cons.IH by blast
    with step have "run session_step m (map RetryFailed (a # as))
        (snd (retry_loop L net w ws q swept' (retry_failed a m)))" by (simp add: run.intros)
    then show ?thesis by blast
  qed
  show ?case
    using Cons.IH more
    by (auto simp: Let_def retry_failed_def split: option.splits sum.splits)
qed

lemma complete_swept_pieces: "\<exists>as. run session_step m (map Complete as) (complete_swept q m)"
proof (induction q arbitrary: m)
  case Nil
  show ?case by (rule exI [of _ "[]"]) (simp add: run.intros)
next
  case (Cons a q)
  show ?case
  proof (cases "\<exists>s m'. map_of (sessions m) a = Some s \<and> s_retry_count s \<le> max_retry_limit m \<and> complete_session a m = Inr m'")
    case True
    then obtain s m' where s: "map_of (sessions m) a = Some s" "s_retry_count s \<le> max_retry_limit m"
      "complete_session a m = Inr m'" by blast
    obtain as where "run session_step m' (map Complete as) (complete_swept q m')" using Cons.IH by blast
    with s have "run session_step m (map Complete (a # as)) (complete_swept (a # q) m)"
      using session_step.intros(2) by (auto intro: run.intros)
    then show ?thesis by blast
  next
    case False
    then have "complete_swept (a # q) m = complete_swept q m" by (auto split: option.splits sum.splits)
    with Cons.IH show ?thesis by simp
  qed
qed

theorem pass_is_its_pieces:
  "retry_queue m \<noteq> [] \<Longrightarrow> \<exists>as swept cs. run session_step m (map RetryFailed as @ QueueRetain swept # map Complete cs)
     (process_retry_queue L net w ws m)"
proof -
  assume "retry_queue m \<noteq> []"
  moreover obtain swept n where n: "retry_loop L net w ws (retry_queue m) [] m = (swept, n)" by fastforce
  ultimately have eq: "process_retry_queue L net w ws m = complete_swept swept (queue_retain swept n)"
    by (simp add: process_retry_queue_def queue_retain_def)
  obtain as where "run session_step m (map RetryFailed as) n"
    using retry_loop_pieces [of m L net w ws "retry_queue m" "[]"] n by auto
  moreover obtain cs where "run session_step (queue_retain swept n) (map Complete cs)
      (complete_swept swept (queue_retain swept n))" using complete_swept_pieces by blast
  then have "run session_step n (QueueRetain swept # map Complete cs) (process_retry_queue L net w ws m)"
    unfolding eq by (meson run.intros session_step.intros)
  ultimately show ?thesis by (meson run_append)
qed

text \<open>A step in which a failure is only reported for a session that is not resolved yet.\<close>

definition unresolved_only :: "session_manager \<Rightarrow> session_call \<Rightarrow> bool" where
  "unresolved_only m l = (case l of
     FailSweep a \<Rightarrow> (\<forall>s. map_of (sessions m) a = Some s \<longrightarrow> s_status s \<noteq> Swept) | _ \<Rightarrow> True)"

definition careful_step :: "session_manager \<Rightarrow> session_call \<Rightarrow> session_manager \<Rightarrow> bool" where
  "careful_step m l m' \<longleftrightarrow> session_step m l m' \<and> unresolved_only m l"

text \<open>Amounts that cannot overflow beside the limit.\<close>

definition small_amount :: "u128 \<Rightarrow> session_call \<Rightarrow> bool" where
  "small_amount limit l = (case l of Authorize now user a amt \<Rightarrow> unat limit + unat amt < 2 ^ 128 | _ \<Rightarrow> True)"

definition within_limits :: "u128 \<Rightarrow> usize \<Rightarrow> session_manager \<Rightarrow> bool" where
  "within_limits limit per_user m \<longleftrightarrow> global_float_limit m = limit \<and> max_active_drips_per_user m = per_user \<and>
     weight float_of (sessions m) \<le> unat limit \<and>
     (\<forall>user. weight (active_for user) (sessions m) \<le> unat per_user)"

lemma authorize_within:
  assumes "authorize_session now user a amt m = Inr m'" and "unat limit + unat amt < 2 ^ 128"
    and "within_limits limit per_user m"
  shows "within_limits limit per_user m'"
proof -
  define v where "v = \<lparr>s_stealth_address = a, s_user_address = user, s_amount_dripped = amt,
    s_status = Dripped, s_retry_count = 0, s_created_at = now\<rparr>"
  have sum: "unat (current_outstanding m + amt) = weight float_of (sessions m) + unat amt"
  proof -
    have small: "weight float_of (sessions m) < 2 ^ 128" using assms(2,3) by (simp add: within_limits_def)
    then have "unat (current_outstanding m) = weight float_of (sessions m)"
      by (simp add: current_outstanding_weight unsigned_of_nat take_bit_nat_eq_self)
    with assms(2,3) show ?thesis by (subst sum_no_wrap) (simp_all add: within_limits_def)
  qed
  from assms(1,3) sum have m': "m' = m\<lparr>sessions := AList.update a v (sessions m)\<rparr>"
    and room: "weight float_of (sessions m) + unat amt \<le> unat limit"
    and few: "weight (active_for user) (sessions m) < unat per_user"
    by (auto simp: authorize_session_def within_limits_def v_def active_user_sessions_weight
        word_less_nat_alt not_less split: if_splits)
  have "weight (active_for u) (AList.update a v (sessions m)) \<le> unat per_user" for u
  proof (cases "u = user")
    case True
    have "active_for user v = 1" by (simp add: active_for_def v_def outstanding_def)
    with weight_update_le [of "active_for user" a v "sessions m"] few True show ?thesis by simp
  next
    case False
    then have "active_for u v = 0" by (simp add: active_for_def v_def)
    with weight_update_le [of "active_for u" a v "sessions m"] assms(3) show ?thesis
      by (metis add.right_neutral le_trans within_limits_def)
  qed
  moreover have "float_of v = unat amt" by (simp add: float_of_def outstanding_def v_def)
  ultimately show ?thesis
    using weight_update_le [of float_of a v "sessions m"] room assms(3) by (simp add: within_limits_def m')
qed

text \<open>An update that resolves a session or leaves it outstanding keeps the limits.\<close>

lemma update_within:
  assumes "within_limits limit per_user m" and "map_of (sessions m) a = Some u"
    and "s_user_address v = s_user_address u" "s_amount_dripped v = s_amount_dripped u"
    and "outstanding v \<Longrightarrow> outstanding u"
  shows "within_limits limit per_user (m\<lparr>sessions := AList.update a v (sessions m)\<rparr>)"
proof -
  have "float_of v \<le> float_of u" "\<And>user. active_for user v \<le> active_for user u"
    using assms(3-5) by (auto simp: float_of_def active_for_def)
  then have "weight float_of (AList.update a v (sessions m)) \<le> weight float_of (sessions m)"
    "\<And>user. weight (active_for user) (AList.update a v (sessions m)) \<le> weight (active_for user) (sessions m)"
    using weight_update_same [OF assms(2), of _ v] by simp_all
  with assms(1) show ?thesis unfolding within_limits_def by (simp, meson le_trans)
qed

lemma within_queue [simp]: "within_limits l k (m\<lparr>retry_queue := q\<rparr>) = within_limits l k m"
  by (simp add: within_limits_def)

lemma complete_within:
  "complete_session a m = Inr m' \<Longrightarrow> within_limits l k m \<Longrightarrow> within_limits l k m'"
  by (auto simp: complete_session_def outstanding_def intro!: update_within split: option.splits)

lemma fail_within:
  assumes "register_failed_sweep a m = Inr m'" and "unresolved_only m (FailSweep a)" and "within_limits l k m"
  shows "within_limits l k m'"
proof -
  obtain s where s: "map_of (sessions m) a = Some s"
    using assms(1) by (auto simp: register_failed_sweep_def split: option.splits)
  then have "outstanding s" using assms(2) by (cases "s_status s") (auto simp: unresolved_only_def outstanding_def)
  then have "within_limits l k (m\<lparr>sessions := AList.update a
      (s\<lparr>s_status := FailedSweep, s_retry_count := s_retry_count s + 1\<rparr>) (sessions m)\<rparr>)"
    using assms(3) s by (intro update_within) auto
  with assms(1) s show ?thesis by (auto simp: register_failed_sweep_def Let_def split: if_splits)
qed

lemma retry_loop_within:
  "within_limits l k m \<Longrightarrow> within_limits l k (snd (retry_loop L net w ws q swept m))"
proof (induction q arbitrary: swept m)
  case (Cons a q)
  then show ?case
    by (auto simp: Let_def outstanding_def intro!: Cons.IH update_within split: option.splits sum.splits)
qed simp

lemma complete_swept_within: "within_limits l k m \<Longrightarrow> within_limits l k (complete_swept q m)"
proof (induction q arbitrary: m)
  case (Cons a q)
  then show ?case
    by (auto intro!: Cons.IH dest: complete_within split: option.splits sum.splits)
qed simp

lemma process_within:
  assumes "within_limits l k m"
  shows "within_limits l k (process_retry_queue L net w ws m)"
  using retry_loop_within [OF assms, of L net w ws "retry_queue m" "[]"] assms
  by (auto simp: process_retry_queue_def intro!: complete_swept_within split: prod.splits)

lemma retry_failed_within: "within_limits l k m \<Longrightarrow> within_limits l k (retry_failed a m)"
  by (auto simp: retry_failed_def outstanding_def intro!: update_within split: option.splits)

lemma queue_retain_within: "within_limits l k m \<Longrightarrow> within_limits l k (queue_retain swept m)"
  by (simp add: queue_retain_def)

interpretation limits: invariant_system careful_step "small_amount limit" "within_limits limit per_user"
  for limit per_user
proof
  fix m l m'
  assume "careful_step m l m'" "small_amount limit l" "within_limits limit per_user m"
  then show "within_limits limit per_user m'"
    by (cases l) (auto simp: careful_step_def small_amount_def intro: authorize_within complete_within
        fail_within process_within retry_failed_within queue_retain_within)
qed

text \<open>
  C37. Sessions stay within their limits. In every history of a manager in which failures are
  reported only for sessions that are not resolved, with amounts that fit beside the limit in
  128 bits, the true sum of the outstanding amounts never exceeds the global limit and no user
  has more outstanding sessions than allowed; the code's own sum never wraps around. The
  histories include those in which other tasks act between the entries of one pass over the
  retry queue.
\<close>

theorem sessions_within_limits:
  assumes "run careful_step (session_manager_new limit per_user) ls m" and "list_all (small_amount limit) ls"
  shows "(\<Sum>(a, s) \<leftarrow> sessions m. if outstanding s then unat (s_amount_dripped s) else 0) \<le> unat limit \<and>
     unat (current_outstanding m) =
       (\<Sum>(a, s) \<leftarrow> sessions m. if outstanding s then unat (s_amount_dripped s) else 0) \<and>
     (\<forall>user. active_user_sessions m user \<le> unat per_user)"
proof -
  have "within_limits limit per_user (session_manager_new limit per_user)"
    by (simp add: within_limits_def session_manager_new_def weight_def)
  with limits.run_inv [OF assms] have inv: "within_limits limit per_user m" .
  have sum: "(\<Sum>(a, s) \<leftarrow> sessions m. if outstanding s then unat (s_amount_dripped s) else 0) = weight float_of (sessions m)"
    by (simp add: weight_def float_of_def comp_def split_def)
  have "unat limit < 2 ^ 128" by (rule order.strict_trans2 [OF unsigned_less]) simp
  then have "weight float_of (sessions m) < 2 ^ 128" using inv by (simp add: within_limits_def)
  then have "unat (current_outstanding m) = weight float_of (sessions m)"
    by (simp add: current_outstanding_weight unsigned_of_nat take_bit_nat_eq_self)
  with inv sum show ?thesis by (simp add: within_limits_def active_user_sessions_weight)
qed

definition demo_session :: "u128 \<Rightarrow> privacy_session" where
  "demo_session amt = \<lparr>s_stealth_address = ''s1'', s_user_address = ''alice'', s_amount_dripped = amt,
     s_status = Dripped, s_retry_count = 0, s_created_at = 7\<rparr>"

definition demo_manager :: session_manager where
  "demo_manager = (session_manager_new 15 2)\<lparr>sessions := [(''s1'', demo_session 5)]\<rparr>"

definition demo_failed :: session_manager where
  "demo_failed = demo_manager\<lparr>sessions := [(''s1'', (demo_session 5)\<lparr>s_status := FailedSweep, s_retry_count := 1\<rparr>)],
     retry_queue := [''s1'']\<rparr>"

lemma demo_admitted: "authorize_session 7 ''alice'' ''s1'' 5 (session_manager_new 15 2) = Inr demo_manager"
  by (simp add: authorize_session_def session_manager_new_def current_outstanding_def active_user_sessions_def
      demo_manager_def demo_session_def)

lemma demo_fail: "register_failed_sweep ''s1'' demo_manager = Inr demo_failed"
  by (simp add: register_failed_sweep_def demo_manager_def demo_failed_def demo_session_def session_manager_new_def Let_def)

theorem sessions_within_limits_witness:
  "unat (current_outstanding demo_failed) = 5 \<and> unat (current_outstanding demo_failed) \<le> unat (15 :: u128)"
proof -
  have "careful_step (session_manager_new 15 2) (Authorize 7 ''alice'' ''s1'' 5) demo_manager"
    using demo_admitted by (auto simp: careful_step_def unresolved_only_def intro: session_step.intros)
  moreover have "careful_step demo_manager (FailSweep ''s1'') demo_failed"
    using demo_fail by (auto simp: careful_step_def unresolved_only_def demo_manager_def demo_session_def
        intro: session_step.intros)
  ultimately have "run careful_step (session_manager_new 15 2) [Authorize 7 ''alice'' ''s1'' 5, FailSweep ''s1''] demo_failed"
    by (meson run.intros)
  moreover have "list_all (small_amount 15) [Authorize 7 ''alice'' ''s1'' 5, FailSweep ''s1'']"
    by (simp add: small_amount_def)
  ultimately have "unat (current_outstanding demo_failed) \<le> unat (15 :: u128)"
    using sessions_within_limits [of 15 2 "[Authorize 7 ''alice'' ''s1'' 5, FailSweep ''s1'']" demo_failed] by linarith
  moreover have "current_outstanding demo_failed = 5"
    by (simp add: current_outstanding_def demo_failed_def demo_session_def outstanding_def demo_manager_def)
  ultimately show ?thesis by simp
qed

section \<open>The retry queue\<close>

definition known :: "session_manager \<Rightarrow> string \<Rightarrow> bool" where
  "known m a \<longleftrightarrow> map_of (sessions m) a \<noteq> None"

definition count_of :: "session_manager \<Rightarrow> string \<Rightarrow> u32" where
  "count_of m a = (case map_of (sessions m) a of None \<Rightarrow> 0 | Some s \<Rightarrow> s_retry_count s)"

text \<open>What the operations rely on: queued addresses are known, once each.\<close>

definition queue_ok :: "session_manager \<Rightarrow> bool" where
  "queue_ok m \<longleftrightarrow> (\<forall>a \<in> set (retry_queue m). known m a) \<and> distinct (retry_queue m) \<and> max_retry_limit m = 5"

lemma known_update [simp]:
  "known (m\<lparr>sessions := AList.update a v (sessions m)\<rparr>) b \<longleftrightarrow> b = a \<or> known m b"
  by (auto simp: known_def update_conv')

lemma count_update [simp]:
  "count_of (m\<lparr>sessions := AList.update a v (sessions m)\<rparr>) b = (if b = a then s_retry_count v else count_of m b)"
  by (auto simp: count_of_def update_conv')

lemma known_queue [simp]: "known (m\<lparr>retry_queue := q\<rparr>) = known m" "count_of (m\<lparr>retry_queue := q\<rparr>) = count_of m"
  by (auto simp: known_def count_of_def fun_eq_iff)

text \<open>
  What the loop leaves: an address that is not to be removed has failed once more, and its
  counter is still within the limit.
\<close>

lemma retry_loop_stays:
  assumes "retry_loop L net w ws q swept m = (sw, m')" and "distinct q" and "\<forall>a \<in> set q. known m a"
  shows "max_retry_limit m' = max_retry_limit m \<and> retry_queue m' = retry_queue m \<and> known m' = known m \<and>
     set swept \<subseteq> set sw \<and> (\<forall>a. a \<notin> set q \<longrightarrow> count_of m' a = count_of m a) \<and>
     (\<forall>a \<in> set q. a \<notin> set sw \<longrightarrow> count_of m' a = count_of m a + 1 \<and> count_of m' a \<le> max_retry_limit m)"
  using assms
proof (induction q arbitrary: swept m)
  case Nil
  then show ?case by auto
next
  case (Cons a q)
  obtain s where s: "map_of (sessions m) a = Some s" using Cons.prems(3) by (auto simp: known_def)
  define n where "n = m\<lparr>sessions := AList.update a (s\<lparr>s_retry_count := s_retry_count s + 1\<rparr>) (sessions m)\<rparr>"
  have n: "known n = known m" "count_of n b = (if b = a then count_of m a + 1 else count_of m b)"
    "max_retry_limit n = max_retry_limit m" "retry_queue n = retry_queue m" for b
    using s by (auto simp: n_def fun_eq_iff known_def count_of_def update_conv')
  from Cons.prems(1) s consider
      (gone) "retry_loop L net w ws q (swept @ [a]) m = (sw, m')"
    | (failed) "retry_loop L net w ws q (if max_retry_limit n < count_of n a then swept @ [a] else swept) n = (sw, m')"
    by (cases "ws a"; cases "retry_sweep L net (the (ws a)) w") (simp_all add: n_def Let_def)
  then show ?case
  proof cases
    case gone
    from Cons.IH [OF this] Cons.prems(2,3) show ?thesis by auto
  next
    case failed
    from Cons.IH [OF this] Cons.prems(2,3) n show ?thesis by (auto simp: not_less split: if_splits)
  qed
qed

lemma complete_session_keeps:
  "complete_session a m = Inr m' \<Longrightarrow> max_retry_limit m' = max_retry_limit m \<and> retry_queue m' = retry_queue m \<and>
     known m' = known m \<and> count_of m' = count_of m"
  by (auto simp: complete_session_def fun_eq_iff known_def count_of_def update_conv' split: option.splits if_splits)

lemma complete_swept_keeps:
  "max_retry_limit (complete_swept q m) = max_retry_limit m \<and> retry_queue (complete_swept q m) = retry_queue m \<and>
   known (complete_swept q m) = known m \<and> count_of (complete_swept q m) = count_of m"
proof (induction q arbitrary: m)
  case (Cons a q)
  then show ?case
    by (auto split: option.splits sum.splits dest: complete_session_keeps)
qed simp

lemma process_round:
  assumes "queue_ok m" and "m' = process_retry_queue L net w ws m"
  shows "queue_ok m' \<and> known m' = known m \<and>
    (\<forall>a \<in> set (retry_queue m'). count_of m' a = count_of m a + 1 \<and> count_of m' a \<le> 5)"
proof (cases "retry_queue m = []")
  case True
  with assms show ?thesis by (simp add: process_retry_queue_def)
next
  case False
  obtain sw n where n: "retry_loop L net w ws (retry_queue m) [] m = (sw, n)" by fastforce
  have loop: "max_retry_limit n = 5" "retry_queue n = retry_queue m" "known n = known m"
    "\<forall>a \<in> set (retry_queue m). a \<notin> set sw \<longrightarrow> count_of n a = count_of m a + 1 \<and> count_of n a \<le> 5"
    using retry_loop_stays [OF n] assms(1) by (auto simp: queue_ok_def)
  define k where "k = n\<lparr>retry_queue := filter (\<lambda>a. a \<notin> set sw) (retry_queue m)\<rparr>"
  have m': "m' = complete_swept sw k"
    using assms(2) False n loop(2) by (simp add: process_retry_queue_def k_def)
  have "max_retry_limit m' = 5" "retry_queue m' = filter (\<lambda>a. a \<notin> set sw) (retry_queue m)"
    "known m' = known m" "count_of m' = count_of n"
    using complete_swept_keeps [of sw k] loop(1,3) by (simp_all add: m' k_def)
  with loop(4) assms(1) show ?thesis by (auto simp: queue_ok_def)
qed

lemma session_step_queue_ok: "session_step m l m' \<Longrightarrow> queue_ok m \<Longrightarrow> queue_ok m'"
proof (cases l)
  case (Authorize now user a amt)
  assume "session_step m l m'" "queue_ok m"
  then show ?thesis by (auto simp: Authorize authorize_session_def queue_ok_def split: if_splits)
next
  case (Complete a)
  assume "session_step m l m'" "queue_ok m"
  then show ?thesis by (auto simp: Complete queue_ok_def dest: complete_session_keeps)
next
  case (FailSweep a)
  assume "session_step m l m'" "queue_ok m"
  then show ?thesis
    by (auto simp: FailSweep register_failed_sweep_def queue_ok_def known_def update_conv' Let_def
        split: option.splits if_splits)
next
  case (ProcessQueue L net w ws)
  assume "session_step m l m'" "queue_ok m"
  then show ?thesis using process_round by (auto simp: ProcessQueue)
next
  case (RetryFailed a)
  assume "session_step m l m'" "queue_ok m"
  then show ?thesis
    by (auto simp: RetryFailed retry_failed_def queue_ok_def known_def update_conv' split: option.splits)
next
  case (QueueRetain swept)
  assume "session_step m l m'" "queue_ok m"
  then show ?thesis by (auto simp: QueueRetain queue_retain_def queue_ok_def known_def)
qed

interpretation queue: invariant_system session_step "\<lambda>_. True" queue_ok
  by unfold_locales (rule session_step_queue_ok)

fun retry_rounds :: "(tx_lib \<times> gateway \<times> keeper_wallet \<times> (string \<rightharpoonup> keeper_wallet)) list \<Rightarrow> session_manager \<Rightarrow> session_manager" where
  "retry_rounds [] m = m"
| "retry_rounds ((L, net, w, ws) # rest) m = retry_rounds rest (process_retry_queue L net w ws m)"

text \<open>After the first round a counter is within the limit, and it grows with every further one.\<close>

definition counted :: "nat \<Rightarrow> session_manager \<Rightarrow> bool" where
  "counted k m \<longleftrightarrow> queue_ok m \<and> (\<forall>a \<in> set (retry_queue m). k \<le> unat (count_of m a) \<and> count_of m a \<le> 5)"

lemma first_round: "queue_ok m \<Longrightarrow> counted 0 (process_retry_queue L net w ws m)"
  using process_round [OF _ refl] unfolding counted_def by (meson le0)

lemma next_round:
  assumes "counted k m"
  shows "counted (Suc k) (process_retry_queue L net w ws m)"
proof -
  define n where "n = process_retry_queue L net w ws m"
  have n: "queue_ok n" "\<forall>a \<in> set (retry_queue n). count_of n a = count_of m a + 1 \<and> count_of n a \<le> 5"
    using process_round [OF _ n_def] assms by (auto simp: counted_def)
  have sub: "set (retry_queue n) \<subseteq> set (retry_queue m)"
  proof (cases "retry_queue m = []")
    case True
    then show ?thesis by (simp add: n_def process_retry_queue_def)
  next
    case False
    obtain sw u where u: "retry_loop L net w ws (retry_queue m) [] m = (sw, u)" by fastforce
    have "retry_queue u = retry_queue m"
      using retry_loop_stays [OF u] assms by (simp add: counted_def queue_ok_def)
    with False u complete_swept_keeps show ?thesis by (auto simp: n_def process_retry_queue_def)
  qed
  have "Suc k \<le> unat (count_of n a)" if "a \<in> set (retry_queue n)" for a
  proof -
    have "k \<le> unat (count_of m a)" "unat (count_of m a) \<le> 5"
      using that sub assms by (auto simp: counted_def word_le_nat_alt)
    moreover from this have "unat (count_of m a + 1) = unat (count_of m a) + 1"
      by (subst unat_add_lem [THEN iffD1]) simp_all
    ultimately show ?thesis using n(2) that by simp
  qed
  with n show ?thesis unfolding counted_def n_def [symmetric] by blast
qed

lemma further_rounds: "counted k m \<Longrightarrow> counted (k + length rs) (retry_rounds rs m)"
proof (induction rs arbitrary: k m)
  case (Cons r rs)
  obtain L net w ws where r: "r = (L, net, w, ws)" by (cases r)
  from Cons.IH [OF next_round [OF Cons.prems]] show ?case by (simp add: r)
qed simp

text \<open>
  C38. The retry queue drains. In every state the manager can reach, seven rounds of processing
  leave the queue empty, whatever the gateway answers in each of them and whichever keys are
  at hand: a sweep is retried a bounded number of times. The seven rounds run without another
  operation in between or inside them; the history before them may interleave passes and other
  operations.
\<close>

theorem retry_queue_drains:
  assumes "run session_step (session_manager_new limit per_user) ls m" and "7 \<le> length rs"
  shows "retry_queue (retry_rounds rs m) = []"
proof -
  have "queue_ok (session_manager_new limit per_user)" by (simp add: queue_ok_def session_manager_new_def)
  then have ok: "queue_ok m" using queue.run_inv [OF assms(1)] by (simp add: list_all_iff)
  obtain r rest where rs: "rs = r # rest" using assms(2) by (cases rs) auto
  obtain L net w ws where r: "r = (L, net, w, ws)" by (cases r)
  have "counted (length rest) (retry_rounds rs m)"
    using further_rounds [OF first_round [OF ok], of rest L net w ws] by (simp add: rs r)
  then have "\<not> a \<in> set (retry_queue (retry_rounds rs m))" for a
    using assms(2) by (fastforce simp: counted_def rs word_le_nat_alt)
  then show ?thesis by (metis list.set_intros(1) neq_Nil_conv)
qed

theorem retry_queue_drains_witness:
  "\<exists>rs. length rs = 7 \<and> retry_queue demo_failed = [''s1''] \<and> retry_queue (retry_rounds rs demo_failed) = []"
proof -
  define L where "L = \<lparr>b64_encode = (\<lambda>b. b), tx_hex_encode = (\<lambda>b. b), ed_sign = (\<lambda>k m. m)\<rparr>"
  define w where "w = \<lparr>signing_key = 1, bech32_address = ''erd1w''\<rparr>"
  define rs :: "(tx_lib \<times> gateway \<times> keeper_wallet \<times> (string \<rightharpoonup> keeper_wallet)) list"
    where "rs = replicate 7 (L, \<lambda>_. (Inl ''down'', Inl ''down'', \<lambda>_. Inl ''down''), w, \<lambda>_. Some w)"
  have "run session_step (session_manager_new 15 2) [Authorize 7 ''alice'' ''s1'' 5, FailSweep ''s1''] demo_failed"
    using demo_admitted demo_fail by (meson run.intros session_step.intros)
  moreover have "7 \<le> length rs" by (simp add: rs_def)
  ultimately have "retry_queue (retry_rounds rs demo_failed) = []" by (rule retry_queue_drains)
  moreover have "length rs = 7" "retry_queue demo_failed = [''s1'']" by (simp_all add: rs_def demo_failed_def)
  ultimately show ?thesis by blast
qed

section \<open>Limits of the bookkeeping\<close>

text \<open>
  A queued session whose key is not at hand is dropped from the queue and marked as swept,
  although nothing was swept: its amount no longer counts against the limit.
\<close>

theorem lost_key_counts_as_swept:
  assumes "retry_queue m = [a]" and "wallets a = None" and "map_of (sessions m) a = Some s"
    and "s_retry_count s \<le> max_retry_limit m"
  shows "process_retry_queue L net w wallets m =
     m\<lparr>sessions := AList.update a (s\<lparr>s_status := Swept\<rparr>) (sessions m), retry_queue := []\<rparr>"
  using assms by (simp add: process_retry_queue_def complete_session_def)

text \<open>
  Authorising an address again replaces its session: the amount that is still outstanding on it
  is forgotten.
\<close>

theorem reauthorised_session_forgotten:
  assumes "map_of (sessions m) a = Some s" and "authorize_session now user a amt m = Inr m'"
  shows "weight float_of (sessions m') + float_of s = weight float_of (sessions m) + unat amt"
  using assms weight_update [of float_of a "\<lparr>s_stealth_address = a, s_user_address = user,
      s_amount_dripped = amt, s_status = Dripped, s_retry_count = 0, s_created_at = now\<rparr>" "sessions m"]
  by (auto simp: authorize_session_def float_of_def outstanding_def split: if_splits)

text \<open>
  A failure reported for a session that was already swept makes its amount count again, which
  can exceed the limit that the admission had enforced.
\<close>

theorem swept_failure_exceeds_limit:
  "\<exists>m. run session_step (session_manager_new 5 2)
       [Authorize 7 ''alice'' ''s1'' 5, Complete ''s1'', Authorize 8 ''bob'' ''s2'' 5, FailSweep ''s1''] m \<and>
     global_float_limit m = 5 \<and> current_outstanding m = 10"
proof -
  define a where "a = session_manager_new 5 2"
  define b where "b = a\<lparr>sessions := [(''s1'', demo_session 5)]\<rparr>"
  define c where "c = a\<lparr>sessions := [(''s1'', (demo_session 5)\<lparr>s_status := Swept\<rparr>)]\<rparr>"
  define v where "v = \<lparr>s_stealth_address = ''s2'', s_user_address = ''bob'', s_amount_dripped = (5 :: u128),
    s_status = Dripped, s_retry_count = 0, s_created_at = 8\<rparr>"
  define d where "d = a\<lparr>sessions := [(''s1'', (demo_session 5)\<lparr>s_status := Swept\<rparr>), (''s2'', v)]\<rparr>"
  define m where "m = a\<lparr>sessions := [(''s1'', (demo_session 5)\<lparr>s_status := FailedSweep, s_retry_count := 1\<rparr>), (''s2'', v)],
    retry_queue := [''s1'']\<rparr>"
  have "authorize_session 7 ''alice'' ''s1'' 5 a = Inr b"
    by (simp add: authorize_session_def a_def b_def session_manager_new_def current_outstanding_def
        active_user_sessions_def demo_session_def)
  moreover have "complete_session ''s1'' b = Inr c"
    by (simp add: complete_session_def b_def c_def)
  moreover have "authorize_session 8 ''bob'' ''s2'' 5 c = Inr d"
    by (simp add: authorize_session_def c_def d_def a_def session_manager_new_def current_outstanding_def
        active_user_sessions_def demo_session_def outstanding_def v_def)
  moreover have "register_failed_sweep ''s1'' d = Inr m"
    by (simp add: register_failed_sweep_def d_def m_def a_def session_manager_new_def demo_session_def Let_def)
  ultimately have "run session_step a
      [Authorize 7 ''alice'' ''s1'' 5, Complete ''s1'', Authorize 8 ''bob'' ''s2'' 5, FailSweep ''s1''] m"
    by (meson run.intros session_step.intros)
  moreover have "global_float_limit m = 5" "current_outstanding m = 10"
    by (simp_all add: m_def a_def session_manager_new_def current_outstanding_def outstanding_def demo_session_def v_def)
  ultimately show ?thesis unfolding a_def by (intro exI conjI)
qed

section \<open>Locks\<close>

text \<open>
  The manager has two locks. Each operation takes and gives them back in the order of its
  statements; a guard is given back at the end of its block. The processing of a queue holds the
  queue for its whole run and takes the sessions for every failed sweep (\<open>n\<close> times) and again to
  read and to complete the addresses it removes (\<open>k\<close> times). A reader is treated like a writer.
\<close>

datatype lock = SessionsLock | QueueLock
datatype lock_op = Acquire lock | Release lock

definition sessions_section :: "lock_op list" where
  "sessions_section = [Acquire SessionsLock, Release SessionsLock]"

definition failed_sweep_locks :: "lock_op list" where
  "failed_sweep_locks = [Acquire SessionsLock, Acquire QueueLock, Release QueueLock, Release SessionsLock]"

definition process_queue_locks :: "nat \<Rightarrow> nat \<Rightarrow> lock_op list" where
  "process_queue_locks n k = Acquire QueueLock # concat (replicate n sessions_section) @
     concat (replicate k sessions_section) @ [Release QueueLock]"

text \<open>Threads with what they have still to do, and who holds each lock.\<close>

type_synonym lock_state = "lock_op list list \<times> (lock \<Rightarrow> nat option)"

inductive lock_step :: "lock_state \<Rightarrow> nat \<Rightarrow> lock_state \<Rightarrow> bool" where
  acquire: "i < length ts \<Longrightarrow> ts ! i = Acquire l # rest \<Longrightarrow> holder l = None \<Longrightarrow>
     lock_step (ts, holder) i (ts[i := rest], holder(l := Some i))"
| release: "i < length ts \<Longrightarrow> ts ! i = Release l # rest \<Longrightarrow> holder l = Some i \<Longrightarrow>
     lock_step (ts, holder) i (ts[i := rest], holder(l := None))"

definition all_done :: "lock_state \<Rightarrow> bool" where
  "all_done x \<longleftrightarrow> (\<forall>t \<in> set (fst x). t = [])"

definition stuck :: "lock_state \<Rightarrow> bool" where
  "stuck x \<longleftrightarrow> \<not> all_done x \<and> (\<nexists>i y. lock_step x i y)"

text \<open>The stages of an operation that takes the sessions first, with the locks it holds there.\<close>

definition stages :: "(lock_op list \<times> lock set) set" where
  "stages = {([], {}), (sessions_section, {}), ([Release SessionsLock], {SessionsLock}),
     (failed_sweep_locks, {}), (tl failed_sweep_locks, {SessionsLock}),
     (tl (tl failed_sweep_locks), {SessionsLock, QueueLock})}"

definition held_by :: "(lock \<Rightarrow> nat option) \<Rightarrow> nat \<Rightarrow> lock set" where
  "held_by holder i = {l. holder l = Some i}"

definition ordered :: "lock_state \<Rightarrow> bool" where
  "ordered x \<longleftrightarrow> (\<forall>i < length (fst x). (fst x ! i, held_by (snd x) i) \<in> stages) \<and>
     (\<forall>l i. snd x l = Some i \<longrightarrow> i < length (fst x))"

lemmas stage_defs = stages_def sessions_section_def failed_sweep_locks_def

lemma stage_acquire:
  "(Acquire l # rest, H) \<in> stages \<Longrightarrow> (rest, insert l H) \<in> stages \<and> l \<notin> H"
  by (auto simp: stage_defs)

lemma stage_release:
  "(Release l # rest, H) \<in> stages \<Longrightarrow> (rest, H - {l}) \<in> stages \<and> l \<in> H"
  by (auto simp: stage_defs)

lemma held_by_acquire:
  "holder l = None \<Longrightarrow> held_by (holder(l := Some i)) j = (if j = i then insert l (held_by holder i) else held_by holder j)"
  by (auto simp: held_by_def)

lemma held_by_release:
  "holder l = Some i \<Longrightarrow> held_by (holder(l := None)) j = (if j = i then held_by holder i - {l} else held_by holder j)"
  by (auto simp: held_by_def)

lemma ordered_step: "lock_step x i y \<Longrightarrow> ordered x \<Longrightarrow> ordered y"
proof (induction rule: lock_step.induct)
  case (acquire i ts l rest holder)
  have "(ts ! i, held_by holder i) \<in> stages" using acquire(1,4) by (simp add: ordered_def)
  then have "(rest, insert l (held_by holder i)) \<in> stages" using acquire(2) stage_acquire by metis
  then show ?case using acquire by (auto simp: ordered_def held_by_acquire nth_list_update)
next
  case (release i ts l rest holder)
  have "(ts ! i, held_by holder i) \<in> stages" using release(1,4) by (simp add: ordered_def)
  then have "(rest, held_by holder i - {l}) \<in> stages" using release(2) stage_release by metis
  then show ?case using release by (auto simp: ordered_def held_by_release nth_list_update)
qed

text \<open>The holder of the queue can go on; otherwise the holder of the sessions can; otherwise anybody.\<close>

lemma stage_with_queue: "(p, H) \<in> stages \<Longrightarrow> QueueLock \<in> H \<Longrightarrow> \<exists>rest. p = Release QueueLock # rest"
  by (auto simp: stage_defs)

lemma stage_with_sessions:
  "(p, H) \<in> stages \<Longrightarrow> SessionsLock \<in> H \<Longrightarrow> QueueLock \<notin> H \<Longrightarrow>
   (\<exists>rest. p = Release SessionsLock # rest) \<or> (\<exists>rest. p = Acquire QueueLock # rest)"
  by (auto simp: stage_defs)

lemma stage_without: "(p, {}) \<in> stages \<Longrightarrow> p = [] \<or> (\<exists>rest. p = Acquire SessionsLock # rest)"
  by (auto simp: stage_defs)

lemma acquire_not_stuck:
  "i < length ts \<Longrightarrow> ts ! i = Acquire l # rest \<Longrightarrow> holder l = None \<Longrightarrow> \<not> stuck (ts, holder)"
  unfolding stuck_def using acquire by blast

lemma release_not_stuck:
  "i < length ts \<Longrightarrow> ts ! i = Release l # rest \<Longrightarrow> holder l = Some i \<Longrightarrow> \<not> stuck (ts, holder)"
  unfolding stuck_def using release by blast

lemma ordered_not_stuck:
  assumes "ordered (ts, holder)"
  shows "\<not> stuck (ts, holder)"
proof -
  have stage: "(ts ! i, held_by holder i) \<in> stages" if "i < length ts" for i
    using assms that by (simp add: ordered_def)
  have in_range: "i < length ts" if "holder l = Some i" for l i
    using assms that by (auto simp: ordered_def)
  show ?thesis
  proof (cases "holder QueueLock")
    case (Some i)
    then obtain rest where "ts ! i = Release QueueLock # rest"
      using stage_with_queue [OF stage [OF in_range [OF Some]]] by (auto simp: held_by_def)
    then show ?thesis using release_not_stuck in_range [OF Some] Some by metis
  next
    case queue: None
    show ?thesis
    proof (cases "holder SessionsLock")
      case (Some i)
      then consider rest where "ts ! i = Release SessionsLock # rest" | rest where "ts ! i = Acquire QueueLock # rest"
        using stage_with_sessions [OF stage [OF in_range [OF Some]]] queue by (auto simp: held_by_def)
      then show ?thesis
        by cases (metis release_not_stuck in_range Some, metis acquire_not_stuck in_range Some queue)
    next
      case None
      show ?thesis
      proof (cases "all_done (ts, holder)")
        case True
        then show ?thesis by (simp add: stuck_def)
      next
        case False
        then obtain i where i: "i < length ts" "ts ! i \<noteq> []" by (auto simp: all_done_def in_set_conv_nth)
        have "holder l = None" for l using queue None by (cases l) auto
        then have "held_by holder i = {}" by (auto simp: held_by_def)
        then obtain rest where "ts ! i = Acquire SessionsLock # rest"
          using stage_without stage [OF i(1)] i(2) by fastforce
        then show ?thesis using acquire_not_stuck i(1) None by metis
      qed
    qed
  qed
qed

interpretation lock_order: invariant_system lock_step "\<lambda>_. True" ordered
  by unfold_locales (rule ordered_step)

text \<open>
  C39. The locks are safe without the queue processor and can deadlock with it. Any number of
  threads that authorise, complete, count or report failures never get stuck, in any interleaving.
  A thread that processes the queue with a failing sweep takes the locks in the opposite order:
  beside a single thread that reports a failure there is an interleaving after which neither can
  ever continue.
\<close>

theorem session_locks:
  "(\<forall>ts x is. set ts \<subseteq> {sessions_section, failed_sweep_locks} \<longrightarrow>
      run lock_step (ts, \<lambda>_. None) is x \<longrightarrow> \<not> stuck x) \<and>
   (\<forall>n k. 0 < n \<longrightarrow> (\<exists>is x. run lock_step ([failed_sweep_locks, process_queue_locks n k], \<lambda>_. None) is x \<and> stuck x))"
proof (intro conjI allI impI)
  fix ts x "is"
  assume ts: "set ts \<subseteq> {sessions_section, failed_sweep_locks}" and run: "run lock_step (ts, \<lambda>_. None) is x"
  have "ts ! i \<in> {sessions_section, failed_sweep_locks}" if "i < length ts" for i
    using ts that by (meson nth_mem subsetD)
  then have "ordered (ts, \<lambda>_. None)" by (fastforce simp: ordered_def stages_def held_by_def)
  then have "ordered x" using lock_order.run_inv [OF run] by (simp add: list_all_iff)
  then show "\<not> stuck x" using ordered_not_stuck by (metis prod.collapse)
next
  fix n k :: nat
  assume "0 < n"
  then obtain j where n: "n = Suc j" by (cases n) auto
  define rest where "rest = concat (replicate j sessions_section) @ concat (replicate k sessions_section) @ [Release QueueLock]"
  define p where "p = Acquire SessionsLock # Release SessionsLock # rest"
  have process: "process_queue_locks n k = Acquire QueueLock # p"
    by (simp add: process_queue_locks_def n p_def rest_def sessions_section_def)
  define x where "x = ([tl failed_sweep_locks, Acquire QueueLock # p], (\<lambda>_. None)(SessionsLock := Some (0 :: nat)))"
  define y where "y = ([tl failed_sweep_locks, p], ((\<lambda>_. None)(SessionsLock := Some (0 :: nat)))(QueueLock := Some 1))"
  have "lock_step ([failed_sweep_locks, process_queue_locks n k], \<lambda>_. None) 0 x"
    using acquire [of 0 "[failed_sweep_locks, process_queue_locks n k]" SessionsLock "tl failed_sweep_locks" "\<lambda>_. None"]
    by (simp add: x_def process failed_sweep_locks_def)
  moreover have "lock_step x 1 y"
    using acquire [of 1 "[tl failed_sweep_locks, Acquire QueueLock # p]" QueueLock p "(\<lambda>_. None)(SessionsLock := Some 0)"]
    by (simp add: x_def y_def)
  ultimately have "run lock_step ([failed_sweep_locks, process_queue_locks n k], \<lambda>_. None) [0, 1] y"
    by (meson run.intros)
  moreover have "stuck y"
  proof -
    have "\<not> lock_step y i z" for i z
      by (auto simp: y_def failed_sweep_locks_def p_def less_Suc_eq elim!: lock_step.cases)
    then show ?thesis by (simp add: stuck_def all_done_def y_def p_def)
  qed
  ultimately show "\<exists>is x. run lock_step ([failed_sweep_locks, process_queue_locks n k], \<lambda>_. None) is x \<and> stuck x"
    by (intro exI conjI)
qed

theorem session_locks_witness:
  "\<exists>is x. run lock_step ([failed_sweep_locks, process_queue_locks 1 0], \<lambda>_. None) is x \<and> stuck x"
  using session_locks by (metis zero_less_one)

end
