(* ===== verification/Keeper_Observers.thy ===== *)
theory Keeper_Observers
  imports Keeper_Snipers "HOL-Library.Sublist"
begin

text \<open>
  The loops of the keeper's observers around the memory and the filters of the theory of the
  snipers: one poll of the mempool observer (mempool\_sniper.rs), one poll of one node by the
  observer of all shards (ws\_sniper.rs) with the channel it hands opportunities to, and three
  smaller observers: the calibration of the latency (sniffer.rs), the counter of the dashboard
  (tui.rs) and the exchange relayer of the simulation (cex\_relayer.rs). What a node answers is
  an argument; the accents of the messages are left out.
\<close>

section \<open>The mempool observer\<close>

text \<open>
  A poll that failed, a status other than success, or the pool: a list of entries whose fields
  may be missing. A body that does not parse, or has no pool, counts as an empty list.
\<close>

datatype pool_reply = PoolDown | PoolStatus nat | PoolBody "mempool_transaction option list"

definition blank_transaction :: mempool_transaction where
  "blank_transaction = \<lparr>mt_hash = [], mt_sender = [], mt_receiver = [], mt_data = [], mt_gas_price = 0\<rparr>"

fun mempool_scan ::
  "(string \<Rightarrow> bytes option) \<Rightarrow> (string \<Rightarrow> nat option) \<Rightarrow> string \<Rightarrow> mempool_transaction option list
    \<Rightarrow> seen_hashes \<Rightarrow> victim_detected list \<times> seen_hashes" where
  "mempool_scan b64 parse target_dex [] m = ([], m)"
| "mempool_scan b64 parse target_dex (wrapper # rest) m =
     (let raw_tx = (case wrapper of Some t \<Rightarrow> t | None \<Rightarrow> blank_transaction) in
      case observe mempool_cap (mt_hash raw_tx) m of
        (False, m) \<Rightarrow> mempool_scan b64 parse target_dex rest m
      | (True, m) \<Rightarrow>
          (let (victims, m) = mempool_scan b64 parse target_dex rest m in
           (case analyze_target b64 parse raw_tx target_dex of
              None \<Rightarrow> victims
            | Some v \<Rightarrow> v # victims, m)))"

text \<open>The victims of one poll, the memory, and how long it sleeps (in milliseconds) before the next.\<close>

definition mempool_poll ::
  "(string \<Rightarrow> bytes option) \<Rightarrow> (string \<Rightarrow> nat option) \<Rightarrow> string \<Rightarrow> pool_reply
    \<Rightarrow> seen_hashes \<Rightarrow> victim_detected list \<times> seen_hashes \<times> nat" where
  "mempool_poll b64 parse target_dex reply m = (case reply of
     PoolBody wrappers \<Rightarrow>
       (case mempool_scan b64 parse target_dex wrappers m of (victims, m) \<Rightarrow> (victims, m, 400))
   | PoolStatus code \<Rightarrow> ([], m, (if code = 429 then 5000 else 0) + 400)
   | PoolDown \<Rightarrow> ([], m, 400))"

section \<open>The observer of all shards\<close>

text \<open>A field of a JSON object: missing, not of the wanted kind, or there.\<close>

datatype 'a field = Missing | Other | Field 'a

definition field_or :: "'a \<Rightarrow> 'a field \<Rightarrow> 'a" where
  "field_or d f = (case f of Field x \<Rightarrow> x | _ \<Rightarrow> d)"

record pool_entry =
  pe_hash :: "string field"
  pe_tx_hash :: "string field"
  pe_receiver :: "string field"
  pe_data :: "string field"
  pe_gas_price :: "u64 field"

text \<open>The second name of the hash counts only when the first is missing.\<close>

definition entry_hash :: "pool_entry \<Rightarrow> string" where
  "entry_hash e = field_or [] (case pe_hash e of Missing \<Rightarrow> pe_tx_hash e | f \<Rightarrow> f)"

text \<open>
  The data is read as Base64 where it is Base64, bytes that are not text being replaced
  (\<open>lossy\<close>), and as it stands otherwise.
\<close>

definition entry_text :: "(string \<Rightarrow> bytes option) \<Rightarrow> (bytes \<Rightarrow> string) \<Rightarrow> string \<Rightarrow> string" where
  "entry_text b64 lossy raw_data = (case b64 raw_data of Some bs \<Rightarrow> lossy bs | None \<Rightarrow> raw_data)"

text \<open>A channel of bounded capacity; what does not fit is dropped.\<close>

definition try_send :: "nat \<Rightarrow> 'a \<Rightarrow> 'a list \<Rightarrow> 'a list" where
  "try_send capacity x ch = (if length ch < capacity then ch @ [x] else ch)"

definition ws_entry ::
  "(string \<Rightarrow> bytes option) \<Rightarrow> (bytes \<Rightarrow> string) \<Rightarrow> pool_entry \<Rightarrow> seen_hashes
    \<Rightarrow> arbitrage_opportunity option \<times> seen_hashes" where
  "ws_entry b64 lossy e m =
     (let hash = entry_hash e in
      case observe ws_cap hash m of
        (False, m) \<Rightarrow> (None, m)
      | (True, m) \<Rightarrow>
          let receiver = field_or [] (pe_receiver e);
              raw_data = field_or [] (pe_data e);
              gas_price = field_or 0 (pe_gas_price e)
          in if raw_data = [] then (None, m)
             else (ws_opportunity hash receiver gas_price (entry_text b64 lossy raw_data), m))"

fun ws_scan ::
  "(string \<Rightarrow> bytes option) \<Rightarrow> (bytes \<Rightarrow> string) \<Rightarrow> nat \<Rightarrow> pool_entry list
    \<Rightarrow> seen_hashes \<times> arbitrage_opportunity list \<Rightarrow> seen_hashes \<times> arbitrage_opportunity list" where
  "ws_scan b64 lossy capacity [] st = st"
| "ws_scan b64 lossy capacity (e # rest) (m, ch) =
     (case ws_entry b64 lossy e m of
        (None, m) \<Rightarrow> ws_scan b64 lossy capacity rest (m, ch)
      | (Some op, m) \<Rightarrow> ws_scan b64 lossy capacity rest (m, try_send capacity op ch))"

section \<open>Smaller observers\<close>

text \<open>Round trips in nanoseconds; half of their mean, or 80 milliseconds when every ping failed.\<close>

definition calibrate_network_latency :: "nat list \<Rightarrow> nat" where
  "calibrate_network_latency latencies =
     (if latencies = [] then 80000000
      else let avg_latency = sum_list latencies div length latencies in avg_latency div 2)"

record app_stats =
  total_tx_sent :: u64
  total_errors :: u64
  current_tps :: u64
  active_workers :: u64

definition app_stats_new :: app_stats where
  "app_stats_new = \<lparr>total_tx_sent = 0, total_errors = 0, current_tps = 0, active_workers = 0\<rparr>"

text \<open>Once a second: what was sent since the last time, which saturates at zero.\<close>

definition dashboard_tick :: "nat \<Rightarrow> u64 \<Rightarrow> app_stats \<Rightarrow> u64 \<times> app_stats" where
  "dashboard_tick elapsed_ms last_tx_count st =
     (if 1000 \<le> elapsed_ms then
        let current_total = total_tx_sent st;
            tps = (if last_tx_count \<le> current_total then current_total - last_tx_count else 0)
        in (current_total, st\<lparr>current_tps := tps\<rparr>)
      else (last_tx_count, st))"

datatype sim_network_status = Online | Maintenance | Suspended

record sim_secrets =
  sim_blob :: bytes
  enclave_attestation_signature :: string

definition sim_binance_health :: "sim_network_status \<Rightarrow> bool" where
  "sim_binance_health status \<longleftrightarrow> status = Online"

definition sim_decrypt_secrets :: "sim_secrets \<Rightarrow> string + string \<times> string" where
  "sim_decrypt_secrets secrets =
     (if length (enclave_attestation_signature secrets) < 64
      then Inl ''ERROR: Intento de spoofing de enclave detectado. Firma de atestacion invalida.''
      else Inr (''BINANCE_API_KEY_SIMULATED'', ''BINANCE_API_SECRET_SIMULATED''))"

definition sim_reverse_dca :: "sim_secrets \<Rightarrow> string + string" where
  "sim_reverse_dca encrypted_keys = (case sim_decrypt_secrets encrypted_keys of
     Inl e \<Rightarrow> Inl e
   | Inr _ \<Rightarrow> Inr ''SUCCESS: Reverse DCA completado. Memoria RAM sobrescrita con ceros (0x00).'')"

section \<open>What the loops report\<close>

definition wrapper_hash :: "mempool_transaction option \<Rightarrow> string" where
  "wrapper_hash w = mt_hash (case w of Some t \<Rightarrow> t | None \<Rightarrow> blank_transaction)"

lemma analyze_target_hash:
  "analyze_target b64 parse t dex = Some v \<Longrightarrow> vd_victim_hash v = mt_hash t \<and> vd_pair_address v = dex"
  by (auto simp: analyze_target_def Let_def split: if_splits option.splits)

text \<open>A scan walks the memory over all hashes, and reports a part of what is new.\<close>

lemma mempool_scan_memory: "snd (mempool_scan b64 parse dex ws m) = memory_after mempool_cap (map wrapper_hash ws) m"
proof (induction ws arbitrary: m)
  case (Cons w ws)
  obtain b m' where o: "observe mempool_cap (wrapper_hash w) m = (b, m')" by fastforce
  show ?case
    using Cons [of m'] o by (cases b) (simp_all add: wrapper_hash_def Let_def case_prod_beta)
qed simp

lemma mempool_scan_reports:
  "subseq (map vd_victim_hash (fst (mempool_scan b64 parse dex ws m))) (reported mempool_cap (map wrapper_hash ws) m)"
proof (induction ws arbitrary: m)
  case (Cons w ws)
  obtain b m' where o: "observe mempool_cap (wrapper_hash w) m = (b, m')" by fastforce
  show ?case
  proof (cases b)
    case False
    then show ?thesis using Cons [of m'] o by (simp add: wrapper_hash_def Let_def)
  next
    case True
    let ?t = "case w of Some t \<Rightarrow> t | None \<Rightarrow> blank_transaction"
    obtain vs m2 where r: "mempool_scan b64 parse dex ws m' = (vs, m2)" by fastforce
    have ih: "subseq (map vd_victim_hash vs) (reported mempool_cap (map wrapper_hash ws) m')"
      using Cons [of m'] r by simp
    have new: "reported mempool_cap (map wrapper_hash (w # ws)) m =
        wrapper_hash w # reported mempool_cap (map wrapper_hash ws) m'"
      using o True by simp
    show ?thesis
    proof (cases "analyze_target b64 parse ?t dex")
      case None
      then have "fst (mempool_scan b64 parse dex (w # ws) m) = vs"
        using o r True by (simp add: wrapper_hash_def Let_def)
      then show ?thesis unfolding new using ih by (simp only:) (rule list_emb_Cons)
    next
      case (Some v)
      then have "fst (mempool_scan b64 parse dex (w # ws) m) = v # vs"
        using o r True by (simp add: wrapper_hash_def Let_def)
      moreover have "vd_victim_hash v = wrapper_hash w"
        using analyze_target_hash [OF Some] by (simp add: wrapper_hash_def)
      ultimately show ?thesis unfolding new using ih by simp
    qed
  qed
qed simp

text \<open>Any number of polls, one after the other.\<close>

fun mempool_polls ::
  "(string \<Rightarrow> bytes option) \<Rightarrow> (string \<Rightarrow> nat option) \<Rightarrow> string \<Rightarrow> pool_reply list
    \<Rightarrow> seen_hashes \<Rightarrow> victim_detected list" where
  "mempool_polls b64 parse dex [] m = []"
| "mempool_polls b64 parse dex (r # rs) m =
     (case mempool_poll b64 parse dex r m of (vs, m', ms) \<Rightarrow> vs @ mempool_polls b64 parse dex rs m')"

definition polled_hashes :: "pool_reply list \<Rightarrow> string list" where
  "polled_hashes rs = concat (map (\<lambda>r. case r of PoolBody ws \<Rightarrow> map wrapper_hash ws | _ \<Rightarrow> []) rs)"

lemma reported_append:
  "reported cap (xs @ ys) m = reported cap xs m @ reported cap ys (memory_after cap xs m)"
proof (induction xs arbitrary: m)
  case (Cons x xs)
  obtain b m' where "observe cap x m = (b, m')" by fastforce
  then show ?case using Cons [of m'] by (cases b) simp_all
qed simp

lemma reported_subseq: "subseq (reported cap hs m) hs"
proof (induction hs arbitrary: m)
  case (Cons h hs)
  obtain b m' where "observe cap h m = (b, m')" by fastforce
  then show ?case using Cons [of m'] by (cases b) (auto intro: list_emb_Cons)
qed simp

lemma mempool_polls_reports:
  "subseq (map vd_victim_hash (mempool_polls b64 parse dex rs m)) (reported mempool_cap (polled_hashes rs) m)"
proof (induction rs arbitrary: m)
  case (Cons r rs)
  show ?case
  proof (cases r)
    case (PoolBody ws)
    obtain vs m' where sc: "mempool_scan b64 parse dex ws m = (vs, m')" by fastforce
    have "m' = memory_after mempool_cap (map wrapper_hash ws) m"
      using mempool_scan_memory [of b64 parse dex ws m] sc by simp
    moreover have "subseq (map vd_victim_hash vs) (reported mempool_cap (map wrapper_hash ws) m)"
      using mempool_scan_reports [of b64 parse dex ws m] sc by simp
    ultimately show ?thesis
      using Cons [of m'] sc
      by (simp add: PoolBody mempool_poll_def polled_hashes_def reported_append list_emb_append_mono)
  qed (use Cons in \<open>simp_all add: mempool_poll_def polled_hashes_def\<close>)
qed (simp add: polled_hashes_def)

lemma subseq_part: "subseq xs ys \<Longrightarrow> set xs \<subseteq> set ys \<and> (distinct ys \<longrightarrow> distinct xs)"
  by (induction rule: list_emb.induct) auto

lemma spaced_distinct: "spaced gap xs \<Longrightarrow> length xs \<le> Suc gap \<Longrightarrow> distinct xs"
proof (unfold distinct_conv_nth, intro allI impI)
  fix i j assume "spaced gap xs" "length xs \<le> Suc gap" "i < length xs" "j < length xs" "i \<noteq> j"
  then show "xs ! i \<noteq> xs ! j" unfolding spaced_def by (cases i j rule: linorder_cases) fastforce+
qed

text \<open>
  However the polls cut up the stream, the mempool observer hands over no victim twice while
  its memory lasts: among the victims of any sequence of polls that carry at most 20003
  transactions, no transaction occurs twice, and every victim is a transaction of the polls.
\<close>

theorem victims_reported_once:
  assumes "length (polled_hashes rs) \<le> 20003"
  shows "distinct (map vd_victim_hash (mempool_polls b64 parse dex rs no_hashes)) \<and>
     set (map vd_victim_hash (mempool_polls b64 parse dex rs no_hashes)) \<subseteq> set (polled_hashes rs)"
proof -
  let ?rep = "reported mempool_cap (polled_hashes rs) no_hashes"
  have sp: "spaced (2 * Suc mempool_cap) ([] @ ?rep)"
    using memory_inv_init by (rule reported_spaced) (simp add: spaced_def)
  have "length ?rep \<le> length (polled_hashes rs)" by (rule list_emb_length [OF reported_subseq])
  then have "distinct ?rep"
    using sp assms by (intro spaced_distinct [of "2 * Suc mempool_cap"]) (simp_all add: mempool_cap_def)
  then show ?thesis
    using subseq_part [OF mempool_polls_reports [of b64 parse dex rs no_hashes]]
      subseq_part [OF reported_subseq [of mempool_cap "polled_hashes rs" no_hashes]] by blast
qed

text \<open>The channel never holds more than its capacity, and opportunities come out in the order they were found.\<close>

theorem channel_bounded:
  "length ch \<le> capacity \<Longrightarrow> length (snd (ws_scan b64 lossy capacity es (m, ch))) \<le> capacity \<and>
   (\<exists>more. snd (ws_scan b64 lossy capacity es (m, ch)) = ch @ more)"
proof (induction es arbitrary: m ch)
  case (Cons e es)
  obtain r m' where e: "ws_entry b64 lossy e m = (r, m')" by fastforce
  show ?case
  proof (cases r)
    case None
    then show ?thesis using Cons e by simp
  next
    case (Some op)
    have "length (try_send capacity op ch) \<le> capacity" using Cons.prems by (simp add: try_send_def)
    from Cons.IH [OF this, of m'] show ?thesis using e Some by (auto simp: try_send_def)
  qed
qed simp

section \<open>What the smaller ones compute\<close>

text \<open>The calibrated latency lies between half the shortest and half the longest round trip.\<close>

theorem latency_between:
  assumes "ls \<noteq> []"
  shows "Min (set ls) div 2 \<le> calibrate_network_latency ls \<and> calibrate_network_latency ls \<le> Max (set ls) div 2"
proof -
  have n: "0 < length ls" using assms by simp
  have "length ls * Min (set ls) \<le> sum_list ls"
    using sum_list_mono [of ls "\<lambda>_. Min (set ls)" id] by (simp add: sum_list_triv)
  then have "Min (set ls) \<le> sum_list ls div length ls" using n by (simp add: less_eq_div_iff_mult_less_eq mult.commute)
  moreover have "sum_list ls \<le> length ls * Max (set ls)"
    using sum_list_mono [of ls id "\<lambda>_. Max (set ls)"] by (simp add: sum_list_triv)
  then have "sum_list ls div length ls \<le> Max (set ls)"
    using n div_le_mono [of "sum_list ls" "length ls * Max (set ls)" "length ls"] by simp
  ultimately show ?thesis using assms by (simp add: calibrate_network_latency_def Let_def div_le_mono)
qed

text \<open>
  The simulated enclave never looks at what it is given: it accepts any signature of at least
  64 characters, and opens every blob to the same keys.
\<close>

theorem attestation_by_length:
  "sim_reverse_dca x = sim_reverse_dca y \<longleftrightarrow>
     (64 \<le> length (enclave_attestation_signature x) \<longleftrightarrow> 64 \<le> length (enclave_attestation_signature y))"
  by (auto simp: sim_reverse_dca_def sim_decrypt_secrets_def)

end
