(* ===== verification/Xse_Validator.thy ===== *)
theory Xse_Validator
  imports Rust_Text
begin

text \<open>
  The intents of the enclave service and their admission (xse-protocol/src/schema.rs and
  validator.rs). The parser of dates comes from a library and is a parameter \<open>dt\<close>, as is the
  current time \<open>now\<close>, in the unit the parser uses.
\<close>

section \<open>Intents\<close>

record order_intent =
  o_side :: string
  o_asset :: string
  o_max_quote_amount_atomic :: string
  o_order_type :: string

record xse_constraints =
  max_slippage_bps :: u32
  expires_at :: string
  allowed_assets :: "string list"
  allow_withdrawals :: bool

record execution_intent =
  x_intent_type :: string
  x_venue :: string
  x_mode :: string
  x_source_asset :: string
  x_orders :: "order_intent list"
  x_constraints :: xse_constraints
  x_client_reference_id :: string

record batch_execution_intent =
  batch_id :: string
  b_nonce :: u64
  b_timestamp :: "64 word"
  b_intents :: "execution_intent list"
  b_atomic :: bool

record failure_context =
  failed_intent_index :: nat
  error_code :: string
  error_message :: string
  partial_execution :: bool

record executed_order =
  eo_intent_index :: nat
  eo_asset :: string
  eo_side :: string
  eo_requested_quote :: string
  eo_executed_quote :: string
  eo_executed_base :: string
  eo_average_price :: string
  eo_venue_order_id :: string
  eo_venue :: string

record xse_proof =
  executor_id :: string
  attestation_hash :: string
  receipt_hash :: string

record execution_receipt =
  r_batch_id :: string
  r_status :: string
  r_failure_context :: "failure_context option"
  r_orders :: "executed_order list"
  r_total_executed_quote :: string
  r_timestamp :: "64 word"
  r_proof :: xse_proof
  r_metadata :: "string \<rightharpoonup> string"

datatype validation_error = WithdrawalsEnabled | Expired | AssetNotAllowed string
  | ExcessiveSlippage u32 | InvalidQuantumSignature | BatchSizeExceeded nat | InvalidVenue string

text \<open>The message of an error.\<close>

fun display_error :: "validation_error \<Rightarrow> string" where
  "display_error WithdrawalsEnabled = ''CRITICAL: allow_withdrawals must be false''"
| "display_error Expired = ''Intent has expired''"
| "display_error (AssetNotAllowed a) = ''Asset not in allowed_assets: '' @ a"
| "display_error (ExcessiveSlippage bps) =
     ''Requested slippage '' @ dec (unat bps) @ '' bps exceeds institutional limit of 100 bps (1%)''"
| "display_error InvalidQuantumSignature = ''CRITICAL: FIPS-204 Quantum Signature Verification Failed''"
| "display_error (BatchSizeExceeded n) = ''Batch size '' @ dec n @ '' exceeds limit of 50''"
| "display_error (InvalidVenue v) =
     ''Requested venue '' @ [CHR 0x27] @ v @ [CHR 0x27] @ '' is not supported. Supported: binance, xexchange, ashswap, dry_run''"

section \<open>Validation\<close>

definition MAX_BATCH_SIZE :: nat where "MAX_BATCH_SIZE = 50"

definition supported_venues :: "string list" where
  "supported_venues = [''binance'', ''xexchange'', ''ashswap'', ''dry_run'']"

fun check_orders :: "string list \<Rightarrow> order_intent list \<Rightarrow> validation_error + unit" where
  "check_orders assets [] = Inr ()"
| "check_orders assets (od # rest) =
     (if parse_or_zero (o_max_quote_amount_atomic od) = 0
      then Inl (AssetNotAllowed ''INVALID_AMOUNT_ZERO_OR_NON_NUMERIC'')
      else if o_asset od \<notin> set assets then Inl (AssetNotAllowed (o_asset od))
      else check_orders assets rest)"

definition validate_intent ::
  "(string \<Rightarrow> int option) \<Rightarrow> int \<Rightarrow> execution_intent \<Rightarrow> bytes option \<Rightarrow> validation_error + unit" where
  "validate_intent dt now x quantum_signature =
     (let k = x_constraints x in
      if allow_withdrawals k then Inl WithdrawalsEnabled
      else if to_lower (x_venue x) \<notin> set supported_venues then Inl (InvalidVenue (x_venue x))
      else if 100 < max_slippage_bps k then Inl (ExcessiveSlippage (max_slippage_bps k))
      else case check_orders (allowed_assets k) (x_orders x) of
        Inl e \<Rightarrow> Inl e
      | Inr _ \<Rightarrow>
          (case quantum_signature of
             None \<Rightarrow> Inl InvalidQuantumSignature
           | Some sig \<Rightarrow>
               if sig = [] then Inl InvalidQuantumSignature
               else case dt (expires_at k) of
                 None \<Rightarrow> Inl Expired
               | Some t \<Rightarrow> if t < now then Inl Expired else Inr ()))"

definition sig_at :: "bytes option list \<Rightarrow> nat \<Rightarrow> bytes option" where
  "sig_at sigs i = (if i < length sigs then sigs ! i else None)"

text \<open>
  The loop over the intents of a batch, with the indices found valid so far. Each intent is
  validated against its own reading of the clock: \<open>now i\<close> is the time read for the intent at index \<open>i\<close>.
\<close>

fun batch_loop ::
  "(string \<Rightarrow> int option) \<Rightarrow> (nat \<Rightarrow> int) \<Rightarrow> bool \<Rightarrow> bytes option list \<Rightarrow> nat \<Rightarrow> nat list \<Rightarrow> execution_intent list
    \<Rightarrow> (nat \<times> validation_error) + nat list" where
  "batch_loop dt now atomic sigs index valid [] = Inr valid"
| "batch_loop dt now atomic sigs index valid (x # rest) =
     (case validate_intent dt (now index) x (sig_at sigs index) of
        Inr _ \<Rightarrow> batch_loop dt now atomic sigs (Suc index) (valid @ [index]) rest
      | Inl e \<Rightarrow> if atomic then Inl (index, e)
                 else batch_loop dt now atomic sigs (Suc index) valid rest)"

definition validate_batch ::
  "(string \<Rightarrow> int option) \<Rightarrow> (nat \<Rightarrow> int) \<Rightarrow> batch_execution_intent \<Rightarrow> bytes option list
    \<Rightarrow> (nat \<times> validation_error) + nat list" where
  "validate_batch dt now b signatures =
     (if batch_id b = [] then Inl (0, AssetNotAllowed ''MISSING_BATCH_ID'')
      else if MAX_BATCH_SIZE < length (b_intents b)
           then Inl (0, BatchSizeExceeded (length (b_intents b)))
      else batch_loop dt now (b_atomic b) signatures 0 [] (b_intents b))"

section \<open>Messages\<close>

text \<open>The message determines the error, with the asset, the venue or the number in it.\<close>

theorem display_error_inject: "display_error e = display_error e' \<longleftrightarrow> e = e'"
  by (cases e; cases e') (auto simp: word_unat_eq_iff)

section \<open>What admission means\<close>

text \<open>The rules an accepted intent obeys, as one predicate.\<close>

definition order_admissible :: "string list \<Rightarrow> order_intent \<Rightarrow> bool" where
  "order_admissible assets od \<longleftrightarrow>
     (\<exists>v. parse_u128 (o_max_quote_amount_atomic od) = Some v \<and> v \<noteq> 0) \<and> o_asset od \<in> set assets"

definition admissible :: "(string \<Rightarrow> int option) \<Rightarrow> int \<Rightarrow> execution_intent \<Rightarrow> bytes option \<Rightarrow> bool" where
  "admissible dt now x sig \<longleftrightarrow>
     \<not> allow_withdrawals (x_constraints x) \<and> to_lower (x_venue x) \<in> set supported_venues \<and>
     max_slippage_bps (x_constraints x) \<le> 100 \<and>
     list_all (order_admissible (allowed_assets (x_constraints x))) (x_orders x) \<and>
     (\<exists>s. sig = Some s \<and> s \<noteq> []) \<and>
     (\<exists>t. dt (expires_at (x_constraints x)) = Some t \<and> now \<le> t)"

lemma check_orders_ok:
  "check_orders assets os = Inr u \<longleftrightarrow> list_all (order_admissible assets) os"
  by (induction os) (auto simp: order_admissible_def split: option.splits)

lemma validate_intent_ok: "validate_intent dt now x sig = Inr () \<longleftrightarrow> admissible dt now x sig"
proof (cases "check_orders (allowed_assets (x_constraints x)) (x_orders x)")
  case (Inl e)
  then have "\<not> list_all (order_admissible (allowed_assets (x_constraints x))) (x_orders x)"
    by (metis check_orders_ok Inl_Inr_False)
  with Inl show ?thesis by (simp add: validate_intent_def admissible_def Let_def)
next
  case (Inr u)
  then have "list_all (order_admissible (allowed_assets (x_constraints x))) (x_orders x)"
    using check_orders_ok by blast
  with Inr show ?thesis
    by (cases sig; cases "dt (expires_at (x_constraints x))")
      (simp_all add: validate_intent_def admissible_def Let_def not_less linorder_not_le)
qed

text \<open>The indices of a list that pass.\<close>

definition passing :: "(string \<Rightarrow> int option) \<Rightarrow> (nat \<Rightarrow> int) \<Rightarrow> bytes option list \<Rightarrow> nat \<Rightarrow> execution_intent list \<Rightarrow> nat list" where
  "passing dt now sigs k xs =
     filter (\<lambda>i. admissible dt (now i) (xs ! (i - k)) (sig_at sigs i)) [k ..< k + length xs]"

lemma passing_Nil [simp]: "passing dt now sigs k [] = []"
  by (simp add: passing_def)

lemma passing_Cons [simp]:
  "passing dt now sigs k (x # xs) =
     (if admissible dt (now k) x (sig_at sigs k) then [k] else []) @ passing dt now sigs (Suc k) xs"
proof -
  have "filter (\<lambda>i. admissible dt (now i) ((x # xs) ! (i - k)) (sig_at sigs i)) [Suc k ..< Suc k + length xs] =
      filter (\<lambda>i. admissible dt (now i) (xs ! (i - Suc k)) (sig_at sigs i)) [Suc k ..< Suc k + length xs]"
    by (rule filter_cong) (auto simp: nth_Cons' diff_Suc split: nat.splits)
  then show ?thesis by (simp add: passing_def upt_conv_Cons del: upt_Suc)
qed

text \<open>One round of the loop.\<close>

lemma batch_loop_Cons:
  "batch_loop dt now atomic sigs k valid (x # xs) =
     (if admissible dt (now k) x (sig_at sigs k) then batch_loop dt now atomic sigs (Suc k) (valid @ [k]) xs
      else if atomic then Inl (k, projl (validate_intent dt (now k) x (sig_at sigs k)))
      else batch_loop dt now atomic sigs (Suc k) valid xs)"
  using validate_intent_ok [of dt "now k" x "sig_at sigs k"]
  by (cases "validate_intent dt (now k) x (sig_at sigs k)") auto

lemma batch_loop_tolerant:
  "batch_loop dt now False sigs k valid xs = Inr (valid @ passing dt now sigs k xs)"
  by (induction xs arbitrary: k valid) (simp_all add: batch_loop_Cons del: batch_loop.simps(2))

lemma find_map_Suc: "find P (map Suc ys) = map_option Suc (find (\<lambda>i. P (Suc i)) ys)"
  by (induction ys) auto

lemma batch_loop_atomic:
  "batch_loop dt now True sigs k valid xs =
     (case find (\<lambda>i. \<not> admissible dt (now (k + i)) (xs ! i) (sig_at sigs (k + i))) [0 ..< length xs] of
        None \<Rightarrow> Inr (valid @ [k ..< k + length xs])
      | Some i \<Rightarrow> Inl (k + i, projl (validate_intent dt (now (k + i)) (xs ! i) (sig_at sigs (k + i)))))"
proof (induction xs arbitrary: k valid)
  case (Cons x xs)
  have "[0 ..< length (x # xs)] = 0 # map Suc [0 ..< length xs]"
    by (simp add: upt_conv_Cons map_Suc_upt del: upt_Suc)
  then show ?case
    by (simp add: batch_loop_Cons Cons.IH find_map_Suc upt_conv_Cons del: batch_loop.simps(2) upt_Suc
        split: option.splits)
qed simp

lemma find_upt_first:
  "find P [0 ..< n] = Some i \<longleftrightarrow> i < n \<and> P i \<and> (\<forall>j < i. \<not> P j)"
proof
  assume "find P [0 ..< n] = Some i"
  then show "i < n \<and> P i \<and> (\<forall>j < i. \<not> P j)" by (auto simp: find_Some_iff)
next
  assume "i < n \<and> P i \<and> (\<forall>j < i. \<not> P j)"
  then show "find P [0 ..< n] = Some i" by (auto simp: find_Some_iff intro!: exI [of _ i])
qed

lemma find_upt_none: "find P [0 ..< n] = None \<longleftrightarrow> (\<forall>j < n. \<not> P j)"
  by (auto simp: find_None_iff)

text \<open>
  C34. Batches are validated exactly. For a batch with an identifier and at most fifty intents,
  a tolerant batch yields precisely the indices of its admissible intents, in order, and never an
  error; an atomic batch is accepted exactly when every intent is admissible, and otherwise the
  error names the first intent that is not, with the error of that intent. An intent is
  admissible when withdrawals are off, its venue is supported, its slippage is at most one
  percent, every order names a positive amount that fits in 128 bits and an allowed asset, it
  carries a signature of at least one byte, and its expiry is a date that has not passed at the
  time the clock shows when this intent is validated; the clock is read again for every intent.
\<close>

theorem batch_validation_exact:
  assumes "batch_id b \<noteq> []" and "length (b_intents b) \<le> 50"
  shows "(\<not> b_atomic b \<longrightarrow> validate_batch dt now b sigs =
       Inr (filter (\<lambda>i. admissible dt (now i) (b_intents b ! i) (sig_at sigs i)) [0 ..< length (b_intents b)]))
   \<and> (b_atomic b \<longrightarrow>
       (\<forall>r. validate_batch dt now b sigs = Inr r \<longleftrightarrow> r = [0 ..< length (b_intents b)] \<and>
          (\<forall>i < length (b_intents b). admissible dt (now i) (b_intents b ! i) (sig_at sigs i))) \<and>
       (\<forall>i e. validate_batch dt now b sigs = Inl (i, e) \<longleftrightarrow> i < length (b_intents b) \<and>
          validate_intent dt (now i) (b_intents b ! i) (sig_at sigs i) = Inl e \<and>
          (\<forall>j < i. admissible dt (now j) (b_intents b ! j) (sig_at sigs j))))"
proof (cases "b_atomic b")
  case False
  have "validate_batch dt now b sigs = Inr (passing dt now sigs 0 (b_intents b))"
    using assms False by (simp add: validate_batch_def MAX_BATCH_SIZE_def batch_loop_tolerant)
  with False show ?thesis by (simp add: passing_def)
next
  case True
  define bad where "bad = (\<lambda>i. \<not> admissible dt (now i) (b_intents b ! i) (sig_at sigs i))"
  have eq: "validate_batch dt now b sigs = (case find bad [0 ..< length (b_intents b)] of
      None \<Rightarrow> Inr [0 ..< length (b_intents b)]
    | Some i \<Rightarrow> Inl (i, projl (validate_intent dt (now i) (b_intents b ! i) (sig_at sigs i))))"
    using assms True by (simp add: validate_batch_def MAX_BATCH_SIZE_def batch_loop_atomic bad_def
        cong: option.case_cong)
  show ?thesis
  proof (cases "find bad [0 ..< length (b_intents b)]")
    case None
    then have "\<forall>i < length (b_intents b). admissible dt (now i) (b_intents b ! i) (sig_at sigs i)"
      by (simp add: find_upt_none bad_def)
    moreover from this have "validate_intent dt (now i) (b_intents b ! i) (sig_at sigs i) \<noteq> Inl e"
      if "i < length (b_intents b)" for i e using that validate_intent_ok by (metis Inl_Inr_False)
    ultimately show ?thesis using True None by (auto simp: eq)
  next
    case (Some i)
    then have i: "i < length (b_intents b)" "bad i" "\<forall>j < i. \<not> bad j" by (auto simp: find_upt_first)
    obtain e where e: "validate_intent dt (now i) (b_intents b ! i) (sig_at sigs i) = Inl e"
      using i(2) validate_intent_ok [of dt "now i" "b_intents b ! i" "sig_at sigs i"]
      by (cases "validate_intent dt (now i) (b_intents b ! i) (sig_at sigs i)") (auto simp: bad_def)
    have "j = i \<and> e' = e"
      if "validate_intent dt (now j) (b_intents b ! j) (sig_at sigs j) = Inl e'" "\<forall>l < j. \<not> bad l" for j e'
    proof -
      have "bad j" using that(1) validate_intent_ok [of dt "now j" "b_intents b ! j" "sig_at sigs j"]
        by (auto simp: bad_def)
      then have "j = i" using that(2) i by (metis linorder_neqE_nat)
      then show ?thesis using that(1) e by simp
    qed
    then have "\<forall>j e'. Inl (i, e) = Inl (j, e') \<longleftrightarrow> j < length (b_intents b) \<and>
        validate_intent dt (now j) (b_intents b ! j) (sig_at sigs j) = Inl e' \<and> (\<forall>l < j. \<not> bad l)"
      using i e by blast
    moreover have "validate_batch dt now b sigs = Inl (i, e)" by (simp add: eq Some e)
    ultimately show ?thesis using True i(1,2) by (auto simp: bad_def)
  qed
qed

definition demo_exec_intent :: "string \<Rightarrow> execution_intent" where
  "demo_exec_intent asset = \<lparr>x_intent_type = ''single_asset_swap'', x_venue = ''Binance'', x_mode = ''dry_run'',
     x_source_asset = ''USDT'',
     x_orders = [\<lparr>o_side = ''BUY'', o_asset = asset, o_max_quote_amount_atomic = ''100'', o_order_type = ''MARKET''\<rparr>],
     x_constraints = \<lparr>max_slippage_bps = 100, expires_at = ''2030'', allowed_assets = [''ETH''],
       allow_withdrawals = False\<rparr>, x_client_reference_id = ''id''\<rparr>"

definition demo_batch :: "bool \<Rightarrow> batch_execution_intent" where
  "demo_batch atomic = \<lparr>batch_id = ''B1'', b_nonce = 1, b_timestamp = 0,
     b_intents = [demo_exec_intent ''DOGE'', demo_exec_intent ''ETH''], b_atomic = atomic\<rparr>"

lemma demo_admissible:
  "now \<le> 9 \<Longrightarrow> admissible (\<lambda>_. Some 9) now (demo_exec_intent ''ETH'') (Some ''s'')"
  "\<not> admissible (\<lambda>_. Some 9) now (demo_exec_intent ''DOGE'') (Some ''s'')"
proof -
  have "to_lower ''Binance'' = ''binance''" by code_simp
  moreover have "parse_u128 ''100'' = Some 100" by (simp add: parse_u128_def dec_value_def)
  moreover assume "now \<le> 9"
  ultimately show "admissible (\<lambda>_. Some 9) now (demo_exec_intent ''ETH'') (Some ''s'')"
    by (simp add: admissible_def demo_exec_intent_def order_admissible_def supported_venues_def)
next
  show "\<not> admissible (\<lambda>_. Some 9) now (demo_exec_intent ''DOGE'') (Some ''s'')"
    by (simp add: admissible_def demo_exec_intent_def order_admissible_def)
qed

theorem batch_validation_exact_witness:
  "validate_batch (\<lambda>_. Some 9) (\<lambda>i. 5 + int i) (demo_batch False) [Some ''s'', Some ''s''] = Inr [1] \<and>
   (\<forall>r. validate_batch (\<lambda>_. Some 9) (\<lambda>i. 5 + int i) (demo_batch True) [Some ''s'', Some ''s''] \<noteq> Inr r)"
  using batch_validation_exact
      [of "demo_batch False" "\<lambda>_. Some 9" "\<lambda>i. 5 + int i" "[Some ''s'', Some ''s'']"]
    batch_validation_exact
      [of "demo_batch True" "\<lambda>_. Some 9" "\<lambda>i. 5 + int i" "[Some ''s'', Some ''s'']"]
    demo_admissible
  by (auto simp: demo_batch_def sig_at_def upt_conv_Cons)

end
