(* ===== verification/Xse_Enclave.thy ===== *)
theory Xse_Enclave
  imports Xse_Validator
begin

text \<open>
  The enclave service after admission (xse-protocol/src/crypto.rs, quantum_shield.rs, relayer.rs
  and main.rs): secrets, authorisations, stealth keys, the orders sent to the exchange and the
  receipt. Cryptography, hexadecimal encoding, JSON and random numbers come from libraries: they
  are the fields of \<open>enclave_lib\<close>. Printed lines and delays are left out.
\<close>

section \<open>Libraries\<close>

record enclave_lib =
  sha256 :: "bytes \<Rightarrow> hash32"
  hex_encode :: "bytes \<Rightarrow> string"
  rsa_modulus :: bytes
  rsa_encrypt :: "bytes \<Rightarrow> bytes option"
  rsa_decrypt :: "bytes \<Rightarrow> bytes option"
  hmac_sha256 :: "bytes \<Rightarrow> bytes \<Rightarrow> bytes option"
  ed_point :: "bytes \<Rightarrow> bool"
  ed_verify :: "bytes \<Rightarrow> bytes \<Rightarrow> bytes \<Rightarrow> bool"
  ed_public :: "hash32 \<Rightarrow> hash32"
  ed_secret_bytes :: "hash32 \<Rightarrow> hash32"
  pq_public :: bytes
  pq_sign :: "bytes \<Rightarrow> bytes"
  pq_key_format :: "bytes \<Rightarrow> bool"
  pq_sig_format :: "bytes \<Rightarrow> bool"
  pq_verify :: "bytes \<Rightarrow> bytes \<Rightarrow> bytes \<Rightarrow> bool"
  orders_json :: "executed_order list \<Rightarrow> string"
  random_u32 :: "nat \<Rightarrow> u32"

section \<open>crypto.rs\<close>

record encrypted_secrets =
  es_blob :: bytes
  enclave_pubkey_hash :: string

record decrypted_api_keys =
  api_key :: string
  api_secret :: string

definition public_key_hash :: "enclave_lib \<Rightarrow> string" where
  "public_key_hash L = hex_encode L (bytes32 (sha256 L (rsa_modulus L)))"

text \<open>The comparison in constant time: the bits in which two texts differ, gathered in a byte.\<close>

fun ct_diff :: "u8 \<Rightarrow> string \<Rightarrow> string \<Rightarrow> u8" where
  "ct_diff diff (a # as) (b # bs) = ct_diff (or diff (xor (of_char a) (of_char b))) as bs"
| "ct_diff diff _ _ = diff"

definition decrypt_secrets :: "enclave_lib \<Rightarrow> encrypted_secrets \<Rightarrow> string + decrypted_api_keys" where
  "decrypt_secrets L secrets =
     (let expected_hash = public_key_hash L in
      if length (enclave_pubkey_hash secrets) \<noteq> length expected_hash
      then Inl ''FATAL ERROR: Enclave Spoofing Detected. Hash length mismatch.''
      else if ct_diff 0 (enclave_pubkey_hash secrets) expected_hash \<noteq> 0
      then Inl ''FATAL ERROR: Enclave Spoofing Detected. Hashes do not match.''
      else case rsa_decrypt L (es_blob secrets) of
        None \<Rightarrow> Inl ''Failed to decrypt secrets using enclave private key''
      | Some decrypted \<Rightarrow>
          if \<not> utf8 decrypted then Inl ''Invalid UTF-8 sequence in decrypted data''
          else case split_at (CHR '':'') decrypted of
            [k, s] \<Rightarrow> Inr \<lparr>api_key = k, api_secret = s\<rparr>
          | _ \<Rightarrow> Inl ''Invalid secret format. Expected 'API_KEY:API_SECRET' '')"

definition verify_on_chain_authorization :: "enclave_lib \<Rightarrow> bytes \<Rightarrow> bytes \<Rightarrow> bytes \<Rightarrow> string + unit" where
  "verify_on_chain_authorization L payload signature_bytes pubkey_bytes =
     (if length pubkey_bytes \<noteq> 32 then Inl ''Invalid public key length''
      else if \<not> ed_point L pubkey_bytes then Inl ''Invalid MultiversX public key''
      else if length signature_bytes \<noteq> 64 then Inl ''Invalid signature length''
      else if ed_verify L pubkey_bytes payload signature_bytes then Inr ()
      else Inl ''On-chain authorization verification failed. Unauthorized execution attempt.'')"

record stealth_keypair =
  private_key :: hash32
  public_key :: hash32
  viewing_key :: hash32

definition stealth_preimage :: "hash32 \<Rightarrow> hash32 \<Rightarrow> u64 \<Rightarrow> bytes" where
  "stealth_preimage enclave_seed user_public_key intent_nonce =
     bytes32 enclave_seed @ bytes32 user_public_key @ rev (u64_be intent_nonce)"

definition derive_ephemeral_stealth_key ::
  "enclave_lib \<Rightarrow> hash32 \<Rightarrow> hash32 \<Rightarrow> u64 \<Rightarrow> string + stealth_keypair" where
  "derive_ephemeral_stealth_key L enclave_seed user_public_key intent_nonce =
     (let seed = sha256 L (stealth_preimage enclave_seed user_public_key intent_nonce);
          public = ed_public L seed
      in Inr \<lparr>private_key = ed_secret_bytes L seed, public_key = public,
              viewing_key = sha256 L (bytes32 public)\<rparr>)"

section \<open>quantum\_shield.rs\<close>

definition verify_post_quantum_authorization :: "enclave_lib \<Rightarrow> bytes \<Rightarrow> bytes \<Rightarrow> bytes \<Rightarrow> string + unit" where
  "verify_post_quantum_authorization L payload signature_bytes pubkey_bytes =
     (if \<not> pq_key_format L pubkey_bytes then Inl ''Invalid Dilithium2 Public Key Format''
      else if \<not> pq_sig_format L signature_bytes then Inl ''Invalid Dilithium2 Signature Format''
      else if pq_verify L signature_bytes payload pubkey_bytes then Inr ()
      else Inl ''FATAL: Quantum Authorization Failed. FIPS-204 Signature Verification Invalid.'')"

section \<open>relayer.rs\<close>

datatype cex_network_status = CexOnline | CexMaintenance | CexSuspended

record cex_relayer =
  binance_api_url :: string
  network_status :: cex_network_status

definition cex_relayer_new :: cex_relayer where
  "cex_relayer_new = \<lparr>binance_api_url = ''https://api.binance.com'', network_status = CexOnline\<rparr>"

definition check_binance_health :: "cex_relayer \<Rightarrow> bool" where
  "check_binance_health r \<longleftrightarrow> network_status r = CexOnline"

text \<open>A call ends with a value, with an error, or in a panic.\<close>

datatype 'a run_result = Panicked | Failed string | Finished 'a

definition order_query :: "string \<Rightarrow> nat \<Rightarrow> nat \<Rightarrow> string" where
  "order_query asset amount timestamp =
     ''symbol='' @ filter (\<lambda>c. c \<noteq> CHR ''/'') asset @ ''&side=BUY&type=MARKET&quoteOrderQty='' @ dec amount @
     ''&timestamp='' @ dec timestamp"

fun place_orders ::
  "enclave_lib \<Rightarrow> cex_relayer \<Rightarrow> string \<Rightarrow> nat \<Rightarrow> nat \<Rightarrow> string list \<Rightarrow> string list \<Rightarrow> string list run_result" where
  "place_orders L r secret amount timestamp urls [] = Finished urls"
| "place_orders L r secret amount timestamp urls (asset # rest) =
     (let query_string = order_query asset amount timestamp in
      case hmac_sha256 L secret query_string of
        None \<Rightarrow> Failed ''Failed to create HMAC''
      | Some mac \<Rightarrow>
          place_orders L r secret amount timestamp
            (urls @ [binance_api_url r @ ''/api/v3/order?'' @ query_string @ ''&signature='' @ hex_encode L mac]) rest)"

definition execute_reverse_dca ::
  "enclave_lib \<Rightarrow> cex_relayer \<Rightarrow> encrypted_secrets \<Rightarrow> string list \<Rightarrow> string \<Rightarrow> nat \<Rightarrow> string list run_result" where
  "execute_reverse_dca L r encrypted_keys target_assets amount_atomic_str timestamp =
     (case parse_u128 amount_atomic_str of
        None \<Rightarrow> Failed ''Invalid amount string''
      | Some amount_atomic \<Rightarrow>
          (case decrypt_secrets L encrypted_keys of
             Inl e \<Rightarrow> Failed e
           | Inr keys \<Rightarrow>
               if target_assets = [] then Panicked
               else place_orders L r (api_secret keys) (unat amount_atomic div length target_assets)
                      timestamp [] target_assets))"

section \<open>main.rs\<close>

definition executed_order_of :: "enclave_lib \<Rightarrow> string \<Rightarrow> nat \<Rightarrow> order_intent \<Rightarrow> executed_order" where
  "executed_order_of L venue index od =
     (let amt = parse_or_zero (o_max_quote_amount_atomic od) in
      \<lparr>eo_intent_index = index, eo_asset = o_asset od, eo_side = o_side od,
       eo_requested_quote = o_max_quote_amount_atomic od,
       eo_executed_quote = o_max_quote_amount_atomic od,
       eo_executed_base = dec (unat amt div 50), eo_average_price = dec (50 * 1000000),
       eo_venue_order_id = ''sim_'' @ dec (unat (random_u32 L index)), eo_venue = venue\<rparr>)"

text \<open>The sum of the requested amounts; the release build wraps around.\<close>

definition total_amount :: "order_intent list \<Rightarrow> u128" where
  "total_amount orders = sum_list (map (\<lambda>od. parse_or_zero (o_max_quote_amount_atomic od)) orders)"

definition executed_orders :: "enclave_lib \<Rightarrow> execution_intent \<Rightarrow> executed_order list" where
  "executed_orders L x =
     map (\<lambda>(index, od). executed_order_of L (x_venue x) index od) (enumerate 0 (x_orders x))"

definition settlement_receipt :: "enclave_lib \<Rightarrow> nat \<Rightarrow> execution_intent \<Rightarrow> execution_receipt" where
  "settlement_receipt L secs x =
     \<lparr>r_batch_id = ''SIM_BATCH_001'', r_status = ''SUCCESS'', r_failure_context = None,
      r_orders = executed_orders L x,
      r_total_executed_quote = dec (unat (total_amount (x_orders x))), r_timestamp = of_nat secs,
      r_proof = \<lparr>executor_id = ''XSE_NODE_01'', attestation_hash = public_key_hash L,
        receipt_hash = hex_encode L (bytes32 (sha256 L (orders_json L (executed_orders L x))))\<rparr>,
      r_metadata = [''mode'' \<mapsto> x_mode x, ''client_ref'' \<mapsto> x_client_reference_id x]\<rparr>"

definition task_payload :: "execution_intent \<Rightarrow> bytes" where
  "task_payload x = ''execute_task_'' @ x_client_reference_id x"

definition raw_secret :: bytes where
  "raw_secret = ''VALID_BINANCE_API_KEY:VALID_BINANCE_API_SECRET''"

text \<open>
  How the program ends: it prints an error and returns, it aborts with an error or a panic, or it
  writes a receipt after the orders it prepared.
\<close>

datatype enclave_end = Rejected validation_error | Unauthorised string | Execution_failed string
  | Aborted string | Crashed | Settled "string list" execution_receipt

definition xse_main ::
  "enclave_lib \<Rightarrow> (string \<Rightarrow> int option) \<Rightarrow> int \<Rightarrow> nat \<Rightarrow> nat \<Rightarrow> execution_intent \<Rightarrow> enclave_end" where
  "xse_main L dt now millis secs x =
     (let payload_to_sign = task_payload x;
          signature = pq_sign L payload_to_sign
      in case validate_intent dt now x (Some signature) of
        Inl e \<Rightarrow> Rejected e
      | Inr _ \<Rightarrow>
      (case verify_post_quantum_authorization L payload_to_sign signature (pq_public L) of
        Inl e \<Rightarrow> Unauthorised e
      | Inr _ \<Rightarrow>
      (case rsa_encrypt L raw_secret of
        None \<Rightarrow> Crashed
      | Some encrypted_blob \<Rightarrow>
        let encrypted_payload = \<lparr>es_blob = encrypted_blob, enclave_pubkey_hash = public_key_hash L\<rparr>;
            target_assets = map o_asset (x_orders x);
            receipt = settlement_receipt L secs x
        in if x_mode x = ''dry_run'' then
             (case decrypt_secrets L encrypted_payload of
                Inl e \<Rightarrow> Aborted e
              | Inr _ \<Rightarrow> Settled [] receipt)
           else if target_assets = [] then Crashed
           else if check_binance_health cex_relayer_new then
             (case execute_reverse_dca L cex_relayer_new encrypted_payload target_assets
                     (dec (unat (total_amount (x_orders x)))) millis of
                Panicked \<Rightarrow> Crashed
              | Failed e \<Rightarrow> Execution_failed e
              | Finished urls \<Rightarrow> Settled urls receipt)
           else Settled [] receipt)))"

section \<open>The comparison in constant time\<close>

lemma or_eq_zero: "or a b = 0 \<longleftrightarrow> a = 0 \<and> b = (0 :: u8)"
  by (auto simp: bit_eq_iff bit_or_iff)

lemma xor_eq_zero: "xor a b = 0 \<longleftrightarrow> a = (b :: u8)"
  by (auto simp: bit_eq_iff bit_xor_iff)

lemma of_char_u8_inject: "of_char a = (of_char b :: u8) \<longleftrightarrow> a = b"
proof
  assume "of_char a = (of_char b :: u8)"
  then have "unat (of_nat (of_char a) :: u8) = unat (of_nat (of_char b) :: u8)"
    by (metis of_nat_of_char)
  moreover have "of_char a < (256 :: nat)" "of_char b < (256 :: nat)" by simp_all
  ultimately show "a = b" by (simp add: unsigned_of_nat take_bit_nat_eq_self)
qed simp

lemma ct_diff_zero:
  "length as = length bs \<Longrightarrow> ct_diff diff as bs = 0 \<longleftrightarrow> diff = 0 \<and> as = bs"
  by (induction diff as bs rule: ct_diff.induct) (auto simp: or_eq_zero xor_eq_zero of_char_u8_inject)

section \<open>Secrets\<close>

lemma two_parts:
  "(case ps of [k, s] \<Rightarrow> Inr (f k s) | _ \<Rightarrow> Inl e) = Inr r \<longleftrightarrow> (\<exists>k s. ps = [k, s] \<and> r = f k s)"
  by (auto split: list.splits)

text \<open>
  The enclave opens exactly the secrets sealed for it. Decryption yields keys if and only if
  the secrets name the hash of this enclave's key (the byte-wise comparison in constant time is
  equality), the blob decrypts to well-formed UTF-8 and the text is a key and a secret with
  exactly one colon between them; then these two are returned.
\<close>

theorem secrets_opened_exactly:
  "decrypt_secrets L z = Inr keys \<longleftrightarrow>
     enclave_pubkey_hash z = public_key_hash L \<and>
     (\<exists>k s. rsa_decrypt L (es_blob z) = Some (k @ CHR '':'' # s) \<and> utf8 (k @ CHR '':'' # s) \<and>
        CHR '':'' \<notin> set k \<and> CHR '':'' \<notin> set s \<and> keys = \<lparr>api_key = k, api_secret = s\<rparr>)"
proof (cases "enclave_pubkey_hash z = public_key_hash L")
  case True
  then have "ct_diff 0 (enclave_pubkey_hash z) (public_key_hash L) = 0" by (simp add: ct_diff_zero)
  with True show ?thesis
    by (auto simp: decrypt_secrets_def Let_def two_parts split_at_pair split: option.splits)
next
  case False
  then show ?thesis
    using ct_diff_zero [of "enclave_pubkey_hash z" "public_key_hash L" 0]
    by (auto simp: decrypt_secrets_def Let_def)
qed

section \<open>Stealth keys\<close>

lemma u64_be_inject: "u64_be a = u64_be b \<longleftrightarrow> a = b"
proof
  have num: "from_bytes_be (u64_be w) = unat w" for w :: u64
  proof -
    have "unat w < 2 ^ 64" by (rule order.strict_trans2 [OF unsigned_less]) simp
    then show ?thesis by (simp add: u64_be_def from_bytes_be_be_bytes)
  qed
  assume "u64_be a = u64_be b"
  then have "unat a = unat b" by (metis num)
  then show "a = b" by (simp add: word_unat_eq_iff)
qed simp

lemma stealth_preimage_inject:
  "stealth_preimage e u n = stealth_preimage e' u' n' \<longleftrightarrow> e = e' \<and> u = u' \<and> n = n'"
  by (auto simp: stealth_preimage_def u64_be_inject)

text \<open>
  Stealth keys are separated. Two derivations with the same private key come from the same
  enclave seed, the same user and the same nonce, or the two preimages are a collision of
  SHA-256. The library's \<open>to_bytes\<close> is documented to return the bytes the key was made from.
\<close>

theorem stealth_keys_separated:
  assumes "\<And>k. ed_secret_bytes L k = k"
    and "derive_ephemeral_stealth_key L e u n = Inr p" and "derive_ephemeral_stealth_key L e' u' n' = Inr q"
    and "private_key p = private_key q"
  shows "(e = e' \<and> u = u' \<and> n = n') \<or>
     (stealth_preimage e u n \<noteq> stealth_preimage e' u' n' \<and>
      sha256 L (stealth_preimage e u n) = sha256 L (stealth_preimage e' u' n'))"
  using assms by (auto simp: derive_ephemeral_stealth_key_def Let_def stealth_preimage_inject)

section \<open>Live orders\<close>

definition sealed_for :: "enclave_lib \<Rightarrow> bool" where
  "sealed_for L \<longleftrightarrow>
     (\<forall>m. \<exists>b. rsa_encrypt L m = Some b \<and> rsa_decrypt L b = Some m) \<and> (\<forall>k m. hmac_sha256 L k m \<noteq> None) \<and>
     (\<forall>m. pq_sign L m \<noteq> [] \<and> pq_sig_format L (pq_sign L m) \<and> pq_verify L (pq_sign L m) m (pq_public L)) \<and>
     pq_key_format L (pq_public L)"

definition order_url :: "enclave_lib \<Rightarrow> string \<Rightarrow> nat \<Rightarrow> nat \<Rightarrow> string \<Rightarrow> string" where
  "order_url L secret amount timestamp asset =
     ''https://api.binance.com/api/v3/order?'' @ order_query asset amount timestamp @ ''&signature='' @
     hex_encode L (the (hmac_sha256 L secret (order_query asset amount timestamp)))"

lemma place_orders_all:
  "\<forall>k m. hmac_sha256 L k m \<noteq> None \<Longrightarrow>
   place_orders L cex_relayer_new secret amount ts urls assets =
     Finished (urls @ map (order_url L secret amount ts) assets)"
proof (induction assets arbitrary: urls)
  case (Cons a assets)
  obtain mac where "hmac_sha256 L secret (order_query a amount ts) = Some mac" using Cons.prems by blast
  then show ?case using Cons by (simp add: order_url_def cex_relayer_new_def Let_def)
qed simp

lemma main_secrets_open:
  assumes "sealed_for L"
  obtains b where "rsa_encrypt L raw_secret = Some b"
    and "decrypt_secrets L \<lparr>es_blob = b, enclave_pubkey_hash = public_key_hash L\<rparr> =
      Inr \<lparr>api_key = ''VALID_BINANCE_API_KEY'', api_secret = ''VALID_BINANCE_API_SECRET''\<rparr>"
proof -
  obtain b where b: "rsa_encrypt L raw_secret = Some b" "rsa_decrypt L b = Some raw_secret"
    using assms by (metis sealed_for_def)
  have "utf8 raw_secret" by (rule utf8_ascii) (simp add: in_range_def raw_secret_def)
  moreover have "split_at (CHR '':'') raw_secret = [''VALID_BINANCE_API_KEY'', ''VALID_BINANCE_API_SECRET'']"
    by (simp add: split_at_pair raw_secret_def del: split_at.simps)
  ultimately have "decrypt_secrets L \<lparr>es_blob = b, enclave_pubkey_hash = public_key_hash L\<rparr> =
      Inr \<lparr>api_key = ''VALID_BINANCE_API_KEY'', api_secret = ''VALID_BINANCE_API_SECRET''\<rparr>"
    using b by (simp add: decrypt_secrets_def ct_diff_zero)
  with b(1) that show thesis by blast
qed

lemma executed_quotes: "map eo_executed_quote (executed_orders L x) = map o_max_quote_amount_atomic (x_orders x)"
proof -
  have "map eo_executed_quote (executed_orders L x) = map o_max_quote_amount_atomic (map snd (enumerate 0 (x_orders x)))"
    unfolding executed_orders_def map_map by (rule map_cong) (auto simp: executed_order_of_def Let_def)
  then show ?thesis by simp
qed

text \<open>
  The receipt does not say what was ordered. With libraries that behave as documented, a
  live run of an admissible intent with orders prepares one order per asset, every one of them a
  purchase of the same amount: the sum of all limits divided by the number of orders, whatever
  the side and the limit of the order are. The receipt nevertheless reports success with every
  order executed at its own limit.
\<close>

theorem live_run_splits_evenly:
  assumes "sealed_for L" and "admissible dt now x (Some (pq_sign L (task_payload x)))"
    and "x_mode x \<noteq> ''dry_run''" and "x_orders x \<noteq> []"
    and "q = unat (total_amount (x_orders x)) div length (x_orders x)"
  shows "\<exists>r. xse_main L dt now millis secs x =
      Settled (map (\<lambda>od. order_url L ''VALID_BINANCE_API_SECRET'' q millis (o_asset od)) (x_orders x)) r \<and>
    r_status r = ''SUCCESS'' \<and> map eo_executed_quote (r_orders r) = map o_max_quote_amount_atomic (x_orders x)"
proof -
  obtain b where b: "rsa_encrypt L raw_secret = Some b"
    "decrypt_secrets L \<lparr>es_blob = b, enclave_pubkey_hash = public_key_hash L\<rparr> =
      Inr \<lparr>api_key = ''VALID_BINANCE_API_KEY'', api_secret = ''VALID_BINANCE_API_SECRET''\<rparr>"
    using main_secrets_open [OF assms(1)] .
  have "unat (total_amount (x_orders x)) < 2 ^ 128" by (rule order.strict_trans2 [OF unsigned_less]) simp
  then have total: "parse_u128 (dec (unat (total_amount (x_orders x)))) = Some (total_amount (x_orders x))"
    by (simp add: parse_u128_dec)
  have valid: "validate_intent dt now x (Some (pq_sign L (task_payload x))) = Inr ()"
    using assms(2) validate_intent_ok by blast
  have auth: "verify_post_quantum_authorization L m (pq_sign L m) (pq_public L) = Inr ()" for m
    using assms(1) by (simp add: sealed_for_def verify_post_quantum_authorization_def)
  have placed: "execute_reverse_dca L cex_relayer_new \<lparr>es_blob = b, enclave_pubkey_hash = public_key_hash L\<rparr>
      (map o_asset (x_orders x)) (dec (unat (total_amount (x_orders x)))) millis =
    Finished (map (order_url L ''VALID_BINANCE_API_SECRET'' q millis) (map o_asset (x_orders x)))"
    using assms(1,4,5) b(2) by (simp add: execute_reverse_dca_def total place_orders_all sealed_for_def)
  have "check_binance_health cex_relayer_new" by (simp add: check_binance_health_def cex_relayer_new_def)
  then show ?thesis
    using assms(3,4) placed
    by (simp add: xse_main_def valid auth b(1) Let_def settlement_receipt_def executed_quotes comp_def)
qed

text \<open>A toy set of libraries that behaves as documented.\<close>

definition demo_lib :: enclave_lib where
  "demo_lib = \<lparr>sha256 = (\<lambda>b. of_nat (from_bytes_be b)), hex_encode = (\<lambda>b. b), rsa_modulus = [],
     rsa_encrypt = Some, rsa_decrypt = Some, hmac_sha256 = (\<lambda>k m. Some []), ed_point = (\<lambda>_. True),
     ed_verify = (\<lambda>_ _ _. True), ed_public = (\<lambda>k. k), ed_secret_bytes = (\<lambda>k. k), pq_public = ''k'',
     pq_sign = (\<lambda>m. CHR ''s'' # m), pq_key_format = (\<lambda>_. True), pq_sig_format = (\<lambda>_. True),
     pq_verify = (\<lambda>s m k. s = CHR ''s'' # m), orders_json = (\<lambda>_. []), random_u32 = (\<lambda>_. 0)\<rparr>"

definition demo_live :: execution_intent where
  "demo_live = (demo_exec_intent ''ETH'')\<lparr>x_mode := ''live'', x_orders :=
     [\<lparr>o_side = ''SELL'', o_asset = ''ETH'', o_max_quote_amount_atomic = ''100'', o_order_type = ''MARKET''\<rparr>,
      \<lparr>o_side = ''BUY'', o_asset = ''ETH'', o_max_quote_amount_atomic = ''300'', o_order_type = ''MARKET''\<rparr>]\<rparr>"

theorem stealth_keys_separated_witness:
  "\<exists>p q. derive_ephemeral_stealth_key demo_lib 1 2 3 = Inr p \<and>
     derive_ephemeral_stealth_key demo_lib 1 2 3 = Inr q \<and> private_key p = private_key q \<and>
     ((1 :: hash32) = 1 \<and> (2 :: hash32) = 2 \<and> (3 :: u64) = 3 \<or>
      sha256 demo_lib (stealth_preimage 1 2 3) = sha256 demo_lib (stealth_preimage 1 2 3))"
proof -
  define p where "p = projr (derive_ephemeral_stealth_key demo_lib 1 2 3)"
  have p: "derive_ephemeral_stealth_key demo_lib 1 2 3 = Inr p"
    by (simp add: p_def derive_ephemeral_stealth_key_def Let_def)
  have "ed_secret_bytes demo_lib k = k" for k by (simp add: demo_lib_def)
  from stealth_keys_separated [OF this p p] show ?thesis using p by blast
qed

lemma demo_live_ok:
  "admissible (\<lambda>_. Some 9) 5 demo_live (Some (pq_sign demo_lib (task_payload demo_live)))"
  "total_amount (x_orders demo_live) = 400" "sealed_for demo_lib"
proof -
  have "to_lower ''Binance'' = ''binance''" by code_simp
  moreover have p: "parse_u128 ''100'' = Some 100" "parse_u128 ''300'' = Some 300"
    by (simp_all add: parse_u128_def dec_value_def)
  ultimately show "admissible (\<lambda>_. Some 9) 5 demo_live (Some (pq_sign demo_lib (task_payload demo_live)))"
    by (simp add: admissible_def demo_live_def demo_exec_intent_def order_admissible_def supported_venues_def demo_lib_def)
  show "total_amount (x_orders demo_live) = 400" using p by (simp add: total_amount_def demo_live_def)
  show "sealed_for demo_lib" by (simp add: sealed_for_def demo_lib_def)
qed

theorem live_run_splits_evenly_witness:
  "\<exists>r. xse_main demo_lib (\<lambda>_. Some 9) 5 0 0 demo_live =
      Settled (map (\<lambda>od. order_url demo_lib ''VALID_BINANCE_API_SECRET'' 200 0 (o_asset od)) (x_orders demo_live)) r \<and>
    r_status r = ''SUCCESS'' \<and> map eo_executed_quote (r_orders r) = [''100'', ''300'']"
proof -
  have "200 = unat (total_amount (x_orders demo_live)) div length (x_orders demo_live)"
    by (simp add: demo_live_ok(2)) (simp add: demo_live_def numeral_2_eq_2 flip: numeral_2_eq_2)
  moreover have "x_mode demo_live \<noteq> ''dry_run''" "x_orders demo_live \<noteq> []"
    "map o_max_quote_amount_atomic (x_orders demo_live) = [''100'', ''300'']"
    by (simp_all add: demo_live_def)
  ultimately show ?thesis
    using live_run_splits_evenly [OF demo_live_ok(3,1), of 200 0 0] by metis
qed

end
