(* ===== verification/Keeper_Simulations.thy ===== *)
theory Keeper_Simulations
  imports Keeper_Bot Xse_Enclave
begin

text \<open>
  The parts of the two programs that simulate a deployment: the mode \<open>XseSim\<close> of the keeper
  (xcron-keeper-rs/src/main.rs), which runs the entropy mixer, the stealth keys of the enclave
  crate and the dispatcher for agents one after the other; the event engine of the mode
  \<open>EventKeeper\<close> (event_engine.rs); and the observer and the memory dump of the enclave service
  (xse-protocol/src/observer_listener.rs, red_team.rs), with the duel around it; and the
  demonstration of throughput (demo/mod.rs).
\<close>

section \<open>Throwaway wallets\<close>

text \<open>The seed is 32 random bytes; an encoder that fails is a panic, the value None.\<close>

definition generate_throwaway :: "wallet_lib \<Rightarrow> bytes \<Rightarrow> keeper_wallet option" where
  "generate_throwaway W seed =
     (let key = word32 seed
      in map_option (\<lambda>a. \<lparr>signing_key = key, bech32_address = a\<rparr>) (bech32_encode W (bytes32 (ed_public_of W key))))"

section \<open>The mode XseSim\<close>

text \<open>What the run draws, reads and hears: the gateway, the clocks, random bytes, the secret.\<close>

record sim_world =
  sim_gateway :: string
  sim_ask :: "string \<Rightarrow> gateway_reply"
  sim_start :: u128
  sim_readings :: "u128 list"
  sim_nanos :: u128
  sim_os_entropy :: bytes
  sim_seed :: bytes
  sim_env_secret :: "string option"
  sim_secret_file :: "string option"
  sim_task :: u32
  sim_aead_nonce :: bytes
  sim_uuid :: string
  sim_now :: u64

record sim_report =
  sr_seed :: hash32
  sr_identity :: string
  sr_stealth :: "string + string"
  sr_request :: agent_request
  sr_result :: "string + dispatch_receipt"

definition stealth_address :: "wallet_lib \<Rightarrow> hash32 \<Rightarrow> string" where
  "stealth_address W pub = (case bech32_encode W (bytes32 pub) of
     Some a \<Rightarrow> a | None \<Rightarrow> ''erd1stealth_address_error'')"

definition dca_order :: bytes where
  "dca_order = ''{'' @ [CHR 0x22] @ ''action'' @ [CHR 0x22] @ '':'' @ [CHR 0x22] @ ''execute_dca'' @ [CHR 0x22] @ '','' @
     [CHR 0x22] @ ''asset'' @ [CHR 0x22] @ '':'' @ [CHR 0x22] @ ''BTC'' @ [CHR 0x22] @ '','' @
     [CHR 0x22] @ ''amount'' @ [CHR 0x22] @ '':50000}''"

definition agent_task :: "u32 \<Rightarrow> execution_task" where
  "agent_task r = \<lparr>et_task_id = ''task_ai_'' @ dec (unat r), et_payload_bytes = dca_order,
     et_receiver = ''corporate_treasury_bot'', et_value = ''0'', et_gas_limit = 0\<rparr>"

text \<open>A panic of any part is the value None.\<close>

definition xse_sim ::
  "wallet_lib \<Rightarrow> tx_lib \<Rightarrow> agent_lib \<Rightarrow> enclave_lib \<Rightarrow> sim_world \<Rightarrow> sim_report option" where
  "xse_sim W L A E x =
     (case fetch_true_quantum_entropy (sha256 E) A (sim_ask x) [sim_gateway x] (sim_start x) (sim_readings x)
             (sim_nanos x) (sim_os_entropy x) of
        None \<Rightarrow> None
      | Some pq_seed \<Rightarrow>
          (case generate_throwaway W (sim_seed x) of
             None \<Rightarrow> None
           | Some wallet \<Rightarrow>
               let user_pubkey = ed_public_of W (signing_key wallet);
                   stealth = (case derive_ephemeral_stealth_key E pq_seed user_pubkey 1001 of
                      Inr keypair \<Rightarrow> Inr (stealth_address W (public_key keypair))
                    | Inl e \<Rightarrow> Inl e)
               in (case ai_new A (sim_env_secret x) (sim_secret_file x) ''https://api.corporate-ai.com/v1/webhook'' of
                     Inl _ \<Rightarrow> None
                   | Inr ai_dispatcher \<Rightarrow>
                       (case ai_dispatch A L ai_dispatcher (sim_aead_nonce x) (sim_uuid x) (sim_now x)
                               (agent_task (sim_task x)) wallet of
                          None \<Rightarrow> None
                        | Some (rq, r) \<Rightarrow>
                            Some \<lparr>sr_seed = pq_seed, sr_identity = bech32_address wallet, sr_stealth = stealth,
                              sr_request = rq, sr_result = r\<rparr>))))"

section \<open>The event engine\<close>

datatype internal_trigger_metadata =
    StateWatch u64 string string string u64
  | EventWatch u64 string string

text \<open>One round over the tasks: the line it prints for each of them, and nothing else.\<close>

fun watch_line :: "internal_trigger_metadata \<Rightarrow> string" where
  "watch_line (StateWatch task_id oracle_address query_endpoint cmp threshold) =
     '' [State-Driven] Verificando Task #'' @ dec (unat task_id) @ '' en contrato '' @ oracle_address @ ''...''"
| "watch_line (EventWatch task_id emitter_contract event_topic) =
     '' [Event-Driven] Escuchando logs '' @ [CHR 0x27] @ event_topic @ [CHR 0x27] @ '' para el contrato '' @
     emitter_contract @ '' (Task #'' @ dec (unat task_id) @ '')...''"

definition engine_round :: "internal_trigger_metadata list \<Rightarrow> string list" where
  "engine_round tasks = map watch_line tasks"

definition sample_tasks :: "cli \<Rightarrow> internal_trigger_metadata list" where
  "sample_tasks cl = [EventWatch 1 (target_contract cl) ''pauseProtocol'',
     StateWatch 2 xexchange_pair ''getReservesAndTotalSupply'' ''less_than'' 1000000]"

section \<open>The observer and the memory dump of the enclave\<close>

record sovereign_task_log =
  st_tx_hash :: string
  st_contract_address :: string
  st_caller :: string
  st_encrypted_payload_hex :: string
  st_timestamp :: u64

record observer_listener =
  observer_ws_endpoint :: string
  is_connected :: bool

definition observer_new :: "string \<Rightarrow> observer_listener" where
  "observer_new endpoint = \<lparr>observer_ws_endpoint = endpoint, is_connected = False\<rparr>"

text \<open>The task it starts sleeps forever, so the queue it was given stays as it is.\<close>

definition start_daemon_mode ::
  "sovereign_task_log list \<Rightarrow> observer_listener \<Rightarrow> (string + unit) \<times> sovereign_task_log list \<times> observer_listener" where
  "start_daemon_mode tx_queue ob = (Inr (), tx_queue, ob\<lparr>is_connected := True\<rparr>)"

definition broadcast_receipt :: "string \<Rightarrow> observer_listener \<Rightarrow> string + string" where
  "broadcast_receipt receipt_json ob = Inr ''BROADCAST_SUCCESS: Receipt included in transaction mempool.''"

fun all_zero :: "bytes \<Rightarrow> bool" where
  "all_zero [] = True"
| "all_zero (b # bs) = (if b \<noteq> CHR 0x00 then False else all_zero bs)"

definition simulate_hypervisor_ram_dump :: "stealth_keypair \<Rightarrow> bool" where
  "simulate_hypervisor_ram_dump keys =
     (let is_all_zero = all_zero (bytes32 (private_key keys)) in
      if is_all_zero then False else False)"

text \<open>
  The duel around the dump. Amounts are floating-point numbers; their sum and the test whether two
  of them differ by less than 0.0001 are parameters. The score that is printed does not depend on
  any of the three results.
\<close>

definition simulate_classic_pool_correlation :: "('f \<Rightarrow> 'f \<Rightarrow> bool) \<Rightarrow> 'f \<Rightarrow> 'f \<Rightarrow> u64 \<Rightarrow> bool" where
  "simulate_classic_pool_correlation close deposit swapped delay_seconds \<longleftrightarrow> close deposit swapped \<and> delay_seconds < 10"

definition simulate_stealth_pool_correlation ::
  "('f \<Rightarrow> 'f \<Rightarrow> bool) \<Rightarrow> ('f list \<Rightarrow> 'f) \<Rightarrow> 'f \<Rightarrow> 'f list \<Rightarrow> u64 \<Rightarrow> bool" where
  "simulate_stealth_pool_correlation close add_up deposit swap_parts delay_seconds =
     (let sum_swaps = add_up swap_parts in
      if 60 < delay_seconds \<and> 1 < length swap_parts then False else close deposit sum_swaps)"

record duel =
  du_linked_classic :: bool
  du_linked_stealth :: bool
  du_dumped :: bool
  du_verdict :: string

definition run_red_team_attacks ::
  "enclave_lib \<Rightarrow> ('f \<Rightarrow> 'f \<Rightarrow> bool) \<Rightarrow> ('f list \<Rightarrow> 'f) \<Rightarrow> (nat \<Rightarrow> 'f) \<Rightarrow> duel option" where
  "run_red_team_attacks E close add_up hundredths =
     (let enclave_seed = word32 (replicate 32 (CHR 0xAA));
          user_pubkey = word32 (replicate 32 (CHR 0x55));
          intent_nonce = 88004
      in case derive_ephemeral_stealth_key E enclave_seed user_pubkey intent_nonce of
           Inl _ \<Rightarrow> None
         | Inr stealth_key \<Rightarrow>
             Some \<lparr>du_linked_classic =
                 simulate_classic_pool_correlation close (hundredths 1000) (hundredths 1000) 1,
               du_linked_stealth = simulate_stealth_pool_correlation close add_up (hundredths 1000)
                 [hundredths 341, hundredths 459, hundredths 200] 120,
               du_dumped = simulate_hypervisor_ram_dump stealth_key,
               du_verdict = ''BLUE TEAM (DEFENDERS) WIN 2-0''\<rparr>)"

section \<open>The demonstration of throughput (demo/mod.rs)\<close>

definition WALLET_COUNT :: nat where "WALLET_COUNT = 500"
definition TXS_PER_WALLET :: nat where "TXS_PER_WALLET = 100"

record demo_wallet =
  dw_id :: nat
  dw_address :: string
  dw_current_nonce :: u64

definition new_demo_wallet :: "nat \<Rightarrow> demo_wallet" where
  "new_demo_wallet i = \<lparr>dw_id = i,
     dw_address = ''erd1demo_wallet_'' @ replicate (4 - length (dec i)) (CHR ''0'') @ dec i, dw_current_nonce = 0\<rparr>"

text \<open>The loop of one wallet: it counts, and sends nothing.\<close>

fun fire :: "nat \<Rightarrow> nat \<Rightarrow> demo_wallet \<Rightarrow> nat \<times> demo_wallet" where
  "fire 0 wallet_successes w = (wallet_successes, w)"
| "fire (Suc n) wallet_successes w =
     fire n (wallet_successes + 1) (w\<lparr>dw_current_nonce := dw_current_nonce w + 1\<rparr>)"

definition run_tps_demo :: nat where
  "run_tps_demo = sum_list (map (\<lambda>i. fst (fire TXS_PER_WALLET 0 (new_demo_wallet i))) [0..<WALLET_COUNT])"

section \<open>What they show\<close>

text \<open>
  The demonstration always counts fifty thousand transactions: the number it reports is the
  product of its two constants and does not depend on a network.
\<close>

lemma fst_fire: "fst (fire n k w) = k + n"
  by (induction n k w rule: fire.induct) auto

theorem tps_demo_counts: "run_tps_demo = WALLET_COUNT * TXS_PER_WALLET"
  by (simp add: run_tps_demo_def fst_fire sum_list_triv)

text \<open>
  The duel is decided before it starts: it reports a broken link and no dump, and the victory of
  the defenders, whatever the amounts, the arithmetic and the keys are; an order that is split and
  delayed counts as unlinked even when its parts sum up exactly.
\<close>

theorem duel_is_decided:
  "\<exists>d. run_red_team_attacks E close add_up h = Some d \<and> \<not> du_linked_stealth d \<and> \<not> du_dumped d \<and>
     du_verdict d = ''BLUE TEAM (DEFENDERS) WIN 2-0''"
  by (simp add: run_red_team_attacks_def derive_ephemeral_stealth_key_def simulate_stealth_pool_correlation_def
    simulate_hypervisor_ram_dump_def Let_def)

text \<open>
  Where nothing panics, a run of the simulation reports the success of a request that nobody
  received: the receipt says success and no gas. Its stealth address is the encoding of the
  public key of the hash of the mixed seed, the throwaway key and the nonce 1001, so two runs
  with the same stealth secret mixed the same seed for the same identity or met a collision.
\<close>

theorem xse_sim_reports_success:
  assumes "xse_sim W L A E x = Some r"
  shows "\<exists>key. map_option bech32_address (generate_throwaway W (sim_seed x)) = Some (sr_identity r) \<and>
     key = sha256 E (stealth_preimage (sr_seed r) (ed_public_of W (word32 (sim_seed x))) 1001) \<and>
     sr_stealth r = Inr (stealth_address W (ed_public E key)) \<and>
     (\<exists>receipt. sr_result r = Inr receipt \<and> dr_status receipt = ''success'' \<and> dr_gas_used receipt = None) \<and>
     ar_executor_id (sr_request r) = sr_identity r"
  using assms
  by (auto simp: xse_sim_def ai_dispatch_def derive_ephemeral_stealth_key_def generate_throwaway_def Let_def
    split: option.splits sum.splits if_splits)

text \<open>
  The memory dump never finds a key. With a key that is there, byte for byte, it reports the
  attack as defeated all the same, so the certificate printed after it holds of any program.
\<close>

theorem ram_dump_never_finds: "\<not> simulate_hypervisor_ram_dump keys"
  by (simp add: simulate_hypervisor_ram_dump_def)

text \<open>
  The observer reports a connection and a broadcast without either: it is connected after the
  daemon starts, the queue of tasks is the one it was given, and every receipt is reported as
  included.
\<close>

theorem observer_does_nothing:
  assumes "start_daemon_mode q (observer_new e) = (res, q', ob)"
  shows "res = Inr () \<and> q' = q \<and> is_connected ob \<and> (\<forall>receipt. \<not> isl (broadcast_receipt receipt ob))"
  using assms by (auto simp: start_daemon_mode_def observer_new_def broadcast_receipt_def)

end
