(* ===== verification/Stealth_Flow.thy ===== *)
theory Stealth_Flow
  imports Keeper_Network Keeper_Wallets Xse_Enclave
begin

text \<open>
  The program that runs a relayed transaction on the test network
  (xcron-keeper-rs/src/bin/stealth_testnet_test.rs). It loads the wallet that pays, derives a
  stealth key with the enclave crate, funds the stealth address when the network does not know it,
  and sends a transfer that the stealth key signs and the wallet sponsors. The answers of the
  network are arguments; printing and the delay are left out.
\<close>

section \<open>The program\<close>

record api_account =
  api_nonce :: u64
  api_balance :: string

text \<open>An answer about an account: none, or a status with what the body parses to.\<close>

datatype api_reply = ApiFailed | ApiReply nat "api_account option"

definition relayer_nonce_of :: "api_reply \<Rightarrow> u64" where
  "relayer_nonce_of reply = (case reply of
     ApiReply status (Some acc) \<Rightarrow> if status = 200 then api_nonce acc else 0
   | _ \<Rightarrow> 0)"

text \<open>Whether the stealth address counts as fresh, and its nonce.\<close>

definition stealth_account_of :: "api_reply \<Rightarrow> bool \<times> u64" where
  "stealth_account_of reply = (case reply of
     ApiReply status parsed \<Rightarrow>
       if status = 200 then
         (case parsed of
            Some acc \<Rightarrow> (api_nonce acc = 0 \<and> api_balance acc = ''0'', api_nonce acc)
          | None \<Rightarrow> (False, 0))
       else (True, 0)
   | ApiFailed \<Rightarrow> (True, 0))"

definition stealth_funding_tx :: "tx_lib \<Rightarrow> keeper_wallet \<Rightarrow> u64 \<Rightarrow> string \<Rightarrow> transaction" where
  "stealth_funding_tx L relayer_wallet relayer_nonce stealth_bech32 =
     sign L (signing_key relayer_wallet)
       (transaction_new L relayer_nonce ''50000000000000000'' stealth_bech32 (bech32_address relayer_wallet)
          1000000000 2000000 None ''T'' 1)"

definition stealth_inner_tx :: "tx_lib \<Rightarrow> keeper_wallet \<Rightarrow> u64 \<Rightarrow> string \<Rightarrow> hash32 \<Rightarrow> transaction" where
  "stealth_inner_tx L relayer_wallet stealth_nonce stealth_bech32 stealth_signing_key =
     (let gas_limit = 5000000;
          t = transaction_new L stealth_nonce ''1000000000000000'' (bech32_address relayer_wallet) stealth_bech32
                1000000000 gas_limit None ''T'' 2;
          t = t\<lparr>tx_options := None\<rparr>;
          t = t\<lparr>tx_relayer := Some (bech32_address relayer_wallet)\<rparr>
      in sign L stealth_signing_key t)"

definition stealth_relayed_tx :: "tx_lib \<Rightarrow> keeper_wallet \<Rightarrow> transaction \<Rightarrow> transaction" where
  "stealth_relayed_tx L relayer_wallet inner =
     to_relayed_v3 L (bech32_address relayer_wallet) (signing_key relayer_wallet) inner"

text \<open>
  How the program ends: it returns, with or without an error, or it panics, which a broadcast
  without nodes does. The transactions it sent are kept in their order.
\<close>

datatype flow_end = FlowDone | FlowError string | FlowPanic

definition mock_quantum_seed :: hash32 where
  "mock_quantum_seed = word32 (replicate 32 (CHR 0x09))"

definition send_relayed ::
  "tx_lib \<Rightarrow> (transaction \<Rightarrow> send_reply list) \<Rightarrow> keeper_wallet \<Rightarrow> u64 \<Rightarrow> string \<Rightarrow> hash32 \<Rightarrow>
     transaction list \<Rightarrow> transaction list \<times> flow_end" where
  "send_relayed L send relayer_wallet stealth_nonce stealth_bech32 stealth_key already =
     (let relayed = stealth_relayed_tx L relayer_wallet
            (stealth_inner_tx L relayer_wallet stealth_nonce stealth_bech32 stealth_key)
      in (already @ [relayed], case broadcast_tx (send relayed) of None \<Rightarrow> FlowPanic | Some _ \<Rightarrow> FlowDone))"

definition stealth_flow ::
  "wallet_lib \<Rightarrow> tx_lib \<Rightarrow> enclave_lib \<Rightarrow> string option \<Rightarrow> (string \<Rightarrow> api_reply) \<Rightarrow> (transaction \<Rightarrow> send_reply list) \<Rightarrow>
     transaction list \<times> flow_end" where
  "stealth_flow W L E pem ask send =
     (case Option.bind pem (\<lambda>content. case load_pem W content of Inl _ \<Rightarrow> None | Inr w \<Rightarrow> Some w) of
        None \<Rightarrow> ([], FlowDone)
      | Some relayer_wallet \<Rightarrow>
          (let user_pubkey = ed_public_of W (signing_key relayer_wallet) in
           case derive_ephemeral_stealth_key E mock_quantum_seed user_pubkey 101 of
             Inl e \<Rightarrow> ([], FlowError e)
           | Inr keypair \<Rightarrow>
               (case bech32_encode W (bytes32 (public_key keypair)) of
                  None \<Rightarrow> ([], FlowError ''bech32'')
                | Some stealth_bech32 \<Rightarrow>
                    let relayer_nonce = relayer_nonce_of (ask (bech32_address relayer_wallet));
                        (is_stealth_fresh, stealth_nonce) = stealth_account_of (ask stealth_bech32);
                        finish = send_relayed L send relayer_wallet stealth_nonce stealth_bech32 (private_key keypair)
                    in if is_stealth_fresh then
                         let funding = stealth_funding_tx L relayer_wallet relayer_nonce stealth_bech32
                         in (case broadcast_tx (send funding) of
                               None \<Rightarrow> ([funding], FlowPanic)
                             | Some _ \<Rightarrow> finish [funding])
                       else finish [])))"

section \<open>What it sends\<close>

text \<open>
  The relayed transaction is the last one, when the program gets that far. It goes from the
  stealth address to the wallet that pays, names that wallet as relayer, and both signatures are
  made over the text of the transaction that is sent. Before it, at most one transfer to the
  stealth address is sent, of fifty times the amount.
\<close>

theorem stealth_flow_sends:
  assumes "stealth_flow W L E (Some content) ask send = (txs, end)" and "load_pem W content = Inr w"
    and "derive_ephemeral_stealth_key E mock_quantum_seed (ed_public_of W (signing_key w)) 101 = Inr k"
    and "bech32_encode W (bytes32 (public_key k)) = Some addr"
  shows "(\<forall>t\<in>set txs. t = stealth_funding_tx L w (relayer_nonce_of (ask (bech32_address w))) addr \<or>
      (tx_sender t = addr \<and> tx_receiver t = bech32_address w \<and> tx_relayer t = Some (bech32_address w) \<and>
       tx_signature t = Some (tx_hex_encode L (ed_sign L (private_key k) (serialize_for_signing t))) \<and>
       tx_relayer_signature t = Some (tx_hex_encode L (ed_sign L (signing_key w) (serialize_for_signing t))))) \<and>
    length txs \<le> 2 \<and> (end = FlowDone \<longrightarrow> txs \<noteq> [] \<and> tx_sender (last txs) = addr)"
proof -
  define r where "r = stealth_relayed_tx L w (stealth_inner_tx L w (snd (stealth_account_of (ask addr))) addr (private_key k))"
  have shape: "tx_sender r = addr \<and> tx_receiver r = bech32_address w \<and> tx_relayer r = Some (bech32_address w)"
    by (simp add: r_def stealth_relayed_tx_def stealth_inner_tx_def to_relayed_v3_def sign_def Let_def
        transaction_new_def)
  have signed: "tx_signature r = Some (tx_hex_encode L (ed_sign L (private_key k) (serialize_for_signing r)))"
    "tx_relayer_signature r = Some (tx_hex_encode L (ed_sign L (signing_key w) (serialize_for_signing r)))"
    by (simp_all add: r_def stealth_relayed_tx_def stealth_inner_tx_def to_relayed_v3_def sign_def Let_def
        serialize_for_relayer_signing_def)
  have "txs \<in> {[r], [stealth_funding_tx L w (relayer_nonce_of (ask (bech32_address w))) addr],
      [stealth_funding_tx L w (relayer_nonce_of (ask (bech32_address w))) addr, r]}"
    and "end = FlowDone \<Longrightarrow> last txs = r \<and> txs \<noteq> []"
    using assms(1)
    by (auto simp: stealth_flow_def assms(2-4) send_relayed_def Let_def r_def split: prod.splits if_splits option.splits)
  then show ?thesis using shape signed by auto
qed

text \<open>
  An answer that does not arrive makes the address fresh: the wallet pays the funding again, and
  the transfer carries nonce zero, whatever the account's nonce is.
\<close>

lemma silence_funds_again:
  assumes "stealth_flow W L E (Some content) ask send = (txs, end)" and "load_pem W content = Inr w"
    and "derive_ephemeral_stealth_key E mock_quantum_seed (ed_public_of W (signing_key w)) 101 = Inr k"
    and "bech32_encode W (bytes32 (public_key k)) = Some addr" and "ask addr = ApiFailed"
  shows "hd txs = stealth_funding_tx L w (relayer_nonce_of (ask (bech32_address w))) addr \<and>
    (\<forall>t\<in>set (tl txs). tx_nonce t = 0)"
  using assms(1)
  by (auto simp: stealth_flow_def assms(2-5) send_relayed_def stealth_account_of_def Let_def
    stealth_relayed_tx_def stealth_inner_tx_def to_relayed_v3_def sign_def transaction_new_def split: option.splits)

end
