(* ===== verification/Spec2Isabelle.thy ===== *)
theory Spec2Isabelle
  imports Scheduler_Limits Intent_Properties Staked_Registry Rewards Xwap_Properties
    Vault_Properties Zk_Verifier Hft_Vault Agent_Shield Agent_Composition Agent_Interactors
    Commit_Reveal Linked_Scheduler Scheduled_Registry Scheduled_Vault Target_Contracts Bot_Arbitrage
    Keeper_Sessions Keeper_Observers Keeper_Simulations Stealth_Flow
begin

text \<open>
  The XCron protocol automates smart-contract calls on MultiversX. Users deposit EGLD for a task
  at the \<^emph>\<open>Scheduler\<close>; whitelisted keepers execute it when its trigger holds and are paid
  from the deposit; failures are reported to the \<^emph>\<open>KeeperRegistry\<close>, where keepers stake and are
  slashed; protocol fees accrue at the Scheduler and are flushed to the \<^emph>\<open>Rewards\<close> contract;
  tasks may ask the \<^emph>\<open>XWAP\<close> oracle whether the market is safe, and tasks kept off chain are
  proved against a root at the \<^emph>\<open>XSC\<close> contract. Confidential tasks are settled against the
  \<^emph>\<open>ZkVerifier\<close>. Beside the Scheduler stand two pools of capital, the \<^emph>\<open>Vault\<close> and the \<^emph>\<open>HftVault\<close>,
  and the \<^emph>\<open>agent shield\<close>, a suite of five contracts for autonomous agents. Off chain there are the
  \<^emph>\<open>keeper program\<close>, which signs and sends transactions, funds stealth addresses and watches the
  mempool, and the \<^emph>\<open>enclave service\<close>, which validates trading intents and places orders. This
  development models all of these contracts and the deciding parts of both programs, from the
  Rust sources under src/.

  \<^bold>\<open>Shared theories.\<close>
  \<^item> \<open>Prelude\<close>: machine integers, byte strings, the result type of an endpoint (an error rolls the
    transaction back) with its combinators, sums over storage maps, the unordered-set mapper,
    basis points, and runs of a transition system. Interfaces: \<open>share\<close> (a share of an amount),
    \<open>uset\<close> (the set mapper), \<open>invariant_system\<close> (an invariant kept by every admissible call),
    each interpreted on the definitions the contracts use.
  \<^item> \<open>Runtime\<close>: the account of a contract, the transaction it is called with, payments and their
    checks, and the circuit breaker of contracts/common/src/pausable.rs.
  \<^item> \<open>Async\<close>: a contract with asynchronous calls. A registered promise waits in the state, the
    result of the called contract is an input, and the delivery of the callback is a turn of its
    own; \<open>run_turn\<close> and \<open>run_calls\<close> execute histories.
  \<^item> \<open>Common_Types\<close>: contracts/common/src/types.rs and constants.rs.

  \<^bold>\<open>Scheduler\<close> (contracts/scheduler/src). \<open>Scheduler_State\<close> has storage.rs as one record, lib.rs,
  events.rs, helpers.rs and validation.rs; \<open>Scheduler_Clone_Keys\<close>, \<open>Scheduler_Scheduling\<close>,
  \<open>Scheduler_Execution\<close>, \<open>Scheduler_Config\<close> (config.rs, admin.rs, views.rs) and
  \<open>Scheduler_Intents\<close> have one definition per endpoint with its guards in the order of the code.
  A registered promise is an entry of the state, and the delivery of its result is a step of its
  own, so every interleaving of other calls between a call and its callback is covered.
  \<open>Scheduler_System\<close> collects the endpoints in one step relation and states the invariants: the
  books of tasks, the clone keys, and that the contract holds what it owes; \<open>Scheduler_Invariants\<close>
  proves that every endpoint keeps them. \<open>Scheduler_Properties\<close> draws the consequences: solvency,
  callbacks that never fail, exact settlement, no second payout, exact refunds, no wrap-around for
  validated tasks. \<open>Scheduler_Guards\<close> shows what an execution requires, the exclusivity of the
  round-robin slot, the clone-key round trip, the pause and the owner's rights.
  \<open>Intent_Properties\<close> treats intents and Merkle proofs. \<open>Scheduler_Limits\<close> proves limits of the
  code: unfunded compressed tasks, a re-entering oracle, the hole in the keeper list, and
  unlimited sovereign tasks. \<open>Commit_Reveal\<close> has the archived anti-MEV module: bonds are held and
  returned exactly, reveal and slash exclude each other, and a reveal gives no claim.

  \<^bold>\<open>The specification of the Scheduler.\<close> \<open>Task_Ledger\<close> states what the Scheduler promises about
  deposits without any of its machinery: a ledger of open entries and collected fees, with a step
  relation of six events (an entry is opened, begun, settled or withdrawn, fees are flushed,
  nothing happens). The locale \<open>simulation\<close> says what it means that a system with an invariant
  follows a ledger and transfers facts about ledger histories to it. \<open>Scheduler_Refinement\<close>
  interprets it on the Scheduler: \<open>ledger_of\<close> is the abstraction, \<open>event_of\<close> the event of a call,
  and every admissible history is a ledger history with the same payments. The totals of the
  ledger become totals of the contract. \<open>Scheduled_Vault\<close> interprets the same locale on the system
  of the Scheduler and a vault.

  \<^bold>\<open>Merkle proofs.\<close> \<open>Merkle\<close> has the proof loop of the Scheduler and the theory of sorted-pair
  trees behind an interface \<open>proof_node\<close>; \<open>Xsc_Core\<close> (contracts/xsc-core) verifies packed proofs
  on byte buffers and is shown to agree; \<open>Pcit\<close> (xcron-keeper-rs/src/pcit.rs) is the keeper's
  engine. The hash function is a parameter everywhere, and security statements produce an
  explicit collision instead of assuming that there is none.

  \<^bold>\<open>Keepers, fees, oracle.\<close> \<open>Keeper_Registry\<close> and \<open>Keeper_Registry_Properties\<close>
  (contracts/keeper-registry): stakes are covered, slashing is bounded. \<open>Staked_Registry\<close> runs the
  registry with its staking provider: what is delegated stays covered by what the provider owes, and
  a keeper can withdraw after its cooldown as soon as the registry holds its stake.
  \<open>Rewards\<close> (contracts/rewards): the books balance. \<open>Xwap\<close> and \<open>Xwap_Properties\<close> (contracts/xwap): reports of
  keepers, the moving average and the circuit breaker of the market.

  \<^bold>\<open>Capital.\<close> \<open>Vault\<close> and \<open>Vault_Properties\<close> (contracts/vault): shares, withdrawals, swaps through
  pools that are parameters, callbacks that credit or restore; the locale \<open>reserve_op\<close> says once
  what an operation does to the reserve. \<open>Zk_Verifier\<close> (contracts/zk-verifier): submission and
  verification of proofs; a verified proof is final. \<open>Hft_Vault\<close> (contracts/hft-vault): the flash
  arbitrage either gains or fails as a whole. \<open>Target_Contracts\<close> (contracts/ping, test-nft,
  test-dex): the contracts that tasks and strategies call, with the locale \<open>paid_counter\<close> for the
  two that take money, and what arrives there from a strategy of the vault.

  \<^bold>\<open>Agent shield\<close> (contracts/xcron-agent-shield). \<open>Agent_Types\<close> has the shared structures, the
  payment helpers, and the two-way mapper of the framework behind the locale \<open>bidi_mapper\<close>: its
  insertion is a parameter with the documented contract \<open>bidi_documented\<close>. \<open>Agent_Shield\<close> is the
  escrow with its daily limits, \<open>Identity_Registry\<close> and \<open>Identity_Properties\<close> the agents and their
  owners (locale \<open>documented_identity\<close>), \<open>Validation_Registry\<close> and \<open>Validation_Properties\<close> the jobs
  and their validators, \<open>Reputation_Registry\<close> the feedback, \<open>Agent_Marketplace\<close> the sale of
  agents. \<open>Agent_Composition\<close> joins the registries: what one contract believes of another.
  Around them stand the ways in. \<open>Agent_Calls\<close> has the endpoints as they decode a call: a name and
  encoded arguments, read one after the other with the types of the signature; encoding single
  values is code of the framework, the parameter \<open>codec\<close>, with \<open>codec_documented\<close> as what is
  relied on and an instance in \<open>Agent_Codec\<close>. \<open>Agent_Proxies\<close> (proxies/src) has every method of the
  four proxies, and \<open>Proxy_Properties\<close> the locale \<open>contract_proxy\<close> with an instance per registry:
  histories of calls through a proxy are histories of the operations, apart from the calls whose
  lists the identity proxy sends in another encoding than the contract reads. \<open>Agent_Interactors\<close>
  (interactor/src of each registry) has the command line tools, with the locale \<open>command_table\<close> and
  the state file across runs.

  \<^bold>\<open>Keeper program\<close> (xcron-keeper-rs/src). \<open>Rust_Text\<close> has what both programs use of the standard
  library on text. \<open>Keeper_Transactions\<close> (transaction.rs and two builders of main.rs): the signed
  text determines the transaction, serialised tasks are unambiguous, relayed transactions.
  \<open>Keeper_Funding\<close> (drip\_funder.rs): the daily cap over any period for the transactions whose
  broadcast is acknowledged, and that one with a lost answer is not counted. \<open>Keeper_Sessions\<close>
  (session\_db.rs): limits, under any interleaving of other tasks with the pieces of a pass over the
  retry queue, the end of that queue, and the two locks as a step relation over any number of
  threads. \<open>Keeper_Network\<close> (network.rs, dispatcher.rs): the agreement on a nonce and
  the receipts. \<open>Keeper_Dispatch\<close> (the rest of both files, quantum\_shield.rs): batches, the status
  of a transaction, requests to agents and what their signature binds, the entropy mixer.
  \<open>Keeper_Snipers\<close> (mempool\_sniper.rs, ws\_sniper.rs): the rolling memory and the filters;
  \<open>Keeper_Observers\<close> the polls around them, and sniffer.rs, tui.rs, cex\_relayer.rs.
  \<open>Keeper_Bot\<close> (main.rs): options, wallets, pacing, the request of each of the thirty modes, and a
  worker as a step relation against the account it sends from and the network, which holds
  transactions with future nonces until the gap is closed: a worker of one of the regular modes
  agrees with the network again after any loss. \<open>Keeper_Simulations\<close> (the mode \<open>XseSim\<close>,
  event\_engine.rs, demo/mod.rs, and two files of the enclave service): parts that only simulate.
  \<open>Stealth_Flow\<close> (bin/stealth\_testnet\_test.rs): a relayed transfer from a stealth address, with
  both signatures over the text that is sent.
  \<open>Keeper_Wallets\<close> (wallet.rs): keys and addresses; the search for an address in another
  shard may run forever and is a partial function, with the exact condition under which it ends.

  \<^bold>\<open>Enclave service\<close> (xse-protocol/src). \<open>Xse_Validator\<close> (schema.rs, validator.rs): admission of
  intents and batches against one predicate. \<open>Xse_Enclave\<close> (crypto.rs, quantum\_shield.rs,
  relayer.rs, main.rs): secrets, stealth keys, the orders and the receipt of a run.

  \<^bold>\<open>Composition.\<close> This theory joins the Scheduler with the Rewards contract (\<open>flushed_fees_arrive\<close>)
  and with the verifier (\<open>xse_settlement_impossible\<close>). \<open>Scheduled_Vault\<close> joins the Scheduler with
  a vault in one transition system whose calls, oracle queries, deliveries and answers interleave
  freely: a strategy of the vault runs only for a task with a deposit, by its delivery or by the query
  of its oracle. \<open>Scheduled_Registry\<close> follows the report of a failed
  task from the Scheduler to the keeper registry, for the case that the network runs the endpoint,
  which comments in the Scheduler deny for calls from a callback. \<open>Linked_Scheduler\<close> puts the oracle and the
  state-compression contract of the repository behind the queries of the Scheduler: what holds of
  the market when a gated task runs, and of the tree when a compressed task runs. \<open>Bot_Arbitrage\<close> joins the bot with the \<open>HftVault\<close>:
  the bytes the bot sends are decoded the way the virtual machine does, and what the contract
  then does keeps the promise of the constants in the bot. \<open>Keeper_Simulations\<close> joins the keeper's
  entropy and dispatcher with the stealth keys of the enclave.

  \<^bold>\<open>Modelling.\<close> Unsigned integers keep their width and wrap around, because the contracts are built
  without overflow checks; a \<open>BigUint\<close> is a natural number whose subtraction fails below zero.
  A numeric or boolean storage slot is empty exactly when it is zero or false; reading an empty
  slot of an address or a structure is an error. Payment annotations are explicit checks.
  Transfers, calls without callback and events are recorded in the outbox in their order. Code
  outside the repository is a parameter: the hash function, the codec, shards, the contracts
  that are called synchronously (on the whole state, so that they may re-enter), the staking
  provider, exchange pools, the issue of tokens, the check of a token identifier and the clock in
  milliseconds. The hypothesis \<open>sync_pure\<close> says that queried contracts do not re-enter;
  \<open>Scheduler_Limits\<close> shows what happens without it. The hypothesis \<open>ok_call\<close> leaves out compressed
  tasks, whose deposit nobody paid, and payments in tokens with a nonce. Whether the framework lets
  an endpoint read its EGLD beside tokens is the parameter \<open>egld_beside_tokens\<close> of a call; without it
  the three endpoints that open intents fail. The two programs are built
  in release mode, so their integers wrap around as well; cryptography, JSON, Base64, hexadecimal
  and Bech32 libraries, dates, random numbers and the answers of the network are arguments, and a
  panic is a value of its own. There is no fuel: every loop is structural, has a measure, or is a
  partial function whose results are characterised.

  \<^bold>\<open>Not modelled.\<close> Receivers that refuse a payment: every transfer that the balance covers arrives.
  Gas metering other than the explicit check of the dispatch; the wasm and
  meta crates, which hold no logic of their own; the copies of three proxies in the interactors,
  which are the same files; of the keeper program the wiring of its tasks and channels, its two
  listening sockets and the drawing of its terminal; printed lines, delays and rates everywhere.
\<close>

section \<open>Fees from the Scheduler to the Rewards contract\<close>

text \<open>
  The Scheduler sends its accrued fees with a call to \<open>receiveExecutionFee\<close>. The network
  delivers the call as a transaction of the Rewards contract: the caller is the Scheduler, the
  value is the EGLD that left it, and the arguments are the ones that were sent. Any other
  message is not for that endpoint.
\<close>

definition deliver_fee :: "address \<Rightarrow> ctx \<Rightarrow> effect \<Rightarrow> rewards \<Rightarrow> rewards res" where
  "deliver_fee scheduler c msg w = (case msg of
     TransferExecute to f [AAddr keeper, AU64 task_id] x g \<Rightarrow>
       if f = ''receiveExecutionFee'' then
         receive_execution_fee (c\<lparr>caller := scheduler, egld_value := x, esdt_transfers := []\<rparr>)
           keeper task_id w
       else Inl (VmError ''invalid function (not found)'')
   | _ \<Rightarrow> Inl (VmError ''invalid function (not found)''))"


text \<open>The small deployment after its task was executed, and a Rewards contract that knows it.\<close>

lemma demo_earned:
  "\<exists>t. run (sched_step demo_env) (demo_state\<lparr>whitelisted_keepers := [], keeper_list := []\<rparr>)
       (demo_calls @ [(demo_ctx 50 0, Tasks (ExecutionCallback 0 True))]) t \<and>
     accrued_protocol_fees t = 10 \<and> whitelisted_keepers t = [50] \<and> rewards_addr t = Some 2"
proof -
  have "\<exists>t. execution_callback 0 300 50 True (demo_running\<lparr>promises := []\<rparr>) = Inr t \<and>
      accrued_protocol_fees t = 10 \<and> whitelisted_keepers t = [50] \<and> rewards_addr t = Some 2"
    by (simp add: execution_callback_def finalize_successful_execution_def Let_def
        calculate_reward_def demo_running_def demo_scheduled_def demo_defs bps_of_def direct_egld_def
        forward_protocol_fee_def forward_keeper_result_def transfer_execute_def sched_event_defs
        constant_defs)
  then obtain t where t: "execution_callback 0 300 50 True (demo_running\<lparr>promises := []\<rparr>) = Inr t"
    "accrued_protocol_fees t = 10" "whitelisted_keepers t = [50]" "rewards_addr t = Some 2" by blast
  obtain p where p: "promises demo_running = [p]" "ep_task_hash p = 0" "ep_target_contract p = 300"
    "ep_keeper p = 50" by (simp add: demo_running_def)
  have "deliver_callback 0 True demo_running = Inr t"
    using t(1) by (simp add: deliver_callback_def p Let_def)
  then have "run (sched_step demo_env) demo_running [(demo_ctx 50 0, Tasks (ExecutionCallback 0 True))] t"
    by (auto intro!: run.intros sched_step.intros)
  from run_append [OF demo_run this] show ?thesis using t(2-4) by blast
qed

definition demo_linked :: rewards where
  "demo_linked = (rewards_init 1 2000)\<lparr>authorized_schedulers := [200]\<rparr>"

lemma demo_linked_run:
  "run rewards_step (rewards_init 1 2000) [(fee_ctx 100 0, AddAuthorizedScheduler 200)] demo_linked"
proof -
  have "add_authorized_scheduler (fee_ctx 100 0) 200 (rewards_init 1 2000) = Inr demo_linked"
    by (simp add: add_authorized_scheduler_def rw_owner_set_def not_payable_def only_owner_def
        fee_ctx_def rewards_init_def demo_linked_def us_insert_def)
  then show ?thesis by (auto intro!: run.intros rewards_step.intros)
qed


section \<open>The Scheduler and the verifier of the repository\<close>

text \<open>
  The environment of a Scheduler whose verifier address is the contract of the repository: a call
  to that address runs the endpoint of that name, on some state of the verifier.
\<close>

definition verifier_at :: "address \<Rightarrow> (bytes \<Rightarrow> hash32) \<Rightarrow> (answer \<Rightarrow> bytes) \<Rightarrow> ctx \<Rightarrow> zk_verifier \<Rightarrow> sched_env \<Rightarrow> bool" where
  "verifier_at zk sha enc cz z e \<longleftrightarrow> (\<forall>f as s. sync_call e zk f as s =
     bind_res (zk_dispatch sha enc cz f as z) (\<lambda>(raw, _). Inr (raw, s)))"

text \<open>
  With the verifier of the repository, no confidential task is ever settled. The Scheduler
  asks its verifier for \<open>verifyZkProof\<close>, an endpoint that contract does not have. Once the verifier
  address is set to it, every settlement fails, for every state of both contracts, every keeper,
  task and proof; the keeper of a confidential task is never paid.
\<close>

theorem xse_settlement_impossible:
  assumes "verifier_at zk sha enc cz z e" and "zk_verifier_addr s = Some zk" and "zk \<noteq> 0"
  shows "settle_xse_task e c h prf' s \<noteq> Inr t"
  using assms
  by (auto simp: verifier_at_def settle_xse_task_def zk_dispatch_def res_simps Let_def)

definition linked_env :: "zk_verifier \<Rightarrow> sched_env" where
  "linked_env z = demo_env\<lparr>sync_call := (\<lambda>a f as s. bind_res
     (zk_dispatch toy_sha (\<lambda>_. []) (call_ctx 4 0 []) f as z) (\<lambda>(raw, _). Inr (raw, s)))\<rparr>"

theorem xse_settlement_impossible_witness:
  "\<exists>z t. zk_init 3 = Inr z \<and> zk_verifier_addr t = Some 77 \<and>
     (\<forall>u. settle_xse_task (linked_env z) (demo_ctx 50 0) 0 ''proof'' t \<noteq> Inr u)"
proof -
  obtain z where z: "zk_init 3 = Inr z" by (simp add: demo_zk_init)
  define t where "t = demo_running\<lparr>zk_verifier_addr := Some 77\<rparr>"
  have "zk_verifier_addr t = Some 77" by (simp add: t_def)
  moreover have "verifier_at 77 toy_sha (\<lambda>_. []) (call_ctx 4 0 []) z (linked_env z)"
    by (simp add: verifier_at_def linked_env_def)
  ultimately have "settle_xse_task (linked_env z) (demo_ctx 50 0) 0 ''proof'' t \<noteq> Inr u" for u
    using xse_settlement_impossible [of 77] by auto
  then show ?thesis using z \<open>zk_verifier_addr t = Some 77\<close> by blast
qed

end
